(* ===== verification/Prelude.thy ===== *)
theory Prelude
  imports
    Complex_Main
    "HOL-Library.Word"
    "HOL-Library.AList"
    "HOL-Library.Char_ord"
    "HOL-Library.List_Lexorder"
    "HOL-Library.Multiset"
begin

text \<open>
  What the components of the development share: Go's 64-bit integers with their
  wrap-around, times and durations, errors as values, the functions of the packages
  \<^verbatim>\<open>strings\<close> and \<^verbatim>\<open>strconv\<close> that the program calls, Go maps as association
  lists, the listing pattern of the stores (filter, sort, cut at a limit), and the
  interface locales that are instantiated by several components.
\<close>

named_theorems num_simps \<open>arithmetic on 64-bit integers and durations\<close>
named_theorems str_simps \<open>rewriting of the string functions\<close>
named_theorems map_simps \<open>lookup after an update of a Go map\<close>


section \<open>Integers, times, durations\<close>

text \<open>
  A Go \<^verbatim>\<open>int\<close>, \<^verbatim>\<open>int64\<close> or \<^verbatim>\<open>time.Duration\<close> is an \<open>int\<close>; arithmetic that can leave the
  64-bit range goes through \<open>wrap64\<close>. A \<^verbatim>\<open>time.Time\<close> is the number of nanoseconds since
  Go's zero time, so that \<^verbatim>\<open>IsZero\<close> is the comparison with 0.
\<close>

type_synonym time = int
type_synonym dur = int

definition wrap64 :: "int \<Rightarrow> int" where
  "wrap64 x = (x + 2 ^ 63) mod 2 ^ 64 - 2 ^ 63"

definition int64 :: "int \<Rightarrow> bool" where
  "int64 x \<longleftrightarrow> - (2 ^ 63) \<le> x \<and> x < 2 ^ 63"

lemma wrap64_id [num_simps]: "int64 x \<Longrightarrow> wrap64 x = x"
  by (auto simp: wrap64_def int64_def)

lemma wrap64_range: "int64 (wrap64 x)"
  by (auto simp: wrap64_def int64_def)

abbreviation Second :: dur where "Second \<equiv> 1000000000"
abbreviation Minute :: dur where "Minute \<equiv> 60000000000"

definition seconds :: "int \<Rightarrow> dur" where
  "seconds n = wrap64 (n * Second)"

lemma seconds_exact [num_simps]: "0 \<le> n \<Longrightarrow> n \<le> 9223372036 \<Longrightarrow> seconds n = n * Second"
  by (auto simp: seconds_def int64_def intro!: wrap64_id)

definition IsZero :: "time \<Rightarrow> bool" where
  "IsZero t \<longleftrightarrow> t = 0"

text \<open>Go's integer division truncates towards zero.\<close>

definition quot :: "int \<Rightarrow> int \<Rightarrow> int" where
  "quot a b = sgn a * sgn b * (\<bar>a\<bar> div \<bar>b\<bar>)"

lemma quot_nonneg [num_simps]: "0 \<le> a \<Longrightarrow> 0 < b \<Longrightarrow> quot a b = a div b"
  by (cases "a = 0") (auto simp: quot_def sgn_if)


section \<open>Errors\<close>

text \<open>
  The sentinel errors of the program and, for every \<^verbatim>\<open>fmt.Errorf\<close> and \<^verbatim>\<open>errors.New\<close>, the
  format string with its arguments.
\<close>

datatype error =
    ErrNotFound
  | ErrConflict
  | ErrInvalidPortRangeRule
  | ErrPortNotAllowed
  | ErrAgentNotFound
  | ErrAgentOffline
  | Errorf string "string list"

type_synonym 'a res = "error + 'a"

fun bind_res :: "'a res \<Rightarrow> ('a \<Rightarrow> 'b res) \<Rightarrow> 'b res" where
  "bind_res (Inl e) f = Inl e"
| "bind_res (Inr a) f = f a"

lemma bind_res_Inr: "bind_res r f = Inr b \<longleftrightarrow> (\<exists>a. r = Inr a \<and> f a = Inr b)"
  by (cases r) auto

definition is_ok :: "'a res \<Rightarrow> bool" where
  "is_ok r \<longleftrightarrow> (case r of Inl _ \<Rightarrow> False | Inr _ \<Rightarrow> True)"

lemma is_ok_simps [simp]: "is_ok (Inr a)" "\<not> is_ok (Inl e)"
  by (auto simp: is_ok_def)

lemma is_ok_iff: "is_ok r \<longleftrightarrow> (\<exists>a. r = Inr a)"
  by (cases r) auto


section \<open>Strings\<close>

text \<open>A Go string is a list of bytes, a HOL \<open>char\<close> is a byte.\<close>

fun HasPrefix :: "string \<Rightarrow> string \<Rightarrow> bool" where
  "HasPrefix s [] = True"
| "HasPrefix [] (c # p) = False"
| "HasPrefix (a # s) (c # p) = (a = c \<and> HasPrefix s p)"

lemma HasPrefix_iff: "HasPrefix s p \<longleftrightarrow> (\<exists>t. s = p @ t)"
  by (induction s p rule: HasPrefix.induct) auto

lemma HasPrefix_append [simp]: "HasPrefix (p @ s) p"
  by (auto simp: HasPrefix_iff)

fun Contains :: "string \<Rightarrow> string \<Rightarrow> bool" where
  "Contains [] sub = (sub = [])"
| "Contains (c # s) sub = (HasPrefix (c # s) sub \<or> Contains s sub)"

definition ContainsAny :: "string \<Rightarrow> string \<Rightarrow> bool" where
  "ContainsAny s cs = list_ex (\<lambda>c. c \<in> set cs) s"

text \<open>
  \<^verbatim>\<open>strings.TrimSpace\<close> removes leading and trailing runes for which \<^verbatim>\<open>unicode.IsSpace\<close>
  holds. They are listed here in their UTF-8 encoding.
\<close>

definition space_runes :: "string list" where
  "space_runes =
    [[CHR 0x20], [CHR 0x09], [CHR 0x0A], [CHR 0x0B], [CHR 0x0C], [CHR 0x0D],
     [CHR 0xC2, CHR 0x85], [CHR 0xC2, CHR 0xA0], [CHR 0xE1, CHR 0x9A, CHR 0x80],
     [CHR 0xE2, CHR 0x80, CHR 0x80], [CHR 0xE2, CHR 0x80, CHR 0x81],
     [CHR 0xE2, CHR 0x80, CHR 0x82], [CHR 0xE2, CHR 0x80, CHR 0x83],
     [CHR 0xE2, CHR 0x80, CHR 0x84], [CHR 0xE2, CHR 0x80, CHR 0x85],
     [CHR 0xE2, CHR 0x80, CHR 0x86], [CHR 0xE2, CHR 0x80, CHR 0x87],
     [CHR 0xE2, CHR 0x80, CHR 0x88], [CHR 0xE2, CHR 0x80, CHR 0x89],
     [CHR 0xE2, CHR 0x80, CHR 0x8A], [CHR 0xE2, CHR 0x80, CHR 0xA8],
     [CHR 0xE2, CHR 0x80, CHR 0xA9], [CHR 0xE2, CHR 0x80, CHR 0xAF],
     [CHR 0xE2, CHR 0x81, CHR 0x9F], [CHR 0xE3, CHR 0x80, CHR 0x80]]"

function trim_left :: "string list \<Rightarrow> string \<Rightarrow> string" where
  "trim_left rs s =
     (case find (\<lambda>r. r \<noteq> [] \<and> HasPrefix s r) rs of
        None \<Rightarrow> s
      | Some r \<Rightarrow> trim_left rs (drop (length r) s))"
  by pat_completeness auto
termination
  by (relation "measure (\<lambda>(rs, s). length s)")
    (auto simp: find_Some_iff HasPrefix_iff)

declare trim_left.simps [simp del]

definition TrimSpace :: "string \<Rightarrow> string" where
  "TrimSpace s = rev (trim_left (map rev space_runes) (rev (trim_left space_runes s)))"

lemma trim_left_id: "(\<And>r. r \<in> set rs \<Longrightarrow> r \<noteq> [] \<Longrightarrow> \<not> HasPrefix s r) \<Longrightarrow> trim_left rs s = s"
  by (subst trim_left.simps) (auto simp: find_None_iff split: option.splits dest!: find_Some_iff [THEN iffD1])

lemma trim_left_clean: "r \<in> set rs \<Longrightarrow> r \<noteq> [] \<Longrightarrow> \<not> HasPrefix (trim_left rs s) r"
proof (induction rs s rule: trim_left.induct)
  case (1 rs s)
  show ?case
  proof (cases "find (\<lambda>r. r \<noteq> [] \<and> HasPrefix s r) rs")
    case None
    then have "trim_left rs s = s" by (simp add: trim_left.simps [of rs s])
    with None "1.prems" show ?thesis by (auto simp: find_None_iff)
  next
    case (Some q)
    with "1.IH" [OF Some] "1.prems" show ?thesis
      by (auto simp: trim_left.simps [of rs s])
  qed
qed

lemma trim_left_suffix: "\<exists>u. s = u @ trim_left rs s"
proof (induction rs s rule: trim_left.induct)
  case (1 rs s)
  show ?case
  proof (cases "find (\<lambda>r. r \<noteq> [] \<and> HasPrefix s r) rs")
    case None
    then show ?thesis by (simp add: trim_left.simps [of rs s])
  next
    case (Some q)
    then obtain u where u: "drop (length q) s = u @ trim_left rs (drop (length q) s)"
      using "1.IH" by blast
    have "s = take (length q) s @ drop (length q) s" by simp
    also have "\<dots> = (take (length q) s @ u) @ trim_left rs (drop (length q) s)"
      using u by simp
    finally have "s = (take (length q) s @ u) @ trim_left rs s"
      using Some by (simp add: trim_left.simps [of rs s])
    then show ?thesis by blast
  qed
qed

lemma HasPrefix_mono: "HasPrefix s p \<Longrightarrow> HasPrefix (s @ t) p"
  by (auto simp: HasPrefix_iff)

lemma TrimSpace_prefix_free:
  "r \<in> set space_runes \<Longrightarrow> r \<noteq> [] \<Longrightarrow> \<not> HasPrefix (TrimSpace s) r"
proof
  assume r: "r \<in> set space_runes" "r \<noteq> []" and h: "HasPrefix (TrimSpace s) r"
  let ?l = "trim_left space_runes s"
  obtain u where "rev ?l = u @ trim_left (map rev space_runes) (rev ?l)"
    using trim_left_suffix by blast
  then have "?l = TrimSpace s @ rev u"
    by (metis TrimSpace_def rev_append rev_rev_ident)
  with h have "HasPrefix ?l r" by (metis HasPrefix_mono)
  with r show False by (simp add: trim_left_clean)
qed

lemma TrimSpace_suffix_free:
  "r \<in> set space_runes \<Longrightarrow> r \<noteq> [] \<Longrightarrow> \<not> HasPrefix (rev (TrimSpace s)) (rev r)"
  by (auto simp: TrimSpace_def trim_left_clean)

lemma TrimSpace_idem [simp]: "TrimSpace (TrimSpace s) = TrimSpace s"
proof -
  have "trim_left space_runes (TrimSpace s) = TrimSpace s"
    by (rule trim_left_id) (rule TrimSpace_prefix_free)
  moreover have "trim_left (map rev space_runes) (rev (TrimSpace s)) = rev (TrimSpace s)"
    by (rule trim_left_id) (auto dest: TrimSpace_suffix_free)
  ultimately show ?thesis by (simp add: TrimSpace_def [of "TrimSpace s"])
qed

text \<open>A string of visible ASCII characters has nothing to trim.\<close>

definition graphic :: "char \<Rightarrow> bool" where
  "graphic c \<longleftrightarrow> 33 \<le> (of_char c :: nat) \<and> (of_char c :: nat) \<le> 126"

lemma space_runes_not_graphic:
  "list_all (\<lambda>r. r \<noteq> [] \<and> \<not> graphic (hd r) \<and> \<not> graphic (last r)) space_runes"
  by (simp add: space_runes_def graphic_def)

lemma HasPrefix_hd: "HasPrefix s r \<Longrightarrow> r \<noteq> [] \<Longrightarrow> s \<noteq> [] \<and> hd s = hd r"
  by (cases s; cases r) auto

lemma TrimSpace_graphic [str_simps]:
  assumes "list_all graphic s"
  shows "TrimSpace s = s"
proof -
  have no: "\<not> HasPrefix s r" if "r \<in> set space_runes" for r
  proof
    assume "HasPrefix s r"
    with that space_runes_not_graphic have "s \<noteq> []" "hd s = hd r" "\<not> graphic (hd r)"
      by (auto simp: list_all_iff dest: HasPrefix_hd)
    with assms show False by (cases s) (auto simp: list_all_iff)
  qed
  then have l: "trim_left space_runes s = s" by (intro trim_left_id)
  have "\<not> HasPrefix (rev s) (rev r)" if "r \<in> set space_runes" for r
  proof
    assume "HasPrefix (rev s) (rev r)"
    with that space_runes_not_graphic have "s \<noteq> []" "last s = last r" "\<not> graphic (last r)"
      by (auto simp: list_all_iff hd_rev dest: HasPrefix_hd)
    with assms show False by (metis last_in_set list_all_iff)
  qed
  then have "trim_left (map rev space_runes) (rev s) = rev s"
    by (intro trim_left_id) auto
  with l show ?thesis by (simp add: TrimSpace_def)
qed

lemma TrimSpace_Nil [simp]: "TrimSpace [] = []"
  by (rule TrimSpace_graphic) simp

text \<open>
  \<^verbatim>\<open>strings.ToLower\<close>: the program compares its result with ASCII constants only. The two
  runes outside ASCII whose lower case is an ASCII letter (U+0130 and U+212A) are mapped;
  other bytes above 127 are kept, which no such comparison can see.
\<close>

definition lower_char :: "char \<Rightarrow> char" where
  "lower_char c =
     (if 65 \<le> (of_char c :: nat) \<and> (of_char c :: nat) \<le> 90
      then char_of ((of_char c :: nat) + 32) else c)"

definition upper_char :: "char \<Rightarrow> char" where
  "upper_char c =
     (if 97 \<le> (of_char c :: nat) \<and> (of_char c :: nat) \<le> 122
      then char_of ((of_char c :: nat) - 32) else c)"

function ToLower :: "string \<Rightarrow> string" where
  "ToLower s =
     (if HasPrefix s [CHR 0xC4, CHR 0xB0] then CHR ''i'' # ToLower (drop 2 s)
      else if HasPrefix s [CHR 0xE2, CHR 0x84, CHR 0xAA] then CHR ''k'' # ToLower (drop 3 s)
      else (case s of [] \<Rightarrow> [] | c # t \<Rightarrow> lower_char c # ToLower t))"
  by pat_completeness auto
termination
  by (relation "measure length") (auto simp: HasPrefix_iff)

declare ToLower.simps [simp del]

fun split :: "char \<Rightarrow> string \<Rightarrow> string list" where
  "split c [] = [[]]"
| "split c (x # xs) =
     (if x = c then [] # split c xs
      else (case split c xs of [] \<Rightarrow> [[x]] | p # ps \<Rightarrow> (x # p) # ps))"

fun join :: "string \<Rightarrow> string list \<Rightarrow> string" where
  "join sep [] = []"
| "join sep [p] = p"
| "join sep (p # q # ps) = p @ sep @ join sep (q # ps)"

lemma split_not_Nil [simp]: "split c s \<noteq> []"
  by (cases s) (auto split: list.splits)

lemma split_single: "c \<notin> set s \<Longrightarrow> split c s = [s]"
  by (induction s) auto

lemma split_sep: "c \<notin> set p \<Longrightarrow> split c (p @ c # s) = p # split c s"
  by (induction p) auto

lemma split_join [str_simps]:
  "ps \<noteq> [] \<Longrightarrow> (\<And>p. p \<in> set ps \<Longrightarrow> c \<notin> set p) \<Longrightarrow> split c (join [c] ps) = ps"
proof (induction "[c]" ps rule: join.induct)
  case (3 p q ps)
  then show ?case by (simp add: split_sep)
qed (auto simp: split_single)

lemma split_no_sep: "p \<in> set (split c s) \<Longrightarrow> c \<notin> set p"
  by (induction s arbitrary: p) (auto split: if_splits list.splits)


subsection \<open>Decimal numbers\<close>

definition is_digit :: "char \<Rightarrow> bool" where
  "is_digit c \<longleftrightarrow> 48 \<le> (of_char c :: nat) \<and> (of_char c :: nat) \<le> 57"

definition digit_val :: "char \<Rightarrow> nat" where
  "digit_val c = of_char c - 48"

fun dec_val :: "nat \<Rightarrow> string \<Rightarrow> nat option" where
  "dec_val acc [] = Some acc"
| "dec_val acc (c # cs) = (if is_digit c then dec_val (acc * 10 + digit_val c) cs else None)"

text \<open>\<^verbatim>\<open>strconv.Atoi\<close>: an optional sign, at least one digit, the value in the range of \<^verbatim>\<open>int\<close>.\<close>

definition Atoi :: "string \<Rightarrow> int option" where
  "Atoi s =
     (let (neg, ds) =
        (case s of
           [] \<Rightarrow> (False, [])
         | c # cs \<Rightarrow> if c = CHR ''-'' then (True, cs)
                    else if c = CHR ''+'' then (False, cs) else (False, s))
      in if ds = [] then None
         else (case dec_val 0 ds of
                 None \<Rightarrow> None
               | Some n \<Rightarrow> (let i = (if neg then - int n else int n)
                          in if int64 i then Some i else None)))"

fun dec_of_nat :: "nat \<Rightarrow> string" where
  "dec_of_nat n =
     (if n < 10 then [char_of (48 + n)] else dec_of_nat (n div 10) @ [char_of (48 + n mod 10)])"

declare dec_of_nat.simps [simp del]

text \<open>\<^verbatim>\<open>strconv.Itoa\<close>.\<close>

definition Itoa :: "int \<Rightarrow> string" where
  "Itoa i = (if i < 0 then CHR ''-'' # dec_of_nat (nat (- i)) else dec_of_nat (nat i))"

lemma of_char_digit: "d < 10 \<Longrightarrow> of_char (char_of (48 + d) :: char) = 48 + (d :: nat)"
  by simp

lemma digit_char [simp]:
  "d < 10 \<Longrightarrow> is_digit (char_of (48 + d))"
  "d < 10 \<Longrightarrow> digit_val (char_of (48 + d)) = d"
  by (simp_all add: is_digit_def digit_val_def of_char_digit)

lemma dec_val_append:
  "dec_val acc (s @ t) = (case dec_val acc s of None \<Rightarrow> None | Some n \<Rightarrow> dec_val n t)"
  by (induction s arbitrary: acc) auto

lemma dec_val_of_nat: "dec_val 0 (dec_of_nat n) = Some n"
proof (induction n rule: dec_of_nat.induct)
  case (1 n)
  show ?case
  proof (cases "n < 10")
    case True
    then show ?thesis by (simp add: dec_of_nat.simps [of n])
  next
    case False
    with "1.IH" have "dec_val 0 (dec_of_nat (n div 10)) = Some (n div 10)" by simp
    with False show ?thesis
      by (simp add: dec_of_nat.simps [of n] dec_val_append)
  qed
qed

lemma dec_of_nat_digits: "list_all is_digit (dec_of_nat n)"
proof (induction n rule: dec_of_nat.induct)
  case (1 n)
  then show ?case by (cases "n < 10") (simp_all add: dec_of_nat.simps [of n])
qed

lemma dec_of_nat_not_Nil [simp]: "dec_of_nat n \<noteq> []"
  by (subst dec_of_nat.simps) simp

lemma is_digit_graphic: "is_digit c \<Longrightarrow> graphic c"
  by (auto simp: is_digit_def graphic_def)

lemma is_digit_neq:
  "is_digit c \<Longrightarrow> c \<noteq> CHR ''-''" "is_digit c \<Longrightarrow> c \<noteq> CHR ''+''" "is_digit c \<Longrightarrow> c \<noteq> CHR '',''"
  "is_digit c \<Longrightarrow> c \<noteq> CHR ''.''"
  by (auto simp: is_digit_def)

lemma Atoi_Itoa [str_simps]: "int64 i \<Longrightarrow> Atoi (Itoa i) = Some i"
proof (cases "i < 0")
  case True
  assume "int64 i"
  with True show ?thesis
    by (simp add: Atoi_def Itoa_def dec_val_of_nat)
next
  case False
  obtain c cs where ds: "dec_of_nat (nat i) = c # cs"
    by (cases "dec_of_nat (nat i)") simp_all
  with dec_of_nat_digits [of "nat i"] have "is_digit c" by simp
  assume "int64 i"
  with False ds \<open>is_digit c\<close> dec_val_of_nat [of "nat i"] show ?thesis
    by (simp add: Atoi_def Itoa_def is_digit_neq)
qed

lemma Itoa_nonneg_digits: "0 \<le> i \<Longrightarrow> list_all is_digit (Itoa i)"
  by (simp add: Itoa_def dec_of_nat_digits)

lemma Atoi_range: "Atoi s = Some i \<Longrightarrow> int64 i"
  by (auto simp: Atoi_def Let_def split: prod.splits if_splits option.splits)


section \<open>Go maps\<close>

text \<open>
  A Go map is an association list with distinct keys. The order of the list is the order in
  which a \<^verbatim>\<open>range\<close> loop meets the entries, which Go leaves open: a theorem over all lists
  is a theorem over all iteration orders. Where \<^verbatim>\<open>nil\<close> and the empty map differ, the
  type is an \<open>option\<close>.
\<close>

type_synonym ('k, 'v) gomap = "('k \<times> 'v) list"
type_synonym strmap = "(string, string) gomap"

abbreviation mget :: "('k, 'v) gomap \<Rightarrow> 'k \<Rightarrow> 'v option" where "mget \<equiv> map_of"
abbreviation mput :: "'k \<Rightarrow> 'v \<Rightarrow> ('k, 'v) gomap \<Rightarrow> ('k, 'v) gomap" where "mput \<equiv> AList.update"
abbreviation mdel :: "'k \<Rightarrow> ('k, 'v) gomap \<Rightarrow> ('k, 'v) gomap" where "mdel \<equiv> AList.delete"

definition mwf :: "('k, 'v) gomap \<Rightarrow> bool" where
  "mwf m \<longleftrightarrow> distinct (map fst m)"

text \<open>\<^verbatim>\<open>m[k]\<close> for a map with string values: the zero value when the key is absent.\<close>

definition mstr :: "strmap \<Rightarrow> string \<Rightarrow> string" where
  "mstr m k = (case mget m k of None \<Rightarrow> [] | Some v \<Rightarrow> v)"

lemma mget_mput [simp, map_simps]: "mget (mput k v m) k' = (if k' = k then Some v else mget m k')"
  by (simp add: update_conv')

lemma mget_mdel [simp, map_simps]: "mget (mdel k m) k' = (if k' = k then None else mget m k')"
  by (simp add: delete_conv')

lemma mwf_mput [simp]: "mwf m \<Longrightarrow> mwf (mput k v m)"
  by (simp add: mwf_def distinct_update)

lemma mwf_mdel [simp]: "mwf m \<Longrightarrow> mwf (mdel k m)"
  by (simp add: mwf_def distinct_delete)

lemma mwf_Nil [simp]: "mwf []"
  by (simp add: mwf_def)

lemma mwf_filter [simp]: "mwf m \<Longrightarrow> mwf (filter P m)"
  by (simp add: mwf_def distinct_map_filter)

lemma mwf_map_values [simp]: "mwf (map (\<lambda>(k, v). (k, f k v)) m) \<longleftrightarrow> mwf m"
  by (simp add: mwf_def comp_def case_prod_unfold)

lemma mget_map_values: "mget (map (\<lambda>(k, v). (k, f k v)) m) k' = map_option (f k') (mget m k')"
  by (induction m) auto

lemma mget_iff: "mwf m \<Longrightarrow> mget m k = Some v \<longleftrightarrow> (k, v) \<in> set m"
  by (simp add: mwf_def map_of_eq_Some_iff)

lemma mget_filter:
  "mwf m \<Longrightarrow>
   mget (filter (\<lambda>(k, v). P k v) m) k' =
     (case mget m k' of None \<Rightarrow> None | Some v \<Rightarrow> if P k' v then Some v else None)"
proof (induction m)
  case (Cons e m)
  then show ?case
    by (cases e) (force simp: mwf_def split: option.splits dest: map_of_SomeD)
qed simp

text \<open>The contract of a keyed collection, as the stores use it.\<close>

locale keyed_map =
  fixes lookup :: "'m \<Rightarrow> 'k \<Rightarrow> 'v option"
    and insert :: "'k \<Rightarrow> 'v \<Rightarrow> 'm \<Rightarrow> 'm"
    and remove :: "'k \<Rightarrow> 'm \<Rightarrow> 'm"
  assumes lookup_insert: "lookup (insert k v m) k' = (if k' = k then Some v else lookup m k')"
    and lookup_remove: "lookup (remove k m) k' = (if k' = k then None else lookup m k')"
begin

lemma lookup_bulk_other:
  "k \<notin> key ` set xs \<Longrightarrow> lookup (fold (\<lambda>x. insert (key x) (val x)) xs m) k = lookup m k"
  by (induction xs arbitrary: m) (auto simp: lookup_insert)

lemma lookup_bulk:
  "distinct (map key xs) \<Longrightarrow> x \<in> set xs \<Longrightarrow>
   lookup (fold (\<lambda>x. insert (key x) (val x)) xs m) (key x) = Some (val x)"
proof (induction xs arbitrary: m)
  case (Cons y ys)
  show ?case
  proof (cases "x = y")
    case True
    with Cons.prems have "key x \<notin> key ` set ys" by auto
    with True show ?thesis by (simp add: lookup_bulk_other lookup_insert)
  next
    case False
    with Cons show ?thesis by auto
  qed
qed simp

lemma insert_remove: "lookup (remove k (insert k v m)) = lookup (remove k m)"
  by (auto simp: lookup_insert lookup_remove)

end

interpretation gomap: keyed_map map_of AList.update AList.delete
  by unfold_locales simp_all


section \<open>Listings: filter, sort, cut at a limit\<close>

definition take_limit :: "int \<Rightarrow> 'a list \<Rightarrow> 'a list" where
  "take_limit n xs = (if 0 < n \<and> n < int (length xs) then take (nat n) xs else xs)"

lemma take_limit_subset: "set (take_limit n xs) \<subseteq> set xs"
  by (auto simp: take_limit_def dest: in_set_takeD)

lemma take_limit_length: "0 < n \<Longrightarrow> int (length (take_limit n xs)) \<le> n"
  by (auto simp: take_limit_def)

lemma take_limit_all: "n \<le> 0 \<or> int (length xs) \<le> n \<Longrightarrow> take_limit n xs = xs"
  by (auto simp: take_limit_def)

lemma take_limit_split: "\<exists>ys. xs = take_limit n xs @ ys"
  unfolding take_limit_def by (metis append_Nil2 append_take_drop_id)

text \<open>
  What every listing operation of a store promises: it returns the selected elements in key
  order, each once, and when a positive limit cuts the list, it cuts its end.
\<close>

locale listing =
  fixes list_op :: "'s \<Rightarrow> int \<Rightarrow> 'a list"
    and elems :: "'s \<Rightarrow> 'a list"
    and sel :: "'a \<Rightarrow> bool"
    and key :: "'a \<Rightarrow> 'k :: linorder"
  assumes mset_list_op: "mset (list_op s 0) = filter_mset sel (mset (elems s))"
    and sorted_list_op: "sorted (map key (list_op s 0))"
    and list_op_limit: "list_op s n = take_limit n (list_op s 0)"
begin

lemma set_list_op_0: "set (list_op s 0) = {x \<in> set (elems s). sel x}"
  by (metis mset_list_op set_mset_filter set_mset_mset)

lemma list_op_sound: "x \<in> set (list_op s n) \<Longrightarrow> x \<in> set (elems s) \<and> sel x"
  using take_limit_subset [of n "list_op s 0"] set_list_op_0 [of s]
  by (auto simp: list_op_limit [of s n])

lemma list_op_sorted: "sorted (map key (list_op s n))"
proof -
  obtain ys where "list_op s 0 = list_op s n @ ys"
    using take_limit_split [of "list_op s 0" n] list_op_limit [of s n] by metis
  with sorted_list_op [of s] show ?thesis by (auto simp: sorted_append)
qed

lemma list_op_bounded: "0 < n \<Longrightarrow> int (length (list_op s n)) \<le> n"
  using take_limit_length [of n "list_op s 0"] by (simp add: list_op_limit [of s n])

lemma list_op_complete:
  assumes "n \<le> 0 \<or> int (length (filter sel (elems s))) \<le> n"
  shows "set (list_op s n) = {x \<in> set (elems s). sel x}"
proof -
  have "length (list_op s 0) = length (filter sel (elems s))"
    by (metis mset_filter mset_list_op size_mset)
  with assms show ?thesis
    by (simp add: list_op_limit [of s n] take_limit_all set_list_op_0)
qed

lemma list_op_oldest_first:
  assumes "x \<in> set (elems s)" "sel x" "x \<notin> set (list_op s n)" "y \<in> set (list_op s n)"
  shows "key y \<le> key x"
proof -
  obtain ys where ys: "list_op s 0 = list_op s n @ ys"
    using take_limit_split [of "list_op s 0" n] list_op_limit [of s n] by metis
  with assms(1-3) set_list_op_0 [of s] have "x \<in> set ys" by auto
  with ys sorted_list_op [of s] assms(4) show ?thesis by (auto simp: sorted_append)
qed

end


section \<open>Transition systems\<close>

text \<open>
  A step relation with an invariant that every step keeps, and with a relation between states
  (what never goes backwards) that every step satisfies.
\<close>

locale transition_system =
  fixes step :: "'s \<Rightarrow> 's \<Rightarrow> bool"
    and inv :: "'s \<Rightarrow> bool"
    and progress :: "'s \<Rightarrow> 's \<Rightarrow> bool"
  assumes inv_step: "inv s \<Longrightarrow> step s t \<Longrightarrow> inv t"
    and progress_step: "inv s \<Longrightarrow> step s t \<Longrightarrow> progress s t"
    and progress_refl: "progress s s"
    and progress_trans: "progress s t \<Longrightarrow> progress t u \<Longrightarrow> progress s u"
begin

lemma inv_reachable: "step\<^sup>*\<^sup>* s t \<Longrightarrow> inv s \<Longrightarrow> inv t"
  by (induction rule: rtranclp_induct) (auto intro: inv_step)

lemma progress_reachable: "step\<^sup>*\<^sup>* s t \<Longrightarrow> inv s \<Longrightarrow> progress s t"
proof (induction rule: rtranclp_induct)
  case base
  show ?case by (rule progress_refl)
next
  case (step t u)
  then show ?case by (meson inv_reachable progress_step progress_trans)
qed

end

end
