(* ===== verification/NetAddr.thy ===== *)
theory NetAddr
  imports Prelude
begin

text \<open>
  IP addresses: what the program uses of the packages \<^verbatim>\<open>net\<close> and \<^verbatim>\<open>net/netip\<close>. A
  \<^verbatim>\<open>netip.Addr\<close> is a 32-bit IPv4 or a 128-bit IPv6 address with a zone; a \<^verbatim>\<open>net.IP\<close>
  is kept in its 16-byte form. Parsing, printing, the address classes and prefix matching
  follow the standard library; the lemmas relate prefix matching to number ranges and
  parsing to printing.
\<close>

unbundle bit_operations_syntax


section \<open>Addresses and parsing\<close>

datatype addr = Addr4 "32 word" | Addr6 "128 word" string

type_synonym netIP = "128 word"

definition word_of_bytes :: "nat list \<Rightarrow> 'a::len word" where
  "word_of_bytes bs = foldl (\<lambda>acc b. acc * 256 + of_nat b) 0 bs"

definition parse_octet :: "string \<Rightarrow> nat option" where
  "parse_octet ds =
     (if ds = [] \<or> (1 < length ds \<and> hd ds = CHR ''0'') then None
      else (case dec_val 0 ds of
              None \<Rightarrow> None
            | Some n \<Rightarrow> if n \<le> 255 then Some n else None))"

definition parse_v4_fields :: "string \<Rightarrow> nat list option" where
  "parse_v4_fields s =
     (let parts = split (CHR ''.'') s
      in if length parts = 4 then those (map parse_octet parts) else None)"

definition is_hex :: "char \<Rightarrow> bool" where
  "is_hex c \<longleftrightarrow> is_digit c \<or>
     (97 \<le> (of_char c :: nat) \<and> (of_char c :: nat) \<le> 102) \<or>
     (65 \<le> (of_char c :: nat) \<and> (of_char c :: nat) \<le> 70)"

definition hex_digit_val :: "char \<Rightarrow> nat" where
  "hex_digit_val c =
     (if is_digit c then digit_val c
      else if 97 \<le> (of_char c :: nat) then of_char c - 87 else of_char c - 55)"

definition hex_val :: "string \<Rightarrow> nat" where
  "hex_val ds = foldl (\<lambda>acc c. acc * 16 + hex_digit_val c) 0 ds"

text \<open>
  The loop of \<^verbatim>\<open>netip.parseIPv6\<close>: at most \<open>k\<close> more 16-bit groups, the bytes read so far, and
  the position of the ellipsis.
\<close>

fun v6_loop :: "nat \<Rightarrow> string \<Rightarrow> nat list \<Rightarrow> nat option \<Rightarrow> (string \<times> nat list \<times> nat option) option" where
  "v6_loop 0 s bs ell = Some (s, bs, ell)"
| "v6_loop (Suc k) s bs ell =
     (let ds = takeWhile is_hex s; rest = dropWhile is_hex s in
      if ds = [] \<or> 4 < length ds then None
      else if rest \<noteq> [] \<and> hd rest = CHR ''.'' then
        (if (ell = None \<and> length bs \<noteq> 12) \<or> 16 < length bs + 4 then None
         else (case parse_v4_fields s of
                 None \<Rightarrow> None
               | Some fs \<Rightarrow> Some ([], bs @ fs, ell)))
      else
        (let v = hex_val ds; bs' = bs @ [v div 256, v mod 256] in
         case rest of
           [] \<Rightarrow> Some ([], bs', ell)
         | c # t \<Rightarrow>
             if c \<noteq> CHR '':'' \<or> t = [] then None
             else if hd t = CHR '':'' then
               (if ell \<noteq> None then None
                else if tl t = [] then Some ([], bs', Some (length bs'))
                else v6_loop k (tl t) bs' (Some (length bs')))
             else v6_loop k t bs' ell))"

definition parse_v6 :: "string \<Rightarrow> addr option" where
  "parse_v6 str =
     (let s = takeWhile (\<lambda>c. c \<noteq> CHR ''%'') str;
          tail = dropWhile (\<lambda>c. c \<noteq> CHR ''%'') str;
          zone = drop 1 tail;
          lead = HasPrefix s ''::'';
          s0 = (if lead then drop 2 s else s)
      in if tail \<noteq> [] \<and> zone = [] then None
         else if lead \<and> s0 = [] then Some (Addr6 0 zone)
         else (case v6_loop 8 s0 [] (if lead then Some 0 else None) of
                 None \<Rightarrow> None
               | Some (rest, bs, ell) \<Rightarrow>
                   if rest \<noteq> [] then None
                   else if length bs < 16 then
                     (case ell of
                        None \<Rightarrow> None
                      | Some e \<Rightarrow>
                          Some (Addr6 (word_of_bytes (take e bs @ replicate (16 - length bs) 0 @ drop e bs)) zone))
                   else if ell \<noteq> None then None
                   else Some (Addr6 (word_of_bytes bs) zone)))"

definition ParseAddr :: "string \<Rightarrow> addr option" where
  "ParseAddr s =
     (case find (\<lambda>c. c = CHR ''.'' \<or> c = CHR '':'' \<or> c = CHR ''%'') s of
        None \<Rightarrow> None
      | Some c \<Rightarrow>
          if c = CHR ''.'' then map_option (\<lambda>bs. Addr4 (word_of_bytes bs)) (parse_v4_fields s)
          else if c = CHR '':'' then parse_v6 s
          else None)"

fun Is4In6 :: "addr \<Rightarrow> bool" where
  "Is4In6 (Addr4 a) = False"
| "Is4In6 (Addr6 w z) = (drop_bit 32 w = 0xffff)"

fun Unmap :: "addr \<Rightarrow> addr" where
  "Unmap (Addr4 a) = Addr4 a"
| "Unmap (Addr6 w z) = (if drop_bit 32 w = 0xffff then Addr4 (ucast w) else Addr6 w z)"

definition v4_mapped :: "32 word \<Rightarrow> netIP" where
  "v4_mapped a = push_bit 32 0xffff OR ucast a"

definition To4 :: "netIP \<Rightarrow> 32 word option" where
  "To4 w = (if drop_bit 32 w = 0xffff then Some (ucast w) else None)"

definition ParseIP :: "string \<Rightarrow> netIP option" where
  "ParseIP s =
     (case ParseAddr s of
        None \<Rightarrow> None
      | Some (Addr4 a) \<Rightarrow> Some (v4_mapped a)
      | Some (Addr6 w z) \<Rightarrow> if z = [] then Some w else None)"


section \<open>Printing\<close>

definition octets :: "32 word \<Rightarrow> nat list" where
  "octets a = [unat (drop_bit 24 a), unat (drop_bit 16 a) mod 256,
               unat (drop_bit 8 a) mod 256, unat a mod 256]"

definition v4_string :: "32 word \<Rightarrow> string" where
  "v4_string a = join ''.'' (map dec_of_nat (octets a))"

definition hex_digit :: "nat \<Rightarrow> char" where
  "hex_digit d = (if d < 10 then char_of (48 + d) else char_of (87 + d))"

fun hex_of_nat :: "nat \<Rightarrow> string" where
  "hex_of_nat n = (if n < 16 then [hex_digit n] else hex_of_nat (n div 16) @ [hex_digit (n mod 16)])"

declare hex_of_nat.simps [simp del]

definition groups :: "128 word \<Rightarrow> nat list" where
  "groups w = map (\<lambda>i. unat (drop_bit (112 - 16 * i) w) mod 65536) [0..<8]"

text \<open>The first of the longest runs of at least two zero groups.\<close>

definition zero_run :: "nat list \<Rightarrow> nat \<times> nat" where
  "zero_run gs =
     foldl (\<lambda>(zs, ze) i.
              let l = length (takeWhile (\<lambda>g. g = 0) (drop i gs))
              in if 2 \<le> l \<and> ze - zs < l then (i, i + l) else (zs, ze))
       (255, 255) [0..<length gs]"

definition v6_string :: "128 word \<Rightarrow> string" where
  "v6_string w =
     (let gs = groups w; (zs, ze) = zero_run gs
      in if zs = 255 then join '':'' (map hex_of_nat gs)
         else join '':'' (map hex_of_nat (take zs gs)) @ ''::'' @ join '':'' (map hex_of_nat (drop ze gs)))"

definition IP_String :: "netIP \<Rightarrow> string" where
  "IP_String w = (case To4 w of Some a \<Rightarrow> v4_string a | None \<Rightarrow> v6_string w)"

fun Addr_String :: "addr \<Rightarrow> string" where
  "Addr_String (Addr4 a) = v4_string a"
| "Addr_String (Addr6 w z) =
     (if drop_bit 32 w = 0xffff then ''::ffff:'' @ v4_string (ucast w) else v6_string w)
       @ (if z = [] then [] else CHR ''%'' # z)"


section \<open>Classes and prefixes\<close>

fun IsUnspecified :: "addr \<Rightarrow> bool" where
  "IsUnspecified (Addr4 a) = (a = 0)"
| "IsUnspecified (Addr6 w z) = (w = 0 \<and> z = [])"

definition IsLoopback :: "addr \<Rightarrow> bool" where
  "IsLoopback ip = (case Unmap ip of Addr4 a \<Rightarrow> drop_bit 24 a = 127 | Addr6 w z \<Rightarrow> w = 1)"

definition IsPrivate :: "addr \<Rightarrow> bool" where
  "IsPrivate ip =
     (case Unmap ip of
        Addr4 a \<Rightarrow> drop_bit 24 a = 10 \<or> drop_bit 20 a = 0xac1 \<or> drop_bit 16 a = 0xc0a8
      | Addr6 w z \<Rightarrow> drop_bit 121 w = 0x7e)"

definition IsLinkLocalUnicast :: "addr \<Rightarrow> bool" where
  "IsLinkLocalUnicast ip =
     (case Unmap ip of Addr4 a \<Rightarrow> drop_bit 16 a = 0xa9fe | Addr6 w z \<Rightarrow> drop_bit 118 w = 0x3fa)"

definition IsMulticast :: "addr \<Rightarrow> bool" where
  "IsMulticast ip =
     (case Unmap ip of Addr4 a \<Rightarrow> drop_bit 28 a = 0xe | Addr6 w z \<Rightarrow> drop_bit 120 w = 0xff)"

definition IsGlobalUnicast :: "addr \<Rightarrow> bool" where
  "IsGlobalUnicast ip =
     (let u = Unmap ip
      in (case u of Addr4 a \<Rightarrow> a \<noteq> 0 \<and> a \<noteq> 0xffffffff | Addr6 w z \<Rightarrow> \<not> (w = 0 \<and> z = []))
         \<and> \<not> IsLoopback u \<and> \<not> IsMulticast u \<and> \<not> IsLinkLocalUnicast u)"

datatype prefix = Prefix addr nat

fun prefix_contains :: "prefix \<Rightarrow> addr \<Rightarrow> bool" where
  "prefix_contains (Prefix (Addr4 p) bits) (Addr4 a) = (drop_bit (32 - bits) (a XOR p) = 0)"
| "prefix_contains (Prefix (Addr6 p z) bits) (Addr6 a z') = (z' = [] \<and> drop_bit (128 - bits) (a XOR p) = 0)"
| "prefix_contains _ _ = False"

fun BitLen :: "addr \<Rightarrow> nat" where
  "BitLen (Addr4 a) = 32"
| "BitLen (Addr6 w z) = 128"

text \<open>\<^verbatim>\<open>netip.ParsePrefix\<close>: the bits stand after the last slash.\<close>

definition ParsePrefix :: "string \<Rightarrow> prefix option" where
  "ParsePrefix s =
     (let bits_str = rev (takeWhile (\<lambda>c. c \<noteq> CHR ''/'') (rev s));
          before = dropWhile (\<lambda>c. c \<noteq> CHR ''/'') (rev s)
      in if before = [] then None
         else (case ParseAddr (rev (tl before)) of
                 None \<Rightarrow> None
               | Some ip \<Rightarrow>
                   if (case ip of Addr6 w z \<Rightarrow> z \<noteq> [] | _ \<Rightarrow> False) then None
                   else if 1 < length bits_str \<and> (\<not> is_digit (hd bits_str) \<or> hd bits_str = CHR ''0'') then None
                   else (case Atoi bits_str of
                           None \<Rightarrow> None
                         | Some b \<Rightarrow> if b < 0 \<or> int (BitLen ip) < b then None
                                    else Some (Prefix ip (nat b)))))"

fun Masked :: "prefix \<Rightarrow> prefix" where
  "Masked (Prefix (Addr4 a) bits) = Prefix (Addr4 (push_bit (32 - bits) (drop_bit (32 - bits) a))) bits"
| "Masked (Prefix (Addr6 w z) bits) = Prefix (Addr6 (push_bit (128 - bits) (drop_bit (128 - bits) w)) []) bits"


section \<open>Prefixes are ranges of numbers\<close>

lemma word_xor_0_iff: "a XOR p = 0 \<longleftrightarrow> a = (p :: 'a::len word)"
  by (metis xor.assoc xor.left_neutral xor_self_eq)

lemma drop_bit_eq_iff:
  fixes a p :: "'a::len word"
  shows "drop_bit k a = drop_bit k p \<longleftrightarrow> unat a div 2 ^ k = unat p div 2 ^ k"
  by (metis drop_bit_eq_div unat_drop_bit_eq word_unat_eq_iff)

lemma div_eq_range:
  fixes x p :: nat
  assumes "p mod 2 ^ k = 0"
  shows "x div 2 ^ k = p div 2 ^ k \<longleftrightarrow> p \<le> x \<and> x < p + 2 ^ k"
proof -
  obtain q where p: "p = q * 2 ^ k"
    using assms by (metis add_0_right div_mult_mod_eq)
  show ?thesis
  proof
    assume "x div 2 ^ k = p div 2 ^ k"
    then have "x div 2 ^ k = q" using p by simp
    then show "p \<le> x \<and> x < p + 2 ^ k"
      using p by (metis add.commute div_mult_mod_eq le_add1 mod_less_divisor
          nat_add_left_cancel_less zero_less_numeral zero_less_power)
  next
    assume "p \<le> x \<and> x < p + 2 ^ k"
    then have "x div 2 ^ k = q"
      using p by (intro div_nat_eqI) (auto simp: algebra_simps)
    then show "x div 2 ^ k = p div 2 ^ k" using p by simp
  qed
qed

text \<open>A masked prefix of \<open>bits\<close> bits is the range of \<open>2 ^ (32 - bits)\<close> numbers from its base.\<close>

lemma prefix4_range:
  assumes "unat p mod 2 ^ (32 - bits) = 0"
  shows "prefix_contains (Prefix (Addr4 p) bits) (Addr4 a) \<longleftrightarrow>
         unat p \<le> unat a \<and> unat a < unat p + 2 ^ (32 - bits)"
  using div_eq_range [OF assms, of "unat a"] by (simp add: word_xor_0_iff drop_bit_eq_iff)

lemma prefix6_range:
  assumes "unat p mod 2 ^ (128 - bits) = 0"
  shows "prefix_contains (Prefix (Addr6 p z) bits) (Addr6 w []) \<longleftrightarrow>
         unat p \<le> unat w \<and> unat w < unat p + 2 ^ (128 - bits)"
  using div_eq_range [OF assms, of "unat w"] by (simp add: word_xor_0_iff drop_bit_eq_iff)


section \<open>Parsing a printed IPv4 address\<close>

lemma unat_shift: "unat (drop_bit k (a :: 'a::len word)) = unat a div 2 ^ k"
  by (metis drop_bit_eq_div unat_drop_bit_eq)

lemma octets_small: "n \<in> set (octets a) \<Longrightarrow> n \<le> 255"
proof -
  have "unat (drop_bit 24 a) = unat a div 2 ^ 24" by (rule unat_shift)
  moreover have "unat a < 2 ^ 32" using unsigned_less [of a] by simp
  ultimately have "unat (drop_bit 24 a) \<le> 255" by simp
  then show "n \<in> set (octets a) \<Longrightarrow> n \<le> 255"
    by (auto simp: octets_def)
qed

lemma horner_256:
  fixes n :: nat
  shows "((n div 16777216 * 256 + n div 65536 mod 256) * 256 + n div 256 mod 256) * 256 + n mod 256 = n"
proof -
  have "n div 16777216 = n div 65536 div 256" "n div 65536 = n div 256 div 256"
    by (simp_all add: div_mult2_eq [symmetric])
  then show ?thesis by (metis div_mult_mod_eq)
qed

lemma word_of_bytes_octets: "word_of_bytes (octets a) = a"
proof -
  let ?n = "unat a"
  have "word_of_bytes (octets a) =
    (of_nat (((?n div 16777216 * 256 + ?n div 65536 mod 256) * 256 + ?n div 256 mod 256) * 256 + ?n mod 256) :: 32 word)"
    by (simp add: word_of_bytes_def octets_def unat_shift)
  then show ?thesis by (simp only: horner_256) simp
qed

lemma dec_of_nat_hd: "0 < n \<Longrightarrow> hd (dec_of_nat n) \<noteq> CHR ''0''"
proof (induction n rule: dec_of_nat.induct)
  case (1 n)
  show ?case
  proof (cases "n < 10")
    case True
    have "(char_of (48 + n) :: char) \<noteq> CHR ''0''"
    proof
      assume "(char_of (48 + n) :: char) = CHR ''0''"
      then have "of_char (char_of (48 + n) :: char) = (48 :: nat)" by simp
      with True "1.prems" show False by (simp add: of_char_digit)
    qed
    with True show ?thesis by (simp add: dec_of_nat.simps [of n])
  next
    case False
    with "1.IH" show ?thesis by (simp add: dec_of_nat.simps [of n])
  qed
qed

lemma parse_octet_dec: "n \<le> 255 \<Longrightarrow> parse_octet (dec_of_nat n) = Some n"
proof -
  assume n: "n \<le> 255"
  have "\<not> (1 < length (dec_of_nat n) \<and> hd (dec_of_nat n) = CHR ''0'')"
  proof (cases "n = 0")
    case True
    then show ?thesis by (simp add: dec_of_nat.simps)
  next
    case False
    then show ?thesis by (simp add: dec_of_nat_hd)
  qed
  with n show ?thesis by (simp add: parse_octet_def dec_val_of_nat)
qed

lemma dec_of_nat_no_dot: "CHR ''.'' \<notin> set (dec_of_nat n)"
  using dec_of_nat_digits [of n] by (auto simp: list_all_iff is_digit_def)

lemma parse_v4_fields_string: "parse_v4_fields (v4_string a) = Some (octets a)"
proof -
  have "split (CHR ''.'') (v4_string a) = map dec_of_nat (octets a)"
    unfolding v4_string_def by (rule split_join) (auto simp: octets_def dec_of_nat_no_dot)
  moreover have "those (map parse_octet (map dec_of_nat ns)) = Some ns" if "\<forall>n\<in>set ns. n \<le> 255" for ns
    using that by (induction ns) (auto simp: parse_octet_dec)
  moreover have "length (octets a) = 4" by (simp add: octets_def)
  ultimately show ?thesis
    using octets_small [of _ a] by (simp add: parse_v4_fields_def)
qed

lemma find_digits_dot:
  assumes "list_all is_digit ds"
  shows "find (\<lambda>c. c = CHR ''.'' \<or> c = CHR '':'' \<or> c = CHR ''%'') (ds @ CHR ''.'' # s) = Some (CHR ''.'')"
  using assms by (induction ds) (auto simp: is_digit_def)

lemma ParseAddr_v4_string [simp]: "ParseAddr (v4_string a) = Some (Addr4 a)"
proof -
  obtain s where "v4_string a = dec_of_nat (unat (drop_bit 24 a)) @ CHR ''.'' # s"
    by (simp add: v4_string_def octets_def)
  then have "find (\<lambda>c. c = CHR ''.'' \<or> c = CHR '':'' \<or> c = CHR ''%'') (v4_string a) = Some (CHR ''.'')"
    by (simp add: find_digits_dot dec_of_nat_digits)
  then show ?thesis
    by (simp add: ParseAddr_def parse_v4_fields_string word_of_bytes_octets)
qed

lemma ParseIP_v4_string [simp]: "ParseIP (v4_string a) = Some (v4_mapped a)"
  by (simp add: ParseIP_def)

lemma ucast_or_shifted: "ucast (push_bit 32 m OR ucast a :: 128 word) = (a :: 32 word)"
  by (rule bit_word_eqI) (auto simp: bit_simps)

lemma To4_v4_mapped [simp]: "To4 (v4_mapped a) = Some a"
proof -
  have hi: "drop_bit 32 (v4_mapped a) = 0xffff"
    unfolding v4_mapped_def
    by (rule bit_word_eqI) (auto simp: bit_simps dest: bit_imp_le_length)
  have lo: "ucast (v4_mapped a) = a"
    unfolding v4_mapped_def by (rule ucast_or_shifted)
  from hi lo show ?thesis by (simp add: To4_def)
qed

lemma IP_String_v4_mapped [simp]: "IP_String (v4_mapped a) = v4_string a"
  by (simp add: IP_String_def)


section \<open>Parsing a printed IPv6 address\<close>

lemma hex_digit_facts:
  assumes "d < 16"
  shows "is_hex (hex_digit d) \<and> hex_digit_val (hex_digit d) = d"
proof (cases "d < 10")
  case True
  then show ?thesis by (simp add: hex_digit_def is_hex_def hex_digit_val_def)
next
  case False
  with assms have "of_char (char_of (87 + d) :: char) = 87 + d" by simp
  with False assms show ?thesis
    by (simp add: hex_digit_def is_hex_def hex_digit_val_def is_digit_def)
qed

lemma hex_of_nat_facts:
  "list_all is_hex (hex_of_nat n) \<and> hex_of_nat n \<noteq> [] \<and> hex_val (hex_of_nat n) = n"
proof (induction n rule: hex_of_nat.induct)
  case (1 n)
  show ?case
  proof (cases "n < 16")
    case True
    then show ?thesis by (simp add: hex_of_nat.simps [of n] hex_digit_facts hex_val_def)
  next
    case False
    with 1 show ?thesis
      by (simp add: hex_of_nat.simps [of n] hex_digit_facts hex_val_def)
  qed
qed

lemma hex_of_nat_length: "n < 16 ^ k \<Longrightarrow> 0 < k \<Longrightarrow> length (hex_of_nat n) \<le> k"
proof (induction k arbitrary: n)
  case (Suc k)
  show ?case
  proof (cases "n < 16")
    case True
    then show ?thesis by (simp add: hex_of_nat.simps [of n])
  next
    case False
    with Suc.prems have "n div 16 < 16 ^ k" "0 < k"
      by (auto simp: less_mult_imp_div_less intro: gr0I)
    from Suc.IH [OF this] False show ?thesis by (simp add: hex_of_nat.simps [of n])
  qed
qed simp

definition group_bytes :: "nat list \<Rightarrow> nat list" where
  "group_bytes gs = concat (map (\<lambda>g. [g div 256, g mod 256]) gs)"

definition small_groups :: "nat list \<Rightarrow> bool" where
  "small_groups gs \<longleftrightarrow> list_all (\<lambda>g. g < 65536) gs"

definition hexs :: "nat list \<Rightarrow> string" where
  "hexs gs = join '':'' (map hex_of_nat gs)"

lemma not_hex: "\<not> is_hex (CHR '':'')" "\<not> is_hex (CHR ''.'')" "\<not> is_hex (CHR ''%'')"
  by (simp_all add: is_hex_def is_digit_def)

lemma hexs_Nil: "hexs [] = []"
  by (simp add: hexs_def)

lemma hexs_Cons: "hexs (g # gs) = hex_of_nat g @ (if gs = [] then [] else CHR '':'' # hexs gs)"
  by (cases gs) (simp_all add: hexs_def)

lemma hexs_hd: "gs \<noteq> [] \<Longrightarrow> hexs gs \<noteq> [] \<and> is_hex (hd (hexs gs))"
  using hex_of_nat_facts [of "hd gs"]
  by (cases gs; cases "hex_of_nat (hd gs)") (auto simp: hexs_Cons)

lemma take_hex:
  assumes "rest = [] \<or> \<not> is_hex (hd rest)"
  shows "takeWhile is_hex (hex_of_nat g @ rest) = hex_of_nat g"
    "dropWhile is_hex (hex_of_nat g @ rest) = rest"
  using assms hex_of_nat_facts [of g]
  by (cases rest; auto simp: list_all_iff takeWhile_append dropWhile_append)+

text \<open>One group of the loop, followed by a colon or by the end.\<close>

lemma v6_loop_group:
  assumes "g < 65536" "rest = [] \<or> hd rest = CHR '':''"
  shows "v6_loop (Suc k) (hex_of_nat g @ rest) bs ell =
     (let bs' = bs @ [g div 256, g mod 256] in
      case rest of
        [] \<Rightarrow> Some ([], bs', ell)
      | c # t \<Rightarrow>
          if t = [] then None
          else if hd t = CHR '':'' then
            (if ell \<noteq> None then None
             else if tl t = [] then Some ([], bs', Some (length bs'))
             else v6_loop k (tl t) bs' (Some (length bs')))
          else v6_loop k t bs' ell)"
proof -
  have r: "rest = [] \<or> \<not> is_hex (hd rest)" using assms(2) by (auto simp: not_hex)
  have "length (hex_of_nat g) \<le> 4" using hex_of_nat_length [of g 4] assms(1) by simp
  with assms hex_of_nat_facts [of g] show ?thesis
    by (auto simp: take_hex [OF r] Let_def split: list.splits)
qed

lemma v6_loop_hexs:
  "small_groups gs \<Longrightarrow> gs \<noteq> [] \<Longrightarrow> length gs \<le> k \<Longrightarrow>
   v6_loop k (hexs gs) bs ell = Some ([], bs @ group_bytes gs, ell)"
proof (induction gs arbitrary: k bs)
  case (Cons g gs)
  from Cons.prems obtain k' where k: "k = Suc k'" by (cases k) auto
  show ?case
  proof (cases "gs = []")
    case True
    with Cons.prems k show ?thesis
      using v6_loop_group [of g "[]" k' bs ell]
      by (simp add: hexs_Cons group_bytes_def small_groups_def)
  next
    case False
    then have h: "hexs gs \<noteq> []" "hd (hexs gs) \<noteq> CHR '':''"
      using hexs_hd [of gs] not_hex by metis+
    from Cons False k have
      "v6_loop k' (hexs gs) (bs @ [g div 256, g mod 256]) ell = Some ([], bs @ group_bytes (g # gs), ell)"
      by (simp add: small_groups_def group_bytes_def)
    with False h Cons.prems k v6_loop_group [of g "CHR '':'' # hexs gs" k' bs ell] show ?thesis
      by (simp add: hexs_Cons small_groups_def)
  qed
qed simp

lemma v6_loop_ellipsis:
  "small_groups gs \<Longrightarrow> gs \<noteq> [] \<Longrightarrow> small_groups hs \<Longrightarrow> length gs + length hs \<le> k \<Longrightarrow>
   v6_loop k (hexs gs @ ''::'' @ hexs hs) bs None =
     Some ([], bs @ group_bytes gs @ group_bytes hs, Some (length (bs @ group_bytes gs)))"
proof (induction gs arbitrary: k bs)
  case (Cons g gs)
  from Cons.prems obtain k' where k: "k = Suc k'" by (cases k) auto
  show ?case
  proof (cases "gs = []")
    case True
    have "hs \<noteq> [] \<Longrightarrow> hexs hs \<noteq> []" using hexs_hd by blast
    moreover have "hs = [] \<Longrightarrow> hexs hs = []" by (simp add: hexs_def)
    ultimately show ?thesis
      using True Cons.prems k v6_loop_group [of g "''::'' @ hexs hs" k' bs None]
        v6_loop_hexs [of hs k' "bs @ [g div 256, g mod 256]" "Some (Suc (Suc (length bs)))"]
      by (cases "hs = []") (simp_all add: hexs_Cons group_bytes_def small_groups_def)
  next
    case False
    then have h: "hexs gs \<noteq> []" "hd (hexs gs) \<noteq> CHR '':''"
      using hexs_hd [of gs] not_hex by metis+
    from Cons False k have
      "v6_loop k' (hexs gs @ ''::'' @ hexs hs) (bs @ [g div 256, g mod 256]) None =
        Some ([], bs @ group_bytes (g # gs) @ group_bytes hs, Some (length (bs @ group_bytes (g # gs))))"
      by (simp add: small_groups_def group_bytes_def)
    with False h Cons.prems k v6_loop_group [of g "CHR '':'' # hexs gs @ ''::'' @ hexs hs" k' bs None]
    show ?thesis by (simp add: hexs_Cons small_groups_def)
  qed
qed simp

lemma group_bytes_append: "group_bytes (a @ b) = group_bytes a @ group_bytes b"
  by (simp add: group_bytes_def)

lemma group_bytes_zeros: "group_bytes (replicate n 0) = replicate (2 * n) 0"
  by (induction n) (simp_all add: group_bytes_def)

lemma length_group_bytes: "length (group_bytes gs) = 2 * length gs"
  by (induction gs) (simp_all add: group_bytes_def)

lemma word_of_groups:
  "foldl (\<lambda>acc b. acc * 256 + of_nat b) a (group_bytes gs) =
   foldl (\<lambda>acc g. acc * 65536 + of_nat g) (a :: 'a::len word) gs"
proof (induction gs arbitrary: a)
  case (Cons g gs)
  have "(a * 256 + of_nat (g div 256)) * 256 + of_nat (g mod 256) =
        a * 65536 + (of_nat (g div 256) * 256 + of_nat (g mod 256))"
    by (simp only: distrib_right mult.assoc add.assoc numeral_times_numeral semiring_norm)
  also have "of_nat (g div 256) * 256 + of_nat (g mod 256) = (of_nat (g div 256 * 256 + g mod 256) :: 'a word)"
    by (simp only: of_nat_add of_nat_mult of_nat_numeral)
  also have "g div 256 * 256 + g mod 256 = g" by (rule div_mult_mod_eq)
  finally have "foldl (\<lambda>acc b. acc * 256 + of_nat b) a (group_bytes (g # gs)) =
        foldl (\<lambda>acc b. acc * 256 + of_nat b) (a * 65536 + of_nat g) (group_bytes gs)"
    by (simp only: group_bytes_def list.map concat.simps append.simps foldl.simps)
  with Cons.IH show ?case by simp
qed (simp add: group_bytes_def)

lemma horner_step: "n div (65536 * d) * 65536 + n div d mod 65536 = n div d" for n d :: nat
  by (metis div_mult2_eq div_mult_mod_eq mult.commute)

lemma power_numeral_16:
  "65536 * 2^96 = (2^112 :: nat)" "65536 * 2^80 = (2^96 :: nat)" "65536 * 2^64 = (2^80 :: nat)"
  "65536 * 2^48 = (2^64 :: nat)" "65536 * 2^32 = (2^48 :: nat)" "65536 * 65536 = (2^32 :: nat)"
  "65536 = (2^16 :: nat)"
  by simp_all

lemma word_of_bytes_groups: "word_of_bytes (group_bytes (groups w)) = w"
proof -
  define n where "n = unat w"
  have g: "groups w = [n div 2^112 mod 65536, n div 2^96 mod 65536, n div 2^80 mod 65536,
    n div 2^64 mod 65536, n div 2^48 mod 65536, n div 2^32 mod 65536, n div 2^16 mod 65536, n mod 65536]"
    by (simp add: groups_def upt_rec n_def unat_shift)
  have "n < 2 ^ 128" unfolding n_def using unsigned_less [of w] by simp
  then have top: "n div 2^112 mod 65536 = n div 2^112" by simp
  have steps: "n div 2^112 * 65536 + n div 2^96 mod 65536 = n div 2^96"
    "n div 2^96 * 65536 + n div 2^80 mod 65536 = n div 2^80"
    "n div 2^80 * 65536 + n div 2^64 mod 65536 = n div 2^64"
    "n div 2^64 * 65536 + n div 2^48 mod 65536 = n div 2^48"
    "n div 2^48 * 65536 + n div 2^32 mod 65536 = n div 2^32"
    "n div 2^32 * 65536 + n div 2^16 mod 65536 = n div 2^16"
    "n div 2^16 * 65536 + n mod 65536 = n"
    using horner_step [of n "2^96"] horner_step [of n "2^80"] horner_step [of n "2^64"]
      horner_step [of n "2^48"] horner_step [of n "2^32"] horner_step [of n "2^16"] horner_step [of n 1]
    by (simp_all only: power_numeral_16(1-6) div_by_1 mult_1_right power_numeral_16(7) [symmetric])
  have "foldl (\<lambda>acc g. acc * 65536 + g) 0 (groups w) = n"
    unfolding g by (simp only: foldl.simps mult_zero_left add_0_left top steps)
  moreover have "foldl (\<lambda>acc g. acc * 65536 + of_nat g) (of_nat m :: 128 word) gs =
      of_nat (foldl (\<lambda>acc g. acc * 65536 + g) m gs)" for m gs
  proof (induction gs arbitrary: m)
    case (Cons g gs)
    have "(of_nat m * 65536 + of_nat g :: 128 word) = of_nat (m * 65536 + g)" by simp
    with Cons.IH [of "m * 65536 + g"] show ?case by (simp only: foldl.simps)
  qed simp
  from this [of 0] have "foldl (\<lambda>acc g. acc * 65536 + of_nat g) (0 :: 128 word) (groups w) =
      of_nat (foldl (\<lambda>acc g. acc * 65536 + g) 0 (groups w))" by simp
  ultimately show ?thesis
    by (simp add: word_of_bytes_def word_of_groups n_def)
qed

definition run_ok :: "nat list \<Rightarrow> nat \<times> nat \<Rightarrow> bool" where
  "run_ok gs r \<longleftrightarrow> r = (255, 255) \<or>
     (fst r < snd r \<and> snd r \<le> length gs \<and>
      gs = take (fst r) gs @ replicate (snd r - fst r) 0 @ drop (snd r) gs)"

lemma zero_prefix:
  "gs = take i gs @ replicate l 0 @ drop (i + l) gs" if "l = length (takeWhile (\<lambda>g. g = 0) (drop i gs))"
  for gs :: "nat list"
proof -
  have "takeWhile (\<lambda>g. g = 0) (drop i gs) = replicate l 0"
    using that by (metis (full_types) replicate_eqI set_takeWhileD)
  moreover have "dropWhile (\<lambda>g. g = 0) (drop i gs) = drop (i + l) gs"
    using that by (simp add: dropWhile_eq_drop add.commute)
  ultimately show ?thesis by (metis append_take_drop_id takeWhile_dropWhile_id)
qed

lemma zero_run_ok: "run_ok gs (zero_run gs)"
proof -
  have step: "run_ok gs (foldl (\<lambda>(zs, ze) i.
              let l = length (takeWhile (\<lambda>g. g = 0) (drop i gs))
              in if 2 \<le> l \<and> ze - zs < l then (i, i + l) else (zs, ze)) r is)"
    if "run_ok gs r" "list_all (\<lambda>i. i < length gs) is" for r "is"
    using that
  proof (induction "is" arbitrary: r)
    case (Cons i js)
    let ?l = "length (takeWhile (\<lambda>g. g = 0) (drop i gs))"
    have "?l \<le> length gs - i" using length_takeWhile_le [of "\<lambda>g. g = 0" "drop i gs"] by simp
    with Cons.prems zero_prefix [of ?l i gs] have "2 \<le> ?l \<Longrightarrow> run_ok gs (i, i + ?l)"
      by (auto simp: run_ok_def)
    with Cons show ?case by (cases r) (simp add: Let_def)
  qed simp
  show ?thesis unfolding zero_run_def by (rule step) (auto simp: run_ok_def list_all_iff)
qed


lemma small_groups_groups: "small_groups (groups w)"
  by (auto simp: small_groups_def groups_def list_all_iff)

lemma length_groups [simp]: "length (groups w) = 8"
  by (simp add: groups_def)

definition v6_plain :: "string \<Rightarrow> bool" where
  "v6_plain s \<longleftrightarrow> list_all (\<lambda>c. is_hex c \<or> c = CHR '':'') s"

lemma hexs_chars: "v6_plain (hexs gs)"
  using hex_of_nat_facts
  by (induction gs) (auto simp: hexs_Nil hexs_Cons list_all_iff v6_plain_def split: if_splits)

text \<open>The text of an address has only hexadecimal digits and colons, with a colon among them.\<close>

lemma ParseAddr_colon:
  assumes "v6_plain s" "CHR '':'' \<in> set s"
  shows "ParseAddr s = parse_v6 s"
proof -
  have "find (\<lambda>c. c = CHR ''.'' \<or> c = CHR '':'' \<or> c = CHR ''%'') s = Some (CHR '':'')"
    using assms
  proof (induction s)
    case (Cons c s)
    have "is_hex c \<or> c = CHR '':''" using Cons.prems(1) by (simp add: v6_plain_def)
    then show ?case using Cons not_hex by (auto simp: v6_plain_def)
  qed simp
  then show ?thesis by (simp add: ParseAddr_def)
qed

lemma parse_v6_plain:
  assumes "v6_plain s"
  shows "takeWhile (\<lambda>c. c \<noteq> CHR ''%'') s = s" "dropWhile (\<lambda>c. c \<noteq> CHR ''%'') s = []"
  using assms not_hex(3) by (auto simp: v6_plain_def list_all_iff)

lemma small_split:
  "small_groups gs \<Longrightarrow> small_groups (take n gs)" "small_groups gs \<Longrightarrow> small_groups (drop n gs)"
  by (auto simp: small_groups_def list_all_iff dest: in_set_takeD in_set_dropD)

lemma HasPrefix_hexs: "gs \<noteq> [] \<Longrightarrow> \<not> HasPrefix (hexs gs @ t) ''::''"
  using hexs_hd [of gs] not_hex by (cases "hexs gs") (auto simp: HasPrefix_iff)

lemma parse_v6_no_zone:
  assumes "v6_plain s"
  shows "parse_v6 s =
     (let lead = HasPrefix s ''::''; s0 = (if lead then drop 2 s else s)
      in if lead \<and> s0 = [] then Some (Addr6 0 [])
         else (case v6_loop 8 s0 [] (if lead then Some 0 else None) of
                 None \<Rightarrow> None
               | Some (rest, bs, ell) \<Rightarrow>
                   if rest \<noteq> [] then None
                   else if length bs < 16 then
                     (case ell of
                        None \<Rightarrow> None
                      | Some e \<Rightarrow>
                          Some (Addr6 (word_of_bytes (take e bs @ replicate (16 - length bs) 0 @ drop e bs)) []))
                   else if ell \<noteq> None then None
                   else Some (Addr6 (word_of_bytes bs) [])))"
  unfolding parse_v6_def parse_v6_plain [OF assms] Let_def by (simp only: drop_Nil simp_thms if_False)

lemma run_chars:
  "v6_plain (hexs a @ ''::'' @ hexs b)"
  using hexs_chars [of a] hexs_chars [of b] by (auto simp: v6_plain_def)

lemma parse_v6_full:
  assumes "small_groups gs" "length gs = 8"
  shows "parse_v6 (hexs gs) = Some (Addr6 (word_of_bytes (group_bytes gs)) [])"
proof -
  from assms(2) have ne: "gs \<noteq> []" by auto
  with assms v6_loop_hexs [OF assms(1) ne, of 8 "[]" None] HasPrefix_hexs [OF ne, of "[]"]
  show ?thesis
    by (simp add: parse_v6_no_zone [OF hexs_chars] Let_def length_group_bytes)
qed

lemma word_of_zeros: "word_of_bytes (replicate n 0) = 0"
  unfolding word_of_bytes_def by (induction n) simp_all

lemma parse_v6_lead:
  assumes "small_groups b" "length b < 8"
  shows "parse_v6 (hexs [] @ ''::'' @ hexs b) =
         Some (Addr6 (word_of_bytes (replicate (2 * (8 - length b)) 0 @ group_bytes b)) [])"
proof (cases "b = []")
  case True
  then show ?thesis
    unfolding parse_v6_no_zone [OF run_chars]
    by (simp add: hexs_Nil word_of_zeros group_bytes_def)
next
  case False
  have "2 * (8 - length b) = 16 - 2 * length b" by simp
  with False assms v6_loop_hexs [OF assms(1) False, of 8 "[]" "Some 0"] hexs_hd [OF False] show ?thesis
    unfolding parse_v6_no_zone [OF run_chars] Let_def
    by (simp add: hexs_Nil length_group_bytes)
qed

lemma parse_v6_inner:
  assumes "small_groups a" "a \<noteq> []" "small_groups b" "length a + length b < 8"
  shows "parse_v6 (hexs a @ ''::'' @ hexs b) =
         Some (Addr6 (word_of_bytes (group_bytes a @ replicate (2 * (8 - length a - length b)) 0 @ group_bytes b)) [])"
proof -
  have n: "16 - (2 * length a + 2 * length b) = 2 * (8 - length a - length b)" by simp
  from v6_loop_ellipsis [OF assms(1-3), of 8 "[]"] assms(4) have
    "v6_loop 8 (hexs a @ ''::'' @ hexs b) [] None =
       Some ([], group_bytes a @ group_bytes b, Some (2 * length a))"
    by (simp add: length_group_bytes)
  with assms(4) n HasPrefix_hexs [OF assms(2)] show ?thesis
    unfolding parse_v6_no_zone [OF run_chars] Let_def
    by (simp add: length_group_bytes)
qed

lemma ParseAddr_v6_string [simp]: "ParseAddr (v6_string w) = Some (Addr6 w [])"
proof -
  define gs where "gs = groups w"
  obtain zs ze where z: "zero_run gs = (zs, ze)" by force
  have gs: "small_groups gs" "length gs = 8" "word_of_bytes (group_bytes gs) = w"
    by (simp_all add: gs_def small_groups_groups word_of_bytes_groups)
  show ?thesis
  proof (cases "zs = 255")
    case True
    then have s: "v6_string w = hexs gs"
      by (simp add: v6_string_def hexs_def gs_def [symmetric] z Let_def)
    have "CHR '':'' \<in> set (hexs gs)"
      using gs(2) by (cases gs; cases "tl gs") (auto simp: hexs_Cons)
    with parse_v6_full [OF gs(1,2)] gs(3) s show ?thesis
      by (simp add: ParseAddr_colon [OF hexs_chars])
  next
    case False
    with zero_run_ok [of gs] z gs(2) have r: "zs < ze" "ze \<le> 8"
      and split: "gs = take zs gs @ replicate (ze - zs) 0 @ drop ze gs"
      by (auto simp: run_ok_def)
    let ?a = "take zs gs" and ?b = "drop ze gs"
    have s: "v6_string w = hexs ?a @ ''::'' @ hexs ?b"
      using False by (simp add: v6_string_def hexs_def gs_def [symmetric] z Let_def)
    have small: "small_groups ?a" "small_groups ?b" using gs(1) by (simp_all add: small_split)
    have len: "length ?a = zs" "length ?b = 8 - ze" using r gs(2) by simp_all
    then have n: "8 - length ?a - length ?b = ze - zs" using r by simp
    have bytes: "group_bytes ?a @ replicate (2 * (ze - zs)) 0 @ group_bytes ?b = group_bytes gs"
      by (subst (3) split) (simp only: group_bytes_append group_bytes_zeros)
    have "parse_v6 (hexs ?a @ ''::'' @ hexs ?b) = Some (Addr6 w [])"
    proof (cases "?a = []")
      case True
      with len r n bytes parse_v6_lead [OF small(2)] gs(3) show ?thesis
        by (simp add: group_bytes_def)
    next
      case False
      with len r n bytes parse_v6_inner [OF small(1) False small(2)] gs(3) show ?thesis
        by simp
    qed
    with ParseAddr_colon [OF run_chars, of ?a ?b] s show ?thesis by simp
  qed
qed


section \<open>Printing an address loses nothing\<close>

lemma v4_mapped_To4: "To4 w = Some a \<Longrightarrow> v4_mapped a = w"
proof -
  assume "To4 w = Some a"
  then have hi: "drop_bit 32 w = 0xffff" and a: "a = ucast w" by (auto simp: To4_def split: if_splits)
  have "v4_mapped a = push_bit 32 (drop_bit 32 w) OR ucast (ucast w :: 32 word)"
    by (simp only: v4_mapped_def hi a)
  also have "\<dots> = w"
    by (rule bit_word_eqI) (auto simp: bit_simps)
  finally show ?thesis .
qed

definition addr_of_IP :: "netIP \<Rightarrow> addr" where
  "addr_of_IP w = (case To4 w of Some a \<Rightarrow> Addr4 a | None \<Rightarrow> Addr6 w [])"

lemma ParseAddr_IP_String [simp]: "ParseAddr (IP_String w) = Some (addr_of_IP w)"
  by (simp add: IP_String_def addr_of_IP_def split: option.splits)

lemma ParseIP_IP_String [simp]: "ParseIP (IP_String w) = Some w"
  by (simp add: ParseIP_def addr_of_IP_def v4_mapped_To4 split: option.splits)

end
