(* ===== verification/Model.thy ===== *)
theory Model
  imports Prelude
begin

text \<open>
  The data model (\<^verbatim>\<open>internal/model/model.go\<close>): jobs, events, tool results, agents with their
  labels, schedules. A Go struct is a record whose fields carry a short prefix; a pointer
  field is an \<open>option\<close>; \<^verbatim>\<open>map[string]any\<close> is a Go map into decoded JSON values. A
  \<^verbatim>\<open>float64\<close> is only stored here and is a rational number.
\<close>

unbundle bit_operations_syntax


section \<open>Enumerations\<close>

type_synonym Tool = string
type_synonym IPVersion = int
type_synonym ProtocolMask = "8 word"
type_synonym float64 = rat

abbreviation ToolPing :: Tool where "ToolPing \<equiv> ''ping''"
abbreviation ToolTraceroute :: Tool where "ToolTraceroute \<equiv> ''traceroute''"
abbreviation ToolMTR :: Tool where "ToolMTR \<equiv> ''mtr''"
abbreviation ToolHTTP :: Tool where "ToolHTTP \<equiv> ''http''"
abbreviation ToolDNS :: Tool where "ToolDNS \<equiv> ''dns''"
abbreviation ToolPort :: Tool where "ToolPort \<equiv> ''port''"

abbreviation (input) IPAny :: IPVersion where "IPAny \<equiv> 0"
abbreviation (input) IPv4 :: IPVersion where "IPv4 \<equiv> 4"
abbreviation (input) IPv6 :: IPVersion where "IPv6 \<equiv> 6"

definition ProtocolIPv4 :: ProtocolMask where "ProtocolIPv4 = 1"
definition ProtocolIPv6 :: ProtocolMask where "ProtocolIPv6 = 2"
definition ProtocolAll :: ProtocolMask where "ProtocolAll = ProtocolIPv4 OR ProtocolIPv6"

datatype JobStatus = JobQueued | JobRunning | JobSucceeded | JobFailed | JobCanceled

fun JobStatus_string :: "JobStatus \<Rightarrow> string" where
  "JobStatus_string JobQueued = ''queued''"
| "JobStatus_string JobRunning = ''running''"
| "JobStatus_string JobSucceeded = ''succeeded''"
| "JobStatus_string JobFailed = ''failed''"
| "JobStatus_string JobCanceled = ''canceled''"

datatype AgentStatus = AgentOnline | AgentOffline


section \<open>Jobs and their public errors\<close>

record Job =
  jID :: string
  jParentID :: string
  jScheduledID :: string
  jScheduledRevision :: int
  jTool :: Tool
  jTarget :: string
  jResolvedTarget :: string
  jArgs :: strmap
  jIPVersion :: IPVersion
  jAgentID :: string
  jResolveOnAgent :: bool
  jStatus :: JobStatus
  jCreatedAt :: time
  jUpdatedAt :: time
  jStartedAt :: "time option"
  jCompletedAt :: "time option"
  jError :: string

abbreviation JobErrorTargetBlocked :: string where "JobErrorTargetBlocked \<equiv> ''target_blocked''"
abbreviation JobErrorUnsupportedTool :: string where "JobErrorUnsupportedTool \<equiv> ''unsupported_tool''"
abbreviation JobErrorUnsupportedProtocol :: string where "JobErrorUnsupportedProtocol \<equiv> ''unsupported_protocol''"
abbreviation JobErrorAgentDisconnected :: string where "JobErrorAgentDisconnected \<equiv> ''agent_disconnected''"
abbreviation JobErrorTimeout :: string where "JobErrorTimeout \<equiv> ''job_timeout''"
abbreviation JobErrorToolFailed :: string where "JobErrorToolFailed \<equiv> ''tool_failed''"
abbreviation JobErrorFanoutFailed :: string where "JobErrorFanoutFailed \<equiv> ''fanout_failed''"
abbreviation JobErrorFailed :: string where "JobErrorFailed \<equiv> ''job_failed''"

definition PublicJobErrorType :: "string \<Rightarrow> string" where
  "PublicJobErrorType message =
     (let m = TrimSpace (ToLower message) in
      if m = [] then []
      else if m = JobErrorTargetBlocked then JobErrorTargetBlocked
      else if m = JobErrorUnsupportedTool then JobErrorUnsupportedTool
      else if m = JobErrorUnsupportedProtocol then JobErrorUnsupportedProtocol
      else if m \<in> set [JobErrorAgentDisconnected, ''agent disconnected''] then JobErrorAgentDisconnected
      else if m \<in> set [JobErrorTimeout, ''job timed out'', ''timeout''] then JobErrorTimeout
      else if m \<in> set [JobErrorToolFailed, ''agent tool failed''] then JobErrorToolFailed
      else if m \<in> set [JobErrorFanoutFailed, ''one or more fanout jobs failed''] then JobErrorFanoutFailed
      else JobErrorFailed)"

text \<open>The field \<^verbatim>\<open>error_type\<close> that \<^verbatim>\<open>Job.MarshalJSON\<close> adds; the field \<^verbatim>\<open>Error\<close> is not encoded.\<close>

definition Job_error_type :: "Job \<Rightarrow> string" where
  "Job_error_type j =
     (if jStatus j = JobFailed \<or> jStatus j = JobCanceled then PublicJobErrorType (jError j) else [])"


section \<open>Events and results\<close>

datatype json =
    JNull
  | JBool bool
  | JNum rat
  | JStr string
  | JArr "json list"
  | JObj "(string \<times> json) list"

type_synonym metric = "(string, json) gomap"

record ProbeResult =
  prHost :: string
  prIP :: string
  prRTTMS :: "float64 option"
  prTimeout :: bool

record HopResult =
  hIndex :: int
  hHost :: string
  hIP :: string
  hRTTMS :: "float64 option"
  hTimeout :: bool
  hProbes :: "ProbeResult list"
  hLossPct :: "float64 option"
  hSent :: "int option"
  hAvgMS :: "float64 option"
  hBestMS :: "float64 option"
  hWorstMS :: "float64 option"
  hLastMS :: "float64 option"
  hStdevMS :: "float64 option"
  hTimesMS :: "float64 list"

definition FlattenSingleProbe :: "HopResult \<Rightarrow> HopResult" where
  "FlattenSingleProbe h =
     (case hProbes h of
        [] \<Rightarrow> h
      | probe # _ \<Rightarrow>
          h\<lparr>hHost := (if hHost h = [] then prHost probe else hHost h),
            hIP := (if hIP h = [] then prIP probe else hIP h),
            hRTTMS := (if hRTTMS h = None then prRTTMS probe else hRTTMS h),
            hTimeout := prTimeout probe,
            hProbes := []\<rparr>)"

datatype DNSRecord = DNSRecord (rType: string) (rValue: string)

text \<open>
  The comparison \<^verbatim>\<open>sortedDNSRecords\<close> passes to \<^verbatim>\<open>sort.Slice\<close> orders records by type and then
  by value. It is a linear order, so the sorted slice is unique although \<^verbatim>\<open>sort.Slice\<close> is not
  stable, and the library's \<^const>\<open>sort\<close> at the instance below is the code's sort.
\<close>

definition lessDNSRecord :: "DNSRecord \<Rightarrow> DNSRecord \<Rightarrow> bool" where
  "lessDNSRecord a b \<longleftrightarrow> (if rType a = rType b then rValue a < rValue b else rType a < rType b)"

lemma lessDNSRecord_irrefl: "\<not> lessDNSRecord a a"
  by (simp add: lessDNSRecord_def)

lemma lessDNSRecord_asym: "lessDNSRecord a b \<Longrightarrow> \<not> lessDNSRecord b a"
  by (auto simp: lessDNSRecord_def split: if_splits)

lemma lessDNSRecord_negtrans:
  "\<not> lessDNSRecord b a \<Longrightarrow> \<not> lessDNSRecord c b \<Longrightarrow> \<not> lessDNSRecord c a"
  by (auto simp: lessDNSRecord_def not_less split: if_splits)

lemma lessDNSRecord_linear: "\<not> lessDNSRecord a b \<Longrightarrow> \<not> lessDNSRecord b a \<Longrightarrow> a = b"
  by (auto simp: lessDNSRecord_def DNSRecord.expand not_less split: if_splits)

instantiation DNSRecord :: linorder
begin

definition less_DNSRecord :: "DNSRecord \<Rightarrow> DNSRecord \<Rightarrow> bool" where
  "less_DNSRecord a b \<longleftrightarrow> lessDNSRecord a b"

definition less_eq_DNSRecord :: "DNSRecord \<Rightarrow> DNSRecord \<Rightarrow> bool" where
  "less_eq_DNSRecord a b \<longleftrightarrow> \<not> lessDNSRecord b a"

instance
proof
  fix a b c :: DNSRecord
  show "(a < b) = (a \<le> b \<and> \<not> b \<le> a)"
    by (auto simp: less_DNSRecord_def less_eq_DNSRecord_def dest: lessDNSRecord_asym)
  show "a \<le> a"
    by (simp add: less_eq_DNSRecord_def lessDNSRecord_irrefl)
  show "a \<le> b \<Longrightarrow> b \<le> c \<Longrightarrow> a \<le> c"
    by (auto simp: less_eq_DNSRecord_def dest: lessDNSRecord_negtrans)
  show "a \<le> b \<Longrightarrow> b \<le> a \<Longrightarrow> a = b"
    by (auto simp: less_eq_DNSRecord_def dest: lessDNSRecord_linear)
  show "a \<le> b \<or> b \<le> a"
    by (auto simp: less_eq_DNSRecord_def dest: lessDNSRecord_asym)
qed

end

definition sortedDNSRecords :: "DNSRecord list \<Rightarrow> DNSRecord list" where
  "sortedDNSRecords records = sort records"

lemma sortedDNSRecords_sorted:
  "sorted_wrt (\<lambda>a b. \<not> lessDNSRecord b a) (sortedDNSRecords records)"
  unfolding sortedDNSRecords_def less_eq_DNSRecord_def [symmetric] by (rule sorted_sort)

record StreamEvent =
  seType :: string
  seMessage :: string
  seHop :: "HopResult option"
  seMetric :: metric

record ToolResult =
  trType :: string
  trTool :: Tool
  trTarget :: string
  trIPVersion :: IPVersion
  trExitCode :: int
  trSummary :: metric
  trHops :: "HopResult list"
  trRecords :: "DNSRecord list"

record JobEvent =
  eID :: string
  eJobID :: string
  eAgentID :: string
  eStream :: string
  eEvent :: "StreamEvent option"
  eExitCode :: "int option"
  eParsed :: "ToolResult option"
  eCreatedAt :: time

text \<open>The values of the payload maps handed to the JSON encoder.\<close>

datatype payload_val =
    PStr string
  | PInt int
  | PMetric metric
  | PHop HopResult
  | PHops "HopResult list"
  | PRecords "DNSRecord list"

type_synonym payload = "(string, payload_val) gomap"

definition metricPayload :: "metric \<Rightarrow> bool \<Rightarrow> metric" where
  "metricPayload metric public =
     (let out = filter (\<lambda>(key, value). \<not> (public \<and> key = ''error'')) metric;
          hadError = (public \<and> mget metric ''error'' \<noteq> None)
      in if public \<and> hadError \<and> length out = 1 \<and> mget out ''status'' \<noteq> None then [] else out)"

definition StreamEvent_payload :: "StreamEvent \<Rightarrow> bool \<Rightarrow> payload" where
  "StreamEvent_payload e public =
     (if seType e \<noteq> [] then [(''type'', PStr (seType e))] else [])
     @ (if seMessage e \<noteq> [] then [(''message'', PStr (seMessage e))] else [])
     @ (case seHop e of Some h \<Rightarrow> [(''hop'', PHop h)] | None \<Rightarrow> [])
     @ (let m = metricPayload (seMetric e) public in if m \<noteq> [] then [(''metric'', PMetric m)] else [])"

definition ToolResult_eventPayload :: "ToolResult \<Rightarrow> bool \<Rightarrow> payload" where
  "ToolResult_eventPayload r public =
     [(''type'', PStr (if trType r = [] then ''summary'' else trType r)),
      (''exit_code'', PInt (trExitCode r))]
     @ (if trSummary r \<noteq> [] then
          (let m = metricPayload (trSummary r) public in if m \<noteq> [] then [(''metric'', PMetric m)] else [])
        else [])
     @ (if trHops r \<noteq> [] then [(''hops'', PHops (trHops r))] else [])
     @ (if trRecords r \<noteq> [] then [(''records'', PRecords (sortedDNSRecords (trRecords r)))] else [])"

definition JobEvent_Payload :: "JobEvent \<Rightarrow> payload option" where
  "JobEvent_Payload e =
     (case eParsed e of
        Some r \<Rightarrow> Some (ToolResult_eventPayload r True)
      | None \<Rightarrow> (case eEvent e of
                  Some ev \<Rightarrow> Some (StreamEvent_payload ev True)
                | None \<Rightarrow> None))"

definition JobEvent_EventType :: "JobEvent \<Rightarrow> string" where
  "JobEvent_EventType e =
     (case eParsed e of
        Some r \<Rightarrow> if trType r \<noteq> [] then trType r else ''summary''
      | None \<Rightarrow>
          (case eEvent e of
             Some ev \<Rightarrow> if seType ev \<noteq> [] then seType ev
                       else if eStream e \<noteq> [] then eStream e else ''message''
           | None \<Rightarrow> if eStream e \<noteq> [] then eStream e else ''message''))"


section \<open>Agents and labels\<close>

record Agent =
  aID :: string
  aCountry :: string
  aRegion :: string
  aProvider :: string
  aISP :: string
  aVersion :: string
  aLabels :: "string list"
  aTokenHash :: string
  aCapabilities :: "Tool list"
  aProtocols :: ProtocolMask
  aStatus :: AgentStatus
  aLastSeenAt :: time
  aCreatedAt :: time

abbreviation AgentAllLabel :: string where "AgentAllLabel \<equiv> ''agent''"
abbreviation AgentGRPCLabel :: string where "AgentGRPCLabel \<equiv> ''agent:grpc''"
abbreviation AgentHTTPLabel :: string where "AgentHTTPLabel \<equiv> ''agent:http''"
abbreviation AgentIDLabelPrefix :: string where "AgentIDLabelPrefix \<equiv> ''id:''"

datatype AgentTransport = AgentTransportGRPC | AgentTransportHTTP

definition AgentIDLabel :: "string \<Rightarrow> string" where
  "AgentIDLabel agentID = AgentIDLabelPrefix @ TrimSpace agentID"

definition IsReservedAgentLabel :: "string \<Rightarrow> bool" where
  "IsReservedAgentLabel lbl =
     (let l = TrimSpace lbl
      in l = AgentAllLabel \<or> l = AgentGRPCLabel \<or> l = AgentHTTPLabel \<or> HasPrefix l AgentIDLabelPrefix)"

text \<open>The closure \<^verbatim>\<open>add\<close> of \<^verbatim>\<open>NormalizeAgentLabels\<close>: the slice \<^verbatim>\<open>out\<close> is also the set \<^verbatim>\<open>seen\<close>.\<close>

definition add_label :: "string \<Rightarrow> string list \<Rightarrow> string list" where
  "add_label lbl out =
     (let l = TrimSpace lbl in if l = [] \<or> l \<in> set out then out else out @ [l])"

definition NormalizeAgentLabels :: "string \<Rightarrow> AgentTransport \<Rightarrow> string list \<Rightarrow> string list" where
  "NormalizeAgentLabels agentID transport labels =
     (let out1 = add_label AgentAllLabel [];
          out2 = (case transport of
                    AgentTransportGRPC \<Rightarrow> add_label AgentGRPCLabel out1
                  | AgentTransportHTTP \<Rightarrow> add_label AgentHTTPLabel out1);
          out3 = add_label (AgentIDLabel agentID) out2
      in fold (\<lambda>lbl out. if IsReservedAgentLabel lbl then out else add_label lbl out) labels out3)"

record AgentToolPermission =
  tpAllowedArgs :: "strmap option"
  tpResolveOnAgent :: "bool option"
  tpIPVersions :: "IPVersion list"
  tpRequiresAgent :: bool


section \<open>Requests and schedules\<close>

record CreateJobRequest =
  rqTool :: Tool
  rqTarget :: string
  rqArgs :: strmap
  rqIPVersion :: IPVersion
  rqAgentID :: string
  rqResolveOnAgent :: bool

record ScheduleTarget =
  stID :: string
  stLabel :: string
  stAllowedAgentIDs :: "string list"
  stIntervalSeconds :: int
  stNextRunAt :: time
  stLastRunAt :: "time option"

record ScheduleTargetRequest =
  sqLabel :: string
  sqIntervalSeconds :: int

record ScheduledJob =
  sID :: string
  sRevision :: int
  sName :: string
  sEnabled :: bool
  sTool :: Tool
  sTarget :: string
  sArgs :: strmap
  sIPVersion :: IPVersion
  sResolveOnAgent :: bool
  sIntervalSeconds :: int
  sNextRunAt :: time
  sLastRunAt :: "time option"
  sScheduleTargets :: "ScheduleTarget list"
  sCreatedAt :: time
  sUpdatedAt :: time

record CreateScheduledJobRequest =
  csName :: string
  csEnabled :: "bool option"
  csTool :: Tool
  csTarget :: string
  csArgs :: strmap
  csIPVersion :: IPVersion
  csResolveOnAgent :: bool
  csScheduleTargets :: "ScheduleTargetRequest list"

definition EffectiveScheduleTargets :: "ScheduledJob \<Rightarrow> ScheduleTarget list" where
  "EffectiveScheduleTargets s = sScheduleTargets s"


section \<open>Label normalisation\<close>

lemma rune_bytes_not_graphic: "r \<in> set space_runes \<Longrightarrow> c \<in> set r \<Longrightarrow> \<not> graphic c"
proof -
  have "list_all (list_all (\<lambda>c. \<not> graphic c)) space_runes"
    by (simp add: space_runes_def graphic_def)
  then show "r \<in> set space_runes \<Longrightarrow> c \<in> set r \<Longrightarrow> \<not> graphic c"
    by (auto simp: list_all_iff)
qed

text \<open>A visible ASCII prefix protects a trimmed string from further trimming.\<close>

lemma TrimSpace_prefixed:
  assumes g: "list_all graphic p" and ne: "p \<noteq> []"
  shows "TrimSpace (p @ TrimSpace x) = p @ TrimSpace x"
proof -
  let ?s = "p @ TrimSpace x"
  have pre: "\<not> HasPrefix ?s r" if r: "r \<in> set space_runes" "r \<noteq> []" for r
  proof
    assume "HasPrefix ?s r"
    then have "hd ?s = hd r" using r HasPrefix_hd by blast
    moreover have "graphic (hd ?s)" using g ne by (cases p) auto
    ultimately show False using rune_bytes_not_graphic [OF r(1)] r(2) by auto
  qed
  have suf: "\<not> HasPrefix (rev ?s) (rev r)" if r: "r \<in> set space_runes" "r \<noteq> []" for r
  proof
    assume "HasPrefix (rev ?s) (rev r)"
    then obtain t where "rev (TrimSpace x) @ rev p = rev r @ t"
      by (auto simp: HasPrefix_iff)
    then obtain u where "(rev (TrimSpace x) = rev r @ u) \<or> (rev r = rev (TrimSpace x) @ u \<and> rev p = u @ t \<and> u \<noteq> [])"
      by (metis append_Nil2 append_eq_append_conv2)
    then show False
    proof
      assume "rev (TrimSpace x) = rev r @ u"
      then show False using TrimSpace_suffix_free [OF r] by (auto simp: HasPrefix_iff)
    next
      assume h: "rev r = rev (TrimSpace x) @ u \<and> rev p = u @ t \<and> u \<noteq> []"
      then obtain c where "c \<in> set u" by (cases u) auto
      with h have "c \<in> set p" "c \<in> set r"
        by (metis Un_iff set_append set_rev)+
      with g rune_bytes_not_graphic [OF r(1)] show False by (auto simp: list_all_iff)
    qed
  qed
  have "trim_left space_runes ?s = ?s" by (rule trim_left_id) (rule pre)
  moreover have "trim_left (map rev space_runes) (rev ?s) = rev ?s"
    by (rule trim_left_id) (auto dest: suf)
  ultimately show ?thesis by (simp add: TrimSpace_def [of ?s])
qed

lemma TrimSpace_AgentIDLabel [simp]: "TrimSpace (AgentIDLabel a) = AgentIDLabel a"
  unfolding AgentIDLabel_def by (rule TrimSpace_prefixed) (simp_all add: graphic_def)

lemma AgentIDLabel_inj: "AgentIDLabel a = AgentIDLabel b \<longleftrightarrow> TrimSpace a = TrimSpace b"
  by (simp add: AgentIDLabel_def)

lemma TrimSpace_const_labels [simp]:
  "TrimSpace AgentAllLabel = AgentAllLabel"
  "TrimSpace AgentGRPCLabel = AgentGRPCLabel"
  "TrimSpace AgentHTTPLabel = AgentHTTPLabel"
  by (simp_all add: TrimSpace_graphic graphic_def)

lemma IsReserved_TrimSpace [simp]: "IsReservedAgentLabel (TrimSpace l) = IsReservedAgentLabel l"
  by (simp add: IsReservedAgentLabel_def)

lemma IsReserved_id [simp]: "IsReservedAgentLabel (AgentIDLabel a)"
proof -
  have "HasPrefix (AgentIDLabel a) AgentIDLabelPrefix"
    by (simp only: AgentIDLabel_def HasPrefix_append)
  then have "HasPrefix (TrimSpace (AgentIDLabel a)) AgentIDLabelPrefix"
    by (simp only: TrimSpace_AgentIDLabel)
  then show ?thesis by (simp add: IsReservedAgentLabel_def)
qed

lemma add_label_distinct: "distinct out \<Longrightarrow> distinct (add_label l out)"
  by (auto simp: add_label_def Let_def)

lemma set_add_label: "set (add_label l out) = set out \<union> ({TrimSpace l} - {[]})"
  by (auto simp: add_label_def Let_def)

lemma add_label_prefix: "\<exists>more. add_label l out = out @ more"
  by (auto simp: add_label_def Let_def)

lemma fold_add_labels:
  fixes labels :: "string list"
  defines "f \<equiv> \<lambda>lbl out. if IsReservedAgentLabel lbl then out else add_label lbl out"
  shows "distinct out \<Longrightarrow> distinct (fold f labels out)"
    and "set (fold f labels out) =
           set out \<union> {TrimSpace l |l. l \<in> set labels \<and> \<not> IsReservedAgentLabel l \<and> TrimSpace l \<noteq> []}"
    and "\<exists>more. fold f labels out = out @ more"
proof -
  show "distinct out \<Longrightarrow> distinct (fold f labels out)"
    by (induction labels arbitrary: out) (auto simp: f_def add_label_distinct)
  show "set (fold f labels out) =
           set out \<union> {TrimSpace l |l. l \<in> set labels \<and> \<not> IsReservedAgentLabel l \<and> TrimSpace l \<noteq> []}"
    by (induction labels arbitrary: out) (auto simp: f_def set_add_label)
  show "\<exists>more. fold f labels out = out @ more"
  proof (induction labels arbitrary: out)
    case (Cons l ls)
    have "\<exists>a. f l out = out @ a"
      using add_label_prefix [of l out] by (auto simp: f_def)
    then obtain a where a: "f l out = out @ a" by blast
    obtain b where "fold f ls (f l out) = f l out @ b" using Cons.IH by blast
    with a show ?case by simp
  qed simp
qed

definition transport_label :: "AgentTransport \<Rightarrow> string" where
  "transport_label t = (case t of AgentTransportGRPC \<Rightarrow> AgentGRPCLabel | AgentTransportHTTP \<Rightarrow> AgentHTTPLabel)"

lemma AgentIDLabel_neq [simp]:
  "AgentIDLabel a \<noteq> AgentAllLabel" "AgentIDLabel a \<noteq> AgentGRPCLabel" "AgentIDLabel a \<noteq> AgentHTTPLabel"
  "AgentIDLabel a \<noteq> []"
  by (simp_all add: AgentIDLabel_def)

lemma server_labels:
  "add_label (AgentIDLabel a)
     (case t of AgentTransportGRPC \<Rightarrow> add_label AgentGRPCLabel (add_label AgentAllLabel [])
              | AgentTransportHTTP \<Rightarrow> add_label AgentHTTPLabel (add_label AgentAllLabel [])) =
   [AgentAllLabel, transport_label t, AgentIDLabel a]"
  by (simp add: add_label_def transport_label_def Let_def split: AgentTransport.splits)

lemma NormalizeAgentLabels_fold:
  "NormalizeAgentLabels a t labels =
   fold (\<lambda>lbl out. if IsReservedAgentLabel lbl then out else add_label lbl out) labels
     [AgentAllLabel, transport_label t, AgentIDLabel a]"
  by (simp only: NormalizeAgentLabels_def Let_def server_labels)

lemma NormalizeAgentLabels_set:
  "set (NormalizeAgentLabels a t labels) =
   {AgentAllLabel, transport_label t, AgentIDLabel a}
   \<union> {TrimSpace l |l. l \<in> set labels \<and> \<not> IsReservedAgentLabel l \<and> TrimSpace l \<noteq> []}"
  by (simp only: NormalizeAgentLabels_fold fold_add_labels(2)) simp

lemma NormalizeAgentLabels_distinct: "distinct (NormalizeAgentLabels a t labels)"
  unfolding NormalizeAgentLabels_fold
  by (rule fold_add_labels(1)) (simp add: transport_label_def not_sym [OF AgentIDLabel_neq(1)]
      not_sym [OF AgentIDLabel_neq(2)] not_sym [OF AgentIDLabel_neq(3)] split: AgentTransport.splits)

lemma NormalizeAgentLabels_first:
  "\<exists>more. NormalizeAgentLabels a t labels = [AgentAllLabel, transport_label t, AgentIDLabel a] @ more"
  unfolding NormalizeAgentLabels_fold by (rule fold_add_labels(3))


section \<open>Public payloads\<close>

lemma metricPayload_no_error: "mget (metricPayload m True) ''error'' = None"
  by (auto simp: metricPayload_def Let_def map_of_eq_None_iff)

lemma metricPayload_sub: "mwf m \<Longrightarrow> mget (metricPayload m public) k = Some v \<Longrightarrow> mget m k = Some v"
  by (auto simp: metricPayload_def Let_def mget_filter split: if_splits option.splits)

end
