(* ===== verification/Config.thy ===== *)
theory Config
  imports Model
begin

text \<open>
  Configuration and managed settings (\<^verbatim>\<open>internal/config/config.go\<close>): the records of the
  settings document, their defaults and their normalisation, and the small parsers of the
  agent configuration. A function that updates through a pointer returns the updated value;
  one that can fail returns what it has written so far together with the error, because one
  caller (the hub) goes on after an error. The clone functions copy a value and are the
  identity here. \<^verbatim>\<open>uuid.NewString\<close> is a parameter: \<open>uuid n\<close> is the \<open>n\<close>-th string it returns,
  and the counter is threaded through. Reading YAML files and environment variables by
  reflection is in \<open>Loading\<close>.
\<close>


section \<open>Records\<close>

record Runtime =
  rtCount :: int
  rtMaxHops :: int
  rtProbeStepTimeoutSec :: int
  rtMaxToolTimeoutSec :: int
  rtHTTPTimeoutSec :: int
  rtDNSTimeoutSec :: int
  rtResolveTimeoutSec :: int
  rtHTTPInvokeAttempts :: int
  rtHTTPMaxHealthIntervalSec :: int

record Scheduler =
  scAgentOfflineAfterSec :: int
  scMaxInflightPerAgent :: int
  scPollIntervalSec :: int

record CfgPolicy =
  cpEnabled :: bool
  cpAllowedArgs :: "strmap option"

record LabelConfig =
  lcRuntime :: "Runtime option"
  lcScheduler :: "Scheduler option"
  lcToolPolicies :: "(string, CfgPolicy) gomap option"

record LimitSpec =
  lsRequestsPerMinute :: int
  lsBurst :: int

record CIDRSpec =
  csRequestsPerMinute :: int
  csBurst :: int
  csIPv4Prefix :: int
  csIPv6Prefix :: int

record ToolLimitSpec =
  tlGlobal :: LimitSpec
  tlCIDR :: LimitSpec
  tlIP :: LimitSpec

record RateLimit =
  rlGlobal :: LimitSpec
  rlIP :: LimitSpec
  rlCIDR :: CIDRSpec
  rlGeoIP :: LimitSpec
  rlTools :: "(string, ToolLimitSpec) gomap"
  rlExemptCIDRs :: "string list"

record APIToolScope =
  asAllowedArgs :: "strmap option"
  asResolveOnAgent :: "bool option"
  asIPVersions :: "int list"

record APITokenPermission =
  atID :: string
  atName :: string
  atSecret :: string
  atRotate :: bool
  atAll :: bool
  atScheduleAccess :: string
  atManageAccess :: string
  atAgents :: "string list"
  atDeniedAgents :: "string list"
  atAgentTags :: "string list"
  atDeniedTags :: "string list"
  atTools :: "(string, APIToolScope) gomap option"

record RegisterToken =
  rgID :: string
  rgName :: string
  rgToken :: string
  rgRotate :: bool

record ManagedSettings =
  msRevision :: int
  msUpdatedAt :: time
  msRateLimit :: RateLimit
  msLabelConfigs :: "(string, LabelConfig) gomap option"
  msAPITokens :: "APITokenPermission list"
  msRegisterTokens :: "RegisterToken list"

record TLS =
  tlsEnabled :: bool
  tlsCAFiles :: "string list"
  tlsCertFile :: string
  tlsKeyFile :: string

record HTTPAgent =
  haID :: string
  haEnabled :: bool
  haBaseURL :: string
  haHTTPToken :: string
  haLabels :: "string list"
  haTLS :: TLS
  haCreatedAt :: time
  haUpdatedAt :: time

record AgentConfig =
  acID :: string
  acDisabled :: bool
  acLabels :: "string list"
  acCreatedAt :: time
  acUpdatedAt :: time


section \<open>Defaults\<close>

definition or_default :: "int \<Rightarrow> int \<Rightarrow> int" where
  "or_default v d = (if v = 0 then d else v)"

definition DefaultRuntimeValues :: "Runtime \<Rightarrow> Runtime" where
  "DefaultRuntimeValues cfg =
     \<lparr>rtCount = or_default (rtCount cfg) 10,
      rtMaxHops = or_default (rtMaxHops cfg) 30,
      rtProbeStepTimeoutSec = or_default (rtProbeStepTimeoutSec cfg) 1,
      rtMaxToolTimeoutSec = or_default (rtMaxToolTimeoutSec cfg) 300,
      rtHTTPTimeoutSec = or_default (rtHTTPTimeoutSec cfg) 5,
      rtDNSTimeoutSec = or_default (rtDNSTimeoutSec cfg) 5,
      rtResolveTimeoutSec = or_default (rtResolveTimeoutSec cfg) 3,
      rtHTTPInvokeAttempts = or_default (rtHTTPInvokeAttempts cfg) 3,
      rtHTTPMaxHealthIntervalSec = or_default (rtHTTPMaxHealthIntervalSec cfg) 300\<rparr>"

definition zero_Runtime :: Runtime where
  "zero_Runtime =
     \<lparr>rtCount = 0, rtMaxHops = 0, rtProbeStepTimeoutSec = 0, rtMaxToolTimeoutSec = 0,
      rtHTTPTimeoutSec = 0, rtDNSTimeoutSec = 0, rtResolveTimeoutSec = 0,
      rtHTTPInvokeAttempts = 0, rtHTTPMaxHealthIntervalSec = 0\<rparr>"

definition DefaultRuntime :: Runtime where
  "DefaultRuntime = DefaultRuntimeValues zero_Runtime"

definition DefaultScheduler :: "Scheduler \<Rightarrow> Scheduler" where
  "DefaultScheduler cfg =
     \<lparr>scAgentOfflineAfterSec = or_default (scAgentOfflineAfterSec cfg) 90,
      scMaxInflightPerAgent = or_default (scMaxInflightPerAgent cfg) 4,
      scPollIntervalSec = or_default (scPollIntervalSec cfg) 2\<rparr>"

definition zero_Scheduler :: Scheduler where
  "zero_Scheduler = \<lparr>scAgentOfflineAfterSec = 0, scMaxInflightPerAgent = 0, scPollIntervalSec = 0\<rparr>"

definition DefaultRateLimit :: "RateLimit \<Rightarrow> RateLimit" where
  "DefaultRateLimit cfg =
     cfg\<lparr>rlGlobal := \<lparr>lsRequestsPerMinute = or_default (lsRequestsPerMinute (rlGlobal cfg)) 600,
                      lsBurst = or_default (lsBurst (rlGlobal cfg)) 200\<rparr>,
         rlIP := \<lparr>lsRequestsPerMinute = or_default (lsRequestsPerMinute (rlIP cfg)) 60,
                  lsBurst = or_default (lsBurst (rlIP cfg)) 20\<rparr>,
         rlCIDR := \<lparr>csRequestsPerMinute = or_default (csRequestsPerMinute (rlCIDR cfg)) 300,
                    csBurst = or_default (csBurst (rlCIDR cfg)) 100,
                    csIPv4Prefix = or_default (csIPv4Prefix (rlCIDR cfg)) 32,
                    csIPv6Prefix = or_default (csIPv6Prefix (rlCIDR cfg)) 128\<rparr>,
         rlGeoIP := \<lparr>lsRequestsPerMinute = or_default (lsRequestsPerMinute (rlGeoIP cfg)) 120,
                     lsBurst = or_default (lsBurst (rlGeoIP cfg)) 60\<rparr>\<rparr>"


section \<open>Label configurations\<close>

definition normalize_label_config :: "LabelConfig \<Rightarrow> LabelConfig" where
  "normalize_label_config cfg =
     cfg\<lparr>lcRuntime := map_option DefaultRuntimeValues (lcRuntime cfg),
         lcScheduler := map_option DefaultScheduler (lcScheduler cfg)\<rparr>"

definition NormalizeLabelConfigs :: "(string, LabelConfig) gomap option \<Rightarrow> (string, LabelConfig) gomap option" where
  "NormalizeLabelConfigs configs =
     (let out = fold (\<lambda>(lbl, cfg) out.
                        let l = TrimSpace lbl
                        in if l = [] then out else mput l (normalize_label_config cfg) out)
                  (case configs of None \<Rightarrow> [] | Some m \<Rightarrow> m) []
      in if out = [] then None else Some out)"

definition EnsureAgentLabelConfig :: "ManagedSettings \<Rightarrow> ManagedSettings" where
  "EnsureAgentLabelConfig settings =
     (let configs = (case msLabelConfigs settings of None \<Rightarrow> [] | Some m \<Rightarrow> m);
          cfg = (case mget configs AgentAllLabel of
                   Some c \<Rightarrow> c
                 | None \<Rightarrow> \<lparr>lcRuntime = None, lcScheduler = None, lcToolPolicies = None\<rparr>);
          cfg' = \<lparr>lcRuntime = Some (case lcRuntime cfg of Some r \<Rightarrow> r | None \<Rightarrow> DefaultRuntime),
                  lcScheduler = Some (case lcScheduler cfg of Some s \<Rightarrow> s | None \<Rightarrow> DefaultScheduler zero_Scheduler),
                  lcToolPolicies = Some (case lcToolPolicies cfg of Some p \<Rightarrow> p | None \<Rightarrow> [])\<rparr>
      in settings\<lparr>msLabelConfigs := Some (mput AgentAllLabel cfg' configs)\<rparr>)"


section \<open>Tokens\<close>

definition norm_access :: "string \<Rightarrow> string option" where
  "norm_access raw =
     (let access = TrimSpace (ToLower raw)
      in if access \<in> set [[], ''none''] then Some ''none''
         else if access \<in> set [''read'', ''write''] then Some access
         else None)"

text \<open>An empty string is replaced by a new UUID.\<close>

definition fill :: "(nat \<Rightarrow> string) \<Rightarrow> nat \<Rightarrow> string \<Rightarrow> string \<times> nat" where
  "fill uuid n raw = (let v = TrimSpace raw in if v = [] then (uuid n, Suc n) else (v, n))"

text \<open>One round of the loop of \<^verbatim>\<open>NormalizeAPITokenPermissions\<close>.\<close>

definition norm_api_token ::
  "(nat \<Rightarrow> string) \<Rightarrow> nat \<Rightarrow> nat \<Rightarrow> string list \<Rightarrow> string list \<Rightarrow> APITokenPermission
     \<Rightarrow> APITokenPermission \<times> nat \<times> error option" where
  "norm_api_token uuid n i seenIDs seen t =
     (let (id, n1) = fill uuid n (atID t) in
      if id \<in> set seenIDs then (t, n1, Some (Errorf ''api_tokens[%d].id is duplicated'' [Itoa (int i)]))
      else
        let t1 = t\<lparr>atID := id\<rparr>; (secret, n2) = fill uuid n1 (atSecret t) in
        if secret \<in> set seen then (t1, n2, Some (Errorf ''api_tokens[%d].secret is duplicated'' [Itoa (int i)]))
        else
          let t2 = t1\<lparr>atSecret := secret\<rparr> in
          case norm_access (atScheduleAccess t) of
            None \<Rightarrow> (t2, n2, Some (Errorf ''api_tokens[%d].schedule_access must be none, read, or write'' [Itoa (int i)]))
          | Some sa \<Rightarrow>
              let t3 = t2\<lparr>atScheduleAccess := sa\<rparr> in
              case norm_access (atManageAccess t) of
                None \<Rightarrow> (t3, n2, Some (Errorf ''api_tokens[%d].manage_access must be none, read, or write'' [Itoa (int i)]))
              | Some ma \<Rightarrow> (t3\<lparr>atManageAccess := ma\<rparr>, n2, None))"

fun norm_api_tokens ::
  "(nat \<Rightarrow> string) \<Rightarrow> nat \<Rightarrow> nat \<Rightarrow> string list \<Rightarrow> string list \<Rightarrow> APITokenPermission list
     \<Rightarrow> APITokenPermission list \<times> nat \<times> error option" where
  "norm_api_tokens uuid n i seenIDs seen [] = ([], n, None)"
| "norm_api_tokens uuid n i seenIDs seen (t # ts) =
     (case norm_api_token uuid n i seenIDs seen t of
        (t', n', Some e) \<Rightarrow> (t' # ts, n', Some e)
      | (t', n', None) \<Rightarrow>
          (case norm_api_tokens uuid n' (Suc i) (atID t' # seenIDs) (atSecret t' # seen) ts of
             (ts', n'', e) \<Rightarrow> (t' # ts', n'', e)))"

definition NormalizeAPITokenPermissions ::
  "(nat \<Rightarrow> string) \<Rightarrow> nat \<Rightarrow> APITokenPermission list \<Rightarrow> APITokenPermission list \<times> nat \<times> error option" where
  "NormalizeAPITokenPermissions uuid n perms = norm_api_tokens uuid n 0 [] [] perms"

fun norm_register_tokens ::
  "(nat \<Rightarrow> string) \<Rightarrow> nat \<Rightarrow> nat \<Rightarrow> string list \<Rightarrow> string list \<Rightarrow> RegisterToken list
     \<Rightarrow> (RegisterToken list) res \<times> nat" where
  "norm_register_tokens uuid n i seenIDs seen [] = (Inr [], n)"
| "norm_register_tokens uuid n i seenIDs seen (item # ts) =
     (let (id, n1) = fill uuid n (rgID item) in
      if id \<in> set seenIDs then (Inl (Errorf ''register_tokens[%d].id is duplicated'' [Itoa (int i)]), n1)
      else
        let (token, n2) = fill uuid n1 (rgToken item) in
        if token \<in> set seen then (Inl (Errorf ''register_tokens[%d].token is duplicated'' [Itoa (int i)]), n2)
        else
          case norm_register_tokens uuid n2 (Suc i) (id # seenIDs) (token # seen) ts of
            (Inl e, n3) \<Rightarrow> (Inl e, n3)
          | (Inr out, n3) \<Rightarrow>
              (Inr (item\<lparr>rgID := id, rgName := TrimSpace (rgName item), rgToken := token\<rparr> # out), n3))"

definition NormalizeRegisterTokens ::
  "(nat \<Rightarrow> string) \<Rightarrow> nat \<Rightarrow> RegisterToken list \<Rightarrow> (RegisterToken list) res \<times> nat" where
  "NormalizeRegisterTokens uuid n tokens = norm_register_tokens uuid n 0 [] [] tokens"

definition ClearManagedSettingsRotateFlags :: "ManagedSettings \<Rightarrow> ManagedSettings" where
  "ClearManagedSettingsRotateFlags settings =
     settings\<lparr>msAPITokens := map (\<lambda>t. t\<lparr>atRotate := False\<rparr>) (msAPITokens settings),
              msRegisterTokens := map (\<lambda>t. t\<lparr>rgRotate := False\<rparr>) (msRegisterTokens settings)\<rparr>"

text \<open>On an error of \<^verbatim>\<open>NormalizeRegisterTokens\<close> the slice is assigned \<^verbatim>\<open>nil\<close>.\<close>

definition NormalizeManagedSettings ::
  "(nat \<Rightarrow> string) \<Rightarrow> nat \<Rightarrow> ManagedSettings \<Rightarrow> ManagedSettings \<times> nat \<times> error option" where
  "NormalizeManagedSettings uuid n settings =
     (let s1 = settings\<lparr>msRateLimit := DefaultRateLimit (msRateLimit settings),
                        msLabelConfigs := NormalizeLabelConfigs (msLabelConfigs settings)\<rparr>;
          s2 = EnsureAgentLabelConfig s1
      in case NormalizeAPITokenPermissions uuid n (msAPITokens s2) of
           (perms, n1, Some e) \<Rightarrow> (s2\<lparr>msAPITokens := perms\<rparr>, n1, Some e)
         | (perms, n1, None) \<Rightarrow>
             let s3 = s2\<lparr>msAPITokens := perms\<rparr> in
             case NormalizeRegisterTokens uuid n1 (msRegisterTokens s3) of
               (Inl e, n2) \<Rightarrow> (s3\<lparr>msRegisterTokens := []\<rparr>, n2, Some e)
             | (Inr toks, n2) \<Rightarrow>
                 (ClearManagedSettingsRotateFlags (s3\<lparr>msRegisterTokens := toks\<rparr>), n2, None))"

definition DefaultAdminAPIToken :: "string \<Rightarrow> APITokenPermission" where
  "DefaultAdminAPIToken secret =
     \<lparr>atID = [], atName = ''admin'', atSecret = secret, atRotate = False, atAll = True,
      atScheduleAccess = ''write'', atManageAccess = ''write'', atAgents = [''*''],
      atDeniedAgents = [], atAgentTags = [], atDeniedTags = [], atTools = None\<rparr>"

definition zero_RateLimit :: RateLimit where
  "zero_RateLimit =
     \<lparr>rlGlobal = \<lparr>lsRequestsPerMinute = 0, lsBurst = 0\<rparr>,
      rlIP = \<lparr>lsRequestsPerMinute = 0, lsBurst = 0\<rparr>,
      rlCIDR = \<lparr>csRequestsPerMinute = 0, csBurst = 0, csIPv4Prefix = 0, csIPv6Prefix = 0\<rparr>,
      rlGeoIP = \<lparr>lsRequestsPerMinute = 0, lsBurst = 0\<rparr>,
      rlTools = [], rlExemptCIDRs = []\<rparr>"

definition zero_ManagedSettings :: ManagedSettings where
  "zero_ManagedSettings =
     \<lparr>msRevision = 0, msUpdatedAt = 0, msRateLimit = zero_RateLimit, msLabelConfigs = None,
      msAPITokens = [], msRegisterTokens = []\<rparr>"

definition DefaultManagedSettings :: "(nat \<Rightarrow> string) \<Rightarrow> nat \<Rightarrow> ManagedSettings \<times> nat" where
  "DefaultManagedSettings uuid n =
     (let (s1, n1, _) = NormalizeManagedSettings uuid n zero_ManagedSettings;
          (s2, n2, _) = NormalizeManagedSettings uuid (Suc n1) (s1\<lparr>msAPITokens := [DefaultAdminAPIToken (uuid n1)]\<rparr>)
      in (s2, n2))"


section \<open>Agent configuration\<close>

record Speedtest =
  spDefaultBytes :: int
  spMaxBytes :: int
  spGlobalRequestsPerMinute :: int
  spGlobalBurst :: int
  spIPRequestsPerMinute :: int
  spIPBurst :: int

definition defaultSpeedtest :: "Speedtest \<Rightarrow> Speedtest" where
  "defaultSpeedtest cfg =
     (let d = (if spDefaultBytes cfg \<le> 0 then 1048576 else spDefaultBytes cfg);
          m = (if spMaxBytes cfg < 0 then 0 else spMaxBytes cfg)
      in \<lparr>spDefaultBytes = (if 0 < m \<and> m < d then m else d),
          spMaxBytes = m,
          spGlobalRequestsPerMinute = or_default (spGlobalRequestsPerMinute cfg) 120,
          spGlobalBurst = or_default (spGlobalBurst cfg) 20,
          spIPRequestsPerMinute = or_default (spIPRequestsPerMinute cfg) 12,
          spIPBurst = or_default (spIPBurst cfg) 3\<rparr>)"

definition NormalizePathPrefix :: "string \<Rightarrow> string res" where
  "NormalizePathPrefix raw =
     (let pre = TrimSpace raw in
      if pre = [] \<or> pre = ''/'' then Inr []
      else if ContainsAny pre ''?#'' then Inl (Errorf ''must not contain query or fragment'' [])
      else if ContainsAny pre [CHR '' '', CHR 0x09, CHR 0x0D, CHR 0x0A] then Inl (Errorf ''must not contain whitespace'' [])
      else let p = (if HasPrefix pre ''/'' then pre else CHR ''/'' # pre)
           in Inr (rev (dropWhile (\<lambda>c. c = CHR ''/'') (rev p))))"

definition envName :: "string list \<Rightarrow> string" where
  "envName path =
     join ''_'' (''MTR'' # map (\<lambda>part. map (\<lambda>c. upper_char (if c = CHR ''-'' then CHR ''_'' else c)) part) path)"

definition splitEnvList :: "string \<Rightarrow> string list" where
  "splitEnvList raw = filter (\<lambda>item. item \<noteq> []) (map TrimSpace (split (CHR '','') raw))"



section \<open>What normalisation guarantees\<close>

text \<open>
  What the program relies on of \<^verbatim>\<open>uuid.NewString\<close>: it never returns the empty string, and no
  white space around it.
\<close>

definition uuid_ok :: "(nat \<Rightarrow> string) \<Rightarrow> bool" where
  "uuid_ok uuid \<longleftrightarrow> (\<forall>n. uuid n \<noteq> [] \<and> TrimSpace (uuid n) = uuid n)"

definition access_ok :: "string \<Rightarrow> bool" where
  "access_ok a \<longleftrightarrow> a \<in> set [''none'', ''read'', ''write'']"

lemma norm_access_ok: "norm_access a = Some b \<Longrightarrow> access_ok b"
  by (auto simp: norm_access_def access_ok_def Let_def split: if_splits)

lemma norm_access_const:
  "norm_access ''none'' = Some ''none''" "norm_access ''read'' = Some ''read''"
  "norm_access ''write'' = Some ''write''"
  by code_simp+

lemma norm_access_id: "access_ok a \<Longrightarrow> norm_access a = Some a"
  by (auto simp: access_ok_def norm_access_const)

lemma fill_stable: "uuid_ok uuid \<Longrightarrow> fill uuid n raw = (v, n') \<Longrightarrow> fill uuid m v = (v, m)"
  by (auto simp: fill_def uuid_ok_def Let_def split: if_splits)

lemma fill_nonempty: "uuid_ok uuid \<Longrightarrow> fill uuid n raw = (v, n') \<Longrightarrow> v \<noteq> []"
  by (auto simp: fill_def uuid_ok_def Let_def split: if_splits)

lemma norm_api_token_None:
  assumes "norm_api_token uuid n i ids secs t = (t', n', None)"
  obtains tid n1 sec sa ma where
    "fill uuid n (atID t) = (tid, n1)" "tid \<notin> set ids"
    "fill uuid n1 (atSecret t) = (sec, n')" "sec \<notin> set secs"
    "norm_access (atScheduleAccess t) = Some sa" "norm_access (atManageAccess t) = Some ma"
    "t' = t\<lparr>atID := tid, atSecret := sec, atScheduleAccess := sa, atManageAccess := ma\<rparr>"
proof -
  obtain tid n1 where f1: "fill uuid n (atID t) = (tid, n1)" by force
  obtain sec n2 where f2: "fill uuid n1 (atSecret t) = (sec, n2)" by force
  from assms f1 f2 obtain sa ma where
    "norm_access (atScheduleAccess t) = Some sa" "norm_access (atManageAccess t) = Some ma"
    by (auto simp: norm_api_token_def Let_def split: if_splits option.splits)
  with assms f1 f2 show thesis
    by (intro that [of tid n1 sec sa ma]) (simp_all add: norm_api_token_def Let_def split: if_splits)
qed

lemma norm_api_token_Some:
  "fill uuid n (atID t) = (tid, n1) \<Longrightarrow> tid \<notin> set ids \<Longrightarrow>
   fill uuid n1 (atSecret t) = (sec, n2) \<Longrightarrow> sec \<notin> set secs \<Longrightarrow>
   norm_access (atScheduleAccess t) = Some sa \<Longrightarrow> norm_access (atManageAccess t) = Some ma \<Longrightarrow>
   norm_api_token uuid n i ids secs t =
     (t\<lparr>atID := tid, atSecret := sec, atScheduleAccess := sa, atManageAccess := ma\<rparr>, n2, None)"
  by (simp add: norm_api_token_def)

lemma norm_api_token_ok:
  assumes "norm_api_token uuid n i ids secs t = (t', n', None)"
  shows "atID t' \<notin> set ids" "atSecret t' \<notin> set secs"
    "access_ok (atScheduleAccess t')" "access_ok (atManageAccess t')"
    "uuid_ok uuid \<Longrightarrow> atID t' \<noteq> [] \<and> atSecret t' \<noteq> []"
proof -
  from assms obtain tid n1 sec sa ma where h:
    "fill uuid n (atID t) = (tid, n1)" "tid \<notin> set ids"
    "fill uuid n1 (atSecret t) = (sec, n')" "sec \<notin> set secs"
    "norm_access (atScheduleAccess t) = Some sa" "norm_access (atManageAccess t) = Some ma"
    "t' = t\<lparr>atID := tid, atSecret := sec, atScheduleAccess := sa, atManageAccess := ma\<rparr>"
    by (rule norm_api_token_None)
  from h show "atID t' \<notin> set ids" "atSecret t' \<notin> set secs"
    "access_ok (atScheduleAccess t')" "access_ok (atManageAccess t')"
    by (simp_all add: norm_access_ok)
  from h show "uuid_ok uuid \<Longrightarrow> atID t' \<noteq> [] \<and> atSecret t' \<noteq> []"
    by (auto dest: fill_nonempty)
qed

lemma norm_api_token_stable:
  assumes u: "uuid_ok uuid" and t: "norm_api_token uuid n i ids secs t = (t', n', None)"
  shows "norm_api_token uuid m j ids secs t' = (t', m, None)"
proof -
  from t obtain tid n1 sec sa ma where h:
    "fill uuid n (atID t) = (tid, n1)" "tid \<notin> set ids"
    "fill uuid n1 (atSecret t) = (sec, n')" "sec \<notin> set secs"
    "norm_access (atScheduleAccess t) = Some sa" "norm_access (atManageAccess t) = Some ma"
    "t' = t\<lparr>atID := tid, atSecret := sec, atScheduleAccess := sa, atManageAccess := ma\<rparr>"
    by (rule norm_api_token_None)
  from h have
    "fill uuid m (atID t') = (tid, m)" "fill uuid m (atSecret t') = (sec, m)"
    "norm_access (atScheduleAccess t') = Some sa" "norm_access (atManageAccess t') = Some ma"
    using fill_stable [OF u h(1), of m] fill_stable [OF u h(3), of m]
    by (simp_all add: norm_access_id norm_access_ok)
  from norm_api_token_Some [OF this(1) h(2) this(2) h(4) this(3,4)] h(7) show ?thesis by simp
qed

lemma norm_api_tokens_ok:
  assumes "norm_api_tokens uuid n i ids secs ts = (ts', n', None)"
  shows "distinct (map atID ts') \<and> set (map atID ts') \<inter> set ids = {}
    \<and> distinct (map atSecret ts') \<and> set (map atSecret ts') \<inter> set secs = {}
    \<and> list_all (\<lambda>t. access_ok (atScheduleAccess t) \<and> access_ok (atManageAccess t)) ts'
    \<and> (uuid_ok uuid \<longrightarrow> list_all (\<lambda>t. atID t \<noteq> [] \<and> atSecret t \<noteq> []) ts')
    \<and> length ts' = length ts"
  using assms
proof (induction uuid n i ids secs ts arbitrary: ts' n' rule: norm_api_tokens.induct)
  case (2 uuid n i ids secs t ts)
  then obtain t1 n1 ts1 where
    t1: "norm_api_token uuid n i ids secs t = (t1, n1, None)" and
    ts1: "norm_api_tokens uuid n1 (Suc i) (atID t1 # ids) (atSecret t1 # secs) ts = (ts1, n', None)" and
    eq: "ts' = t1 # ts1"
    by (auto split: prod.splits option.splits)
  from "2.IH" [OF t1 [symmetric] _ _ ts1] norm_api_token_ok [OF t1] eq
  show ?case by auto
qed simp

lemma norm_api_tokens_stable:
  assumes "uuid_ok uuid" "norm_api_tokens uuid n i ids secs ts = (ts', n', None)"
  shows "norm_api_tokens uuid m j ids secs ts' = (ts', m, None)"
  using assms
proof (induction uuid n i ids secs ts arbitrary: ts' n' j rule: norm_api_tokens.induct)
  case (2 uuid n i ids secs t ts)
  then obtain t1 n1 ts1 where
    t1: "norm_api_token uuid n i ids secs t = (t1, n1, None)" and
    ts1: "norm_api_tokens uuid n1 (Suc i) (atID t1 # ids) (atSecret t1 # secs) ts = (ts1, n', None)" and
    eq: "ts' = t1 # ts1"
    by (auto split: prod.splits option.splits)
  from "2.IH" [OF t1 [symmetric] _ _ "2.prems"(1) ts1] norm_api_token_stable [OF "2.prems"(1) t1] eq
  show ?case by simp
qed simp

lemma norm_register_tokens_ok:
  assumes "norm_register_tokens uuid n i ids toks ts = (Inr ts', n')"
  shows "distinct (map rgID ts') \<and> set (map rgID ts') \<inter> set ids = {}
    \<and> distinct (map rgToken ts') \<and> set (map rgToken ts') \<inter> set toks = {}
    \<and> (uuid_ok uuid \<longrightarrow> list_all (\<lambda>t. rgID t \<noteq> [] \<and> rgToken t \<noteq> []) ts')"
  using assms
proof (induction uuid n i ids toks ts arbitrary: ts' n' rule: norm_register_tokens.induct)
  case (2 uuid n i ids toks t ts)
  obtain tid n1 where f1: "fill uuid n (rgID t) = (tid, n1)" by force
  obtain tok n2 where f2: "fill uuid n1 (rgToken t) = (tok, n2)" by force
  from "2.prems" f1 f2 obtain ts1 where
    ts1: "norm_register_tokens uuid n2 (Suc i) (tid # ids) (tok # toks) ts = (Inr ts1, n')" and
    eq: "ts' = t\<lparr>rgID := tid, rgName := TrimSpace (rgName t), rgToken := tok\<rparr> # ts1" and
    new: "tid \<notin> set ids" "tok \<notin> set toks"
    by (auto simp: Let_def split: if_splits prod.splits sum.splits)
  have "distinct (map rgID ts1) \<and> set (map rgID ts1) \<inter> set (tid # ids) = {}
    \<and> distinct (map rgToken ts1) \<and> set (map rgToken ts1) \<inter> set (tok # toks) = {}
    \<and> (uuid_ok uuid \<longrightarrow> list_all (\<lambda>t. rgID t \<noteq> [] \<and> rgToken t \<noteq> []) ts1)"
    by (rule "2.IH" [OF f1 [symmetric] _ _ f2 [symmetric] _ _ ts1]) (use new in auto)
  with eq new f1 f2 show ?case by (auto dest: fill_nonempty)
qed simp

lemma norm_register_tokens_stable:
  assumes "uuid_ok uuid" "norm_register_tokens uuid n i ids toks ts = (Inr ts', n')"
  shows "norm_register_tokens uuid m j ids toks ts' = (Inr ts', m)"
  using assms
proof (induction uuid n i ids toks ts arbitrary: ts' n' j rule: norm_register_tokens.induct)
  case (2 uuid n i ids toks t ts)
  obtain tid n1 where f1: "fill uuid n (rgID t) = (tid, n1)" by force
  obtain tok n2 where f2: "fill uuid n1 (rgToken t) = (tok, n2)" by force
  from "2.prems" f1 f2 obtain ts1 where
    ts1: "norm_register_tokens uuid n2 (Suc i) (tid # ids) (tok # toks) ts = (Inr ts1, n')" and
    eq: "ts' = t\<lparr>rgID := tid, rgName := TrimSpace (rgName t), rgToken := tok\<rparr> # ts1" and
    new: "tid \<notin> set ids" "tok \<notin> set toks"
    by (auto simp: Let_def split: if_splits prod.splits sum.splits)
  have "norm_register_tokens uuid m (Suc j) (tid # ids) (tok # toks) ts1 = (Inr ts1, m)"
    by (rule "2.IH" [OF f1 [symmetric] _ _ f2 [symmetric] _ _ "2.prems"(1) ts1]) (use new in auto)
  with eq new fill_stable [OF "2.prems"(1) f1] fill_stable [OF "2.prems"(1) f2] show ?case
    by simp
qed simp

lemma or_default_idem [simp]: "or_default (or_default v d) d = or_default v d"
  by (simp add: or_default_def)

lemma default_idem [simp]:
  "DefaultRuntimeValues (DefaultRuntimeValues r) = DefaultRuntimeValues r"
  "DefaultScheduler (DefaultScheduler s) = DefaultScheduler s"
  by (simp_all add: DefaultRuntimeValues_def DefaultScheduler_def)

lemma normalize_label_config_idem [simp]:
  "normalize_label_config (normalize_label_config c) = normalize_label_config c"
  by (simp add: normalize_label_config_def option.map_comp comp_def)

lemma DefaultRateLimit_idem [simp]: "DefaultRateLimit (DefaultRateLimit c) = DefaultRateLimit c"
  by (simp add: DefaultRateLimit_def)

text \<open>A map of label configurations that normalisation leaves as it is.\<close>

definition labels_normal :: "(string, LabelConfig) gomap \<Rightarrow> bool" where
  "labels_normal m \<longleftrightarrow> mwf m \<and>
     list_all (\<lambda>(l, c). TrimSpace l = l \<and> l \<noteq> [] \<and> normalize_label_config c = c) m"

definition put_label_config ::
  "string \<times> LabelConfig \<Rightarrow> (string, LabelConfig) gomap \<Rightarrow> (string, LabelConfig) gomap" where
  "put_label_config = (\<lambda>(lbl, cfg) out.
     let l = TrimSpace lbl in if l = [] then out else mput l (normalize_label_config cfg) out)"

lemma set_mput: "set (mput k v m) \<subseteq> insert (k, v) (set m)"
  by (induction m) auto

lemma labels_normal_mput:
  "labels_normal m \<Longrightarrow> TrimSpace l = l \<Longrightarrow> l \<noteq> [] \<Longrightarrow> normalize_label_config c = c \<Longrightarrow>
   labels_normal (mput l c m)"
  using set_mput [of l c m] by (auto simp: labels_normal_def list_all_iff)

lemma labels_normal_fold: "labels_normal out \<Longrightarrow> labels_normal (fold put_label_config m out)"
  by (induction m arbitrary: out)
    (auto simp: put_label_config_def Let_def labels_normal_mput)

lemma fold_put_label_normal:
  "labels_normal (out @ m) \<Longrightarrow> fold put_label_config m out = out @ m"
proof (induction m arbitrary: out)
  case (Cons e m)
  obtain l c where e: "e = (l, c)" by (cases e)
  with Cons.prems have lc: "TrimSpace l = l" "l \<noteq> []" "normalize_label_config c = c" "l \<notin> fst ` set out"
    by (auto simp: labels_normal_def mwf_def)
  then have "put_label_config e out = out @ [e]"
    by (simp add: put_label_config_def e update_nonempty AList.update_keys) (induction out; auto)
  with Cons show ?case by simp
qed simp

lemma NormalizeLabelConfigs_fold:
  "NormalizeLabelConfigs configs =
     (let out = fold put_label_config (case configs of None \<Rightarrow> [] | Some m \<Rightarrow> m) []
      in if out = [] then None else Some out)"
  by (simp add: NormalizeLabelConfigs_def put_label_config_def)

lemma NormalizeLabelConfigs_normal: "NormalizeLabelConfigs configs = Some m \<Longrightarrow> labels_normal m"
  using labels_normal_fold [of "[]" "case configs of None \<Rightarrow> [] | Some m \<Rightarrow> m"]
  by (auto simp: NormalizeLabelConfigs_fold Let_def labels_normal_def split: if_splits)

lemma NormalizeLabelConfigs_id: "labels_normal m \<Longrightarrow> m \<noteq> [] \<Longrightarrow> NormalizeLabelConfigs (Some m) = Some m"
  using fold_put_label_normal [of "[]" m] by (simp add: NormalizeLabelConfigs_fold)

text \<open>What \<^verbatim>\<open>EnsureAgentLabelConfig\<close> establishes: an entry for all agents with every part present.\<close>

definition agent_label_ok :: "(string, LabelConfig) gomap option \<Rightarrow> bool" where
  "agent_label_ok configs \<longleftrightarrow>
     (case configs of
        None \<Rightarrow> False
      | Some m \<Rightarrow>
          labels_normal m \<and>
          (case mget m AgentAllLabel of
             None \<Rightarrow> False
           | Some c \<Rightarrow> lcRuntime c \<noteq> None \<and> lcScheduler c \<noteq> None \<and> lcToolPolicies c \<noteq> None))"

lemma normalized_iff:
  "normalize_label_config c = c \<longleftrightarrow>
     (\<forall>r. lcRuntime c = Some r \<longrightarrow> DefaultRuntimeValues r = r)
     \<and> (\<forall>s. lcScheduler c = Some s \<longrightarrow> DefaultScheduler s = s)"
  by (cases c) (auto simp: normalize_label_config_def map_option_case split: option.splits)

lemma DefaultRuntime_normal [simp]: "DefaultRuntimeValues DefaultRuntime = DefaultRuntime"
  by (simp add: DefaultRuntime_def)

lemma EnsureAgentLabelConfig_ok:
  assumes "msLabelConfigs s = None \<or> (\<exists>m. msLabelConfigs s = Some m \<and> labels_normal m)"
  shows "agent_label_ok (msLabelConfigs (EnsureAgentLabelConfig s))"
proof -
  define m where "m = (case msLabelConfigs s of None \<Rightarrow> [] | Some m \<Rightarrow> m)"
  have m: "labels_normal m" using assms by (auto simp: m_def labels_normal_def)
  define c where "c = (case mget m AgentAllLabel of Some c \<Rightarrow> c
    | None \<Rightarrow> \<lparr>lcRuntime = None, lcScheduler = None, lcToolPolicies = None\<rparr>)"
  have c: "normalize_label_config c = c"
    using m by (auto simp: c_def labels_normal_def list_all_iff normalize_label_config_def
        split: option.splits dest: map_of_SomeD)
  show ?thesis
    using m c
    by (auto simp: EnsureAgentLabelConfig_def Let_def agent_label_ok_def m_def [symmetric] c_def [symmetric]
        normalized_iff intro!: labels_normal_mput split: option.splits)
qed

lemma EnsureAgentLabelConfig_id:
  assumes "agent_label_ok (msLabelConfigs s)"
  shows "EnsureAgentLabelConfig s = s"
proof -
  from assms obtain m c r sc p where m: "msLabelConfigs s = Some m" "mget m AgentAllLabel = Some c"
    and c: "c = \<lparr>lcRuntime = Some r, lcScheduler = Some sc, lcToolPolicies = Some p\<rparr>"
    by (auto simp: agent_label_ok_def split: option.splits) (metis LabelConfig.surjective old.unit.exhaust)
  have "mput AgentAllLabel c m = m" using m(2) by (induction m) (auto split: if_splits)
  with m c show ?thesis by (simp add: EnsureAgentLabelConfig_def)
qed

lemma tokens_clear_stable:
  "norm_api_token uuid n i ids secs t = (t', n', None) \<Longrightarrow>
   norm_api_token uuid n i ids secs (t\<lparr>atRotate := r\<rparr>) = (t'\<lparr>atRotate := r\<rparr>, n', None)"
  by (auto simp: norm_api_token_def Let_def split: if_splits option.splits prod.splits)

lemma norm_api_tokens_clear:
  "norm_api_tokens uuid n i ids secs ts = (ts', n', None) \<Longrightarrow>
   norm_api_tokens uuid n i ids secs (map (\<lambda>t. t\<lparr>atRotate := False\<rparr>) ts) =
     (map (\<lambda>t. t\<lparr>atRotate := False\<rparr>) ts', n', None)"
proof (induction uuid n i ids secs ts arbitrary: ts' n' rule: norm_api_tokens.induct)
  case (2 uuid n i ids secs t ts)
  then obtain t1 n1 ts1 where
    t1: "norm_api_token uuid n i ids secs t = (t1, n1, None)" and
    ts1: "norm_api_tokens uuid n1 (Suc i) (atID t1 # ids) (atSecret t1 # secs) ts = (ts1, n', None)" and
    eq: "ts' = t1 # ts1"
    by (auto split: prod.splits option.splits)
  from "2.IH" [OF t1 [symmetric] _ _ ts1] tokens_clear_stable [OF t1] eq
  show ?case by simp
qed simp

lemma norm_register_tokens_clear:
  "norm_register_tokens uuid n i ids toks ts = (Inr ts', n') \<Longrightarrow>
   norm_register_tokens uuid n i ids toks (map (\<lambda>t. t\<lparr>rgRotate := False\<rparr>) ts) =
     (Inr (map (\<lambda>t. t\<lparr>rgRotate := False\<rparr>) ts'), n')"
  by (induction uuid n i ids toks ts arbitrary: ts' n' rule: norm_register_tokens.induct)
    (auto simp: Let_def split: if_splits prod.splits sum.splits)

lemma NormalizeManagedSettings_None:
  assumes "NormalizeManagedSettings uuid n s = (s', n', None)"
  obtains s2 perms n1 toks where
    "s2 = EnsureAgentLabelConfig (s\<lparr>msRateLimit := DefaultRateLimit (msRateLimit s),
                        msLabelConfigs := NormalizeLabelConfigs (msLabelConfigs s)\<rparr>)"
    "norm_api_tokens uuid n 0 [] [] (msAPITokens s) = (perms, n1, None)"
    "norm_register_tokens uuid n1 0 [] [] (msRegisterTokens s) = (Inr toks, n')"
    "s' = ClearManagedSettingsRotateFlags (s2\<lparr>msAPITokens := perms, msRegisterTokens := toks\<rparr>)"
  using assms
  by (auto simp: NormalizeManagedSettings_def NormalizeAPITokenPermissions_def
      NormalizeRegisterTokens_def EnsureAgentLabelConfig_def Let_def
      split: prod.splits option.splits sum.splits)

lemma agent_label_ok_normal:
  "agent_label_ok configs \<Longrightarrow> NormalizeLabelConfigs configs = configs"
  by (auto simp: agent_label_ok_def intro!: NormalizeLabelConfigs_id split: option.splits)

lemma normalize_settings_stable:
  assumes u: "uuid_ok uuid" and s: "NormalizeManagedSettings uuid n s = (s', n', None)"
  shows "NormalizeManagedSettings uuid m s' = (s', m, None)"
proof -
  from s obtain s2 perms n1 toks where h:
    "s2 = EnsureAgentLabelConfig (s\<lparr>msRateLimit := DefaultRateLimit (msRateLimit s),
                        msLabelConfigs := NormalizeLabelConfigs (msLabelConfigs s)\<rparr>)"
    "norm_api_tokens uuid n 0 [] [] (msAPITokens s) = (perms, n1, None)"
    "norm_register_tokens uuid n1 0 [] [] (msRegisterTokens s) = (Inr toks, n')"
    "s' = ClearManagedSettingsRotateFlags (s2\<lparr>msAPITokens := perms, msRegisterTokens := toks\<rparr>)"
    by (rule NormalizeManagedSettings_None)
  have lab: "agent_label_ok (msLabelConfigs s')"
    using NormalizeLabelConfigs_normal [of "msLabelConfigs s"]
    unfolding h(4) ClearManagedSettingsRotateFlags_def h(1)
    by (cases "NormalizeLabelConfigs (msLabelConfigs s)") (simp_all add: EnsureAgentLabelConfig_ok)
  have rl: "DefaultRateLimit (msRateLimit s') = msRateLimit s'"
    by (simp add: h(1,4) ClearManagedSettingsRotateFlags_def EnsureAgentLabelConfig_def Let_def)
  have "norm_api_tokens uuid m 0 [] [] (msAPITokens s') = (msAPITokens s', m, None)"
    using norm_api_tokens_clear [OF norm_api_tokens_stable [OF u h(2)]]
    by (simp add: h(4) ClearManagedSettingsRotateFlags_def)
  moreover have "norm_register_tokens uuid m 0 [] [] (msRegisterTokens s') = (Inr (msRegisterTokens s'), m)"
    using norm_register_tokens_clear [OF norm_register_tokens_stable [OF u h(3)]]
    by (simp add: h(4) ClearManagedSettingsRotateFlags_def)
  moreover have "EnsureAgentLabelConfig (s'\<lparr>msRateLimit := DefaultRateLimit (msRateLimit s'),
                        msLabelConfigs := NormalizeLabelConfigs (msLabelConfigs s')\<rparr>) = s'"
    using lab by (simp add: rl agent_label_ok_normal EnsureAgentLabelConfig_id)
  moreover have "ClearManagedSettingsRotateFlags s' = s'"
    by (simp add: h(4) ClearManagedSettingsRotateFlags_def comp_def)
  ultimately show ?thesis
    by (simp add: NormalizeManagedSettings_def NormalizeAPITokenPermissions_def
        NormalizeRegisterTokens_def Let_def)
qed

text \<open>The number of UUIDs drawn only grows.\<close>

lemma fill_counter: "n \<le> snd (fill uuid n raw)"
  by (simp add: fill_def Let_def)

lemma norm_api_token_counter: "n \<le> fst (snd (norm_api_token uuid n i ids secs t))"
proof -
  obtain a n1 where f1: "fill uuid n (atID t) = (a, n1)" by force
  obtain b n2 where f2: "fill uuid n1 (atSecret t) = (b, n2)" by force
  from fill_counter [of n uuid "atID t"] fill_counter [of n1 uuid "atSecret t"] f1 f2 have "n \<le> n1" "n \<le> n2" by auto
  with f1 f2 show ?thesis by (simp add: norm_api_token_def Let_def split: option.splits)
qed

lemma norm_api_tokens_counter: "n \<le> fst (snd (norm_api_tokens uuid n i ids secs ts))"
proof (induction uuid n i ids secs ts rule: norm_api_tokens.induct)
  case (2 uuid n i ids secs t ts)
  obtain t1 n1 e where t1: "norm_api_token uuid n i ids secs t = (t1, n1, e)" by (metis prod_cases3)
  with norm_api_token_counter [of n uuid i ids secs t] have "n \<le> n1" by simp
  with "2.IH" [OF t1 [symmetric] refl] t1 show ?case by (fastforce split: prod.splits option.splits)
qed simp

lemma norm_register_tokens_counter: "n \<le> snd (norm_register_tokens uuid n i ids toks ts)"
proof (induction uuid n i ids toks ts rule: norm_register_tokens.induct)
  case (2 uuid n i ids toks t ts)
  obtain a n1 where f1: "fill uuid n (rgID t) = (a, n1)" by force
  obtain b n2 where f2: "fill uuid n1 (rgToken t) = (b, n2)" by force
  from fill_counter [of n uuid "rgID t"] fill_counter [of n1 uuid "rgToken t"] f1 f2 have le: "n \<le> n1" "n \<le> n2" by auto
  have "n2 \<le> snd (norm_register_tokens uuid n2 (Suc i) (a # ids) (b # toks) ts)"
    if "a \<notin> set ids" "b \<notin> set toks"
    using "2.IH" [OF f1 [symmetric] refl that(1) f2 [symmetric] refl that(2)] by simp
  note rest = order_trans [OF le(2) this]
  obtain r n3 where r: "norm_register_tokens uuid n2 (Suc i) (a # ids) (b # toks) ts = (r, n3)" by force
  show ?case
  proof (cases "a \<in> set ids \<or> b \<in> set toks")
    case True
    with f1 f2 le show ?thesis by (auto simp: Let_def)
  next
    case False
    with rest r have "n \<le> n3" by simp
    with f1 f2 r False show ?thesis by (cases r) (simp_all add: Let_def)
  qed
qed simp

lemma NormalizeManagedSettings_counter: "n \<le> fst (snd (NormalizeManagedSettings uuid n s))"
proof -
  let ?ts = "msAPITokens (EnsureAgentLabelConfig (s\<lparr>msRateLimit := DefaultRateLimit (msRateLimit s),
                        msLabelConfigs := NormalizeLabelConfigs (msLabelConfigs s)\<rparr>))"
  obtain ts n1 e where t: "norm_api_tokens uuid n 0 [] [] ?ts = (ts, n1, e)" by (metis prod_cases3)
  with norm_api_tokens_counter [of n uuid 0 "[]" "[]" ?ts] have "n \<le> n1" by simp
  with order_trans [OF this norm_register_tokens_counter] t show ?thesis
    by (simp add: NormalizeManagedSettings_def NormalizeAPITokenPermissions_def NormalizeRegisterTokens_def Let_def
        split: option.splits prod.splits sum.splits) (metis snd_conv)
qed

text \<open>
  Normalising managed settings is idempotent: settings that were accepted and
  normalised once are accepted again, come back unchanged, and draw no further UUIDs. So
  reloading stored settings never rotates a token.
\<close>

theorem NormalizeManagedSettings_idem:
  assumes "uuid_ok uuid" and "NormalizeManagedSettings uuid n s = (s', n', None)"
  shows "NormalizeManagedSettings uuid m s' = (s', m, None)"
  using assms by (rule normalize_settings_stable)

theorem NormalizeManagedSettings_idem_witness:
  "\<exists>s' n'. NormalizeManagedSettings (\<lambda>n. ''u'') 0 zero_ManagedSettings = (s', n', None)
     \<and> NormalizeManagedSettings (\<lambda>n. ''u'') 7 s' = (s', 7, None)"
proof -
  have u: "uuid_ok (\<lambda>n. ''u'')" by (simp add: uuid_ok_def) code_simp
  have "\<exists>s'. NormalizeManagedSettings (\<lambda>n. ''u'') 0 zero_ManagedSettings = (s', 0, None)"
    by (simp add: NormalizeManagedSettings_def NormalizeAPITokenPermissions_def NormalizeRegisterTokens_def
        EnsureAgentLabelConfig_def zero_ManagedSettings_def Let_def)
  then obtain s' where s': "NormalizeManagedSettings (\<lambda>n. ''u'') 0 zero_ManagedSettings = (s', 0, None)" by blast
  from NormalizeManagedSettings_idem [OF u s'] s' show ?thesis by blast
qed

end
