(* ===== verification/Policy.thy ===== *)
theory Policy
  imports NetAddr Config
begin

text \<open>
  The request policy (\<^verbatim>\<open>internal/policy/policy.go\<close>): which tools are enabled with which
  arguments, how rules of several sources are intersected, the timeout of a job, and which
  targets and addresses may be probed. The URL parser and the DNS resolver are parameters,
  the fields of a record \<open>netenv\<close>; addresses are those of \<open>NetAddr\<close>. A function that
  returns \<^verbatim>\<open>error\<close> alone is a result of type \<open>unit res\<close>.
\<close>

unbundle bit_operations_syntax


section \<open>Policies and sets of policies\<close>

definition hostname_char :: "char \<Rightarrow> bool" where
  "hostname_char c \<longleftrightarrow>
     (97 \<le> (of_char c :: nat) \<and> (of_char c :: nat) \<le> 122) \<or>
     (65 \<le> (of_char c :: nat) \<and> (of_char c :: nat) \<le> 90) \<or>
     is_digit c \<or> c = CHR ''.'' \<or> c = CHR ''-''"

definition hostnameRE :: "string \<Rightarrow> bool" where
  "hostnameRE s \<longleftrightarrow> 1 \<le> length s \<and> length s \<le> 253 \<and> list_all hostname_char s"

definition DefaultPortRange :: string where
  "DefaultPortRange = ''1-65535''"

record Policy =
  pTool :: Tool
  pTimeout :: dur
  pProbeTimeout :: dur
  pAllowedArgs :: "strmap option"

record Set =
  byTool :: "(Tool, Policy) gomap"
  sRuntime :: Runtime

definition or_positive :: "int \<Rightarrow> int \<Rightarrow> int" where
  "or_positive v d = (if v \<le> 0 then d else v)"

definition normalizeRuntime :: "Runtime \<Rightarrow> Runtime" where
  "normalizeRuntime r =
     (let d = DefaultRuntime in
      \<lparr>rtCount = or_positive (rtCount r) (rtCount d),
       rtMaxHops = or_positive (rtMaxHops r) (rtMaxHops d),
       rtProbeStepTimeoutSec = or_positive (rtProbeStepTimeoutSec r) (rtProbeStepTimeoutSec d),
       rtMaxToolTimeoutSec = or_positive (rtMaxToolTimeoutSec r) (rtMaxToolTimeoutSec d),
       rtHTTPTimeoutSec = or_positive (rtHTTPTimeoutSec r) (rtHTTPTimeoutSec d),
       rtDNSTimeoutSec = or_positive (rtDNSTimeoutSec r) (rtDNSTimeoutSec d),
       rtResolveTimeoutSec = or_positive (rtResolveTimeoutSec r) (rtResolveTimeoutSec d),
       rtHTTPInvokeAttempts = or_positive (rtHTTPInvokeAttempts r) (rtHTTPInvokeAttempts d),
       rtHTTPMaxHealthIntervalSec =
         or_positive (rtHTTPMaxHealthIntervalSec r) (rtHTTPMaxHealthIntervalSec d)\<rparr>)"

text \<open>Of a job only the tool matters to its timeout.\<close>

definition TimeoutForJobWithRuntime :: "Tool \<Rightarrow> Runtime \<Rightarrow> dur" where
  "TimeoutForJobWithRuntime tool runtime =
     (let r = normalizeRuntime runtime;
          probeStepTimeout = seconds (rtProbeStepTimeoutSec r);
          timeout =
            (if tool = ToolPing then
               wrap64 (wrap64 (rtCount r * probeStepTimeout) + seconds (rtCount r - 1))
             else if tool = ToolTraceroute then wrap64 (rtMaxHops r * probeStepTimeout)
             else if tool = ToolMTR then wrap64 (wrap64 (rtCount r * rtMaxHops r) * probeStepTimeout)
             else if tool = ToolHTTP then seconds (rtHTTPTimeoutSec r)
             else if tool = ToolDNS then seconds (rtDNSTimeoutSec r)
             else probeStepTimeout);
          timeout' = (if timeout \<le> 0 then probeStepTimeout else timeout);
          maxToolTimeout = seconds (rtMaxToolTimeoutSec r)
      in if maxToolTimeout < timeout' then maxToolTimeout else timeout')"

definition default_allowed_args :: "(Tool \<times> strmap) list" where
  "default_allowed_args =
     [(ToolPing, [(''protocol'', ''icmp,tcp''), (''port'', DefaultPortRange)]),
      (ToolTraceroute, [(''protocol'', ''icmp,tcp''), (''port'', DefaultPortRange)]),
      (ToolMTR, [(''protocol'', ''icmp,tcp''), (''port'', DefaultPortRange)]),
      (ToolHTTP, [(''method'', ''GET,HEAD'')]),
      (ToolDNS, [(''type'', ''A,AAAA,CNAME,MX,TXT,NS'')]),
      (ToolPort, [(''port'', DefaultPortRange)])]"

definition PoliciesWithRuntime :: "Runtime \<Rightarrow> Set" where
  "PoliciesWithRuntime runtime =
     (let r = normalizeRuntime runtime;
          probeTimeout = seconds (rtProbeStepTimeoutSec r)
      in \<lparr>byTool =
            map (\<lambda>(t, args). (t, \<lparr>pTool = t, pTimeout = TimeoutForJobWithRuntime t r,
                                    pProbeTimeout = probeTimeout, pAllowedArgs = Some args\<rparr>))
              default_allowed_args,
          sRuntime = r\<rparr>)"

definition DefaultPolicies :: Set where
  "DefaultPolicies = PoliciesWithRuntime DefaultRuntime"


section \<open>Rules for arguments\<close>

text \<open>One part of a port rule: a number or two numbers with a dash.\<close>

definition parse_port_range :: "string \<Rightarrow> (int \<times> int) res" where
  "parse_port_range part =
     (let bounds = split (CHR ''-'') part in
      if 2 < length bounds then Inl ErrInvalidPortRangeRule
      else (case Atoi (TrimSpace (hd bounds)) of
              None \<Rightarrow> Inl ErrInvalidPortRangeRule
            | Some start \<Rightarrow>
                (case (if length bounds = 2 then Atoi (TrimSpace (bounds ! 1)) else Some start) of
                   None \<Rightarrow> Inl ErrInvalidPortRangeRule
                 | Some fin \<Rightarrow>
                     if start < 1 \<or> 65535 < fin \<or> fin < start then Inl ErrInvalidPortRangeRule
                     else Inr (start, fin))))"

fun parse_port_parts :: "string list \<Rightarrow> ((int \<times> int) list) res" where
  "parse_port_parts [] = Inr []"
| "parse_port_parts (p # ps) =
     (let part = TrimSpace p in
      if part = [] then parse_port_parts ps
      else bind_res (parse_port_range part)
             (\<lambda>r. bind_res (parse_port_parts ps) (\<lambda>rs. Inr (r # rs))))"

definition parsePortRanges :: "string \<Rightarrow> ((int \<times> int) list) res" where
  "parsePortRanges rule0 =
     (let trimmed = TrimSpace rule0;
          rule = (if trimmed = [] then DefaultPortRange else trimmed)
      in bind_res (parse_port_parts (split (CHR '','') rule))
           (\<lambda>ranges. if ranges = [] then Inl ErrInvalidPortRangeRule else Inr ranges))"

definition format_port_range :: "int \<times> int \<Rightarrow> string" where
  "format_port_range r = (if fst r = snd r then Itoa (fst r) else Itoa (fst r) @ ''-'' @ Itoa (snd r))"

definition formatPortRanges :: "(int \<times> int) list \<Rightarrow> string" where
  "formatPortRanges ranges = join '','' (map format_port_range ranges)"

text \<open>The second result \<^verbatim>\<open>ok\<close> is the constructor of the option.\<close>

definition IntersectPortRules :: "string \<Rightarrow> string \<Rightarrow> string option" where
  "IntersectPortRules left right =
     (case parsePortRanges left of
        Inl _ \<Rightarrow> None
      | Inr leftRanges \<Rightarrow>
          (case parsePortRanges right of
             Inl _ \<Rightarrow> None
           | Inr rightRanges \<Rightarrow>
               (let out = [(max (fst a) (fst b), min (snd a) (snd b)).
                             a \<leftarrow> leftRanges, b \<leftarrow> rightRanges,
                             max (fst a) (fst b) \<le> min (snd a) (snd b)]
                in if out = [] then None else Some (formatPortRanges out))))"

definition csvValues :: "string \<Rightarrow> string list" where
  "csvValues rule = filter (\<lambda>p. p \<noteq> []) (map TrimSpace (split (CHR '','') rule))"

definition intersectCSVValues :: "string \<Rightarrow> string \<Rightarrow> string list" where
  "intersectCSVValues left right = filter (\<lambda>v. v \<in> set (csvValues right)) (csvValues left)"

definition AllowedArgContains :: "string \<Rightarrow> string \<Rightarrow> bool" where
  "AllowedArgContains rule value = list_ex (\<lambda>allowed. allowed = value) (csvValues rule)"

definition ValidatePortAllowed :: "string \<Rightarrow> string \<Rightarrow> unit res" where
  "ValidatePortAllowed rule value =
     (case Atoi (TrimSpace value) of
        None \<Rightarrow> Inl ErrPortNotAllowed
      | Some port \<Rightarrow>
          if port < 1 \<or> 65535 < port then Inl ErrPortNotAllowed
          else bind_res (parsePortRanges rule)
                 (\<lambda>ranges. if list_ex (\<lambda>item. fst item \<le> port \<and> port \<le> snd item) ranges
                           then Inr () else Inl ErrPortNotAllowed))"

definition ValidatePortRangeRule :: "string \<Rightarrow> unit res" where
  "ValidatePortRangeRule rule = bind_res (parsePortRanges rule) (\<lambda>_. Inr ())"

definition intersect_arg :: "string \<Rightarrow> string \<Rightarrow> string \<Rightarrow> string option" where
  "intersect_arg key baseRule limitRule =
     (if key = ''port'' then IntersectPortRules baseRule limitRule
      else let values = intersectCSVValues baseRule limitRule
           in if values = [] then None else Some (join '','' values))"

definition IntersectAllowedArgs :: "strmap option \<Rightarrow> strmap option \<Rightarrow> strmap option" where
  "IntersectAllowedArgs base limit =
     (case base of
        None \<Rightarrow> limit
      | Some b \<Rightarrow>
          (case limit of
             None \<Rightarrow> Some b
           | Some l \<Rightarrow>
               Some (List.map_filter
                       (\<lambda>(key, baseRule).
                          case mget l key of
                            None \<Rightarrow> None
                          | Some limitRule \<Rightarrow> map_option (Pair key) (intersect_arg key baseRule limitRule))
                       b)))"

text \<open>One round of the second loop of \<^verbatim>\<open>WithIntersection\<close>.\<close>

definition intersect_tool ::
  "(Tool, Policy) gomap \<Rightarrow> string \<times> CfgPolicy \<Rightarrow> (Tool, Policy) gomap \<Rightarrow> (Tool, Policy) gomap" where
  "intersect_tool base e out =
     (let (t, p) = e in
      if \<not> cpEnabled p then (if mget base t \<noteq> None then mdel t out else out)
      else (case mget out t of
              None \<Rightarrow> out
            | Some existing \<Rightarrow>
                mput t
                  (if cpAllowedArgs p \<noteq> None
                   then existing\<lparr>pAllowedArgs := IntersectAllowedArgs (pAllowedArgs existing) (cpAllowedArgs p)\<rparr>
                   else existing) out))"

definition WithIntersection :: "Set \<Rightarrow> (string, CfgPolicy) gomap \<Rightarrow> Runtime \<Rightarrow> Set" where
  "WithIntersection s cfg runtime =
     (let base = PoliciesWithRuntime runtime;
          out = List.map_filter
                  (\<lambda>(tool, p). case mget (byTool s) tool of
                                 None \<Rightarrow> None
                               | Some existing \<Rightarrow> Some (tool, p\<lparr>pAllowedArgs := pAllowedArgs existing\<rparr>))
                  (byTool base)
      in \<lparr>byTool = fold (intersect_tool (byTool base)) cfg out, sRuntime = sRuntime base\<rparr>)"

definition FromConfig :: "(string, CfgPolicy) gomap \<Rightarrow> Runtime \<Rightarrow> Set" where
  "FromConfig cfg runtime = WithIntersection (PoliciesWithRuntime runtime) cfg runtime"


section \<open>Arguments the server owns\<close>

definition isServerOwnedArg :: "string \<Rightarrow> bool" where
  "isServerOwnedArg key \<longleftrightarrow> key = ''count'' \<or> key = ''max_hops'' \<or> key = ''max_hop''"

definition ServerArgsWithRuntime :: "Tool \<Rightarrow> strmap \<Rightarrow> Runtime \<Rightarrow> strmap" where
  "ServerArgsWithRuntime tool args runtime =
     (let r = normalizeRuntime runtime;
          out = filter (\<lambda>(k, v). \<not> (k = ''count'' \<or> k = ''max_hops'' \<or> k = ''max_hop'')) args
      in if tool = ToolPing then mput ''count'' (Itoa (rtCount r)) out
         else if tool = ToolTraceroute then mput ''max_hops'' (Itoa (rtMaxHops r)) out
         else if tool = ToolMTR then
           mput ''max_hops'' (Itoa (rtMaxHops r)) (mput ''count'' (Itoa (rtCount r)) out)
         else out)"

definition AgentArgsWithRuntime :: "Tool \<Rightarrow> strmap \<Rightarrow> Runtime \<Rightarrow> strmap" where
  "AgentArgsWithRuntime tool args runtime =
     (let r = normalizeRuntime runtime;
          set_count = (\<lambda>out. if mstr out ''count'' = [] then mput ''count'' (Itoa (rtCount r)) out else out);
          set_hops = (\<lambda>out. if mstr out ''max_hops'' = [] \<and> mstr out ''max_hop'' = []
                            then mput ''max_hops'' (Itoa (rtMaxHops r)) out else out)
      in if tool = ToolPing then set_count args
         else if tool = ToolTraceroute then set_hops args
         else if tool = ToolMTR then set_hops (set_count args)
         else args)"

definition Set_ServerArgs :: "Set \<Rightarrow> Tool \<Rightarrow> strmap \<Rightarrow> strmap" where
  "Set_ServerArgs s tool args = ServerArgsWithRuntime tool args (sRuntime s)"

definition Set_AgentArgs :: "Set \<Rightarrow> Tool \<Rightarrow> strmap \<Rightarrow> strmap" where
  "Set_AgentArgs s tool args = AgentArgsWithRuntime tool args (sRuntime s)"

definition Set_TimeoutForJob :: "Set \<Rightarrow> Job \<Rightarrow> dur" where
  "Set_TimeoutForJob s job = TimeoutForJobWithRuntime (jTool job) (sRuntime s)"

definition Set_ProbeTimeout :: "Set \<Rightarrow> dur" where
  "Set_ProbeTimeout s = seconds (rtProbeStepTimeoutSec (normalizeRuntime (sRuntime s)))"

definition Set_MaxToolTimeout :: "Set \<Rightarrow> dur" where
  "Set_MaxToolTimeout s = seconds (rtMaxToolTimeoutSec (normalizeRuntime (sRuntime s)))"

definition Set_Runtime :: "Set \<Rightarrow> Runtime" where
  "Set_Runtime s = normalizeRuntime (sRuntime s)"


section \<open>Targets and addresses\<close>

record URL =
  uScheme :: string
  uHost :: string
  uHostname :: string

text \<open>
  \<^verbatim>\<open>url.Parse\<close> and \<^verbatim>\<open>net.DefaultResolver.LookupIP\<close> (timeout, network, host).
\<close>

record netenv =
  neParseURL :: "string \<Rightarrow> URL option"
  neLookupIP :: "dur \<Rightarrow> string \<Rightarrow> string \<Rightarrow> (netIP list) res"

definition forbidden_chars :: string where
  "forbidden_chars = '' '' @ [CHR 0x09, CHR 0x0D, CHR 0x0A] @ '';&|'' @ [CHR 0x60] @ ''$<>''"

definition ValidateTarget :: "netenv \<Rightarrow> Tool \<Rightarrow> string \<Rightarrow> unit res" where
  "ValidateTarget env tool target =
     (if target = [] \<or> 512 < length target then Inl (Errorf ''target is required'' [])
      else if tool = ToolHTTP then
        (case neParseURL env target of
           None \<Rightarrow> Inl (Errorf ''http target must be an http or https URL'' [])
         | Some u \<Rightarrow>
             if (uScheme u \<noteq> ''http'' \<and> uScheme u \<noteq> ''https'') \<or> uHost u = []
             then Inl (Errorf ''http target must be an http or https URL'' [])
             else Inr ())
      else if Contains target ''://'' \<or> ContainsAny target forbidden_chars
      then Inl (Errorf ''target contains forbidden characters'' [])
      else if ParseIP target \<noteq> None then Inr ()
      else if \<not> hostnameRE target \<or> Contains target ''..''
      then Inl (Errorf ''target must be an IP address or hostname'' [])
      else Inr ())"

definition targetHost :: "netenv \<Rightarrow> Tool \<Rightarrow> string \<Rightarrow> string res" where
  "targetHost env tool target =
     (if tool = ToolHTTP then
        (case neParseURL env target of
           None \<Rightarrow> Inl (Errorf ''http target must be an http or https URL'' [])
         | Some u \<Rightarrow> if uHost u = [] then Inl (Errorf ''http target must be an http or https URL'' [])
                    else Inr (uHostname u))
      else Inr target)"

definition blocked_prefixes :: "prefix list" where
  "blocked_prefixes =
     [Prefix (Addr4 0x00000000) 8,
      Prefix (Addr4 0x0a000000) 8,
      Prefix (Addr4 0x64400000) 10,
      Prefix (Addr4 0x7f000000) 8,
      Prefix (Addr4 0xa9fe0000) 16,
      Prefix (Addr4 0xac100000) 12,
      Prefix (Addr4 0xc0000000) 24,
      Prefix (Addr4 0xc0000200) 24,
      Prefix (Addr4 0xc0a80000) 16,
      Prefix (Addr4 0xc6120000) 15,
      Prefix (Addr4 0xc6336400) 24,
      Prefix (Addr4 0xcb007100) 24,
      Prefix (Addr4 0xe0000000) 4,
      Prefix (Addr4 0xf0000000) 4,
      Prefix (Addr6 0 []) 128,
      Prefix (Addr6 1 []) 128,
      Prefix (Addr6 0xfc000000000000000000000000000000 []) 7,
      Prefix (Addr6 0xfe800000000000000000000000000000 []) 10,
      Prefix (Addr6 0xff000000000000000000000000000000 []) 8]"

definition isBlockedSpecialUse :: "addr \<Rightarrow> bool" where
  "isBlockedSpecialUse a = list_ex (\<lambda>p. prefix_contains p a) blocked_prefixes"

definition blocked_addr :: "addr \<Rightarrow> bool" where
  "blocked_addr a \<longleftrightarrow>
     IsUnspecified a \<or> IsLoopback a \<or> IsPrivate a \<or> IsLinkLocalUnicast a \<or> IsMulticast a
     \<or> \<not> IsGlobalUnicast a \<or> isBlockedSpecialUse a"

text \<open>The recursion of \<^verbatim>\<open>validateAllowedIP\<close> ends after one call: an unmapped address is IPv4.\<close>

definition check_addr :: "addr \<Rightarrow> unit res" where
  "check_addr a =
     (if blocked_addr a then Inl (Errorf ''target address %s is not allowed'' [Addr_String a]) else Inr ())"

definition validateAllowedIP :: "string \<Rightarrow> unit res" where
  "validateAllowedIP raw =
     (case ParseAddr raw of
        None \<Rightarrow> Inl (Errorf ''invalid resolved ip %q'' [raw])
      | Some a \<Rightarrow>
          if Is4In6 a then
            (case ParseAddr (Addr_String (Unmap a)) of
               None \<Rightarrow> Inl (Errorf ''invalid resolved ip %q'' [Addr_String (Unmap a)])
             | Some a' \<Rightarrow> check_addr a')
          else check_addr a)"

definition validateIPVersion :: "netIP \<Rightarrow> IPVersion \<Rightarrow> unit res" where
  "validateIPVersion ip version =
     (if version = IPv4 \<and> To4 ip = None then Inl (Errorf ''target address %s is not IPv4'' [IP_String ip])
      else if version = IPv6 \<and> To4 ip \<noteq> None then Inl (Errorf ''target address %s is not IPv6'' [IP_String ip])
      else Inr ())"

definition ipVersion :: "netIP \<Rightarrow> IPVersion" where
  "ipVersion ip = (if To4 ip \<noteq> None then IPv4 else IPv6)"

definition preferredIP :: "netIP list \<Rightarrow> IPVersion \<Rightarrow> netIP option" where
  "preferredIP ips version =
     (case (if version = IPAny then find (\<lambda>ip. To4 ip = None) ips else None) of
        Some ip \<Rightarrow> Some ip
      | None \<Rightarrow> (case ips of [] \<Rightarrow> None | ip # _ \<Rightarrow> Some ip))"

text \<open>The checks on a literal address and on each address of the resolver.\<close>

definition check_ip :: "netIP \<Rightarrow> IPVersion \<Rightarrow> unit res" where
  "check_ip ip version = bind_res (validateIPVersion ip version) (\<lambda>_. validateAllowedIP (IP_String ip))"

fun check_ips :: "netIP list \<Rightarrow> IPVersion \<Rightarrow> unit res" where
  "check_ips [] version = Inr ()"
| "check_ips (ip # ips) version = bind_res (check_ip ip version) (\<lambda>_. check_ips ips version)"

definition ResolveTargetWithRuntime ::
  "netenv \<Rightarrow> Tool \<Rightarrow> string \<Rightarrow> IPVersion \<Rightarrow> Runtime \<Rightarrow> (string \<times> IPVersion) res" where
  "ResolveTargetWithRuntime env tool target version runtime =
     (let r = normalizeRuntime runtime in
      bind_res (targetHost env tool target) (\<lambda>host.
        case ParseIP host of
          Some ip \<Rightarrow> bind_res (check_ip ip version) (\<lambda>_. Inr (IP_String ip, ipVersion ip))
        | None \<Rightarrow>
            (let network = (if version = IPv4 then ''ip4'' else if version = IPv6 then ''ip6'' else ''ip'') in
             case neLookupIP env (seconds (rtResolveTimeoutSec r)) network host of
               Inl e \<Rightarrow> Inl (Errorf ''resolve target: %w'' [])
             | Inr ips \<Rightarrow>
                 if ips = [] then Inl (Errorf ''target resolved to no addresses'' [])
                 else bind_res (check_ips ips version) (\<lambda>_.
                   case preferredIP ips version of
                     None \<Rightarrow> Inl (Errorf ''target resolved to no addresses'' [])
                   | Some first \<Rightarrow> Inr (IP_String first, ipVersion first)))))"

definition Set_ResolveTarget ::
  "netenv \<Rightarrow> Set \<Rightarrow> Tool \<Rightarrow> string \<Rightarrow> IPVersion \<Rightarrow> (string \<times> IPVersion) res" where
  "Set_ResolveTarget env s tool target version =
     ResolveTargetWithRuntime env tool target version (sRuntime s)"

definition ValidateLiteralTarget :: "netenv \<Rightarrow> Tool \<Rightarrow> string \<Rightarrow> IPVersion \<Rightarrow> unit res" where
  "ValidateLiteralTarget env tool target version =
     bind_res (targetHost env tool target) (\<lambda>host.
       case ParseIP host of Some ip \<Rightarrow> check_ip ip version | None \<Rightarrow> Inr ())"

text \<open>The results \<^verbatim>\<open>(version, ok)\<close> are an option.\<close>

definition LiteralIPVersion :: "netenv \<Rightarrow> Tool \<Rightarrow> string \<Rightarrow> (IPVersion option) res" where
  "LiteralIPVersion env tool target =
     bind_res (targetHost env tool target) (\<lambda>host. Inr (map_option ipVersion (ParseIP host)))"

definition ValidateResolvedIP :: "string \<Rightarrow> IPVersion \<Rightarrow> unit res" where
  "ValidateResolvedIP raw version =
     (case ParseIP raw of
        None \<Rightarrow> Inl (Errorf ''invalid resolved ip %q'' [raw])
      | Some ip \<Rightarrow> check_ip ip version)"

definition RequiredProtocol :: "IPVersion \<Rightarrow> ProtocolMask" where
  "RequiredProtocol version =
     (if version = IPv4 then ProtocolIPv4 else if version = IPv6 then ProtocolIPv6 else 0)"

definition AgentSupports :: "Agent \<Rightarrow> Tool \<Rightarrow> IPVersion \<Rightarrow> bool" where
  "AgentSupports a tool version =
     (if aStatus a \<noteq> AgentOnline then False
      else if \<not> list_ex (\<lambda>c. c = tool) (aCapabilities a) then False
      else let protocols = (if aProtocols a = 0 then ProtocolAll else aProtocols a);
               required = RequiredProtocol version
           in required = 0 \<or> protocols AND required \<noteq> 0)"


section \<open>Validation of requests\<close>

definition requiresPinnedAgent :: "Tool \<Rightarrow> bool" where
  "requiresPinnedAgent tool \<longleftrightarrow> tool = ToolTraceroute \<or> tool = ToolMTR"

definition requiresPortArg :: "Tool \<Rightarrow> bool" where
  "requiresPortArg tool \<longleftrightarrow> tool = ToolPort"

fun check_args :: "strmap option \<Rightarrow> Tool \<Rightarrow> strmap \<Rightarrow> unit res" where
  "check_args allowed tool [] = Inr ()"
| "check_args allowed tool ((k, v) # args) =
     (if isServerOwnedArg k then check_args allowed tool args
      else (case (case allowed of None \<Rightarrow> None | Some m \<Rightarrow> mget m k) of
              None \<Rightarrow> Inl (Errorf ''argument %q is not allowed for %s'' [k, tool])
            | Some pattern \<Rightarrow>
                if k = ''port'' then
                  (if is_ok (ValidatePortAllowed pattern v) then check_args allowed tool args
                   else Inl (Errorf ''argument %q is invalid'' [k]))
                else if pattern \<noteq> [] \<and> \<not> AllowedArgContains pattern v
                then Inl (Errorf ''argument %q is invalid'' [k])
                else check_args allowed tool args))"

definition Set_validate :: "netenv \<Rightarrow> Set \<Rightarrow> CreateJobRequest \<Rightarrow> bool \<Rightarrow> Policy res" where
  "Set_validate env s req requirePinned =
     (case mget (byTool s) (rqTool req) of
        None \<Rightarrow> Inl (Errorf ''tool %q is not enabled'' [rqTool req])
      | Some p \<Rightarrow>
          bind_res (ValidateTarget env (rqTool req) (rqTarget req)) (\<lambda>_.
            if requirePinned \<and> requiresPinnedAgent (rqTool req) \<and> TrimSpace (rqAgentID req) = []
            then Inl (Errorf ''%s requires agent_id'' [rqTool req])
            else if requiresPortArg (rqTool req) \<and> TrimSpace (mstr (rqArgs req) ''port'') = []
            then Inl (Errorf ''%s requires port'' [rqTool req])
            else bind_res (check_args (pAllowedArgs p) (rqTool req) (rqArgs req)) (\<lambda>_. Inr p)))"

definition Validate :: "netenv \<Rightarrow> Set \<Rightarrow> CreateJobRequest \<Rightarrow> Policy res" where
  "Validate env s req = Set_validate env s (req\<lparr>rqArgs := Set_ServerArgs s (rqTool req) (rqArgs req)\<rparr>) True"

definition ValidateSchedule :: "netenv \<Rightarrow> Set \<Rightarrow> CreateJobRequest \<Rightarrow> Policy res" where
  "ValidateSchedule env s req =
     Set_validate env s (req\<lparr>rqArgs := Set_ServerArgs s (rqTool req) (rqArgs req)\<rparr>) False"

definition ValidateTrusted :: "netenv \<Rightarrow> Set \<Rightarrow> CreateJobRequest \<Rightarrow> Policy res" where
  "ValidateTrusted env s req =
     Set_validate env s (req\<lparr>rqArgs := Set_AgentArgs s (rqTool req) (rqArgs req)\<rparr>) True"


section \<open>Port rules\<close>

definition range_ok :: "int \<times> int \<Rightarrow> bool" where
  "range_ok r \<longleftrightarrow> 1 \<le> fst r \<and> fst r \<le> snd r \<and> snd r \<le> 65535"

definition in_range :: "int \<Rightarrow> int \<times> int \<Rightarrow> bool" where
  "in_range p r \<longleftrightarrow> fst r \<le> p \<and> p \<le> snd r"

lemma parse_port_range_ok: "parse_port_range s = Inr r \<Longrightarrow> range_ok r"
  by (auto simp: parse_port_range_def range_ok_def Let_def split: if_splits option.splits)

lemma parse_port_parts_ok: "parse_port_parts ps = Inr rs \<Longrightarrow> list_all range_ok rs"
  by (induction ps arbitrary: rs)
    (auto simp: Let_def bind_res_Inr parse_port_range_ok split: if_splits)

lemma parsePortRanges_ok: "parsePortRanges rule = Inr rs \<Longrightarrow> list_all range_ok rs \<and> rs \<noteq> []"
  by (auto simp: parsePortRanges_def bind_res_Inr Let_def dest: parse_port_parts_ok split: if_splits)

lemma Itoa_port: "1 \<le> i \<Longrightarrow> list_all is_digit (Itoa i) \<and> Itoa i \<noteq> []"
  using Itoa_nonneg_digits [of i] by (simp add: Itoa_def)

lemma list_all_digit_graphic: "list_all is_digit s \<Longrightarrow> list_all graphic s"
  by (auto simp: list_all_iff is_digit_graphic)

lemma TrimSpace_Itoa: "0 \<le> i \<Longrightarrow> TrimSpace (Itoa i) = Itoa i"
  by (rule TrimSpace_graphic) (simp add: Itoa_nonneg_digits list_all_digit_graphic)

lemma Itoa_no_char: "0 \<le> i \<Longrightarrow> \<not> is_digit c \<Longrightarrow> c \<notin> set (Itoa i)"
  using Itoa_nonneg_digits [of i] by (auto simp: list_all_iff)

lemma not_digits: "\<not> is_digit (CHR ''-'')" "\<not> is_digit (CHR '','')" "\<not> is_digit (CHR ''.'')"
  by (simp_all add: is_digit_def)

lemma format_port_range_clean:
  assumes "range_ok r"
  shows "list_all graphic (format_port_range r)" "format_port_range r \<noteq> []"
    "CHR '','' \<notin> set (format_port_range r)"
  using assms Itoa_port [of "fst r"] Itoa_port [of "snd r"]
  by (auto simp: format_port_range_def range_ok_def list_all_digit_graphic graphic_def Itoa_no_char not_digits)

lemma port_int64: "1 \<le> i \<Longrightarrow> i \<le> 65535 \<Longrightarrow> int64 i"
  by (simp add: int64_def)

lemma parse_format_port_range:
  assumes "range_ok r"
  shows "parse_port_range (format_port_range r) = Inr r"
proof -
  obtain a b where r: "r = (a, b)" by (cases r)
  with assms have ab: "1 \<le> a" "a \<le> b" "b \<le> 65535" by (auto simp: range_ok_def)
  then have at: "Atoi (Itoa a) = Some a" "Atoi (Itoa b) = Some b"
    by (simp_all add: Atoi_Itoa port_int64)
  have "split (CHR ''-'') (Itoa a) = [Itoa a]" "split (CHR ''-'') (Itoa b) = [Itoa b]"
    using ab by (simp_all add: split_single Itoa_no_char not_digits)
  moreover have "split (CHR ''-'') (Itoa a @ CHR ''-'' # Itoa b) = Itoa a # split (CHR ''-'') (Itoa b)"
    using ab by (simp add: split_sep Itoa_no_char not_digits)
  ultimately show ?thesis
    using ab at by (auto simp: r parse_port_range_def format_port_range_def TrimSpace_Itoa)
qed

lemma parse_port_parts_format:
  "list_all range_ok rs \<Longrightarrow> parse_port_parts (map format_port_range rs) = Inr rs"
  by (induction rs)
    (auto simp: TrimSpace_graphic format_port_range_clean parse_format_port_range Let_def)

lemma join_graphic: "graphic c \<Longrightarrow> list_all (list_all graphic) ps \<Longrightarrow> list_all graphic (join [c] ps)"
  by (induction "[c]" ps rule: join.induct) auto

lemma join_not_Nil: "ps \<noteq> [] \<Longrightarrow> hd ps \<noteq> [] \<Longrightarrow> join sep ps \<noteq> []"
  by (induction sep ps rule: join.induct) auto

lemma parse_formatPortRanges:
  assumes "rs \<noteq> []" and "list_all range_ok rs"
  shows "parsePortRanges (formatPortRanges rs) = Inr rs"
proof -
  have "list_all (list_all graphic) (map format_port_range rs)"
    using assms by (auto simp: list_all_iff dest: format_port_range_clean(1) [unfolded list_all_iff])
  then have "list_all graphic (formatPortRanges rs)"
    unfolding formatPortRanges_def by (intro join_graphic) (simp_all add: graphic_def)
  then have t: "TrimSpace (formatPortRanges rs) = formatPortRanges rs" by (rule TrimSpace_graphic)
  have ne: "formatPortRanges rs \<noteq> []"
    unfolding formatPortRanges_def using assms
    by (intro join_not_Nil) (simp_all add: hd_map format_port_range_clean(2) list_all_iff)
  have "split (CHR '','') (formatPortRanges rs) = map format_port_range rs"
    unfolding formatPortRanges_def using assms
    by (intro split_join) (auto simp: list_all_iff dest: format_port_range_clean(3))
  with t ne assms show ?thesis
    by (simp add: parsePortRanges_def Let_def parse_port_parts_format)
qed


section \<open>Intersection of rules\<close>

text \<open>
  The contract of a rule language: the intersection of two rules accepts exactly what both
  accept, and when there is no intersection no value is accepted by both. It is used for
  port rules and for lists of values; a chain of rules is intersected from the left, as the
  server does with the rules of its labels and tokens.
\<close>

locale rule_language =
  fixes allows :: "'r \<Rightarrow> 'v \<Rightarrow> bool"
    and meet :: "'r \<Rightarrow> 'r \<Rightarrow> 'r option"
  assumes meet_allows: "meet a b = Some c \<Longrightarrow> allows c v \<longleftrightarrow> allows a v \<and> allows b v"
    and meet_none: "meet a b = None \<Longrightarrow> \<not> (allows a v \<and> allows b v)"
begin

definition oallows :: "'r option \<Rightarrow> 'v \<Rightarrow> bool" where
  "oallows r v \<longleftrightarrow> (case r of None \<Rightarrow> False | Some a \<Rightarrow> allows a v)"

definition ometa :: "'r option \<Rightarrow> 'r \<Rightarrow> 'r option" where
  "ometa r b = (case r of None \<Rightarrow> None | Some a \<Rightarrow> meet a b)"

lemma oallows_meet: "oallows (meet a b) v \<longleftrightarrow> allows a v \<and> allows b v"
  using meet_allows [of a b _ v] meet_none [of a b v]
  by (cases "meet a b") (auto simp: oallows_def)

lemma oallows_chain: "oallows (foldl ometa r bs) v \<longleftrightarrow> oallows r v \<and> (\<forall>b\<in>set bs. allows b v)"
proof (induction bs arbitrary: r)
  case (Cons b bs)
  have "oallows (ometa r b) v \<longleftrightarrow> oallows r v \<and> allows b v"
    by (cases r) (auto simp: ometa_def oallows_meet, simp_all add: oallows_def)
  with Cons.IH show ?case by auto
qed simp

lemma meet_commutes: "oallows (meet a b) v = oallows (meet b a) v"
  by (auto simp: oallows_meet)

lemma chain_order:
  "set bs = set cs \<Longrightarrow> oallows (foldl ometa r bs) v = oallows (foldl ometa r cs) v"
  by (simp add: oallows_chain)

end

definition port_allows :: "string \<Rightarrow> string \<Rightarrow> bool" where
  "port_allows rule value \<longleftrightarrow> is_ok (ValidatePortAllowed rule value)"

lemma port_allows_iff:
  "port_allows rule value \<longleftrightarrow>
     (\<exists>p rs. Atoi (TrimSpace value) = Some p \<and> 1 \<le> p \<and> p \<le> 65535 \<and>
             parsePortRanges rule = Inr rs \<and> (\<exists>r\<in>set rs. in_range p r))"
  by (cases "parsePortRanges rule")
    (auto simp: port_allows_def ValidatePortAllowed_def list_ex_iff in_range_def split: option.splits)

definition meet_ranges :: "(int \<times> int) list \<Rightarrow> (int \<times> int) list \<Rightarrow> (int \<times> int) list" where
  "meet_ranges as bs = [(max (fst a) (fst b), min (snd a) (snd b)).
     a \<leftarrow> as, b \<leftarrow> bs, max (fst a) (fst b) \<le> min (snd a) (snd b)]"

lemma meet_ranges_in:
  "(\<exists>r\<in>set (meet_ranges as bs). in_range p r) \<longleftrightarrow>
   (\<exists>r\<in>set as. in_range p r) \<and> (\<exists>r\<in>set bs. in_range p r)"
proof
  assume "\<exists>r\<in>set (meet_ranges as bs). in_range p r"
  then show "(\<exists>r\<in>set as. in_range p r) \<and> (\<exists>r\<in>set bs. in_range p r)"
    by (auto simp: meet_ranges_def in_range_def)
next
  assume "(\<exists>r\<in>set as. in_range p r) \<and> (\<exists>r\<in>set bs. in_range p r)"
  then obtain a b where "a \<in> set as" "b \<in> set bs" and p: "in_range p a" "in_range p b" by blast
  moreover from p have "max (fst a) (fst b) \<le> min (snd a) (snd b)" by (auto simp: in_range_def)
  ultimately have "(max (fst a) (fst b), min (snd a) (snd b)) \<in> set (meet_ranges as bs)"
    by (force simp: meet_ranges_def)
  with p show "\<exists>r\<in>set (meet_ranges as bs). in_range p r"
    by (intro bexI) (auto simp: in_range_def)
qed

lemma meet_ranges_ok: "list_all range_ok as \<Longrightarrow> list_all range_ok bs \<Longrightarrow> list_all range_ok (meet_ranges as bs)"
  by (auto simp: meet_ranges_def list_all_iff range_ok_def)

lemma IntersectPortRules_eq:
  "parsePortRanges l = Inr as \<Longrightarrow> parsePortRanges r = Inr bs \<Longrightarrow>
   IntersectPortRules l r =
     (if meet_ranges as bs = [] then None else Some (formatPortRanges (meet_ranges as bs)))"
  by (simp only: IntersectPortRules_def sum.case meet_ranges_def Let_def)

lemma IntersectPortRules_cases:
  obtains (bad) "IntersectPortRules l r = None" "is_ok (parsePortRanges l) \<Longrightarrow> \<not> is_ok (parsePortRanges r)"
  | (empty) as bs where "IntersectPortRules l r = None" "parsePortRanges l = Inr as"
      "parsePortRanges r = Inr bs" "meet_ranges as bs = []"
  | (ok) as bs c where "IntersectPortRules l r = Some c" "parsePortRanges l = Inr as"
      "parsePortRanges r = Inr bs" "parsePortRanges c = Inr (meet_ranges as bs)"
proof (cases "parsePortRanges l")
  case (Inr as)
  note l = Inr
  show ?thesis
  proof (cases "parsePortRanges r")
    case (Inr bs)
    show ?thesis
    proof (cases "meet_ranges as bs = []")
      case True
      with l Inr show ?thesis
        by (intro empty) (auto simp: IntersectPortRules_eq)
    next
      case False
      have "list_all range_ok (meet_ranges as bs)"
        using l Inr by (auto intro!: meet_ranges_ok dest: parsePortRanges_ok)
      with False l Inr show ?thesis
        by (intro ok [of "formatPortRanges (meet_ranges as bs)"])
          (auto simp: IntersectPortRules_eq parse_formatPortRanges)
    qed
  qed (use l in \<open>auto simp: IntersectPortRules_def intro: bad\<close>)
qed (auto simp: IntersectPortRules_def intro: bad)

lemma IntersectPortRules_some:
  "IntersectPortRules l r = Some c \<Longrightarrow> port_allows c v \<longleftrightarrow> port_allows l v \<and> port_allows r v"
  by (rule IntersectPortRules_cases [of l r]) (auto simp: port_allows_iff meet_ranges_in)

lemma IntersectPortRules_none:
  "IntersectPortRules l r = None \<Longrightarrow> \<not> (port_allows l v \<and> port_allows r v)"
proof (rule IntersectPortRules_cases [of l r])
  fix as bs
  assume "parsePortRanges l = Inr as" "parsePortRanges r = Inr bs" "meet_ranges as bs = []"
  with meet_ranges_in [of as bs "the (Atoi (TrimSpace v))"] show ?thesis
    by (auto simp: port_allows_iff)
qed (auto simp: port_allows_iff is_ok_iff)

interpretation port_rules: rule_language port_allows IntersectPortRules
  by unfold_locales (use IntersectPortRules_some IntersectPortRules_none in blast)+

lemma csvValues_clean:
  "v \<in> set (csvValues rule) \<Longrightarrow> v \<noteq> [] \<and> TrimSpace v = v \<and> CHR '','' \<notin> set v"
proof -
  have sub: "set (TrimSpace s) \<subseteq> set s" for s
  proof -
    obtain u where u: "s = u @ trim_left space_runes s" using trim_left_suffix by blast
    obtain w where w: "rev (trim_left space_runes s) = w @ rev (TrimSpace s)"
      using trim_left_suffix [of "rev (trim_left space_runes s)" "map rev space_runes"]
      by (auto simp: TrimSpace_def)
    have "set (TrimSpace s) \<subseteq> set (trim_left space_runes s)"
      using arg_cong [OF w, of set] by auto
    also have "\<dots> \<subseteq> set s" using arg_cong [OF u, of set] by auto
    finally show ?thesis .
  qed
  assume "v \<in> set (csvValues rule)"
  then show ?thesis using sub split_no_sep by (fastforce simp: csvValues_def)
qed

lemma csvValues_join:
  assumes "vs \<noteq> []" "\<And>v. v \<in> set vs \<Longrightarrow> v \<noteq> [] \<and> TrimSpace v = v \<and> CHR '','' \<notin> set v"
  shows "csvValues (join '','' vs) = vs"
proof -
  have "split (CHR '','') (join '','' vs) = vs"
    by (rule split_join) (use assms in auto)
  moreover have "map TrimSpace vs = vs" "filter (\<lambda>p. p \<noteq> []) vs = vs"
    using assms(2) by (auto intro: map_idI filter_True)
  ultimately show ?thesis by (simp add: csvValues_def)
qed

definition csv_meet :: "string \<Rightarrow> string \<Rightarrow> string option" where
  "csv_meet l r = (let values = intersectCSVValues l r in if values = [] then None else Some (join '','' values))"

lemma csv_meet_values:
  "csv_meet l r = Some c \<Longrightarrow> csvValues c = intersectCSVValues l r"
  by (auto simp: csv_meet_def Let_def intersectCSVValues_def
      intro!: csvValues_join dest: csvValues_clean split: if_splits)

interpretation csv_rules: rule_language AllowedArgContains csv_meet
proof
  fix a b c v
  show "csv_meet a b = Some c \<Longrightarrow> AllowedArgContains c v = (AllowedArgContains a v \<and> AllowedArgContains b v)"
    by (auto simp: AllowedArgContains_def list_ex_iff csv_meet_values intersectCSVValues_def)
  show "csv_meet a b = None \<Longrightarrow> \<not> (AllowedArgContains a v \<and> AllowedArgContains b v)"
    by (auto simp: AllowedArgContains_def list_ex_iff csv_meet_def Let_def intersectCSVValues_def
        filter_empty_conv split: if_splits)
qed


section \<open>Allowed arguments\<close>

text \<open>Whether a map of allowed arguments accepts one argument of a request.\<close>

definition rule_accepts :: "string \<Rightarrow> string \<Rightarrow> string \<Rightarrow> bool" where
  "rule_accepts k rule v \<longleftrightarrow>
     (if k = ''port'' then port_allows rule v else rule = [] \<or> AllowedArgContains rule v)"

definition args_accept :: "strmap option \<Rightarrow> string \<Rightarrow> string \<Rightarrow> bool" where
  "args_accept allowed k v \<longleftrightarrow>
     (case allowed of
        None \<Rightarrow> False
      | Some m \<Rightarrow> (case mget m k of None \<Rightarrow> False | Some rule \<Rightarrow> rule_accepts k rule v))"

text \<open>No rule but a port rule is the empty string, which accepts every value.\<close>

definition rules_listed :: "strmap \<Rightarrow> bool" where
  "rules_listed m \<longleftrightarrow> mwf m \<and> list_all (\<lambda>(k, r). k = ''port'' \<or> r \<noteq> []) m"

lemma check_args_Cons:
  "is_ok (check_args allowed tool ((k, v) # args)) \<longleftrightarrow>
     (isServerOwnedArg k \<or> args_accept allowed k v) \<and> is_ok (check_args allowed tool args)"
  by (auto simp: args_accept_def rule_accepts_def port_allows_def split: option.splits)

lemma check_args_iff:
  "is_ok (check_args allowed tool args) \<longleftrightarrow>
     (\<forall>(k, v)\<in>set args. isServerOwnedArg k \<or> args_accept allowed k v)"
proof (induction args)
  case (Cons e args)
  then show ?case by (cases e) (simp add: check_args_Cons del: check_args.simps)
qed simp

lemma mget_map_filter:
  "mwf m \<Longrightarrow> mget (List.map_filter (\<lambda>(k, v). map_option (Pair k) (f k v)) m) k =
     (case mget m k of None \<Rightarrow> None | Some v \<Rightarrow> f k v)"
proof (induction m)
  case (Cons e m)
  obtain k' v where e: "e = (k', v)" by (cases e)
  from Cons have IH: "mget (List.map_filter (\<lambda>(k, v). map_option (Pair k) (f k v)) m) k =
     (case mget m k of None \<Rightarrow> None | Some v \<Rightarrow> f k v)" by (simp add: mwf_def)
  from Cons.prems e have "mget m k' = None" by (simp add: mwf_def map_of_eq_None_iff)
  with IH e show ?case
    by (cases "f k' v") (auto simp: map_filter_simps)
qed (simp add: map_filter_simps)

lemma mwf_map_filter: "mwf m \<Longrightarrow> mwf (List.map_filter (\<lambda>(k, v). map_option (Pair k) (f k v)) m)"
proof (induction m)
  case (Cons e m)
  obtain k v where e: "e = (k, v)" by (cases e)
  have "fst ` set (List.map_filter (\<lambda>(k, v). map_option (Pair k) (f k v)) m) \<subseteq> fst ` set m" for m
    by (induction m) (auto simp: map_filter_simps split: option.splits)
  with Cons e show ?case
    by (cases "f k v") (auto simp: map_filter_simps mwf_def)
qed (simp add: map_filter_simps)

lemma IntersectAllowedArgs_Some:
  "IntersectAllowedArgs (Some b) (Some l) =
     Some (List.map_filter (\<lambda>(k, v). map_option (Pair k)
             (case mget l k of None \<Rightarrow> None | Some r \<Rightarrow> intersect_arg k v r)) b)"
proof -
  have "(\<lambda>(key, baseRule). case mget l key of None \<Rightarrow> None
           | Some limitRule \<Rightarrow> map_option (Pair key) (intersect_arg key baseRule limitRule)) =
        (\<lambda>(k, v). map_option (Pair k) (case mget l k of None \<Rightarrow> None | Some r \<Rightarrow> intersect_arg k v r))"
    by (auto simp: fun_eq_iff split: option.splits)
  then show ?thesis by (simp add: IntersectAllowedArgs_def)
qed

lemma mget_IntersectAllowedArgs:
  "mwf b \<Longrightarrow> \<exists>m. IntersectAllowedArgs (Some b) (Some l) = Some m \<and> mwf m \<and>
     (\<forall>k. mget m k = (case mget b k of None \<Rightarrow> None | Some x \<Rightarrow>
                       (case mget l k of None \<Rightarrow> None | Some y \<Rightarrow> intersect_arg k x y)))"
  unfolding IntersectAllowedArgs_Some by (auto simp: mget_map_filter mwf_map_filter)

lemma intersect_arg_accepts:
  assumes "k = ''port'' \<or> (x \<noteq> [] \<and> y \<noteq> [])"
  shows "(case intersect_arg k x y of None \<Rightarrow> False | Some r \<Rightarrow> rule_accepts k r v) \<longleftrightarrow>
         rule_accepts k x v \<and> rule_accepts k y v"
proof (cases "k = ''port''")
  case True
  then show ?thesis
    using port_rules.oallows_meet [of x y v]
    by (auto simp: intersect_arg_def rule_accepts_def port_rules.oallows_def split: option.splits)
next
  case False
  then have "intersect_arg k x y = csv_meet x y" by (simp add: intersect_arg_def csv_meet_def)
  moreover have "csv_meet x y = Some [] \<Longrightarrow> False"
    using csv_meet_values [of x y "[]"] by (auto simp: csv_meet_def Let_def csvValues_def split: if_splits)
  ultimately show ?thesis
    using False assms csv_rules.oallows_meet [of x y v]
    by (auto simp: rule_accepts_def csv_rules.oallows_def split: option.splits)
qed

lemma args_accept_intersect:
  assumes "rules_listed b" "rules_listed l"
  shows "args_accept (IntersectAllowedArgs (Some b) (Some l)) k v \<longleftrightarrow>
         args_accept (Some b) k v \<and> args_accept (Some l) k v"
proof -
  obtain m where m: "IntersectAllowedArgs (Some b) (Some l) = Some m"
    "\<And>k. mget m k = (case mget b k of None \<Rightarrow> None | Some x \<Rightarrow>
                       (case mget l k of None \<Rightarrow> None | Some y \<Rightarrow> intersect_arg k x y))"
    using mget_IntersectAllowedArgs [of b l] assms by (auto simp: rules_listed_def)
  show ?thesis
  proof (cases "mget b k = None \<or> mget l k = None")
    case True
    with m show ?thesis by (auto simp: args_accept_def split: option.splits)
  next
    case False
    then obtain x y where xy: "mget b k = Some x" "mget l k = Some y" by auto
    with assms have "k = ''port'' \<or> (x \<noteq> [] \<and> y \<noteq> [])"
      by (auto simp: rules_listed_def list_all_iff dest: map_of_SomeD)
    with intersect_arg_accepts [of k x y v] m xy show ?thesis
      by (simp add: args_accept_def)
  qed
qed


section \<open>Request validation\<close>

definition requirements :: "netenv \<Rightarrow> CreateJobRequest \<Rightarrow> bool \<Rightarrow> bool" where
  "requirements env req pinned \<longleftrightarrow>
     is_ok (ValidateTarget env (rqTool req) (rqTarget req))
     \<and> (pinned \<and> requiresPinnedAgent (rqTool req) \<longrightarrow> TrimSpace (rqAgentID req) \<noteq> [])
     \<and> (requiresPortArg (rqTool req) \<longrightarrow> TrimSpace (mstr (rqArgs req) ''port'') \<noteq> [])"

lemma is_ok_bind: "is_ok (bind_res r f) \<longleftrightarrow> (\<exists>a. r = Inr a \<and> is_ok (f a))"
  by (cases r) auto

lemma unit_is_ok: "is_ok r \<longleftrightarrow> r = Inr ()" for r :: "unit res"
  by (cases r) auto

lemma Set_validate_iff:
  "Set_validate env s req pinned = Inr p \<longleftrightarrow>
     mget (byTool s) (rqTool req) = Some p \<and> requirements env req pinned \<and>
     (\<forall>(k, v)\<in>set (rqArgs req). isServerOwnedArg k \<or> args_accept (pAllowedArgs p) k v)"
proof (cases "mget (byTool s) (rqTool req)")
  case (Some q)
  have "is_ok (check_args (pAllowedArgs q) (rqTool req) (rqArgs req)) \<longleftrightarrow>
        (\<forall>(k, v)\<in>set (rqArgs req). isServerOwnedArg k \<or> args_accept (pAllowedArgs q) k v)"
    by (rule check_args_iff)
  then show ?thesis
    using Some
    by (auto simp: Set_validate_def requirements_def bind_res_Inr unit_is_ok split: if_splits)
qed (simp add: Set_validate_def)

lemma ServerArgs_user:
  "\<not> isServerOwnedArg k \<Longrightarrow> mwf args \<Longrightarrow> mget (ServerArgsWithRuntime tool args r) k = mget args k"
  by (auto simp: ServerArgsWithRuntime_def isServerOwnedArg_def mget_filter Let_def split: option.splits)

lemma mwf_ServerArgs: "mwf args \<Longrightarrow> mwf (ServerArgsWithRuntime tool args r)"
  by (simp add: ServerArgsWithRuntime_def Let_def)

lemma user_args_same:
  assumes "mwf args"
  shows "(\<forall>(k, v)\<in>set (ServerArgsWithRuntime tool args r). isServerOwnedArg k \<or> P k v) \<longleftrightarrow>
         (\<forall>(k, v)\<in>set args. isServerOwnedArg k \<or> P k v)"
proof -
  have "(k, v) \<in> set (ServerArgsWithRuntime tool args r) \<longleftrightarrow> (k, v) \<in> set args"
    if "\<not> isServerOwnedArg k" for k v
    using that assms ServerArgs_user [of k args tool r] mwf_ServerArgs [of args tool r]
    by (simp add: mget_iff [symmetric])
  then show ?thesis by blast
qed

lemma requirements_ServerArgs:
  "mwf (rqArgs req) \<Longrightarrow>
   requirements env (req\<lparr>rqArgs := ServerArgsWithRuntime tool (rqArgs req) r\<rparr>) pinned = requirements env req pinned"
  using ServerArgs_user [of "''port''" "rqArgs req" tool r]
  by (simp add: requirements_def mstr_def isServerOwnedArg_def)

lemma Validate_iff:
  assumes "mwf (rqArgs req)"
  shows "Validate env s req = Inr p \<longleftrightarrow>
     mget (byTool s) (rqTool req) = Some p \<and> requirements env req True \<and>
     (\<forall>(k, v)\<in>set (rqArgs req). isServerOwnedArg k \<or> args_accept (pAllowedArgs p) k v)"
  using user_args_same [OF assms, of "rqTool req" "sRuntime s" "args_accept (pAllowedArgs p)"]
    requirements_ServerArgs [OF assms]
  by (simp add: Validate_def Set_validate_iff Set_ServerArgs_def)

lemma ValidateSchedule_iff:
  assumes "mwf (rqArgs req)"
  shows "ValidateSchedule env s req = Inr p \<longleftrightarrow>
     mget (byTool s) (rqTool req) = Some p \<and> requirements env req False \<and>
     (\<forall>(k, v)\<in>set (rqArgs req). isServerOwnedArg k \<or> args_accept (pAllowedArgs p) k v)"
  using user_args_same [OF assms, of "rqTool req" "sRuntime s" "args_accept (pAllowedArgs p)"]
    requirements_ServerArgs [OF assms]
  by (simp add: ValidateSchedule_def Set_validate_iff Set_ServerArgs_def)


section \<open>Sets of policies only narrow\<close>

definition known_tool :: "Tool \<Rightarrow> bool" where
  "known_tool t \<longleftrightarrow> t \<in> set (map fst default_allowed_args)"

definition policy_listed :: "Policy \<Rightarrow> bool" where
  "policy_listed p \<longleftrightarrow> (case pAllowedArgs p of None \<Rightarrow> False | Some m \<Rightarrow> rules_listed m)"

definition set_ok :: "Set \<Rightarrow> bool" where
  "set_ok s \<longleftrightarrow> (\<forall>t p. mget (byTool s) t = Some p \<longrightarrow> known_tool t \<and> policy_listed p)"

definition cfg_listed :: "(string, CfgPolicy) gomap \<Rightarrow> bool" where
  "cfg_listed cfg \<longleftrightarrow> mwf cfg \<and>
     list_all (\<lambda>(t, p). case cpAllowedArgs p of None \<Rightarrow> True | Some m \<Rightarrow> rules_listed m) cfg"

text \<open>What one configured policy makes of a policy.\<close>

definition narrow :: "CfgPolicy option \<Rightarrow> Policy \<Rightarrow> Policy option" where
  "narrow c p =
     (case c of
        None \<Rightarrow> Some p
      | Some c \<Rightarrow>
          if \<not> cpEnabled c then None
          else if cpAllowedArgs c \<noteq> None
          then Some (p\<lparr>pAllowedArgs := IntersectAllowedArgs (pAllowedArgs p) (cpAllowedArgs c)\<rparr>)
          else Some p)"

lemma narrow_None [simp]: "narrow None = Some"
  by (simp add: narrow_def fun_eq_iff)

lemma mget_intersect_tool:
  assumes "\<And>u. mget base u = None \<Longrightarrow> mget out u = None"
  shows "mget (intersect_tool base (t, c) out) u =
         (if u = t then Option.bind (mget out t) (narrow (Some c)) else mget out u)"
  using assms [of t]
  by (auto simp: intersect_tool_def narrow_def split: option.splits)

lemma mget_intersect_tools:
  assumes "mwf cfg" "\<And>u. mget base u = None \<Longrightarrow> mget out u = None"
  shows "mget (fold (intersect_tool base) cfg out) u = Option.bind (mget out u) (narrow (mget cfg u))"
  using assms
proof (induction cfg arbitrary: out)
  case Nil
  then show ?case by (cases "mget out u") (auto simp: narrow_def)
next
  case (Cons e cfg)
  obtain t c where e: "e = (t, c)" by (cases e)
  let ?out = "intersect_tool base e out"
  have out: "mget ?out u = (if u = t then Option.bind (mget out t) (narrow (Some c)) else mget out u)" for u
    unfolding e by (rule mget_intersect_tool) (rule Cons.prems(2))
  from Cons.prems(1) e have t: "mget cfg t = None" "mwf cfg"
    by (auto simp: mwf_def map_of_eq_None_iff)
  have "mget (fold (intersect_tool base) cfg ?out) u = Option.bind (mget ?out u) (narrow (mget cfg u))"
    by (rule Cons.IH) (use t Cons.prems(2) out in auto)
  with out t e show ?case by (simp add: narrow_None)
qed

lemma mget_base:
  "mget (byTool (PoliciesWithRuntime r)) t =
     map_option (\<lambda>args. \<lparr>pTool = t, pTimeout = TimeoutForJobWithRuntime t (normalizeRuntime r),
        pProbeTimeout = seconds (rtProbeStepTimeoutSec (normalizeRuntime r)), pAllowedArgs = Some args\<rparr>)
       (mget default_allowed_args t)"
  unfolding PoliciesWithRuntime_def Let_def by (simp add: mget_map_values)

lemma mwf_base: "mwf (byTool (PoliciesWithRuntime r))"
  by (simp add: PoliciesWithRuntime_def default_allowed_args_def Let_def mwf_def)

definition rebased :: "Runtime \<Rightarrow> Tool \<Rightarrow> Policy \<Rightarrow> Policy" where
  "rebased r t p =
     \<lparr>pTool = t, pTimeout = TimeoutForJobWithRuntime t (normalizeRuntime r),
      pProbeTimeout = seconds (rtProbeStepTimeoutSec (normalizeRuntime r)), pAllowedArgs = pAllowedArgs p\<rparr>"

lemma mget_WithIntersection:
  assumes "mwf cfg"
  shows "mget (byTool (WithIntersection s cfg r)) t =
     (if known_tool t
      then Option.bind (mget (byTool s) t) (\<lambda>p. narrow (mget cfg t) (rebased r t p)) else None)"
proof -
  let ?base = "byTool (PoliciesWithRuntime r)"
  define f where "f tool p = map_option (\<lambda>ex. p\<lparr>pAllowedArgs := pAllowedArgs ex\<rparr>) (mget (byTool s) tool)"
    for tool and p :: Policy
  let ?out = "List.map_filter (\<lambda>(tool, p). map_option (Pair tool) (f tool p)) ?base"
  have eq: "(\<lambda>(tool, p). case mget (byTool s) tool of None \<Rightarrow> None
              | Some existing \<Rightarrow> Some (tool, p\<lparr>pAllowedArgs := pAllowedArgs existing\<rparr>)) =
            (\<lambda>(tool, p). map_option (Pair tool) (f tool p))"
    by (auto simp: f_def fun_eq_iff split: option.splits)
  have out: "mget ?out u = (case mget ?base u of None \<Rightarrow> None | Some v \<Rightarrow> f u v)" for u
    by (rule mget_map_filter) (rule mwf_base)
  have "mget (byTool (WithIntersection s cfg r)) t = Option.bind (mget ?out t) (narrow (mget cfg t))"
    unfolding WithIntersection_def Let_def eq Set.select_convs
    by (rule mget_intersect_tools [OF assms]) (simp add: out)
  moreover have "known_tool t \<longleftrightarrow> mget default_allowed_args t \<noteq> None"
    by (simp add: known_tool_def map_of_eq_None_iff)
  then have "mget ?out t = (if known_tool t then map_option (rebased r t) (mget (byTool s) t) else None)"
    by (subst out) (auto simp: mget_base f_def rebased_def intro!: option.map_cong0)
  ultimately show ?thesis by (cases "mget (byTool s) t") simp_all
qed


lemma intersect_arg_listed: "intersect_arg k x y = Some r \<Longrightarrow> k = ''port'' \<or> r \<noteq> []"
  using csv_meet_values [of x y r]
  by (auto simp: intersect_arg_def csv_meet_def Let_def csvValues_def split: if_splits)

lemma IntersectAllowedArgs_listed:
  assumes "rules_listed b" "rules_listed l"
  shows "\<exists>m. IntersectAllowedArgs (Some b) (Some l) = Some m \<and> rules_listed m"
proof -
  obtain m where m: "IntersectAllowedArgs (Some b) (Some l) = Some m" "mwf m"
    "\<forall>k. mget m k = (case mget b k of None \<Rightarrow> None | Some x \<Rightarrow>
                       (case mget l k of None \<Rightarrow> None | Some y \<Rightarrow> intersect_arg k x y))"
    using mget_IntersectAllowedArgs [of b l] assms by (auto simp: rules_listed_def)
  have "k = ''port'' \<or> r \<noteq> []" if "(k, r) \<in> set m" for k r
    using that m by (auto simp: mget_iff [OF m(2), symmetric] dest: intersect_arg_listed split: option.splits)
  with m show ?thesis by (auto simp: rules_listed_def list_all_iff)
qed

lemma narrow_listed:
  assumes "policy_listed p" "narrow c p = Some q"
    and "\<And>l. Option.bind c cpAllowedArgs = Some l \<Longrightarrow> rules_listed l"
  shows "policy_listed q"
  using assms IntersectAllowedArgs_listed
  by (fastforce simp: narrow_def policy_listed_def split: option.splits if_splits)

lemma cfg_listed_get: "cfg_listed cfg \<Longrightarrow> Option.bind (mget cfg t) cpAllowedArgs = Some l \<Longrightarrow> rules_listed l"
  by (cases "mget cfg t") (auto simp: cfg_listed_def list_all_iff dest!: map_of_SomeD)

lemma PoliciesWithRuntime_ok: "set_ok (PoliciesWithRuntime r)"
proof -
  have "list_all (\<lambda>(t, m). rules_listed m) default_allowed_args"
    by (simp add: default_allowed_args_def rules_listed_def DefaultPortRange_def mwf_def)
  then show ?thesis
    by (auto simp: set_ok_def mget_base known_tool_def policy_listed_def list_all_iff dest!: map_of_SomeD)
      (force+)
qed

lemma WithIntersection_ok:
  assumes "set_ok s" "cfg_listed cfg"
  shows "set_ok (WithIntersection s cfg r)"
  unfolding set_ok_def
proof (intro allI impI)
  fix t p
  assume "mget (byTool (WithIntersection s cfg r)) t = Some p"
  with assms obtain q where "known_tool t" "mget (byTool s) t = Some q"
    and n: "narrow (mget cfg t) (rebased r t q) = Some p"
    by (auto simp: mget_WithIntersection cfg_listed_def bind_eq_Some_conv split: if_splits)
  moreover from this assms have "policy_listed (rebased r t q)"
    by (auto simp: set_ok_def policy_listed_def rebased_def)
  ultimately show "known_tool t \<and> policy_listed p"
    using narrow_listed [OF _ n] cfg_listed_get [OF assms(2)] by blast
qed

text \<open>What a configuration asks of a request, beside what the set already asks.\<close>

definition cfg_permits :: "(string, CfgPolicy) gomap \<Rightarrow> CreateJobRequest \<Rightarrow> bool" where
  "cfg_permits cfg req \<longleftrightarrow>
     (case mget cfg (rqTool req) of
        None \<Rightarrow> True
      | Some c \<Rightarrow>
          cpEnabled c \<and>
          (case cpAllowedArgs c of
             None \<Rightarrow> True
           | Some l \<Rightarrow> list_all (\<lambda>(k, v). isServerOwnedArg k \<or> args_accept (Some l) k v) (rqArgs req)))"

lemma narrow_accepts:
  assumes "policy_listed p" "\<And>l. Option.bind c cpAllowedArgs = Some l \<Longrightarrow> rules_listed l"
  shows "(\<exists>q. narrow c p = Some q \<and> (\<forall>(k, v)\<in>set args. isServerOwnedArg k \<or> args_accept (pAllowedArgs q) k v)) \<longleftrightarrow>
         (\<forall>(k, v)\<in>set args. isServerOwnedArg k \<or> args_accept (pAllowedArgs p) k v) \<and>
         (case c of None \<Rightarrow> True | Some c \<Rightarrow> cpEnabled c \<and>
           (case cpAllowedArgs c of None \<Rightarrow> True
            | Some l \<Rightarrow> list_all (\<lambda>(k, v). isServerOwnedArg k \<or> args_accept (Some l) k v) args))"
proof -
  from assms(1) obtain b where b: "pAllowedArgs p = Some b" "rules_listed b"
    by (auto simp: policy_listed_def split: option.splits)
  show ?thesis
  proof (cases "Option.bind c cpAllowedArgs")
    case None
    then show ?thesis by (cases c) (auto simp: narrow_def)
  next
    case (Some l)
    then obtain d where c: "c = Some d" "cpAllowedArgs d = Some l" by (cases c) auto
    have "args_accept (IntersectAllowedArgs (Some b) (Some l)) k v \<longleftrightarrow>
          args_accept (Some b) k v \<and> args_accept (Some l) k v" for k v
      by (rule args_accept_intersect [OF b(2) assms(2) [OF Some]])
    with b c show ?thesis by (auto simp: narrow_def list_all_iff)
  qed
qed

lemma WithIntersection_exact:
  assumes "set_ok s" "cfg_listed cfg" "mwf (rqArgs req)"
  shows "is_ok (Validate env (WithIntersection s cfg r) req) \<longleftrightarrow>
         is_ok (Validate env s req) \<and> cfg_permits cfg req"
proof (cases "mget (byTool s) (rqTool req)")
  case None
  then show ?thesis
    using assms by (auto simp: is_ok_iff Validate_iff mget_WithIntersection cfg_listed_def)
next
  case (Some p)
  let ?p = "rebased r (rqTool req) p"
  from Some assms(1) have k: "known_tool (rqTool req)" and l: "policy_listed ?p" and
    eq: "pAllowedArgs ?p = pAllowedArgs p"
    by (auto simp: set_ok_def policy_listed_def rebased_def)
  from assms(2) have "mwf cfg" by (simp add: cfg_listed_def)
  then have "mget (byTool (WithIntersection s cfg r)) (rqTool req) = narrow (mget cfg (rqTool req)) ?p"
    by (simp add: mget_WithIntersection k Some)
  moreover note narrow_accepts [OF l cfg_listed_get [OF assms(2), where t = "rqTool req"], where args = "rqArgs req"]
  ultimately show ?thesis
    using Some assms(3) eq
    by (auto simp: is_ok_iff Validate_iff cfg_permits_def)
qed

end
