(* ===== verification/Targets.thy ===== *)
theory Targets
  imports Policy
begin

text \<open>
  Facts about the policy of \<open>Policy\<close>: how long a job may run, although the products of its
  configured factors can overflow; and which addresses can be probed, as ranges of numbers.
\<close>

unbundle bit_operations_syntax


section \<open>Timeouts\<close>

lemma normalizeRuntime_pos:
  "0 < rtCount (normalizeRuntime r)" "0 < rtMaxHops (normalizeRuntime r)"
  "0 < rtProbeStepTimeoutSec (normalizeRuntime r)" "0 < rtMaxToolTimeoutSec (normalizeRuntime r)"
  "0 < rtHTTPTimeoutSec (normalizeRuntime r)" "0 < rtDNSTimeoutSec (normalizeRuntime r)"
  "0 < rtResolveTimeoutSec (normalizeRuntime r)" "0 < rtHTTPInvokeAttempts (normalizeRuntime r)"
  "0 < rtHTTPMaxHealthIntervalSec (normalizeRuntime r)"
  by (simp_all add: normalizeRuntime_def or_positive_def DefaultRuntime_def DefaultRuntimeValues_def
      zero_Runtime_def or_default_def Let_def)

lemma normalizeRuntime_idem [simp]: "normalizeRuntime (normalizeRuntime r) = normalizeRuntime r"
  by (simp add: normalizeRuntime_def or_positive_def DefaultRuntime_def DefaultRuntimeValues_def
      zero_Runtime_def or_default_def Let_def)

text \<open>
  The two durations that have to fit: the time for one probe and the longest time for a tool,
  each below 2^63 nanoseconds (292 years).
\<close>

definition durations_fit :: "Runtime \<Rightarrow> bool" where
  "durations_fit r \<longleftrightarrow>
     rtProbeStepTimeoutSec (normalizeRuntime r) \<le> 9223372036
     \<and> rtMaxToolTimeoutSec (normalizeRuntime r) \<le> 9223372036"

lemma fit_seconds:
  assumes "durations_fit r"
  shows "seconds (rtProbeStepTimeoutSec (normalizeRuntime r)) = rtProbeStepTimeoutSec (normalizeRuntime r) * Second"
    "seconds (rtMaxToolTimeoutSec (normalizeRuntime r)) = rtMaxToolTimeoutSec (normalizeRuntime r) * Second"
  using assms normalizeRuntime_pos [of r] by (auto simp: durations_fit_def intro!: seconds_exact)

text \<open>
  (C39) The timeout of a job is positive and at most the configured maximum, for every tool
  and every configured count, hop limit and request timeout, although the products that
  compute it wrap around at 64 bits: a job can neither run without a deadline nor beyond the
  maximum.
\<close>

theorem job_timeout_bounded:
  assumes "durations_fit r"
  shows "0 < TimeoutForJobWithRuntime tool r
    \<and> TimeoutForJobWithRuntime tool r \<le> rtMaxToolTimeoutSec (normalizeRuntime r) * Second"
  using fit_seconds [OF assms] normalizeRuntime_pos [of r]
  by (auto simp: TimeoutForJobWithRuntime_def Let_def)

theorem job_timeout_bounded_witness:
  "0 < TimeoutForJobWithRuntime ToolMTR DefaultRuntime
    \<and> TimeoutForJobWithRuntime ToolMTR DefaultRuntime \<le> rtMaxToolTimeoutSec (normalizeRuntime DefaultRuntime) * Second"
  by (rule job_timeout_bounded) code_simp

text \<open>The time a tool is meant to take, in seconds and without wrap-around.\<close>

definition intended_seconds :: "Tool \<Rightarrow> Runtime \<Rightarrow> int" where
  "intended_seconds tool r =
     (let n = normalizeRuntime r; p = rtProbeStepTimeoutSec n in
      if tool = ToolPing then rtCount n * p + (rtCount n - 1)
      else if tool = ToolTraceroute then rtMaxHops n * p
      else if tool = ToolMTR then rtCount n * rtMaxHops n * p
      else if tool = ToolHTTP then rtHTTPTimeoutSec n
      else if tool = ToolDNS then rtDNSTimeoutSec n
      else p)"

lemma factor_le: "0 < a \<Longrightarrow> 0 < b \<Longrightarrow> a \<le> a * b" for a b :: int
  by (metis mult_le_cancel_left1 zless_add1_eq add_0 less_le_not_le zless_imp_add1_zle)

lemma wrap64_seconds: "0 \<le> n \<Longrightarrow> n \<le> 9223372036 \<Longrightarrow> wrap64 (n * Second) = n * Second"
  by (rule wrap64_id) (simp add: int64_def)

lemma intended_pos: "0 < intended_seconds tool r"
proof -
  note pos = normalizeRuntime_pos [of r]
  then have "0 < rtCount (normalizeRuntime r) * rtProbeStepTimeoutSec (normalizeRuntime r)
    + (rtCount (normalizeRuntime r) - 1)" by (intro add_pos_nonneg) simp_all
  with pos show ?thesis by (simp add: intended_seconds_def Let_def)
qed

lemma raw_timeout:
  fixes n :: Runtime
  assumes pos: "0 < c" "0 < h" "0 < p"
  shows "c * p + (c - 1) \<le> 9223372036 \<Longrightarrow>
           wrap64 (wrap64 (c * (p * Second)) + seconds (c - 1)) = (c * p + (c - 1)) * Second"
    and "h * p \<le> 9223372036 \<Longrightarrow> wrap64 (h * (p * Second)) = h * p * Second"
    and "c * h * p \<le> 9223372036 \<Longrightarrow> wrap64 (wrap64 (c * h) * (p * Second)) = c * h * p * Second"
proof -
  assume le: "c * p + (c - 1) \<le> 9223372036"
  have cp: "0 < c * p" "0 \<le> c - 1" using pos by simp_all
  with le have "c * p \<le> 9223372036" "c - 1 \<le> 9223372036" by linarith+
  with cp have "wrap64 (c * p * Second) = c * p * Second" "seconds (c - 1) = (c - 1) * Second"
    by (simp_all add: wrap64_seconds seconds_exact)
  moreover have "wrap64 ((c * p + (c - 1)) * Second) = (c * p + (c - 1)) * Second"
    using cp le by (intro wrap64_seconds) linarith+
  moreover have "c * (p * Second) = c * p * Second"
    "(c * p + (c - 1)) * Second = c * p * Second + (c - 1) * Second"
    by (simp_all only: mult.assoc distrib_right)
  ultimately show "wrap64 (wrap64 (c * (p * Second)) + seconds (c - 1)) = (c * p + (c - 1)) * Second"
    by (simp only:)
next
  assume le: "h * p \<le> 9223372036"
  have "0 < h * p" using pos by simp
  with le wrap64_seconds [of "h * p"] show "wrap64 (h * (p * Second)) = h * p * Second"
    by (simp add: mult.assoc)
next
  assume le: "c * h * p \<le> 9223372036"
  have ch: "0 < c * h" "0 < c * h * p" using pos by simp_all
  with pos have "c * h \<le> c * h * p" by (intro factor_le)
  with ch le have "wrap64 (c * h) = c * h" by (intro wrap64_id) (simp add: int64_def)
  with ch le wrap64_seconds [of "c * h * p"]
  show "wrap64 (wrap64 (c * h) * (p * Second)) = c * h * p * Second" by (simp add: mult.assoc)
qed

lemma timeout_of_intended:
  assumes fit: "durations_fit r" and small: "intended_seconds tool r \<le> 9223372036"
  defines "t \<equiv> intended_seconds tool r * Second"
    and "p \<equiv> rtProbeStepTimeoutSec (normalizeRuntime r) * Second"
    and "m \<equiv> rtMaxToolTimeoutSec (normalizeRuntime r) * Second"
  shows "TimeoutForJobWithRuntime tool r =
    (if m < (if t \<le> 0 then p else t) then m else if t \<le> 0 then p else t)"
proof -
  note pos = normalizeRuntime_pos [of r]
  note defs = TimeoutForJobWithRuntime_def Let_def fit_seconds [OF fit] intended_seconds_def
    t_def p_def m_def
  note eqs = raw_timeout [OF pos(1-3)] seconds_exact [OF less_imp_le [OF pos(5)]]
    seconds_exact [OF less_imp_le [OF pos(6)]]
  note small' = small [unfolded intended_seconds_def Let_def]
  consider "tool = ToolPing" | "tool = ToolTraceroute" | "tool = ToolMTR" | "tool = ToolHTTP"
    | "tool = ToolDNS"
    | "tool \<noteq> ToolPing" "tool \<noteq> ToolTraceroute" "tool \<noteq> ToolMTR" "tool \<noteq> ToolHTTP" "tool \<noteq> ToolDNS"
    by blast
  then show ?thesis
  proof cases
    case 1
    with small' have "rtCount (normalizeRuntime r) * rtProbeStepTimeoutSec (normalizeRuntime r)
      + (rtCount (normalizeRuntime r) - 1) \<le> 9223372036" by simp
    with 1 show ?thesis by (simp only: defs eqs if_True if_False simp_thms)
  next
    case 2
    with small' have "rtMaxHops (normalizeRuntime r) * rtProbeStepTimeoutSec (normalizeRuntime r) \<le> 9223372036" by simp
    from eqs(2) [OF this] 2 show ?thesis by (simp add: defs)
  next
    case 3
    with small' have "rtCount (normalizeRuntime r) * rtMaxHops (normalizeRuntime r)
      * rtProbeStepTimeoutSec (normalizeRuntime r) \<le> 9223372036" by simp
    from eqs(3) [OF this] 3 show ?thesis by (simp add: defs)
  next
    case 4
    with small' eqs(4) show ?thesis by (simp add: defs)
  next
    case 5
    with small' eqs(5) show ?thesis by (simp add: defs)
  next
    case 6
    then show ?thesis by (simp add: defs)
  qed
qed

text \<open>
  Where the intended time fits into a duration, the timeout of a job is exactly the
  smaller of the intended time of its tool and the configured maximum.
\<close>

theorem job_timeout_exact:
  assumes "durations_fit r" and "intended_seconds tool r \<le> 9223372036"
  shows "TimeoutForJobWithRuntime tool r =
         min (intended_seconds tool r) (rtMaxToolTimeoutSec (normalizeRuntime r)) * Second"
  using timeout_of_intended [OF assms] intended_pos [of tool r] by (simp add: min_def)

theorem job_timeout_exact_witness: "TimeoutForJobWithRuntime ToolPing DefaultRuntime = 19 * Second"
proof -
  have "durations_fit DefaultRuntime" "intended_seconds ToolPing DefaultRuntime \<le> 9223372036" by code_simp+
  from job_timeout_exact [OF this] show ?thesis by code_simp
qed


section \<open>Addresses that may be probed\<close>

text \<open>The IPv4 numbers that are refused: from the first number, below the second.\<close>

definition blocked_v4 :: "(nat \<times> nat) list" where
  "blocked_v4 =
     [(0x00000000, 0x01000000), (0x0a000000, 0x0b000000), (0x64400000, 0x64800000),
      (0x7f000000, 0x80000000), (0xa9fe0000, 0xa9ff0000), (0xac100000, 0xac200000),
      (0xc0000000, 0xc0000100), (0xc0000200, 0xc0000300), (0xc0a80000, 0xc0a90000),
      (0xc6120000, 0xc6140000), (0xc6336400, 0xc6336500), (0xcb007100, 0xcb007200),
      (0xe0000000, 0xf0000000), (0xf0000000, 0x100000000)]"

definition in_ranges :: "(nat \<times> nat) list \<Rightarrow> nat \<Rightarrow> bool" where
  "in_ranges rs n \<longleftrightarrow> list_ex (\<lambda>(lo, hi). lo \<le> n \<and> n < hi) rs"

lemma prefix_mixed [simp]:
  "\<not> prefix_contains (Prefix (Addr6 p z) bits) (Addr4 a)"
  "\<not> prefix_contains (Prefix (Addr4 q) bits) (Addr6 w z)"
  by simp_all

lemma special_use_v4: "isBlockedSpecialUse (Addr4 a) \<longleftrightarrow> in_ranges blocked_v4 (unat a)"
  unfolding isBlockedSpecialUse_def blocked_prefixes_def blocked_v4_def in_ranges_def list_ex_Nil_iff list_ex_Cons_iff
    prod.case
  by (simp add: prefix4_range del: prefix_contains.simps)

lemma drop_bit_eq_lit: "drop_bit k a = c \<longleftrightarrow> unat a div 2 ^ k = unat c" for a c :: "'a::len word"
  by (metis unat_shift word_unat_eq_iff)

lemma div_lit_range: "0 < d \<Longrightarrow> x div d = c \<longleftrightarrow> c * d \<le> x \<and> x < c * d + d" for x d c :: nat
  by (metis add.commute div_nat_eqI dividend_less_times_div le_add1 mult.commute mult_Suc_right
      times_div_less_eq_dividend)


lemma class_v4:
  "IsUnspecified (Addr4 a) \<longleftrightarrow> unat a = 0"
  "IsLoopback (Addr4 a) \<longleftrightarrow> 0x7f000000 \<le> unat a \<and> unat a < 0x80000000"
  "IsPrivate (Addr4 a) \<longleftrightarrow> (0x0a000000 \<le> unat a \<and> unat a < 0x0b000000)
     \<or> (0xac100000 \<le> unat a \<and> unat a < 0xac200000) \<or> (0xc0a80000 \<le> unat a \<and> unat a < 0xc0a90000)"
  "IsLinkLocalUnicast (Addr4 a) \<longleftrightarrow> 0xa9fe0000 \<le> unat a \<and> unat a < 0xa9ff0000"
  "IsMulticast (Addr4 a) \<longleftrightarrow> 0xe0000000 \<le> unat a \<and> unat a < 0xf0000000"
  by (simp_all add: IsLoopback_def IsPrivate_def IsLinkLocalUnicast_def IsMulticast_def
      drop_bit_eq_lit div_lit_range unat_eq_zero)

lemma class_v4_blocked:
  "IsUnspecified (Addr4 a) \<Longrightarrow> in_ranges blocked_v4 (unat a)"
  "IsLoopback (Addr4 a) \<Longrightarrow> in_ranges blocked_v4 (unat a)"
  "IsPrivate (Addr4 a) \<Longrightarrow> in_ranges blocked_v4 (unat a)"
  "IsLinkLocalUnicast (Addr4 a) \<Longrightarrow> in_ranges blocked_v4 (unat a)"
  "IsMulticast (Addr4 a) \<Longrightarrow> in_ranges blocked_v4 (unat a)"
  unfolding class_v4 in_ranges_def blocked_v4_def list_ex_Nil_iff list_ex_Cons_iff prod.case
  by (simp, blast+)

lemma global_v4_blocked: "\<not> IsGlobalUnicast (Addr4 a) \<Longrightarrow> in_ranges blocked_v4 (unat a)"
proof -
  assume "\<not> IsGlobalUnicast (Addr4 a)"
  then consider "a = 0" | "a = 0xffffffff" | "IsLoopback (Addr4 a)" | "IsMulticast (Addr4 a)"
    | "IsLinkLocalUnicast (Addr4 a)"
    by (auto simp: IsGlobalUnicast_def Let_def)
  then show ?thesis
    by cases (simp_all add: class_v4_blocked, simp_all add: in_ranges_def blocked_v4_def)
qed

lemma blocked_v4_iff: "blocked_addr (Addr4 a) \<longleftrightarrow> in_ranges blocked_v4 (unat a)"
  unfolding blocked_addr_def special_use_v4
  using class_v4_blocked [of a] global_v4_blocked [of a] by blast

lemma validateAllowedIP_v4:
  "is_ok (validateAllowedIP (v4_string a)) \<longleftrightarrow> \<not> in_ranges blocked_v4 (unat a)"
  by (simp add: validateAllowedIP_def check_addr_def blocked_v4_iff)


text \<open>The IPv6 numbers that are refused (those that are not IPv4 addresses in disguise).\<close>

definition blocked_v6 :: "(nat \<times> nat) list" where
  "blocked_v6 =
     [(0, 1), (1, 2),
      (0xfc000000000000000000000000000000, 0xfe000000000000000000000000000000),
      (0xfe800000000000000000000000000000, 0xfec00000000000000000000000000000),
      (0xff000000000000000000000000000000, 0x100000000000000000000000000000000)]"

lemma special_use_v6: "isBlockedSpecialUse (Addr6 w []) \<longleftrightarrow> in_ranges blocked_v6 (unat w)"
  unfolding isBlockedSpecialUse_def blocked_prefixes_def blocked_v6_def in_ranges_def
    list_ex_Nil_iff list_ex_Cons_iff prod.case
  by (simp add: prefix6_range del: prefix_contains.simps) (auto simp: numeral_2_eq_2)

lemma unat_one_iff: "w = 1 \<longleftrightarrow> unat w = 1" for w :: "'a::len word"
  by (metis unat_1 word_unat_eq_iff)

lemma class_v6:
  assumes "drop_bit 32 w \<noteq> 0xffff"
  shows "IsUnspecified (Addr6 w []) \<longleftrightarrow> unat w = 0"
    "IsLoopback (Addr6 w []) \<longleftrightarrow> unat w = 1"
    "IsPrivate (Addr6 w []) \<longleftrightarrow>
       0xfc000000000000000000000000000000 \<le> unat w \<and> unat w < 0xfe000000000000000000000000000000"
    "IsLinkLocalUnicast (Addr6 w []) \<longleftrightarrow>
       0xfe800000000000000000000000000000 \<le> unat w \<and> unat w < 0xfec00000000000000000000000000000"
    "IsMulticast (Addr6 w []) \<longleftrightarrow>
       0xff000000000000000000000000000000 \<le> unat w \<and> unat w < 0x100000000000000000000000000000000"
proof -
  have u: "Unmap (Addr6 w []) = Addr6 w []" using assms by simp
  show "IsUnspecified (Addr6 w []) \<longleftrightarrow> unat w = 0"
    "IsLoopback (Addr6 w []) \<longleftrightarrow> unat w = 1"
    "IsPrivate (Addr6 w []) \<longleftrightarrow>
       0xfc000000000000000000000000000000 \<le> unat w \<and> unat w < 0xfe000000000000000000000000000000"
    "IsLinkLocalUnicast (Addr6 w []) \<longleftrightarrow>
       0xfe800000000000000000000000000000 \<le> unat w \<and> unat w < 0xfec00000000000000000000000000000"
    "IsMulticast (Addr6 w []) \<longleftrightarrow>
       0xff000000000000000000000000000000 \<le> unat w \<and> unat w < 0x100000000000000000000000000000000"
    unfolding IsUnspecified.simps IsLoopback_def IsPrivate_def IsLinkLocalUnicast_def IsMulticast_def u
      addr.case
    by (simp_all add: drop_bit_eq_lit div_lit_range unat_eq_zero unat_one_iff)
qed

lemma blocked_v6_iff:
  assumes "drop_bit 32 w \<noteq> 0xffff"
  shows "blocked_addr (Addr6 w []) \<longleftrightarrow> in_ranges blocked_v6 (unat w)"
proof -
  have "IsGlobalUnicast (Addr6 w []) \<longleftrightarrow>
    \<not> IsUnspecified (Addr6 w []) \<and> \<not> IsLoopback (Addr6 w []) \<and> \<not> IsMulticast (Addr6 w [])
    \<and> \<not> IsLinkLocalUnicast (Addr6 w [])"
    using assms by (simp add: IsGlobalUnicast_def Let_def)
  then show ?thesis
    unfolding blocked_addr_def special_use_v6
    unfolding class_v6 [OF assms] in_ranges_def blocked_v6_def list_ex_Nil_iff list_ex_Cons_iff prod.case
    by auto
qed

text \<open>The addresses the policy refuses, as numbers.\<close>

definition refused_ip :: "netIP \<Rightarrow> bool" where
  "refused_ip w =
     (case To4 w of
        Some a \<Rightarrow> in_ranges blocked_v4 (unat a)
      | None \<Rightarrow> in_ranges blocked_v6 (unat w))"

lemma validateAllowedIP_exact: "is_ok (validateAllowedIP (IP_String w)) \<longleftrightarrow> \<not> refused_ip w"
proof (cases "To4 w")
  case (Some a)
  then show ?thesis by (simp add: IP_String_def validateAllowedIP_v4 refused_ip_def)
next
  case None
  then have "drop_bit 32 w \<noteq> 0xffff" by (auto simp: To4_def split: if_splits)
  with None show ?thesis
    by (simp add: validateAllowedIP_def addr_of_IP_def check_addr_def blocked_v6_iff refused_ip_def)
qed

lemma check_ip_iff:
  "is_ok (check_ip ip version) \<longleftrightarrow>
     (version = IPv4 \<longrightarrow> ipVersion ip = IPv4) \<and> (version = IPv6 \<longrightarrow> ipVersion ip = IPv6) \<and> \<not> refused_ip ip"
  by (auto simp: check_ip_def is_ok_bind validateIPVersion_def ipVersion_def unit_is_ok
      validateAllowedIP_exact [unfolded unit_is_ok] split: if_splits)

lemma check_ips_iff: "is_ok (check_ips ips version) \<longleftrightarrow> (\<forall>ip\<in>set ips. is_ok (check_ip ip version))"
proof (induction ips)
  case (Cons ip ips)
  then show ?case by (cases "check_ip ip version") simp_all
qed simp

lemma preferredIP_spec:
  assumes "preferredIP ips version = Some ip"
  shows "ip \<in> set ips"
    and "version = IPAny \<Longrightarrow> ipVersion ip = IPv4 \<Longrightarrow> \<forall>i\<in>set ips. ipVersion i = IPv4"
  using assms
  by (auto simp: preferredIP_def ipVersion_def find_None_iff find_Some_iff split: if_splits option.splits list.splits)


text \<open>What resolution returns is an address that is not refused.\<close>

lemma resolved_allowed:
  assumes "ResolveTargetWithRuntime env tool target version r = Inr (s, v)"
  shows "\<exists>ip. s = IP_String ip \<and> v = ipVersion ip \<and> \<not> refused_ip ip"
proof -
  have "\<not> refused_ip ip" if "is_ok (check_ips ips version)" "preferredIP ips version = Some ip" for ips ip
    using that preferredIP_spec(1) [OF that(2)] by (auto simp: check_ips_iff check_ip_iff)
  moreover have "\<not> refused_ip ip" if "is_ok (check_ip ip version)" for ip using that by (simp add: check_ip_iff)
  ultimately show ?thesis
    using assms
    by (fastforce simp: ResolveTargetWithRuntime_def Let_def bind_res_Inr unit_is_ok split: sum.splits option.splits if_splits)
qed


definition public_dns :: netenv where
  "public_dns = \<lparr>neParseURL = (\<lambda>_. None),
     neLookupIP = (\<lambda>_ _ host. if host = ''dns.example'' then Inr [0xffff08080808] else Inl (Errorf ''no such host'' []))\<rparr>"


end
