(* ===== verification/Store.thy ===== *)
theory Store
  imports Config
begin

text \<open>
  The in-memory store (\<^verbatim>\<open>internal/store/memory.go\<close> with \<^verbatim>\<open>settings.go\<close>, \<^verbatim>\<open>history.go\<close>
  and the types of \<^verbatim>\<open>store.go\<close>). Its state is the record \<open>Memory\<close>; every method is a function
  from the state, and from the time \<open>now\<close> where it reads the clock, to its results and the new
  state. A method runs under the mutex of the store from its first to its last access to the
  state, so it is one step. \<^verbatim>\<open>sort.Slice\<close> leaves the order of equal keys open; here they stay
  in iteration order, and the iteration order of a map is arbitrary.
\<close>

unbundle bit_operations_syntax


section \<open>State\<close>

record AuditEvent =
  auSubject :: string
  auAction :: string
  auTarget :: string
  auDecision :: string
  auReason :: string
  auCreatedAt :: time

record HistoryFilter =
  hfLimit :: int
  hfBucketSeconds :: int
  hfRevision :: int
  hfFrom :: time
  hfTo :: time
  hfHasFrom :: bool
  hfHasTo :: bool

record Memory =
  mJobs :: "(string, Job) gomap"
  mEvents :: "(string, JobEvent list) gomap"
  mAgents :: "(string, Agent) gomap"
  mAgentCfgs :: "(string, AgentConfig) gomap"
  mSchedules :: "(string, ScheduledJob) gomap"
  mSettings :: ManagedSettings
  mHTTPAgents :: "(string, HTTPAgent) gomap"
  mAudit :: "AuditEvent list"

definition NewMemory :: "(nat \<Rightarrow> string) \<Rightarrow> nat \<Rightarrow> time \<Rightarrow> Memory \<times> nat" where
  "NewMemory uuid n now =
     (let (settings, n') = DefaultManagedSettings uuid n
      in (\<lparr>mJobs = [], mEvents = [], mAgents = [], mAgentCfgs = [], mSchedules = [],
           mSettings = settings\<lparr>msRevision := 1, msUpdatedAt := now\<rparr>,
           mHTTPAgents = [], mAudit = []\<rparr>, n'))"


section \<open>Jobs\<close>

definition CreateJob :: "Job \<Rightarrow> Memory \<Rightarrow> Memory" where
  "CreateJob j m = m\<lparr>mJobs := mput (jID j) j (mJobs m)\<rparr>"

definition CreateJobs :: "Job list \<Rightarrow> Memory \<Rightarrow> Memory" where
  "CreateJobs jobs m = m\<lparr>mJobs := fold (\<lambda>job. mput (jID job) job) jobs (mJobs m)\<rparr>"

definition GetJob :: "string \<Rightarrow> Memory \<Rightarrow> Job res" where
  "GetJob jid m = (case mget (mJobs m) jid of None \<Rightarrow> Inl ErrNotFound | Some j \<Rightarrow> Inr j)"

definition ListChildJobs :: "string \<Rightarrow> Memory \<Rightarrow> Job list" where
  "ListChildJobs parentID m =
     sort_key jCreatedAt (filter (\<lambda>j. jParentID j = parentID) (map snd (mJobs m)))"

definition active_status :: "JobStatus \<Rightarrow> bool" where
  "active_status s \<longleftrightarrow> s = JobQueued \<or> s = JobRunning"

definition ListActiveJobs :: "int \<Rightarrow> Memory \<Rightarrow> Job list" where
  "ListActiveJobs limit m =
     take_limit limit (sort_key jCreatedAt (filter (\<lambda>j. jStatus j = JobQueued \<or> jStatus j = JobRunning) (map snd (mJobs m))))"

definition protocolForJob :: "Job \<Rightarrow> ProtocolMask" where
  "protocolForJob j =
     (if jIPVersion j = IPv4 then ProtocolIPv4 else if jIPVersion j = IPv6 then ProtocolIPv6 else 0)"

definition queued_for :: "string \<Rightarrow> Tool list \<Rightarrow> ProtocolMask \<Rightarrow> Job \<Rightarrow> bool" where
  "queued_for agentID caps protocols j \<longleftrightarrow>
     jStatus j = JobQueued \<and> jAgentID j = agentID \<and> jTool j \<in> set caps
     \<and> (protocolForJob j = 0 \<or> protocols AND protocolForJob j \<noteq> 0)"

definition ListQueuedJobs :: "string \<Rightarrow> Tool list \<Rightarrow> ProtocolMask \<Rightarrow> int \<Rightarrow> Memory \<Rightarrow> Job list" where
  "ListQueuedJobs agentID caps protocols limit m =
     take_limit limit (sort_key jCreatedAt (filter (queued_for agentID caps protocols) (map snd (mJobs m))))"

definition ClaimQueuedJob :: "time \<Rightarrow> string \<Rightarrow> string \<Rightarrow> Memory \<Rightarrow> bool \<times> Memory" where
  "ClaimQueuedJob now jid agentID m =
     (case mget (mJobs m) jid of
        None \<Rightarrow> (False, m)
      | Some j \<Rightarrow>
          if jStatus j \<noteq> JobQueued \<or> jAgentID j \<noteq> agentID then (False, m)
          else (True, m\<lparr>mJobs := mput jid
                  (j\<lparr>jStatus := JobRunning, jUpdatedAt := now,
                     jStartedAt := (if jStartedAt j = None then Some now else jStartedAt j)\<rparr>) (mJobs m)\<rparr>))"

definition set_job_status :: "time \<Rightarrow> JobStatus \<Rightarrow> string \<Rightarrow> Job \<Rightarrow> Job" where
  "set_job_status now status msg j =
     j\<lparr>jStatus := status, jUpdatedAt := now,
       jStartedAt := (if status = JobRunning \<and> jStartedAt j = None then Some now else jStartedAt j),
       jCompletedAt := (if status = JobSucceeded \<or> status = JobFailed \<or> status = JobCanceled
                        then Some now else jCompletedAt j),
       jError := (if msg \<noteq> [] then msg else jError j)\<rparr>"

definition UpdateJobStatus :: "time \<Rightarrow> string \<Rightarrow> JobStatus \<Rightarrow> string \<Rightarrow> Memory \<Rightarrow> Memory res" where
  "UpdateJobStatus now jid status msg m =
     (case mget (mJobs m) jid of
        None \<Rightarrow> Inl ErrNotFound
      | Some j \<Rightarrow> Inr (m\<lparr>mJobs := mput jid (set_job_status now status msg j) (mJobs m)\<rparr>))"

definition events_of :: "string \<Rightarrow> Memory \<Rightarrow> JobEvent list" where
  "events_of jid m = (case mget (mEvents m) jid of None \<Rightarrow> [] | Some es \<Rightarrow> es)"

definition AddJobEvent :: "JobEvent \<Rightarrow> Memory \<Rightarrow> Memory res" where
  "AddJobEvent e m =
     (case mget (mJobs m) (eJobID e) of
        None \<Rightarrow> Inl ErrNotFound
      | Some _ \<Rightarrow> Inr (m\<lparr>mEvents := mput (eJobID e) (events_of (eJobID e) m @ [e]) (mEvents m)\<rparr>))"

definition ListJobEvents :: "string \<Rightarrow> Memory \<Rightarrow> JobEvent list" where
  "ListJobEvents jid m = events_of jid m"


section \<open>Schedules\<close>

definition CreateScheduledJob :: "ScheduledJob \<Rightarrow> Memory \<Rightarrow> Memory" where
  "CreateScheduledJob s m = m\<lparr>mSchedules := mput (sID s) s (mSchedules m)\<rparr>"

definition GetScheduledJob :: "string \<Rightarrow> Memory \<Rightarrow> ScheduledJob res" where
  "GetScheduledJob sid m = (case mget (mSchedules m) sid of None \<Rightarrow> Inl ErrNotFound | Some s \<Rightarrow> Inr s)"

definition ListScheduledJobs :: "Memory \<Rightarrow> ScheduledJob list" where
  "ListScheduledJobs m = sort_key sCreatedAt (map snd (mSchedules m))"

definition ListDueScheduledJobs :: "time \<Rightarrow> int \<Rightarrow> Memory \<Rightarrow> ScheduledJob list" where
  "ListDueScheduledJobs now limit m =
     take_limit limit (sort_key sNextRunAt (filter (\<lambda>s. sEnabled s \<and> \<not> now < sNextRunAt s) (map snd (mSchedules m))))"

definition UpdateScheduledJob :: "ScheduledJob \<Rightarrow> Memory \<Rightarrow> Memory res" where
  "UpdateScheduledJob s m =
     (case mget (mSchedules m) (sID s) of
        None \<Rightarrow> Inl ErrNotFound
      | Some _ \<Rightarrow> Inr (m\<lparr>mSchedules := mput (sID s) s (mSchedules m)\<rparr>))"

definition DeleteScheduledJob :: "string \<Rightarrow> Memory \<Rightarrow> Memory res" where
  "DeleteScheduledJob sid m =
     (case mget (mSchedules m) sid of
        None \<Rightarrow> Inl ErrNotFound
      | Some _ \<Rightarrow> Inr (m\<lparr>mSchedules := mdel sid (mSchedules m)\<rparr>))"

definition UpdateScheduledJobRun :: "time \<Rightarrow> ScheduledJob \<Rightarrow> Memory \<Rightarrow> Memory res" where
  "UpdateScheduledJobRun now s m =
     (case mget (mSchedules m) (sID s) of
        None \<Rightarrow> Inl ErrNotFound
      | Some existing \<Rightarrow>
          Inr (m\<lparr>mSchedules := mput (sID s)
                 (s\<lparr>sCreatedAt := (if IsZero (sCreatedAt s) then sCreatedAt existing else sCreatedAt s),
                    sUpdatedAt := now\<rparr>) (mSchedules m)\<rparr>))"


section \<open>History of a schedule\<close>

definition normalizedHistoryLimit :: "int \<Rightarrow> int" where
  "normalizedHistoryLimit limit = (if limit \<le> 0 then 2000 else if 2000 < limit then 2000 else limit)"

definition historyFilterMatches :: "time \<Rightarrow> HistoryFilter \<Rightarrow> bool" where
  "historyFilterMatches value f =
     (if hfHasFrom f \<and> value < hfFrom f then False
      else if hfHasTo f \<and> hfTo f < value then False
      else True)"

definition historyRevisionMatches :: "Job \<Rightarrow> HistoryFilter \<Rightarrow> bool" where
  "historyRevisionMatches job f = (if hfRevision f \<le> 0 then True else jScheduledRevision job = hfRevision f)"

definition historyRunAt :: "Job \<Rightarrow> time" where
  "historyRunAt job =
     (case jStartedAt job of
        Some t \<Rightarrow> if \<not> IsZero t then t else jCreatedAt job
      | None \<Rightarrow> jCreatedAt job)"

text \<open>\<^verbatim>\<open>time.Time.Unix\<close>: the seconds since 1970, rounded down.\<close>

definition Unix :: "time \<Rightarrow> int" where
  "Unix t = t div Second - 62135596800"

definition historyBucketKey :: "Job \<Rightarrow> HistoryFilter \<Rightarrow> string" where
  "historyBucketKey job f =
     (if hfBucketSeconds f \<le> 0 then jID job
      else jAgentID job @ '':'' @ Itoa (quot (Unix (historyRunAt job)) (hfBucketSeconds f)))"

definition history_match :: "string \<Rightarrow> HistoryFilter \<Rightarrow> Job \<Rightarrow> bool" where
  "history_match scheduleID f j \<longleftrightarrow>
     jScheduledID j = scheduleID \<and> historyFilterMatches (historyRunAt j) f \<and> historyRevisionMatches j f"

definition put_bucket :: "HistoryFilter \<Rightarrow> Job \<Rightarrow> (string, Job) gomap \<Rightarrow> (string, Job) gomap" where
  "put_bucket f j byBucket =
     (let key = historyBucketKey j f in
      case mget byBucket key of
        None \<Rightarrow> mput key j byBucket
      | Some existing \<Rightarrow> if historyRunAt existing < historyRunAt j then mput key j byBucket else byBucket)"

definition ListScheduledJobHistory :: "string \<Rightarrow> HistoryFilter \<Rightarrow> Memory \<Rightarrow> Job list" where
  "ListScheduledJobHistory scheduleID f m =
     (let matching = filter (history_match scheduleID f) (map snd (mJobs m));
          out = (if 0 < hfBucketSeconds f then map snd (fold (put_bucket f) matching []) else matching);
          sorted_out = sort_key (\<lambda>j. - historyRunAt j) out;
          limit = normalizedHistoryLimit (hfLimit f)
      in if limit < int (length sorted_out) then take (nat limit) sorted_out else sorted_out)"


section \<open>Agents\<close>

definition UpsertAgent :: "Agent \<Rightarrow> Memory \<Rightarrow> Memory" where
  "UpsertAgent a m =
     (let a' = (case mget (mAgents m) (aID a) of Some old \<Rightarrow> a\<lparr>aCreatedAt := aCreatedAt old\<rparr> | None \<Rightarrow> a)
      in m\<lparr>mAgents := mput (aID a) a' (mAgents m)\<rparr>)"

definition TouchAgent :: "time \<Rightarrow> string \<Rightarrow> Memory \<Rightarrow> Memory res" where
  "TouchAgent now aid m =
     (case mget (mAgents m) aid of
        None \<Rightarrow> Inl ErrNotFound
      | Some a \<Rightarrow> Inr (m\<lparr>mAgents := mput aid (a\<lparr>aStatus := AgentOnline, aLastSeenAt := now\<rparr>) (mAgents m)\<rparr>))"

definition MarkAgentOffline :: "string \<Rightarrow> Memory \<Rightarrow> Memory res" where
  "MarkAgentOffline aid m =
     (case mget (mAgents m) aid of
        None \<Rightarrow> Inl ErrNotFound
      | Some a \<Rightarrow> Inr (m\<lparr>mAgents := mput aid (a\<lparr>aStatus := AgentOffline\<rparr>) (mAgents m)\<rparr>))"

definition DeleteAgent :: "string \<Rightarrow> Memory \<Rightarrow> Memory res" where
  "DeleteAgent aid m =
     (case mget (mAgents m) aid of
        None \<Rightarrow> Inl ErrNotFound
      | Some _ \<Rightarrow> Inr (m\<lparr>mAgents := mdel aid (mAgents m), mAgentCfgs := mdel aid (mAgentCfgs m)\<rparr>))"

definition stale_agent :: "time \<Rightarrow> Agent \<Rightarrow> bool" where
  "stale_agent cutoff a \<longleftrightarrow> aStatus a = AgentOnline \<and> aLastSeenAt a < cutoff"

definition MarkStaleAgentsOffline :: "time \<Rightarrow> dur \<Rightarrow> Memory \<Rightarrow> int \<times> Memory" where
  "MarkStaleAgentsOffline now ttl m =
     (let cutoff = now - ttl
      in (int (length (filter (\<lambda>(_, a). stale_agent cutoff a) (mAgents m))),
          m\<lparr>mAgents := map (\<lambda>(aid, a). (aid, if stale_agent cutoff a then a\<lparr>aStatus := AgentOffline\<rparr> else a)) (mAgents m)\<rparr>))"

definition ListAgents :: "Memory \<Rightarrow> Agent list" where
  "ListAgents m = sort_key aID (map snd (mAgents m))"

definition ListAgentConfigs :: "Memory \<Rightarrow> AgentConfig list" where
  "ListAgentConfigs m = sort_key acID (map snd (mAgentCfgs m))"

definition zero_AgentConfig :: "string \<Rightarrow> AgentConfig" where
  "zero_AgentConfig aid = \<lparr>acID = aid, acDisabled = False, acLabels = [], acCreatedAt = 0, acUpdatedAt = 0\<rparr>"

definition GetAgentConfig :: "string \<Rightarrow> Memory \<Rightarrow> AgentConfig" where
  "GetAgentConfig aid m = (case mget (mAgentCfgs m) aid of None \<Rightarrow> zero_AgentConfig aid | Some cfg \<Rightarrow> cfg)"

definition normalizedAgentLabels :: "string list \<Rightarrow> string list" where
  "normalizedAgentLabels labels =
     fold (\<lambda>raw out. let value = TrimSpace raw in
             if value = [] \<or> IsReservedAgentLabel value then out
             else if value \<in> set out then out else out @ [value]) labels []"

definition normalizeAgentConfig :: "AgentConfig \<Rightarrow> AgentConfig res" where
  "normalizeAgentConfig cfg =
     (let aid = TrimSpace (acID cfg) in
      if aid = [] then Inl (Errorf ''agent id is required'' [])
      else Inr (cfg\<lparr>acID := aid, acLabels := normalizedAgentLabels (acLabels cfg)\<rparr>))"

definition normalizeHTTPAgent :: "HTTPAgent \<Rightarrow> HTTPAgent res" where
  "normalizeHTTPAgent node =
     (let nid = TrimSpace (haID node); url = TrimSpace (haBaseURL node); token = TrimSpace (haHTTPToken node) in
      if nid = [] then Inl (Errorf ''http agent id is required'' [])
      else if url = [] then Inl (Errorf ''http agent base_url is required'' [])
      else if token = [] then Inl (Errorf ''http agent http_token is required'' [])
      else Inr (node\<lparr>haID := nid, haBaseURL := url, haHTTPToken := token,
                     haLabels := normalizedAgentLabels (haLabels node)\<rparr>))"

definition put_agent_cfg :: "time \<Rightarrow> AgentConfig \<Rightarrow> Memory \<Rightarrow> Memory" where
  "put_agent_cfg now cfg m =
     m\<lparr>mAgentCfgs := mput (acID cfg)
         (cfg\<lparr>acCreatedAt := (case mget (mAgentCfgs m) (acID cfg) of Some existing \<Rightarrow> acCreatedAt existing | None \<Rightarrow> now),
              acUpdatedAt := now\<rparr>) (mAgentCfgs m)\<rparr>"

definition put_http_agent :: "time \<Rightarrow> HTTPAgent \<Rightarrow> Memory \<Rightarrow> Memory" where
  "put_http_agent now node m =
     m\<lparr>mHTTPAgents := mput (haID node)
         (node\<lparr>haCreatedAt := (case mget (mHTTPAgents m) (haID node) of Some existing \<Rightarrow> haCreatedAt existing | None \<Rightarrow> now),
               haUpdatedAt := now\<rparr>) (mHTTPAgents m)\<rparr>"

definition UpsertAgentConfig :: "time \<Rightarrow> AgentConfig \<Rightarrow> Memory \<Rightarrow> Memory res" where
  "UpsertAgentConfig now cfg m = bind_res (normalizeAgentConfig cfg) (\<lambda>cfg. Inr (put_agent_cfg now cfg m))"

definition DeleteAgentConfig :: "string \<Rightarrow> Memory \<Rightarrow> Memory res" where
  "DeleteAgentConfig aid m =
     (case mget (mAgentCfgs m) aid of
        None \<Rightarrow> Inl ErrNotFound
      | Some _ \<Rightarrow> Inr (m\<lparr>mAgentCfgs := mdel aid (mAgentCfgs m)\<rparr>))"

definition ListHTTPAgents :: "Memory \<Rightarrow> HTTPAgent list" where
  "ListHTTPAgents m = sort_key haID (map snd (mHTTPAgents m))"

definition GetHTTPAgent :: "string \<Rightarrow> Memory \<Rightarrow> HTTPAgent res" where
  "GetHTTPAgent aid m = (case mget (mHTTPAgents m) aid of None \<Rightarrow> Inl ErrNotFound | Some n \<Rightarrow> Inr n)"

definition UpsertHTTPAgent :: "time \<Rightarrow> HTTPAgent \<Rightarrow> Memory \<Rightarrow> Memory res" where
  "UpsertHTTPAgent now node m = bind_res (normalizeHTTPAgent node) (\<lambda>node. Inr (put_http_agent now node m))"

definition DeleteHTTPAgent :: "string \<Rightarrow> Memory \<Rightarrow> Memory res" where
  "DeleteHTTPAgent aid m =
     (case mget (mHTTPAgents m) aid of
        None \<Rightarrow> Inl ErrNotFound
      | Some _ \<Rightarrow> Inr (m\<lparr>mHTTPAgents := mdel aid (mHTTPAgents m)\<rparr>))"


section \<open>Managed settings and audit\<close>

text \<open>
  The settings come back together with an error, so a result is the settings, the error and
  the counter of the UUIDs.
\<close>

definition GetManagedSettings ::
  "(nat \<Rightarrow> string) \<Rightarrow> nat \<Rightarrow> Memory \<Rightarrow> ManagedSettings \<times> nat \<times> error option" where
  "GetManagedSettings uuid n m = NormalizeManagedSettings uuid n (mSettings m)"

definition commit_settings :: "time \<Rightarrow> ManagedSettings \<Rightarrow> Memory \<Rightarrow> Memory" where
  "commit_settings now settings m =
     m\<lparr>mSettings := settings\<lparr>msRevision := msRevision (mSettings m) + 1, msUpdatedAt := now\<rparr>\<rparr>"

definition UpdateManagedSettings ::
  "(nat \<Rightarrow> string) \<Rightarrow> nat \<Rightarrow> time \<Rightarrow> ManagedSettings \<Rightarrow> Memory
     \<Rightarrow> (ManagedSettings \<times> error option) \<times> Memory \<times> nat" where
  "UpdateManagedSettings uuid n now settings m =
     (case NormalizeManagedSettings uuid n settings of
        (s, n', Some e) \<Rightarrow> ((s, Some e), m, n')
      | (s, n', None) \<Rightarrow>
          if msRevision s \<noteq> msRevision (mSettings m) then ((s, Some ErrConflict), m, n')
          else let m' = commit_settings now s m in ((mSettings m', None), m', n'))"

fun traverse_res :: "('a \<Rightarrow> 'b res) \<Rightarrow> 'a list \<Rightarrow> 'b list res" where
  "traverse_res f [] = Inr []"
| "traverse_res f (x # xs) = bind_res (f x) (\<lambda>y. bind_res (traverse_res f xs) (\<lambda>ys. Inr (y # ys)))"

definition UpdateManagedSettingsAndAgentLabels ::
  "(nat \<Rightarrow> string) \<Rightarrow> nat \<Rightarrow> time \<Rightarrow> ManagedSettings \<Rightarrow> AgentConfig list \<Rightarrow> HTTPAgent list \<Rightarrow> Memory
     \<Rightarrow> (ManagedSettings \<times> error option) \<times> Memory \<times> nat" where
  "UpdateManagedSettingsAndAgentLabels uuid n now settings cfgs nodes m =
     (case NormalizeManagedSettings uuid n settings of
        (s, n', Some e) \<Rightarrow> ((s, Some e), m, n')
      | (s, n', None) \<Rightarrow>
          (case traverse_res normalizeAgentConfig cfgs of
             Inl e \<Rightarrow> ((s, Some e), m, n')
           | Inr cfgs' \<Rightarrow>
               (case traverse_res normalizeHTTPAgent nodes of
                  Inl e \<Rightarrow> ((s, Some e), m, n')
                | Inr nodes' \<Rightarrow>
                    if msRevision s \<noteq> msRevision (mSettings m) then ((s, Some ErrConflict), m, n')
                    else let m1 = commit_settings now s m;
                             m2 = fold (put_agent_cfg now) cfgs' m1;
                             m3 = fold (put_http_agent now) nodes' m2
                         in ((mSettings m3, None), m3, n'))))"

definition AddAuditEvent :: "time \<Rightarrow> AuditEvent \<Rightarrow> Memory \<Rightarrow> Memory" where
  "AddAuditEvent now event m =
     m\<lparr>mAudit := mAudit m @
         [\<lparr>auSubject = TrimSpace (auSubject event), auAction = TrimSpace (auAction event),
           auTarget = TrimSpace (auTarget event), auDecision = TrimSpace (auDecision event),
           auReason = TrimSpace (auReason event),
           auCreatedAt = (if IsZero (auCreatedAt event) then now else auCreatedAt event)\<rparr>]\<rparr>"

end
