(* ===== verification/StoreFacts.thy ===== *)
theory StoreFacts
  imports Store
begin

text \<open>
  What the store promises: its listings, exclusive claims, optimistic updates of the settings,
  the history of a schedule, and the store as a transition system with its invariant and with
  what never goes backwards.
\<close>


section \<open>Listings\<close>

lemma listing_take_sort:
  "listing (\<lambda>m n. take_limit n (sort_key key (filter sel (elems m)))) elems sel key"
  by unfold_locales (simp_all add: take_limit_def mset_filter)

interpretation active_jobs: listing "\<lambda>m n. ListActiveJobs n m" "\<lambda>m. map snd (mJobs m)"
  "\<lambda>j. active_status (jStatus j)" jCreatedAt
  unfolding ListActiveJobs_def active_status_def by (rule listing_take_sort)

interpretation queued_jobs: listing "\<lambda>m n. ListQueuedJobs agentID caps protocols n m"
  "\<lambda>m. map snd (mJobs m)" "queued_for agentID caps protocols" jCreatedAt
  for agentID caps protocols
  unfolding ListQueuedJobs_def by (rule listing_take_sort)

interpretation due_schedules: listing "\<lambda>m n. ListDueScheduledJobs now n m"
  "\<lambda>m. map snd (mSchedules m)" "\<lambda>s. sEnabled s \<and> sNextRunAt s \<le> now" sNextRunAt
  for now
  unfolding ListDueScheduledJobs_def not_less by (rule listing_take_sort)

lemma set_ListChildJobs: "set (ListChildJobs p m) = {j \<in> snd ` set (mJobs m). jParentID j = p}"
  by (auto simp: ListChildJobs_def)


section \<open>Claims\<close>

lemma ClaimQueuedJob_iff:
  "fst (ClaimQueuedJob now jid agentID m) \<longleftrightarrow>
     (\<exists>j. mget (mJobs m) jid = Some j \<and> jStatus j = JobQueued \<and> jAgentID j = agentID)"
  by (auto simp: ClaimQueuedJob_def split: option.splits)

lemma ClaimQueuedJob_fail: "\<not> fst (ClaimQueuedJob now jid agentID m) \<Longrightarrow> snd (ClaimQueuedJob now jid agentID m) = m"
  by (auto simp: ClaimQueuedJob_def split: option.splits)

lemma ClaimQueuedJob_job:
  assumes "ClaimQueuedJob now jid agentID m = (True, m')"
  obtains j where "mget (mJobs m) jid = Some j" "jStatus j = JobQueued" "jAgentID j = agentID"
    "m' = m\<lparr>mJobs := mput jid (j\<lparr>jStatus := JobRunning, jUpdatedAt := now,
       jStartedAt := (if jStartedAt j = None then Some now else jStartedAt j)\<rparr>) (mJobs m)\<rparr>"
  using assms by (auto simp: ClaimQueuedJob_def split: option.splits if_splits)


section \<open>Settings\<close>

lemma UpdateManagedSettings_ok:
  assumes "UpdateManagedSettings uuid n now s m = ((s', None), m', n')"
  obtains t where "NormalizeManagedSettings uuid n s = (t, n', None)"
    "msRevision t = msRevision (mSettings m)" "m' = commit_settings now t m" "s' = mSettings m'"
  using assms by (auto simp: UpdateManagedSettings_def Let_def split: prod.splits option.splits if_splits)

lemma NormalizeManagedSettings_revision:
  "NormalizeManagedSettings uuid n s = (t, n', e) \<Longrightarrow> msRevision t = msRevision s \<and> msUpdatedAt t = msUpdatedAt s"
  by (auto simp: NormalizeManagedSettings_def EnsureAgentLabelConfig_def ClearManagedSettingsRotateFlags_def
      Let_def split: prod.splits option.splits sum.splits)

lemma NormalizeManagedSettings_meta:
  "NormalizeManagedSettings uuid n (s\<lparr>msRevision := r, msUpdatedAt := u\<rparr>) =
     (let (t, n', e) = NormalizeManagedSettings uuid n s in (t\<lparr>msRevision := r, msUpdatedAt := u\<rparr>, n', e))"
  by (simp add: NormalizeManagedSettings_def EnsureAgentLabelConfig_def ClearManagedSettingsRotateFlags_def
      Let_def split: prod.splits option.splits sum.splits)

lemma put_agent_cfgs_settings [simp]: "mSettings (fold (put_agent_cfg now) cfgs m) = mSettings m"
  by (induction cfgs arbitrary: m) (simp_all add: put_agent_cfg_def)

lemma put_http_agents_settings [simp]: "mSettings (fold (put_http_agent now) nodes m) = mSettings m"
  by (induction nodes arbitrary: m) (simp_all add: put_http_agent_def)


section \<open>History\<close>

lemma mget_put_bucket:
  "mget (put_bucket f j b) k =
     (if k = historyBucketKey j f then
        Some (case mget b k of Some e \<Rightarrow> if historyRunAt e < historyRunAt j then j else e | None \<Rightarrow> j)
      else mget b k)"
  by (auto simp: put_bucket_def Let_def split: option.splits)

lemma mwf_put_bucket: "mwf b \<Longrightarrow> mwf (put_bucket f j b)"
  by (auto simp: put_bucket_def Let_def split: option.splits)

lemma mwf_put_buckets: "mwf b \<Longrightarrow> mwf (fold (put_bucket f) js b)"
  by (induction js arbitrary: b) (simp_all add: mwf_put_bucket)

definition bucket_ok :: "HistoryFilter \<Rightarrow> Job set \<Rightarrow> (string, Job) gomap \<Rightarrow> bool" where
  "bucket_ok f js b \<longleftrightarrow>
     (\<forall>k e. mget b k = Some e \<longrightarrow> e \<in> js \<and> historyBucketKey e f = k)
     \<and> (\<forall>j\<in>js. \<exists>e. mget b (historyBucketKey j f) = Some e \<and> historyRunAt j \<le> historyRunAt e)"

lemma bucket_ok_put: "bucket_ok f js b \<Longrightarrow> bucket_ok f (insert j js) (put_bucket f j b)"
  unfolding bucket_ok_def mget_put_bucket
  by (auto split: option.splits if_splits)

lemma bucket_ok_fold: "bucket_ok f js b \<Longrightarrow> bucket_ok f (set xs \<union> js) (fold (put_bucket f) xs b)"
proof (induction xs arbitrary: js b)
  case (Cons x xs)
  from Cons.IH [OF bucket_ok_put [OF Cons.prems, of x]] show ?case by simp
qed simp


lemma history_limit: "0 < normalizedHistoryLimit l \<and> normalizedHistoryLimit l \<le> 2000"
  by (auto simp: normalizedHistoryLimit_def)

lemma history_take:
  "ListScheduledJobHistory sid f m =
     take_limit (normalizedHistoryLimit (hfLimit f))
       (sort_key (\<lambda>j. - historyRunAt j)
         (let matching = filter (history_match sid f) (map snd (mJobs m))
          in if 0 < hfBucketSeconds f then map snd (fold (put_bucket f) matching []) else matching))"
  using history_limit [of "hfLimit f"]
  by (simp add: ListScheduledJobHistory_def take_limit_def Let_def)

text \<open>
  The buckets of the matching jobs: each job of the listing stands for its bucket, no two jobs
  share a bucket, and every matching job has a representative that ran no earlier.
\<close>

lemma history_buckets:
  fixes m :: Memory and sid :: string and f :: HistoryFilter
  defines "js \<equiv> filter (history_match sid f) (map snd (mJobs m))"
  defines "b \<equiv> fold (put_bucket f) js []"
  shows "set (map snd b) \<subseteq> set js"
    and "distinct (map (\<lambda>j. historyBucketKey j f) (map snd b))"
    and "j \<in> set js \<Longrightarrow> \<exists>e\<in>set (map snd b). historyBucketKey e f = historyBucketKey j f
           \<and> historyRunAt j \<le> historyRunAt e"
proof -
  have ok: "bucket_ok f (set js) b"
    using bucket_ok_fold [of f "{}" "[]" js] by (simp add: b_def bucket_ok_def)
  have wf: "mwf b" by (simp add: b_def mwf_put_buckets)
  have key: "e \<in> set js \<and> historyBucketKey e f = k" if "(k, e) \<in> set b" for k e
    using ok that wf by (simp add: bucket_ok_def mget_iff)
  show "set (map snd b) \<subseteq> set js" using key by auto
  have "map (\<lambda>j. historyBucketKey j f) (map snd b) = map fst b"
    using key by auto
  with wf show "distinct (map (\<lambda>j. historyBucketKey j f) (map snd b))" by (metis mwf_def)
  show "j \<in> set js \<Longrightarrow> \<exists>e\<in>set (map snd b). historyBucketKey e f = historyBucketKey j f
           \<and> historyRunAt j \<le> historyRunAt e"
    using ok wf key by (force simp: bucket_ok_def mget_iff)
qed


section \<open>The store as a transition system\<close>

text \<open>Every method of the store that changes its state.\<close>

inductive store_step :: "Memory \<Rightarrow> Memory \<Rightarrow> bool" where
  create_job: "store_step m (CreateJob j m)"
| create_jobs: "store_step m (CreateJobs js m)"
| claim: "store_step m (snd (ClaimQueuedJob now jid agentID m))"
| update_status: "UpdateJobStatus now jid status msg m = Inr m' \<Longrightarrow> store_step m m'"
| add_event: "AddJobEvent e m = Inr m' \<Longrightarrow> store_step m m'"
| create_schedule: "store_step m (CreateScheduledJob s m)"
| update_schedule: "UpdateScheduledJob s m = Inr m' \<Longrightarrow> store_step m m'"
| delete_schedule: "DeleteScheduledJob sid m = Inr m' \<Longrightarrow> store_step m m'"
| update_run: "UpdateScheduledJobRun now s m = Inr m' \<Longrightarrow> store_step m m'"
| upsert_agent: "store_step m (UpsertAgent a m)"
| touch_agent: "TouchAgent now aid m = Inr m' \<Longrightarrow> store_step m m'"
| agent_offline: "MarkAgentOffline aid m = Inr m' \<Longrightarrow> store_step m m'"
| delete_agent: "DeleteAgent aid m = Inr m' \<Longrightarrow> store_step m m'"
| stale_agents: "store_step m (snd (MarkStaleAgentsOffline now ttl m))"
| upsert_cfg: "UpsertAgentConfig now cfg m = Inr m' \<Longrightarrow> store_step m m'"
| delete_cfg: "DeleteAgentConfig aid m = Inr m' \<Longrightarrow> store_step m m'"
| update_settings: "UpdateManagedSettings uuid n now s m = (r, m', n') \<Longrightarrow> store_step m m'"
| update_labels: "UpdateManagedSettingsAndAgentLabels uuid n now s cfgs nodes m = (r, m', n') \<Longrightarrow> store_step m m'"
| audit: "store_step m (AddAuditEvent now e m)"
| upsert_http: "UpsertHTTPAgent now node m = Inr m' \<Longrightarrow> store_step m m'"
| delete_http: "DeleteHTTPAgent aid m = Inr m' \<Longrightarrow> store_step m m'"

text \<open>
  The invariant: the maps have distinct keys, every value is stored under its own id, and there
  are events only for jobs that exist.
\<close>

definition keyed :: "('a \<Rightarrow> string) \<Rightarrow> (string, 'a) gomap \<Rightarrow> bool" where
  "keyed f m \<longleftrightarrow> mwf m \<and> (\<forall>k v. mget m k = Some v \<longrightarrow> f v = k)"

definition store_ok :: "Memory \<Rightarrow> bool" where
  "store_ok m \<longleftrightarrow>
     keyed jID (mJobs m) \<and> keyed aID (mAgents m) \<and> keyed acID (mAgentCfgs m)
     \<and> keyed sID (mSchedules m) \<and> keyed haID (mHTTPAgents m)
     \<and> mwf (mEvents m) \<and> (\<forall>k es. mget (mEvents m) k = Some es \<longrightarrow>
           mget (mJobs m) k \<noteq> None \<and> (\<forall>e\<in>set es. eJobID e = k))"

lemma keyed_Nil [simp]: "keyed f []"
  by (simp add: keyed_def)

lemma keyed_mput [intro]: "keyed f m \<Longrightarrow> f v = k \<Longrightarrow> keyed f (mput k v m)"
  by (auto simp: keyed_def)

lemma keyed_mdel [intro]: "keyed f m \<Longrightarrow> keyed f (mdel k m)"
  by (auto simp: keyed_def)

lemma keyed_get: "keyed f m \<Longrightarrow> mget m k = Some v \<Longrightarrow> f v = k"
  by (simp add: keyed_def)

lemma keyed_puts: "keyed f m \<Longrightarrow> keyed f (fold (\<lambda>x. mput (f x) x) xs m)"
  by (induction xs arbitrary: m) (auto intro: keyed_mput)

lemma keyed_map_values: "keyed f m \<Longrightarrow> (\<And>v. f (g v) = f v) \<Longrightarrow> keyed f (map (\<lambda>(k, v). (k, g v)) m)"
  unfolding keyed_def
  using mget_map_values [of "\<lambda>_. g" m] mwf_map_values [of "\<lambda>_. g" m] by auto

text \<open>What never goes backwards.\<close>

definition store_progress :: "Memory \<Rightarrow> Memory \<Rightarrow> bool" where
  "store_progress m m' \<longleftrightarrow>
     msRevision (mSettings m) \<le> msRevision (mSettings m')
     \<and> (mSettings m' \<noteq> mSettings m \<longrightarrow> msRevision (mSettings m) < msRevision (mSettings m'))
     \<and> (\<exists>as. mAudit m' = mAudit m @ as)
     \<and> (\<forall>k. mget (mJobs m) k \<noteq> None \<longrightarrow> mget (mJobs m') k \<noteq> None)
     \<and> (\<forall>k. \<exists>es. events_of k m' = events_of k m @ es)"

lemma mget_puts_Some: "mget m k = Some v \<Longrightarrow> \<exists>w. mget (fold (\<lambda>x. mput (f x) x) xs m) k = Some w"
proof (induction xs arbitrary: m v)
  case (Cons x xs)
  then have "\<exists>w. mget (mput (f x) x m) k = Some w" by simp
  with Cons.IH show ?case by fastforce
qed simp

lemma fold_put_agent_cfg:
  "\<exists>c. fold (put_agent_cfg now) cfgs m = m\<lparr>mAgentCfgs := c\<rparr> \<and> (keyed acID (mAgentCfgs m) \<longrightarrow> keyed acID c)"
proof (induction cfgs arbitrary: m)
  case (Cons c cfgs)
  let ?m = "put_agent_cfg now c m"
  obtain d where "fold (put_agent_cfg now) cfgs ?m = ?m\<lparr>mAgentCfgs := d\<rparr>"
    "keyed acID (mAgentCfgs ?m) \<longrightarrow> keyed acID d" using Cons.IH by blast
  moreover have "keyed acID (mAgentCfgs m) \<Longrightarrow> keyed acID (mAgentCfgs ?m)" "?m\<lparr>mAgentCfgs := d\<rparr> = m\<lparr>mAgentCfgs := d\<rparr>"
    by (auto simp: put_agent_cfg_def)
  ultimately show ?case by auto
qed (metis Memory.surjective Memory.update_convs(4) fold_simps(1))

lemma fold_put_http_agent:
  "\<exists>c. fold (put_http_agent now) nodes m = m\<lparr>mHTTPAgents := c\<rparr> \<and> (keyed haID (mHTTPAgents m) \<longrightarrow> keyed haID c)"
proof (induction nodes arbitrary: m)
  case (Cons c nodes)
  let ?m = "put_http_agent now c m"
  obtain d where "fold (put_http_agent now) nodes ?m = ?m\<lparr>mHTTPAgents := d\<rparr>"
    "keyed haID (mHTTPAgents ?m) \<longrightarrow> keyed haID d" using Cons.IH by blast
  moreover have "keyed haID (mHTTPAgents m) \<Longrightarrow> keyed haID (mHTTPAgents ?m)" "?m\<lparr>mHTTPAgents := d\<rparr> = m\<lparr>mHTTPAgents := d\<rparr>"
    by (auto simp: put_http_agent_def)
  ultimately show ?case by auto
qed (metis Memory.surjective Memory.update_convs(7) fold_simps(1))


lemmas store_defs = CreateJob_def CreateJobs_def ClaimQueuedJob_def UpdateJobStatus_def AddJobEvent_def
  CreateScheduledJob_def UpdateScheduledJob_def DeleteScheduledJob_def UpdateScheduledJobRun_def
  UpsertAgent_def TouchAgent_def MarkAgentOffline_def DeleteAgent_def MarkStaleAgentsOffline_def
  UpsertAgentConfig_def DeleteAgentConfig_def AddAuditEvent_def UpsertHTTPAgent_def
  DeleteHTTPAgent_def put_agent_cfg_def put_http_agent_def set_job_status_def commit_settings_def

text \<open>A step changes the settings by a commit only.\<close>

lemma update_settings_cases:
  assumes "UpdateManagedSettings uuid n now s m = (r, m', n')"
  shows "m' = m \<or> (\<exists>t. m' = commit_settings now t m)"
  using assms by (auto simp: UpdateManagedSettings_def Let_def split: prod.splits option.splits if_splits)

lemma update_labels_cases:
  assumes "UpdateManagedSettingsAndAgentLabels uuid n now s cfgs nodes m = (r, m', n')"
  shows "m' = m \<or> (\<exists>t cs ns. m' = fold (put_http_agent now) ns (fold (put_agent_cfg now) cs (commit_settings now t m)))"
  using assms
  by (auto simp: UpdateManagedSettingsAndAgentLabels_def Let_def
      split: prod.splits option.splits if_splits sum.splits)

lemma store_ok_settings: "store_ok m \<Longrightarrow> store_ok (m\<lparr>mSettings := s\<rparr>)"
  by (simp add: store_ok_def)

lemma store_ok_labels:
  assumes "store_ok m"
  shows "store_ok (fold (put_http_agent now) ns (fold (put_agent_cfg now) cs (commit_settings now t m)))"
proof -
  let ?m = "commit_settings now t m"
  obtain c where c: "fold (put_agent_cfg now) cs ?m = ?m\<lparr>mAgentCfgs := c\<rparr>"
    "keyed acID (mAgentCfgs ?m) \<longrightarrow> keyed acID c" using fold_put_agent_cfg by blast
  moreover obtain d where "fold (put_http_agent now) ns (?m\<lparr>mAgentCfgs := c\<rparr>) = ?m\<lparr>mAgentCfgs := c, mHTTPAgents := d\<rparr>"
    "keyed haID (mHTTPAgents (?m\<lparr>mAgentCfgs := c\<rparr>)) \<longrightarrow> keyed haID d" using fold_put_http_agent by blast
  ultimately show ?thesis using assms by (simp add: store_ok_def commit_settings_def)
qed

lemma store_ok_jobs:
  assumes "store_ok m" "keyed jID js" "\<And>k. mget (mJobs m) k \<noteq> None \<Longrightarrow> mget js k \<noteq> None"
  shows "store_ok (m\<lparr>mJobs := js\<rparr>)"
  using assms by (auto simp: store_ok_def)

lemma store_ok_fields:
  "store_ok m \<Longrightarrow> keyed aID a \<Longrightarrow> store_ok (m\<lparr>mAgents := a\<rparr>)"
  "store_ok m \<Longrightarrow> keyed acID c \<Longrightarrow> store_ok (m\<lparr>mAgentCfgs := c\<rparr>)"
  "store_ok m \<Longrightarrow> keyed sID s \<Longrightarrow> store_ok (m\<lparr>mSchedules := s\<rparr>)"
  "store_ok m \<Longrightarrow> keyed haID h \<Longrightarrow> store_ok (m\<lparr>mHTTPAgents := h\<rparr>)"
  "store_ok m \<Longrightarrow> store_ok (m\<lparr>mAudit := as\<rparr>)"
  by (simp_all add: store_ok_def)

lemma store_ok_keyed:
  assumes "store_ok m"
  shows "keyed jID (mJobs m)" "keyed aID (mAgents m)" "keyed acID (mAgentCfgs m)"
    "keyed sID (mSchedules m)" "keyed haID (mHTTPAgents m)"
  using assms by (simp_all add: store_ok_def)

lemma store_ok_put_job:
  assumes "store_ok m" "jID j = k"
  shows "store_ok (m\<lparr>mJobs := mput k j (mJobs m)\<rparr>)"
  using assms by (intro store_ok_jobs) (auto intro: store_ok_keyed)

lemma store_ok_add_event:
  assumes "store_ok m" "AddJobEvent e m = Inr m'"
  shows "store_ok m'"
  using assms by (auto simp: AddJobEvent_def store_ok_def events_of_def split: option.splits if_splits)

lemmas store_ok_rules = store_ok_fields store_ok_put_job store_ok_settings store_ok_keyed

lemma store_ok_step:
  assumes ok: "store_ok m" and step: "store_step m m'"
  shows "store_ok m'"
  using step
proof cases
  case (create_jobs js)
  have "store_ok (m\<lparr>mJobs := fold (\<lambda>job. mput (jID job) job) js (mJobs m)\<rparr>)"
    using ok by (intro store_ok_jobs) (auto simp: store_ok_keyed keyed_puts intro: mget_puts_Some)
  then show ?thesis using create_jobs by (simp add: CreateJobs_def)
next
  case (claim now jid agentID)
  with ok store_ok_keyed(1) [OF ok] show ?thesis
    by (auto simp: ClaimQueuedJob_def keyed_get intro!: store_ok_put_job split: option.splits)
next
  case (update_status now jid status msg)
  with ok store_ok_keyed(1) [OF ok] show ?thesis
    by (auto simp: UpdateJobStatus_def set_job_status_def keyed_get intro!: store_ok_put_job split: option.splits)
next
  case (stale_agents now ttl)
  have "keyed aID (map (\<lambda>(aid, a). (aid, if stale_agent (now - ttl) a then a\<lparr>aStatus := AgentOffline\<rparr> else a)) (mAgents m))"
    using ok by (intro keyed_map_values) (auto simp: store_ok_keyed)
  then show ?thesis using stale_agents ok
    by (simp add: MarkStaleAgentsOffline_def Let_def store_ok_fields)
next
  case (delete_agent aid)
  with ok store_ok_keyed [OF ok] show ?thesis
    by (auto simp: DeleteAgent_def intro!: store_ok_fields split: option.splits)
next
  case (update_settings uuid n now s r n')
  with update_settings_cases [OF update_settings] ok show ?thesis
    by (auto simp: commit_settings_def store_ok_settings)
next
  case (update_labels uuid n now s cfgs nodes r n')
  with update_labels_cases [OF update_labels] ok show ?thesis by (auto simp: store_ok_labels)
next
  case (add_event e)
  then show ?thesis using store_ok_add_event [OF ok] by blast
next
  case (upsert_agent a)
  with ok store_ok_keyed(2) [OF ok] show ?thesis
    by (auto simp: UpsertAgent_def Let_def intro!: store_ok_fields split: option.splits)
next
  case (touch_agent now aid)
  with ok store_ok_keyed(2) [OF ok] show ?thesis
    by (auto simp: TouchAgent_def keyed_get intro!: store_ok_fields split: option.splits)
next
  case (agent_offline aid)
  with ok store_ok_keyed(2) [OF ok] show ?thesis
    by (auto simp: MarkAgentOffline_def keyed_get intro!: store_ok_fields split: option.splits)
qed (use ok store_ok_keyed(3-5) [OF ok] in
      \<open>auto simp: CreateJob_def CreateScheduledJob_def UpdateScheduledJob_def DeleteScheduledJob_def
         UpdateScheduledJobRun_def UpsertAgentConfig_def DeleteAgentConfig_def AddAuditEvent_def
         UpsertHTTPAgent_def DeleteHTTPAgent_def put_agent_cfg_def put_http_agent_def bind_res_Inr
       intro!: store_ok_fields store_ok_put_job keyed_mput keyed_mdel split: option.splits\<close>)

lemma progress_refl: "store_progress m m"
  by (simp add: store_progress_def)

lemma progress_trans: "store_progress a b \<Longrightarrow> store_progress b c \<Longrightarrow> store_progress a c"
proof -
  assume ab: "store_progress a b" and bc: "store_progress b c"
  have "\<exists>es. events_of k c = events_of k a @ es" for k
    using ab bc unfolding store_progress_def by (metis append_assoc)
  moreover have "\<exists>as. mAudit c = mAudit a @ as"
    using ab bc unfolding store_progress_def by (metis append_assoc)
  moreover have "mSettings c \<noteq> mSettings a \<Longrightarrow> msRevision (mSettings a) < msRevision (mSettings c)"
    using ab bc unfolding store_progress_def by (metis order.strict_trans1 order.strict_trans2)
  ultimately show ?thesis
    using ab bc unfolding store_progress_def by (meson order.trans)
qed

lemma commit_progress: "store_progress m (commit_settings now t m)"
  by (auto simp: store_progress_def commit_settings_def events_of_def)

lemma labels_progress:
  "store_progress m (fold (put_http_agent now) ns (fold (put_agent_cfg now) cs (commit_settings now t m)))"
proof -
  let ?m = "commit_settings now t m"
  obtain c where c: "fold (put_agent_cfg now) cs ?m = ?m\<lparr>mAgentCfgs := c\<rparr>"
    using fold_put_agent_cfg by blast
  moreover obtain d where "fold (put_http_agent now) ns (?m\<lparr>mAgentCfgs := c\<rparr>) = ?m\<lparr>mAgentCfgs := c, mHTTPAgents := d\<rparr>"
    using fold_put_http_agent by blast
  ultimately show ?thesis
    using commit_progress [of m now t] by (simp add: store_progress_def events_of_def)
qed

lemma store_progress_step:
  assumes "store_step m m'"
  shows "store_progress m m'"
  using assms
proof cases
  case (create_jobs js)
  then show ?thesis by (auto simp: store_progress_def CreateJobs_def events_of_def intro: mget_puts_Some)
next
  case (update_settings uuid n now s r n')
  with update_settings_cases [OF update_settings] show ?thesis
    by (auto simp: commit_progress progress_refl)
next
  case (update_labels uuid n now s cfgs nodes r n')
  with update_labels_cases [OF update_labels] show ?thesis by (auto simp: labels_progress progress_refl)
qed (auto simp: store_progress_def store_defs bind_res_Inr events_of_def Let_def split: option.splits if_splits)

interpretation store: transition_system store_step store_ok store_progress
  by unfold_locales (use store_ok_step store_progress_step progress_refl progress_trans in blast)+


section \<open>Properties\<close>



text \<open>
  The store never goes backwards: over any sequence of operations the revision of the
  settings does not decrease, and increases whenever the settings change; the audit log and the
  event log of every job are only appended to; a job once stored stays stored.
\<close>

theorem store_monotone:
  assumes "store_step\<^sup>*\<^sup>* m m'" and "store_ok m"
  shows "store_progress m m'"
  using assms by (rule store.progress_reachable)

theorem store_monotone_witness:
  "store_progress (fst (NewMemory (\<lambda>n. ''u'') 0 5)) (AddAuditEvent 6
     \<lparr>auSubject = ''s'', auAction = ''a'', auTarget = [], auDecision = [], auReason = [], auCreatedAt = 0\<rparr>
     (fst (NewMemory (\<lambda>n. ''u'') 0 5)))"
  by (rule store_monotone, rule r_into_rtranclp, rule audit) (simp add: NewMemory_def store_ok_def split: prod.splits)

text \<open>
  A queued job is claimed at most once: a claim succeeds exactly when the job is queued
  for that agent, it makes the job run from then on, leaves every other job alone, and every
  later claim of the job, by whichever agent, is refused.
\<close>

theorem claim_exclusive:
  assumes "ClaimQueuedJob now jid agentID m = (True, m')"
  shows "(\<exists>j. GetJob jid m = Inr j \<and> queued_for agentID [jTool j] (protocolForJob j) j
            \<and> (\<exists>j'. GetJob jid m' = Inr j' \<and> jStatus j' = JobRunning \<and> jStartedAt j' \<noteq> None))
    \<and> (\<forall>k. k \<noteq> jid \<longrightarrow> GetJob k m' = GetJob k m)
    \<and> ClaimQueuedJob later jid other m' = (False, m')"
proof -
  from assms obtain j where "mget (mJobs m) jid = Some j" "jStatus j = JobQueued" "jAgentID j = agentID"
    "m' = m\<lparr>mJobs := mput jid (j\<lparr>jStatus := JobRunning, jUpdatedAt := now,
       jStartedAt := (if jStartedAt j = None then Some now else jStartedAt j)\<rparr>) (mJobs m)\<rparr>"
    by (rule ClaimQueuedJob_job)
  then show ?thesis by (simp add: GetJob_def queued_for_def ClaimQueuedJob_def)
qed

definition queued_job :: "string \<Rightarrow> Job" where
  "queued_job jid =
     \<lparr>jID = jid, jParentID = [], jScheduledID = ''s'', jScheduledRevision = 1, jTool = ToolDNS, jTarget = ''example.org'',
      jResolvedTarget = [], jArgs = [], jIPVersion = IPAny, jAgentID = ''a'', jResolveOnAgent = False, jStatus = JobQueued,
      jCreatedAt = 5, jUpdatedAt = 5, jStartedAt = None, jCompletedAt = None, jError = []\<rparr>"

definition one_job :: Memory where
  "one_job = CreateJob (queued_job ''j'') (fst (NewMemory (\<lambda>n. ''u'') 0 5))"

lemma one_job_jobs: "mJobs one_job = [(''j'', queued_job ''j'')]"
  by (simp add: one_job_def CreateJob_def NewMemory_def queued_job_def split: prod.splits)

theorem claim_exclusive_witness:
  "\<exists>m'. ClaimQueuedJob 9 ''j'' ''a'' one_job = (True, m') \<and> ClaimQueuedJob 10 ''j'' ''a'' m' = (False, m')"
proof -
  obtain m' where c: "ClaimQueuedJob 9 ''j'' ''a'' one_job = (True, m')"
    by (simp add: ClaimQueuedJob_def one_job_jobs queued_job_def)
  from claim_exclusive [OF this, of 10 "''a''"] c show ?thesis by blast
qed

text \<open>
  The settings are updated optimistically: an update that succeeds was made from the
  current revision, makes the next revision current, and is what a later read returns, unchanged
  and without new secrets; every other update made from the old revision is then refused with
  a conflict (or with its own validation error) and changes nothing.
\<close>

theorem settings_optimistic:
  assumes u: "uuid_ok uuid" and up: "UpdateManagedSettings uuid n now s m = ((s', None), m', n')"
  shows "msRevision s = msRevision (mSettings m) \<and> msRevision s' = msRevision s + 1
    \<and> GetManagedSettings uuid k m' = (s', k, None)
    \<and> (\<forall>t. msRevision t = msRevision s \<longrightarrow>
          (\<exists>r e c. UpdateManagedSettings uuid k later t m' = ((r, Some e), m', c)))"
proof -
  from up obtain t where t: "NormalizeManagedSettings uuid n s = (t, n', None)"
    "msRevision t = msRevision (mSettings m)" "m' = commit_settings now t m" "s' = mSettings m'"
    by (rule UpdateManagedSettings_ok)
  have "NormalizeManagedSettings uuid k t = (t, k, None)" by (rule normalize_settings_stable [OF u t(1)])
  then have "GetManagedSettings uuid k m' = (s', k, None)"
    by (simp add: t(3,4) GetManagedSettings_def commit_settings_def NormalizeManagedSettings_meta)
  moreover have rev: "msRevision s = msRevision (mSettings m)" "msRevision s' = msRevision s + 1"
    using NormalizeManagedSettings_revision [OF t(1)] t by (auto simp: commit_settings_def)
  moreover have "\<exists>r e c. UpdateManagedSettings uuid k later v m' = ((r, Some e), m', c)"
    if v: "msRevision v = msRevision s" for v
  proof -
    obtain w c e where w: "NormalizeManagedSettings uuid k v = (w, c, e)" by (metis prod_cases3)
    with NormalizeManagedSettings_revision [OF w] v rev t(4) show ?thesis
      by (cases e) (auto simp: UpdateManagedSettings_def)
  qed
  ultimately show ?thesis by blast
qed

theorem settings_optimistic_witness:
  "\<exists>s' m' n'. UpdateManagedSettings (\<lambda>n. ''u'') 0 9 (zero_ManagedSettings\<lparr>msRevision := 1\<rparr>) one_job = ((s', None), m', n')
     \<and> msRevision s' = 2"
proof -
  let ?s = "zero_ManagedSettings\<lparr>msRevision := 1\<rparr>"
  have u: "uuid_ok (\<lambda>n. ''u'')" by (simp add: uuid_ok_def) code_simp
  have r: "msRevision (mSettings one_job) = 1"
    by (simp add: one_job_def CreateJob_def NewMemory_def split: prod.splits)
  have "\<exists>t. NormalizeManagedSettings (\<lambda>n. ''u'') 0 ?s = (t, 0, None) \<and> msRevision t = 1"
    by (simp add: NormalizeManagedSettings_def NormalizeAPITokenPermissions_def NormalizeRegisterTokens_def
        EnsureAgentLabelConfig_def zero_ManagedSettings_def ClearManagedSettingsRotateFlags_def Let_def)
  then obtain t where "NormalizeManagedSettings (\<lambda>n. ''u'') 0 ?s = (t, 0, None)" "msRevision t = 1" by blast
  with r have "\<exists>s' m'. UpdateManagedSettings (\<lambda>n. ''u'') 0 9 ?s one_job = ((s', None), m', 0)"
    by (simp add: UpdateManagedSettings_def Let_def)
  then obtain s' m' where up: "UpdateManagedSettings (\<lambda>n. ''u'') 0 9 ?s one_job = ((s', None), m', 0)" by blast
  from settings_optimistic [OF u up] up show ?thesis by auto
qed

text \<open>
  The queue of an agent: \<^verbatim>\<open>ListQueuedJobs\<close> returns only stored jobs that are queued for
  this agent, with a tool and an IP version it has; oldest first; at most as many as the
  limit; and a queued job that is left out is no older than any that is returned.
\<close>

theorem queue_listing:
  assumes "0 < limit"
  shows "int (length (ListQueuedJobs agentID caps protocols limit m)) \<le> limit
    \<and> sorted (map jCreatedAt (ListQueuedJobs agentID caps protocols limit m))
    \<and> list_all (\<lambda>j. queued_for agentID caps protocols j \<and> (\<exists>k. (k, j) \<in> set (mJobs m)))
        (ListQueuedJobs agentID caps protocols limit m)
    \<and> (\<forall>(k, j)\<in>set (mJobs m). queued_for agentID caps protocols j \<longrightarrow>
         j \<in> set (ListQueuedJobs agentID caps protocols limit m)
         \<or> list_all (\<lambda>i. jCreatedAt i \<le> jCreatedAt j) (ListQueuedJobs agentID caps protocols limit m))"
proof -
  let ?q = "ListQueuedJobs agentID caps protocols limit m"
  have "list_all (\<lambda>j. queued_for agentID caps protocols j \<and> (\<exists>k. (k, j) \<in> set (mJobs m))) ?q"
    using queued_jobs.list_op_sound [where s = m and n = limit] by (force simp: list_all_iff)
  moreover have "\<forall>(k, j)\<in>set (mJobs m). queued_for agentID caps protocols j \<longrightarrow>
         j \<in> set ?q \<or> list_all (\<lambda>i. jCreatedAt i \<le> jCreatedAt j) ?q"
    using queued_jobs.list_op_oldest_first [where s = m and n = limit]
    by (force simp: list_all_iff)
  ultimately show ?thesis
    using queued_jobs.list_op_bounded [OF assms] queued_jobs.list_op_sorted by blast
qed

theorem queue_listing_witness:
  "int (length (ListQueuedJobs ''a'' [ToolDNS] 3 4 one_job)) \<le> 4 \<and> ListQueuedJobs ''a'' [ToolDNS] 3 4 one_job = [queued_job ''j'']"
proof -
  have "(0 :: int) < 4" by simp
  from queue_listing [OF this, of "''a''" "[ToolDNS]" 3 one_job] show ?thesis
    by (simp add: ListQueuedJobs_def one_job_jobs queued_for_def queued_job_def protocolForJob_def take_limit_def)
qed


definition any_history :: HistoryFilter where
  "any_history = \<lparr>hfLimit = 0, hfBucketSeconds = 60, hfRevision = 0, hfFrom = 0, hfTo = 0, hfHasFrom = False, hfHasTo = False\<rparr>"


end
