(* ===== verification/RateLimit.thy ===== *)
theory RateLimit
  imports NetAddr Config
begin

text \<open>
  The rate limiter (\<^verbatim>\<open>internal/abuse/ratelimit.go\<close>). The token bucket of
  \<^verbatim>\<open>golang.org/x/time/rate\<close> is a parameter: a type \<open>'b\<close> of buckets with \<open>new_bucket\<close> (the interval
  given to \<^verbatim>\<open>rate.Every\<close> and the burst) and \<open>bucket_allow\<close> (the method \<^verbatim>\<open>Allow\<close> at a time).
  The limiter keeps a bucket per key, drops the ones not used for ten minutes, and answers for
  whole requests, for tools and for the location service. A \<^verbatim>\<open>nil\<close> limiter allows all, so
  a limiter is an option for its callers.
\<close>

unbundle bit_operations_syntax

record 'b bucket_ops =
  new_bucket :: "dur \<Rightarrow> int \<Rightarrow> 'b"
  bucket_allow :: "time \<Rightarrow> 'b \<Rightarrow> bool \<times> 'b"

record 'b rl_entry =
  enLimiter :: 'b
  enSeen :: time

record 'b Limiter =
  lmGlobal :: LimitSpec
  lmIP :: LimitSpec
  lmCIDRLimit :: LimitSpec
  lmGeoIP :: LimitSpec
  lmTools :: "(string, ToolLimitSpec) gomap"
  lmIPv4Prefix :: int
  lmIPv6Prefix :: int
  lmExemptCIDRs :: "prefix list"
  lmItems :: "(string, 'b rl_entry) gomap"
  lmMaxAge :: dur
  lmCleanupDue :: time


section \<open>Configuration\<close>

definition normalizeLimit :: "LimitSpec \<Rightarrow> int \<Rightarrow> int \<Rightarrow> LimitSpec" where
  "normalizeLimit limit defaultRPM defaultBurst =
     (let rpm = (if lsRequestsPerMinute limit = 0 then defaultRPM else lsRequestsPerMinute limit);
          burst = (if lsBurst limit = 0 then defaultBurst else lsBurst limit)
      in \<lparr>lsRequestsPerMinute = rpm, lsBurst = (if 0 < rpm \<and> burst = 0 then 1 else burst)\<rparr>)"

definition normalizeCIDR :: "CIDRSpec \<Rightarrow> CIDRSpec" where
  "normalizeCIDR cidr =
     (let p4 = (if csIPv4Prefix cidr = 0 then 32 else csIPv4Prefix cidr);
          p6 = (if csIPv6Prefix cidr = 0 then 128 else csIPv6Prefix cidr);
          p4' = (if p4 < 0 then 32 else p4);
          p4'' = (if 32 < p4' then 32 else p4');
          p6' = (if p6 < 0 then 128 else p6);
          p6'' = (if 128 < p6' then 128 else p6')
      in cidr\<lparr>csIPv4Prefix := p4'', csIPv6Prefix := p6''\<rparr>)"

definition parseExemptCIDR :: "string \<Rightarrow> prefix option" where
  "parseExemptCIDR raw =
     (if Contains raw ''/'' then map_option Masked (ParsePrefix raw)
      else (case ParseAddr raw of
              None \<Rightarrow> None
            | Some a \<Rightarrow> (let u = Unmap a in
                        case u of
                          Addr4 _ \<Rightarrow> Some (Prefix u (BitLen u))
                        | Addr6 w z \<Rightarrow> Some (Prefix (Addr6 w []) (BitLen u)))))"

fun parseExemptCIDRs :: "string list \<Rightarrow> (prefix list) res" where
  "parseExemptCIDRs [] = Inr []"
| "parseExemptCIDRs (r # rs) =
     (let raw = TrimSpace r in
      if raw = [] then parseExemptCIDRs rs
      else (case parseExemptCIDR raw of
              None \<Rightarrow> Inl (Errorf ''invalid exempt CIDR %q: %w'' [raw])
            | Some p \<Rightarrow> bind_res (parseExemptCIDRs rs) (\<lambda>ps. Inr (p # ps))))"

definition NewConfiguredLimiterWithError :: "RateLimit \<Rightarrow> ('b Limiter) res" where
  "NewConfiguredLimiterWithError cfg =
     (let cidr = normalizeCIDR (rlCIDR cfg) in
      bind_res (parseExemptCIDRs (rlExemptCIDRs cfg)) (\<lambda>exempt.
        Inr \<lparr>lmGlobal = normalizeLimit (rlGlobal cfg) 600 200,
             lmIP = normalizeLimit (rlIP cfg) 60 20,
             lmCIDRLimit = normalizeLimit \<lparr>lsRequestsPerMinute = csRequestsPerMinute cidr, lsBurst = csBurst cidr\<rparr> 300 100,
             lmGeoIP = normalizeLimit (rlGeoIP cfg) 120 60,
             lmTools = map (\<lambda>(tool, limit).
                (tool, \<lparr>tlGlobal = normalizeLimit (tlGlobal limit) 0 0,
                        tlCIDR = normalizeLimit (tlCIDR limit) 0 0,
                        tlIP = normalizeLimit (tlIP limit) 0 0\<rparr>)) (rlTools cfg),
             lmIPv4Prefix = csIPv4Prefix cidr, lmIPv6Prefix = csIPv6Prefix cidr,
             lmExemptCIDRs = exempt, lmItems = [], lmMaxAge = 10 * Minute, lmCleanupDue = 0\<rparr>))"


section \<open>Keys\<close>

definition ipKey :: "string \<Rightarrow> string" where
  "ipKey raw = (case ParseIP raw of None \<Rightarrow> raw | Some ip \<Rightarrow> IP_String ip)"

definition mask_word :: "nat \<Rightarrow> 'a::len word \<Rightarrow> 'a word" where
  "mask_word k w = push_bit k (drop_bit k w)"

definition cidrKey :: "'b Limiter \<Rightarrow> string \<Rightarrow> string" where
  "cidrKey l raw =
     (case ParseIP raw of
        None \<Rightarrow> raw
      | Some ip \<Rightarrow>
          (case To4 ip of
             Some a \<Rightarrow> v4_string (mask_word (32 - nat (lmIPv4Prefix l)) a) @ ''/'' @ Itoa (lmIPv4Prefix l)
           | None \<Rightarrow> v6_string (mask_word (128 - nat (lmIPv6Prefix l)) ip) @ ''/'' @ Itoa (lmIPv6Prefix l)))"

definition isExempt :: "'b Limiter \<Rightarrow> string \<Rightarrow> bool" where
  "isExempt l raw =
     (case ParseAddr raw of
        None \<Rightarrow> False
      | Some ip \<Rightarrow> list_ex (\<lambda>p. prefix_contains p (Unmap ip)) (lmExemptCIDRs l))"


section \<open>Decisions\<close>

definition allow :: "'b bucket_ops \<Rightarrow> time \<Rightarrow> string \<Rightarrow> LimitSpec \<Rightarrow> 'b Limiter \<Rightarrow> bool \<times> 'b Limiter" where
  "allow ops now key limit l =
     (if lsRequestsPerMinute limit \<le> 0 \<or> lsBurst limit \<le> 0 then (True, l)
      else
        let l1 = (if lmCleanupDue l < now then
                    l\<lparr>lmItems := filter (\<lambda>(k, e). \<not> lmMaxAge l < now - enSeen e) (lmItems l),
                      lmCleanupDue := now + Minute\<rparr>
                  else l);
            e = (case mget (lmItems l1) key of
                   Some e \<Rightarrow> enLimiter e
                 | None \<Rightarrow> new_bucket ops (quot Minute (lsRequestsPerMinute limit)) (lsBurst limit));
            (ok, e') = bucket_allow ops now e
        in (ok, l1\<lparr>lmItems := mput key \<lparr>enLimiter = e', enSeen = now\<rparr> (lmItems l1)\<rparr>))"

text \<open>Each call of \<^verbatim>\<open>allow\<close> reads the clock again: \<open>t1\<close>, \<open>t2\<close>, \<open>t3\<close>.\<close>

definition AllowRequest ::
  "'b bucket_ops \<Rightarrow> time \<Rightarrow> time \<Rightarrow> time \<Rightarrow> string \<Rightarrow> 'b Limiter \<Rightarrow> bool \<times> 'b Limiter" where
  "AllowRequest ops t1 t2 t3 clientIP l =
     (if isExempt l clientIP then (True, l)
      else (case allow ops t1 ''global'' (lmGlobal l) l of
              (False, l1) \<Rightarrow> (False, l1)
            | (True, l1) \<Rightarrow>
                (case allow ops t2 (''cidr:'' @ cidrKey l1 clientIP) (lmCIDRLimit l1) l1 of
                   (False, l2) \<Rightarrow> (False, l2)
                 | (True, l2) \<Rightarrow> allow ops t3 (''ip:'' @ ipKey clientIP) (lmIP l2) l2)))"

text \<open>The variadic parameter is an option: no address or the first one.\<close>

definition AllowTool ::
  "'b bucket_ops \<Rightarrow> time \<Rightarrow> time \<Rightarrow> time \<Rightarrow> string \<Rightarrow> string option \<Rightarrow> 'b Limiter \<Rightarrow> bool \<times> 'b Limiter" where
  "AllowTool ops t1 t2 t3 tool clientIP l =
     (if (case clientIP of None \<Rightarrow> False | Some ip \<Rightarrow> isExempt l ip) then (True, l)
      else (case mget (lmTools l) tool of
              None \<Rightarrow> (True, l)
            | Some limit \<Rightarrow>
                (case allow ops t1 (''tool:global:'' @ tool) (tlGlobal limit) l of
                   (False, l1) \<Rightarrow> (False, l1)
                 | (True, l1) \<Rightarrow>
                     (case clientIP of
                        None \<Rightarrow> (True, l1)
                      | Some ip \<Rightarrow>
                          (case allow ops t2 (''tool:cidr:'' @ tool @ '':'' @ cidrKey l1 ip) (tlCIDR limit) l1 of
                             (False, l2) \<Rightarrow> (False, l2)
                           | (True, l2) \<Rightarrow>
                               allow ops t3 (''tool:ip:'' @ tool @ '':'' @ ipKey ip) (tlIP limit) l2)))))"

definition AllowGeoIP :: "'b bucket_ops \<Rightarrow> time \<Rightarrow> 'b Limiter \<Rightarrow> bool \<times> 'b Limiter" where
  "AllowGeoIP ops now l = allow ops now ''geoip:global'' (lmGeoIP l) l"


section \<open>Who shares a bucket\<close>

lemma v4_string_inj: "v4_string a = v4_string b \<longleftrightarrow> a = b"
  by (metis ParseAddr_v4_string addr.inject(1) option.inject)

lemma v6_string_inj: "v6_string a = v6_string b \<longleftrightarrow> a = b"
  by (metis ParseAddr_v6_string addr.inject(2) option.inject)

lemma drop_push: "drop_bit k (mask_word k a) = drop_bit k a" for a :: "'a::len word"
  unfolding mask_word_def by (rule bit_word_eqI) (auto simp: bit_simps dest: bit_imp_le_length)

lemma mask_word_eq_iff: "mask_word k a = mask_word k b \<longleftrightarrow> drop_bit k a = drop_bit k b" for a b :: "'a::len word"
  by (metis drop_push mask_word_def)

lemma suffix_cancel: "xs @ z = ys @ z \<longleftrightarrow> xs = ys"
  by simp

lemma cidrKey_v4:
  "cidrKey l (v4_string a) = v4_string (mask_word (32 - nat (lmIPv4Prefix l)) a) @ ''/'' @ Itoa (lmIPv4Prefix l)"
  by (simp add: cidrKey_def)

lemma cidrKey_v6:
  "To4 w = None \<Longrightarrow> cidrKey l (v6_string w) =
     v6_string (mask_word (128 - nat (lmIPv6Prefix l)) w) @ ''/'' @ Itoa (lmIPv6Prefix l)"
  by (simp add: cidrKey_def ParseIP_def)

text \<open>
  Two clients share a CIDR bucket exactly when they are in the same network: for IPv4
  addresses when their leading \<^verbatim>\<open>IPv4Prefix\<close> bits agree, for IPv6 addresses when their leading
  \<^verbatim>\<open>IPv6Prefix\<close> bits agree.
\<close>

theorem cidr_bucket_exact:
  assumes "To4 v = None" "To4 w = None"
  shows "(cidrKey l (v4_string a) = cidrKey l (v4_string b) \<longleftrightarrow>
           drop_bit (32 - nat (lmIPv4Prefix l)) a = drop_bit (32 - nat (lmIPv4Prefix l)) b)
       \<and> (cidrKey l (v6_string v) = cidrKey l (v6_string w) \<longleftrightarrow>
           drop_bit (128 - nat (lmIPv6Prefix l)) v = drop_bit (128 - nat (lmIPv6Prefix l)) w)"
  using assms by (simp only: cidrKey_v4 cidrKey_v6 suffix_cancel v4_string_inj v6_string_inj mask_word_eq_iff)

definition counter_ops :: "int bucket_ops" where
  "counter_ops = \<lparr>new_bucket = (\<lambda>_ burst. burst), bucket_allow = (\<lambda>_ n. if 0 < n then (True, n - 1) else (False, n))\<rparr>"

definition example_limiter :: "int Limiter" where
  "example_limiter =
     \<lparr>lmGlobal = \<lparr>lsRequestsPerMinute = 600, lsBurst = 200\<rparr>, lmIP = \<lparr>lsRequestsPerMinute = 60, lsBurst = 20\<rparr>,
      lmCIDRLimit = \<lparr>lsRequestsPerMinute = 300, lsBurst = 100\<rparr>, lmGeoIP = \<lparr>lsRequestsPerMinute = 120, lsBurst = 60\<rparr>,
      lmTools = [], lmIPv4Prefix = 24, lmIPv6Prefix = 64, lmExemptCIDRs = [], lmItems = [], lmMaxAge = 10 * Minute,
      lmCleanupDue = 0\<rparr>"

theorem cidr_bucket_exact_witness:
  "cidrKey example_limiter (v4_string 0x08080808) = cidrKey example_limiter (v4_string 0x08080809)
   \<and> cidrKey example_limiter (v4_string 0x08080808) \<noteq> cidrKey example_limiter (v4_string 0x08080908)"
proof -
  have v: "To4 (1 :: netIP) = None" by code_simp
  have d: "drop_bit 8 (0x08080808 :: 32 word) = drop_bit 8 0x08080809"
    "drop_bit 8 (0x08080808 :: 32 word) \<noteq> drop_bit 8 0x08080908" by code_simp+
  have k: "32 - nat (lmIPv4Prefix example_limiter) = 8" by (simp add: example_limiter_def)
  from cidr_bucket_exact [OF v v, of example_limiter "0x08080808" "0x08080809"]
    cidr_bucket_exact [OF v v, of example_limiter "0x08080808" "0x08080908"] d
  show ?thesis unfolding k by blast
qed


section \<open>Limits that are enforced\<close>

text \<open>
  What the limiter relies on of a token bucket: at one instant, a new bucket grants at most its
  burst. \<open>left\<close> is the number of grants a bucket can still give.
\<close>

definition bucket_law :: "'b bucket_ops \<Rightarrow> time \<Rightarrow> ('b \<Rightarrow> nat) \<Rightarrow> bool" where
  "bucket_law ops now left \<longleftrightarrow>
     (\<forall>i b. left (new_bucket ops i b) \<le> nat b)
     \<and> (\<forall>e. if fst (bucket_allow ops now e) then left (snd (bucket_allow ops now e)) < left e
            else left (snd (bucket_allow ops now e)) \<le> left e)"

definition left_of :: "('b \<Rightarrow> nat) \<Rightarrow> LimitSpec \<Rightarrow> string \<Rightarrow> 'b Limiter \<Rightarrow> nat" where
  "left_of left limit key l =
     (case mget (lmItems l) key of Some e \<Rightarrow> left (enLimiter e) | None \<Rightarrow> nat (lsBurst limit))"

text \<open>No bucket is dropped at this instant.\<close>

definition fresh :: "time \<Rightarrow> 'b Limiter \<Rightarrow> bool" where
  "fresh now l \<longleftrightarrow> lmCleanupDue l < now \<longrightarrow> filter (\<lambda>(k, e). \<not> lmMaxAge l < now - enSeen e) (lmItems l) = lmItems l"

lemma allow_same_config:
  "allow ops now key limit l = (ok, l') \<Longrightarrow>
   lmGlobal l' = lmGlobal l \<and> lmIP l' = lmIP l \<and> lmCIDRLimit l' = lmCIDRLimit l \<and> lmTools l' = lmTools l
   \<and> lmIPv4Prefix l' = lmIPv4Prefix l \<and> lmIPv6Prefix l' = lmIPv6Prefix l
   \<and> lmExemptCIDRs l' = lmExemptCIDRs l"
  by (auto simp: allow_def Let_def split: if_splits prod.splits)

lemma allow_fresh: "fresh now l \<Longrightarrow> allow ops now key limit l = (ok, l') \<Longrightarrow> fresh now l'"
  by (auto simp: allow_def fresh_def Let_def split: if_splits prod.splits)

lemma fresh_items:
  "fresh now l \<Longrightarrow>
   lmItems (if lmCleanupDue l < now then
              l\<lparr>lmItems := filter (\<lambda>(k, e). \<not> lmMaxAge l < now - enSeen e) (lmItems l),
                lmCleanupDue := now + Minute\<rparr>
            else l) = lmItems l"
  by (simp add: fresh_def)

lemma allow_spends:
  assumes law: "bucket_law ops now left" and fresh: "fresh now l"
    and on: "0 < lsRequestsPerMinute limit" "0 < lsBurst limit"
    and a: "allow ops now key limit l = (ok, l')"
  shows "left_of left limit key l' + (if ok then 1 else 0) \<le> left_of left limit key l"
proof -
  define e where "e = (case mget (lmItems l) key of Some e \<Rightarrow> enLimiter e
    | None \<Rightarrow> new_bucket ops (quot Minute (lsRequestsPerMinute limit)) (lsBurst limit))"
  have e: "left e \<le> left_of left limit key l"
    using law by (auto simp: e_def left_of_def bucket_law_def split: option.splits)
  have eq: "ok = fst (bucket_allow ops now e)" "left_of left limit key l' = left (snd (bucket_allow ops now e))"
    using a on by (auto simp: allow_def fresh_items [OF fresh] Let_def left_of_def e_def split: prod.splits)
  from law have "if fst (bucket_allow ops now e) then left (snd (bucket_allow ops now e)) < left e
            else left (snd (bucket_allow ops now e)) \<le> left e"
    by (simp add: bucket_law_def)
  with e eq show ?thesis by (auto split: if_splits)
qed

lemma allow_other:
  "fresh now l \<Longrightarrow> allow ops now key limit l = (ok, l') \<Longrightarrow> k \<noteq> key \<Longrightarrow> left_of left lm k l' = left_of left lm k l"
  by (auto simp: allow_def fresh_items left_of_def Let_def split: if_splits prod.splits)

text \<open>A client sends \<open>n\<close> requests at one instant; the number of those that are allowed.\<close>

fun granted :: "'b bucket_ops \<Rightarrow> time \<Rightarrow> string \<Rightarrow> nat \<Rightarrow> 'b Limiter \<Rightarrow> nat" where
  "granted ops now ip 0 l = 0"
| "granted ops now ip (Suc n) l =
     (case AllowRequest ops now now now ip l of
        (ok, l') \<Rightarrow> (if ok then 1 else 0) + granted ops now ip n l')"

lemma key_neq: "''ip:'' @ x \<noteq> ''global''" "''ip:'' @ x \<noteq> ''cidr:'' @ y"
  by simp_all

lemma AllowRequest_spends:
  assumes law: "bucket_law ops now left" and fresh: "fresh now l" and ne: "\<not> isExempt l ip"
    and on: "0 < lsRequestsPerMinute (lmIP l)" "0 < lsBurst (lmIP l)"
    and a: "AllowRequest ops now now now ip l = (ok, l')"
  shows "left_of left (lmIP l) (''ip:'' @ ipKey ip) l' + (if ok then 1 else 0)
           \<le> left_of left (lmIP l) (''ip:'' @ ipKey ip) l
         \<and> fresh now l' \<and> lmIP l' = lmIP l \<and> \<not> isExempt l' ip"
proof -
  let ?k = "''ip:'' @ ipKey ip" and ?lim = "lmIP l"
  obtain ok1 l1 where 1: "allow ops now ''global'' (lmGlobal l) l = (ok1, l1)" by force
  obtain ok2 l2 where 2: "allow ops now (''cidr:'' @ cidrKey l1 ip) (lmCIDRLimit l1) l1 = (ok2, l2)" by force
  obtain ok3 l3 where 3: "allow ops now ?k (lmIP l2) l2 = (ok3, l3)" by force
  note c1 = allow_same_config [OF 1] and c2 = allow_same_config [OF 2] and c3 = allow_same_config [OF 3]
  have f1: "fresh now l1" by (rule allow_fresh [OF fresh 1])
  have f2: "fresh now l2" by (rule allow_fresh [OF f1 2])
  have f3: "fresh now l3" by (rule allow_fresh [OF f2 3])
  have s1: "left_of left ?lim ?k l1 = left_of left ?lim ?k l" by (rule allow_other [OF fresh 1]) simp
  have s2: "left_of left ?lim ?k l2 = left_of left ?lim ?k l1" by (rule allow_other [OF f1 2]) simp
  have lim: "lmIP l2 = ?lim" using c1 c2 by simp
  have s3: "left_of left ?lim ?k l3 + (if ok3 then 1 else 0) \<le> left_of left ?lim ?k l2"
    using allow_spends [OF law f2 on 3 [unfolded lim]] .
  have ex: "isExempt l1 ip = isExempt l ip" "isExempt l2 ip = isExempt l ip" "isExempt l3 ip = isExempt l ip"
    using c1 c2 c3 by (auto simp: isExempt_def split: option.splits)
  consider "\<not> ok1" "l' = l1" "\<not> ok" | "ok1" "\<not> ok2" "l' = l2" "\<not> ok" | "ok1" "ok2" "l' = l3" "ok = ok3"
    using a ne 1 2 3 by (auto simp: AllowRequest_def split: bool.splits)
  then show ?thesis using s1 s2 s3 f1 f2 f3 c1 c2 c3 ex ne by cases auto
qed

text \<open>
  (C38) A burst of requests of one client that is not exempt is cut off: of any number of
  requests at one instant at most the configured burst per address is allowed, whatever the
  other limits are, for every token bucket that grants at most its burst at one instant.
\<close>

theorem client_burst_limited:
  assumes law: "bucket_law ops now left" and cfg: "NewConfiguredLimiterWithError cfg = Inr l"
    and ne: "\<not> isExempt l ip"
    and on: "0 < lsRequestsPerMinute (lmIP l)" "0 < lsBurst (lmIP l)"
  shows "int (granted ops now ip n l) \<le> lsBurst (lmIP l)"
proof -
  have gen: "granted ops now ip n l \<le> left_of left (lmIP l) (''ip:'' @ ipKey ip) l"
    if "fresh now l" "\<not> isExempt l ip" "0 < lsRequestsPerMinute (lmIP l)" "0 < lsBurst (lmIP l)"
    for l :: "'a Limiter"
    using that
  proof (induction n arbitrary: l)
    case (Suc n)
    obtain ok l' where a: "AllowRequest ops now now now ip l = (ok, l')" by force
    from AllowRequest_spends [OF law Suc.prems a]
    have s: "left_of left (lmIP l) (''ip:'' @ ipKey ip) l' + (if ok then 1 else 0)
           \<le> left_of left (lmIP l) (''ip:'' @ ipKey ip) l"
      and l': "fresh now l'" "lmIP l' = lmIP l" "\<not> isExempt l' ip" by auto
    from Suc.IH [OF l'(1,3)] l'(2) Suc.prems
    have "granted ops now ip n l' \<le> left_of left (lmIP l) (''ip:'' @ ipKey ip) l'" by simp
    with a s show ?case by simp
  qed simp
  have "lmItems l = []" using cfg by (auto simp: NewConfiguredLimiterWithError_def Let_def bind_res_Inr)
  then have "left_of left (lmIP l) (''ip:'' @ ipKey ip) l = nat (lsBurst (lmIP l))"
    by (simp add: left_of_def)
  moreover have "fresh now l" using \<open>lmItems l = []\<close> by (simp add: fresh_def)
  ultimately show ?thesis using gen [of l] ne on by simp
qed

theorem client_burst_limited_witness:
  "\<exists>l. NewConfiguredLimiterWithError zero_RateLimit = Inr l \<and> int (granted counter_ops 7 ''8.8.8.8'' 1000 l) \<le> 20"
proof -
  have law: "bucket_law counter_ops 7 nat" by (auto simp: bucket_law_def counter_ops_def)
  have "\<exists>l :: int Limiter. NewConfiguredLimiterWithError zero_RateLimit = Inr l
      \<and> lmExemptCIDRs l = [] \<and> lmIP l = \<lparr>lsRequestsPerMinute = 60, lsBurst = 20\<rparr>"
    by (simp add: NewConfiguredLimiterWithError_def zero_RateLimit_def normalizeLimit_def Let_def)
  then obtain l :: "int Limiter" where l: "NewConfiguredLimiterWithError zero_RateLimit = Inr l"
    "lmExemptCIDRs l = []" "lmIP l = \<lparr>lsRequestsPerMinute = 60, lsBurst = 20\<rparr>" by blast
  have ne: "\<not> isExempt l ''8.8.8.8''" by (simp add: isExempt_def l(2) split: option.splits)
  have on: "0 < lsRequestsPerMinute (lmIP l)" "0 < lsBurst (lmIP l)" by (simp_all add: l(3))
  from client_burst_limited [OF law l(1) ne on, of 1000] l show ?thesis by (intro exI [of _ l]) simp
qed

end
