(* ===== verification/Labels.thy ===== *)
theory Labels
  imports Policy
begin

text \<open>
  Settings by label (\<^verbatim>\<open>internal/scheduler/hub.go\<close>, from \<^verbatim>\<open>policiesForLabels\<close> on): an agent has
  labels, a label can have a configuration, and what holds for an agent is the base narrowed by
  the configurations of all its labels. The functions take the snapshot of the hub they read as
  arguments: the base policies and the label configurations.
\<close>


section \<open>Merging\<close>

definition minPositive :: "int \<Rightarrow> int \<Rightarrow> int" where
  "minPositive left right =
     (if left \<le> 0 then right else if right \<le> 0 then left else if right < left then right else left)"

definition minRuntime :: "Runtime \<Rightarrow> Runtime \<Rightarrow> Runtime" where
  "minRuntime base0 next0 =
     (let base = DefaultRuntimeValues base0; next = DefaultRuntimeValues next0 in
      \<lparr>rtCount = minPositive (rtCount base) (rtCount next),
       rtMaxHops = minPositive (rtMaxHops base) (rtMaxHops next),
       rtProbeStepTimeoutSec = minPositive (rtProbeStepTimeoutSec base) (rtProbeStepTimeoutSec next),
       rtMaxToolTimeoutSec = minPositive (rtMaxToolTimeoutSec base) (rtMaxToolTimeoutSec next),
       rtHTTPTimeoutSec = minPositive (rtHTTPTimeoutSec base) (rtHTTPTimeoutSec next),
       rtDNSTimeoutSec = minPositive (rtDNSTimeoutSec base) (rtDNSTimeoutSec next),
       rtResolveTimeoutSec = minPositive (rtResolveTimeoutSec base) (rtResolveTimeoutSec next),
       rtHTTPInvokeAttempts = minPositive (rtHTTPInvokeAttempts base) (rtHTTPInvokeAttempts next),
       rtHTTPMaxHealthIntervalSec =
         minPositive (rtHTTPMaxHealthIntervalSec base) (rtHTTPMaxHealthIntervalSec next)\<rparr>)"

definition minScheduler :: "Scheduler \<Rightarrow> Scheduler \<Rightarrow> Scheduler" where
  "minScheduler base0 next0 =
     (let base = DefaultScheduler base0; next = DefaultScheduler next0 in
      \<lparr>scAgentOfflineAfterSec = minPositive (scAgentOfflineAfterSec base) (scAgentOfflineAfterSec next),
       scMaxInflightPerAgent = minPositive (scMaxInflightPerAgent base) (scMaxInflightPerAgent next),
       scPollIntervalSec = minPositive (scPollIntervalSec base) (scPollIntervalSec next)\<rparr>)"

text \<open>One round of the loop of \<^verbatim>\<open>intersectConfigPolicies\<close>.\<close>

definition intersect_cfg :: "string \<times> CfgPolicy \<Rightarrow> (string, CfgPolicy) gomap \<Rightarrow> (string, CfgPolicy) gomap" where
  "intersect_cfg e out =
     (let (name, rightPolicy) = e in
      if \<not> cpEnabled rightPolicy then mput name rightPolicy out
      else (case mget out name of
              None \<Rightarrow> mput name rightPolicy out
            | Some leftPolicy \<Rightarrow>
                if \<not> cpEnabled leftPolicy then mput name leftPolicy out
                else mput name
                       (if cpAllowedArgs rightPolicy \<noteq> None
                        then leftPolicy\<lparr>cpAllowedArgs := IntersectAllowedArgs (cpAllowedArgs leftPolicy) (cpAllowedArgs rightPolicy)\<rparr>
                        else leftPolicy) out))"

definition intersectConfigPolicies ::
  "(string, CfgPolicy) gomap \<Rightarrow> (string, CfgPolicy) gomap \<Rightarrow> (string, CfgPolicy) gomap" where
  "intersectConfigPolicies left right = fold intersect_cfg right left"

definition labelConfigsFor :: "(string, LabelConfig) gomap option \<Rightarrow> string list \<Rightarrow> LabelConfig list" where
  "labelConfigsFor configs labels =
     List.map_filter (\<lambda>lbl. case configs of None \<Rightarrow> None | Some m \<Rightarrow> mget m lbl) labels"

definition tool_policies :: "LabelConfig \<Rightarrow> (string, CfgPolicy) gomap" where
  "tool_policies cfg = (case lcToolPolicies cfg of None \<Rightarrow> [] | Some m \<Rightarrow> m)"

text \<open>The map \<^verbatim>\<open>merged\<close> is \<^verbatim>\<open>nil\<close> (here \<open>None\<close>) until a label has policies.\<close>

definition merge_policies ::
  "LabelConfig \<Rightarrow> (string, CfgPolicy) gomap option \<Rightarrow> (string, CfgPolicy) gomap option" where
  "merge_policies cfg merged =
     (if tool_policies cfg = [] then merged
      else (case merged of
              None \<Rightarrow> Some (tool_policies cfg)
            | Some m \<Rightarrow> Some (intersectConfigPolicies m (tool_policies cfg))))"

definition toolPoliciesForLabels :: "(string, LabelConfig) gomap option \<Rightarrow> string list \<Rightarrow> (string, CfgPolicy) gomap" where
  "toolPoliciesForLabels configs labels =
     (case fold merge_policies (labelConfigsFor configs labels) None of None \<Rightarrow> [] | Some m \<Rightarrow> m)"

definition merge_runtime :: "LabelConfig \<Rightarrow> Runtime \<Rightarrow> Runtime" where
  "merge_runtime cfg r = (case lcRuntime cfg of None \<Rightarrow> r | Some n \<Rightarrow> minRuntime r n)"

definition merge_scheduler :: "LabelConfig \<Rightarrow> Scheduler \<Rightarrow> Scheduler" where
  "merge_scheduler cfg s = (case lcScheduler cfg of None \<Rightarrow> s | Some n \<Rightarrow> minScheduler s n)"

definition policiesForLabels :: "Set \<Rightarrow> (string, LabelConfig) gomap option \<Rightarrow> string list \<Rightarrow> Set" where
  "policiesForLabels base configs labels =
     WithIntersection base (toolPoliciesForLabels configs labels)
       (fold merge_runtime (labelConfigsFor configs labels) (Set_Runtime base))"

text \<open>
  \<^verbatim>\<open>settingsForAgent\<close> after it has looked up the labels, and \<^verbatim>\<open>settingsForHTTPAgent\<close>.
\<close>

definition settingsForLabels ::
  "Set \<Rightarrow> Scheduler \<Rightarrow> (string, LabelConfig) gomap option \<Rightarrow> string list
     \<Rightarrow> Scheduler \<times> Runtime \<times> (string, CfgPolicy) gomap" where
  "settingsForLabels base scheduler configs labels =
     (let cfgs = labelConfigsFor configs labels
      in (fold merge_scheduler cfgs scheduler, fold merge_runtime cfgs (Set_Runtime base),
          toolPoliciesForLabels configs labels))"


section \<open>What a label can do\<close>

definition cfg_meet :: "CfgPolicy option \<Rightarrow> CfgPolicy option \<Rightarrow> CfgPolicy option" where
  "cfg_meet l r =
     (case r of
        None \<Rightarrow> l
      | Some rp \<Rightarrow>
          if \<not> cpEnabled rp then Some rp
          else (case l of
                  None \<Rightarrow> Some rp
                | Some lp \<Rightarrow>
                    if \<not> cpEnabled lp then Some lp
                    else Some (if cpAllowedArgs rp \<noteq> None
                               then lp\<lparr>cpAllowedArgs := IntersectAllowedArgs (cpAllowedArgs lp) (cpAllowedArgs rp)\<rparr>
                               else lp)))"

lemma mget_intersect_cfg:
  "mget (intersect_cfg (n, rp) out) t = (if t = n then cfg_meet (mget out n) (Some rp) else mget out t)"
  by (auto simp: intersect_cfg_def cfg_meet_def split: option.splits)

lemma mget_intersectConfigPolicies:
  "mwf right \<Longrightarrow> mget (intersectConfigPolicies left right) t = cfg_meet (mget left t) (mget right t)"
  unfolding intersectConfigPolicies_def
proof (induction right arbitrary: left)
  case (Cons e right)
  obtain n rp where e: "e = (n, rp)" by (cases e)
  from Cons.prems e have "mget right n = None" "mwf right" by (auto simp: mwf_def map_of_eq_None_iff)
  with Cons.IH [of "intersect_cfg e left"] e show ?case
    by (auto simp: mget_intersect_cfg cfg_meet_def)
qed (simp add: cfg_meet_def)

lemma mwf_intersect_cfg: "mwf out \<Longrightarrow> mwf (intersect_cfg e out)"
  by (auto simp: intersect_cfg_def split: prod.splits option.splits)

lemma mwf_intersectConfigPolicies: "mwf left \<Longrightarrow> mwf (intersectConfigPolicies left right)"
  unfolding intersectConfigPolicies_def
  by (induction right arbitrary: left) (simp_all add: mwf_intersect_cfg)

definition opt_listed :: "CfgPolicy option \<Rightarrow> bool" where
  "opt_listed c \<longleftrightarrow> (\<forall>p l. c = Some p \<longrightarrow> cpAllowedArgs p = Some l \<longrightarrow> rules_listed l)"

lemma cfg_listed_iff: "cfg_listed m \<longleftrightarrow> mwf m \<and> (\<forall>t. opt_listed (mget m t))"
  by (fastforce simp: cfg_listed_def opt_listed_def list_all_iff mget_iff split: option.splits)

lemma cfg_meet_listed: "opt_listed l \<Longrightarrow> opt_listed r \<Longrightarrow> opt_listed (cfg_meet l r)"
proof -
  assume l: "opt_listed l" and r: "opt_listed r"
  show "opt_listed (cfg_meet l r)"
    unfolding opt_listed_def
  proof (intro allI impI)
    fix p args
    assume p: "cfg_meet l r = Some p" and a: "cpAllowedArgs p = Some args"
    show "rules_listed args"
    proof (cases "\<exists>lp rp b c. l = Some lp \<and> r = Some rp \<and> cpEnabled lp \<and> cpEnabled rp
        \<and> cpAllowedArgs lp = Some b \<and> cpAllowedArgs rp = Some c")
      case True
      then obtain lp rp b c where h: "l = Some lp" "r = Some rp" "cpEnabled lp" "cpEnabled rp"
        "cpAllowedArgs lp = Some b" "cpAllowedArgs rp = Some c" by blast
      with l r have "rules_listed b" "rules_listed c" by (auto simp: opt_listed_def)
      then obtain m where "IntersectAllowedArgs (Some b) (Some c) = Some m" "rules_listed m"
        using IntersectAllowedArgs_listed by blast
      with p a h show ?thesis by (auto simp: cfg_meet_def)
    next
      case False
      with p a l r show ?thesis
        by (auto simp: cfg_meet_def opt_listed_def IntersectAllowedArgs_def split: option.splits if_splits)
    qed
  qed
qed

lemma cfg_listed_intersect:
  "cfg_listed l \<Longrightarrow> cfg_listed r \<Longrightarrow> cfg_listed (intersectConfigPolicies l r)"
  by (simp add: cfg_listed_iff mget_intersectConfigPolicies mwf_intersectConfigPolicies cfg_meet_listed)

definition opt_permits :: "CfgPolicy option \<Rightarrow> strmap \<Rightarrow> bool" where
  "opt_permits c args \<longleftrightarrow>
     (case c of None \<Rightarrow> True
      | Some c \<Rightarrow> cpEnabled c \<and>
          (case cpAllowedArgs c of None \<Rightarrow> True
           | Some l \<Rightarrow> list_all (\<lambda>(k, v). isServerOwnedArg k \<or> args_accept (Some l) k v) args))"

lemma cfg_permits_opt: "cfg_permits cfg req \<longleftrightarrow> opt_permits (mget cfg (rqTool req)) (rqArgs req)"
  by (simp add: cfg_permits_def opt_permits_def)

lemma opt_permits_meet:
  assumes l: "opt_listed l" and r: "opt_listed r"
  shows "opt_permits (cfg_meet l r) args \<longleftrightarrow> opt_permits l args \<and> opt_permits r args"
proof (cases "\<exists>lp rp b c. l = Some lp \<and> r = Some rp \<and> cpEnabled lp \<and> cpEnabled rp
        \<and> cpAllowedArgs lp = Some b \<and> cpAllowedArgs rp = Some c")
  case True
  then obtain lp rp b c where h: "l = Some lp" "r = Some rp" "cpEnabled lp" "cpEnabled rp"
    "cpAllowedArgs lp = Some b" "cpAllowedArgs rp = Some c" by blast
  with l r have lst: "rules_listed b" "rules_listed c" by (auto simp: opt_listed_def)
  obtain m where m: "IntersectAllowedArgs (Some b) (Some c) = Some m"
    using IntersectAllowedArgs_listed [OF lst] by blast
  have "args_accept (Some m) k v \<longleftrightarrow> args_accept (Some b) k v \<and> args_accept (Some c) k v" for k v
    using args_accept_intersect [OF lst, of k v] m by simp
  with h m show ?thesis by (auto simp: cfg_meet_def opt_permits_def list_all_iff)
next
  case False
  then show ?thesis
    by (auto simp: cfg_meet_def opt_permits_def IntersectAllowedArgs_def split: option.splits)
qed

lemma cfg_permits_intersect:
  assumes "cfg_listed l" "cfg_listed r"
  shows "cfg_permits (intersectConfigPolicies l r) req \<longleftrightarrow> cfg_permits l req \<and> cfg_permits r req"
  using assms by (simp add: cfg_permits_opt cfg_listed_iff mget_intersectConfigPolicies opt_permits_meet)

definition labels_listed :: "(string, LabelConfig) gomap option \<Rightarrow> bool" where
  "labels_listed configs \<longleftrightarrow>
     (case configs of None \<Rightarrow> True | Some m \<Rightarrow> list_all (\<lambda>(l, c). cfg_listed (tool_policies c)) m)"

lemma labelConfigsFor_listed:
  "labels_listed configs \<Longrightarrow> c \<in> set (labelConfigsFor configs labels) \<Longrightarrow> cfg_listed (tool_policies c)"
  by (fastforce simp: labelConfigsFor_def map_filter_def labels_listed_def list_all_iff
      split: option.splits dest: map_of_SomeD)

lemma cfg_listed_Nil: "cfg_listed []"
  by (simp add: cfg_listed_def)

lemma cfg_permits_Nil [simp]: "cfg_permits [] req"
  by (simp add: cfg_permits_def)

lemma merge_policies_permits:
  assumes "\<And>c. c \<in> set cs \<Longrightarrow> cfg_listed (tool_policies c)"
    and "case merged of None \<Rightarrow> True | Some m \<Rightarrow> cfg_listed m"
  shows "(case fold merge_policies cs merged of None \<Rightarrow> True | Some m \<Rightarrow> cfg_listed m)
    \<and> (cfg_permits (case fold merge_policies cs merged of None \<Rightarrow> [] | Some m \<Rightarrow> m) req \<longleftrightarrow>
       cfg_permits (case merged of None \<Rightarrow> [] | Some m \<Rightarrow> m) req \<and>
       (\<forall>c\<in>set cs. cfg_permits (tool_policies c) req))"
  using assms
proof (induction cs arbitrary: merged)
  case (Cons c cs)
  have c: "cfg_listed (tool_policies c)" using Cons.prems(1) by simp
  let ?m = "merge_policies c merged"
  have "(case ?m of None \<Rightarrow> True | Some m \<Rightarrow> cfg_listed m)"
    using c Cons.prems(2) by (auto simp: merge_policies_def cfg_listed_intersect split: option.splits)
  moreover have "cfg_permits (case ?m of None \<Rightarrow> [] | Some m \<Rightarrow> m) req \<longleftrightarrow>
       cfg_permits (case merged of None \<Rightarrow> [] | Some m \<Rightarrow> m) req \<and> cfg_permits (tool_policies c) req"
    using c Cons.prems(2) by (auto simp: merge_policies_def cfg_permits_intersect split: option.splits)
  ultimately show ?case using Cons.IH [of ?m] Cons.prems(1) by simp
qed simp

lemma toolPoliciesForLabels_listed: "labels_listed configs \<Longrightarrow> cfg_listed (toolPoliciesForLabels configs labels)"
proof -
  assume "labels_listed configs"
  then have "case fold merge_policies (labelConfigsFor configs labels) None of None \<Rightarrow> True | Some m \<Rightarrow> cfg_listed m"
    using merge_policies_permits [of "labelConfigsFor configs labels" None] labelConfigsFor_listed by simp
  then show ?thesis
    by (auto simp: toolPoliciesForLabels_def cfg_listed_Nil split: option.splits)
qed

lemma toolPoliciesForLabels_permits:
  "labels_listed configs \<Longrightarrow>
   cfg_permits (toolPoliciesForLabels configs labels) req \<longleftrightarrow>
     (\<forall>c\<in>set (labelConfigsFor configs labels). cfg_permits (tool_policies c) req)"
  using merge_policies_permits [of "labelConfigsFor configs labels" None req] labelConfigsFor_listed
  by (simp add: toolPoliciesForLabels_def)



section \<open>Limits are minima\<close>

lemma minPositive_pos: "0 < a \<Longrightarrow> 0 < b \<Longrightarrow> minPositive a b = min a b"
  by (simp add: minPositive_def min_def)

text \<open>The limit of a field over all labels: the smallest of the positive values.\<close>

lemma fold_scheduler_inflight:
  assumes "0 < scMaxInflightPerAgent s"
    and "\<And>c sc. c \<in> set cs \<Longrightarrow> lcScheduler c = Some sc \<Longrightarrow> 0 < scMaxInflightPerAgent sc"
  shows "0 < scMaxInflightPerAgent (fold merge_scheduler cs s)
    \<and> scMaxInflightPerAgent (fold merge_scheduler cs s) \<le> scMaxInflightPerAgent s
    \<and> (\<forall>c sc. c \<in> set cs \<longrightarrow> lcScheduler c = Some sc \<longrightarrow>
         scMaxInflightPerAgent (fold merge_scheduler cs s) \<le> scMaxInflightPerAgent sc)"
  using assms
proof (induction cs arbitrary: s)
  case (Cons c cs)
  let ?s = "merge_scheduler c s"
  have s: "0 < scMaxInflightPerAgent ?s" "scMaxInflightPerAgent ?s \<le> scMaxInflightPerAgent s"
    "\<And>sc. lcScheduler c = Some sc \<Longrightarrow> scMaxInflightPerAgent ?s \<le> scMaxInflightPerAgent sc"
    using Cons.prems(1) Cons.prems(2) [of c]
    by (auto simp: merge_scheduler_def minScheduler_def DefaultScheduler_def or_default_def Let_def
        minPositive_pos split: option.splits)
  from Cons.IH [OF s(1)] Cons.prems(2) s show ?case by fastforce
qed simp


end
