(* ===== verification/Wire.thy ===== *)
theory Wire
  imports Model
begin

text \<open>
  What agents report, as the hub reads it (the decoding half of
  \<^verbatim>\<open>internal/scheduler/hub.go\<close>): an event is a decoded JSON object; a summary becomes a parsed
  tool result, every other event a stream event. The program converts objects to structs by
  marshalling them and unmarshalling the text (\<^verbatim>\<open>encoding/json\<close>): keys are taken in
  sorted order and match a field by name, without regard to case when no name is equal; a value
  of the wrong type is an error; \<^verbatim>\<open>null\<close> leaves a field as it is; unknown keys are skipped.
\<close>


section \<open>Unmarshalling\<close>

text \<open>A decoder takes the value a field has and gives the new one.\<close>

type_synonym 'a dec = "json \<Rightarrow> 'a \<Rightarrow> 'a option"

definition dec_str :: "string dec" where
  "dec_str v x = (case v of JStr s \<Rightarrow> Some s | JNull \<Rightarrow> Some x | _ \<Rightarrow> None)"

definition dec_bool :: "bool dec" where
  "dec_bool v x = (case v of JBool b \<Rightarrow> Some b | JNull \<Rightarrow> Some x | _ \<Rightarrow> None)"

definition dec_float :: "float64 dec" where
  "dec_float v x = (case v of JNum q \<Rightarrow> Some q | JNull \<Rightarrow> Some x | _ \<Rightarrow> None)"

definition dec_int :: "int dec" where
  "dec_int v x =
     (case v of
        JNum q \<Rightarrow> if snd (quotient_of q) = 1 \<and> int64 (fst (quotient_of q)) then Some (fst (quotient_of q)) else None
      | JNull \<Rightarrow> Some x
      | _ \<Rightarrow> None)"

definition dec_ptr :: "'a dec \<Rightarrow> 'a \<Rightarrow> ('a option) dec" where
  "dec_ptr d zero v x =
     (if v = JNull then Some None
      else map_option Some (d v (case x of None \<Rightarrow> zero | Some y \<Rightarrow> y)))"

definition dec_list :: "'a dec \<Rightarrow> 'a \<Rightarrow> ('a list) dec" where
  "dec_list d zero v x =
     (case v of
        JArr vs \<Rightarrow> those (map (\<lambda>v. d v zero) vs)
      | JNull \<Rightarrow> Some []
      | _ \<Rightarrow> None)"

definition dec_metric :: "metric dec" where
  "dec_metric v x =
     (case v of
        JObj es \<Rightarrow> Some (fold (\<lambda>(k, v). mput k v) es x)
      | JNull \<Rightarrow> Some []
      | _ \<Rightarrow> None)"

function fold_name :: "string \<Rightarrow> string" where
  "fold_name s =
     (if HasPrefix s [CHR 0xC5, CHR 0xBF] then CHR ''s'' # fold_name (drop 2 s)
      else if HasPrefix s [CHR 0xE2, CHR 0x84, CHR 0xAA] then CHR ''k'' # fold_name (drop 3 s)
      else (case s of [] \<Rightarrow> [] | c # t \<Rightarrow> lower_char c # fold_name t))"
  by pat_completeness auto
termination
  by (relation "measure length") (auto simp: HasPrefix_iff)

declare fold_name.simps [simp del]

definition find_field :: "string list \<Rightarrow> string \<Rightarrow> string option" where
  "find_field names key =
     (if key \<in> set names then Some key else find (\<lambda>n. n = fold_name key) names)"

definition dec_obj :: "string list \<Rightarrow> (string \<Rightarrow> 'a dec) \<Rightarrow> 'a dec" where
  "dec_obj names field v x =
     (case v of
        JNull \<Rightarrow> Some x
      | JObj es \<Rightarrow>
          fold (\<lambda>(key, v) acc. case acc of
                  None \<Rightarrow> None
                | Some y \<Rightarrow> (case find_field names key of None \<Rightarrow> Some y | Some f \<Rightarrow> field f v y))
            (sort_key fst es) (Some x)
      | _ \<Rightarrow> None)"


section \<open>The structs\<close>

definition zero_ProbeResult :: ProbeResult where
  "zero_ProbeResult = \<lparr>prHost = [], prIP = [], prRTTMS = None, prTimeout = False\<rparr>"

definition probe_field :: "string \<Rightarrow> ProbeResult dec" where
  "probe_field f v p =
     (if f = ''host'' then map_option (\<lambda>s. p\<lparr>prHost := s\<rparr>) (dec_str v (prHost p))
      else if f = ''ip'' then map_option (\<lambda>s. p\<lparr>prIP := s\<rparr>) (dec_str v (prIP p))
      else if f = ''rtt_ms'' then map_option (\<lambda>q. p\<lparr>prRTTMS := q\<rparr>) (dec_ptr dec_float 0 v (prRTTMS p))
      else map_option (\<lambda>b. p\<lparr>prTimeout := b\<rparr>) (dec_bool v (prTimeout p)))"

definition dec_ProbeResult :: "ProbeResult dec" where
  "dec_ProbeResult =
     dec_obj [''host'', ''ip'', ''rtt_ms'', ''timeout''] probe_field"

definition zero_HopResult :: HopResult where
  "zero_HopResult =
     \<lparr>hIndex = 0, hHost = [], hIP = [], hRTTMS = None, hTimeout = False, hProbes = [],
      hLossPct = None, hSent = None, hAvgMS = None, hBestMS = None, hWorstMS = None,
      hLastMS = None, hStdevMS = None, hTimesMS = []\<rparr>"

definition hop_field :: "string \<Rightarrow> HopResult dec" where
  "hop_field f v h =
     (if f = ''index'' then map_option (\<lambda>i. h\<lparr>hIndex := i\<rparr>) (dec_int v (hIndex h))
      else if f = ''host'' then map_option (\<lambda>s. h\<lparr>hHost := s\<rparr>) (dec_str v (hHost h))
      else if f = ''ip'' then map_option (\<lambda>s. h\<lparr>hIP := s\<rparr>) (dec_str v (hIP h))
      else if f = ''rtt_ms'' then map_option (\<lambda>q. h\<lparr>hRTTMS := q\<rparr>) (dec_ptr dec_float 0 v (hRTTMS h))
      else if f = ''timeout'' then map_option (\<lambda>b. h\<lparr>hTimeout := b\<rparr>) (dec_bool v (hTimeout h))
      else if f = ''probes'' then map_option (\<lambda>ps. h\<lparr>hProbes := ps\<rparr>) (dec_list dec_ProbeResult zero_ProbeResult v (hProbes h))
      else if f = ''loss_pct'' then map_option (\<lambda>q. h\<lparr>hLossPct := q\<rparr>) (dec_ptr dec_float 0 v (hLossPct h))
      else if f = ''sent'' then map_option (\<lambda>i. h\<lparr>hSent := i\<rparr>) (dec_ptr dec_int 0 v (hSent h))
      else if f = ''avg_ms'' then map_option (\<lambda>q. h\<lparr>hAvgMS := q\<rparr>) (dec_ptr dec_float 0 v (hAvgMS h))
      else if f = ''best_ms'' then map_option (\<lambda>q. h\<lparr>hBestMS := q\<rparr>) (dec_ptr dec_float 0 v (hBestMS h))
      else if f = ''worst_ms'' then map_option (\<lambda>q. h\<lparr>hWorstMS := q\<rparr>) (dec_ptr dec_float 0 v (hWorstMS h))
      else if f = ''last_ms'' then map_option (\<lambda>q. h\<lparr>hLastMS := q\<rparr>) (dec_ptr dec_float 0 v (hLastMS h))
      else if f = ''stdev_ms'' then map_option (\<lambda>q. h\<lparr>hStdevMS := q\<rparr>) (dec_ptr dec_float 0 v (hStdevMS h))
      else map_option (\<lambda>qs. h\<lparr>hTimesMS := qs\<rparr>) (dec_list dec_float 0 v (hTimesMS h)))"

definition dec_HopResult :: "HopResult dec" where
  "dec_HopResult =
     dec_obj [''index'', ''host'', ''ip'', ''rtt_ms'', ''timeout'', ''probes'', ''loss_pct'', ''sent'',
              ''avg_ms'', ''best_ms'', ''worst_ms'', ''last_ms'', ''stdev_ms'', ''times_ms''] hop_field"

definition record_field :: "string \<Rightarrow> DNSRecord dec" where
  "record_field f v r =
     (if f = ''type'' then map_option (\<lambda>s. DNSRecord s (rValue r)) (dec_str v (rType r))
      else map_option (\<lambda>s. DNSRecord (rType r) s) (dec_str v (rValue r)))"

definition dec_DNSRecord :: "DNSRecord dec" where
  "dec_DNSRecord =
     dec_obj [''type'', ''value''] record_field"

definition zero_StreamEvent :: StreamEvent where
  "zero_StreamEvent = \<lparr>seType = [], seMessage = [], seHop = None, seMetric = []\<rparr>"

definition event_field :: "string \<Rightarrow> StreamEvent dec" where
  "event_field f v e =
     (if f = ''type'' then map_option (\<lambda>s. e\<lparr>seType := s\<rparr>) (dec_str v (seType e))
      else if f = ''message'' then map_option (\<lambda>s. e\<lparr>seMessage := s\<rparr>) (dec_str v (seMessage e))
      else if f = ''hop'' then map_option (\<lambda>h. e\<lparr>seHop := h\<rparr>) (dec_ptr dec_HopResult zero_HopResult v (seHop e))
      else map_option (\<lambda>m. e\<lparr>seMetric := m\<rparr>) (dec_metric v (seMetric e)))"

definition dec_StreamEvent :: "StreamEvent dec" where
  "dec_StreamEvent =
     dec_obj [''type'', ''message'', ''hop'', ''metric''] event_field"


section \<open>Events\<close>

type_synonym wire_payload = "(string, json) gomap"

record ResultEvent =
  reJobID :: string
  reAgentID :: string
  reEvent :: wire_payload

definition eventType :: "wire_payload \<Rightarrow> string" where
  "eventType payload =
     (case mget payload ''type'' of
        Some (JStr typ) \<Rightarrow> if typ \<noteq> [] then typ else ''message''
      | _ \<Rightarrow> ''message'')"

definition typOrDefault :: "string \<Rightarrow> string \<Rightarrow> string" where
  "typOrDefault typ fallback = (if typ = [] \<or> typ = ''message'' then fallback else typ)"

text \<open>
  A decoded JSON number is a \<^verbatim>\<open>float64\<close>: \<^verbatim>\<open>int(n)\<close> truncates; outside the range of \<^verbatim>\<open>int\<close> the
  result is the one of amd64.
\<close>

definition float_to_int :: "float64 \<Rightarrow> int" where
  "float_to_int q =
     (let (a, b) = quotient_of q; i = quot a b in if int64 i then i else - (2 ^ 63))"

definition intFromPayload :: "json option \<Rightarrow> int option" where
  "intFromPayload v = (case v of Some (JNum q) \<Rightarrow> Some (float_to_int q) | _ \<Rightarrow> None)"

definition metricMapFromPayload :: "json \<Rightarrow> metric option" where
  "metricMapFromPayload v = (case v of JObj m \<Rightarrow> Some m | _ \<Rightarrow> None)"

definition recordsFromPayload :: "json option \<Rightarrow> (DNSRecord list) option" where
  "recordsFromPayload v =
     (case v of
        None \<Rightarrow> None
      | Some j \<Rightarrow>
          if j = JNull then None
          else (case dec_list dec_DNSRecord (DNSRecord [] []) j [] of
                  None \<Rightarrow> None
                | Some rs \<Rightarrow> if 0 < length rs then Some rs else None))"

definition hopsFromPayload :: "json option \<Rightarrow> (HopResult list) option" where
  "hopsFromPayload v =
     (case v of
        None \<Rightarrow> None
      | Some j \<Rightarrow>
          if j = JNull then None
          else (case dec_list dec_HopResult zero_HopResult j [] of
                  None \<Rightarrow> None
                | Some hs \<Rightarrow> if 0 < length hs then Some hs else None))"

text \<open>The fields of a \<^verbatim>\<open>model.JobEvent\<close> that the decoding fills in.\<close>

record WireEvent =
  weEvent :: "StreamEvent option"
  weExitCode :: "int option"
  weParsed :: "ToolResult option"

definition summaryEventFromWire :: "Job \<Rightarrow> wire_payload \<Rightarrow> WireEvent res" where
  "summaryEventFromWire job payload =
     (case intFromPayload (mget payload ''exit_code'') of
        None \<Rightarrow> Inl (Errorf ''summary event missing numeric exit_code'' [])
      | Some exitCode \<Rightarrow>
          (case (case mget payload ''metric'' of None \<Rightarrow> Some [] | Some raw \<Rightarrow> metricMapFromPayload raw) of
             None \<Rightarrow> Inl (Errorf ''summary metric must be an object'' [])
           | Some summary \<Rightarrow>
               (let parsed = \<lparr>trType = typOrDefault (eventType payload) ''summary'', trTool = jTool job,
                              trTarget = jTarget job, trIPVersion = jIPVersion job, trExitCode = exitCode,
                              trSummary = summary,
                              trHops = (case hopsFromPayload (mget payload ''hops'') of Some hs \<Rightarrow> hs | None \<Rightarrow> []),
                              trRecords = (case recordsFromPayload (mget payload ''records'') of Some rs \<Rightarrow> rs | None \<Rightarrow> [])\<rparr>
                in Inr \<lparr>weEvent = None, weExitCode = Some exitCode, weParsed = Some parsed\<rparr>)))"

definition jobEventFromWire :: "Job \<Rightarrow> string \<Rightarrow> wire_payload \<Rightarrow> WireEvent res" where
  "jobEventFromWire job typ payload =
     (if typ = ''summary'' then summaryEventFromWire job payload
      else (case dec_StreamEvent (JObj payload) zero_StreamEvent of
              None \<Rightarrow> Inl (Errorf ''json: cannot unmarshal'' [])
            | Some event \<Rightarrow>
                Inr \<lparr>weEvent = Some (if seType event = [] then event\<lparr>seType := typ\<rparr> else event),
                     weExitCode = None, weParsed = None\<rparr>))"

definition parsedFailureType :: "ToolResult option \<Rightarrow> string" where
  "parsedFailureType parsed =
     (case parsed of
        None \<Rightarrow> []
      | Some r \<Rightarrow>
          (case mget (trSummary r) ''status'' of
             Some (JStr value) \<Rightarrow>
               if value = JobErrorTargetBlocked \<or> value = JobErrorUnsupportedProtocol \<or> value = JobErrorUnsupportedTool
               then value else []
           | _ \<Rightarrow> []))"


section \<open>Facts\<close>

text \<open>Only a summary completes a job, and a summary always carries an exit code.\<close>

lemma jobEvent_exit:
  "jobEventFromWire job typ payload = Inr w \<Longrightarrow> weExitCode w \<noteq> None \<longleftrightarrow> typ = ''summary''"
  by (auto simp: jobEventFromWire_def summaryEventFromWire_def Let_def split: if_splits option.splits)

lemma jobEvent_parsed:
  "jobEventFromWire job typ payload = Inr w \<Longrightarrow> weParsed w = Some r \<Longrightarrow>
   trTool r = jTool job \<and> trTarget r = jTarget job \<and> weExitCode w = Some (trExitCode r)"
  by (auto simp: jobEventFromWire_def summaryEventFromWire_def Let_def split: if_splits option.splits)

end
