(* ===== verification/Schedule.thy ===== *)
theory Schedule
  imports Model
begin

text \<open>
  The clock of the schedules (\<^verbatim>\<open>internal/scheduler/hub.go\<close>, from \<^verbatim>\<open>dueScheduleTargets\<close> on):
  which targets of a schedule are due, when a target runs next, and the aggregate fields of the
  schedule by which the store finds it.
\<close>

definition dueScheduleTargets :: "ScheduledJob \<Rightarrow> time \<Rightarrow> ScheduleTarget list" where
  "dueScheduleTargets sched now =
     filter (\<lambda>target. IsZero (stNextRunAt target) \<or> \<not> now < stNextRunAt target) (EffectiveScheduleTargets sched)"

definition nextScheduleTargetRun :: "ScheduleTarget \<Rightarrow> time \<Rightarrow> time" where
  "nextScheduleTargetRun target now =
     (let interval0 = seconds (stIntervalSeconds target);
          interval = (if interval0 \<le> 0 then 10 * Second else interval0);
          candidate = stNextRunAt target + interval
      in if now < candidate then candidate else now + interval)"

text \<open>The loop of \<^verbatim>\<open>syncScheduleAggregateRunFields\<close>.\<close>

definition later_run :: "time option \<Rightarrow> time option \<Rightarrow> time option" where
  "later_run lastRunAt t =
     (case t of
        None \<Rightarrow> lastRunAt
      | Some x \<Rightarrow> (case lastRunAt of None \<Rightarrow> Some x | Some y \<Rightarrow> if y < x then Some x else Some y))"

definition syncScheduleAggregateRunFields :: "ScheduledJob \<Rightarrow> ScheduledJob" where
  "syncScheduleAggregateRunFields sched =
     (case sScheduleTargets sched of
        [] \<Rightarrow> sched
      | t # ts \<Rightarrow>
          sched\<lparr>sNextRunAt := foldl (\<lambda>n x. if stNextRunAt x < n then stNextRunAt x else n) (stNextRunAt t) (t # ts),
                sLastRunAt := foldl (\<lambda>l x. later_run l (stLastRunAt x)) None (t # ts)\<rparr>)"

definition advanceScheduleTargets :: "ScheduledJob \<Rightarrow> ScheduleTarget list \<Rightarrow> time \<Rightarrow> ScheduledJob" where
  "advanceScheduleTargets sched dueTargets now =
     (let targets = map (\<lambda>t. if stID t \<in> set (map stID dueTargets)
                             then t\<lparr>stLastRunAt := Some now, stNextRunAt := nextScheduleTargetRun t now\<rparr>
                             else t) (sScheduleTargets sched)
      in (syncScheduleAggregateRunFields (sched\<lparr>sScheduleTargets := targets\<rparr>))\<lparr>sUpdatedAt := now\<rparr>)"

definition scheduledTargetAllowsAgent :: "ScheduleTarget \<Rightarrow> string \<Rightarrow> bool" where
  "scheduledTargetAllowsAgent target agentID =
     (if stAllowedAgentIDs target = [] then True
      else list_ex (\<lambda>allowed. allowed = agentID) (stAllowedAgentIDs target))"

definition scheduledTargetMatchesAgent :: "ScheduleTarget \<Rightarrow> Agent \<Rightarrow> bool" where
  "scheduledTargetMatchesAgent target agent =
     list_ex (\<lambda>lbl. TrimSpace lbl = TrimSpace (stLabel target)) (aLabels agent)"


section \<open>The next run\<close>

lemma nextRun_later: "now < nextScheduleTargetRun t now"
  by (auto simp: nextScheduleTargetRun_def Let_def)

text \<open>A target that is late by less than its interval keeps its phase.\<close>

lemma nextRun_phase:
  assumes "0 < stIntervalSeconds t" "stIntervalSeconds t \<le> 9223372036"
    "now < stNextRunAt t + stIntervalSeconds t * Second"
  shows "nextScheduleTargetRun t now = stNextRunAt t + stIntervalSeconds t * Second"
  using assms by (simp add: nextScheduleTargetRun_def seconds_exact)

lemma foldl_min:
  "foldl (\<lambda>n x. if f x < n then f x else n) a xs = Min (insert a (f ` set xs))"
  for f :: "'a \<Rightarrow> int"
proof (induction xs arbitrary: a)
  case (Cons x xs)
  have "(if f x < a then f x else a) = min a (f x)" by (simp add: min_def)
  then show ?case using Cons.IH [of "min a (f x)"]
    by (cases "xs = []") (simp_all add: Min_insert2 min.assoc insert_commute)
qed simp

lemma sync_next:
  assumes "sScheduleTargets s \<noteq> []"
  shows "sNextRunAt (syncScheduleAggregateRunFields s) = Min (stNextRunAt ` set (sScheduleTargets s))"
  using assms by (cases "sScheduleTargets s") (simp_all add: syncScheduleAggregateRunFields_def foldl_min)

lemma sync_targets [simp]: "sScheduleTargets (syncScheduleAggregateRunFields s) = sScheduleTargets s"
  by (cases "sScheduleTargets s") (simp_all add: syncScheduleAggregateRunFields_def)

lemma sync_enabled [simp]:
  "sEnabled (syncScheduleAggregateRunFields s) = sEnabled s" "sID (syncScheduleAggregateRunFields s) = sID s"
  by (cases "sScheduleTargets s"; simp add: syncScheduleAggregateRunFields_def)+

lemma advance_targets:
  "sScheduleTargets (advanceScheduleTargets s due now) =
     map (\<lambda>t. if stID t \<in> set (map stID due)
              then t\<lparr>stLastRunAt := Some now, stNextRunAt := nextScheduleTargetRun t now\<rparr> else t) (sScheduleTargets s)"
  by (simp add: advanceScheduleTargets_def Let_def)

lemma advance_ID [simp]: "sID (advanceScheduleTargets s due now) = sID s"
  by (simp add: advanceScheduleTargets_def Let_def)

lemma advance_next:
  "sScheduleTargets s \<noteq> [] \<Longrightarrow>
   sNextRunAt (advanceScheduleTargets s due now) =
     Min (stNextRunAt ` set (sScheduleTargets (advanceScheduleTargets s due now)))"
  by (simp add: advanceScheduleTargets_def Let_def sync_next)

lemma advance_all_later:
  assumes "t \<in> set (sScheduleTargets (advanceScheduleTargets s (dueScheduleTargets s now) now))"
  shows "now < stNextRunAt t"
proof -
  let ?due = "dueScheduleTargets s now"
  from assms obtain u where u: "u \<in> set (sScheduleTargets s)"
    "t = (if stID u \<in> set (map stID ?due)
          then u\<lparr>stLastRunAt := Some now, stNextRunAt := nextScheduleTargetRun u now\<rparr> else u)"
    by (auto simp: advance_targets)
  show ?thesis
  proof (cases "stID u \<in> set (map stID ?due)")
    case True
    with u nextRun_later show ?thesis by simp
  next
    case False
    then have "u \<notin> set ?due" by auto
    with u False show ?thesis by (auto simp: dueScheduleTargets_def EffectiveScheduleTargets_def)
  qed
qed

text \<open>
  (C40) Advancing a schedule makes progress: after the due targets have been advanced, no
  target is due any more at that time, every target runs strictly later, and the next run
  of the schedule is the earliest of its targets and strictly later too. So a schedule
  cannot run twice for one due time, whatever the intervals are.
\<close>

theorem schedule_advances:
  assumes "0 \<le> now" and "sScheduleTargets s \<noteq> []"
  shows "dueScheduleTargets (advanceScheduleTargets s (dueScheduleTargets s now) now) now = []
    \<and> now < sNextRunAt (advanceScheduleTargets s (dueScheduleTargets s now) now)
    \<and> sNextRunAt (advanceScheduleTargets s (dueScheduleTargets s now) now) =
        Min (stNextRunAt ` set (sScheduleTargets (advanceScheduleTargets s (dueScheduleTargets s now) now)))"
proof -
  let ?s = "advanceScheduleTargets s (dueScheduleTargets s now) now"
  have later: "\<And>t. t \<in> set (sScheduleTargets ?s) \<Longrightarrow> now < stNextRunAt t" by (rule advance_all_later)
  have "\<not> (IsZero (stNextRunAt t) \<or> \<not> now < stNextRunAt t)" if "t \<in> set (sScheduleTargets ?s)" for t
    using later [OF that] assms(1) by (simp add: IsZero_def)
  then have "dueScheduleTargets ?s now = []"
    unfolding dueScheduleTargets_def EffectiveScheduleTargets_def by (intro filter_False) blast
  moreover have ne: "sScheduleTargets ?s \<noteq> []" using assms(2) by (simp add: advance_targets)
  moreover have "now < Min (stNextRunAt ` set (sScheduleTargets ?s))"
    using later ne by (subst Min_gr_iff) auto
  ultimately show ?thesis using advance_next [OF assms(2)] by simp
qed

definition example_schedule :: ScheduledJob where
  "example_schedule =
     \<lparr>sID = ''s'', sRevision = 1, sName = [], sEnabled = True, sTool = ToolDNS, sTarget = ''example.org'', sArgs = [],
      sIPVersion = IPAny, sResolveOnAgent = False, sIntervalSeconds = 60, sNextRunAt = 5, sLastRunAt = None,
      sScheduleTargets = [\<lparr>stID = ''t'', stLabel = ''agent'', stAllowedAgentIDs = [], stIntervalSeconds = 60,
                           stNextRunAt = 5, stLastRunAt = None\<rparr>],
      sCreatedAt = 1, sUpdatedAt = 1\<rparr>"

theorem schedule_advances_witness:
  "dueScheduleTargets (advanceScheduleTargets example_schedule (dueScheduleTargets example_schedule 7) 7) 7 = []
    \<and> 7 < sNextRunAt (advanceScheduleTargets example_schedule (dueScheduleTargets example_schedule 7) 7)"
proof -
  have "(0 :: time) \<le> 7" "sScheduleTargets example_schedule \<noteq> []" by (simp_all add: example_schedule_def)
  from schedule_advances [OF this] show ?thesis by blast
qed

text \<open>
  The cadence does not drift: a due target that is late by less than its interval is
  next run exactly one interval after the time it was due, and one that is later than that
  runs one interval from now; targets that are not due keep their times.
\<close>

theorem schedule_cadence:
  assumes "t \<in> set (sScheduleTargets s)" and "distinct (map stID (sScheduleTargets s))"
    and "0 < stIntervalSeconds t" and "stIntervalSeconds t \<le> 9223372036"
  shows "\<exists>u \<in> set (sScheduleTargets (advanceScheduleTargets s (dueScheduleTargets s now) now)).
    stID u = stID t \<and> stIntervalSeconds u = stIntervalSeconds t \<and>
    stNextRunAt u =
      (if IsZero (stNextRunAt t) \<or> stNextRunAt t \<le> now
       then (if now < stNextRunAt t + stIntervalSeconds t * Second
             then stNextRunAt t + stIntervalSeconds t * Second else now + stIntervalSeconds t * Second)
       else stNextRunAt t)"
proof -
  let ?due = "dueScheduleTargets s now"
  have due: "stID t \<in> set (map stID ?due) \<longleftrightarrow> IsZero (stNextRunAt t) \<or> stNextRunAt t \<le> now"
  proof
    assume "stID t \<in> set (map stID ?due)"
    then obtain v where "v \<in> set ?due" "stID v = stID t" by auto
    moreover from this assms(1,2) have "v = t"
      by (auto simp: dueScheduleTargets_def EffectiveScheduleTargets_def distinct_map dest: inj_onD)
    ultimately show "IsZero (stNextRunAt t) \<or> stNextRunAt t \<le> now"
      by (auto simp: dueScheduleTargets_def)
  next
    assume "IsZero (stNextRunAt t) \<or> stNextRunAt t \<le> now"
    with assms(1) show "stID t \<in> set (map stID ?due)"
      by (auto simp: dueScheduleTargets_def EffectiveScheduleTargets_def)
  qed
  let ?u = "if stID t \<in> set (map stID ?due)
    then t\<lparr>stLastRunAt := Some now, stNextRunAt := nextScheduleTargetRun t now\<rparr> else t"
  have "?u \<in> set (sScheduleTargets (advanceScheduleTargets s ?due now))"
    using assms(1) by (force simp: advance_targets)
  moreover have "stNextRunAt ?u =
      (if IsZero (stNextRunAt t) \<or> stNextRunAt t \<le> now
       then (if now < stNextRunAt t + stIntervalSeconds t * Second
             then stNextRunAt t + stIntervalSeconds t * Second else now + stIntervalSeconds t * Second)
       else stNextRunAt t)"
    unfolding due using assms(3,4) by (simp add: nextScheduleTargetRun_def seconds_exact Let_def)
  ultimately show ?thesis by (intro bexI [of _ ?u]) auto
qed

theorem schedule_cadence_witness:
  "\<exists>u \<in> set (sScheduleTargets (advanceScheduleTargets example_schedule (dueScheduleTargets example_schedule 7) 7)).
    stID u = ''t'' \<and> stNextRunAt u = 5 + 60 * Second"
proof -
  define t where "t = \<lparr>stID = ''t'', stLabel = ''agent'', stAllowedAgentIDs = [], stIntervalSeconds = 60,
                       stNextRunAt = 5, stLastRunAt = None\<rparr>"
  have "t \<in> set (sScheduleTargets example_schedule)" "distinct (map stID (sScheduleTargets example_schedule))"
    "0 < stIntervalSeconds t" "stIntervalSeconds t \<le> 9223372036" by (simp_all add: t_def example_schedule_def)
  from schedule_cadence [OF this, of 7] show ?thesis by (auto simp: t_def)
qed

end
