(* ===== verification/Hub.thy ===== *)
theory Hub
  imports Store Labels Wire Schedule
begin

text \<open>
  The hub (\<^verbatim>\<open>internal/scheduler/hub.go\<close> and the event functions of \<^verbatim>\<open>http_agent.go\<close>): agents
  connect to it, it dispatches queued jobs to them, takes their results, completes fan-out
  parents, ends jobs that run too long and starts scheduled jobs. The state \<open>Sys\<close> is the store,
  the fields of the hub, what the outside has seen (messages sent to agents and invocations that
  were cancelled), and the loops that serve HTTP agents. A handler is a function on \<open>Sys\<close>; it runs as one step, with one
  reading \<open>now\<close> of the clock. Log output is left out. The parameters in \<open>henv\<close> are
  \<^verbatim>\<open>uuid.NewString\<close> (\<open>heUUID n\<close> is the \<open>n\<close>-th string it returns), SHA-256, the URL parser and
  the resolver, and whether the files of a TLS configuration can be loaded; whether a message could be sent on a stream is the parameter \<open>send\<close>.
\<close>


section \<open>State\<close>

record agentMeta =
  amCapabilities :: "Tool list"
  amProtocols :: ProtocolMask
  amLastSeen :: time

record JobSpec =
  jsID :: string
  jsTool :: Tool
  jsTarget :: string
  jsResolvedTarget :: string
  jsArgs :: strmap
  jsIPVersion :: IPVersion
  jsResolveOnAgent :: bool
  jsTimeoutSeconds :: int
  jsProbeTimeoutSeconds :: int
  jsResolveTimeoutSeconds :: int

datatype ServerMessage = MsgJob JobSpec | MsgCancel string

record AgentHello =
  ahID :: string
  ahCountry :: string
  ahRegion :: string
  ahProvider :: string
  ahISP :: string
  ahVersion :: string
  ahToken :: string
  ahCapabilities :: "Tool list"
  ahProtocols :: ProtocolMask

record AgentMessage =
  mgType :: string
  mgAgent :: "AgentHello option"
  mgResult :: "ResultEvent option"

text \<open>The bounded channel of cancellations of a connected agent.\<close>

record cancel_chan =
  ccCap :: int
  ccQueue :: "string list"

text \<open>
  An agent that is called over HTTP (\<^verbatim>\<open>HTTPAgent\<close> of \<^verbatim>\<open>http_agent.go\<close>); its client is made from
  the TLS settings, which stand for it.
\<close>

record hubHTTPAgent =
  hgID :: string
  hgCountry :: string
  hgRegion :: string
  hgProvider :: string
  hgISP :: string
  hgLabels :: "string list"
  hgBaseURL :: string
  hgToken :: string
  hgClient :: TLS
  hgVersion :: string
  hgCapabilities :: "Tool list"
  hgProtocols :: ProtocolMask

text \<open>
  The local state of one \<^verbatim>\<open>httpAgentLoop\<close>: its own copy of the agent, whether its context is
  cancelled, and whether its buffered recovery channel holds an error.
\<close>

record httpLoop =
  hlAgent :: hubHTTPAgent
  hlStarted :: bool
  hlRecovering :: bool
  hlInterval :: dur
  hlCanceled :: bool
  hlRecovery :: bool

text \<open>
  \<open>hbRunning\<close> and \<open>hbInflightCancels\<close> are sets of job ids, kept as lists without duplicates;
  \<open>hbHTTPAgentCancels\<close> has the number of the loop that a cancel function ends.
\<close>

record Hub =
  hbPolicies :: Set
  hbLabelConfigs :: "(string, LabelConfig) gomap option"
  hbRegisterTokens :: "string list"
  hbOfflineAfter :: dur
  hbPollInterval :: dur
  hbMaxInflight :: int
  hbMeta :: "(string, agentMeta) gomap"
  hbRunning :: "(string, string list) gomap"
  hbInflightCancels :: "string list"
  hbGrpcCancels :: "(string, cancel_chan) gomap"
  hbSubs :: "(string, (nat, JobEvent list) gomap) gomap"
  hbHTTPMaxHealthInterval :: dur
  hbHTTPInvokeAttempts :: int
  hbHTTPAgents :: "hubHTTPAgent list"
  hbHTTPAgentCancels :: "(string, nat) gomap"

record Sys =
  sysStore :: Memory
  sysHub :: Hub
  sysUUID :: nat
  sysSent :: "(string \<times> ServerMessage) list"
  sysCanceled :: "string list"
  sysNextSub :: nat
  sysLoops :: "(nat, httpLoop) gomap"
  sysNextLoop :: nat

record henv =
  heUUID :: "nat \<Rightarrow> string"
  heSHA256 :: "string \<Rightarrow> string"
  heNet :: netenv
  heTLS :: "TLS \<Rightarrow> bool"

abbreviation jobs_of :: "Sys \<Rightarrow> (string, Job) gomap" where
  "jobs_of s \<equiv> mJobs (sysStore s)"

abbreviation set_store :: "Memory \<Rightarrow> Sys \<Rightarrow> Sys" where
  "set_store m s \<equiv> s\<lparr>sysStore := m\<rparr>"

text \<open>A call whose error is ignored.\<close>

definition ignore_err :: "Memory res \<Rightarrow> Sys \<Rightarrow> Sys" where
  "ignore_err r s = (case r of Inl _ \<Rightarrow> s | Inr m \<Rightarrow> set_store m s)"

definition newUUID :: "henv \<Rightarrow> Sys \<Rightarrow> string \<times> Sys" where
  "newUUID env s = (heUUID env (sysUUID s), s\<lparr>sysUUID := Suc (sysUUID s)\<rparr>)"

definition NewHub :: "Set \<Rightarrow> dur \<Rightarrow> dur \<Rightarrow> int \<Rightarrow> Hub" where
  "NewHub policies offlineAfter pollInterval maxInflight =
     \<lparr>hbPolicies = policies, hbLabelConfigs = None, hbRegisterTokens = [],
      hbOfflineAfter = (if offlineAfter \<le> 0 then 90 * Second else offlineAfter),
      hbPollInterval = (if pollInterval \<le> 0 then 2 * Second else pollInterval),
      hbMaxInflight = (if maxInflight \<le> 0 then 4 else maxInflight),
      hbMeta = [], hbRunning = [], hbInflightCancels = [], hbGrpcCancels = [], hbSubs = [],
      hbHTTPMaxHealthInterval = 300 * Second, hbHTTPInvokeAttempts = 3,
      hbHTTPAgents = [], hbHTTPAgentCancels = []\<rparr>"

definition SetInflightLimit :: "int \<Rightarrow> Hub \<Rightarrow> Hub" where
  "SetInflightLimit limit h = h\<lparr>hbMaxInflight := (if limit \<le> 0 then 4 else limit)\<rparr>"

definition SetHTTPAgentRuntime :: "dur \<Rightarrow> int \<Rightarrow> Hub \<Rightarrow> Hub" where
  "SetHTTPAgentRuntime maxHealthInterval invokeAttempts h =
     h\<lparr>hbHTTPMaxHealthInterval := (if maxHealthInterval \<le> 0 then 300 * Second else maxHealthInterval),
       hbHTTPInvokeAttempts := (if invokeAttempts \<le> 0 then 3 else invokeAttempts)\<rparr>"

definition normalizedRegisterTokens :: "RegisterToken list \<Rightarrow> string list" where
  "normalizedRegisterTokens tokens =
     fold (\<lambda>item out. let token = TrimSpace (rgToken item) in
             if token = [] \<or> token \<in> set out then out else out @ [token]) tokens []"

text \<open>The error of the normalisation is ignored by the source.\<close>

definition ApplySettings :: "henv \<Rightarrow> ManagedSettings \<Rightarrow> Sys \<Rightarrow> Sys" where
  "ApplySettings env settings0 s =
     (let (settings, n, _) = NormalizeManagedSettings (heUUID env) (sysUUID s) settings0;
          labelConfigs = NormalizeLabelConfigs (msLabelConfigs settings);
          agentCfg = (case labelConfigs of None \<Rightarrow> None | Some m \<Rightarrow> mget m AgentAllLabel);
          globalScheduler = (case Option.bind agentCfg lcScheduler of
                               Some c \<Rightarrow> c | None \<Rightarrow> DefaultScheduler zero_Scheduler);
          globalRuntime = (case Option.bind agentCfg lcRuntime of Some r \<Rightarrow> r | None \<Rightarrow> DefaultRuntime)
      in s\<lparr>sysUUID := n,
           sysHub := (sysHub s)\<lparr>hbLabelConfigs := labelConfigs,
             hbRegisterTokens := normalizedRegisterTokens (msRegisterTokens settings),
             hbOfflineAfter := seconds (scAgentOfflineAfterSec globalScheduler),
             hbPollInterval := seconds (scPollIntervalSec globalScheduler),
             hbMaxInflight := scMaxInflightPerAgent globalScheduler,
             hbHTTPMaxHealthInterval := seconds (rtHTTPMaxHealthIntervalSec globalRuntime),
             hbHTTPInvokeAttempts := rtHTTPInvokeAttempts globalRuntime\<rparr>\<rparr>)"


section \<open>Jobs in flight\<close>

definition running_of :: "string \<Rightarrow> Hub \<Rightarrow> string list" where
  "running_of agentID h = (case mget (hbRunning h) agentID of None \<Rightarrow> [] | Some js \<Rightarrow> js)"

definition inflightCount :: "string \<Rightarrow> Hub \<Rightarrow> int" where
  "inflightCount agentID h = int (length (running_of agentID h))"

definition markInflight :: "string \<Rightarrow> string \<Rightarrow> Sys \<Rightarrow> Sys" where
  "markInflight agentID jobID s =
     s\<lparr>sysHub := (sysHub s)\<lparr>hbRunning :=
         mput agentID (List.insert jobID (running_of agentID (sysHub s))) (hbRunning (sysHub s))\<rparr>\<rparr>"

definition clearInflight :: "string \<Rightarrow> string \<Rightarrow> Sys \<Rightarrow> Sys" where
  "clearInflight agentID jobID s =
     (let h = sysHub s in
      s\<lparr>sysHub := h\<lparr>hbRunning := (case mget (hbRunning h) agentID of
                                   None \<Rightarrow> hbRunning h
                                 | Some js \<Rightarrow> mput agentID (removeAll jobID js) (hbRunning h)),
                    hbInflightCancels := removeAll jobID (hbInflightCancels h)\<rparr>\<rparr>)"

definition setInflightCancel :: "string \<Rightarrow> bool \<Rightarrow> Sys \<Rightarrow> Sys" where
  "setInflightCancel jobID present s =
     (let h = sysHub s in
      s\<lparr>sysHub := h\<lparr>hbInflightCancels :=
          (if present then List.insert jobID (hbInflightCancels h) else removeAll jobID (hbInflightCancels h))\<rparr>\<rparr>)"

definition cancelInflight :: "string \<Rightarrow> Sys \<Rightarrow> Sys" where
  "cancelInflight jobID s =
     (let h = sysHub s in
      s\<lparr>sysHub := h\<lparr>hbInflightCancels := removeAll jobID (hbInflightCancels h)\<rparr>,
        sysCanceled := (if jobID \<in> set (hbInflightCancels h) then sysCanceled s @ [jobID] else sysCanceled s)\<rparr>)"

definition sendGRPCCancel :: "string \<Rightarrow> string \<Rightarrow> Sys \<Rightarrow> Sys" where
  "sendGRPCCancel agentID jobID s =
     (case mget (hbGrpcCancels (sysHub s)) agentID of
        None \<Rightarrow> s
      | Some c \<Rightarrow>
          if int (length (ccQueue c)) < ccCap c
          then s\<lparr>sysHub := (sysHub s)\<lparr>hbGrpcCancels :=
                 mput agentID (c\<lparr>ccQueue := ccQueue c @ [jobID]\<rparr>) (hbGrpcCancels (sysHub s))\<rparr>\<rparr>
          else s)"

definition touchAgent :: "time \<Rightarrow> string \<Rightarrow> Sys \<Rightarrow> Sys" where
  "touchAgent now agentID s =
     (let meta = (case mget (hbMeta (sysHub s)) agentID of
                    Some x \<Rightarrow> x
                  | None \<Rightarrow> \<lparr>amCapabilities = [], amProtocols = 0, amLastSeen = 0\<rparr>)
      in s\<lparr>sysHub := (sysHub s)\<lparr>hbMeta := mput agentID (meta\<lparr>amLastSeen := now\<rparr>) (hbMeta (sysHub s))\<rparr>\<rparr>)"

definition agentStaleAfter :: "time \<Rightarrow> string \<Rightarrow> dur \<Rightarrow> Hub \<Rightarrow> bool" where
  "agentStaleAfter now agentID offlineAfter h =
     (case mget (hbMeta h) agentID of
        None \<Rightarrow> True
      | Some meta \<Rightarrow> (if offlineAfter \<le> 0 then 90 * Second else offlineAfter) < now - amLastSeen meta)"


section \<open>Subscribers and events\<close>

definition publish :: "JobEvent \<Rightarrow> Sys \<Rightarrow> Sys" where
  "publish event s =
     (case mget (hbSubs (sysHub s)) (eJobID event) of
        None \<Rightarrow> s
      | Some subs \<Rightarrow>
          s\<lparr>sysHub := (sysHub s)\<lparr>hbSubs := mput (eJobID event)
              (map (\<lambda>(ch, q). (ch, if length q < 32 then q @ [event] else q)) subs) (hbSubs (sysHub s))\<rparr>\<rparr>)"

definition SubscribeJob :: "string \<Rightarrow> Sys \<Rightarrow> nat \<times> Sys" where
  "SubscribeJob jobID s =
     (let subs = (case mget (hbSubs (sysHub s)) jobID of None \<Rightarrow> [] | Some x \<Rightarrow> x); ch = sysNextSub s
      in (ch, s\<lparr>sysNextSub := Suc ch,
               sysHub := (sysHub s)\<lparr>hbSubs := mput jobID (mput ch [] subs) (hbSubs (sysHub s))\<rparr>\<rparr>))"

definition Unsubscribe :: "string \<Rightarrow> nat \<Rightarrow> Sys \<Rightarrow> Sys" where
  "Unsubscribe jobID ch s =
     (case mget (hbSubs (sysHub s)) jobID of
        None \<Rightarrow> s
      | Some subs \<Rightarrow>
          (let subs' = mdel ch subs
           in s\<lparr>sysHub := (sysHub s)\<lparr>hbSubs :=
                 (if subs' = [] then mdel jobID (hbSubs (sysHub s)) else mput jobID subs' (hbSubs (sysHub s)))\<rparr>\<rparr>))"

text \<open>An event is stored and then published; when it cannot be stored it is dropped.\<close>

definition store_event :: "JobEvent \<Rightarrow> Sys \<Rightarrow> bool \<times> Sys" where
  "store_event event s =
     (case AddJobEvent event (sysStore s) of
        Inl _ \<Rightarrow> (False, s)
      | Inr m \<Rightarrow> (True, publish event (set_store m s)))"

definition message_event :: "string \<Rightarrow> string \<Rightarrow> string \<Rightarrow> string \<Rightarrow> string \<Rightarrow> time \<Rightarrow> JobEvent" where
  "message_event eid jobID agentID stream message now =
     \<lparr>eID = eid, eJobID = jobID, eAgentID = agentID, eStream = stream,
      eEvent = Some \<lparr>seType = stream, seMessage = message, seHop = None, seMetric = []\<rparr>,
      eExitCode = None, eParsed = None, eCreatedAt = now\<rparr>"

definition emitProgress :: "henv \<Rightarrow> time \<Rightarrow> string \<Rightarrow> string \<Rightarrow> Sys \<Rightarrow> Sys" where
  "emitProgress env now jobID message s =
     (case GetJob jobID (sysStore s) of
        Inl _ \<Rightarrow> s
      | Inr job \<Rightarrow>
          (let eventJobID = (if jParentID job \<noteq> [] then jParentID job else jID job); (eid, s1) = newUUID env s
           in snd (store_event (message_event eid eventJobID [] ''progress'' message now) s1)))"

definition emitFailureMessage :: "henv \<Rightarrow> time \<Rightarrow> string \<Rightarrow> string \<Rightarrow> string \<Rightarrow> Sys \<Rightarrow> Sys" where
  "emitFailureMessage env now jobID agentID msg s =
     (let failureType = (if PublicJobErrorType msg = [] then JobErrorFailed else PublicJobErrorType msg);
          (eid, s1) = newUUID env s
      in snd (store_event (message_event eid jobID agentID ''message'' failureType now) s1))"

definition progressMessageForStatus :: "JobStatus \<Rightarrow> string" where
  "progressMessageForStatus status =
     (case status of
        JobSucceeded \<Rightarrow> ''completed''
      | JobFailed \<Rightarrow> ''failed''
      | JobCanceled \<Rightarrow> ''canceled''
      | _ \<Rightarrow> JobStatus_string status)"

definition emitStarted :: "henv \<Rightarrow> time \<Rightarrow> Job \<Rightarrow> Sys \<Rightarrow> Sys" where
  "emitStarted env now job s = (if jParentID job \<noteq> [] then s else emitProgress env now (jID job) ''started'' s)"


section \<open>Completion and failure\<close>

definition terminalJobStatus :: "JobStatus \<Rightarrow> bool" where
  "terminalJobStatus status \<longleftrightarrow> status = JobSucceeded \<or> status = JobFailed \<or> status = JobCanceled"

definition completeParentIfDoneWithFailure ::
  "henv \<Rightarrow> time \<Rightarrow> string \<Rightarrow> string \<Rightarrow> bool \<Rightarrow> Sys \<Rightarrow> Sys" where
  "completeParentIfDoneWithFailure env now parentID failureMsg emitFailure s =
     (case GetJob parentID (sysStore s) of
        Inl _ \<Rightarrow> s
      | Inr parent \<Rightarrow>
          if terminalJobStatus (jStatus parent) then s
          else
            let children = ListChildJobs parentID (sysStore s) in
            if children = [] then s
            else if \<not> list_all (\<lambda>child. terminalJobStatus (jStatus child)) children then s
            else
              let succeeded = list_ex (\<lambda>child. jStatus child = JobSucceeded) children;
                  status = (if succeeded then JobSucceeded else JobFailed);
                  msg = (if succeeded then []
                         else if failureMsg = [] then ''one or more fanout jobs failed'' else failureMsg)
              in case UpdateJobStatus now parentID status msg (sysStore s) of
                   Inl _ \<Rightarrow> s
                 | Inr m \<Rightarrow>
                     let s1 = set_store m s;
                         s2 = (if status = JobFailed \<and> emitFailure \<and> msg \<noteq> []
                               then emitFailureMessage env now parentID [] msg s1 else s1)
                     in emitProgress env now parentID (progressMessageForStatus status) s2)"

definition completeParentIfDone :: "henv \<Rightarrow> time \<Rightarrow> string \<Rightarrow> Sys \<Rightarrow> Sys" where
  "completeParentIfDone env now parentID s = completeParentIfDoneWithFailure env now parentID [] False s"

definition failJob :: "henv \<Rightarrow> time \<Rightarrow> string \<Rightarrow> string \<Rightarrow> string \<Rightarrow> Sys \<Rightarrow> Sys" where
  "failJob env now agentID jobID msg s0 =
     (let s = (if agentID \<noteq> [] then clearInflight agentID jobID s0 else s0) in
      case GetJob jobID (sysStore s) of
        Inl _ \<Rightarrow> s
      | Inr job \<Rightarrow>
          if terminalJobStatus (jStatus job) then s
          else (case UpdateJobStatus now jobID JobFailed msg (sysStore s) of
                  Inl _ \<Rightarrow> s
                | Inr m \<Rightarrow>
                    let eventJobID = (if jParentID job \<noteq> [] then jParentID job else jobID);
                        s1 = emitFailureMessage env now eventJobID agentID msg (set_store m s)
                    in if jParentID job \<noteq> [] then completeParentIfDone env now (jParentID job) s1
                       else emitProgress env now jobID ''failed'' s1))"

definition agentOwnsJob :: "string \<Rightarrow> Job \<Rightarrow> Hub \<Rightarrow> bool" where
  "agentOwnsJob agentID job h =
     (if agentID = [] \<or> jAgentID job \<noteq> agentID then False
      else (case mget (hbRunning h) agentID of None \<Rightarrow> False | Some running \<Rightarrow> jID job \<in> set running))"

definition handleResult :: "henv \<Rightarrow> time \<Rightarrow> string \<Rightarrow> ResultEvent \<Rightarrow> Sys \<Rightarrow> Sys" where
  "handleResult env now agentID ev s =
     (case GetJob (reJobID ev) (sysStore s) of
        Inl _ \<Rightarrow> s
      | Inr job \<Rightarrow>
          let typ = eventType (reEvent ev) in
          if \<not> agentOwnsJob agentID job (sysHub s) then s
          else if terminalJobStatus (jStatus job) then s
          else (case jobEventFromWire job typ (reEvent ev) of
                  Inl _ \<Rightarrow> s
                | Inr w \<Rightarrow>
                    let eventJobID = (if jParentID job \<noteq> [] then jParentID job else jID job);
                        (eid, s1) = newUUID env s;
                        event = \<lparr>eID = eid, eJobID = eventJobID, eAgentID = agentID, eStream = typ,
                                 eEvent = weEvent w, eExitCode = weExitCode w, eParsed = weParsed w,
                                 eCreatedAt = now\<rparr>
                    in case store_event event s1 of
                         (False, s2) \<Rightarrow> s2
                       | (True, s2) \<Rightarrow>
                           (case weExitCode w of
                              None \<Rightarrow> s2
                            | Some code \<Rightarrow>
                                let s3 = clearInflight agentID (reJobID ev) s2;
                                    status = (if code \<noteq> 0 then JobFailed else JobSucceeded);
                                    msg = (if code \<noteq> 0 then
                                             (if parsedFailureType (weParsed w) \<noteq> [] then parsedFailureType (weParsed w)
                                              else JobErrorToolFailed)
                                           else [])
                                in case UpdateJobStatus now (reJobID ev) status msg (sysStore s3) of
                                     Inl _ \<Rightarrow> s3
                                   | Inr m \<Rightarrow>
                                       let s4 = set_store m s3
                                       in if jParentID job \<noteq> [] then completeParentIfDone env now (jParentID job) s4
                                          else emitProgress env now (reJobID ev) (progressMessageForStatus status) s4)))"


section \<open>Settings of an agent\<close>

definition agent_labels :: "Memory \<Rightarrow> Agent \<Rightarrow> string list" where
  "agent_labels m a =
     (let grpcLabels = map (\<lambda>cfg. (acID cfg, acLabels cfg)) (rev (ListAgentConfigs m));
          httpLabels = map (\<lambda>node. (haID node, haLabels node)) (rev (ListHTTPAgents m))
      in case mget httpLabels (aID a) of
           Some ls \<Rightarrow> NormalizeAgentLabels (aID a) AgentTransportHTTP ls
         | None \<Rightarrow> NormalizeAgentLabels (aID a) AgentTransportGRPC
                     (case mget grpcLabels (aID a) of Some ls \<Rightarrow> ls | None \<Rightarrow> []))"

definition agentsWithManagedLabels :: "Memory \<Rightarrow> Agent list" where
  "agentsWithManagedLabels m = map (\<lambda>a. a\<lparr>aLabels := agent_labels m a\<rparr>) (ListAgents m)"

definition labelsForAgent :: "Memory \<Rightarrow> string \<Rightarrow> string list" where
  "labelsForAgent m agentID =
     (case find (\<lambda>a. aID a = agentID) (agentsWithManagedLabels m) of
        Some a \<Rightarrow> aLabels a
      | None \<Rightarrow>
          (case GetHTTPAgent agentID m of
             Inr node \<Rightarrow> NormalizeAgentLabels agentID AgentTransportHTTP (haLabels node)
           | Inl _ \<Rightarrow> NormalizeAgentLabels agentID AgentTransportGRPC (acLabels (GetAgentConfig agentID m))))"

definition schedulerSnapshot :: "Hub \<Rightarrow> Scheduler" where
  "schedulerSnapshot h =
     \<lparr>scAgentOfflineAfterSec = quot (hbOfflineAfter h) Second,
      scMaxInflightPerAgent = hbMaxInflight h,
      scPollIntervalSec = quot (hbPollInterval h) Second\<rparr>"

definition settingsForAgent :: "string \<Rightarrow> Sys \<Rightarrow> Scheduler \<times> Runtime \<times> (string, CfgPolicy) gomap" where
  "settingsForAgent agentID s =
     settingsForLabels (hbPolicies (sysHub s)) (schedulerSnapshot (sysHub s)) (hbLabelConfigs (sysHub s))
       (labelsForAgent (sysStore s) agentID)"

definition policiesForAgent :: "string \<Rightarrow> Sys \<Rightarrow> Set" where
  "policiesForAgent agentID s =
     (let (_, runtime, toolPolicies) = settingsForAgent agentID s
      in WithIntersection (hbPolicies (sysHub s)) toolPolicies runtime)"

definition hub_policiesForLabels :: "string list \<Rightarrow> Sys \<Rightarrow> Set" where
  "hub_policiesForLabels labels s = policiesForLabels (hbPolicies (sysHub s)) (hbLabelConfigs (sysHub s)) labels"

definition inflightLimitForAgent :: "string \<Rightarrow> Sys \<Rightarrow> int" where
  "inflightLimitForAgent agentID s =
     (let n = scMaxInflightPerAgent (fst (settingsForAgent agentID s)) in if n \<le> 0 then 4 else n)"

definition offlineAfterForAgent :: "string \<Rightarrow> Sys \<Rightarrow> dur" where
  "offlineAfterForAgent agentID s =
     (let n = scAgentOfflineAfterSec (fst (settingsForAgent agentID s)) in if n \<le> 0 then 90 * Second else seconds n)"

definition pollIntervalForAgent :: "string \<Rightarrow> Sys \<Rightarrow> dur" where
  "pollIntervalForAgent agentID s =
     (let n = scPollIntervalSec (fst (settingsForAgent agentID s)) in if n \<le> 0 then 2 * Second else seconds n)"

definition agentConfigDisabled :: "Memory \<Rightarrow> string \<Rightarrow> bool" where
  "agentConfigDisabled m agentID =
     (case GetHTTPAgent agentID m of
        Inr node \<Rightarrow> \<not> haEnabled node
      | Inl _ \<Rightarrow> acDisabled (GetAgentConfig agentID m))"

definition offlineAfterSnapshot :: "Hub \<Rightarrow> dur" where
  "offlineAfterSnapshot h = (if hbOfflineAfter h \<le> 0 then 90 * Second else hbOfflineAfter h)"

definition currentPollInterval :: "Hub \<Rightarrow> dur" where
  "currentPollInterval h = (if hbPollInterval h \<le> 0 then 2 * Second else hbPollInterval h)"


section \<open>Timeouts\<close>

definition jobTimedOut :: "time \<Rightarrow> Job \<Rightarrow> Sys \<Rightarrow> bool" where
  "jobTimedOut now job s =
     (let policies = (if jAgentID job \<noteq> [] then policiesForAgent (jAgentID job) s
                      else hub_policiesForLabels [AgentAllLabel] s);
          timeout = (case mget (byTool policies) (jTool job) of
                       Some p \<Rightarrow> if 0 < pTimeout p then pTimeout p else Set_TimeoutForJob policies job
                     | None \<Rightarrow> Set_TimeoutForJob policies job)
      in if timeout \<le> 0 then False
         else let start = (if jStatus job = JobRunning then
                             (case jStartedAt job of Some t \<Rightarrow> t | None \<Rightarrow> jCreatedAt job)
                           else jCreatedAt job)
              in if IsZero start then False else \<not> now < start + timeout)"

text \<open>The first result says whether the sweep goes on to the next job.\<close>

definition deferFanoutParentTimeout :: "henv \<Rightarrow> time \<Rightarrow> Job \<Rightarrow> Sys \<Rightarrow> bool \<times> Sys" where
  "deferFanoutParentTimeout env now job s =
     (if jParentID job \<noteq> [] \<or> jAgentID job \<noteq> [] \<or> jStatus job \<noteq> JobRunning then (False, s)
      else
        let children = ListChildJobs (jID job) (sysStore s) in
        if children = [] then (False, s)
        else
          let start = (case jStartedAt job of Some t \<Rightarrow> t | None \<Rightarrow> jCreatedAt job);
              overallTimeout = Set_MaxToolTimeout (hub_policiesForLabels [AgentAllLabel] s)
          in if 0 < overallTimeout \<and> \<not> IsZero start \<and> \<not> now < start + overallTimeout then (False, s)
             else if \<not> list_all (\<lambda>child. terminalJobStatus (jStatus child)) children then (True, s)
             else (True, completeParentIfDone env now (jID job) s))"

definition fail_child :: "time \<Rightarrow> Job \<Rightarrow> Sys \<Rightarrow> Sys" where
  "fail_child now child s =
     (if terminalJobStatus (jStatus child) then s
      else
        let s1 = cancelInflight (jID child) s;
            s2 = (if jAgentID child \<noteq> []
                  then clearInflight (jAgentID child) (jID child) (sendGRPCCancel (jAgentID child) (jID child) s1)
                  else s1)
        in ignore_err (UpdateJobStatus now (jID child) JobFailed JobErrorTimeout (sysStore s2)) s2)"

definition failFanoutChildren :: "time \<Rightarrow> Job \<Rightarrow> Sys \<Rightarrow> bool \<times> Sys" where
  "failFanoutChildren now parent s =
     (if jParentID parent \<noteq> [] \<or> jAgentID parent \<noteq> [] then (False, s)
      else
        let children = ListChildJobs (jID parent) (sysStore s) in
        if children = [] then (False, s) else (True, fold (fail_child now) children s))"

definition fail_timed_out :: "henv \<Rightarrow> time \<Rightarrow> Job \<Rightarrow> Sys \<Rightarrow> Sys" where
  "fail_timed_out env now job s =
     (case deferFanoutParentTimeout env now job s of
        (True, s1) \<Rightarrow> s1
      | (False, s1) \<Rightarrow>
          if \<not> jobTimedOut now job s1 then s1
          else (case failFanoutChildren now job s1 of
                  (True, s2) \<Rightarrow> completeParentIfDoneWithFailure env now (jID job) JobErrorTimeout True s2
                | (False, s2) \<Rightarrow> failJob env now (jAgentID job) (jID job) JobErrorTimeout s2))"

definition failTimedOutJobs :: "henv \<Rightarrow> time \<Rightarrow> Sys \<Rightarrow> Sys" where
  "failTimedOutJobs env now s = fold (fail_timed_out env now) (ListActiveJobs 200 (sysStore s)) s"


section \<open>Scheduled runs\<close>

definition scheduledRunAgents :: "ScheduledJob \<Rightarrow> ScheduleTarget \<Rightarrow> IPVersion \<Rightarrow> Memory \<Rightarrow> Agent list" where
  "scheduledRunAgents sched target version m =
     filter (\<lambda>agent. \<not> agentConfigDisabled m (aID agent)
                     \<and> scheduledTargetMatchesAgent target agent
                     \<and> scheduledTargetAllowsAgent target (aID agent)
                     \<and> AgentSupports agent (sTool sched) version) (agentsWithManagedLabels m)"

text \<open>The target of a run, or \<open>None\<close> where the source gives up on this round.\<close>

definition schedule_target :: "henv \<Rightarrow> Set \<Rightarrow> ScheduledJob \<Rightarrow> (string \<times> IPVersion) option" where
  "schedule_target env policies sched =
     (if sResolveOnAgent sched then
        (case LiteralIPVersion (heNet env) (sTool sched) (sTarget sched) of
           Inl _ \<Rightarrow> None
         | Inr lit \<Rightarrow> Some ([], case lit of
                               Some v \<Rightarrow> if sIPVersion sched = IPAny then v else sIPVersion sched
                             | None \<Rightarrow> sIPVersion sched))
      else if sTool sched \<noteq> ToolDNS then
        (case Set_ResolveTarget (heNet env) policies (sTool sched) (sTarget sched) (sIPVersion sched) of
           Inl _ \<Rightarrow> None
         | Inr (resolved, v) \<Rightarrow>
             Some (resolved, if sIPVersion sched = IPAny \<and> v \<noteq> IPAny then v else sIPVersion sched))
      else Some ([], sIPVersion sched))"

text \<open>One agent of a due target: a run is added unless the agent has one or its policies refuse.\<close>

definition add_run ::
  "henv \<Rightarrow> ScheduledJob \<Rightarrow> Job \<Rightarrow> Agent \<Rightarrow> Job list \<times> Sys \<Rightarrow> Job list \<times> Sys" where
  "add_run env sched job agent acc =
     (let (runs, s) = acc in
      if aID agent \<in> set (map jAgentID runs) then (runs, s)
      else
        let agentPolicies = hub_policiesForLabels (aLabels agent) s;
            validateReq = \<lparr>rqTool = sTool sched, rqTarget = sTarget sched, rqArgs = sArgs sched,
                           rqIPVersion = sIPVersion sched, rqAgentID = aID agent,
                           rqResolveOnAgent = sResolveOnAgent sched\<rparr>
        in if \<not> is_ok (ValidateSchedule (heNet env) agentPolicies validateReq) then (runs, s)
           else let (rid, s1) = newUUID env s
                in (runs @ [job\<lparr>jID := rid, jAgentID := aID agent,
                               jArgs := Set_ServerArgs agentPolicies (sTool sched) (sArgs sched)\<rparr>], s1))"

definition advance_schedule :: "time \<Rightarrow> ScheduledJob \<Rightarrow> ScheduleTarget list \<Rightarrow> Sys \<Rightarrow> Sys" where
  "advance_schedule now sched due s =
     ignore_err (UpdateScheduledJobRun now (advanceScheduleTargets sched due now) (sysStore s)) s"

definition run_schedule :: "henv \<Rightarrow> time \<Rightarrow> ScheduledJob \<Rightarrow> Sys \<Rightarrow> Sys" where
  "run_schedule env now sched s =
     (let policies = hub_policiesForLabels [AgentAllLabel] s;
          due = dueScheduleTargets sched now in
      if due = [] then s
      else if mget (byTool policies) (sTool sched) = None then advance_schedule now sched due s
      else
        let (jid, s1) = newUUID env s in
        case schedule_target env policies sched of
          None \<Rightarrow> advance_schedule now sched due s1
        | Some (resolved, version) \<Rightarrow>
            let job = \<lparr>jID = jid, jParentID = [], jScheduledID = sID sched, jScheduledRevision = sRevision sched,
                       jTool = sTool sched, jTarget = sTarget sched, jResolvedTarget = resolved,
                       jArgs = Set_ServerArgs policies (sTool sched) (sArgs sched), jIPVersion = version,
                       jAgentID = [], jResolveOnAgent = sResolveOnAgent sched, jStatus = JobQueued,
                       jCreatedAt = now, jUpdatedAt = now, jStartedAt = None, jCompletedAt = None, jError = []\<rparr>;
                agents = concat (map (\<lambda>target. scheduledRunAgents sched target version (sysStore s1)) due);
                (runs, s2) = fold (add_run env sched job) agents ([], s1)
            in if runs = [] then advance_schedule now sched due s2
               else advance_schedule now sched due (set_store (CreateJobs runs (sysStore s2)) s2))"

definition runDueSchedules :: "henv \<Rightarrow> time \<Rightarrow> Sys \<Rightarrow> Sys" where
  "runDueSchedules env now s = fold (run_schedule env now) (ListDueScheduledJobs now 50 (sysStore s)) s"

text \<open>One tick of the loop of \<^verbatim>\<open>Start\<close>.\<close>

definition hub_tick :: "henv \<Rightarrow> time \<Rightarrow> Sys \<Rightarrow> Sys" where
  "hub_tick env now s =
     (let (_, m) = MarkStaleAgentsOffline now (offlineAfterSnapshot (sysHub s)) (sysStore s)
      in runDueSchedules env now (failTimedOutJobs env now (set_store m s)))"


section \<open>Agent streams\<close>

definition registerTokenAllowed :: "string \<Rightarrow> Hub \<Rightarrow> bool" where
  "registerTokenAllowed token h = list_ex (\<lambda>allowed. token = allowed) (hbRegisterTokens h)"

text \<open>\<^verbatim>\<open>Connect\<close> up to the start of its loops; \<open>Inr\<close> is the id of the connected agent.\<close>

definition Connect :: "henv \<Rightarrow> time \<Rightarrow> AgentMessage \<Rightarrow> Sys \<Rightarrow> string res \<times> Sys" where
  "Connect env now first s =
     (case mgAgent first of
        None \<Rightarrow> (Inl (Errorf ''first message must be hello'' []), s)
      | Some hello \<Rightarrow>
          if mgType first \<noteq> ''hello'' then (Inl (Errorf ''first message must be hello'' []), s)
          else if \<not> registerTokenAllowed (ahToken hello) (sysHub s)
          then (Inl (Errorf ''invalid agent token'' []), s)
          else
            let agent = \<lparr>aID = ahID hello, aCountry = ahCountry hello, aRegion = ahRegion hello,
                         aProvider = ahProvider hello, aISP = ahISP hello, aVersion = ahVersion hello,
                         aLabels = [], aTokenHash = heSHA256 env (ahToken hello),
                         aCapabilities = ahCapabilities hello, aProtocols = ahProtocols hello,
                         aStatus = AgentOnline, aLastSeenAt = now, aCreatedAt = now\<rparr>;
                s1 = set_store (UpsertAgent agent (sysStore s)) s;
                h = sysHub s1;
                size = (if hbMaxInflight h * 2 < 1 then 1 else hbMaxInflight h * 2);
                h' = h\<lparr>hbMeta := mput (aID agent) \<lparr>amCapabilities = ahCapabilities hello,
                                  amProtocols = ahProtocols hello, amLastSeen = now\<rparr> (hbMeta h),
                       hbRunning := (case mget (hbRunning h) (aID agent) of
                                       None \<Rightarrow> mput (aID agent) [] (hbRunning h) | Some _ \<Rightarrow> hbRunning h),
                       hbGrpcCancels := mput (aID agent) \<lparr>ccCap = size, ccQueue = []\<rparr> (hbGrpcCancels h)\<rparr>
            in (Inr (aID agent), s1\<lparr>sysHub := h'\<rparr>))"

text \<open>The deferred function of \<^verbatim>\<open>Connect\<close>.\<close>

definition Disconnect :: "henv \<Rightarrow> time \<Rightarrow> string \<Rightarrow> Sys \<Rightarrow> Sys" where
  "Disconnect env now agentID s =
     (let runningJobs = running_of agentID (sysHub s);
          h = sysHub s;
          s1 = s\<lparr>sysHub := h\<lparr>hbMeta := mdel agentID (hbMeta h), hbRunning := mdel agentID (hbRunning h),
                            hbGrpcCancels := mdel agentID (hbGrpcCancels h)\<rparr>\<rparr>;
          s2 = fold (\<lambda>jobID. failJob env now agentID jobID ''agent disconnected'') runningJobs s1
      in ignore_err (MarkAgentOffline agentID (sysStore s2)) s2)"

definition recv_message :: "henv \<Rightarrow> time \<Rightarrow> string \<Rightarrow> AgentMessage \<Rightarrow> Sys \<Rightarrow> Sys" where
  "recv_message env now agentID msg s =
     (if mgType msg = ''heartbeat'' then
        (let s1 = touchAgent now agentID s in ignore_err (TouchAgent now agentID (sysStore s1)) s1)
      else if mgType msg = ''result'' then
        (case mgResult msg of
           None \<Rightarrow> s
         | Some result \<Rightarrow> handleResult env now agentID (result\<lparr>reAgentID := agentID\<rparr>) s)
      else s)"

definition policyCapabilities :: "Set \<Rightarrow> Tool list \<Rightarrow> Tool list" where
  "policyCapabilities policies caps = filter (\<lambda>cap. mget (byTool policies) cap \<noteq> None) caps"

definition toJobSpecWithPolicies :: "Job \<Rightarrow> Policy \<Rightarrow> Set \<Rightarrow> JobSpec" where
  "toJobSpecWithPolicies job p policies =
     (let timeout = (if pTimeout p \<le> 0 then Set_TimeoutForJob policies job else pTimeout p);
          probeTimeout = (if pProbeTimeout p \<le> 0 then Set_ProbeTimeout policies else pProbeTimeout p)
      in \<lparr>jsID = jID job, jsTool = jTool job, jsTarget = jTarget job, jsResolvedTarget = jResolvedTarget job,
          jsArgs = Set_ServerArgs policies (jTool job) (jArgs job), jsIPVersion = jIPVersion job,
          jsResolveOnAgent = jResolveOnAgent job, jsTimeoutSeconds = quot timeout Second,
          jsProbeTimeoutSeconds = quot probeTimeout Second,
          jsResolveTimeoutSeconds = rtResolveTimeoutSec (Set_Runtime policies)\<rparr>)"

text \<open>
  The dispatch of one job, with the flag that the stream still works. A message counts as sent
  when \<open>send\<close> accepts it.
\<close>

definition dispatch_job ::
  "henv \<Rightarrow> time \<Rightarrow> (ServerMessage \<Rightarrow> bool) \<Rightarrow> string \<Rightarrow> Set \<Rightarrow> Job \<Rightarrow> bool \<times> Sys \<Rightarrow> bool \<times> Sys" where
  "dispatch_job env now send agentID policies job acc =
     (let (alive, s) = acc in
      if \<not> alive then acc
      else (case mget (byTool policies) (jTool job) of
              None \<Rightarrow> (True, s)
            | Some p \<Rightarrow>
                (case ClaimQueuedJob now (jID job) agentID (sysStore s) of
                   (False, _) \<Rightarrow> (True, s)
                 | (True, m) \<Rightarrow>
                     let s1 = emitStarted env now job (markInflight agentID (jID job) (set_store m s));
                         msg = MsgJob (toJobSpecWithPolicies job p policies)
                     in if send msg then (True, s1\<lparr>sysSent := sysSent s1 @ [(agentID, msg)]\<rparr>)
                        else (False, s1))))"

text \<open>The ticker case of \<^verbatim>\<open>sendLoop\<close>; the result is False when the stream broke.\<close>

definition send_tick ::
  "henv \<Rightarrow> time \<Rightarrow> (ServerMessage \<Rightarrow> bool) \<Rightarrow> string \<Rightarrow> Tool list \<Rightarrow> ProtocolMask \<Rightarrow> Sys \<Rightarrow> bool \<times> Sys" where
  "send_tick env now send agentID caps protocols s =
     (if agentConfigDisabled (sysStore s) agentID then
        (True, ignore_err (MarkAgentOffline agentID (sysStore s)) s)
      else if agentStaleAfter now agentID (offlineAfterForAgent agentID s) (sysHub s) then
        (True, ignore_err (MarkAgentOffline agentID (sysStore s)) s)
      else
        let remaining = inflightLimitForAgent agentID s - inflightCount agentID (sysHub s) in
        if remaining \<le> 0 then (True, s)
        else
          let policies = policiesForAgent agentID s;
              jobs = ListQueuedJobs agentID (policyCapabilities policies caps) protocols remaining (sysStore s)
          in fold (dispatch_job env now send agentID policies) jobs (True, s))"

text \<open>The cancel case of \<^verbatim>\<open>sendLoop\<close>.\<close>

definition send_cancel :: "(ServerMessage \<Rightarrow> bool) \<Rightarrow> string \<Rightarrow> Sys \<Rightarrow> bool \<times> Sys" where
  "send_cancel send agentID s =
     (case mget (hbGrpcCancels (sysHub s)) agentID of
        None \<Rightarrow> (True, s)
      | Some c \<Rightarrow>
          (case ccQueue c of
             [] \<Rightarrow> (True, s)
           | jobID # rest \<Rightarrow>
               let s1 = s\<lparr>sysHub := (sysHub s)\<lparr>hbGrpcCancels :=
                            mput agentID (c\<lparr>ccQueue := rest\<rparr>) (hbGrpcCancels (sysHub s))\<rparr>\<rparr>
               in if jobID = [] then (True, s1)
                  else if send (MsgCancel jobID)
                  then (True, s1\<lparr>sysSent := sysSent s1 @ [(agentID, MsgCancel jobID)]\<rparr>)
                  else (False, s1)))"

end
