(* ===== verification/JobLife.thy ===== *)
theory JobLife
  imports Hub
begin

text \<open>
  The life cycle of jobs as an abstract specification. A \<open>View\<close> is what matters of the system to
  a job: the jobs, which agent runs which job, which jobs were sent, how many UUIDs were
  drawn. The relation \<open>vstep\<close> says what may happen to a job: it is created with a new id, started
  by its agent, finished; everything else leaves the jobs as they are. The invariant \<open>vinv\<close>
  and the order \<open>vprogress\<close> are proved for the specification; \<open>HubFacts\<close> proves that every handler
  of the hub is a sequence of such steps.
\<close>

record View =
  vJobs :: "string \<Rightarrow> Job option"
  vRunning :: "string \<Rightarrow> string set"
  vSent :: "string list"
  vUUID :: nat

definition job_ids_sent :: "(string \<times> ServerMessage) list \<Rightarrow> string list" where
  "job_ids_sent msgs = List.map_filter (\<lambda>(a, m). case m of MsgJob spec \<Rightarrow> Some (jsID spec) | MsgCancel _ \<Rightarrow> None) msgs"

definition view :: "Sys \<Rightarrow> View" where
  "view s =
     \<lparr>vJobs = mget (jobs_of s),
      vRunning = (\<lambda>a. set (running_of a (sysHub s))),
      vSent = job_ids_sent (sysSent s),
      vUUID = sysUUID s\<rparr>"

definition child_of :: "View \<Rightarrow> string \<Rightarrow> Job \<Rightarrow> bool" where
  "child_of v k c \<longleftrightarrow> jParentID c = k \<and> vJobs v (jID c) = Some c"

text \<open>The jobs created together: jobs without a parent, queued or refused at once, or a running parent with its queued children.\<close>

definition roots :: "Job list \<Rightarrow> bool" where
  "roots js \<longleftrightarrow> list_all (\<lambda>j. jParentID j = [] \<and> (jStatus j = JobQueued \<or> jStatus j = JobFailed)) js"

definition fanout :: "Job list \<Rightarrow> bool" where
  "fanout js \<longleftrightarrow>
     (case js of
        [] \<Rightarrow> False
      | p # cs \<Rightarrow> jParentID p = [] \<and> jAgentID p = [] \<and> jStatus p = JobRunning
          \<and> list_all (\<lambda>c. jParentID c = jID p \<and> jStatus c = JobQueued) cs)"

definition new_ids :: "(nat \<Rightarrow> string) \<Rightarrow> nat \<Rightarrow> nat \<Rightarrow> Job list \<Rightarrow> bool" where
  "new_ids uuid n n' js \<longleftrightarrow> n \<le> n' \<and> distinct (map jID js)
     \<and> (\<forall>j\<in>set js. \<exists>i. n \<le> i \<and> i < n' \<and> jID j = uuid i)"

definition started :: "time \<Rightarrow> Job \<Rightarrow> Job" where
  "started now j = j\<lparr>jStatus := JobRunning, jUpdatedAt := now,
     jStartedAt := (if jStartedAt j = None then Some now else jStartedAt j)\<rparr>"

inductive vstep :: "(nat \<Rightarrow> string) \<Rightarrow> View \<Rightarrow> View \<Rightarrow> bool" for uuid where
  v_skip: "(\<And>a. r a \<subseteq> vRunning v a) \<Longrightarrow> vUUID v \<le> n \<Longrightarrow> vstep uuid v (v\<lparr>vRunning := r, vUUID := n\<rparr>)"
| v_create: "roots js \<or> fanout js \<Longrightarrow> new_ids uuid (vUUID v) n js \<Longrightarrow>
    vstep uuid v (v\<lparr>vJobs := fold (\<lambda>j m. m(jID j \<mapsto> j)) js (vJobs v), vUUID := n\<rparr>)"
| v_start: "vJobs v k = Some j \<Longrightarrow> jStatus j = JobQueued \<Longrightarrow> jAgentID j = a \<Longrightarrow> vUUID v \<le> n \<Longrightarrow>
    vstep uuid v (v\<lparr>vJobs := (vJobs v)(k \<mapsto> started now j),
                    vRunning := (vRunning v)(a := insert k (vRunning v a)),
                    vSent := vSent v @ (if sent then [k] else []), vUUID := n\<rparr>)"
| v_finish: "vJobs v k = Some j \<Longrightarrow> \<not> terminalJobStatus (jStatus j) \<Longrightarrow>
    st = JobFailed \<or> st = JobSucceeded \<Longrightarrow>
    (\<And>c. child_of v k c \<Longrightarrow> terminalJobStatus (jStatus c)) \<Longrightarrow>
    (st = JobSucceeded \<Longrightarrow> (\<exists>c. child_of v k c) \<Longrightarrow> \<exists>c. child_of v k c \<and> jStatus c = JobSucceeded) \<Longrightarrow>
    vstep uuid v (v\<lparr>vJobs := (vJobs v)(k \<mapsto> set_job_status now st msg j)\<rparr>)"

inductive_cases vstep_cases: "vstep uuid v v'"


section \<open>The invariant\<close>

definition ids_ok :: "(nat \<Rightarrow> string) \<Rightarrow> View \<Rightarrow> bool" where
  "ids_ok uuid v \<longleftrightarrow> (\<forall>k j. vJobs v k = Some j \<longrightarrow> jID j = k \<and> (\<exists>i<vUUID v. k = uuid i))"

text \<open>A child has a parent that has none, belongs to no agent, and is not in a queue.\<close>

definition parents_ok :: "View \<Rightarrow> bool" where
  "parents_ok v \<longleftrightarrow>
     (\<forall>k j. vJobs v k = Some j \<longrightarrow> jParentID j \<noteq> [] \<longrightarrow>
        (\<exists>p. vJobs v (jParentID j) = Some p \<and> jParentID p = [] \<and> jAgentID p = [] \<and> jStatus p \<noteq> JobQueued))"

text \<open>A job that an agent runs belongs to that agent, is not queued, and has no children.\<close>

definition running_ok :: "View \<Rightarrow> bool" where
  "running_ok v \<longleftrightarrow>
     (\<forall>a k. k \<in> vRunning v a \<longrightarrow>
        (\<exists>j. vJobs v k = Some j \<and> jAgentID j = a \<and> jStatus j \<noteq> JobQueued) \<and> (\<forall>c. \<not> child_of v k c))"

definition sent_ok :: "View \<Rightarrow> bool" where
  "sent_ok v \<longleftrightarrow> distinct (vSent v)
     \<and> (\<forall>k\<in>set (vSent v). \<exists>j. vJobs v k = Some j \<and> jStatus j \<noteq> JobQueued)"

text \<open>A finished parent: all children are finished, and one has succeeded if it has.\<close>

definition fanout_ok :: "View \<Rightarrow> bool" where
  "fanout_ok v \<longleftrightarrow>
     (\<forall>k p c. vJobs v k = Some p \<longrightarrow> child_of v k c \<longrightarrow>
        (terminalJobStatus (jStatus p) \<longrightarrow> terminalJobStatus (jStatus c))
        \<and> (jStatus p = JobSucceeded \<longrightarrow> (\<exists>d. child_of v k d \<and> jStatus d = JobSucceeded)))"

definition vinv :: "(nat \<Rightarrow> string) \<Rightarrow> View \<Rightarrow> bool" where
  "vinv uuid v \<longleftrightarrow> ids_ok uuid v \<and> parents_ok v \<and> running_ok v \<and> sent_ok v \<and> fanout_ok v"

text \<open>
  What never goes backwards: jobs stay, terminal jobs stay as they are, no job is queued again,
  a job that exists gets no further children.
\<close>

definition job_progress :: "Job \<Rightarrow> Job \<Rightarrow> bool" where
  "job_progress j j' \<longleftrightarrow>
     jID j' = jID j \<and> jParentID j' = jParentID j \<and> jAgentID j' = jAgentID j \<and> jTool j' = jTool j \<and> jTarget j' = jTarget j
     \<and> jCreatedAt j' = jCreatedAt j
     \<and> (terminalJobStatus (jStatus j) \<longrightarrow> j' = j)
     \<and> (jStatus j = JobRunning \<longrightarrow> jStatus j' \<noteq> JobQueued)"

definition vprogress :: "View \<Rightarrow> View \<Rightarrow> bool" where
  "vprogress v v' \<longleftrightarrow>
     (\<forall>k j. vJobs v k = Some j \<longrightarrow> (\<exists>j'. vJobs v' k = Some j' \<and> job_progress j j'))
     \<and> (\<forall>k c. vJobs v k \<noteq> None \<longrightarrow> child_of v' k c \<longrightarrow> (\<exists>c0. child_of v k c0 \<and> jID c0 = jID c))
     \<and> (\<exists>more. vSent v' = vSent v @ more)"

definition uuid_fresh :: "(nat \<Rightarrow> string) \<Rightarrow> bool" where
  "uuid_fresh uuid \<longleftrightarrow> inj uuid \<and> (\<forall>n. uuid n \<noteq> [])"


section \<open>The invariant is kept\<close>

lemma fold_upd_other: "k \<notin> jID ` set js \<Longrightarrow> fold (\<lambda>j m. m(jID j \<mapsto> j)) js f k = f k"
  by (induction js arbitrary: f) auto

lemma fold_upd_in:
  "distinct (map jID js) \<Longrightarrow> j \<in> set js \<Longrightarrow> fold (\<lambda>j m. m(jID j \<mapsto> j)) js f (jID j) = Some j"
proof (induction js arbitrary: f)
  case (Cons x js)
  show ?case
  proof (cases "j = x")
    case True
    with Cons.prems have "jID j \<notin> jID ` set js" by auto
    with True fold_upd_other [of "jID j" js "f(jID x \<mapsto> x)"] show ?thesis by (simp del: fun_upd_apply) simp
  qed (use Cons in auto)
qed simp

lemma fold_upd_cases:
  assumes "fold (\<lambda>j m. m(jID j \<mapsto> j)) js f k = Some x" "distinct (map jID js)"
  obtains "x \<in> set js" "jID x = k" | "k \<notin> jID ` set js" "f k = Some x"
proof (cases "k \<in> jID ` set js")
  case True
  then obtain j where "j \<in> set js" "jID j = k" by auto
  with fold_upd_in [OF assms(2), of j f] assms(1) that(1) show thesis by auto
next
  case False
  with fold_upd_other [OF False, of f] assms(1) that(2) show thesis by auto
qed

text \<open>Ids of created jobs are new.\<close>

lemma new_ids_fresh:
  assumes "uuid_fresh uuid" "ids_ok uuid v" "new_ids uuid (vUUID v) n js" "j \<in> set js"
  shows "vJobs v (jID j) = None" "jID j \<noteq> []"
proof -
  from assms(3,4) obtain i where i: "vUUID v \<le> i" "jID j = uuid i" by (auto simp: new_ids_def)
  with assms(1) show "jID j \<noteq> []" by (simp add: uuid_fresh_def)
  show "vJobs v (jID j) = None"
  proof (rule ccontr)
    assume "vJobs v (jID j) \<noteq> None"
    then obtain x where "vJobs v (jID j) = Some x" by auto
    with assms(2) obtain i' where "i' < vUUID v" "jID j = uuid i'" by (auto simp: ids_ok_def)
    with i assms(1) show False by (metis injD leD uuid_fresh_def)
  qed
qed

lemma vinv_skip:
  assumes "vinv uuid v" "\<And>a. r a \<subseteq> vRunning v a" "vUUID v \<le> n"
  shows "vinv uuid (v\<lparr>vRunning := r, vUUID := n\<rparr>)"
proof -
  let ?v = "v\<lparr>vRunning := r, vUUID := n\<rparr>"
  have c: "child_of ?v = child_of v" by (auto simp: child_of_def fun_eq_iff)
  from assms(1) have i: "ids_ok uuid v" and p: "parents_ok v" and r: "running_ok v" and s: "sent_ok v" and f: "fanout_ok v"
    by (simp_all add: vinv_def)
  from i have "ids_ok uuid ?v" using assms(3) unfolding ids_ok_def by simp (metis order.strict_trans2)
  moreover from r have "running_ok ?v" using assms(2) unfolding running_ok_def c by (fastforce simp: subset_iff)
  moreover have "parents_ok ?v" "sent_ok ?v" "fanout_ok ?v"
    using p s f unfolding parents_ok_def sent_ok_def fanout_ok_def c by simp_all
  ultimately show ?thesis by (simp add: vinv_def)
qed

text \<open>An update of one job that keeps its identity.\<close>

definition same_job :: "Job \<Rightarrow> Job \<Rightarrow> bool" where
  "same_job j j' \<longleftrightarrow> jID j' = jID j \<and> jParentID j' = jParentID j \<and> jAgentID j' = jAgentID j"

lemma child_of_upd:
  assumes "vJobs v k = Some j" "jID j = k" "same_job j j'"
  shows "child_of (v\<lparr>vJobs := (vJobs v)(k \<mapsto> j')\<rparr>) p c \<longleftrightarrow>
         (if jID c = k then c = j' \<and> jParentID j = p else child_of v p c)"
  using assms by (auto simp: child_of_def same_job_def)


lemma fanout_okD:
  assumes "fanout_ok v" "vJobs v k = Some p" "child_of v k c"
  shows "terminalJobStatus (jStatus p) \<Longrightarrow> terminalJobStatus (jStatus c)"
    and "jStatus p = JobSucceeded \<Longrightarrow> \<exists>d. child_of v k d \<and> jStatus d = JobSucceeded"
  using assms by (auto simp: fanout_ok_def)

lemma parents_okD:
  assumes "parents_ok v" "child_of v k c" "k \<noteq> []"
  shows "\<exists>p. vJobs v k = Some p \<and> jParentID p = [] \<and> jAgentID p = [] \<and> jStatus p \<noteq> JobQueued"
  using assms by (auto simp: parents_ok_def child_of_def)

text \<open>A job whose id is empty does not exist, so no stored job is its child.\<close>

lemma key_nonempty: "uuid_fresh uuid \<Longrightarrow> ids_ok uuid v \<Longrightarrow> vJobs v k = Some j \<Longrightarrow> k \<noteq> []"
  by (metis ids_ok_def uuid_fresh_def)

lemma vinv_upd:
  assumes u: "uuid_fresh uuid" and inv: "vinv uuid v" and k: "vJobs v k = Some j"
    and same: "same_job j j'" and nq: "jStatus j' \<noteq> JobQueued"
    and live: "\<not> terminalJobStatus (jStatus j)"
    and fin: "terminalJobStatus (jStatus j') \<Longrightarrow> \<forall>c. child_of v k c \<longrightarrow> terminalJobStatus (jStatus c)"
    and succ: "jStatus j' = JobSucceeded \<Longrightarrow> (\<exists>c. child_of v k c) \<Longrightarrow> \<exists>c. child_of v k c \<and> jStatus c = JobSucceeded"
  shows "vinv uuid (v\<lparr>vJobs := (vJobs v)(k \<mapsto> j')\<rparr>)" (is "vinv uuid ?v")
proof -
  from inv have i: "ids_ok uuid v" and p: "parents_ok v" and r: "running_ok v" and s: "sent_ok v" and f: "fanout_ok v"
    by (simp_all add: vinv_def)
  from i k have jk: "jID j = k" by (auto simp: ids_ok_def)
  have kne: "k \<noteq> []" by (rule key_nonempty [OF u i k])
  note co = child_of_upd [OF k jk same]
  have ids: "ids_ok uuid ?v" using i k same by (auto simp: ids_ok_def same_job_def)
  have own: "\<not> child_of v k j"
  proof
    assume "child_of v k j"
    with parents_okD [OF p this kne] k kne show False by (auto simp: child_of_def)
  qed
  have parents: "parents_ok ?v"
    unfolding parents_ok_def
  proof (intro allI impI)
    fix l x assume x: "vJobs ?v l = Some x" and ne: "jParentID x \<noteq> []"
    obtain y where y: "vJobs v l = Some y" "jParentID y = jParentID x"
      using x k same by (cases "l = k") (auto simp: same_job_def)
    with p ne obtain q where q: "vJobs v (jParentID x) = Some q" "jParentID q = []" "jAgentID q = []" "jStatus q \<noteq> JobQueued"
      by (metis parents_ok_def)
    then show "\<exists>p. vJobs ?v (jParentID x) = Some p \<and> jParentID p = [] \<and> jAgentID p = [] \<and> jStatus p \<noteq> JobQueued"
      using k same nq by (cases "jParentID x = k") (auto simp: same_job_def)
  qed
  have nochild: "(\<exists>c. child_of ?v l c) \<Longrightarrow> \<exists>c. child_of v l c" for l
    using k jk unfolding co by (metis child_of_def)
  have running: "running_ok ?v"
    unfolding running_ok_def
  proof (intro allI impI conjI)
    fix a l assume l: "l \<in> vRunning ?v a"
    with r obtain x where x: "vJobs v l = Some x" "jAgentID x = a" "jStatus x \<noteq> JobQueued" and "\<forall>c. \<not> child_of v l c"
      by (auto simp: running_ok_def)
    then show "\<exists>j. vJobs ?v l = Some j \<and> jAgentID j = a \<and> jStatus j \<noteq> JobQueued"
      using k same nq by (cases "l = k") (auto simp: same_job_def)
    show "\<not> child_of ?v l c" for c using nochild [of l] \<open>\<forall>c. \<not> child_of v l c\<close> by blast
  qed
  have sent: "sent_ok ?v" using s nq by (auto simp: sent_ok_def)
  have fan: "fanout_ok ?v"
    unfolding fanout_ok_def
  proof (intro allI impI)
    fix l q c assume q: "vJobs ?v l = Some q" and c: "child_of ?v l c"
    show "(terminalJobStatus (jStatus q) \<longrightarrow> terminalJobStatus (jStatus c))
        \<and> (jStatus q = JobSucceeded \<longrightarrow> (\<exists>d. child_of ?v l d \<and> jStatus d = JobSucceeded))"
    proof (cases "l = k")
      case True
      have cv: "child_of v k c" using own c True k jk unfolding co by (metis child_of_def)
      have keep: "child_of v k d \<Longrightarrow> child_of ?v k d" for d
        using own k by (auto simp: co child_of_def)
      from True q have "q = j'" by simp
      with fin succ cv keep True show ?thesis by blast
    next
      case False
      with q have qv: "vJobs v l = Some q" by simp
      obtain c0 where c0: "child_of v l c0" "c0 = (if jID c = k then j else c)"
        using c k jk same by (auto simp: co child_of_def same_job_def split: if_splits)
      have "terminalJobStatus (jStatus q) \<Longrightarrow> terminalJobStatus (jStatus c)"
        using fanout_okD(1) [OF f qv c0(1)] c0(2) live by (auto split: if_splits)
      moreover have "\<exists>d. child_of ?v l d \<and> jStatus d = JobSucceeded" if "jStatus q = JobSucceeded"
      proof -
        from fanout_okD(2) [OF f qv c0(1) that] obtain d where d: "child_of v l d" "jStatus d = JobSucceeded" by blast
        with live k have "jID d \<noteq> k" by (auto simp: child_of_def terminalJobStatus_def)
        with d show ?thesis by (auto simp: co)
      qed
      ultimately show ?thesis by blast
    qed
  qed
  from ids parents running sent fan show ?thesis by (simp add: vinv_def)
qed


text \<open>A job that exists is no parent of a job that is created.\<close>

lemma create_parent:
  assumes "roots js \<or> fanout js" "x \<in> set js" "jParentID x \<noteq> []"
  shows "\<exists>q\<in>set js. jID q = jParentID x \<and> jParentID q = [] \<and> jAgentID q = [] \<and> jStatus q = JobRunning"
  using assms by (auto simp: roots_def fanout_def list_all_iff split: list.splits)

lemma child_of_create:
  assumes u: "uuid_fresh uuid" and i: "ids_ok uuid v" and shape: "roots js \<or> fanout js"
    and new: "new_ids uuid (vUUID v) n js"
    and c: "child_of (v\<lparr>vJobs := fold (\<lambda>j m. m(jID j \<mapsto> j)) js (vJobs v), vUUID := n\<rparr>) k c"
    and k: "vJobs v k \<noteq> None \<or> c \<notin> set js" "k \<noteq> []"
  shows "child_of v k c"
proof -
  from new have d: "distinct (map jID js)" by (simp add: new_ids_def)
  from c have p: "jParentID c = k" and get: "fold (\<lambda>j m. m(jID j \<mapsto> j)) js (vJobs v) (jID c) = Some c"
    by (simp_all add: child_of_def)
  have "c \<notin> set js"
  proof
    assume c: "c \<in> set js"
    with create_parent [OF shape c] p k(2) obtain q where "q \<in> set js" "jID q = k" by auto
    with new_ids_fresh(1) [OF u i new, of q] k(1) c show False by auto
  qed
  with fold_upd_cases [OF get d] p show ?thesis by (auto simp: child_of_def)
qed

lemma vinv_create:
  assumes u: "uuid_fresh uuid" and inv: "vinv uuid v" and shape: "roots js \<or> fanout js"
    and new: "new_ids uuid (vUUID v) n js"
  shows "vinv uuid (v\<lparr>vJobs := fold (\<lambda>j m. m(jID j \<mapsto> j)) js (vJobs v), vUUID := n\<rparr>)" (is "vinv uuid ?v")
proof -
  from inv have i: "ids_ok uuid v" and p: "parents_ok v" and r: "running_ok v" and s: "sent_ok v" and f: "fanout_ok v"
    by (simp_all add: vinv_def)
  from new have d: "distinct (map jID js)" and n: "vUUID v \<le> n" by (auto simp: new_ids_def)
  note fresh = new_ids_fresh [OF u i new]
  define w where "w = ?v"
  have [simp]: "vRunning w = vRunning v" "vSent w = vSent v" "vUUID w = n" by (simp_all add: w_def)
  have keep: "vJobs w k = Some x" if "vJobs v k = Some x" for k x
    using that fold_upd_other [of k js "vJobs v"] fresh by (fastforce simp: w_def)
  have new_in: "vJobs w (jID x) = Some x" if "x \<in> set js" for x
    using fold_upd_in [OF d that] by (simp add: w_def)
  have cases: "x \<in> set js \<and> jID x = k \<or> vJobs v k = Some x" if "vJobs w k = Some x" for k x
    using that by (auto simp: w_def elim: fold_upd_cases [OF _ d])
  have parent_new: "\<exists>q\<in>set js. jID q = jParentID x \<and> jParentID q = [] \<and> jAgentID q = [] \<and> jStatus q = JobRunning"
    if "x \<in> set js" "jParentID x \<noteq> []" for x
    by (rule create_parent [OF shape that])
  have "ids_ok uuid w"
    unfolding ids_ok_def
  proof (intro allI impI)
    fix k x assume "vJobs w k = Some x"
    with cases [OF this] i new n show "jID x = k \<and> (\<exists>i<vUUID w. k = uuid i)"
      by (auto simp: ids_ok_def new_ids_def) (metis order.strict_trans2)
  qed
  moreover have "parents_ok w"
    unfolding parents_ok_def
  proof (intro allI impI)
    fix k x assume x: "vJobs w k = Some x" and ne: "jParentID x \<noteq> []"
    from cases [OF x]
    show "\<exists>p. vJobs w (jParentID x) = Some p \<and> jParentID p = [] \<and> jAgentID p = [] \<and> jStatus p \<noteq> JobQueued"
    proof
      assume "x \<in> set js \<and> jID x = k"
      with parent_new [OF _ ne] obtain q where "q \<in> set js" "jID q = jParentID x" "jParentID q = []" "jAgentID q = []"
        "jStatus q = JobRunning" by blast
      with new_in [of q] show ?thesis by auto
    next
      assume "vJobs v k = Some x"
      with p ne obtain q where "vJobs v (jParentID x) = Some q" "jParentID q = []" "jAgentID q = []"
        "jStatus q \<noteq> JobQueued" unfolding parents_ok_def by blast
      with keep show ?thesis by blast
    qed
  qed
  moreover note child_old = child_of_create [OF u i shape new, folded w_def]
  have "running_ok w"
    unfolding running_ok_def
  proof (intro allI impI conjI)
    fix a k assume "k \<in> vRunning w a"
    with r obtain x where x: "vJobs v k = Some x" "jAgentID x = a" "jStatus x \<noteq> JobQueued" "\<forall>c. \<not> child_of v k c"
      by (auto simp: running_ok_def)
    then show "\<exists>j. vJobs w k = Some j \<and> jAgentID j = a \<and> jStatus j \<noteq> JobQueued" using keep by blast
    show "\<not> child_of w k c" for c using child_old x key_nonempty [OF u i x(1)] by blast
  qed
  moreover have "sent_ok w" using s keep unfolding sent_ok_def by auto
  moreover have "fanout_ok w"
    unfolding fanout_ok_def
  proof (intro allI impI)
    fix k q c assume q: "vJobs w k = Some q" and c: "child_of w k c"
    from cases [OF q] fresh key_nonempty [OF u i] have kne: "k \<noteq> []" by blast
    show "(terminalJobStatus (jStatus q) \<longrightarrow> terminalJobStatus (jStatus c))
        \<and> (jStatus q = JobSucceeded \<longrightarrow> (\<exists>d. child_of w k d \<and> jStatus d = JobSucceeded))"
    proof (cases "vJobs v k")
      case None
      from cases [OF q] None have qn: "q \<in> set js" "jID q = k" by auto
      have "\<not> child_of v k c" using parents_okD [OF p _ kne] None by auto
      with child_old [OF c _ kne] have "c \<in> set js" by blast
      with parent_new [of c] c kne qn new_in have "jStatus q = JobRunning" by (metis child_of_def option.inject)
      then show ?thesis by (simp add: terminalJobStatus_def)
    next
      case (Some q')
      with keep q have "vJobs v k = Some q" by fastforce
      moreover have "child_of v k c" using child_old [OF c _ kne] Some by blast
      ultimately show ?thesis using fanout_okD [OF f, of k q c] keep unfolding child_of_def by blast
    qed
  qed
  ultimately have "vinv uuid w" by (simp add: vinv_def)
  then show ?thesis by (simp add: w_def)
qed

text \<open>Marking a job of an agent as running, and recording that it was sent.\<close>

lemma vinv_mark:
  assumes inv: "vinv uuid v" and j: "vJobs v k = Some j" "jAgentID j = a" "jStatus j \<noteq> JobQueued"
    and "\<And>c. \<not> child_of v k c" and "vUUID v \<le> n" and "xs = [] \<or> xs = [k] \<and> k \<notin> set (vSent v)"
  shows "vinv uuid (v\<lparr>vRunning := (vRunning v)(a := insert k (vRunning v a)), vSent := vSent v @ xs, vUUID := n\<rparr>)"
    (is "vinv uuid ?v")
proof -
  have c: "child_of ?v = child_of v" by (auto simp: child_of_def fun_eq_iff)
  from inv have i: "ids_ok uuid v" and p: "parents_ok v" and r: "running_ok v" and s: "sent_ok v" and f: "fanout_ok v"
    by (simp_all add: vinv_def)
  from i have "ids_ok uuid ?v" using assms(6) unfolding ids_ok_def by simp (metis order.strict_trans2)
  moreover from r have "running_ok ?v" using assms(2-5) unfolding running_ok_def c by auto
  moreover from s have "sent_ok ?v" using assms(2-4,7) unfolding sent_ok_def by auto
  moreover have "parents_ok ?v" "fanout_ok ?v" using p f unfolding parents_ok_def fanout_ok_def c by simp_all
  ultimately show ?thesis by (simp add: vinv_def)
qed


lemma no_child_of_queued: "parents_ok v \<Longrightarrow> vJobs v k = Some j \<Longrightarrow> jStatus j = JobQueued \<Longrightarrow> k \<noteq> [] \<Longrightarrow> \<not> child_of v k c"
  using parents_okD by fastforce

lemma started_simps [simp]:
  "jStatus (started now j) = JobRunning" "same_job j (started now j)" "jAgentID (started now j) = jAgentID j"
  "jID (started now j) = jID j" "jParentID (started now j) = jParentID j" "jTool (started now j) = jTool j"
  "jTarget (started now j) = jTarget j" "jCreatedAt (started now j) = jCreatedAt j"
  by (simp_all add: started_def same_job_def)

lemma set_job_status_simps [simp]:
  "jStatus (set_job_status now st msg j) = st" "same_job j (set_job_status now st msg j)"
  "jID (set_job_status now st msg j) = jID j" "jParentID (set_job_status now st msg j) = jParentID j"
  "jAgentID (set_job_status now st msg j) = jAgentID j" "jTool (set_job_status now st msg j) = jTool j"
  "jTarget (set_job_status now st msg j) = jTarget j" "jCreatedAt (set_job_status now st msg j) = jCreatedAt j"
  by (simp_all add: set_job_status_def same_job_def)

lemma vinv_start:
  assumes u: "uuid_fresh uuid" and inv: "vinv uuid v" and k: "vJobs v k = Some j" "jStatus j = JobQueued"
    and n: "vUUID v \<le> n"
  shows "vinv uuid (v\<lparr>vJobs := (vJobs v)(k \<mapsto> started now j),
                      vRunning := (vRunning v)(jAgentID j := insert k (vRunning v (jAgentID j))),
                      vSent := vSent v @ (if sent then [k] else []), vUUID := n\<rparr>)"
proof -
  from inv have i: "ids_ok uuid v" and p: "parents_ok v" and s: "sent_ok v" by (simp_all add: vinv_def)
  note none = no_child_of_queued [OF p k key_nonempty [OF u i k(1)]]
  let ?w = "v\<lparr>vJobs := (vJobs v)(k \<mapsto> started now j)\<rparr>"
  have w: "vinv uuid ?w"
    by (rule vinv_upd [OF u inv k(1)]) (use none k(2) in \<open>auto simp: terminalJobStatus_def\<close>)
  have "jID j = k" using i k(1) by (auto simp: ids_ok_def)
  with child_of_upd [OF k(1), of "started now j" k] none k have "\<not> child_of ?w k c" for c
    by (auto simp: child_of_def split: if_splits)
  moreover have "k \<notin> set (vSent v)" using s k by (auto simp: sent_ok_def)
  ultimately show ?thesis
    using vinv_mark [OF w, of k "started now j" "jAgentID j" n "if sent then [k] else []"] n by simp
qed

lemma vinv_step:
  assumes u: "uuid_fresh uuid" and inv: "vinv uuid v" and st: "vstep uuid v v'"
  shows "vinv uuid v'"
  using st
proof cases
  case (v_skip r n)
  with vinv_skip [OF inv] show ?thesis by simp
next
  case (v_create js n)
  with vinv_create [OF u inv] show ?thesis by simp
next
  case (v_start k j a n sent now)
  with vinv_start [OF u inv v_start(2,3,5)] show ?thesis by blast
next
  case (v_finish k j st now msg)
  have "vinv uuid (v\<lparr>vJobs := (vJobs v)(k \<mapsto> set_job_status now st msg j)\<rparr>)"
    by (rule vinv_upd [OF u inv v_finish(2)]) (use v_finish in auto)
  with v_finish(1) show ?thesis by simp
qed

lemma vprogress_refl: "vprogress v v"
  by (auto simp: vprogress_def job_progress_def)

lemma job_progress_trans: "job_progress a b \<Longrightarrow> job_progress b c \<Longrightarrow> job_progress a c"
  by (cases "jStatus a"; cases "jStatus b") (auto simp: job_progress_def terminalJobStatus_def)

lemma vprogress_jobD: "vprogress v w \<Longrightarrow> vJobs v k = Some j \<Longrightarrow> \<exists>j'. vJobs w k = Some j' \<and> job_progress j j'"
  by (simp add: vprogress_def)

lemma vprogress_trans:
  assumes "vprogress u v" "vprogress v w"
  shows "vprogress u w"
proof -
  have "\<exists>j'. vJobs w k = Some j' \<and> job_progress j j'" if "vJobs u k = Some j" for k j
    using vprogress_jobD [OF assms(1) that] vprogress_jobD [OF assms(2)] job_progress_trans by blast
  moreover have "\<exists>c0. child_of u k c0 \<and> jID c0 = jID c" if "vJobs u k \<noteq> None" "child_of w k c" for k c
  proof -
    from that(1) assms(1) have "vJobs v k \<noteq> None" using vprogress_jobD by fastforce
    with that(2) assms(2) obtain c1 where c1: "child_of v k c1" "jID c1 = jID c" unfolding vprogress_def by blast
    with that(1) assms(1) obtain c0 where "child_of u k c0" "jID c0 = jID c1" unfolding vprogress_def by blast
    with c1 show ?thesis by auto
  qed
  moreover have "\<exists>more. vSent w = vSent u @ more" using assms by (auto simp: vprogress_def)
  ultimately show ?thesis by (simp add: vprogress_def)
qed

lemma vprogress_upd:
  assumes "\<And>k j. vJobs v k = Some j \<Longrightarrow> vJobs w k = Some j \<or> (\<exists>j'. vJobs w k = Some j' \<and> job_progress j j')"
    and "\<And>k c. vJobs v k \<noteq> None \<Longrightarrow> child_of w k c \<Longrightarrow> \<exists>c0. child_of v k c0 \<and> jID c0 = jID c"
    and "vSent w = vSent v @ xs"
  shows "vprogress v w"
proof -
  have "job_progress j j" for j by (simp add: job_progress_def)
  with assms show ?thesis unfolding vprogress_def by metis
qed

lemma vprogress_job:
  assumes i: "ids_ok uuid v" and k: "vJobs v k = Some j" and p: "job_progress j j'"
    and w: "vJobs w = (vJobs v)(k \<mapsto> j')" and sent: "vSent w = vSent v @ xs"
  shows "vprogress v w"
proof (rule vprogress_upd [OF _ _ sent])
  show "vJobs w l = Some x \<or> (\<exists>x'. vJobs w l = Some x' \<and> job_progress x x')" if "vJobs v l = Some x" for l x
    using that k p by (auto simp: w)
  fix l c assume c: "child_of w l c"
  have jk: "jID j = k" using i k by (auto simp: ids_ok_def)
  with p have same: "same_job j j'" by (simp add: job_progress_def same_job_def)
  from c have "child_of (v\<lparr>vJobs := (vJobs v)(k \<mapsto> j')\<rparr>) l c" by (simp add: child_of_def w)
  then have "if jID c = k then c = j' \<and> jParentID j = l else child_of v l c" by (simp add: child_of_upd [OF k jk same])
  then show "\<exists>c0. child_of v l c0 \<and> jID c0 = jID c" using k jk by (metis child_of_def)
qed

lemma vprogress_step:
  assumes u: "uuid_fresh uuid" and inv: "vinv uuid v" and st: "vstep uuid v v'"
  shows "vprogress v v'"
proof -
  from inv have i: "ids_ok uuid v" by (simp add: vinv_def)
  from st show ?thesis
  proof cases
    case (v_skip r n)
    then show ?thesis using vprogress_refl [of v] by (simp add: vprogress_def child_of_def)
  next
    case (v_create js n)
    have "vJobs v' k = Some j" if "vJobs v k = Some j" for k j
      using that new_ids_fresh(1) [OF u i v_create(3)] fold_upd_other [of k js "vJobs v"] by (fastforce simp: v_create(1))
    moreover have "child_of v k c" if "vJobs v k \<noteq> None" "child_of v' k c" for k c
      using child_of_create [OF u i v_create(2,3), of k c] that key_nonempty [OF u i] by (auto simp: v_create(1))
    ultimately show ?thesis by (intro vprogress_upd [where xs = "[]"]) (blast | simp add: v_create(1))+
  next
    case (v_start k j a n sent now)
    then have "job_progress j (started now j)" by (simp add: job_progress_def terminalJobStatus_def)
    with v_start show ?thesis by (intro vprogress_job [OF i]) auto
  next
    case (v_finish k j st now msg)
    then have "job_progress j (set_job_status now st msg j)" by (auto simp: job_progress_def)
    with v_finish show ?thesis by (intro vprogress_job [where xs = "[]", OF i]) auto
  qed
qed

text \<open>The steps, the invariant and the order form a transition system for a source of fresh ids.\<close>

lemma vstep_system:
  assumes "uuid_fresh uuid"
  shows "transition_system (vstep uuid) (vinv uuid) vprogress"
  by unfold_locales (use assms vinv_step vprogress_step vprogress_refl vprogress_trans in blast)+

end
