(* ===== verification/HubFacts.thy ===== *)
theory HubFacts
  imports JobLife StoreFacts
begin

text \<open>
  The handlers of the hub refine the life cycle of jobs: from a state that satisfies the
  invariant, each handler is a sequence of steps of \<open>vstep\<close> (\<open>evolves\<close>). A handler that only
  stores and publishes events, forgets in-flight marks or updates agents is \<open>quiet\<close>.
\<close>


section \<open>Quiet operations\<close>

definition quiet :: "Sys \<Rightarrow> Sys \<Rightarrow> bool" where
  "quiet s t \<longleftrightarrow>
     jobs_of t = jobs_of s \<and> job_ids_sent (sysSent t) = job_ids_sent (sysSent s) \<and> sysUUID s \<le> sysUUID t
     \<and> (\<forall>a. set (running_of a (sysHub t)) \<subseteq> set (running_of a (sysHub s)))"

named_theorems quiet_intros "operations that leave the jobs alone"

lemma quiet_refl [simp, quiet_intros]: "quiet s s"
  by (simp add: quiet_def)

lemma quiet_trans: "quiet s t \<Longrightarrow> quiet t u \<Longrightarrow> quiet s u"
  unfolding quiet_def by fastforce

lemma quiet_jobs: "quiet s t \<Longrightarrow> jobs_of t = jobs_of s"
  by (simp add: quiet_def)

lemma quiet_fold: "(\<And>x t. quiet t (f x t)) \<Longrightarrow> quiet s (fold f xs s)"
  by (induction xs arbitrary: s) (auto intro: quiet_trans)

lemma quiet_store [quiet_intros]: "mJobs m = jobs_of s \<Longrightarrow> quiet s (set_store m s)"
  by (simp add: quiet_def)

lemma quiet_hub [quiet_intros]:
  "(\<And>a. set (running_of a h) \<subseteq> set (running_of a (sysHub s))) \<Longrightarrow> quiet s (s\<lparr>sysHub := h\<rparr>)"
  by (simp add: quiet_def)

lemma quiet_newUUID [quiet_intros]: "quiet s (snd (newUUID env s))"
  by (simp add: newUUID_def quiet_def)

lemma running_of_update [simp]:
  "running_of a (h\<lparr>hbRunning := r\<rparr>) = (case mget r a of None \<Rightarrow> [] | Some js \<Rightarrow> js)"
  "running_of a (h\<lparr>hbSubs := x1\<rparr>) = running_of a h" "running_of a (h\<lparr>hbMeta := x2\<rparr>) = running_of a h"
  "running_of a (h\<lparr>hbGrpcCancels := x3\<rparr>) = running_of a h" "running_of a (h\<lparr>hbInflightCancels := x4\<rparr>) = running_of a h"
  by (simp_all add: running_of_def)

lemma quiet_publish [quiet_intros]: "quiet s (publish event s)"
  by (auto simp: publish_def quiet_def split: option.splits)

lemma quiet_store_event [quiet_intros]: "quiet s (snd (store_event event s))"
proof (cases "AddJobEvent event (sysStore s)")
  case (Inr m)
  then have "quiet s (set_store m s)" by (auto simp: AddJobEvent_def quiet_def split: option.splits)
  with quiet_trans [OF this quiet_publish] Inr show ?thesis by (simp add: store_event_def)
qed (simp add: store_event_def)

lemma quiet_emitProgress [quiet_intros]: "quiet s (emitProgress env now jobID msg s)"
  using quiet_trans [OF quiet_newUUID quiet_store_event]
  by (simp add: emitProgress_def Let_def split: sum.splits prod.splits) (metis snd_conv)

lemma quiet_emitFailureMessage [quiet_intros]: "quiet s (emitFailureMessage env now jobID agentID msg s)"
  using quiet_trans [OF quiet_newUUID quiet_store_event]
  by (simp add: emitFailureMessage_def Let_def split: prod.splits) (metis snd_conv)

lemma quiet_emitStarted [quiet_intros]: "quiet s (emitStarted env now job s)"
  by (simp add: emitStarted_def quiet_emitProgress)

lemma quiet_clearInflight [quiet_intros]: "quiet s (clearInflight agentID jobID s)"
  by (auto simp: clearInflight_def quiet_def running_of_def Let_def split: option.splits if_splits)

lemma quiet_setInflightCancel [quiet_intros]: "quiet s (setInflightCancel jobID present s)"
  by (simp add: setInflightCancel_def quiet_def Let_def)

lemma quiet_cancelInflight [quiet_intros]: "quiet s (cancelInflight jobID s)"
  by (simp add: cancelInflight_def quiet_def Let_def)

lemma quiet_sendGRPCCancel [quiet_intros]: "quiet s (sendGRPCCancel agentID jobID s)"
  by (auto simp: sendGRPCCancel_def quiet_def split: option.splits)

lemma quiet_touchAgent [quiet_intros]: "quiet s (touchAgent now agentID s)"
  by (simp add: touchAgent_def quiet_def Let_def)

lemma quiet_ignore_err [quiet_intros]:
  "(\<And>m. r = Inr m \<Longrightarrow> mJobs m = jobs_of s) \<Longrightarrow> quiet s (ignore_err r s)"
  by (cases r) (simp_all add: ignore_err_def quiet_store)

lemma agent_ops_jobs:
  "TouchAgent now aid m = Inr m' \<Longrightarrow> mJobs m' = mJobs m"
  "MarkAgentOffline aid m = Inr m' \<Longrightarrow> mJobs m' = mJobs m"
  "UpdateScheduledJobRun now sched m = Inr m' \<Longrightarrow> mJobs m' = mJobs m"
  "mJobs (UpsertAgent a m) = mJobs m"
  "mJobs (snd (MarkStaleAgentsOffline now ttl m)) = mJobs m"
  by (auto simp: TouchAgent_def MarkAgentOffline_def UpdateScheduledJobRun_def UpsertAgent_def
      MarkStaleAgentsOffline_def Let_def split: option.splits)

lemma quiet_advance_schedule [quiet_intros]: "quiet s (advance_schedule now sched due s)"
  unfolding advance_schedule_def by (rule quiet_ignore_err) (rule agent_ops_jobs)


section \<open>Evolution\<close>

definition evolves :: "henv \<Rightarrow> Sys \<Rightarrow> Sys \<Rightarrow> bool" where
  "evolves env s t \<longleftrightarrow> (mwf (jobs_of s) \<longrightarrow> mwf (jobs_of t)) \<and> (vstep (heUUID env))\<^sup>*\<^sup>* (view s) (view t)"

definition sys_ok :: "henv \<Rightarrow> Sys \<Rightarrow> bool" where
  "sys_ok env s \<longleftrightarrow> mwf (jobs_of s) \<and> vinv (heUUID env) (view s)"

lemma evolves_refl [simp]: "evolves env s s"
  by (simp add: evolves_def)

lemma evolves_trans: "evolves env s t \<Longrightarrow> evolves env t u \<Longrightarrow> evolves env s u"
  by (auto simp: evolves_def)

lemma evolves_one:
  "mwf (jobs_of t) \<Longrightarrow> vstep (heUUID env) (view s) (view t) \<Longrightarrow> evolves env s t"
  by (simp add: evolves_def)

lemma quiet_evolves:
  assumes "quiet s t"
  shows "evolves env s t"
proof -
  have "view t = (view s)\<lparr>vRunning := vRunning (view t), vUUID := vUUID (view t)\<rparr>"
    using assms by (simp add: view_def quiet_def)
  moreover have "vstep (heUUID env) (view s) ((view s)\<lparr>vRunning := vRunning (view t), vUUID := vUUID (view t)\<rparr>)"
    by (rule v_skip) (use assms in \<open>simp_all add: view_def quiet_def\<close>)
  ultimately show ?thesis using quiet_jobs [OF assms] by (simp add: evolves_def r_into_rtranclp)
qed

lemma evolves_ok:
  assumes "uuid_fresh (heUUID env)" "sys_ok env s" "evolves env s t"
  shows "sys_ok env t" "vprogress (view s) (view t)"
proof -
  have ts: "transition_system (vstep (heUUID env)) (vinv (heUUID env)) vprogress"
    by (rule vstep_system [OF assms(1)])
  show "sys_ok env t" using assms(2,3) transition_system.inv_reachable [OF ts]
    by (auto simp: evolves_def sys_ok_def)
  show "vprogress (view s) (view t)" using assms(2,3) transition_system.progress_reachable [OF ts]
    by (auto simp: evolves_def sys_ok_def)
qed

lemma evolves_quiet: "evolves env s t \<Longrightarrow> quiet t u \<Longrightarrow> evolves env s u"
  using evolves_trans quiet_evolves by blast

lemma view_jobs [simp]: "vJobs (view s) = mget (jobs_of s)"
  by (simp add: view_def)

lemma GetJob_iff [simp]: "GetJob k m = Inr j \<longleftrightarrow> mget (mJobs m) k = Some j"
  by (simp add: GetJob_def split: option.splits)

lemma sys_okD:
  assumes "sys_ok env s"
  shows "mwf (jobs_of s)" "ids_ok (heUUID env) (view s)" "parents_ok (view s)" "running_ok (view s)"
    "sent_ok (view s)" "fanout_ok (view s)" "vinv (heUUID env) (view s)"
  using assms by (simp_all add: sys_ok_def vinv_def)

lemma job_id: "sys_ok env s \<Longrightarrow> mget (jobs_of s) k = Some j \<Longrightarrow> jID j = k"
  by (drule sys_okD(2)) (simp add: ids_ok_def)

lemma job_key: "uuid_fresh (heUUID env) \<Longrightarrow> sys_ok env s \<Longrightarrow> mget (jobs_of s) k = Some j \<Longrightarrow> k \<noteq> []"
  using key_nonempty [of "heUUID env" "view s"] sys_okD(2) [of env s] by simp

text \<open>The children that the store lists are the children of the specification.\<close>

lemma ListChildJobs_children:
  assumes "sys_ok env s"
  shows "c \<in> set (ListChildJobs k (sysStore s)) \<longleftrightarrow> child_of (view s) k c"
proof -
  have "c \<in> snd ` set (jobs_of s) \<longleftrightarrow> mget (jobs_of s) (jID c) = Some c"
  proof
    assume "c \<in> snd ` set (jobs_of s)"
    then obtain k where "(k, c) \<in> set (jobs_of s)" by auto
    with mget_iff [OF sys_okD(1) [OF assms]] have k: "mget (jobs_of s) k = Some c" by simp
    with job_id [OF assms k] show "mget (jobs_of s) (jID c) = Some c" by simp
  next
    assume "mget (jobs_of s) (jID c) = Some c"
    then have "(jID c, c) \<in> set (jobs_of s)" by (rule map_of_SomeD)
    then show "c \<in> snd ` set (jobs_of s)" by force
  qed
  then show ?thesis by (simp add: set_ListChildJobs child_of_def conj_commute)
qed

text \<open>An update of the status of a job that is not terminal is a step of the specification.\<close>

lemma UpdateJobStatus_finishes:
  assumes ok: "sys_ok env s" and j: "mget (jobs_of s) k = Some j" "\<not> terminalJobStatus (jStatus j)"
    and st: "st = JobFailed \<or> st = JobSucceeded"
    and fin: "\<And>c. child_of (view s) k c \<Longrightarrow> terminalJobStatus (jStatus c)"
    and succ: "st = JobSucceeded \<Longrightarrow> (\<exists>c. child_of (view s) k c) \<Longrightarrow> \<exists>c. child_of (view s) k c \<and> jStatus c = JobSucceeded"
    and upd: "UpdateJobStatus now k st msg (sysStore s) = Inr m"
  shows "evolves env s (set_store m s)"
proof (rule evolves_one)
  from upd j have m: "m = (sysStore s)\<lparr>mJobs := mput k (set_job_status now st msg j) (jobs_of s)\<rparr>"
    by (simp add: UpdateJobStatus_def)
  with sys_okD(1) [OF ok] show "mwf (jobs_of (set_store m s))" by simp
  have "view (set_store m s) = (view s)\<lparr>vJobs := (vJobs (view s))(k \<mapsto> set_job_status now st msg j)\<rparr>"
    by (auto simp: view_def m fun_eq_iff)
  then show "vstep (heUUID env) (view s) (view (set_store m s))"
    using v_finish [of "view s" k j st "heUUID env" now msg] j st fin succ by simp
qed

lemma completeParent_evolves:
  assumes u: "uuid_fresh (heUUID env)" and ok: "sys_ok env s"
  shows "evolves env s (completeParentIfDoneWithFailure env now parentID failureMsg emitFailure s)"
    (is "evolves env s ?t")
proof (cases "mget (jobs_of s) parentID")
  case None
  then show ?thesis by (simp add: completeParentIfDoneWithFailure_def GetJob_def)
next
  case (Some parent)
  let ?children = "ListChildJobs parentID (sysStore s)"
  note ch = ListChildJobs_children [OF ok, of _ parentID]
  define st where "st = (if list_ex (\<lambda>child. jStatus child = JobSucceeded) ?children then JobSucceeded else JobFailed)"
  define msg where "msg = (if list_ex (\<lambda>child. jStatus child = JobSucceeded) ?children then []
                         else if failureMsg = [] then ''one or more fanout jobs failed'' else failureMsg)"
  obtain m where m: "UpdateJobStatus now parentID st msg (sysStore s) = Inr m"
    using Some by (simp add: UpdateJobStatus_def)
  show ?thesis
  proof (cases "terminalJobStatus (jStatus parent) \<or> ?children = []
      \<or> \<not> list_all (\<lambda>child. terminalJobStatus (jStatus child)) ?children")
    case True
    with Some have "?t = s"
      by (elim disjE) (simp_all add: completeParentIfDoneWithFailure_def GetJob_def Let_def)
    then show ?thesis by simp
  next
    case False
    have "evolves env s (set_store m s)"
      by (rule UpdateJobStatus_finishes [OF ok Some _ _ _ _ m])
        (use False in \<open>auto simp: st_def ch [symmetric] list_all_iff list_ex_iff split: if_splits\<close>)
    moreover have "quiet (set_store m s) ?t"
      using False Some m
      by (simp add: completeParentIfDoneWithFailure_def GetJob_def flip: st_def msg_def)
        (simp add: Let_def st_def [symmetric] msg_def [symmetric] quiet_emitProgress
          quiet_trans [OF quiet_emitFailureMessage quiet_emitProgress])
    ultimately show ?thesis by (rule evolves_quiet)
  qed
qed

lemma completeParentIfDone_evolves:
  "uuid_fresh (heUUID env) \<Longrightarrow> sys_ok env s \<Longrightarrow> evolves env s (completeParentIfDone env now parentID s)"
  by (simp add: completeParentIfDone_def completeParent_evolves)

lemma evolves_then:
  "uuid_fresh (heUUID env) \<Longrightarrow> sys_ok env s \<Longrightarrow> evolves env s t \<Longrightarrow> (sys_ok env t \<Longrightarrow> evolves env t u) \<Longrightarrow> evolves env s u"
  using evolves_ok(1) evolves_trans by blast

lemma quiet_ok: "uuid_fresh (heUUID env) \<Longrightarrow> sys_ok env s \<Longrightarrow> quiet s t \<Longrightarrow> sys_ok env t"
  using evolves_ok(1) quiet_evolves by blast

text \<open>The end of a job without children: its status is written, then its parent completes or an event is sent.\<close>

lemma finish_evolves:
  assumes u: "uuid_fresh (heUUID env)" and ok: "sys_ok env s"
    and j: "mget (jobs_of s) k = Some j" "\<not> terminalJobStatus (jStatus j)"
    and st: "st = JobFailed \<or> st = JobSucceeded" and leaf: "\<And>c. \<not> child_of (view s) k c"
    and upd: "UpdateJobStatus now k st msg (sysStore s) = Inr m" and q: "quiet (set_store m s) t"
  shows "evolves env s (if b then completeParentIfDone env now p t else emitProgress env now k e t)"
proof -
  have "evolves env s t"
    by (rule evolves_quiet [OF UpdateJobStatus_finishes [OF ok j st _ _ upd] q]) (use leaf in auto)
  then show ?thesis
    by (rule evolves_then [OF u ok]) (simp add: completeParentIfDone_evolves [OF u] quiet_evolves quiet_emitProgress)
qed

lemma failJob_evolves:
  assumes u: "uuid_fresh (heUUID env)" and ok: "sys_ok env s0" and leaf: "\<And>c. \<not> child_of (view s0) jobID c"
  shows "evolves env s0 (failJob env now agentID jobID msg s0)"
proof -
  define s where "s = (if agentID \<noteq> [] then clearInflight agentID jobID s0 else s0)"
  have q: "quiet s0 s" by (simp add: s_def quiet_clearInflight)
  have oks: "sys_ok env s" by (rule quiet_ok [OF u ok q])
  have leaf': "\<not> child_of (view s) jobID c" for c using leaf quiet_jobs [OF q] by (simp add: child_of_def)
  have "evolves env s (failJob env now agentID jobID msg s0)"
  proof (cases "mget (jobs_of s) jobID")
    case None
    then show ?thesis by (simp add: failJob_def GetJob_def flip: s_def)
  next
    case (Some job)
    obtain m where m: "UpdateJobStatus now jobID JobFailed msg (sysStore s) = Inr m"
      using Some by (simp add: UpdateJobStatus_def)
    show ?thesis
    proof (cases "terminalJobStatus (jStatus job)")
      case False
      with Some m show ?thesis
        using finish_evolves [OF u oks Some False _ leaf' m quiet_emitFailureMessage]
        by (simp add: failJob_def GetJob_def Let_def flip: s_def split: if_splits)
    qed (use Some in \<open>simp add: failJob_def GetJob_def flip: s_def\<close>)
  qed
  with quiet_evolves [OF q] show ?thesis by (rule evolves_trans)
qed

lemma running_leaf: "sys_ok env s \<Longrightarrow> k \<in> set (running_of a (sysHub s)) \<Longrightarrow> \<not> child_of (view s) k c"
  by (drule sys_okD(4)) (auto simp: running_ok_def view_def)

lemma running_job:
  assumes "sys_ok env s" "k \<in> set (running_of a (sysHub s))"
  shows "\<exists>j. mget (jobs_of s) k = Some j \<and> jAgentID j = a \<and> jStatus j \<noteq> JobQueued"
proof -
  have "k \<in> vRunning (view s) a" using assms(2) by (simp add: view_def)
  with sys_okD(4) [OF assms(1)] show ?thesis unfolding running_ok_def by simp
qed


section \<open>Results\<close>

lemma owns_running: "agentOwnsJob agentID job h \<Longrightarrow> jID job \<in> set (running_of agentID h)"
  by (auto simp: agentOwnsJob_def running_of_def split: if_splits option.splits)

definition result_event :: "henv \<Rightarrow> time \<Rightarrow> string \<Rightarrow> ResultEvent \<Rightarrow> Job \<Rightarrow> WireEvent \<Rightarrow> Sys \<Rightarrow> JobEvent" where
  "result_event env now agentID ev job w s =
     \<lparr>eID = heUUID env (sysUUID s), eJobID = (if jParentID job \<noteq> [] then jParentID job else jID job),
      eAgentID = agentID, eStream = eventType (reEvent ev), eEvent = weEvent w, eExitCode = weExitCode w,
      eParsed = weParsed w, eCreatedAt = now\<rparr>"

definition result_status :: "int \<Rightarrow> JobStatus" where
  "result_status code = (if code \<noteq> 0 then JobFailed else JobSucceeded)"

definition result_error :: "int \<Rightarrow> WireEvent \<Rightarrow> string" where
  "result_error code w =
     (if code \<noteq> 0 then (if parsedFailureType (weParsed w) \<noteq> [] then parsedFailureType (weParsed w) else JobErrorToolFailed)
      else [])"

text \<open>The handler, one equation per branch.\<close>

lemma handleResult_unknown: "mget (jobs_of s) (reJobID ev) = None \<Longrightarrow> handleResult env now agentID ev s = s"
  by (simp add: handleResult_def GetJob_def)

lemma handleResult_ignored:
  "mget (jobs_of s) (reJobID ev) = Some job \<Longrightarrow>
   \<not> agentOwnsJob agentID job (sysHub s) \<or> terminalJobStatus (jStatus job)
     \<or> jobEventFromWire job (eventType (reEvent ev)) (reEvent ev) = Inl e \<Longrightarrow>
   handleResult env now agentID ev s = s"
  by (auto simp: handleResult_def GetJob_def Let_def)

lemma handleResult_accepted:
  assumes "mget (jobs_of s) (reJobID ev) = Some job" "agentOwnsJob agentID job (sysHub s)"
    "\<not> terminalJobStatus (jStatus job)" "jobEventFromWire job (eventType (reEvent ev)) (reEvent ev) = Inr w"
    "store_event (result_event env now agentID ev job w s) (snd (newUUID env s)) = (stored, s2)"
  shows "handleResult env now agentID ev s =
    (if \<not> stored then s2
     else case weExitCode w of
       None \<Rightarrow> s2
     | Some code \<Rightarrow>
         let s3 = clearInflight agentID (reJobID ev) s2
         in case UpdateJobStatus now (reJobID ev) (result_status code) (result_error code w) (sysStore s3) of
              Inl _ \<Rightarrow> s3
            | Inr m \<Rightarrow> if jParentID job \<noteq> [] then completeParentIfDone env now (jParentID job) (set_store m s3)
                      else emitProgress env now (reJobID ev) (progressMessageForStatus (result_status code)) (set_store m s3))"
  using assms
  by (cases stored; cases "weExitCode w")
    (simp_all add: handleResult_def GetJob_def Let_def newUUID_def result_event_def result_status_def result_error_def
      split: sum.splits)

lemma handleResult_evolves:
  assumes u: "uuid_fresh (heUUID env)" and ok: "sys_ok env s"
  shows "evolves env s (handleResult env now agentID ev s)"
proof (cases "mget (jobs_of s) (reJobID ev)")
  case None
  then show ?thesis by (simp add: handleResult_unknown)
next
  case (Some job)
  show ?thesis
  proof (cases "\<not> agentOwnsJob agentID job (sysHub s) \<or> terminalJobStatus (jStatus job)
      \<or> (\<exists>e. jobEventFromWire job (eventType (reEvent ev)) (reEvent ev) = Inl e)")
    case True
    then show ?thesis using handleResult_ignored [OF Some] by (metis evolves_refl)
  next
    case False
    then obtain w where own: "agentOwnsJob agentID job (sysHub s)" and live: "\<not> terminalJobStatus (jStatus job)"
      and w: "jobEventFromWire job (eventType (reEvent ev)) (reEvent ev) = Inr w"
      by (cases "jobEventFromWire job (eventType (reEvent ev)) (reEvent ev)") auto
    obtain stored s2 where st: "store_event (result_event env now agentID ev job w s) (snd (newUUID env s)) = (stored, s2)"
      by fastforce
    have q2: "quiet s s2"
      using quiet_trans [OF quiet_newUUID quiet_store_event] st by (metis snd_conv)
    note eq = handleResult_accepted [OF Some own live w st]
    show ?thesis
    proof (cases "stored \<and> weExitCode w \<noteq> None")
      case False
      then show ?thesis using quiet_evolves [OF q2] by (auto simp: eq)
    next
      case True
      then obtain code where code: "weExitCode w = Some code" by auto
      define s3 where "s3 = clearInflight agentID (reJobID ev) s2"
      have q3: "quiet s s3" unfolding s3_def by (rule quiet_trans [OF q2 quiet_clearInflight])
      have ok3: "sys_ok env s3" by (rule quiet_ok [OF u ok q3])
      have j3: "mget (jobs_of s3) (reJobID ev) = Some job" using Some quiet_jobs [OF q3] by simp
      have "jID job = reJobID ev" by (rule job_id [OF ok Some])
      with running_leaf [OF ok owns_running [OF own]] have leaf: "\<not> child_of (view s3) (reJobID ev) c" for c
        using quiet_jobs [OF q3] by (simp add: child_of_def)
      obtain m where m: "UpdateJobStatus now (reJobID ev) (result_status code) (result_error code w) (sysStore s3) = Inr m"
        using j3 by (simp add: UpdateJobStatus_def)
      have "evolves env s3 (handleResult env now agentID ev s)"
        using True code m finish_evolves [OF u ok3 j3 live _ leaf m quiet_refl]
        by (simp add: eq result_status_def Let_def flip: s3_def split: if_splits)
      with quiet_evolves [OF q3] show ?thesis by (rule evolves_trans)
    qed
  qed
qed


section \<open>Timeouts\<close>

text \<open>A state is reached by evolution while a list is worked off.\<close>

lemma fold_evolves:
  assumes u: "uuid_fresh (heUUID env)" and ok: "sys_ok env s"
    and f: "\<And>x t. x \<in> set xs \<Longrightarrow> sys_ok env t \<Longrightarrow> vprogress (view s) (view t) \<Longrightarrow> evolves env t (f x t)"
  shows "evolves env s (fold f xs s)"
proof -
  have "evolves env s t \<Longrightarrow> set ys \<subseteq> set xs \<Longrightarrow> evolves env s (fold f ys t)" for ys t
  proof (induction ys arbitrary: t)
    case (Cons y ys)
    from evolves_ok [OF u ok Cons.prems(1)] f [of y t] Cons.prems have "evolves env t (f y t)" by simp
    with Cons.prems(1) have "evolves env s (f y t)" by (rule evolves_trans)
    with Cons show ?case by simp
  qed simp
  then show ?thesis by simp
qed

lemma fail_child_evolves:
  assumes u: "uuid_fresh (heUUID env)" and ok: "sys_ok env s"
    and c: "mget (jobs_of s) (jID c) = Some c" and p: "jParentID c \<noteq> []"
  shows "evolves env s (fail_child now c s)"
    "k \<noteq> jID c \<Longrightarrow> mget (jobs_of (fail_child now c s)) k = mget (jobs_of s) k"
    "\<exists>c'. mget (jobs_of (fail_child now c s)) (jID c) = Some c' \<and> terminalJobStatus (jStatus c')"
proof -
  define s2 where "s2 = (let s1 = cancelInflight (jID c) s in
     if jAgentID c \<noteq> [] then clearInflight (jAgentID c) (jID c) (sendGRPCCancel (jAgentID c) (jID c) s1) else s1)"
  have q: "quiet s s2"
    by (simp add: s2_def Let_def quiet_cancelInflight
        quiet_trans [OF quiet_cancelInflight quiet_trans [OF quiet_sendGRPCCancel quiet_clearInflight]])
  have j2: "mget (jobs_of s2) (jID c) = Some c" using c quiet_jobs [OF q] by simp
  then obtain m where m: "UpdateJobStatus now (jID c) JobFailed JobErrorTimeout (sysStore s2) = Inr m"
    by (simp add: UpdateJobStatus_def)
  have eq: "fail_child now c s = (if terminalJobStatus (jStatus c) then s else set_store m s2)"
    by (simp add: fail_child_def Let_def m ignore_err_def s2_def [unfolded Let_def, symmetric])
  have leaf: "\<not> child_of (view s2) (jID c) x" for x
  proof
    assume "child_of (view s2) (jID c) x"
    with quiet_jobs [OF q] have "child_of (view s) (jID c) x" by (simp add: child_of_def)
    from parents_okD [OF sys_okD(3) [OF ok] this job_key [OF u ok c]] c p show False by simp
  qed
  show "evolves env s (fail_child now c s)"
  proof (cases "terminalJobStatus (jStatus c)")
    case False
    have "evolves env s2 (set_store m s2)"
      by (rule UpdateJobStatus_finishes [OF quiet_ok [OF u ok q] j2 False _ _ _ m]) (use leaf in auto)
    with False evolves_trans [OF quiet_evolves [OF q]] show ?thesis by (simp add: eq)
  qed (simp add: eq)
  from m j2 have "mJobs m = mput (jID c) (set_job_status now JobFailed JobErrorTimeout c) (jobs_of s)"
    using quiet_jobs [OF q] by (auto simp: UpdateJobStatus_def)
  then show "k \<noteq> jID c \<Longrightarrow> mget (jobs_of (fail_child now c s)) k = mget (jobs_of s) k"
    and "\<exists>c'. mget (jobs_of (fail_child now c s)) (jID c) = Some c' \<and> terminalJobStatus (jStatus c')"
    using c by (simp_all add: eq terminalJobStatus_def)
qed

lemma fail_children_evolves:
  assumes u: "uuid_fresh (heUUID env)"
  shows "sys_ok env s \<Longrightarrow> distinct (map jID cs) \<Longrightarrow> \<forall>c\<in>set cs. mget (jobs_of s) (jID c) = Some c \<and> jParentID c \<noteq> [] \<Longrightarrow>
    evolves env s (fold (fail_child now) cs s)"
proof (induction cs arbitrary: s)
  case (Cons c cs)
  then have c: "mget (jobs_of s) (jID c) = Some c" "jParentID c \<noteq> []" by auto
  note fc = fail_child_evolves [OF u Cons.prems(1) c]
  have "\<forall>x\<in>set cs. mget (jobs_of (fail_child now c s)) (jID x) = Some x \<and> jParentID x \<noteq> []"
  proof
    fix x assume x: "x \<in> set cs"
    from Cons.prems(2) have "jID c \<notin> jID ` set cs" by simp
    with x have "jID x \<noteq> jID c" by (metis imageI)
    with fc(2) [of "jID x" now] Cons.prems(3) x show "mget (jobs_of (fail_child now c s)) (jID x) = Some x \<and> jParentID x \<noteq> []"
      by simp
  qed
  with Cons.IH [OF evolves_ok(1) [OF u Cons.prems(1) fc(1)]] Cons.prems(2)
  have "evolves env (fail_child now c s) (fold (fail_child now) cs (fail_child now c s))" by simp
  with fc(1) show ?case using evolves_trans by fastforce
qed simp

lemma ListChildJobs_distinct: "sys_ok env s \<Longrightarrow> distinct (map jID (ListChildJobs k (sysStore s)))"
proof -
  assume ok: "sys_ok env s"
  have "map jID (map snd (jobs_of s)) = map fst (jobs_of s)"
    using job_id [OF ok] mget_iff [OF sys_okD(1) [OF ok]] by auto
  with sys_okD(1) [OF ok] have "distinct (map jID (map snd (jobs_of s)))" unfolding mwf_def by argo
  then have "distinct (map jID (filter (\<lambda>j. jParentID j = k) (map snd (jobs_of s))))" by (rule distinct_map_filter)
  then show "distinct (map jID (ListChildJobs k (sysStore s)))"
    by (simp add: ListChildJobs_def distinct_map)
qed

lemma deferFanout_evolves:
  "uuid_fresh (heUUID env) \<Longrightarrow> sys_ok env s \<Longrightarrow> evolves env s (snd (deferFanoutParentTimeout env now job s))"
  by (simp add: deferFanoutParentTimeout_def Let_def completeParentIfDone_evolves)

lemma deferFanout_False: "deferFanoutParentTimeout env now job s = (False, t) \<Longrightarrow> t = s"
  by (auto simp: deferFanoutParentTimeout_def Let_def split: if_splits)

lemma failFanoutChildren_evolves:
  assumes u: "uuid_fresh (heUUID env)" and ok: "sys_ok env s" and k: "mget (jobs_of s) (jID parent) \<noteq> None"
  shows "evolves env s (snd (failFanoutChildren now parent s))"
proof -
  from k job_key [OF u ok] have "jID parent \<noteq> []" by blast
  then have "\<forall>c\<in>set (ListChildJobs (jID parent) (sysStore s)). mget (jobs_of s) (jID c) = Some c \<and> jParentID c \<noteq> []"
    using ListChildJobs_children [OF ok, of _ "jID parent"] by (auto simp: child_of_def)
  with fail_children_evolves [OF u ok ListChildJobs_distinct [OF ok]]
  show ?thesis by (simp add: failFanoutChildren_def Let_def)
qed

lemma failFanoutChildren_leaf:
  assumes u: "uuid_fresh (heUUID env)" and ok: "sys_ok env s"
    and j: "mget (jobs_of s) (jID job) = Some j'" "job_progress job j'"
    and f: "failFanoutChildren now job s = (False, t)"
  shows "t = s" "\<not> child_of (view s) (jID job) c"
proof -
  from f show "t = s" by (auto simp: failFanoutChildren_def Let_def split: if_splits)
  from f consider "jParentID job \<noteq> [] \<or> jAgentID job \<noteq> []" | "ListChildJobs (jID job) (sysStore s) = []"
    by (auto simp: failFanoutChildren_def Let_def split: if_splits)
  then show "\<not> child_of (view s) (jID job) c"
  proof cases
    case 1
    with j(2) have "jParentID j' \<noteq> [] \<or> jAgentID j' \<noteq> []" by (auto simp: job_progress_def)
    with parents_okD [OF sys_okD(3) [OF ok] _ job_key [OF u ok j(1)]] j(1) show ?thesis by auto
  next
    case 2
    with ListChildJobs_children [OF ok, of c "jID job"] show ?thesis by simp
  qed
qed

lemma fail_timed_out_evolves:
  assumes u: "uuid_fresh (heUUID env)" and ok: "sys_ok env s"
    and j: "mget (jobs_of s) (jID job) = Some j'" "job_progress job j'"
  shows "evolves env s (fail_timed_out env now job s)"
proof (cases "deferFanoutParentTimeout env now job s")
  case (Pair deferred s1)
  have e1: "evolves env s s1" using deferFanout_evolves [OF u ok, of now job] Pair by simp
  show ?thesis
  proof (cases "deferred \<or> \<not> jobTimedOut now job s1")
    case True
    with Pair e1 show ?thesis by (auto simp: fail_timed_out_def split: bool.splits)
  next
    case False
    with Pair deferFanout_False have s1: "s1 = s" by fastforce
    obtain failed s2 where f: "failFanoutChildren now job s = (failed, s2)" by fastforce
    have e2: "evolves env s s2" using failFanoutChildren_evolves [OF u ok] j f by (metis option.distinct(1) snd_conv)
    have eq: "fail_timed_out env now job s =
        (if failed then completeParentIfDoneWithFailure env now (jID job) JobErrorTimeout True s2
         else failJob env now (jAgentID job) (jID job) JobErrorTimeout s2)"
      using False Pair s1 f by (simp add: fail_timed_out_def split: bool.splits)
    show ?thesis
    proof (cases failed)
      case True
      with eq evolves_then [OF u ok e2 completeParent_evolves [OF u]] show ?thesis by simp
    next
      case False
      with failFanoutChildren_leaf [OF u ok j, of now s2] f have "s2 = s" "\<And>c. \<not> child_of (view s) (jID job) c" by auto
      with eq False failJob_evolves [OF u ok] show ?thesis by simp
    qed
  qed
qed

lemma listed_job:
  assumes ok: "sys_ok env s" and "j \<in> set (ListActiveJobs n (sysStore s)) \<or> j \<in> set (ListQueuedJobs a caps pr n (sysStore s))"
  shows "mget (jobs_of s) (jID j) = Some j"
proof -
  from assms(2) have "j \<in> snd ` set (jobs_of s)"
    using active_jobs.list_op_sound queued_jobs.list_op_sound by fastforce
  then obtain k where "(k, j) \<in> set (jobs_of s)" by auto
  with mget_iff [OF sys_okD(1) [OF ok]] have "mget (jobs_of s) k = Some j" by simp
  with job_id [OF ok this] show ?thesis by simp
qed

lemma failTimedOutJobs_evolves:
  assumes u: "uuid_fresh (heUUID env)" and ok: "sys_ok env s"
  shows "evolves env s (failTimedOutJobs env now s)"
  unfolding failTimedOutJobs_def
proof (rule fold_evolves [OF u ok])
  fix job t assume "job \<in> set (ListActiveJobs 200 (sysStore s))" "sys_ok env t" and p: "vprogress (view s) (view t)"
  with listed_job [OF ok] have "mget (jobs_of s) (jID job) = Some job" by blast
  with p obtain j' where "mget (jobs_of t) (jID job) = Some j'" "job_progress job j'"
    using vprogress_jobD [OF p, of "jID job" job] by auto
  with fail_timed_out_evolves [OF u \<open>sys_ok env t\<close>] show "evolves env t (fail_timed_out env now job t)" by blast
qed


section \<open>Scheduled runs\<close>

text \<open>Whether an agent gets a run, and the run it gets.\<close>

definition run_allowed :: "henv \<Rightarrow> ScheduledJob \<Rightarrow> Sys \<Rightarrow> Agent \<Rightarrow> bool" where
  "run_allowed env sched s agent \<longleftrightarrow>
     is_ok (ValidateSchedule (heNet env) (hub_policiesForLabels (aLabels agent) s)
       \<lparr>rqTool = sTool sched, rqTarget = sTarget sched, rqArgs = sArgs sched, rqIPVersion = sIPVersion sched,
        rqAgentID = aID agent, rqResolveOnAgent = sResolveOnAgent sched\<rparr>)"

definition run_of :: "ScheduledJob \<Rightarrow> Job \<Rightarrow> Sys \<Rightarrow> Agent \<Rightarrow> string \<Rightarrow> Job" where
  "run_of sched job s agent rid =
     job\<lparr>jID := rid, jAgentID := aID agent,
         jArgs := Set_ServerArgs (hub_policiesForLabels (aLabels agent) s) (sTool sched) (sArgs sched)\<rparr>"

definition runs_inv :: "henv \<Rightarrow> ScheduledJob \<Rightarrow> Job \<Rightarrow> Sys \<Rightarrow> Agent set \<Rightarrow> Job list \<times> Sys \<Rightarrow> bool" where
  "runs_inv env sched job s0 seen acc \<longleftrightarrow>
     (case acc of (runs, s) \<Rightarrow>
        (\<exists>n. s = s0\<lparr>sysUUID := n\<rparr> \<and> new_ids (heUUID env) (sysUUID s0) n runs)
        \<and> distinct (map jAgentID runs)
        \<and> (\<forall>r\<in>set runs. \<exists>agent\<in>seen. run_allowed env sched s0 agent \<and> r = run_of sched job s0 agent (jID r))
        \<and> (\<forall>agent\<in>seen. run_allowed env sched s0 agent \<longrightarrow> aID agent \<in> jAgentID ` set runs))"

lemma hub_policies_uuid [simp]: "hub_policiesForLabels ls (s\<lparr>sysUUID := n\<rparr>) = hub_policiesForLabels ls s"
  by (simp add: hub_policiesForLabels_def)

lemma new_ids_add:
  assumes "uuid_fresh uuid" "new_ids uuid n0 n js" "jID j = uuid n"
  shows "new_ids uuid n0 (Suc n) (js @ [j])"
proof -
  have "jID j \<notin> jID ` set js"
  proof
    assume "jID j \<in> jID ` set js"
    then obtain x where "x \<in> set js" "jID x = uuid n" using assms(3) by auto
    with assms(2) obtain i where "i < n" "uuid i = uuid n" by (auto simp: new_ids_def)
    with assms(1) show False by (auto simp: uuid_fresh_def dest: injD)
  qed
  with assms(2,3) show ?thesis by (auto simp: new_ids_def less_Suc_eq)
qed

lemma add_run_inv:
  assumes u: "uuid_fresh (heUUID env)" and inv: "runs_inv env sched job s0 seen acc"
  shows "runs_inv env sched job s0 (insert agent seen) (add_run env sched job agent acc)"
proof -
  obtain runs s where acc: "acc = (runs, s)" by fastforce
  from inv obtain n where s: "s = s0\<lparr>sysUUID := n\<rparr>" and new: "new_ids (heUUID env) (sysUUID s0) n runs"
    and d: "distinct (map jAgentID runs)"
    and sound: "\<forall>r\<in>set runs. \<exists>agent\<in>seen. run_allowed env sched s0 agent \<and> r = run_of sched job s0 agent (jID r)"
    and compl: "\<forall>agent\<in>seen. run_allowed env sched s0 agent \<longrightarrow> aID agent \<in> jAgentID ` set runs"
    by (auto simp: runs_inv_def acc)
  show ?thesis
  proof (cases "aID agent \<in> jAgentID ` set runs \<or> \<not> run_allowed env sched s0 agent")
    case True
    then have "add_run env sched job agent acc = acc"
      by (auto simp: add_run_def acc s run_allowed_def Let_def)
    with True inv show ?thesis by (auto simp: runs_inv_def acc)
  next
    case False
    let ?r = "run_of sched job s0 agent (heUUID env n)"
    have eq: "add_run env sched job agent acc = (runs @ [?r], s0\<lparr>sysUUID := Suc n\<rparr>)"
      using False by (simp add: add_run_def acc s run_allowed_def run_of_def newUUID_def Let_def)
    have "new_ids (heUUID env) (sysUUID s0) (Suc n) (runs @ [?r])"
      by (rule new_ids_add [OF u new]) (simp add: run_of_def)
    moreover have "jAgentID ?r = aID agent" "?r = run_of sched job s0 agent (jID ?r)" by (simp_all add: run_of_def)
    ultimately show ?thesis using False d sound compl by (auto simp: runs_inv_def eq)
  qed
qed

lemma add_runs_inv:
  assumes u: "uuid_fresh (heUUID env)"
  shows "runs_inv env sched job s0 seen acc \<Longrightarrow>
    runs_inv env sched job s0 (seen \<union> set agents) (fold (add_run env sched job) agents acc)"
proof (induction agents arbitrary: seen acc)
  case (Cons a agents)
  from Cons.IH [OF add_run_inv [OF u Cons.prems, of a]] show ?case by simp
qed simp

lemma runs_inv_Nil: "runs_inv env sched job s {} ([], s)"
  by (auto simp: runs_inv_def new_ids_def intro: exI [of _ "sysUUID s"])

text \<open>The job that a schedule would run, before it is given to agents.\<close>

definition schedule_job :: "time \<Rightarrow> ScheduledJob \<Rightarrow> Set \<Rightarrow> string \<Rightarrow> string \<times> IPVersion \<Rightarrow> Job" where
  "schedule_job now sched policies jid target =
     \<lparr>jID = jid, jParentID = [], jScheduledID = sID sched, jScheduledRevision = sRevision sched,
      jTool = sTool sched, jTarget = sTarget sched, jResolvedTarget = fst target,
      jArgs = Set_ServerArgs policies (sTool sched) (sArgs sched), jIPVersion = snd target,
      jAgentID = [], jResolveOnAgent = sResolveOnAgent sched, jStatus = JobQueued,
      jCreatedAt = now, jUpdatedAt = now, jStartedAt = None, jCompletedAt = None, jError = []\<rparr>"

lemma run_schedule_eq:
  assumes "dueScheduleTargets sched now = due" "due \<noteq> []"
    "hub_policiesForLabels [AgentAllLabel] s = policies" "mget (byTool policies) (sTool sched) \<noteq> None"
    "schedule_target env policies sched = Some target"
    "s1 = s\<lparr>sysUUID := Suc (sysUUID s)\<rparr>"
    "fold (add_run env sched (schedule_job now sched policies (heUUID env (sysUUID s)) target))
       (concat (map (\<lambda>t. scheduledRunAgents sched t (snd target) (sysStore s)) due)) ([], s1) = (runs, s2)"
  shows "run_schedule env now sched s = advance_schedule now sched due (set_store (CreateJobs runs (sysStore s2)) s2)"
proof -
  have "CreateJobs [] m = m" for m by (simp add: CreateJobs_def)
  with assms show ?thesis
    by (cases target) (auto simp: run_schedule_def newUUID_def schedule_job_def Let_def)
qed

lemma mget_fold_mput: "mget (fold (\<lambda>j. mput (jID j) j) js m) = fold (\<lambda>j m. m(jID j \<mapsto> j)) js (mget m)"
proof (induction js arbitrary: m)
  case (Cons j js)
  have "mget (mput (jID j) j m) = (mget m)(jID j \<mapsto> j)" by (auto simp: fun_eq_iff)
  with Cons [of "mput (jID j) j m"] show ?case by simp
qed simp

lemma mwf_fold_mput: "mwf m \<Longrightarrow> mwf (fold (\<lambda>j. mput (jID j) j) js m)"
  by (induction js arbitrary: m) simp_all

lemma CreateJobs_evolves:
  assumes "sys_ok env s" "roots js \<or> fanout js" "new_ids (heUUID env) (sysUUID s) n js"
  shows "evolves env s (s\<lparr>sysUUID := n, sysStore := CreateJobs js (sysStore s)\<rparr>)"
proof (rule evolves_one)
  show "mwf (jobs_of (s\<lparr>sysUUID := n, sysStore := CreateJobs js (sysStore s)\<rparr>))"
    using sys_okD(1) [OF assms(1)] by (simp add: CreateJobs_def mwf_fold_mput)
  have "view (s\<lparr>sysUUID := n, sysStore := CreateJobs js (sysStore s)\<rparr>) =
      (view s)\<lparr>vJobs := fold (\<lambda>j m. m(jID j \<mapsto> j)) js (vJobs (view s)), vUUID := n\<rparr>"
    by (simp add: view_def CreateJobs_def mget_fold_mput)
  moreover have "new_ids (heUUID env) (vUUID (view s)) n js" using assms(3) by (simp add: view_def)
  ultimately show "vstep (heUUID env) (view s) (view (s\<lparr>sysUUID := n, sysStore := CreateJobs js (sysStore s)\<rparr>))"
    using v_create [OF assms(2), of "heUUID env" "view s" n] by simp
qed

lemma runs_roots: "runs_inv env sched (schedule_job now sched policies jid target) s0 seen (runs, s) \<Longrightarrow> roots runs"
  unfolding roots_def list_all_iff
proof
  fix r assume "runs_inv env sched (schedule_job now sched policies jid target) s0 seen (runs, s)" "r \<in> set runs"
  then obtain agent where "r = run_of sched (schedule_job now sched policies jid target) s0 agent (jID r)"
    by (auto simp: runs_inv_def)
  then show "jParentID r = [] \<and> (jStatus r = JobQueued \<or> jStatus r = JobFailed)"
    by (metis run_of_def schedule_job_def Job.simps)
qed

lemma run_schedule_evolves:
  assumes u: "uuid_fresh (heUUID env)" and ok: "sys_ok env s"
  shows "evolves env s (run_schedule env now sched s)"
proof -
  define policies where "policies = hub_policiesForLabels [AgentAllLabel] s"
  define due where "due = dueScheduleTargets sched now"
  define s1 where "s1 = s\<lparr>sysUUID := Suc (sysUUID s)\<rparr>"
  have q1: "quiet s s1" using quiet_newUUID [of s env] by (simp add: s1_def newUUID_def)
  show ?thesis
  proof (cases "due = [] \<or> mget (byTool policies) (sTool sched) = None \<or> schedule_target env policies sched = None")
    case True
    have "quiet s (run_schedule env now sched s)"
      using True quiet_trans [OF q1 quiet_advance_schedule] quiet_advance_schedule
      by (auto simp: run_schedule_def newUUID_def Let_def simp flip: policies_def due_def s1_def)
    then show ?thesis by (rule quiet_evolves)
  next
    case False
    then obtain target where t: "schedule_target env policies sched = Some target" by auto
    let ?job = "schedule_job now sched policies (heUUID env (sysUUID s)) target"
    obtain runs s2 where f: "fold (add_run env sched ?job)
        (concat (map (\<lambda>t. scheduledRunAgents sched t (snd target) (sysStore s)) due)) ([], s1) = (runs, s2)" by fastforce
    from add_runs_inv [OF u runs_inv_Nil, of sched ?job s1] f
    have inv: "runs_inv env sched ?job s1 (set (concat (map (\<lambda>t. scheduledRunAgents sched t (snd target) (sysStore s)) due))) (runs, s2)"
      by (metis sup_bot_left)
    then obtain n where s2: "s2 = s1\<lparr>sysUUID := n\<rparr>" and new: "new_ids (heUUID env) (sysUUID s1) n runs"
      by (auto simp: runs_inv_def)
    have "evolves env s1 (set_store (CreateJobs runs (sysStore s2)) s2)"
      using CreateJobs_evolves [OF quiet_ok [OF u ok q1] disjI1 [OF runs_roots [OF inv]] new] by (simp add: s2)
    then have "evolves env s (set_store (CreateJobs runs (sysStore s2)) s2)"
      by (rule evolves_trans [OF quiet_evolves [OF q1]])
    moreover have "run_schedule env now sched s = advance_schedule now sched due (set_store (CreateJobs runs (sysStore s2)) s2)"
      by (rule run_schedule_eq [OF due_def [symmetric] _ policies_def [symmetric] _ t s1_def f]) (use False in auto)
    ultimately show ?thesis using evolves_quiet [OF _ quiet_advance_schedule] by simp
  qed
qed

lemma runDueSchedules_evolves:
  "uuid_fresh (heUUID env) \<Longrightarrow> sys_ok env s \<Longrightarrow> evolves env s (runDueSchedules env now s)"
  unfolding runDueSchedules_def by (rule fold_evolves) (simp_all add: run_schedule_evolves)

lemma hub_tick_evolves:
  assumes u: "uuid_fresh (heUUID env)" and ok: "sys_ok env s"
  shows "evolves env s (hub_tick env now s)"
proof -
  define m where "m = snd (MarkStaleAgentsOffline now (offlineAfterSnapshot (sysHub s)) (sysStore s))"
  have "evolves env s (set_store m s)" by (rule quiet_evolves, rule quiet_store) (simp add: m_def agent_ops_jobs)
  from evolves_then [OF u ok this failTimedOutJobs_evolves [OF u]]
  have "evolves env s (failTimedOutJobs env now (set_store m s))" by blast
  from evolves_then [OF u ok this runDueSchedules_evolves [OF u]]
  have "evolves env s (runDueSchedules env now (failTimedOutJobs env now (set_store m s)))" by blast
  then show ?thesis by (simp add: hub_tick_def m_def case_prod_unfold)
qed


section \<open>Streams\<close>

lemma Connect_quiet: "quiet s (snd (Connect env now first s))"
  by (auto simp: Connect_def quiet_def running_of_def Let_def agent_ops_jobs split: option.splits)

lemma Disconnect_evolves:
  assumes u: "uuid_fresh (heUUID env)" and ok: "sys_ok env s"
  shows "evolves env s (Disconnect env now agentID s)"
proof -
  define h where "h = sysHub s"
  define s1 where "s1 = s\<lparr>sysHub := h\<lparr>hbMeta := mdel agentID (hbMeta h), hbRunning := mdel agentID (hbRunning h),
                            hbGrpcCancels := mdel agentID (hbGrpcCancels h)\<rparr>\<rparr>"
  have q1: "quiet s s1" unfolding s1_def by (rule quiet_hub) (auto simp: running_of_def h_def)
  define s2 where "s2 = fold (\<lambda>jobID. failJob env now agentID jobID ''agent disconnected'') (running_of agentID h) s1"
  have "evolves env s1 s2"
    unfolding s2_def
  proof (rule fold_evolves [OF u quiet_ok [OF u ok q1]])
    fix k t assume k: "k \<in> set (running_of agentID h)" and okt: "sys_ok env t" and p: "vprogress (view s1) (view t)"
    from running_job [OF ok k [unfolded h_def]] obtain j where j: "mget (jobs_of s) k = Some j" by blast
    have "\<not> child_of (view s1) k c" for c
      using running_leaf [OF ok k [unfolded h_def]] quiet_jobs [OF q1] by (simp add: child_of_def)
    moreover have "vJobs (view s1) k \<noteq> None" using j quiet_jobs [OF q1] by simp
    ultimately have "\<not> child_of (view t) k c" for c using p unfolding vprogress_def by blast
    then show "evolves env t (failJob env now agentID k ''agent disconnected'' t)" by (rule failJob_evolves [OF u okt])
  qed
  then have "evolves env s s2" by (rule evolves_trans [OF quiet_evolves [OF q1]])
  then have "evolves env s (ignore_err (MarkAgentOffline agentID (sysStore s2)) s2)"
    by (rule evolves_quiet) (rule quiet_ignore_err, rule agent_ops_jobs)
  then show ?thesis by (simp add: Disconnect_def Let_def s2_def s1_def h_def)
qed

lemma recv_message_evolves:
  assumes u: "uuid_fresh (heUUID env)" and ok: "sys_ok env s"
  shows "evolves env s (recv_message env now agentID msg s)"
proof -
  let ?s1 = "touchAgent now agentID s"
  have "quiet s (ignore_err (TouchAgent now agentID (sysStore ?s1)) ?s1)"
    by (rule quiet_trans [OF quiet_touchAgent quiet_ignore_err]) (rule agent_ops_jobs)
  then show ?thesis
    using handleResult_evolves [OF u ok]
    by (simp add: recv_message_def Let_def quiet_evolves split: option.splits)
qed

text \<open>The dispatch of a queued job is the start step of the specification.\<close>

lemma jobs_of_mark [simp]: "jobs_of (markInflight a k s) = jobs_of s" "sysSent (markInflight a k s) = sysSent s"
  "sysUUID (markInflight a k s) = sysUUID s"
  by (simp_all add: markInflight_def)

lemma running_mark: "set (running_of b (sysHub (markInflight a k s))) =
    (if b = a then insert k (set (running_of a (sysHub s))) else set (running_of b (sysHub s)))"
  by (cases "mget (hbRunning (sysHub s)) a") (auto simp: markInflight_def running_of_def)

lemma running_store_event [simp]: "running_of b (sysHub (snd (store_event e s))) = running_of b (sysHub s)"
  by (simp add: store_event_def publish_def split: sum.splits option.splits)

lemma running_emitProgress [simp]: "running_of b (sysHub (emitProgress env now k msg s)) = running_of b (sysHub s)"
  by (simp add: emitProgress_def newUUID_def Let_def split: sum.splits)

lemma running_emitStarted [simp]: "running_of b (sysHub (emitStarted env now job s)) = running_of b (sysHub s)"
  by (simp add: emitStarted_def)

lemma job_ids_sent_append: "job_ids_sent (xs @ [(a, MsgJob spec)]) = job_ids_sent xs @ [jsID spec]"
  by (simp add: job_ids_sent_def List.map_filter_def)

lemma jsID_toJobSpec [simp]: "jsID (toJobSpecWithPolicies job p policies) = jID job"
  "jsTool (toJobSpecWithPolicies job p policies) = jTool job"
  by (simp_all add: toJobSpecWithPolicies_def Let_def)

lemma claim_started:
  assumes "ClaimQueuedJob now k agentID m = (True, m')"
  obtains j where "mget (mJobs m) k = Some j" "jStatus j = JobQueued" "jAgentID j = agentID"
    "m' = m\<lparr>mJobs := mput k (started now j) (mJobs m)\<rparr>"
  using assms by (auto simp: ClaimQueuedJob_def started_def split: option.splits if_splits)

lemma claim_evolves:
  assumes ok: "sys_ok env s" and claim: "ClaimQueuedJob now k agentID (sysStore s) = (True, m)"
    and s1: "s1 = emitStarted env now job (markInflight agentID k (set_store m s))"
    and t: "t = (if sent then s1\<lparr>sysSent := sysSent s1 @ [(agentID, MsgJob spec)]\<rparr> else s1)" "jsID spec = k"
  shows "evolves env s t"
proof (rule evolves_one)
  from claim obtain j where j: "mget (jobs_of s) k = Some j" "jStatus j = JobQueued" "jAgentID j = agentID"
    and m: "m = (sysStore s)\<lparr>mJobs := mput k (started now j) (jobs_of s)\<rparr>" by (rule claim_started)
  have q: "quiet (markInflight agentID k (set_store m s)) s1" unfolding s1 by (rule quiet_emitStarted)
  then have jobs: "jobs_of s1 = mput k (started now j) (jobs_of s)" by (simp add: quiet_def m)
  with t(1) sys_okD(1) [OF ok] show "mwf (jobs_of t)" by simp
  have run: "set (running_of b (sysHub s1)) = (if b = agentID then insert k (set (running_of agentID (sysHub s)))
      else set (running_of b (sysHub s)))" for b by (simp add: s1 running_mark)
  from q have snt: "job_ids_sent (sysSent s1) = job_ids_sent (sysSent s)" by (simp add: quiet_def)
  have "view t = (view s)\<lparr>vJobs := (vJobs (view s))(k \<mapsto> started now j),
      vRunning := (vRunning (view s))(agentID := insert k (vRunning (view s) agentID)),
      vSent := vSent (view s) @ (if sent then [k] else []), vUUID := sysUUID t\<rparr>"
    using t by (auto simp: view_def jobs run snt fun_eq_iff job_ids_sent_append)
  moreover have "vUUID (view s) \<le> sysUUID t" using q t by (simp add: quiet_def view_def)
  ultimately show "vstep (heUUID env) (view s) (view t)"
    using v_start [of "view s" k j agentID "sysUUID t" "heUUID env" sent now] j by simp
qed

lemma dispatch_evolves:
  assumes ok: "sys_ok env s"
  shows "evolves env s (snd (dispatch_job env now send agentID policies job (alive, s)))"
proof -
  consider "dispatch_job env now send agentID policies job (alive, s) = (alive, s)"
    | p m where "alive" "mget (byTool policies) (jTool job) = Some p"
        "ClaimQueuedJob now (jID job) agentID (sysStore s) = (True, m)"
    by (cases alive; cases "mget (byTool policies) (jTool job)"; cases "ClaimQueuedJob now (jID job) agentID (sysStore s)";
        cases "fst (ClaimQueuedJob now (jID job) agentID (sysStore s))")
      (auto simp: dispatch_job_def)
  then show ?thesis
  proof cases
    case 2
    show ?thesis
      by (rule claim_evolves [OF ok 2(3) refl, where sent = "send (MsgJob (toJobSpecWithPolicies job p policies))"
            and spec = "toJobSpecWithPolicies job p policies" and job = job])
        (simp_all add: dispatch_job_def 2 Let_def)
  qed simp
qed

lemma send_tick_evolves:
  assumes u: "uuid_fresh (heUUID env)" and ok: "sys_ok env s"
  shows "evolves env s (snd (send_tick env now send agentID caps protocols s))"
proof -
  have "evolves env t (snd (fold (dispatch_job env now send agentID policies) jobs (alive, t)))"
    if "sys_ok env t" for policies jobs alive t
    using that
  proof (induction jobs arbitrary: alive t)
    case (Cons job jobs)
    obtain alive' t' where d: "dispatch_job env now send agentID policies job (alive, t) = (alive', t')" by fastforce
    have "evolves env t t'" using dispatch_evolves [OF Cons.prems] d by (metis snd_conv)
    then show ?case using evolves_then [OF u Cons.prems _ Cons.IH] d by simp
  qed simp
  moreover have "quiet s (ignore_err (MarkAgentOffline agentID (sysStore s)) s)"
    by (rule quiet_ignore_err) (rule agent_ops_jobs)
  ultimately show ?thesis using ok by (simp add: send_tick_def Let_def quiet_evolves)
qed

lemma send_cancel_quiet: "quiet s (snd (send_cancel send agentID s))"
  by (auto simp: send_cancel_def quiet_def Let_def job_ids_sent_def List.map_filter_def split: option.splits list.splits)

lemma ApplySettings_quiet: "quiet s (ApplySettings env settings s)"
  using NormalizeManagedSettings_counter [of "sysUUID s" "heUUID env" settings]
  by (auto simp: ApplySettings_def quiet_def Let_def running_of_def split: prod.splits)

lemma Subscribe_quiet: "quiet s (snd (SubscribeJob jobID s))" "quiet s (Unsubscribe jobID ch s)"
  by (auto simp: SubscribeJob_def Unsubscribe_def quiet_def Let_def split: option.splits)

end
