(* ===== verification/HTTPAgents.thy ===== *)
theory HTTPAgents
  imports Hub
begin

text \<open>
  Agents that are called over HTTP (\<^verbatim>\<open>internal/scheduler/http_agent.go\<close> and
  \<^verbatim>\<open>internal/version/version.go\<close>). For every configured agent a loop checks its health, takes
  its queued jobs and starts an invocation per job; an invocation posts the job, reads the events
  of the answer line by line and ends the job when the answer does not. What the network
  delivers is a parameter of the definitions: the answer to a health check, and for each attempt
  of an invocation the lines that were read and how the reading ended. A line is given as the
  JSON value it holds. Delays between attempts are left out.
\<close>


section \<open>Health\<close>

record httpAgentHealth =
  hhAgentID :: string
  hhCountry :: string
  hhRegion :: string
  hhProvider :: string
  hhISP :: string
  hhVersion :: string
  hhCapabilities :: "Tool list"
  hhProtocols :: ProtocolMask

record Info =
  inVersion :: string
  inCommit :: string
  inBuiltAt :: string

definition ShortCommit :: "string \<Rightarrow> string" where
  "ShortCommit commit = (if 8 < length commit then take 8 commit else commit)"

definition Current :: "Info \<Rightarrow> Info" where
  "Current build = build\<lparr>inCommit := ShortCommit (inCommit build)\<rparr>"

definition version_String :: "Info \<Rightarrow> string" where
  "version_String build =
     (let info = Current build in
      inVersion info @ (if inCommit info \<noteq> [] then '' '' @ inCommit info else [])
      @ (if inBuiltAt info \<noteq> [] then '' '' @ inBuiltAt info else []))"

definition versionInfoString :: "Info \<Rightarrow> string" where
  "versionInfoString info =
     (let out = TrimSpace (inVersion info) in
      if out = [] then []
      else out @ (if inCommit info \<noteq> [] then '' '' @ ShortCommit (inCommit info) else [])
           @ (if inBuiltAt info \<noteq> [] then '' '' @ inBuiltAt info else []))"

definition dec_Info :: "Info dec" where
  "dec_Info =
     dec_obj [''version'', ''commit'', ''built_at'']
       (\<lambda>f v i.
          if f = ''version'' then map_option (\<lambda>s. i\<lparr>inVersion := s\<rparr>) (dec_str v (inVersion i))
          else if f = ''commit'' then map_option (\<lambda>s. i\<lparr>inCommit := s\<rparr>) (dec_str v (inCommit i))
          else map_option (\<lambda>s. i\<lparr>inBuiltAt := s\<rparr>) (dec_str v (inBuiltAt i)))"

definition httpAgentHealthVersion :: "json option \<Rightarrow> string" where
  "httpAgentHealthVersion raw =
     (case raw of
        None \<Rightarrow> []
      | Some v \<Rightarrow>
          (case dec_str v [] of
             Some text \<Rightarrow> TrimSpace text
           | None \<Rightarrow>
               (case dec_Info v \<lparr>inVersion = [], inCommit = [], inBuiltAt = []\<rparr> of
                  None \<Rightarrow> []
                | Some info \<Rightarrow> TrimSpace (versionInfoString info))))"

text \<open>The anonymous struct of \<^verbatim>\<open>decodeHTTPAgentHealth\<close>: the status, the raw version, the agent.\<close>

record raw_health =
  rhStatus :: string
  rhVersion :: "json option"
  rhAgent :: httpAgentHealth

definition dec_mask :: "ProtocolMask dec" where
  "dec_mask v x =
     (case v of
        JNum q \<Rightarrow> if snd (quotient_of q) = 1 \<and> 0 \<le> fst (quotient_of q) \<and> fst (quotient_of q) < 256
                   then Some (of_int (fst (quotient_of q))) else None
      | JNull \<Rightarrow> Some x
      | _ \<Rightarrow> None)"

definition dec_health_agent :: "httpAgentHealth dec" where
  "dec_health_agent =
     dec_obj [''id'', ''country'', ''region'', ''provider'', ''isp'', ''capabilities'', ''protocols'']
       (\<lambda>f v a.
          if f = ''id'' then map_option (\<lambda>s. a\<lparr>hhAgentID := s\<rparr>) (dec_str v (hhAgentID a))
          else if f = ''country'' then map_option (\<lambda>s. a\<lparr>hhCountry := s\<rparr>) (dec_str v (hhCountry a))
          else if f = ''region'' then map_option (\<lambda>s. a\<lparr>hhRegion := s\<rparr>) (dec_str v (hhRegion a))
          else if f = ''provider'' then map_option (\<lambda>s. a\<lparr>hhProvider := s\<rparr>) (dec_str v (hhProvider a))
          else if f = ''isp'' then map_option (\<lambda>s. a\<lparr>hhISP := s\<rparr>) (dec_str v (hhISP a))
          else if f = ''capabilities''
          then map_option (\<lambda>cs. a\<lparr>hhCapabilities := cs\<rparr>) (dec_list dec_str [] v (hhCapabilities a))
          else map_option (\<lambda>m. a\<lparr>hhProtocols := m\<rparr>) (dec_mask v (hhProtocols a)))"

definition zero_health :: httpAgentHealth where
  "zero_health = \<lparr>hhAgentID = [], hhCountry = [], hhRegion = [], hhProvider = [], hhISP = [],
                  hhVersion = [], hhCapabilities = [], hhProtocols = 0\<rparr>"

definition dec_raw_health :: "raw_health dec" where
  "dec_raw_health =
     dec_obj [''status'', ''version'', ''agent'']
       (\<lambda>f v r.
          if f = ''status'' then map_option (\<lambda>s. r\<lparr>rhStatus := s\<rparr>) (dec_str v (rhStatus r))
          else if f = ''version'' then Some (r\<lparr>rhVersion := Some v\<rparr>)
          else map_option (\<lambda>a. r\<lparr>rhAgent := a\<rparr>) (dec_health_agent v (rhAgent r)))"

definition decodeHTTPAgentHealth :: "json option \<Rightarrow> httpAgentHealth res" where
  "decodeHTTPAgentHealth body =
     (case Option.bind body (\<lambda>b. dec_raw_health b \<lparr>rhStatus = [], rhVersion = None, rhAgent = zero_health\<rparr>) of
        None \<Rightarrow> Inl (Errorf ''decode http agent health: %w'' [])
      | Some raw \<Rightarrow>
          if TrimSpace (rhStatus raw) \<noteq> ''ok''
          then Inl (Errorf ''http agent health status %q is not ok'' [rhStatus raw])
          else Inr ((rhAgent raw)\<lparr>hhVersion := httpAgentHealthVersion (rhVersion raw)\<rparr>))"

text \<open>\<open>resp\<close> is the error of the request, or the status code and the body of the answer.\<close>

definition probeHTTPAgentHealth :: "(int \<times> json option) res \<Rightarrow> hubHTTPAgent \<Rightarrow> httpAgentHealth res" where
  "probeHTTPAgentHealth resp agent =
     bind_res resp (\<lambda>(code, body).
       if code < 200 \<or> 300 \<le> code then Inl (Errorf ''http agent health returned HTTP %d'' [Itoa code])
       else bind_res (decodeHTTPAgentHealth body) (\<lambda>health.
         if hhAgentID health = [] then Inl (Errorf ''http agent health missing agent.id'' [])
         else if hhAgentID health \<noteq> hgID agent
         then Inl (Errorf ''health agent id %q does not match configured id %q'' [hhAgentID health, hgID agent])
         else Inr health))"

definition checkHTTPAgentHealth :: "(int \<times> json option) res \<Rightarrow> hubHTTPAgent \<Rightarrow> error option" where
  "checkHTTPAgentHealth resp agent = (case probeHTTPAgentHealth resp agent of Inl e \<Rightarrow> Some e | Inr _ \<Rightarrow> None)"

definition applyHealth :: "httpAgentHealth \<Rightarrow> hubHTTPAgent \<Rightarrow> hubHTTPAgent res" where
  "applyHealth health a =
     (if hhAgentID health = [] then Inl (Errorf ''health agent id is required'' [])
      else if hhAgentID health \<noteq> hgID a
      then Inl (Errorf ''health agent id %q does not match configured id %q'' [hhAgentID health, hgID a])
      else Inr (a\<lparr>hgCountry := (if hhCountry health \<noteq> [] then hhCountry health else hgCountry a),
                  hgRegion := (if hhRegion health \<noteq> [] then hhRegion health else hgRegion a),
                  hgProvider := (if hhProvider health \<noteq> [] then hhProvider health else hgProvider a),
                  hgISP := (if hhISP health \<noteq> [] then hhISP health else hgISP a),
                  hgVersion := (if hhVersion health \<noteq> [] then hhVersion health else hgVersion a),
                  hgCapabilities := (if hhCapabilities health \<noteq> [] then hhCapabilities health else hgCapabilities a),
                  hgProtocols := (if hhProtocols health \<noteq> 0 then hhProtocols health else hgProtocols a)\<rparr>))"

definition nextHTTPAgentHealthInterval :: "dur \<Rightarrow> dur \<Rightarrow> dur \<Rightarrow> dur" where
  "nextHTTPAgentHealthInterval current0 base0 maxInterval0 =
     (let base = (if base0 \<le> 0 then Second else base0);
          maxInterval = (if maxInterval0 \<le> 0 then 300 * Second else maxInterval0);
          current = (if current0 < base then base else current0);
          next = wrap64 (current * 2)
      in if maxInterval < next then maxInterval else next)"


section \<open>Settings of an HTTP agent\<close>

definition settingsForHTTPAgent :: "hubHTTPAgent \<Rightarrow> Hub \<Rightarrow> Scheduler \<times> Runtime \<times> (string, CfgPolicy) gomap" where
  "settingsForHTTPAgent agent h =
     settingsForLabels (hbPolicies h) (schedulerSnapshot h) (hbLabelConfigs h)
       (if hgLabels agent = [] then NormalizeAgentLabels (hgID agent) AgentTransportHTTP [] else hgLabels agent)"

definition policiesForHTTPAgent :: "hubHTTPAgent \<Rightarrow> Hub \<Rightarrow> Set" where
  "policiesForHTTPAgent agent h =
     (let (_, runtime, toolPolicies) = settingsForHTTPAgent agent h
      in WithIntersection (hbPolicies h) toolPolicies runtime)"

definition inflightLimit :: "Hub \<Rightarrow> int" where
  "inflightLimit h = hbMaxInflight h"

definition inflightLimitForHTTPAgent :: "hubHTTPAgent \<Rightarrow> Hub \<Rightarrow> int" where
  "inflightLimitForHTTPAgent agent h =
     (let n = scMaxInflightPerAgent (fst (settingsForHTTPAgent agent h)) in if n \<le> 0 then inflightLimit h else n)"

definition pollIntervalForHTTPAgent :: "hubHTTPAgent \<Rightarrow> Hub \<Rightarrow> dur" where
  "pollIntervalForHTTPAgent agent h =
     (let n = scPollIntervalSec (fst (settingsForHTTPAgent agent h))
      in if n \<le> 0 then currentPollInterval h else seconds n)"

definition httpAgentRuntime :: "Hub \<Rightarrow> dur \<times> int" where
  "httpAgentRuntime h =
     ((if hbHTTPMaxHealthInterval h \<le> 0 then 300 * Second else hbHTTPMaxHealthInterval h),
      (if hbHTTPInvokeAttempts h \<le> 0 then 3 else hbHTTPInvokeAttempts h))"

definition httpAgentRuntimeForAgent :: "hubHTTPAgent \<Rightarrow> Hub \<Rightarrow> dur \<times> int" where
  "httpAgentRuntimeForAgent agent h =
     (let (_, runtime, _) = settingsForHTTPAgent agent h
      in (seconds (rtHTTPMaxHealthIntervalSec runtime), rtHTTPInvokeAttempts runtime))"


section \<open>Loops\<close>

definition configuredHTTPAgents :: "henv \<Rightarrow> Memory \<Rightarrow> hubHTTPAgent list" where
  "configuredHTTPAgents env m =
     map (\<lambda>node. \<lparr>hgID = haID node, hgCountry = [], hgRegion = [], hgProvider = [], hgISP = [],
                  hgLabels = NormalizeAgentLabels (haID node) AgentTransportHTTP (haLabels node),
                  hgBaseURL = haBaseURL node, hgToken = haHTTPToken node, hgClient = haTLS node,
                  hgVersion = [], hgCapabilities = [], hgProtocols = 0\<rparr>)
       (filter (\<lambda>node. haEnabled node \<and> heTLS env (haTLS node)) (ListHTTPAgents m))"

definition SetHTTPAgents :: "hubHTTPAgent list \<Rightarrow> Sys \<Rightarrow> Sys" where
  "SetHTTPAgents agents s = s\<lparr>sysHub := (sysHub s)\<lparr>hbHTTPAgents := agents\<rparr>\<rparr>"

text \<open>A new loop for an agent, and the cancellation of a loop.\<close>

definition start_loop :: "hubHTTPAgent \<Rightarrow> Sys \<Rightarrow> Sys" where
  "start_loop agent s =
     (let n = sysNextLoop s in
      s\<lparr>sysHub := (sysHub s)\<lparr>hbHTTPAgentCancels := mput (hgID agent) n (hbHTTPAgentCancels (sysHub s))\<rparr>,
        sysLoops := mput n \<lparr>hlAgent = agent, hlStarted = False, hlRecovering = False, hlInterval = 0,
                           hlCanceled = False, hlRecovery = False\<rparr> (sysLoops s),
        sysNextLoop := Suc n\<rparr>)"

definition set_loop :: "nat \<Rightarrow> (httpLoop \<Rightarrow> httpLoop) \<Rightarrow> Sys \<Rightarrow> Sys" where
  "set_loop n f s =
     (case mget (sysLoops s) n of
        None \<Rightarrow> s
      | Some loop \<Rightarrow> s\<lparr>sysLoops := mput n (f loop) (sysLoops s)\<rparr>)"

definition start_if_new :: "hubHTTPAgent \<Rightarrow> Sys \<Rightarrow> Sys" where
  "start_if_new agent s =
     (if mget (hbHTTPAgentCancels (sysHub s)) (hgID agent) \<noteq> None then s else start_loop agent s)"

definition cancel_unconfigured :: "string list \<Rightarrow> string \<times> nat \<Rightarrow> Sys \<Rightarrow> Sys" where
  "cancel_unconfigured running e s =
     (let (aid, n) = e in
      if aid \<in> set running then s
      else (set_loop n (hlCanceled_update (\<lambda>_. True)) s)
             \<lparr>sysHub := (sysHub s)\<lparr>hbHTTPAgentCancels := mdel aid (hbHTTPAgentCancels (sysHub s))\<rparr>\<rparr>)"

definition ReloadHTTPAgents :: "henv \<Rightarrow> Sys \<Rightarrow> Sys" where
  "ReloadHTTPAgents env s =
     (let agents = configuredHTTPAgents env (sysStore s);
          s1 = fold (cancel_unconfigured (map hgID agents)) (hbHTTPAgentCancels (sysHub s)) s
      in fold start_if_new agents (SetHTTPAgents agents s1))"

definition startHTTPAgents :: "Sys \<Rightarrow> Sys" where
  "startHTTPAgents s =
     fold (\<lambda>agent s. if hgID agent = [] \<or> hgBaseURL agent = [] then s else start_if_new agent s)
       (hbHTTPAgents (sysHub s)) s"

definition startConfiguredHTTPAgents :: "henv \<Rightarrow> Sys \<Rightarrow> Sys" where
  "startConfiguredHTTPAgents env s =
     (let agents = configuredHTTPAgents env (sysStore s) in
      if agents = [] then startHTTPAgents s else startHTTPAgents (SetHTTPAgents agents s))"

definition upsertHTTPAgent :: "henv \<Rightarrow> time \<Rightarrow> hubHTTPAgent \<Rightarrow> AgentStatus \<Rightarrow> Sys \<Rightarrow> Sys" where
  "upsertHTTPAgent env now agent status s =
     (let s1 = set_store (UpsertAgent
                 \<lparr>aID = hgID agent, aCountry = hgCountry agent, aRegion = hgRegion agent,
                  aProvider = hgProvider agent, aISP = hgISP agent, aVersion = hgVersion agent, aLabels = [],
                  aTokenHash = heSHA256 env (hgToken agent), aCapabilities = hgCapabilities agent,
                  aProtocols = hgProtocols agent, aStatus = status, aLastSeenAt = now, aCreatedAt = now\<rparr>
                 (sysStore s)) s;
          h = sysHub s1
      in s1\<lparr>sysHub := h\<lparr>hbMeta := mput (hgID agent) \<lparr>amCapabilities = hgCapabilities agent,
                             amProtocols = hgProtocols agent, amLastSeen = now\<rparr> (hbMeta h),
                          hbRunning := (case mget (hbRunning h) (hgID agent) of
                                          None \<Rightarrow> mput (hgID agent) [] (hbRunning h) | Some _ \<Rightarrow> hbRunning h)\<rparr>\<rparr>)"

text \<open>
  \<^verbatim>\<open>httpAgentLoop\<close>: what it does first, and its three cases. A loop function is given its number;
  it acts only in the states in which the case can be taken.
\<close>

definition http_loop_start :: "henv \<Rightarrow> time \<Rightarrow> (int \<times> json option) res \<Rightarrow> nat \<Rightarrow> Sys \<Rightarrow> Sys" where
  "http_loop_start env now resp n s =
     (case mget (sysLoops s) n of
        None \<Rightarrow> s
      | Some loop \<Rightarrow>
          if hlStarted loop then s
          else
            let (recovering, agent, s1) =
                  (case probeHTTPAgentHealth resp (hlAgent loop) of
                     Inl _ \<Rightarrow> (True, hlAgent loop, s)
                   | Inr health \<Rightarrow>
                       (case applyHealth health (hlAgent loop) of
                          Inl _ \<Rightarrow> (True, hlAgent loop, ignore_err (MarkAgentOffline (hgID (hlAgent loop)) (sysStore s)) s)
                        | Inr agent \<Rightarrow> (False, agent, s)));
                s2 = upsertHTTPAgent env now agent (if recovering then AgentOffline else AgentOnline) s1
            in set_loop n (\<lambda>l. l\<lparr>hlAgent := agent, hlStarted := True, hlRecovering := recovering,
                                hlInterval := pollIntervalForHTTPAgent agent (sysHub s2)\<rparr>) s2)"

definition http_loop_done :: "nat \<Rightarrow> Sys \<Rightarrow> Sys" where
  "http_loop_done n s =
     (case mget (sysLoops s) n of
        None \<Rightarrow> s
      | Some loop \<Rightarrow>
          if \<not> hlStarted loop \<or> \<not> hlCanceled loop then s
          else
            let s1 = ignore_err (MarkAgentOffline (hgID (hlAgent loop)) (sysStore s)) s
            in s1\<lparr>sysHub := (sysHub s1)\<lparr>hbHTTPAgentCancels :=
                     mdel (hgID (hlAgent loop)) (hbHTTPAgentCancels (sysHub s1))\<rparr>,
                  sysLoops := mdel n (sysLoops s1)\<rparr>)"

definition http_loop_recovery :: "nat \<Rightarrow> Sys \<Rightarrow> Sys" where
  "http_loop_recovery n s =
     (case mget (sysLoops s) n of
        None \<Rightarrow> s
      | Some loop \<Rightarrow>
          if \<not> hlStarted loop \<or> \<not> hlRecovery loop then s
          else
            let s1 = set_loop n (\<lambda>l. l\<lparr>hlRecovery := False, hlRecovering := True,
                                       hlInterval := pollIntervalForHTTPAgent (hlAgent loop) (sysHub s)\<rparr>) s
            in ignore_err (MarkAgentOffline (hgID (hlAgent loop)) (sysStore s1)) s1)"

text \<open>
  One job of a tick; \<open>go h.invokeHTTPAgent\<close> is recorded as a job handed to the agent.
\<close>

definition http_dispatch :: "henv \<Rightarrow> time \<Rightarrow> hubHTTPAgent \<Rightarrow> Set \<Rightarrow> Job \<Rightarrow> Sys \<Rightarrow> Sys" where
  "http_dispatch env now agent policies job s =
     (case mget (byTool policies) (jTool job) of
        None \<Rightarrow> s
      | Some p \<Rightarrow>
          (case ClaimQueuedJob now (jID job) (hgID agent) (sysStore s) of
             (False, _) \<Rightarrow> s
           | (True, m) \<Rightarrow>
               let s1 = emitStarted env now job (markInflight (hgID agent) (jID job) (set_store m s))
               in s1\<lparr>sysSent := sysSent s1 @ [(hgID agent, MsgJob (toJobSpecWithPolicies job p policies))]\<rparr>))"

text \<open>The part of a tick after the health check.\<close>

definition http_dispatch_jobs :: "henv \<Rightarrow> time \<Rightarrow> hubHTTPAgent \<Rightarrow> Sys \<Rightarrow> Sys" where
  "http_dispatch_jobs env now agent s0 =
     (let s1 = touchAgent now (hgID agent) s0;
          s = ignore_err (TouchAgent now (hgID agent) (sysStore s1)) s1;
          remaining = inflightLimitForHTTPAgent agent (sysHub s) - inflightCount (hgID agent) (sysHub s)
      in if remaining \<le> 0 then s
         else
           let policies = policiesForHTTPAgent agent (sysHub s);
               jobs = ListQueuedJobs (hgID agent) (policyCapabilities policies (hgCapabilities agent))
                        (hgProtocols agent) remaining (sysStore s)
           in fold (http_dispatch env now agent policies) jobs s)"

definition http_loop_tick :: "henv \<Rightarrow> time \<Rightarrow> (int \<times> json option) res \<Rightarrow> nat \<Rightarrow> Sys \<Rightarrow> Sys" where
  "http_loop_tick env now resp n s =
     (case mget (sysLoops s) n of
        None \<Rightarrow> s
      | Some loop \<Rightarrow>
          let agent = hlAgent loop; offline = ignore_err (MarkAgentOffline (hgID agent) (sysStore s)) s in
          if \<not> hlStarted loop then s
          else if \<not> hlRecovering loop then http_dispatch_jobs env now agent s
          else
            (case probeHTTPAgentHealth resp agent of
               Inl _ \<Rightarrow>
                 set_loop n (\<lambda>l. l\<lparr>hlInterval := nextHTTPAgentHealthInterval (hlInterval l)
                   (pollIntervalForHTTPAgent agent (sysHub offline))
                   (fst (httpAgentRuntimeForAgent agent (sysHub offline)))\<rparr>) offline
             | Inr health \<Rightarrow>
                 (case applyHealth health agent of
                    Inl _ \<Rightarrow> offline
                  | Inr agent' \<Rightarrow>
                      let s1 = upsertHTTPAgent env now agent' AgentOnline s;
                          s2 = set_loop n (\<lambda>l. l\<lparr>hlAgent := agent', hlRecovering := False,
                                 hlInterval := pollIntervalForHTTPAgent agent' (sysHub s1)\<rparr>) s1
                      in http_dispatch_jobs env now agent' s2)))"


section \<open>Invocations\<close>

datatype http_agent_error = httpAgentConnectionError string | otherError string

definition isHTTPAgentConnectionError :: "http_agent_error \<Rightarrow> bool" where
  "isHTTPAgentConnectionError e \<longleftrightarrow> (case e of httpAgentConnectionError _ \<Rightarrow> True | otherError _ \<Rightarrow> False)"

definition agent_error_text :: "http_agent_error \<Rightarrow> string" where
  "agent_error_text e = (case e of httpAgentConnectionError m \<Rightarrow> m | otherError m \<Rightarrow> m)"

text \<open>
  What one attempt meets: the request cannot be made, the connection fails, or there is an answer
  with a status code and lines, of which the last one ends the body or fails. A line is blank,
  or a JSON value, or not JSON.
\<close>

datatype http_line = Blank | Line "json option"

datatype http_reply =
    BadRequest string
  | Unreachable string
  | Answer int "http_line list" "string option"

definition decodeHTTPAgentLine :: "json option \<Rightarrow> string \<Rightarrow> string \<Rightarrow> string + ResultEvent" where
  "decodeHTTPAgentLine line jobID agentID =
     (case Option.bind line (\<lambda>v. dec_metric v []) of
        None \<Rightarrow> Inl ''json: cannot unmarshal''
      | Some event \<Rightarrow>
          if mget event ''type'' = None then Inl ''http agent event missing type''
          else Inr \<lparr>reJobID = jobID, reAgentID = agentID, reEvent = event\<rparr>)"

fun read_lines :: "http_line list \<Rightarrow> string option \<Rightarrow> string \<Rightarrow> string \<Rightarrow> ResultEvent list \<times> http_agent_error option" where
  "read_lines [] failure jobID agentID = ([], map_option httpAgentConnectionError failure)"
| "read_lines (Blank # ls) failure jobID agentID = read_lines ls failure jobID agentID"
| "read_lines (Line l # ls) failure jobID agentID =
     (case decodeHTTPAgentLine l jobID agentID of
        Inl e \<Rightarrow> ([], Some (otherError e))
      | Inr ev \<Rightarrow> (let (evs, err) = read_lines ls failure jobID agentID in (ev # evs, err)))"

definition callHTTPAgentOnce :: "http_reply \<Rightarrow> hubHTTPAgent \<Rightarrow> JobSpec \<Rightarrow> ResultEvent list \<times> http_agent_error option" where
  "callHTTPAgentOnce reply agent spec =
     (case reply of
        BadRequest e \<Rightarrow> ([], Some (otherError e))
      | Unreachable e \<Rightarrow> ([], Some (httpAgentConnectionError e))
      | Answer code lines failure \<Rightarrow>
          if code < 200 \<or> 300 \<le> code
          then ([], Some (otherError (''http agent returned HTTP '' @ Itoa code)))
          else read_lines lines failure (jsID spec) (hgID agent))"

text \<open>
  The loop over the attempts: \<open>reply k\<close> is what attempt \<open>k\<close> meets, \<open>over k\<close> says whether the context
  has ended after it, or during the delay that follows it.
\<close>

function call_attempts ::
  "(int \<Rightarrow> http_reply) \<Rightarrow> (int \<Rightarrow> bool) \<Rightarrow> hubHTTPAgent \<Rightarrow> JobSpec \<Rightarrow> int \<Rightarrow> int
     \<Rightarrow> ResultEvent list \<times> http_agent_error option" where
  "call_attempts reply over agent spec attempts attempt =
     (if attempts < attempt then ([], None)
      else
        (case callHTTPAgentOnce (reply attempt) agent spec of
           (evs, None) \<Rightarrow> (evs, None)
         | (evs, Some err) \<Rightarrow>
             if evs \<noteq> [] \<or> \<not> isHTTPAgentConnectionError err \<or> attempt = attempts \<or> over attempt
             then (evs, Some err)
             else call_attempts reply over agent spec attempts (attempt + 1)))"
  by pat_completeness auto
termination
  by (relation "measure (\<lambda>(_, _, _, _, attempts, attempt). nat (attempts + 1 - attempt))") auto

declare call_attempts.simps [simp del]

definition callHTTPAgentWithAttempts ::
  "(int \<Rightarrow> http_reply) \<Rightarrow> (int \<Rightarrow> bool) \<Rightarrow> hubHTTPAgent \<Rightarrow> JobSpec \<Rightarrow> int
     \<Rightarrow> ResultEvent list \<times> http_agent_error option" where
  "callHTTPAgentWithAttempts reply over agent spec attempts =
     call_attempts reply over agent spec (if attempts \<le> 0 then 3 else attempts) 1"

definition callHTTPAgent ::
  "(int \<Rightarrow> http_reply) \<Rightarrow> (int \<Rightarrow> bool) \<Rightarrow> hubHTTPAgent \<Rightarrow> JobSpec \<Rightarrow> ResultEvent list \<times> http_agent_error option" where
  "callHTTPAgent reply over agent spec = callHTTPAgentWithAttempts reply over agent spec 3"

text \<open>
  The steps of \<^verbatim>\<open>invokeHTTPAgent\<close>: before the call, for each event, and after the call. Loop \<open>n\<close>
  has the recovery channel.
\<close>

definition invoke_event :: "henv \<Rightarrow> time \<Rightarrow> hubHTTPAgent \<Rightarrow> JobSpec \<Rightarrow> ResultEvent \<Rightarrow> Sys \<Rightarrow> Sys" where
  "invoke_event env now agent spec ev s =
     handleResult env now (hgID agent)
       (ev\<lparr>reAgentID := (if reAgentID ev = [] then hgID agent else reAgentID ev),
           reJobID := (if reJobID ev = [] then jsID spec else reJobID ev)\<rparr>) s"

definition invoke_end ::
  "henv \<Rightarrow> time \<Rightarrow> nat \<Rightarrow> hubHTTPAgent \<Rightarrow> JobSpec \<Rightarrow> bool \<Rightarrow> http_agent_error option \<Rightarrow> Sys \<Rightarrow> Sys" where
  "invoke_end env now n agent spec gotParsed err s =
     (let s' = (case err of
                  Some e \<Rightarrow>
                    let s1 = clearInflight (hgID agent) (jsID spec) s;
                        s2 = (if isHTTPAgentConnectionError e
                              then set_loop n (hlRecovery_update (\<lambda>_. True))
                                     (ignore_err (MarkAgentOffline (hgID agent) (sysStore s1)) s1)
                              else s1)
                    in failJob env now (hgID agent) (jsID spec) (agent_error_text e) s2
                | None \<Rightarrow>
                    let s1 = touchAgent now (hgID agent) s;
                        s2 = ignore_err (TouchAgent now (hgID agent) (sysStore s1)) s1
                    in if gotParsed then s2
                       else failJob env now (hgID agent) (jsID spec) ''http agent did not return parsed result''
                              (clearInflight (hgID agent) (jsID spec) s2))
      in setInflightCancel (jsID spec) False s')"

definition invokeHTTPAgent ::
  "henv \<Rightarrow> time \<Rightarrow> (int \<Rightarrow> http_reply) \<Rightarrow> (int \<Rightarrow> bool) \<Rightarrow> nat \<Rightarrow> hubHTTPAgent \<Rightarrow> JobSpec \<Rightarrow> Sys \<Rightarrow> Sys" where
  "invokeHTTPAgent env now reply over n agent spec s =
     (let s1 = setInflightCancel (jsID spec) True s;
          (evs, err) = callHTTPAgentWithAttempts reply over agent spec (snd (httpAgentRuntimeForAgent agent (sysHub s1)));
          gotParsed = list_ex (\<lambda>ev. eventType (reEvent ev) = ''summary'') evs
      in invoke_end env now n agent spec gotParsed err (fold (invoke_event env now agent spec) evs s1))"

end
