(* ===== verification/HTTPFacts.thy ===== *)
theory HTTPFacts
  imports HubFacts HTTPAgents
begin

text \<open>
  HTTP agents and the life cycle of jobs: the loops only change agents and start jobs, an
  invocation only ends the job it was started for.
\<close>


section \<open>The loops\<close>

lemma quiet_set_loop [quiet_intros]: "quiet s (set_loop n f s)"
  by (simp add: set_loop_def quiet_def split: option.splits)

lemma quiet_start_if_new [quiet_intros]: "quiet s (start_if_new agent s)"
  by (simp add: start_if_new_def start_loop_def quiet_def running_of_def Let_def)

lemma quiet_offline [quiet_intros]: "quiet s (ignore_err (MarkAgentOffline agentID (sysStore s)) s)"
  by (rule quiet_ignore_err) (rule agent_ops_jobs)

lemma quiet_touch [quiet_intros]:
  "quiet s (ignore_err (TouchAgent now agentID (sysStore (touchAgent now agentID s))) (touchAgent now agentID s))"
  by (rule quiet_trans [OF quiet_touchAgent quiet_ignore_err]) (rule agent_ops_jobs)

lemma quiet_SetHTTPAgents [quiet_intros]: "quiet s (SetHTTPAgents agents s)"
  by (simp add: SetHTTPAgents_def quiet_def running_of_def)

lemma quiet_cancel_unconfigured [quiet_intros]: "quiet s (cancel_unconfigured ids e s)"
  by (cases e) (simp add: cancel_unconfigured_def set_loop_def quiet_def running_of_def split: option.splits)

lemma quiet_ReloadHTTPAgents [quiet_intros]: "quiet s (ReloadHTTPAgents env s)"
  unfolding ReloadHTTPAgents_def Let_def
  by (rule quiet_trans, rule quiet_fold [where f = "cancel_unconfigured _"], rule quiet_cancel_unconfigured,
      rule quiet_trans, rule quiet_SetHTTPAgents, rule quiet_fold, rule quiet_start_if_new)

lemma quiet_startHTTPAgents [quiet_intros]: "quiet s (startHTTPAgents s)"
  unfolding startHTTPAgents_def by (rule quiet_fold) (simp add: quiet_start_if_new)

lemma quiet_startConfiguredHTTPAgents [quiet_intros]: "quiet s (startConfiguredHTTPAgents env s)"
  using quiet_trans [OF quiet_SetHTTPAgents quiet_startHTTPAgents]
  by (simp add: startConfiguredHTTPAgents_def Let_def quiet_startHTTPAgents)

lemma quiet_upsertHTTPAgent [quiet_intros]: "quiet s (upsertHTTPAgent env now agent status s)"
  by (auto simp: upsertHTTPAgent_def quiet_def running_of_def Let_def agent_ops_jobs split: option.splits)

lemma quiet_http_loop_start: "quiet s (http_loop_start env now resp n s)"
proof -
  have "quiet s (set_loop n f (upsertHTTPAgent env now agent st t))" if "quiet s t" for f agent st t
    using that quiet_trans quiet_upsertHTTPAgent quiet_set_loop by metis
  then show ?thesis
    using quiet_offline
    by (simp add: http_loop_start_def Let_def split: option.splits sum.splits)
qed

lemma quiet_http_loop_done: "quiet s (http_loop_done n s)"
proof -
  have "quiet s (t\<lparr>sysHub := (sysHub t)\<lparr>hbHTTPAgentCancels := c\<rparr>, sysLoops := l\<rparr>)" if "quiet s t" for t c l
    using that by (simp add: quiet_def running_of_def)
  from this [OF quiet_offline] show ?thesis by (simp add: http_loop_done_def Let_def split: option.splits)
qed

lemma quiet_http_loop_recovery: "quiet s (http_loop_recovery n s)"
  using quiet_trans [OF quiet_set_loop quiet_offline]
  by (simp add: http_loop_recovery_def Let_def split: option.splits)

lemma http_dispatch_evolves:
  assumes ok: "sys_ok env s"
  shows "evolves env s (http_dispatch env now agent policies job s)"
proof -
  consider "http_dispatch env now agent policies job s = s"
    | p m where "mget (byTool policies) (jTool job) = Some p"
        "ClaimQueuedJob now (jID job) (hgID agent) (sysStore s) = (True, m)"
    by (cases "mget (byTool policies) (jTool job)"; cases "ClaimQueuedJob now (jID job) (hgID agent) (sysStore s)";
        cases "fst (ClaimQueuedJob now (jID job) (hgID agent) (sysStore s))") (auto simp: http_dispatch_def)
  then show ?thesis
  proof cases
    case 2
    show ?thesis
      by (rule claim_evolves [OF ok 2(2) refl, where sent = True and spec = "toJobSpecWithPolicies job p policies" and job = job])
        (simp_all add: http_dispatch_def 2 Let_def)
  qed simp
qed

lemma http_dispatch_jobs_evolves:
  assumes u: "uuid_fresh (heUUID env)" and ok: "sys_ok env s"
  shows "evolves env s (http_dispatch_jobs env now agent s)"
proof -
  define t where "t = ignore_err (TouchAgent now (hgID agent) (sysStore (touchAgent now (hgID agent) s))) (touchAgent now (hgID agent) s)"
  have q: "quiet s t" unfolding t_def by (rule quiet_touch)
  have "evolves env t (fold (http_dispatch env now agent policies) jobs t)" for policies jobs
    by (rule fold_evolves [OF u quiet_ok [OF u ok q]]) (rule http_dispatch_evolves)
  with quiet_evolves [OF q, of env] evolves_trans show ?thesis
    by (simp add: http_dispatch_jobs_def Let_def flip: t_def)
qed

lemma http_loop_tick_evolves:
  assumes u: "uuid_fresh (heUUID env)" and ok: "sys_ok env s"
  shows "evolves env s (http_loop_tick env now resp n s)"
proof -
  have "evolves env s (http_dispatch_jobs env now agent t)" if q: "quiet s t" for agent t
    by (rule evolves_then [OF u ok quiet_evolves [OF q]]) (rule http_dispatch_jobs_evolves [OF u])
  moreover have "quiet s (set_loop n f (upsertHTTPAgent env now agent st s))" for f agent st
    by (rule quiet_trans [OF quiet_upsertHTTPAgent quiet_set_loop])
  moreover have "quiet s (set_loop n f (ignore_err (MarkAgentOffline a (sysStore s)) s))" for f a
    by (rule quiet_trans [OF quiet_offline quiet_set_loop])
  ultimately show ?thesis
    by (simp add: http_loop_tick_def Let_def quiet_evolves quiet_offline split: option.splits sum.splits)
qed


section \<open>Invocations\<close>

text \<open>An invocation is for a job of its agent, and such a job has no children.\<close>

lemma owned_leaf:
  assumes u: "uuid_fresh (heUUID env)" and ok: "sys_ok env s"
    and j: "mget (jobs_of s) k = Some j" "jAgentID j \<noteq> []"
  shows "\<not> child_of (view s) k c"
proof
  assume "child_of (view s) k c"
  from parents_okD [OF sys_okD(3) [OF ok] this job_key [OF u ok j(1)]] j show False by simp
qed

lemma invoke_end_evolves:
  assumes u: "uuid_fresh (heUUID env)" and ok: "sys_ok env s"
    and j: "mget (jobs_of s) (jsID spec) = Some job" "jAgentID job = hgID agent" "hgID agent \<noteq> []"
  shows "evolves env s (invoke_end env now n agent spec gotParsed err s)"
proof -
  have fail: "evolves env s (failJob env now (hgID agent) (jsID spec) msg t)" if q: "quiet s t" for msg t
  proof (rule evolves_trans [OF quiet_evolves [OF q]])
    have "mget (jobs_of t) (jsID spec) = Some job" "jAgentID job \<noteq> []" using j quiet_jobs [OF q] by simp_all
    from owned_leaf [OF u quiet_ok [OF u ok q] this]
    show "evolves env t (failJob env now (hgID agent) (jsID spec) msg t)" by (rule failJob_evolves [OF u quiet_ok [OF u ok q]])
  qed
  have q1: "quiet s (clearInflight (hgID agent) (jsID spec) s)" by (rule quiet_clearInflight)
  have q2: "quiet s (set_loop n f (ignore_err (MarkAgentOffline (hgID agent) (sysStore t)) t))"
    if "t = clearInflight (hgID agent) (jsID spec) s" for f t
    unfolding that by (rule quiet_trans [OF quiet_trans [OF q1 quiet_offline] quiet_set_loop])
  have q3: "quiet s (clearInflight (hgID agent) (jsID spec)
      (ignore_err (TouchAgent now (hgID agent) (sysStore (touchAgent now (hgID agent) s))) (touchAgent now (hgID agent) s)))"
    by (rule quiet_trans [OF quiet_touch quiet_clearInflight])
  have "evolves env s (setInflightCancel (jsID spec) False t)" if "evolves env s t" for t
    using that by (rule evolves_quiet) (rule quiet_setInflightCancel)
  then show ?thesis
    using fail [OF q1] fail [OF q2 [OF refl]] fail [OF q3] quiet_evolves [OF quiet_touch [of s now "hgID agent"], of env]
    by (simp add: invoke_end_def Let_def split: option.splits)
qed

end
