(* ===== verification/HubSystem.thy ===== *)
theory HubSystem
  imports HTTPFacts
begin

text \<open>
  The hub as a transition system: every handler is a step, every step refines the life cycle of
  jobs, and with it the invariant and the order of the specification hold in every run.
\<close>


section \<open>The system\<close>

text \<open>
  Everything that happens to the system, one handler at a time: jobs are created by the API,
  agents connect and disconnect, a stream receives or sends, the hub ticks, settings change,
  clients subscribe, the loops of HTTP agents start, stop and take jobs, an invocation delivers
  an event or ends, and the store is changed in what does not concern jobs. An invocation is
  for a job of its agent: a loop starts one only for a job it has claimed, and the agent of a
  job never changes.
\<close>

inductive hub_step :: "henv \<Rightarrow> Sys \<Rightarrow> Sys \<Rightarrow> bool" for env where
  create: "roots js \<or> fanout js \<Longrightarrow> new_ids (heUUID env) (sysUUID s) n js \<Longrightarrow>
    hub_step env s (s\<lparr>sysUUID := n, sysStore := CreateJobs js (sysStore s)\<rparr>)"
| connect: "hub_step env s (snd (Connect env now first s))"
| disconnect: "hub_step env s (Disconnect env now agentID s)"
| recv: "hub_step env s (recv_message env now agentID msg s)"
| dispatch: "hub_step env s (snd (send_tick env now send agentID caps protocols s))"
| cancel: "hub_step env s (snd (send_cancel send agentID s))"
| tick: "hub_step env s (hub_tick env now s)"
| progress: "hub_step env s (emitProgress env now jobID msg s)"
| failure: "hub_step env s (emitFailureMessage env now jobID agentID msg s)"
| reload: "hub_step env s (ApplySettings env settings s)"
| subscribe: "hub_step env s (snd (SubscribeJob jobID s))"
| unsubscribe: "hub_step env s (Unsubscribe jobID ch s)"
| http_agents: "hub_step env s (ReloadHTTPAgents env s)"
| http_start: "hub_step env s (startConfiguredHTTPAgents env s)"
| http_loop: "hub_step env s (http_loop_start env now resp n s)"
| http_loop_end: "hub_step env s (http_loop_done n s)"
| http_recovery: "hub_step env s (http_loop_recovery n s)"
| http_tick: "hub_step env s (http_loop_tick env now resp n s)"
| http_call: "hub_step env s (setInflightCancel jobID True s)"
| http_event: "hub_step env s (invoke_event env now agent spec ev s)"
| http_end: "GetJob (jsID spec) (sysStore s) = Inr job \<Longrightarrow> jAgentID job = hgID agent \<Longrightarrow> hgID agent \<noteq> [] \<Longrightarrow>
    hub_step env s (invoke_end env now n agent spec gotParsed err s)"
| manage: "store_step (sysStore s) m \<Longrightarrow> mJobs m = jobs_of s \<Longrightarrow> hub_step env s (set_store m s)"

lemmas quiet_handlers = Connect_quiet send_cancel_quiet quiet_emitProgress quiet_emitFailureMessage
  ApplySettings_quiet Subscribe_quiet quiet_ReloadHTTPAgents quiet_startConfiguredHTTPAgents quiet_http_loop_start
  quiet_http_loop_done quiet_http_loop_recovery quiet_setInflightCancel

text \<open>The refinement, and with it the invariant and the order for every run of the system.\<close>

lemma hub_step_evolves:
  assumes u: "uuid_fresh (heUUID env)" and ok: "sys_ok env s" and st: "hub_step env s t"
  shows "evolves env s t"
  using st
proof cases
  case (create js n)
  then show ?thesis using CreateJobs_evolves [OF ok] by simp
next
  case (manage m)
  then show ?thesis by (simp add: quiet_evolves quiet_store)
next
  case http_end
  then show ?thesis using invoke_end_evolves [OF u ok] by simp
qed (simp_all add: quiet_handlers [THEN quiet_evolves] Disconnect_evolves recv_message_evolves send_tick_evolves
    hub_tick_evolves http_loop_tick_evolves invoke_event_def handleResult_evolves u ok)

lemma hub_system:
  assumes u: "uuid_fresh (heUUID env)"
  shows "transition_system (hub_step env) (sys_ok env) (\<lambda>s t. vprogress (view s) (view t))"
  by unfold_locales (use hub_step_evolves [OF u] evolves_ok [OF u] vprogress_refl vprogress_trans in blast)+

lemma hub_run_evolves:
  assumes u: "uuid_fresh (heUUID env)" and ok: "sys_ok env s" and run: "(hub_step env)\<^sup>*\<^sup>* s t"
  shows "evolves env s t"
  using run
proof (induction rule: rtranclp_induct)
  case (step t w)
  then show ?case using evolves_then [OF u ok] hub_step_evolves [OF u] by blast
qed simp

text \<open>The hub as it is started, on a store without jobs.\<close>

lemma sys_ok_start:
  assumes "jobs_of s = []" "sysSent s = []" "hbRunning (sysHub s) = []"
  shows "sys_ok env s"
  using assms
  by (simp add: sys_ok_def vinv_def view_def ids_ok_def parents_ok_def running_ok_def sent_ok_def fanout_ok_def
      running_of_def job_ids_sent_def List.map_filter_def child_of_def)

end
