(* ===== verification/HubClaims.thy ===== *)
theory HubClaims
  imports HubSystem
begin

text \<open>
  The properties of the hub: what every run of the system satisfies, and what each handler
  does on each of its branches. \<open>example_env\<close> and \<open>example_sys\<close> are a concrete environment and a
  concrete system to which the properties are applied.
\<close>


section \<open>A concrete system\<close>

definition example_net :: netenv where
  "example_net = \<lparr>neParseURL = (\<lambda>_. None), neLookupIP = (\<lambda>_ _ _. Inl (Errorf ''no such host'' []))\<rparr>"

definition example_env :: henv where
  "example_env = \<lparr>heUUID = (\<lambda>n. replicate (Suc n) (CHR ''u'')), heSHA256 = (\<lambda>x. x), heNet = example_net, heTLS = (\<lambda>_. True)\<rparr>"

definition example_job :: "string \<Rightarrow> string \<Rightarrow> string \<Rightarrow> JobStatus \<Rightarrow> Job" where
  "example_job jid parent agent status =
     \<lparr>jID = jid, jParentID = parent, jScheduledID = [], jScheduledRevision = 0, jTool = ToolDNS, jTarget = ''example.org'',
      jResolvedTarget = [], jArgs = [], jIPVersion = IPAny, jAgentID = agent, jResolveOnAgent = False, jStatus = status,
      jCreatedAt = 5, jUpdatedAt = 5, jStartedAt = None, jCompletedAt = None, jError = []\<rparr>"

text \<open>A system on a new store, and the fan-out of a job to the agents \<open>a\<close> and \<open>b\<close>.\<close>

definition example_sys :: Sys where
  "example_sys =
     \<lparr>sysStore = fst (NewMemory (heUUID example_env) 0 5),
      sysHub = (NewHub (DefaultPolicies) 0 0 0)\<lparr>hbRegisterTokens := [''secret'']\<rparr>,
      sysUUID = 2, sysSent = [], sysCanceled = [], sysNextSub = 0, sysLoops = [], sysNextLoop = 0\<rparr>"

definition example_fanout :: "Job list" where
  "example_fanout =
     [example_job ''uuu'' [] [] JobRunning, example_job ''uuuu'' ''uuu'' ''a'' JobQueued,
      example_job ''uuuuu'' ''uuu'' ''b'' JobQueued]"

definition example_created :: Sys where
  "example_created = example_sys\<lparr>sysUUID := 5, sysStore := CreateJobs example_fanout (sysStore example_sys)\<rparr>"

lemma example_fresh: "uuid_fresh (heUUID example_env)"
  by (auto simp: uuid_fresh_def example_env_def inj_def dest: arg_cong [of _ _ length])

lemma example_start: "jobs_of example_sys = []" "sysSent example_sys = []" "hbRunning (sysHub example_sys) = []"
  by (simp_all add: example_sys_def NewMemory_def NewHub_def case_prod_unfold Let_def)

lemma example_create: "hub_step example_env example_sys example_created"
proof -
  have "heUUID example_env 2 = ''uuu''" "heUUID example_env 3 = ''uuuu''" "heUUID example_env 4 = ''uuuuu''"
    by (simp_all add: example_env_def numeral_eq_Suc)
  then have "\<exists>i\<ge>2. i < 5 \<and> ''uuu'' = heUUID example_env i" "\<exists>i\<ge>2. i < 5 \<and> ''uuuu'' = heUUID example_env i"
    "\<exists>i\<ge>2. i < 5 \<and> ''uuuuu'' = heUUID example_env i" by (auto intro: exI [of _ 2] exI [of _ 3] exI [of _ 4])
  then have "new_ids (heUUID example_env) (sysUUID example_sys) 5 example_fanout"
    by (simp add: new_ids_def example_fanout_def example_job_def example_sys_def)
  moreover have "fanout example_fanout" by (simp add: fanout_def example_fanout_def example_job_def)
  ultimately show ?thesis unfolding example_created_def by (intro create) auto
qed

lemma example_jobs: "jobs_of example_created = map (\<lambda>j. (jID j, j)) example_fanout"
  by (simp add: example_created_def CreateJobs_def example_start example_fanout_def example_job_def)

text \<open>The agent \<open>a\<close> connects and is sent its job.\<close>

definition example_hello :: AgentMessage where
  "example_hello =
     \<lparr>mgType = ''hello'',
      mgAgent = Some \<lparr>ahID = ''a'', ahCountry = [], ahRegion = [], ahProvider = [], ahISP = [], ahVersion = [],
                      ahToken = ''secret'', ahCapabilities = [ToolDNS], ahProtocols = 3\<rparr>,
      mgResult = None\<rparr>"

definition example_connected :: Sys where
  "example_connected = snd (Connect example_env 7 example_hello example_created)"

definition example_running :: Sys where
  "example_running = snd (send_tick example_env 9 (\<lambda>_. True) ''a'' [ToolDNS] 3 example_connected)"

lemma example_run: "(hub_step example_env)\<^sup>*\<^sup>* example_sys example_running"
  unfolding example_running_def example_connected_def
  by (rule converse_rtranclp_into_rtranclp [where r = "hub_step example_env", OF example_create],
      rule converse_rtranclp_into_rtranclp [where r = "hub_step example_env", OF connect],
      rule r_into_rtranclp, rule dispatch)

lemma example_settings:
  "settingsForAgent ''a'' example_connected =
     (\<lparr>scAgentOfflineAfterSec = 90, scMaxInflightPerAgent = 4, scPollIntervalSec = 2\<rparr>, Set_Runtime DefaultPolicies, [])"
  by (simp add: settingsForAgent_def settingsForLabels_def labelConfigsFor_def toolPoliciesForLabels_def map_filter_def
      example_connected_def example_created_def example_sys_def example_hello_def Connect_def registerTokenAllowed_def
      schedulerSnapshot_def NewHub_def Let_def num_simps)

lemma example_policy: "mget (byTool (policiesForAgent ''a'' example_connected)) ToolDNS \<noteq> None"
proof -
  have "hbPolicies (sysHub example_connected) = DefaultPolicies"
    by (simp add: example_connected_def example_created_def example_sys_def example_hello_def Connect_def
        registerTokenAllowed_def NewHub_def Let_def)
  then show ?thesis
    by (simp add: policiesForAgent_def example_settings mget_WithIntersection mwf_Nil DefaultPolicies_def mget_base
        default_allowed_args_def narrow_def known_tool_def)
qed

lemma example_queue:
  "ListQueuedJobs ''a'' (policyCapabilities (policiesForAgent ''a'' example_connected) [ToolDNS]) 3 4 (sysStore example_connected) =
     [example_job ''uuuu'' ''uuu'' ''a'' JobQueued]"
proof -
  have "jobs_of example_connected = jobs_of example_created"
    unfolding example_connected_def by (rule quiet_jobs [OF Connect_quiet])
  with example_policy show ?thesis
    by (simp add: ListQueuedJobs_def policyCapabilities_def example_jobs example_fanout_def example_job_def queued_for_def
        protocolForJob_def take_limit_def)
qed

lemma example_running_jobs: "running_of ''a'' (sysHub example_running) = [''uuuu'']"
  and example_sent: "job_ids_sent (sysSent example_running) = [''uuuu'']"
  and example_job_started: "map_option jStatus (mget (jobs_of example_running) ''uuuu'') = Some JobRunning"
proof -
  obtain p where p: "mget (byTool (policiesForAgent ''a'' example_connected)) ToolDNS = Some p" using example_policy by auto
  let ?c = example_connected and ?j = "example_job ''uuuu'' ''uuu'' ''a'' JobQueued"
  have "sysStore ?c = UpsertAgent (snd (hd (mAgents (sysStore ?c)))) (sysStore example_created)"
    and meta: "mget (hbMeta (sysHub ?c)) ''a'' = Some \<lparr>amCapabilities = [ToolDNS], amProtocols = 3, amLastSeen = 7\<rparr>"
    and run: "hbRunning (sysHub ?c) = [(''a'', [])]" and sent: "sysSent ?c = []"
    and http: "mHTTPAgents (sysStore ?c) = []" and cfgs: "mAgentCfgs (sysStore ?c) = []"
    by (simp_all add: example_connected_def example_created_def example_sys_def example_hello_def Connect_def
        registerTokenAllowed_def NewHub_def NewMemory_def CreateJobs_def UpsertAgent_def Let_def case_prod_unfold)
  have on: "\<not> agentConfigDisabled (sysStore ?c) ''a''"
    by (simp add: agentConfigDisabled_def GetHTTPAgent_def GetAgentConfig_def http cfgs zero_AgentConfig_def)
  have fresh: "\<not> agentStaleAfter 9 ''a'' (offlineAfterForAgent ''a'' ?c) (sysHub ?c)"
    by (simp add: agentStaleAfter_def meta offlineAfterForAgent_def example_settings seconds_def wrap64_def)
  have room: "inflightLimitForAgent ''a'' ?c - inflightCount ''a'' (sysHub ?c) = 4"
    by (simp add: inflightLimitForAgent_def example_settings inflightCount_def running_of_def run)
  have job: "mget (jobs_of ?c) ''uuuu'' = Some ?j"
    using quiet_jobs [OF Connect_quiet] by (simp add: example_connected_def example_jobs example_fanout_def example_job_def)
  have eq: "example_running = snd (dispatch_job example_env 9 (\<lambda>_. True) ''a'' (policiesForAgent ''a'' ?c) ?j (True, ?c))"
    using on fresh room example_queue by (simp add: example_running_def send_tick_def Let_def)
  have j: "jID ?j = ''uuuu''" "jTool ?j = ToolDNS" "jParentID ?j = ''uuu''" "jStatus ?j = JobQueued" "jAgentID ?j = ''a''"
    by (simp_all add: example_job_def)
  show "running_of ''a'' (sysHub example_running) = [''uuuu'']"
    and "job_ids_sent (sysSent example_running) = [''uuuu'']"
    and "map_option jStatus (mget (jobs_of example_running) ''uuuu'') = Some JobRunning"
    unfolding eq using p job j by (simp_all add: dispatch_job_def ClaimQueuedJob_def emitStarted_def markInflight_def running_of_def run sent
        job_ids_sent_def List.map_filter_def)
qed

lemma example_ok: "sys_ok example_env example_sys" "sys_ok example_env example_created" "sys_ok example_env example_running"
proof -
  show "sys_ok example_env example_sys" by (rule sys_ok_start [OF example_start])
  from evolves_ok(1) [OF example_fresh this hub_run_evolves [OF example_fresh this example_run]]
  show "sys_ok example_env example_running" .
  from evolves_ok(1) [OF example_fresh \<open>sys_ok example_env example_sys\<close> hub_step_evolves [OF example_fresh \<open>sys_ok example_env example_sys\<close> example_create]]
  show "sys_ok example_env example_created" .
qed


section \<open>Runs of the system\<close>

text \<open>
  The hub refines the life cycle of jobs: from every state that satisfies the
  invariant, each handler (connect, disconnect, receive, dispatch, cancel, tick, settings,
  subscriptions, creation) is a sequence of steps of the abstract specification \<open>vstep\<close>, in
  which a job is created with a new id, started once by its own agent, and finished once; and
  the invariant holds again afterwards.
\<close>

theorem hub_refines_lifecycle:
  assumes "uuid_fresh (heUUID env)" and "sys_ok env s" and "hub_step env s t"
  shows "(vstep (heUUID env))\<^sup>*\<^sup>* (view s) (view t) \<and> sys_ok env t"
  using hub_step_evolves [OF assms] evolves_ok(1) [OF assms(1,2)] by (auto simp: evolves_def)

theorem hub_refines_lifecycle_witness:
  "(vstep (heUUID example_env))\<^sup>*\<^sup>* (view example_sys) (view example_created) \<and> sys_ok example_env example_created"
  using hub_refines_lifecycle [OF example_fresh example_ok(1) example_create] .

text \<open>
  (C3) Each job is sent to agents at most once: in every run of the system from a store
  without jobs, no job id occurs twice among the job messages that streams accepted, and every
  job that was sent exists and is no longer queued.
\<close>

theorem job_sent_at_most_once:
  assumes "uuid_fresh (heUUID env)" and "jobs_of s = []" "sysSent s = []" "hbRunning (sysHub s) = []"
    and "(hub_step env)\<^sup>*\<^sup>* s t"
  shows "distinct (job_ids_sent (sysSent t))
    \<and> (\<forall>k\<in>set (job_ids_sent (sysSent t)). \<exists>j. GetJob k (sysStore t) = Inr j \<and> jStatus j \<noteq> JobQueued)"
proof -
  note start = sys_ok_start [OF assms(2-4), of env]
  from sys_okD(5) [OF evolves_ok(1) [OF assms(1) start hub_run_evolves [OF assms(1) start assms(5)]]]
  show ?thesis by (simp add: sent_ok_def view_def)
qed

theorem job_sent_at_most_once_witness:
  "distinct (job_ids_sent (sysSent example_running)) \<and> job_ids_sent (sysSent example_running) = [''uuuu'']"
  using job_sent_at_most_once [OF example_fresh example_start example_run] by (simp add: example_sent)

text \<open>
  (C12) A fan-out parent and its children agree: in every run of the system from a store
  without jobs, a parent that is terminal has only terminal children, and a parent that
  succeeded has a child that succeeded.
\<close>

theorem fanout_parent_consistent:
  assumes "uuid_fresh (heUUID env)" and "jobs_of s = []" "sysSent s = []" "hbRunning (sysHub s) = []"
    and "(hub_step env)\<^sup>*\<^sup>* s t"
    and "GetJob k (sysStore t) = Inr parent" "ListChildJobs k (sysStore t) \<noteq> []"
  shows "(terminalJobStatus (jStatus parent) \<longrightarrow>
           list_all (\<lambda>c. terminalJobStatus (jStatus c)) (ListChildJobs k (sysStore t)))
    \<and> (jStatus parent = JobSucceeded \<longrightarrow> list_ex (\<lambda>c. jStatus c = JobSucceeded) (ListChildJobs k (sysStore t)))"
proof -
  note start = sys_ok_start [OF assms(2-4), of env]
  have ok: "sys_ok env t" by (rule evolves_ok(1) [OF assms(1) start hub_run_evolves [OF assms(1) start assms(5)]])
  note ch = ListChildJobs_children [OF ok, of _ k]
  from assms(6,7) ch fanout_okD [OF sys_okD(6) [OF ok], of k parent] show ?thesis
    unfolding list_all_iff list_ex_iff by (auto simp: neq_Nil_conv) (metis list.set_intros(1))+
qed

theorem fanout_parent_consistent_witness:
  "\<exists>parent. GetJob ''uuu'' (sysStore example_created) = Inr parent
     \<and> ListChildJobs ''uuu'' (sysStore example_created) \<noteq> [] \<and> \<not> terminalJobStatus (jStatus parent)"
proof -
  let ?parent = "example_job ''uuu'' [] [] JobRunning"
  have get: "GetJob ''uuu'' (sysStore example_created) = Inr ?parent"
    and ch: "ListChildJobs ''uuu'' (sysStore example_created) \<noteq> []"
    and open_child: "\<not> list_all (\<lambda>c. terminalJobStatus (jStatus c)) (ListChildJobs ''uuu'' (sysStore example_created))"
    by (simp_all add: example_jobs ListChildJobs_def example_fanout_def example_job_def terminalJobStatus_def)
  have "(hub_step example_env)\<^sup>*\<^sup>* example_sys example_created" by (rule r_into_rtranclp) (rule example_create)
  from fanout_parent_consistent [OF example_fresh example_start this get ch] open_child
  have "\<not> terminalJobStatus (jStatus ?parent)" by blast
  with get ch show ?thesis by blast
qed

text \<open>
  Finished jobs stay finished: over any run of the system, a job that is succeeded,
  failed or canceled is not changed again, a running job never returns to the queue, and no job
  changes its agent, its parent, its tool or its target.
\<close>

theorem terminal_jobs_absorbing:
  assumes "uuid_fresh (heUUID env)" and "sys_ok env s" and "(hub_step env)\<^sup>*\<^sup>* s t"
    and "GetJob k (sysStore s) = Inr j"
  shows "\<exists>j'. GetJob k (sysStore t) = Inr j'
    \<and> (terminalJobStatus (jStatus j) \<longrightarrow> j' = j)
    \<and> (jStatus j = JobRunning \<longrightarrow> jStatus j' \<noteq> JobQueued)
    \<and> jAgentID j' = jAgentID j \<and> jParentID j' = jParentID j \<and> jTool j' = jTool j \<and> jTarget j' = jTarget j"
  using vprogress_jobD [OF evolves_ok(2) [OF assms(1,2) hub_run_evolves [OF assms(1-3)]], of k j] assms(4)
  by (auto simp: job_progress_def)

theorem terminal_jobs_absorbing_witness:
  "\<exists>j'. GetJob ''uuuu'' (sysStore (hub_tick example_env 9 example_created)) = Inr j' \<and> jAgentID j' = ''a''"
proof -
  have get: "GetJob ''uuuu'' (sysStore example_created) = Inr (example_job ''uuuu'' ''uuu'' ''a'' JobQueued)"
    by (simp add: example_jobs example_fanout_def example_job_def)
  have "(hub_step example_env)\<^sup>*\<^sup>* example_created (hub_tick example_env 9 example_created)"
    by (rule r_into_rtranclp) (rule tick)
  from terminal_jobs_absorbing [OF example_fresh example_ok(2) this get] show ?thesis by (auto simp: example_job_def)
qed

text \<open>
  The in-flight table is right: in every run of the system from a store without jobs,
  a job marked as running on an agent exists, belongs to that agent, has left the queue, and is
  not a fan-out parent.
\<close>

theorem inflight_jobs_owned:
  assumes "uuid_fresh (heUUID env)" and "jobs_of s = []" "sysSent s = []" "hbRunning (sysHub s) = []"
    and "(hub_step env)\<^sup>*\<^sup>* s t" and "k \<in> set (running_of agentID (sysHub t))"
  shows "(\<exists>j. GetJob k (sysStore t) = Inr j \<and> jAgentID j = agentID \<and> jStatus j \<noteq> JobQueued)
    \<and> ListChildJobs k (sysStore t) = []"
proof -
  note start = sys_ok_start [OF assms(2-4), of env]
  have ok: "sys_ok env t" by (rule evolves_ok(1) [OF assms(1) start hub_run_evolves [OF assms(1) start assms(5)]])
  from sys_okD(4) [OF ok] assms(6) ListChildJobs_children [OF ok, of _ k] show ?thesis
    unfolding running_ok_def by (simp add: view_def) (metis list.set_intros(1) neq_Nil_conv)
qed

theorem inflight_jobs_owned_witness:
  "\<exists>j. GetJob ''uuuu'' (sysStore example_running) = Inr j \<and> jAgentID j = ''a'' \<and> jStatus j \<noteq> JobQueued"
proof -
  have "''uuuu'' \<in> set (running_of ''a'' (sysHub example_running))" by (simp add: example_running_jobs)
  from inflight_jobs_owned [OF example_fresh example_start example_run this] show ?thesis by blast
qed

end
