(* ===== verification/HubHandlers.thy ===== *)
theory HubHandlers
  imports HubClaims
begin

text \<open>
  The handlers of the hub one by one: the effect of a result on its job, the completion of a
  parent, the jobs a stream is sent, the admission of agents, the end of jobs that run too long,
  the runs of a schedule and the delivery of events.
\<close>


section \<open>What the handlers leave alone\<close>

lemma jobs_emit [simp]:
  "jobs_of (emitProgress env now k msg s) = jobs_of s" "jobs_of (emitFailureMessage env now k a msg s) = jobs_of s"
  "jobs_of (emitStarted env now job s) = jobs_of s" "jobs_of (clearInflight a k s) = jobs_of s"
  by (simp_all add: quiet_jobs [OF quiet_emitProgress] quiet_jobs [OF quiet_emitFailureMessage]
      quiet_jobs [OF quiet_emitStarted] quiet_jobs [OF quiet_clearInflight])

lemma running_emitFailure [simp]:
  "running_of b (sysHub (emitFailureMessage env now k a msg s)) = running_of b (sysHub s)"
  by (simp add: emitFailureMessage_def newUUID_def Let_def)

lemma sent_store_event [simp]: "sysSent (snd (store_event e s)) = sysSent s"
  by (simp add: store_event_def publish_def split: sum.splits option.splits)

lemma sent_emit [simp]:
  "sysSent (emitProgress env now k msg s) = sysSent s" "sysSent (emitStarted env now job s) = sysSent s"
  by (simp_all add: emitProgress_def emitStarted_def newUUID_def Let_def split: sum.splits)


section \<open>Completion of a parent\<close>

text \<open>The job that \<^verbatim>\<open>completeParentIfDoneWithFailure\<close> makes of a parent.\<close>

definition completed_parent :: "time \<Rightarrow> string \<Rightarrow> Job list \<Rightarrow> Job \<Rightarrow> Job" where
  "completed_parent now failureMsg children parent =
     (if terminalJobStatus (jStatus parent) \<or> children = [] \<or> \<not> list_all (\<lambda>c. terminalJobStatus (jStatus c)) children
      then parent
      else if list_ex (\<lambda>c. jStatus c = JobSucceeded) children then set_job_status now JobSucceeded [] parent
      else set_job_status now JobFailed
             (if failureMsg = [] then ''one or more fanout jobs failed'' else failureMsg) parent)"

lemma completeParent_jobs:
  assumes "mget (jobs_of s) k = Some parent"
  shows "mget (jobs_of (completeParentIfDoneWithFailure env now k failureMsg emit s)) =
         (mget (jobs_of s))(k \<mapsto> completed_parent now failureMsg (ListChildJobs k (sysStore s)) parent)"
    "running_of b (sysHub (completeParentIfDoneWithFailure env now k failureMsg emit s)) = running_of b (sysHub s)"
proof -
  let ?ch = "ListChildJobs k (sysStore s)"
  have id: "(mget (jobs_of s))(k \<mapsto> parent) = mget (jobs_of s)" using assms by auto
  have put: "mget (mput k v m) = (mget m)(k \<mapsto> v)" for v and m :: "(string, Job) gomap" by (auto simp: fun_eq_iff)
  show "mget (jobs_of (completeParentIfDoneWithFailure env now k failureMsg emit s)) =
         (mget (jobs_of s))(k \<mapsto> completed_parent now failureMsg ?ch parent)"
    using assms id unfolding completeParentIfDoneWithFailure_def completed_parent_def
    by (simp add: GetJob_def UpdateJobStatus_def Let_def put)
  show "running_of b (sysHub (completeParentIfDoneWithFailure env now k failureMsg emit s)) = running_of b (sysHub s)"
    using assms unfolding completeParentIfDoneWithFailure_def
    by (simp add: GetJob_def UpdateJobStatus_def Let_def)
qed

text \<open>
  (C13) A fan-out parent completes exactly when it should: \<^verbatim>\<open>completeParentIfDone\<close> changes no other
  job, and changes the parent exactly when it is not terminal, has children, and all of them
  are terminal; it then succeeds if one child succeeded, and fails otherwise.
\<close>

theorem parent_completion_exact:
  assumes "GetJob k (sysStore s) = Inr parent"
  shows "GetJob k (sysStore (completeParentIfDone env now k s)) =
      Inr (let children = ListChildJobs k (sysStore s) in
           if \<not> terminalJobStatus (jStatus parent) \<and> children \<noteq> [] \<and> list_all (\<lambda>c. terminalJobStatus (jStatus c)) children
           then (if list_ex (\<lambda>c. jStatus c = JobSucceeded) children then set_job_status now JobSucceeded [] parent
                 else set_job_status now JobFailed ''one or more fanout jobs failed'' parent)
           else parent)
    \<and> (\<forall>j. j \<noteq> k \<longrightarrow> GetJob j (sysStore (completeParentIfDone env now k s)) = GetJob j (sysStore s))"
proof -
  from assms have k: "mget (jobs_of s) k = Some parent" by simp
  show ?thesis unfolding completeParentIfDone_def GetJob_def completeParent_jobs(1) [OF k]
    by (simp add: completed_parent_def Let_def)
qed

theorem parent_completion_exact_witness:
  "GetJob ''uuu'' (sysStore (completeParentIfDone example_env 9 ''uuu'' example_created)) =
     Inr (example_job ''uuu'' [] [] JobRunning)"
proof -
  have get: "GetJob ''uuu'' (sysStore example_created) = Inr (example_job ''uuu'' [] [] JobRunning)"
    by (simp add: example_jobs example_fanout_def example_job_def)
  have "\<not> list_all (\<lambda>c. terminalJobStatus (jStatus c)) (ListChildJobs ''uuu'' (sysStore example_created))"
    by (simp add: ListChildJobs_def example_jobs example_fanout_def example_job_def terminalJobStatus_def)
  with parent_completion_exact [OF get, of example_env 9] show ?thesis by simp
qed


section \<open>Results\<close>

text \<open>The end of a job: its status is that of the exit code, it is no longer in flight, its event is stored.\<close>

lemma result_ends:
  assumes u: "uuid_fresh (heUUID env)" and ok: "sys_ok env s"
    and job: "mget (jobs_of s) (reJobID ev) = Some job" and own: "agentOwnsJob agentID job (sysHub s)"
    and live: "\<not> terminalJobStatus (jStatus job)"
    and w: "jobEventFromWire job (eventType (reEvent ev)) (reEvent ev) = Inr w" and code: "weExitCode w = Some code"
  shows "mget (jobs_of (handleResult env now agentID ev s)) (reJobID ev) =
           Some (set_job_status now (result_status code) (result_error code w) job)"
    "reJobID ev \<notin> set (running_of agentID (sysHub (handleResult env now agentID ev s)))"
proof -
  define e where "e = result_event env now agentID ev job w s"
  define s1 where "s1 = snd (newUUID env s)"
  have q1: "quiet s s1" unfolding s1_def by (rule quiet_newUUID)
  have jid: "jID job = reJobID ev" by (rule job_id [OF ok job])
  have "\<exists>p. mget (jobs_of s) (eJobID e) = Some p"
    using job jid sys_okD(3) [OF ok] by (auto simp: e_def result_event_def parents_ok_def)
  with quiet_jobs [OF q1] have "fst (store_event e s1)"
    by (auto simp: store_event_def AddJobEvent_def split: option.splits)
  then obtain s2 where st: "store_event e s1 = (True, s2)" by (metis prod.collapse)
  have q2: "quiet s s2" using quiet_trans [OF q1 quiet_store_event] st by (metis snd_conv)
  define s3 where "s3 = clearInflight agentID (reJobID ev) s2"
  have q3: "quiet s s3" unfolding s3_def by (rule quiet_trans [OF q2 quiet_clearInflight])
  have j3: "mget (jobs_of s3) (reJobID ev) = Some job" using job quiet_jobs [OF q3] by simp
  define j' where "j' = set_job_status now (result_status code) (result_error code w) job"
  define s4 where "s4 = set_store ((sysStore s3)\<lparr>mJobs := mput (reJobID ev) j' (jobs_of s3)\<rparr>) s3"
  have eq: "handleResult env now agentID ev s =
      (if jParentID job \<noteq> [] then completeParentIfDone env now (jParentID job) s4
       else emitProgress env now (reJobID ev) (progressMessageForStatus (result_status code)) s4)"
    using handleResult_accepted [OF job own live w st [unfolded e_def s1_def]] code j3
    by (simp add: UpdateJobStatus_def Let_def s4_def j'_def flip: s3_def)
  have j4: "mget (jobs_of s4) (reJobID ev) = Some j'" by (simp add: s4_def)
  have r4: "reJobID ev \<notin> set (running_of agentID (sysHub s4))"
    by (auto simp: s4_def s3_def clearInflight_def running_of_def Let_def split: option.splits)
  have par: "mget (jobs_of (completeParentIfDone env now k s4)) (reJobID ev) = Some j'"
    "running_of agentID (sysHub (completeParentIfDone env now k s4)) = running_of agentID (sysHub s4)"
    if "jParentID job = k" "k \<noteq> []" for k
  proof -
    have "k \<noteq> reJobID ev"
      using that parents_okD [OF sys_okD(3) [OF ok], of k job] job jid by (auto simp: child_of_def)
    then show "mget (jobs_of (completeParentIfDone env now k s4)) (reJobID ev) = Some j'"
      "running_of agentID (sysHub (completeParentIfDone env now k s4)) = running_of agentID (sysHub s4)"
      using j4 completeParent_jobs [of s4 k] unfolding completeParentIfDone_def
      by (cases "mget (jobs_of s4) k"; simp add: completeParentIfDoneWithFailure_def GetJob_def)+
  qed
  from par j4 show "mget (jobs_of (handleResult env now agentID ev s)) (reJobID ev) =
      Some (set_job_status now (result_status code) (result_error code w) job)" by (simp add: eq j'_def)
  from par r4 show "reJobID ev \<notin> set (running_of agentID (sysHub (handleResult env now agentID ev s)))" by (simp add: eq)
qed

text \<open>
  (C14) Only the agent that runs a job can report on it: a result that changes anything names
  a job that exists, is not terminal, belongs to the reporting agent and is in flight on it.
  Every other result leaves the whole system as it is.
\<close>

theorem result_by_owner_only:
  assumes "handleResult env now agentID ev s \<noteq> s"
  shows "\<exists>job. GetJob (reJobID ev) (sysStore s) = Inr job \<and> \<not> terminalJobStatus (jStatus job)
    \<and> agentID \<noteq> [] \<and> jAgentID job = agentID \<and> jID job \<in> set (running_of agentID (sysHub s))"
proof (cases "mget (jobs_of s) (reJobID ev)")
  case None
  with assms show ?thesis by (simp add: handleResult_unknown)
next
  case (Some job)
  from handleResult_ignored [OF Some] assms have "agentOwnsJob agentID job (sysHub s)" "\<not> terminalJobStatus (jStatus job)"
    by blast+
  with Some owns_running [of agentID job "sysHub s"] show ?thesis by (auto simp: agentOwnsJob_def split: if_splits)
qed

definition example_result :: ResultEvent where
  "example_result =
     \<lparr>reJobID = ''uuuu'', reAgentID = ''a'', reEvent = [(''type'', JStr ''summary''), (''exit_code'', JNum 0)]\<rparr>"

lemma example_running_job:
  obtains j where "mget (jobs_of example_running) ''uuuu'' = Some j" "jAgentID j = ''a''" "jID j = ''uuuu''"
    "jStatus j = JobRunning" "agentOwnsJob ''a'' j (sysHub example_running)"
    "jobEventFromWire j (eventType (reEvent example_result)) (reEvent example_result) =
       Inr \<lparr>weEvent = None, weExitCode = Some 0, weParsed = Some \<lparr>trType = ''summary'', trTool = jTool j,
              trTarget = jTarget j, trIPVersion = jIPVersion j, trExitCode = 0, trSummary = [], trHops = [], trRecords = []\<rparr>\<rparr>"
proof -
  from running_job [OF example_ok(3), of "''uuuu''" "''a''"] example_running_jobs
  obtain j where j: "mget (jobs_of example_running) ''uuuu'' = Some j" "jAgentID j = ''a''" by auto
  have jid: "jID j = ''uuuu''" by (rule job_id [OF example_ok(3) j(1)])
  have "jStatus j = JobRunning" using example_job_started j(1) by simp
  moreover have "agentOwnsJob ''a'' j (sysHub example_running)"
    using example_running_jobs j(2) jid by (auto simp: agentOwnsJob_def running_of_def split: option.splits)
  moreover have "float_to_int 0 = 0" by (simp add: float_to_int_def int64_def quot_def)
  ultimately show thesis
    using that [OF j(1,2) jid] by (simp add: example_result_def eventType_def jobEventFromWire_def summaryEventFromWire_def
        intFromPayload_def typOrDefault_def hopsFromPayload_def recordsFromPayload_def)
qed

lemma example_result_ends:
  "\<exists>j. mget (jobs_of (handleResult example_env 11 ''a'' example_result example_running)) ''uuuu'' = Some j
     \<and> jStatus j = JobSucceeded"
proof -
  have "reJobID example_result = ''uuuu''" by (simp add: example_result_def)
  with example_running_job result_ends(1) [OF example_fresh example_ok(3), of example_result _ "''a''"] show ?thesis
    by (metis (no_types, lifting) JobStatus.distinct WireEvent.select_convs(2) result_status_def set_job_status_simps(1)
        terminalJobStatus_def)
qed

theorem result_by_owner_only_witness:
  "handleResult example_env 11 ''a'' example_result example_running \<noteq> example_running
   \<and> (\<exists>job. GetJob ''uuuu'' (sysStore example_running) = Inr job \<and> jAgentID job = ''a'')"
proof -
  have ne: "handleResult example_env 11 ''a'' example_result example_running \<noteq> example_running"
    using example_result_ends example_job_started by auto
  from result_by_owner_only [OF this] ne show ?thesis by (auto simp: example_result_def)
qed

text \<open>
  (C15) The final report of the owning agent ends its job: when the decoded event carries an exit
  code, the job has succeeded for code 0 and failed otherwise, it is completed at that time, its
  error is the failure type the tool reported or the general one, and it is no longer in flight.
\<close>

theorem result_ends_job:
  assumes "uuid_fresh (heUUID env)" and "sys_ok env s"
    and "GetJob (reJobID ev) (sysStore s) = Inr job" and "agentOwnsJob agentID job (sysHub s)"
    and "\<not> terminalJobStatus (jStatus job)"
    and "jobEventFromWire job (eventType (reEvent ev)) (reEvent ev) = Inr w" and "weExitCode w = Some code"
  shows "(\<exists>j. GetJob (reJobID ev) (sysStore (handleResult env now agentID ev s)) = Inr j
      \<and> jStatus j = (if code = 0 then JobSucceeded else JobFailed) \<and> jCompletedAt j = Some now
      \<and> jError j = (if code = 0 then jError job
                    else if parsedFailureType (weParsed w) \<noteq> [] then parsedFailureType (weParsed w) else JobErrorToolFailed))
    \<and> reJobID ev \<notin> set (running_of agentID (sysHub (handleResult env now agentID ev s)))"
  using result_ends [OF assms(1,2) assms(3) [unfolded GetJob_iff] assms(4-7)]
  by (simp add: set_job_status_def result_status_def result_error_def)

theorem result_ends_job_witness:
  "\<exists>j. GetJob ''uuuu'' (sysStore (handleResult example_env 11 ''a'' example_result example_running)) = Inr j
     \<and> jStatus j = JobSucceeded \<and> jCompletedAt j = Some 11"
proof -
  obtain j where j: "mget (jobs_of example_running) ''uuuu'' = Some j" "jStatus j = JobRunning"
    "agentOwnsJob ''a'' j (sysHub example_running)"
    "jobEventFromWire j (eventType (reEvent example_result)) (reEvent example_result) =
       Inr \<lparr>weEvent = None, weExitCode = Some 0, weParsed = Some \<lparr>trType = ''summary'', trTool = jTool j,
              trTarget = jTarget j, trIPVersion = jIPVersion j, trExitCode = 0, trSummary = [], trHops = [], trRecords = []\<rparr>\<rparr>"
    by (rule example_running_job)
  have "GetJob (reJobID example_result) (sysStore example_running) = Inr j" "\<not> terminalJobStatus (jStatus j)"
    using j(1,2) by (simp_all add: example_result_def terminalJobStatus_def)
  from result_ends_job [OF example_fresh example_ok(3) this(1) j(3) this(2) j(4), of 0 11] show ?thesis
    by (auto simp: example_result_def)
qed


section \<open>Dispatch\<close>

lemma dispatch_job_cases:
  assumes "dispatch_job env now send agentID policies job (alive, s) = (alive', t)"
  shows "t = s \<or> (\<exists>p m. mget (byTool policies) (jTool job) = Some p
      \<and> ClaimQueuedJob now (jID job) agentID (sysStore s) = (True, m)
      \<and> (let s1 = emitStarted env now job (markInflight agentID (jID job) (set_store m s));
             msg = MsgJob (toJobSpecWithPolicies job p policies)
         in t = (if send msg then s1\<lparr>sysSent := sysSent s1 @ [(agentID, msg)]\<rparr> else s1)))"
proof (cases "alive \<and> mget (byTool policies) (jTool job) \<noteq> None \<and> fst (ClaimQueuedJob now (jID job) agentID (sysStore s))")
  case True
  then obtain p m where "mget (byTool policies) (jTool job) = Some p"
    "ClaimQueuedJob now (jID job) agentID (sysStore s) = (True, m)" by (metis not_None_eq prod.collapse)
  with assms True show ?thesis by (auto simp: dispatch_job_def Let_def split: if_splits)
next
  case False
  then have "t = s" using assms
    by (cases "ClaimQueuedJob now (jID job) agentID (sysStore s)")
      (auto simp: dispatch_job_def split: if_splits option.splits bool.splits)
  then show ?thesis by simp
qed

text \<open>One dispatch adds at most one job to the flight of its agent and none to that of others.\<close>

lemma dispatch_job_inflight:
  "inflightCount b (sysHub (snd (dispatch_job env now send agentID policies job (alive, s))))
     \<le> inflightCount b (sysHub s) + (if b = agentID then 1 else 0)"
proof -
  obtain alive' t where d: "dispatch_job env now send agentID policies job (alive, s) = (alive', t)" by fastforce
  have mark: "inflightCount b (sysHub (markInflight agentID (jID job) u)) \<le> inflightCount b (sysHub u) + (if b = agentID then 1 else 0)"
    for u by (auto simp: inflightCount_def markInflight_def running_of_def List.insert_def)
  have "sysHub (set_store m s) = sysHub s" for m by simp
  with dispatch_job_cases [OF d] mark [of "set_store _ s"] show ?thesis
    by (auto simp: d inflightCount_def Let_def split: if_splits)
qed

lemma dispatch_jobs_inflight:
  "inflightCount b (sysHub (snd (fold (dispatch_job env now send agentID policies) jobs acc)))
     \<le> inflightCount b (sysHub (snd acc)) + (if b = agentID then int (length jobs) else 0)"
proof (induction jobs arbitrary: acc)
  case (Cons job jobs)
  obtain alive s where acc: "acc = (alive, s)" by fastforce
  from Cons [of "dispatch_job env now send agentID policies job acc"]
    dispatch_job_inflight [of b env now send agentID policies job alive s] show ?case
    by (auto simp: acc split: if_splits)
qed simp

text \<open>
  (C28) The in-flight limit holds: one round of a stream never takes an agent above its limit
  (nor above what it had in flight when the limit was lowered), and leaves the other agents alone.
\<close>

theorem inflight_limit_respected:
  "inflightCount b (sysHub (snd (send_tick env now send agentID caps protocols s)))
     \<le> (if b = agentID then max (inflightCount agentID (sysHub s)) (inflightLimitForAgent agentID s)
        else inflightCount b (sysHub s))"
proof -
  define room where "room = inflightLimitForAgent agentID s - inflightCount agentID (sysHub s)"
  define jobs where "jobs = ListQueuedJobs agentID (policyCapabilities (policiesForAgent agentID s) caps) protocols room (sysStore s)"
  have len: "0 < room \<Longrightarrow> int (length jobs) \<le> room" unfolding jobs_def by (rule queued_jobs.list_op_bounded)
  note fold = dispatch_jobs_inflight [where b = b and env = env and now = now and send = send and agentID = agentID
      and policies = "policiesForAgent agentID s" and jobs = jobs and acc = "(True, s)"]
  have off: "sysHub (ignore_err r s) = sysHub s" for r by (simp add: ignore_err_def split: sum.splits)
  show ?thesis
  proof (cases "agentConfigDisabled (sysStore s) agentID
      \<or> agentStaleAfter now agentID (offlineAfterForAgent agentID s) (sysHub s) \<or> room \<le> 0")
    case True
    then have "sysHub (snd (send_tick env now send agentID caps protocols s)) = sysHub s"
      by (auto simp: send_tick_def off room_def Let_def)
    then show ?thesis by simp
  next
    case False
    then have "send_tick env now send agentID caps protocols s =
        fold (dispatch_job env now send agentID (policiesForAgent agentID s)) jobs (True, s)"
      by (simp add: send_tick_def room_def jobs_def Let_def)
    with fold len False show ?thesis by (auto simp: room_def max_def)
  qed
qed

text \<open>What a dispatch sends.\<close>

definition permitted_message :: "Sys \<Rightarrow> string \<Rightarrow> Tool list \<Rightarrow> ProtocolMask \<Rightarrow> string \<times> ServerMessage \<Rightarrow> bool" where
  "permitted_message s agentID caps protocols am \<longleftrightarrow>
     (\<exists>job p. am = (agentID, MsgJob (toJobSpecWithPolicies job p (policiesForAgent agentID s)))
        \<and> GetJob (jID job) (sysStore s) = Inr job \<and> queued_for agentID caps protocols job
        \<and> mget (byTool (policiesForAgent agentID s)) (jTool job) = Some p)"

lemma dispatch_jobs_sent:
  assumes "\<And>job p. job \<in> set jobs \<Longrightarrow> mget (byTool policies) (jTool job) = Some p \<Longrightarrow>
    P (agentID, MsgJob (toJobSpecWithPolicies job p policies))"
  shows "\<exists>new. sysSent (snd (fold (dispatch_job env now send agentID policies) jobs acc)) = sysSent (snd acc) @ new \<and> list_all P new"
  using assms
proof (induction jobs arbitrary: acc)
  case (Cons job jobs)
  obtain alive s where acc: "acc = (alive, s)" by fastforce
  obtain alive' t where d: "dispatch_job env now send agentID policies job (alive, s) = (alive', t)" by fastforce
  have "\<exists>new. sysSent t = sysSent s @ new \<and> list_all P new"
    using dispatch_job_cases [OF d] Cons.prems [of job] by (auto simp: Let_def split: if_splits)
  moreover have "\<exists>new. sysSent (snd (fold (dispatch_job env now send agentID policies) jobs (alive', t))) = sysSent t @ new \<and> list_all P new"
    using Cons.IH [of "(alive', t)"] Cons.prems by simp
  ultimately show ?case by (auto simp: acc d)
qed simp

text \<open>
  (C8) A stream is only sent what its agent may run: every message that a round adds is a job of
  this agent that was queued, with a tool the agent has and its policies enable and an IP
  version it speaks, with the arguments and timeouts of those policies; an agent that is disabled
  or has not been seen recently is sent nothing.
\<close>

theorem dispatched_jobs_permitted:
  assumes "sys_ok env s"
  shows "\<exists>new. sysSent (snd (send_tick env now send agentID caps protocols s)) = sysSent s @ new
    \<and> list_all (permitted_message s agentID caps protocols) new
    \<and> (agentConfigDisabled (sysStore s) agentID
       \<or> agentStaleAfter now agentID (offlineAfterForAgent agentID s) (sysHub s) \<longrightarrow> new = [])"
proof -
  define room where "room = inflightLimitForAgent agentID s - inflightCount agentID (sysHub s)"
  define jobs where "jobs = ListQueuedJobs agentID (policyCapabilities (policiesForAgent agentID s) caps) protocols room (sysStore s)"
  have ok: "permitted_message s agentID caps protocols (agentID, MsgJob (toJobSpecWithPolicies job p (policiesForAgent agentID s)))"
    if "job \<in> set jobs" "mget (byTool (policiesForAgent agentID s)) (jTool job) = Some p" for job p
  proof -
    from that(1) have "queued_for agentID (policyCapabilities (policiesForAgent agentID s) caps) protocols job"
      unfolding jobs_def by (blast dest: queued_jobs.list_op_sound)
    then have "queued_for agentID caps protocols job" by (auto simp: queued_for_def policyCapabilities_def)
    with that listed_job [OF assms] show ?thesis unfolding permitted_message_def jobs_def GetJob_iff by blast
  qed
  have off: "sysSent (ignore_err r s) = sysSent s" for r by (simp add: ignore_err_def split: sum.splits)
  note sent = dispatch_jobs_sent [where P = "permitted_message s agentID caps protocols" and jobs = jobs
      and policies = "policiesForAgent agentID s" and acc = "(True, s)", OF ok]
  show ?thesis
  proof (cases "agentConfigDisabled (sysStore s) agentID
      \<or> agentStaleAfter now agentID (offlineAfterForAgent agentID s) (sysHub s)")
    case True
    then show ?thesis by (auto simp: send_tick_def off)
  next
    case False
    show ?thesis
    proof (cases "room \<le> 0")
      case True
      with False show ?thesis by (simp add: send_tick_def room_def Let_def)
    next
      case pos: False
      from False pos have eq: "send_tick env now send agentID caps protocols s =
          fold (dispatch_job env now send agentID (policiesForAgent agentID s)) jobs (True, s)"
        by (simp add: send_tick_def room_def jobs_def Let_def)
      with sent [of env now send] False show ?thesis by auto
    qed
  qed
qed

theorem dispatched_jobs_permitted_witness:
  "\<exists>new. sysSent example_running = sysSent example_connected @ new
     \<and> list_all (permitted_message example_connected ''a'' [ToolDNS] 3) new"
proof -
  have "sys_ok example_env example_connected"
    unfolding example_connected_def by (rule quiet_ok [OF example_fresh example_ok(2) Connect_quiet])
  from dispatched_jobs_permitted [OF this, of 9 "\<lambda>_. True" "''a''" "[ToolDNS]" 3] show ?thesis
    unfolding example_running_def by blast
qed


section \<open>Admission\<close>

lemma normalizedRegisterTokens_nonempty: "[] \<notin> set (normalizedRegisterTokens ts)"
  unfolding normalizedRegisterTokens_def
  by (rule fold_invariant [where Q = "\<lambda>_. True" and P = "\<lambda>out. [] \<notin> set out"]) (auto simp: Let_def)

text \<open>
  (C35) Only registered agents are admitted: a stream is accepted exactly when its first message is
  a hello with a registered token; the agent is then online in the store, and in every other
  case the system does not change. The tokens of managed settings never include the empty
  one, so an agent without a token is refused after every change of the settings.
\<close>

theorem connect_requires_token:
  "((\<exists>a. fst (Connect env now first s) = Inr a) \<longleftrightarrow>
      (case mgAgent first of
         None \<Rightarrow> False
       | Some hello \<Rightarrow> mgType first = ''hello'' \<and> ahToken hello \<in> set (hbRegisterTokens (sysHub s))))
   \<and> (case fst (Connect env now first s) of
        Inl _ \<Rightarrow> snd (Connect env now first s) = s
      | Inr a \<Rightarrow> map_option aStatus (mget (mAgents (sysStore (snd (Connect env now first s)))) a) = Some AgentOnline)
   \<and> [] \<notin> set (hbRegisterTokens (sysHub (ApplySettings env settings s)))"
proof -
  have "[] \<notin> set (hbRegisterTokens (sysHub (ApplySettings env settings s)))"
    by (simp add: ApplySettings_def normalizedRegisterTokens_nonempty Let_def split: prod.splits)
  moreover have "(\<exists>a. fst (Connect env now first s) = Inr a) \<longleftrightarrow>
      (case mgAgent first of
         None \<Rightarrow> False
       | Some hello \<Rightarrow> mgType first = ''hello'' \<and> ahToken hello \<in> set (hbRegisterTokens (sysHub s)))"
    by (auto simp: Connect_def registerTokenAllowed_def list_ex_iff Let_def split: option.splits)
  moreover have "case fst (Connect env now first s) of
        Inl _ \<Rightarrow> snd (Connect env now first s) = s
      | Inr a \<Rightarrow> map_option aStatus (mget (mAgents (sysStore (snd (Connect env now first s)))) a) = Some AgentOnline"
    by (auto simp: Connect_def UpsertAgent_def Let_def split: option.splits)
  ultimately show ?thesis by blast
qed


section \<open>Subscribers\<close>

definition queue_of :: "string \<Rightarrow> nat \<Rightarrow> Sys \<Rightarrow> JobEvent list option" where
  "queue_of jobID ch s = Option.bind (mget (hbSubs (sysHub s)) jobID) (\<lambda>subs. mget subs ch)"

lemma queue_of_publish:
  "queue_of k ch (publish e s) =
     map_option (\<lambda>q. if k = eJobID e \<and> length q < 32 then q @ [e] else q) (queue_of k ch s)"
proof (cases "mget (hbSubs (sysHub s)) (eJobID e)")
  case None
  then show ?thesis by (cases "queue_of k ch s") (auto simp: publish_def queue_of_def split: option.splits)
next
  case (Some subs)
  have "mget (map (\<lambda>(c, q). (c, if length q < 32 then q @ [e] else q)) subs) ch =
      map_option (\<lambda>q. if length q < 32 then q @ [e] else q) (mget subs ch)"
    by (rule mget_map_values [of "\<lambda>_ q. if length q < 32 then q @ [e] else q"])
  with Some show ?thesis
    by (cases "k = eJobID e"; cases "mget (hbSubs (sysHub s)) k") (auto simp: publish_def queue_of_def option.map_ident)
qed

text \<open>
  Events reach exactly the subscribers of their job: publishing appends the event to the
  queue of every subscriber of that job that has room, and changes no other queue; no queue
  grows beyond 32 events; a new subscriber starts with an empty queue and receives the
  next event; and one that left receives nothing.
\<close>

theorem publish_delivers:
  "queue_of k ch (publish e s) =
     map_option (\<lambda>q. if k = eJobID e \<and> length q < 32 then q @ [e] else q) (queue_of k ch s)
   \<and> queue_of (eJobID e) (fst (SubscribeJob (eJobID e) s)) (publish e (snd (SubscribeJob (eJobID e) s))) = Some [e]
   \<and> queue_of (eJobID e) ch (publish e (Unsubscribe (eJobID e) ch s)) = None"
proof -
  have "queue_of (eJobID e) (fst (SubscribeJob (eJobID e) s)) (snd (SubscribeJob (eJobID e) s)) = Some []"
    by (simp add: queue_of_def SubscribeJob_def Let_def)
  moreover have "queue_of (eJobID e) ch (Unsubscribe (eJobID e) ch s) = None"
    by (simp add: queue_of_def Unsubscribe_def Let_def split: option.splits)
  ultimately show ?thesis by (simp add: queue_of_publish)
qed

end
