(* ===== verification/HubTimeouts.thy ===== *)
theory HubTimeouts
  imports HubHandlers
begin

text \<open>
  The sweep of jobs that run too long and the runs of schedules: a job whose time is over is
  ended by the sweep that sees it, and a due schedule creates exactly one run for every agent
  that may run it.
\<close>


section \<open>Settings do not change during a sweep\<close>

definition same_settings :: "Sys \<Rightarrow> Sys \<Rightarrow> bool" where
  "same_settings s t \<longleftrightarrow>
     hbPolicies (sysHub t) = hbPolicies (sysHub s) \<and> hbLabelConfigs (sysHub t) = hbLabelConfigs (sysHub s)
     \<and> schedulerSnapshot (sysHub t) = schedulerSnapshot (sysHub s)
     \<and> mAgents (sysStore t) = mAgents (sysStore s) \<and> mAgentCfgs (sysStore t) = mAgentCfgs (sysStore s)
     \<and> mHTTPAgents (sysStore t) = mHTTPAgents (sysStore s)"

named_theorems same_intros "operations that keep the settings"

lemma same_refl [simp, same_intros]: "same_settings s s"
  by (simp add: same_settings_def)

lemma same_trans: "same_settings s t \<Longrightarrow> same_settings t u \<Longrightarrow> same_settings s u"
  by (simp add: same_settings_def)

lemma same_policies:
  assumes "same_settings s t"
  shows "policiesForAgent a t = policiesForAgent a s" "hub_policiesForLabels ls t = hub_policiesForLabels ls s"
proof -
  have "GetHTTPAgent a (sysStore t) = GetHTTPAgent a (sysStore s)" "GetAgentConfig a (sysStore t) = GetAgentConfig a (sysStore s)"
    "agentsWithManagedLabels (sysStore t) = agentsWithManagedLabels (sysStore s)"
    using assms by (simp_all add: same_settings_def agentsWithManagedLabels_def agent_labels_def ListAgents_def
        ListAgentConfigs_def ListHTTPAgents_def GetHTTPAgent_def GetAgentConfig_def)
  then have "labelsForAgent (sysStore t) a = labelsForAgent (sysStore s) a"
    by (simp add: labelsForAgent_def split: option.splits sum.splits)
  with assms show "policiesForAgent a t = policiesForAgent a s" "hub_policiesForLabels ls t = hub_policiesForLabels ls s"
    by (simp_all add: same_settings_def policiesForAgent_def settingsForAgent_def hub_policiesForLabels_def)
qed

lemma same_timed_out: "same_settings s t \<Longrightarrow> jobTimedOut now job t = jobTimedOut now job s"
  by (simp add: jobTimedOut_def same_policies)

lemma same_store_event: "same_settings s (snd (store_event e s))"
  by (auto simp: store_event_def publish_def AddJobEvent_def same_settings_def schedulerSnapshot_def split: sum.splits option.splits)

lemma same_emit [same_intros]:
  "same_settings s (emitProgress env now k msg s)" "same_settings s (emitFailureMessage env now k a msg s)"
proof -
  have u: "same_settings s (s\<lparr>sysUUID := n\<rparr>)" for n by (simp add: same_settings_def)
  from same_trans [OF u same_store_event]
  show "same_settings s (emitProgress env now k msg s)" "same_settings s (emitFailureMessage env now k a msg s)"
    by (simp_all add: emitProgress_def emitFailureMessage_def newUUID_def Let_def split: sum.splits)
qed

lemma same_flight [same_intros]:
  "same_settings s (clearInflight a k s)" "same_settings s (cancelInflight k s)" "same_settings s (sendGRPCCancel a k s)"
  by (auto simp: clearInflight_def cancelInflight_def sendGRPCCancel_def same_settings_def schedulerSnapshot_def Let_def
      split: option.splits)

lemma same_status [same_intros]: "UpdateJobStatus now k st msg (sysStore s) = Inr m \<Longrightarrow> same_settings s (set_store m s)"
  by (auto simp: UpdateJobStatus_def same_settings_def split: option.splits)

lemma same_completeParent [same_intros]:
  "same_settings s (completeParentIfDoneWithFailure env now k failureMsg emit s)"
proof (cases "mget (jobs_of s) k")
  case None
  then show ?thesis by (simp add: completeParentIfDoneWithFailure_def GetJob_def)
next
  case (Some p)
  have upd: "same_settings s (set_store ((sysStore s)\<lparr>mJobs := js\<rparr>) s)" for js by (simp add: same_settings_def)
  note one = same_trans [OF upd same_emit(1)] same_trans [OF upd same_trans [OF same_emit(2) same_emit(1)]]
  from Some show ?thesis
    by (simp add: completeParentIfDoneWithFailure_def GetJob_def UpdateJobStatus_def one Let_def)
qed

lemma same_failJob [same_intros]: "same_settings s (failJob env now a k msg s)"
proof -
  define s0 where "s0 = (if a \<noteq> [] then clearInflight a k s else s)"
  have s0: "same_settings s s0" by (simp add: s0_def same_flight)
  have "same_settings s0 (failJob env now a k msg s)"
  proof (cases "mget (jobs_of s0) k")
    case None
    then show ?thesis by (simp add: failJob_def GetJob_def flip: s0_def)
  next
    case (Some j)
    then obtain m where m: "UpdateJobStatus now k JobFailed msg (sysStore s0) = Inr m" by (simp add: UpdateJobStatus_def)
    have "same_settings s0 (emitFailureMessage env now e a msg (set_store m s0))" for e
      by (rule same_trans [OF same_status [OF m] same_emit(2)])
    with Some m show ?thesis
      by (simp add: failJob_def GetJob_def Let_def completeParentIfDone_def same_trans [OF _ same_emit(1)]
          same_trans [OF _ same_completeParent] flip: s0_def)
  qed
  with s0 show ?thesis by (rule same_trans)
qed

lemma same_fail_child [same_intros]: "same_settings s (fail_child now c s)"
proof -
  have ign: "same_settings t (ignore_err (UpdateJobStatus now k st msg (sysStore t)) t)" for t k st msg
    by (auto simp: ignore_err_def same_status split: sum.splits)
  show ?thesis
    by (simp add: fail_child_def Let_def same_trans [OF same_flight(2) ign]
        same_trans [OF same_flight(2) same_trans [OF same_flight(3) same_trans [OF same_flight(1) ign]]])
qed

lemma same_fold: "(\<And>x t. same_settings t (f x t)) \<Longrightarrow> same_settings s (fold f xs s)"
  by (induction xs arbitrary: s) (auto intro: same_trans)

lemma same_fail_timed_out [same_intros]: "same_settings s (fail_timed_out env now job s)"
proof -
  have d: "same_settings s (snd (deferFanoutParentTimeout env now job s))"
    by (simp add: deferFanoutParentTimeout_def completeParentIfDone_def same_completeParent Let_def)
  have f: "same_settings t (snd (failFanoutChildren now job t))" for t
    by (simp add: failFanoutChildren_def Let_def same_fold same_fail_child)
  obtain b s1 where b: "deferFanoutParentTimeout env now job s = (b, s1)" by fastforce
  obtain c s2 where c: "failFanoutChildren now job s1 = (c, s2)" by fastforce
  from d f [of s1] b c have "same_settings s s1" "same_settings s s2" by (auto intro: same_trans)
  with b c show ?thesis
    by (cases b; cases c) (simp_all add: fail_timed_out_def same_trans [OF _ same_completeParent] same_trans [OF _ same_failJob])
qed


section \<open>Jobs that run too long\<close>

definition ended :: "Sys \<Rightarrow> string \<Rightarrow> bool" where
  "ended s k \<longleftrightarrow> (\<exists>j. mget (jobs_of s) k = Some j \<and> terminalJobStatus (jStatus j))"

lemma ended_stays:
  assumes "vprogress (view s) (view t)" "ended s k"
  shows "ended t k"
proof -
  from assms(2) obtain j where j: "mget (jobs_of s) k = Some j" "terminalJobStatus (jStatus j)" by (auto simp: ended_def)
  with vprogress_jobD [OF assms(1), of k j] show ?thesis by (auto simp: ended_def job_progress_def)
qed

lemma failJob_ends:
  assumes "mget (jobs_of s) k = Some j" "sys_ok env s" "uuid_fresh (heUUID env)"
  shows "ended (failJob env now a k msg s) k"
proof -
  define s0 where "s0 = (if a \<noteq> [] then clearInflight a k s else s)"
  have jobs: "jobs_of s0 = jobs_of s" by (simp add: s0_def)
  show ?thesis
  proof (cases "terminalJobStatus (jStatus j)")
    case True
    with assms jobs show ?thesis by (simp add: failJob_def GetJob_def ended_def flip: s0_def)
  next
    case False
    let ?j = "set_job_status now JobFailed msg j"
    let ?s1 = "set_store ((sysStore s0)\<lparr>mJobs := mput k ?j (jobs_of s)\<rparr>) s0"
    have par: "mget (jobs_of (completeParentIfDone env now (jParentID j) (emitFailureMessage env now e a msg ?s1))) k = Some ?j"
      if "jParentID j \<noteq> []" for e
    proof -
      have "jParentID j \<noteq> k"
        using that parents_okD [OF sys_okD(3) [OF assms(2)], of k j] assms(1) job_id [OF assms(2,1)] by (auto simp: child_of_def)
      then show ?thesis unfolding completeParentIfDone_def
        using completeParent_jobs(1) [of "emitFailureMessage env now e a msg ?s1" "jParentID j" _ env now "[]" False]
        by (cases "mget (jobs_of s) (jParentID j)") (simp_all add: completeParentIfDoneWithFailure_def GetJob_def)
    qed
    have "mget (jobs_of (failJob env now a k msg s)) k = Some ?j"
      using assms(1) False jobs par by (simp add: failJob_def GetJob_def UpdateJobStatus_def Let_def flip: s0_def)
    then show ?thesis by (simp add: ended_def terminalJobStatus_def)
  qed
qed

lemma fail_children_end:
  assumes u: "uuid_fresh (heUUID env)"
  shows "sys_ok env s \<Longrightarrow> distinct (map jID cs) \<Longrightarrow> \<forall>c\<in>set cs. mget (jobs_of s) (jID c) = Some c \<and> jParentID c \<noteq> [] \<Longrightarrow>
    c \<in> set cs \<Longrightarrow> ended (fold (fail_child now) cs s) (jID c)"
proof (induction cs arbitrary: s)
  case (Cons d cs)
  then have d: "mget (jobs_of s) (jID d) = Some d" "jParentID d \<noteq> []" by auto
  note fc = fail_child_evolves [OF u Cons.prems(1) d, where now = now]
  let ?t = "fail_child now d s"
  have ok: "sys_ok env ?t" by (rule evolves_ok(1) [OF u Cons.prems(1) fc(1)])
  have rest: "\<forall>x\<in>set cs. mget (jobs_of ?t) (jID x) = Some x \<and> jParentID x \<noteq> []"
  proof
    fix x assume x: "x \<in> set cs"
    from Cons.prems(2) have "jID d \<notin> jID ` set cs" by simp
    with x have "jID x \<noteq> jID d" by (metis imageI)
    with fc(2) [of "jID x"] Cons.prems(3) x show "mget (jobs_of ?t) (jID x) = Some x \<and> jParentID x \<noteq> []" by simp
  qed
  have dist: "distinct (map jID cs)" using Cons.prems(2) by simp
  show ?case
  proof (cases "c = d")
    case True
    with fc(3) have "ended ?t (jID c)" by (simp add: ended_def)
    with ended_stays [OF evolves_ok(2) [OF u ok fail_children_evolves [OF u ok dist rest]]] show ?thesis by simp
  qed (use Cons.IH [OF ok dist rest] Cons.prems(4) in simp)
qed simp

text \<open>The time of a fan-out parent is over when the time of the slowest tool is.\<close>

definition overall_timed_out :: "time \<Rightarrow> Job \<Rightarrow> Sys \<Rightarrow> bool" where
  "overall_timed_out now job s \<longleftrightarrow>
     (let start = (case jStartedAt job of Some t \<Rightarrow> t | None \<Rightarrow> jCreatedAt job);
          overall = Set_MaxToolTimeout (hub_policiesForLabels [AgentAllLabel] s)
      in 0 < overall \<and> \<not> IsZero start \<and> start + overall \<le> now)"

lemma fail_timed_out_ends:
  assumes u: "uuid_fresh (heUUID env)" and ok: "sys_ok env s"
    and j: "mget (jobs_of s) (jID job) = Some j'" "job_progress job j'"
    and over: "jobTimedOut now job s" and par: "ListChildJobs (jID job) (sysStore s) = [] \<or> overall_timed_out now job s"
  shows "ended (fail_timed_out env now job s) (jID job)"
proof -
  have "deferFanoutParentTimeout env now job s = (False, s)"
    using par by (auto simp: deferFanoutParentTimeout_def overall_timed_out_def Let_def)
  then have eq: "fail_timed_out env now job s = (case failFanoutChildren now job s of
        (True, s2) \<Rightarrow> completeParentIfDoneWithFailure env now (jID job) JobErrorTimeout True s2
      | (False, s2) \<Rightarrow> failJob env now (jAgentID job) (jID job) JobErrorTimeout s2)"
    using over by (simp add: fail_timed_out_def)
  let ?cs = "ListChildJobs (jID job) (sysStore s)"
  show ?thesis
  proof (cases "fst (failFanoutChildren now job s)")
    case False
    then have "failFanoutChildren now job s = (False, s)" by (auto simp: failFanoutChildren_def Let_def split: if_splits)
    with eq failJob_ends [OF j(1) ok u] show ?thesis by simp
  next
    case True
    define s2 where "s2 = fold (fail_child now) ?cs s"
    from True have f: "failFanoutChildren now job s = (True, s2)" and ne: "?cs \<noteq> []"
      by (auto simp: failFanoutChildren_def s2_def Let_def split: if_splits)
    have cs: "\<forall>c\<in>set ?cs. mget (jobs_of s) (jID c) = Some c \<and> jParentID c \<noteq> []"
      using ListChildJobs_children [OF ok, of _ "jID job"] job_key [OF u ok j(1)] by (auto simp: child_of_def)
    note ev = fail_children_evolves [OF u ok ListChildJobs_distinct [OF ok] cs, where now = now, folded s2_def]
    note prog = evolves_ok(2) [OF u ok ev]
    have ok2: "sys_ok env s2" by (rule evolves_ok(1) [OF u ok ev])
    obtain j2 where j2: "mget (jobs_of s2) (jID job) = Some j2" using vprogress_jobD [OF prog] j(1) by auto
    have all: "list_all (\<lambda>c. terminalJobStatus (jStatus c)) (ListChildJobs (jID job) (sysStore s2))"
      unfolding list_all_iff
    proof
      fix c assume "c \<in> set (ListChildJobs (jID job) (sysStore s2))"
      then have c: "child_of (view s2) (jID job) c" by (simp add: ListChildJobs_children [OF ok2])
      with prog j(1) obtain c0 where "child_of (view s) (jID job) c0" "jID c0 = jID c" unfolding vprogress_def by fastforce
      with fail_children_end [OF u ok ListChildJobs_distinct [OF ok] cs, of c0 now] c show "terminalJobStatus (jStatus c)"
        by (auto simp: ListChildJobs_children [OF ok] ended_def child_of_def s2_def)
    qed
    have ne2: "ListChildJobs (jID job) (sysStore s2) \<noteq> []"
    proof -
      from ne obtain c where "c \<in> set ?cs" by (meson list.set_sel(1))
      then have c: "mget (jobs_of s) (jID c) = Some c" "jParentID c = jID job"
        by (auto simp: ListChildJobs_children [OF ok] child_of_def)
      from vprogress_jobD [OF prog, of "jID c" c] c(1) obtain c' where "mget (jobs_of s2) (jID c) = Some c'" "job_progress c c'"
        by auto
      with c have "child_of (view s2) (jID job) c'" by (simp add: child_of_def job_progress_def)
      with ListChildJobs_children [OF ok2, of c' "jID job"] show ?thesis by auto
    qed
    have "ended (completeParentIfDoneWithFailure env now (jID job) JobErrorTimeout True s2) (jID job)"
      using completeParent_jobs(1) [OF j2, of env now JobErrorTimeout True] all ne2
      by (auto simp: ended_def completed_parent_def terminalJobStatus_def)
    with eq f show ?thesis by simp
  qed
qed


lemma example_late: "jobTimedOut 6000000000 (example_job ''uuuu'' ''uuu'' ''a'' JobQueued) example_created"
proof -
  have hub: "hbPolicies (sysHub example_created) = DefaultPolicies" "hbLabelConfigs (sysHub example_created) = None"
    by (simp_all add: example_created_def example_sys_def NewHub_def)
  have "policiesForAgent ''a'' example_created = WithIntersection DefaultPolicies [] (Set_Runtime DefaultPolicies)"
    by (simp add: policiesForAgent_def settingsForAgent_def settingsForLabels_def labelConfigsFor_def toolPoliciesForLabels_def
        map_filter_def hub)
  moreover have "TimeoutForJobWithRuntime ToolDNS (normalizeRuntime (Set_Runtime (PoliciesWithRuntime DefaultRuntime))) = 5000000000"
    by code_simp
  ultimately show ?thesis
    by (simp add: jobTimedOut_def example_job_def mget_WithIntersection DefaultPolicies_def mget_base default_allowed_args_def
        narrow_def known_tool_def rebased_def IsZero_def Let_def)
qed



section \<open>Runs of a schedule\<close>

text \<open>
  (C22) A due schedule is run exactly once per agent: when its tool is enabled and its target is
  known, the run adds exactly one queued job for every agent that one of the due targets
  selects and whose policies accept the request, in the name of this schedule and revision;
  no two of these jobs are for the same agent, and every other job stays as it is.
\<close>

theorem scheduled_runs_exact:
  assumes u: "uuid_fresh (heUUID env)" and ok: "sys_ok env s"
    and due: "dueScheduleTargets sched now = due" "due \<noteq> []"
    and tool: "mget (byTool (hub_policiesForLabels [AgentAllLabel] s)) (sTool sched) \<noteq> None"
    and target: "schedule_target env (hub_policiesForLabels [AgentAllLabel] s) sched = Some (resolved, version)"
  shows "\<exists>runs. jobs_of (run_schedule env now sched s) = fold (\<lambda>j. mput (jID j) j) runs (jobs_of s)
    \<and> distinct (map jID runs) \<and> list_all (\<lambda>r. mget (jobs_of s) (jID r) = None) runs
    \<and> distinct (map jAgentID runs)
    \<and> jAgentID ` set runs = aID ` {a \<in> \<Union> (set ` (\<lambda>t. scheduledRunAgents sched t version (sysStore s)) ` set due).
          run_allowed env sched s a}
    \<and> list_all (\<lambda>r. jStatus r = JobQueued \<and> jParentID r = [] \<and> jScheduledID r = sID sched
          \<and> jScheduledRevision r = sRevision sched \<and> jTool r = sTool sched \<and> jTarget r = sTarget sched
          \<and> jResolvedTarget r = resolved \<and> jIPVersion r = version \<and> jCreatedAt r = now) runs"
proof -
  define policies where "policies = hub_policiesForLabels [AgentAllLabel] s"
  define s1 where "s1 = s\<lparr>sysUUID := Suc (sysUUID s)\<rparr>"
  define agents where "agents = concat (map (\<lambda>t. scheduledRunAgents sched t version (sysStore s)) due)"
  let ?job = "schedule_job now sched policies (heUUID env (sysUUID s)) (resolved, version)"
  obtain runs s2 where f: "fold (add_run env sched ?job) agents ([], s1) = (runs, s2)" by fastforce
  have inv: "runs_inv env sched ?job s1 (set agents) (runs, s2)"
    using add_runs_inv [OF u runs_inv_Nil, of sched ?job s1 agents] f by simp
  then obtain n where s2: "s2 = s1\<lparr>sysUUID := n\<rparr>" and new: "new_ids (heUUID env) (sysUUID s1) n runs"
    and dis: "distinct (map jAgentID runs)"
    and sound: "\<forall>r\<in>set runs. \<exists>a\<in>set agents. run_allowed env sched s1 a \<and> r = run_of sched ?job s1 a (jID r)"
    and compl: "\<forall>a\<in>set agents. run_allowed env sched s1 a \<longrightarrow> aID a \<in> jAgentID ` set runs"
    by (auto simp: runs_inv_def)
  have allowed: "run_allowed env sched s1 a = run_allowed env sched s a" for a by (simp add: run_allowed_def s1_def)
  have eq: "run_schedule env now sched s = advance_schedule now sched due (set_store (CreateJobs runs (sysStore s2)) s2)"
    using run_schedule_eq [OF due policies_def [symmetric] tool [folded policies_def] target [folded policies_def] s1_def,
        unfolded snd_conv, OF f [unfolded agents_def]] .
  have "jobs_of (run_schedule env now sched s) = fold (\<lambda>j. mput (jID j) j) runs (jobs_of s)"
    unfolding eq quiet_jobs [OF quiet_advance_schedule] by (simp add: CreateJobs_def s2 s1_def)
  moreover have "list_all (\<lambda>r. mget (jobs_of s) (jID r) = None) runs"
  proof -
    have q: "quiet s s1" using quiet_newUUID [of s env] by (simp add: s1_def newUUID_def)
    from new_ids_fresh(1) [OF u sys_okD(2) [OF quiet_ok [OF u ok q]]] new show ?thesis
      by (simp add: list_all_iff view_def s1_def)
  qed
  moreover have "jAgentID ` set runs = aID ` {a \<in> set agents. run_allowed env sched s a}"
  proof
    show "jAgentID ` set runs \<subseteq> aID ` {a \<in> set agents. run_allowed env sched s a}"
    proof
      fix x assume "x \<in> jAgentID ` set runs"
      then obtain r where r: "r \<in> set runs" "x = jAgentID r" by auto
      with sound obtain a where a: "a \<in> set agents" "run_allowed env sched s1 a" "r = run_of sched ?job s1 a (jID r)" by blast
      from arg_cong [OF a(3), of jAgentID] have "jAgentID r = aID a" by (simp add: run_of_def)
      with a r allowed show "x \<in> aID ` {a \<in> set agents. run_allowed env sched s a}" by blast
    qed
  qed (use compl allowed in auto)
  moreover have "set agents = \<Union> (set ` (\<lambda>t. scheduledRunAgents sched t version (sysStore s)) ` set due)"
    by (simp add: agents_def)
  moreover have "list_all (\<lambda>r. jStatus r = JobQueued \<and> jParentID r = [] \<and> jScheduledID r = sID sched
          \<and> jScheduledRevision r = sRevision sched \<and> jTool r = sTool sched \<and> jTarget r = sTarget sched
          \<and> jResolvedTarget r = resolved \<and> jIPVersion r = version \<and> jCreatedAt r = now) runs"
    unfolding list_all_iff
  proof
    fix r assume "r \<in> set runs"
    with sound obtain a where r: "r = run_of sched ?job s1 a (jID r)" by blast
    show "jStatus r = JobQueued \<and> jParentID r = [] \<and> jScheduledID r = sID sched
          \<and> jScheduledRevision r = sRevision sched \<and> jTool r = sTool sched \<and> jTarget r = sTarget sched
          \<and> jResolvedTarget r = resolved \<and> jIPVersion r = version \<and> jCreatedAt r = now"
      by (subst (1 2 3 4 5 6 7 8 9) r) (simp add: run_of_def schedule_job_def)
  qed
  moreover have "distinct (map jID runs)" using new by (simp add: new_ids_def)
  ultimately show ?thesis using dis by auto
qed

theorem scheduled_runs_exact_witness:
  "\<exists>runs. jobs_of (run_schedule example_env 7 example_schedule example_created) =
       fold (\<lambda>j. mput (jID j) j) runs (jobs_of example_created) \<and> distinct (map jAgentID runs)"
proof -
  have "dueScheduleTargets example_schedule 7 = sScheduleTargets example_schedule" "sScheduleTargets example_schedule \<noteq> []"
    by (simp_all add: dueScheduleTargets_def EffectiveScheduleTargets_def example_schedule_def IsZero_def)
  moreover have "hub_policiesForLabels [AgentAllLabel] example_created = WithIntersection DefaultPolicies [] (Set_Runtime DefaultPolicies)"
    by (simp add: hub_policiesForLabels_def policiesForLabels_def labelConfigsFor_def toolPoliciesForLabels_def map_filter_def
        example_created_def example_sys_def NewHub_def)
  then have "mget (byTool (hub_policiesForLabels [AgentAllLabel] example_created)) (sTool example_schedule) \<noteq> None"
    by (simp add: example_schedule_def mget_WithIntersection DefaultPolicies_def mget_base default_allowed_args_def
        narrow_def known_tool_def)
  moreover have "schedule_target example_env (hub_policiesForLabels [AgentAllLabel] example_created) example_schedule = Some ([], IPAny)"
    by (simp add: schedule_target_def example_schedule_def)
  ultimately show ?thesis using scheduled_runs_exact [OF example_fresh example_ok(2)] by blast
qed

end
