(* ===== verification/HTTPClaims.thy ===== *)
theory HTTPClaims
  imports HubTimeouts
begin

text \<open>
  The properties of HTTP agents: when a call is repeated, when an invocation ends its job, and
  how the interval of health checks grows.
\<close>


section \<open>The events of an invocation\<close>

lemma read_lines_ids: "read_lines ls failure jobID agentID = (evs, err) \<Longrightarrow> ev \<in> set evs \<Longrightarrow> reJobID ev = jobID"
  by (induction ls failure jobID agentID arbitrary: evs err rule: read_lines.induct)
    (auto simp: decodeHTTPAgentLine_def split: sum.splits prod.splits option.splits if_splits)

lemma call_once_ids: "callHTTPAgentOnce r agent spec = (evs, err) \<Longrightarrow> ev \<in> set evs \<Longrightarrow> reJobID ev = jsID spec"
  by (auto simp: callHTTPAgentOnce_def split: http_reply.splits if_splits dest: read_lines_ids)

text \<open>The attempt whose outcome is the outcome of the call.\<close>

definition retried :: "http_reply \<Rightarrow> hubHTTPAgent \<Rightarrow> JobSpec \<Rightarrow> bool" where
  "retried r agent spec \<longleftrightarrow>
     (case callHTTPAgentOnce r agent spec of
        ([], Some err) \<Rightarrow> isHTTPAgentConnectionError err
      | _ \<Rightarrow> False)"

lemma call_attempts_last:
  assumes "attempt \<le> attempts"
  shows "\<exists>k. attempt \<le> k \<and> k \<le> attempts
    \<and> call_attempts reply over agent spec attempts attempt = callHTTPAgentOnce (reply k) agent spec
    \<and> (\<forall>i. attempt \<le> i \<and> i < k \<longrightarrow> retried (reply i) agent spec \<and> \<not> over i)
    \<and> (retried (reply k) agent spec \<longrightarrow> k = attempts \<or> over k)"
  using assms
proof (induction reply over agent spec attempts attempt rule: call_attempts.induct)
  case (1 reply over agent spec attempts attempt)
  obtain evs err where c: "callHTTPAgentOnce (reply attempt) agent spec = (evs, err)" by fastforce
  show ?case
  proof (cases "retried (reply attempt) agent spec \<and> attempt \<noteq> attempts \<and> \<not> over attempt")
    case True
    then obtain e where e: "evs = []" "err = Some e" "isHTTPAgentConnectionError e"
      using c by (auto simp: retried_def split: list.splits option.splits)
    with True c have "call_attempts reply over agent spec attempts attempt = call_attempts reply over agent spec attempts (attempt + 1)"
      using 1(2) by (subst call_attempts.simps) simp
    moreover have "\<exists>k. attempt + 1 \<le> k \<and> k \<le> attempts
        \<and> call_attempts reply over agent spec attempts (attempt + 1) = callHTTPAgentOnce (reply k) agent spec
        \<and> (\<forall>i. attempt + 1 \<le> i \<and> i < k \<longrightarrow> retried (reply i) agent spec \<and> \<not> over i)
        \<and> (retried (reply k) agent spec \<longrightarrow> k = attempts \<or> over k)"
      using 1(1) [OF _ c [symmetric] e(2)] e True 1(2) by auto
    then obtain k where k: "attempt + 1 \<le> k" "k \<le> attempts"
        "call_attempts reply over agent spec attempts (attempt + 1) = callHTTPAgentOnce (reply k) agent spec"
        "\<forall>i. attempt + 1 \<le> i \<and> i < k \<longrightarrow> retried (reply i) agent spec \<and> \<not> over i"
        "retried (reply k) agent spec \<longrightarrow> k = attempts \<or> over k" by blast
    have "retried (reply i) agent spec \<and> \<not> over i" if "attempt \<le> i" "i < k" for i
      using that True k(4) by (cases "i = attempt") auto
    ultimately show ?thesis using k by (intro exI [of _ k]) auto
  next
    case False
    then have "call_attempts reply over agent spec attempts attempt = callHTTPAgentOnce (reply attempt) agent spec"
      using 1(2) c by (subst call_attempts.simps) (auto simp: retried_def split: option.splits list.splits)
    with False 1(2) show ?thesis by (intro exI [of _ attempt]) auto
  qed
qed

lemma call_last:
  "\<exists>k. 1 \<le> k \<and> k \<le> (if attempts \<le> 0 then 3 else attempts)
    \<and> callHTTPAgentWithAttempts reply over agent spec attempts = callHTTPAgentOnce (reply k) agent spec
    \<and> (\<forall>i. 1 \<le> i \<and> i < k \<longrightarrow> retried (reply i) agent spec \<and> \<not> over i)
    \<and> (retried (reply k) agent spec \<longrightarrow> k = (if attempts \<le> 0 then 3 else attempts) \<or> over k)"
  unfolding callHTTPAgentWithAttempts_def by (rule call_attempts_last) simp

lemma call_ids:
  assumes "callHTTPAgentWithAttempts reply over agent spec attempts = (evs, err)" "ev \<in> set evs"
  shows "reJobID ev = jsID spec"
proof -
  from call_last [of attempts reply over agent spec]
  obtain k where "callHTTPAgentWithAttempts reply over agent spec attempts = callHTTPAgentOnce (reply k) agent spec" by blast
  with assms call_once_ids show ?thesis by metis
qed


section \<open>The end of an invocation\<close>

definition ending :: "Job \<Rightarrow> ResultEvent \<Rightarrow> bool" where
  "ending job ev \<longleftrightarrow> eventType (reEvent ev) = ''summary'' \<and> is_ok (summaryEventFromWire job (reEvent ev))"

lemma summary_exit:
  "summaryEventFromWire job p = Inr w \<Longrightarrow> \<exists>code. weExitCode w = Some code"
  by (auto simp: summaryEventFromWire_def Let_def split: option.splits)

lemma stream_no_exit: "jobEventFromWire job typ p = Inr w \<Longrightarrow> typ \<noteq> ''summary'' \<Longrightarrow> weExitCode w = None"
  by (auto simp: jobEventFromWire_def split: option.splits)

text \<open>An event that does not end the job leaves it, and its mark, as they are.\<close>

lemma invoke_event_other:
  assumes j: "mget (jobs_of s) (jsID spec) = Some job" and own: "agentOwnsJob (hgID agent) job (sysHub s)"
    and live: "\<not> terminalJobStatus (jStatus job)" and ev: "reJobID ev = jsID spec" "\<not> ending job ev"
  shows "jobs_of (invoke_event env now agent spec ev s) = jobs_of s"
    "agentOwnsJob (hgID agent) job (sysHub (invoke_event env now agent spec ev s))"
proof -
  define e where "e = ev\<lparr>reAgentID := (if reAgentID ev = [] then hgID agent else reAgentID ev),
                        reJobID := (if reJobID ev = [] then jsID spec else reJobID ev)\<rparr>"
  have e: "reJobID e = jsID spec" "reEvent e = reEvent ev" using ev by (auto simp: e_def)
  have eq: "invoke_event env now agent spec ev s = handleResult env now (hgID agent) e s"
    by (simp add: invoke_event_def e_def)
  have je: "mget (jobs_of s) (reJobID e) = Some job" using j e by simp
  have "jobs_of (handleResult env now (hgID agent) e s) = jobs_of s
      \<and> agentOwnsJob (hgID agent) job (sysHub (handleResult env now (hgID agent) e s))"
  proof (cases "jobEventFromWire job (eventType (reEvent e)) (reEvent e)")
    case (Inl x)
    with handleResult_ignored [OF je] own show ?thesis by (metis)
  next
    case (Inr w)
    have "weExitCode w = None"
      using Inr ev(2) e stream_no_exit [OF Inr] by (auto simp: ending_def jobEventFromWire_def split: if_splits)
    moreover obtain stored s2 where st: "store_event (result_event env now (hgID agent) e job w s) (snd (newUUID env s)) = (stored, s2)"
      by fastforce
    ultimately have "handleResult env now (hgID agent) e s = s2"
      using handleResult_accepted [OF je own live Inr st] by simp
    moreover have "quiet s s2" using quiet_trans [OF quiet_newUUID quiet_store_event] st by (metis snd_conv)
    moreover have "hbRunning (sysHub s2) = hbRunning (sysHub s)"
      using arg_cong [OF st, of snd]
      by (auto simp: store_event_def publish_def newUUID_def split: sum.splits option.splits)
    ultimately show ?thesis using own quiet_jobs by (simp add: agentOwnsJob_def split: if_splits)
  qed
  then show "jobs_of (invoke_event env now agent spec ev s) = jobs_of s"
    "agentOwnsJob (hgID agent) job (sysHub (invoke_event env now agent spec ev s))" by (simp_all add: eq)
qed

lemma invoke_event_ends:
  assumes u: "uuid_fresh (heUUID env)" and ok: "sys_ok env s"
    and j: "mget (jobs_of s) (jsID spec) = Some job" and own: "agentOwnsJob (hgID agent) job (sysHub s)"
    and live: "\<not> terminalJobStatus (jStatus job)" and ev: "reJobID ev = jsID spec" "ending job ev"
  shows "ended (invoke_event env now agent spec ev s) (jsID spec)"
proof -
  define e where "e = ev\<lparr>reAgentID := (if reAgentID ev = [] then hgID agent else reAgentID ev),
                        reJobID := (if reJobID ev = [] then jsID spec else reJobID ev)\<rparr>"
  have e: "reJobID e = jsID spec" "reEvent e = reEvent ev" using ev by (auto simp: e_def)
  from ev(2) obtain w where w: "jobEventFromWire job (eventType (reEvent e)) (reEvent e) = Inr w"
    "summaryEventFromWire job (reEvent e) = Inr w"
    by (auto simp: ending_def is_ok_iff jobEventFromWire_def e)
  from summary_exit [OF w(2)] obtain code where "weExitCode w = Some code" by auto
  from result_ends(1) [OF u ok _ own live w(1) this, of now] j e show ?thesis
    by (auto simp: invoke_event_def e_def ended_def result_status_def terminalJobStatus_def)
qed

lemma invoke_events:
  assumes u: "uuid_fresh (heUUID env)"
  shows "sys_ok env s \<Longrightarrow> mget (jobs_of s) (jsID spec) = Some job \<Longrightarrow> agentOwnsJob (hgID agent) job (sysHub s) \<Longrightarrow>
    \<not> terminalJobStatus (jStatus job) \<Longrightarrow> \<forall>ev\<in>set evs. reJobID ev = jsID spec \<Longrightarrow>
    (if list_ex (ending job) evs then ended (fold (invoke_event env now agent spec) evs s) (jsID spec)
     else jobs_of (fold (invoke_event env now agent spec) evs s) = jobs_of s)
    \<and> sys_ok env (fold (invoke_event env now agent spec) evs s)"
proof (induction evs arbitrary: s)
  case (Cons ev evs)
  let ?s = "invoke_event env now agent spec ev s"
  have evo: "evolves env t (invoke_event env now agent spec e t)" if "sys_ok env t" for e t
    unfolding invoke_event_def by (rule handleResult_evolves [OF u that])
  have ok: "sys_ok env ?s" by (rule evolves_ok(1) [OF u Cons.prems(1) evo [OF Cons.prems(1)]])
  have id: "reJobID ev = jsID spec" using Cons.prems(5) by simp
  show ?case
  proof (cases "ending job ev")
    case True
    have rest: "evolves env ?s (fold (invoke_event env now agent spec) evs ?s)"
      by (rule fold_evolves [OF u ok]) (rule evo)
    note e = invoke_event_ends [OF u Cons.prems(1-4) id True, of now]
    from ended_stays [OF evolves_ok(2) [OF u ok rest] e] evolves_ok(1) [OF u ok rest] True show ?thesis by simp
  next
    case False
    note o = invoke_event_other [OF Cons.prems(2-4) id False, of env now]
    from Cons.IH [OF ok _ o(2) Cons.prems(4)] Cons.prems(2,5) o(1) False show ?thesis by auto
  qed
qed simp

lemma same_runtime: "httpAgentRuntimeForAgent agent (sysHub (setInflightCancel k b s)) = httpAgentRuntimeForAgent agent (sysHub s)"
  by (simp add: setInflightCancel_def httpAgentRuntimeForAgent_def settingsForHTTPAgent_def schedulerSnapshot_def Let_def)

lemma own_setInflightCancel: "agentOwnsJob a job (sysHub (setInflightCancel k b s)) = agentOwnsJob a job (sysHub s)"
  by (simp add: setInflightCancel_def agentOwnsJob_def Let_def)

lemma invoke_end_fails:
  assumes "uuid_fresh (heUUID env)" "sys_ok env s" "mget (jobs_of s) (jsID spec) = Some j" "err \<noteq> None \<or> \<not> gotParsed"
  shows "ended (invoke_end env now n agent spec gotParsed err s) (jsID spec)"
proof -
  have q1: "quiet s (clearInflight (hgID agent) (jsID spec) s)" by (rule quiet_clearInflight)
  have q2: "quiet s (set_loop n f (ignore_err (MarkAgentOffline (hgID agent) (sysStore (clearInflight (hgID agent) (jsID spec) s)))
      (clearInflight (hgID agent) (jsID spec) s)))" for f
    by (rule quiet_trans [OF quiet_trans [OF q1 quiet_offline] quiet_set_loop])
  have q3: "quiet s (clearInflight (hgID agent) (jsID spec)
      (ignore_err (TouchAgent now (hgID agent) (sysStore (touchAgent now (hgID agent) s))) (touchAgent now (hgID agent) s)))"
    by (rule quiet_trans [OF quiet_touch quiet_clearInflight])
  have fail: "ended (failJob env now a (jsID spec) msg t) (jsID spec)" if "quiet s t" for a msg t
    using failJob_ends [OF _ quiet_ok [OF assms(1,2) that] assms(1)] assms(3) quiet_jobs [OF that] by simp
  have "ended (setInflightCancel (jsID spec) False t) k \<longleftrightarrow> ended t k" for t k
    by (simp add: ended_def quiet_jobs [OF quiet_setInflightCancel])
  then show ?thesis
    using assms(4) fail [OF q1] fail [OF q2] fail [OF q3]
    by (auto simp: invoke_end_def Let_def split: option.splits)
qed

lemma invoke_end_quiet: "quiet s (invoke_end env now n agent spec True None s)"
  using quiet_trans [OF quiet_touch quiet_setInflightCancel] by (simp add: invoke_end_def Let_def)

text \<open>
  (C29) An invocation ends its job, except in one case: after \<^verbatim>\<open>invokeHTTPAgent\<close> the job is terminal
  if and only if the call failed, or no event was a summary, or one of the summaries could be
  decoded. An agent whose only summaries are malformed leaves its job running.
\<close>

theorem http_invocation_ends_job:
  assumes u: "uuid_fresh (heUUID env)" and ok: "sys_ok env s"
    and job: "GetJob (jsID spec) (sysStore s) = Inr job" "agentOwnsJob (hgID agent) job (sysHub s)"
    and live: "\<not> terminalJobStatus (jStatus job)"
    and call: "callHTTPAgentWithAttempts reply over agent spec (snd (httpAgentRuntimeForAgent agent (sysHub s))) = (evs, err)"
  shows "(\<exists>j. GetJob (jsID spec) (sysStore (invokeHTTPAgent env now reply over n agent spec s)) = Inr j
           \<and> terminalJobStatus (jStatus j))
    \<longleftrightarrow> err \<noteq> None \<or> \<not> list_ex (\<lambda>ev. eventType (reEvent ev) = ''summary'') evs
       \<or> list_ex (\<lambda>ev. eventType (reEvent ev) = ''summary'' \<and> is_ok (summaryEventFromWire job (reEvent ev))) evs"
proof -
  define s1 where "s1 = setInflightCancel (jsID spec) True s"
  have q: "quiet s s1" unfolding s1_def by (rule quiet_setInflightCancel)
  have ok1: "sys_ok env s1" by (rule quiet_ok [OF u ok q])
  have j1: "mget (jobs_of s1) (jsID spec) = Some job" using job(1) quiet_jobs [OF q] by simp
  have own1: "agentOwnsJob (hgID agent) job (sysHub s1)" using job(2) by (simp add: s1_def own_setInflightCancel)
  let ?t = "fold (invoke_event env now agent spec) evs s1" and ?got = "list_ex (\<lambda>ev. eventType (reEvent ev) = ''summary'') evs"
  have eq: "invokeHTTPAgent env now reply over n agent spec s = invoke_end env now n agent spec ?got err ?t"
    using call by (simp add: invokeHTTPAgent_def same_runtime Let_def flip: s1_def) (simp add: s1_def same_runtime)
  have ids: "\<forall>ev\<in>set evs. reJobID ev = jsID spec" using call_ids [OF call] by blast
  note evs = invoke_events [OF u ok1 j1 own1 live ids, of now]
  have okt: "sys_ok env ?t" using evs by blast
  have end_iff: "ended (invoke_end env now n agent spec ?got err ?t) (jsID spec) \<longleftrightarrow> err \<noteq> None \<or> \<not> ?got \<or> list_ex (ending job) evs"
  proof (cases "err \<noteq> None \<or> \<not> ?got")
    case True
    obtain j where "mget (jobs_of ?t) (jsID spec) = Some j" using evs j1 by (cases "list_ex (ending job) evs") (auto simp: ended_def)
    from invoke_end_fails [OF u okt this True] True show ?thesis by blast
  next
    case False
    then have "jobs_of (invoke_end env now n agent spec ?got err ?t) = jobs_of ?t" using quiet_jobs [OF invoke_end_quiet] by simp
    with evs j1 live False show ?thesis by (cases "list_ex (ending job) evs") (simp_all add: ended_def)
  qed
  then show ?thesis unfolding eq by (simp add: ended_def ending_def [abs_def])
qed

definition example_http_agent :: hubHTTPAgent where
  "example_http_agent =
     \<lparr>hgID = ''a'', hgCountry = [], hgRegion = [], hgProvider = [], hgISP = [], hgLabels = [], hgBaseURL = ''http://a'', hgToken = [],
      hgClient = \<lparr>tlsEnabled = False, tlsCAFiles = [], tlsCertFile = [], tlsKeyFile = []\<rparr>, hgVersion = [],
      hgCapabilities = [ToolDNS], hgProtocols = 3\<rparr>"

definition example_spec :: JobSpec where
  "example_spec =
     \<lparr>jsID = ''uuuu'', jsTool = ToolDNS, jsTarget = ''example.org'', jsResolvedTarget = [], jsArgs = [], jsIPVersion = IPAny,
      jsResolveOnAgent = False, jsTimeoutSeconds = 5, jsProbeTimeoutSeconds = 1, jsResolveTimeoutSeconds = 3\<rparr>"

text \<open>The first attempt does not reach the agent, the second one is answered.\<close>

definition example_reply :: "int \<Rightarrow> http_reply" where
  "example_reply k =
     (if k = 1 then Unreachable ''connection refused''
      else Answer 200 [Line (Some (JObj [(''type'', JStr ''summary''), (''exit_code'', JNum 0)])), Blank] None)"

lemma example_spec_id: "jsID example_spec = ''uuuu''"
  by (simp add: example_spec_def)

lemma example_call:
  "callHTTPAgentWithAttempts example_reply (\<lambda>_. False) example_http_agent example_spec attempts =
     (if attempts = 1 then ([], Some (httpAgentConnectionError ''connection refused'')) else ([example_result], None))"
  by (simp add: callHTTPAgentWithAttempts_def call_attempts.simps callHTTPAgentOnce_def example_reply_def decodeHTTPAgentLine_def
      dec_metric_def example_result_def example_spec_def example_http_agent_def isHTTPAgentConnectionError_def)

theorem http_invocation_ends_job_witness:
  "\<exists>j. GetJob ''uuuu'' (sysStore (invokeHTTPAgent example_env 11 example_reply (\<lambda>_. False) 0 example_http_agent example_spec
        example_running)) = Inr j \<and> terminalJobStatus (jStatus j)"
proof -
  obtain j where j: "mget (jobs_of example_running) ''uuuu'' = Some j" "jStatus j = JobRunning"
    "agentOwnsJob ''a'' j (sysHub example_running)"
    "jobEventFromWire j (eventType (reEvent example_result)) (reEvent example_result) =
       Inr \<lparr>weEvent = None, weExitCode = Some 0, weParsed = Some \<lparr>trType = ''summary'', trTool = jTool j,
              trTarget = jTarget j, trIPVersion = jIPVersion j, trExitCode = 0, trSummary = [], trHops = [], trRecords = []\<rparr>\<rparr>"
    by (rule example_running_job)
  have get: "GetJob (jsID example_spec) (sysStore example_running) = Inr j"
    and own: "agentOwnsJob (hgID example_http_agent) j (sysHub example_running)"
    using j(1,3) by (simp_all add: example_spec_def example_http_agent_def)
  have live: "\<not> terminalJobStatus (jStatus j)" using j(2) by (simp add: terminalJobStatus_def)
  have summary: "eventType (reEvent example_result) = ''summary''" by (simp add: example_result_def eventType_def)
  note ends = http_invocation_ends_job [OF example_fresh example_ok(3) get own live, of example_reply "\<lambda>_. False" _ _ 11 0]
  show ?thesis
  proof (cases "snd (httpAgentRuntimeForAgent example_http_agent (sysHub example_running)) = 1")
    case True
    with ends [of "[]" "Some (httpAgentConnectionError ''connection refused'')"] show ?thesis
      by (simp add: example_call example_spec_id)
  next
    case False
    with ends [of "[example_result]" None] j(4) summary show ?thesis
      by (simp add: example_call example_spec_id jobEventFromWire_def)
  qed
qed

text \<open>
  (C30) A call is repeated only when it is safe: its outcome is that of one attempt \<open>k\<close>, within the
  limit; every earlier attempt failed to reach the agent or lost the connection before any
  event, so that no event is delivered twice; and it stops before the limit only if attempt \<open>k\<close>
  delivered an event, succeeded or failed for another reason, or the context ended.
\<close>

theorem http_retries_safe:
  "\<exists>k. 1 \<le> k \<and> k \<le> (if attempts \<le> 0 then 3 else attempts)
    \<and> callHTTPAgentWithAttempts reply over agent spec attempts = callHTTPAgentOnce (reply k) agent spec
    \<and> (\<forall>i. 1 \<le> i \<and> i < k \<longrightarrow>
         (\<exists>err. callHTTPAgentOnce (reply i) agent spec = ([], Some err) \<and> isHTTPAgentConnectionError err) \<and> \<not> over i)
    \<and> ((\<exists>err. callHTTPAgentOnce (reply k) agent spec = ([], Some err) \<and> isHTTPAgentConnectionError err) \<longrightarrow>
         k = (if attempts \<le> 0 then 3 else attempts) \<or> over k)"
proof -
  have "retried r agent spec \<longleftrightarrow> (\<exists>err. callHTTPAgentOnce r agent spec = ([], Some err) \<and> isHTTPAgentConnectionError err)" for r
    by (auto simp: retried_def split: prod.splits list.splits option.splits)
  with call_last [of attempts reply over agent spec] show ?thesis by simp
qed

theorem http_retries_safe_witness:
  "\<exists>k. callHTTPAgentOnce (example_reply k) example_http_agent example_spec = ([example_result], None) \<and> k \<le> 3"
  using http_retries_safe [of 3 example_reply "\<lambda>_. False" example_http_agent example_spec] by (auto simp: example_call)


section \<open>Health checks\<close>

text \<open>
  The interval of recovery checks backs off and stays in range: the next interval is never
  above the configured maximum and never below the smaller of the maximum and the polling
  interval; while it is below the maximum it at least doubles, so that the maximum is reached.
\<close>

theorem health_interval_backoff:
  assumes "0 < base" "base < 2 ^ 62" "0 < maxInterval" "0 \<le> current" "current < 2 ^ 62"
  shows "nextHTTPAgentHealthInterval current base maxInterval \<le> maxInterval
    \<and> min base maxInterval \<le> nextHTTPAgentHealthInterval current base maxInterval
    \<and> (nextHTTPAgentHealthInterval current base maxInterval = maxInterval
       \<or> 2 * max current base = nextHTTPAgentHealthInterval current base maxInterval)"
proof -
  have "int64 (max current base * 2)" using assms by (auto simp: int64_def max_def)
  then have "wrap64 (max current base * 2) = 2 * max current base" by (simp add: wrap64_id)
  moreover have "(if current < base then base else current) = max current base" by (simp add: max_def)
  ultimately have "nextHTTPAgentHealthInterval current base maxInterval =
      (if maxInterval < 2 * max current base then maxInterval else 2 * max current base)"
    using assms by (simp add: nextHTTPAgentHealthInterval_def Let_def)
  with assms show ?thesis by (auto simp: min_def max_def)
qed

theorem health_interval_backoff_witness:
  "nextHTTPAgentHealthInterval 4000000000 2000000000 300000000000 \<le> 300000000000"
  using health_interval_backoff [of 2000000000 300000000000 4000000000] by simp

end
