(* ===== verification/ClientIP.thy ===== *)
theory ClientIP
  imports NetAddr
begin

text \<open>
  Whose request it is (\<^verbatim>\<open>clientIPResolver\<close> in \<^verbatim>\<open>internal/api/server.go\<close>): the address of a client
  is taken from a configured header, from the peer of the connection, or, when the peer is a
  trusted proxy, from the addresses the proxies have noted. The header fields of a request are a
  map from canonical names to values.
\<close>


section \<open>Standard library\<close>

definition header_token_char :: "char \<Rightarrow> bool" where
  "header_token_char c \<longleftrightarrow>
     is_digit c \<or> (97 \<le> (of_char c :: nat) \<and> (of_char c :: nat) \<le> 122) \<or> (65 \<le> (of_char c :: nat) \<and> (of_char c :: nat) \<le> 90)
     \<or> c \<in> set ''!#$%&*+-.^_|~'' \<or> c = CHR 0x27 \<or> c = CHR 0x60"

fun canonical_chars :: "bool \<Rightarrow> string \<Rightarrow> string" where
  "canonical_chars upper [] = []"
| "canonical_chars upper (c # s) = (if upper then upper_char c else lower_char c) # canonical_chars (c = CHR ''-'') s"

definition CanonicalHeaderKey :: "string \<Rightarrow> string" where
  "CanonicalHeaderKey s = (if list_all header_token_char s then canonical_chars True s else s)"

type_synonym header = "(string, string list) gomap"

definition header_values :: "header \<Rightarrow> string \<Rightarrow> string list" where
  "header_values h name = (case mget h (CanonicalHeaderKey name) of None \<Rightarrow> [] | Some vs \<Rightarrow> vs)"

definition header_get :: "header \<Rightarrow> string \<Rightarrow> string" where
  "header_get h name = (case header_values h name of [] \<Rightarrow> [] | v # _ \<Rightarrow> v)"

text \<open>\<^verbatim>\<open>net.SplitHostPort\<close>; only the host is used.\<close>

definition SplitHost :: "string \<Rightarrow> string option" where
  "SplitHost hostport =
     (let port = rev (takeWhile (\<lambda>c. c \<noteq> CHR '':'') (rev hostport));
          before = dropWhile (\<lambda>c. c \<noteq> CHR '':'') (rev hostport)
      in if before = [] then None
         else
           let host = rev (tl before) in
           if HasPrefix hostport ''['' then
             let inner = takeWhile (\<lambda>c. c \<noteq> CHR '']'') (tl hostport) in
             if host = CHR ''['' # inner @ '']'' \<and> CHR ''['' \<notin> set inner \<and> CHR ''['' \<notin> set port \<and> CHR '']'' \<notin> set port
             then Some inner else None
           else if CHR '':'' \<in> set host \<or> CHR ''['' \<in> set hostport \<or> CHR '']'' \<in> set hostport then None
           else Some host)"

definition TrimChars :: "string \<Rightarrow> string \<Rightarrow> string" where
  "TrimChars s cutset =
     rev (dropWhile (\<lambda>c. c \<in> set cutset) (rev (dropWhile (\<lambda>c. c \<in> set cutset) s)))"


section \<open>The resolver\<close>

record clientIPResolver =
  crTrustedProxies :: "prefix list"
  crClientIPHeaders :: "string list"

definition parseTrustedProxy :: "string \<Rightarrow> prefix option" where
  "parseTrustedProxy raw =
     (if Contains raw ''/'' then map_option Masked (ParsePrefix raw)
      else (case ParseAddr raw of
              None \<Rightarrow> None
            | Some a \<Rightarrow> (let u = Unmap a in
                        case u of
                          Addr4 _ \<Rightarrow> Some (Prefix u (BitLen u))
                        | Addr6 w z \<Rightarrow> Some (Prefix (Addr6 w []) (BitLen u)))))"

definition normalizeClientIPHeaders :: "string list \<Rightarrow> string list" where
  "normalizeClientIPHeaders headers =
     snd (fold (\<lambda>raw (seen, normalized).
       let header = CanonicalHeaderKey (TrimSpace raw); key = ToLower header in
       if header = [] \<or> key = ''x-real-ip'' \<or> key \<in> set seen then (seen, normalized)
       else (key # seen, normalized @ [header])) headers ([], []))"

fun parse_proxies :: "string list \<Rightarrow> (prefix list) res" where
  "parse_proxies [] = Inr []"
| "parse_proxies (r # rs) =
     (let raw = TrimSpace r in
      if raw = [] then parse_proxies rs
      else (case parseTrustedProxy raw of
              None \<Rightarrow> Inl (Errorf ''invalid trusted proxy %q: %w'' [raw])
            | Some p \<Rightarrow> bind_res (parse_proxies rs) (\<lambda>ps. Inr (p # ps))))"

definition newClientIPResolver :: "string list \<Rightarrow> string list \<Rightarrow> clientIPResolver res" where
  "newClientIPResolver trustedProxies clientIPHeaders =
     bind_res (parse_proxies trustedProxies) (\<lambda>ps.
       Inr \<lparr>crTrustedProxies = ps, crClientIPHeaders = normalizeClientIPHeaders clientIPHeaders\<rparr>)"

definition isTrustedProxy :: "clientIPResolver \<Rightarrow> addr \<Rightarrow> bool" where
  "isTrustedProxy r ip = list_ex (\<lambda>p. prefix_contains p (Unmap ip)) (crTrustedProxies r)"

definition requestRemoteIP :: "string \<Rightarrow> addr option" where
  "requestRemoteIP remoteAddr =
     map_option Unmap (ParseAddr (case SplitHost remoteAddr of Some host \<Rightarrow> host | None \<Rightarrow> TrimChars remoteAddr ''[]''))"

definition headerIP :: "string \<Rightarrow> addr option" where
  "headerIP raw0 =
     (let raw = TrimSpace raw0 in
      if raw = [] then None
      else (case requestRemoteIP raw of
              Some ip \<Rightarrow> Some ip
            | None \<Rightarrow> map_option Unmap (ParseAddr (TrimChars raw ''[]''))))"

fun configuredHeaderClientIP :: "string list \<Rightarrow> header \<Rightarrow> addr option" where
  "configuredHeaderClientIP [] h = None"
| "configuredHeaderClientIP (name # names) h =
     (case headerIP (header_get h name) of Some ip \<Rightarrow> Some ip | None \<Rightarrow> configuredHeaderClientIP names h)"

definition forwardedForClientIP :: "clientIPResolver \<Rightarrow> string list \<Rightarrow> addr option" where
  "forwardedForClientIP r values =
     (let ips = List.map_filter headerIP (concat (map (split (CHR '','')) values)) in
      if ips = [] then None
      else (case find (\<lambda>ip. \<not> isTrustedProxy r ip) (rev ips) of Some ip \<Rightarrow> Some ip | None \<Rightarrow> Some (hd ips)))"

definition Resolve :: "clientIPResolver \<Rightarrow> string \<Rightarrow> header \<Rightarrow> string" where
  "Resolve r remoteAddr h =
     (case configuredHeaderClientIP (crClientIPHeaders r) h of
        Some ip \<Rightarrow> Addr_String ip
      | None \<Rightarrow>
          (case requestRemoteIP remoteAddr of
             None \<Rightarrow> remoteAddr
           | Some remote \<Rightarrow>
               if \<not> isTrustedProxy r remote then Addr_String remote
               else (case forwardedForClientIP r (header_values h ''X-Forwarded-For'') of
                       Some ip \<Rightarrow> Addr_String ip
                     | None \<Rightarrow>
                         (case headerIP (header_get h ''X-Real-IP'') of
                            Some ip \<Rightarrow> Addr_String ip
                          | None \<Rightarrow> Addr_String remote))))"


section \<open>Addresses cannot be forged\<close>

lemma header_ips_append:
  "List.map_filter headerIP (concat (map (split (CHR '','')) (vs @ ws))) =
   List.map_filter headerIP (concat (map (split (CHR '','')) vs)) @ List.map_filter headerIP (concat (map (split (CHR '','')) ws))"
  by (simp add: List.map_filter_def)

lemma forwarded_last_untrusted:
  assumes "List.map_filter headerIP (concat (map (split (CHR '','')) vs)) = pre @ [ip] @ post"
    and "\<not> isTrustedProxy r ip" and "list_all (isTrustedProxy r) post"
  shows "forwardedForClientIP r vs = Some ip"
proof -
  have "find (\<lambda>ip. \<not> isTrustedProxy r ip) (xs @ ip # ys) = Some ip" if "list_all (isTrustedProxy r) xs" for xs ys
    using that assms(2) by (induction xs) auto
  from this [of "rev post" "rev pre"] show ?thesis using assms(1,3) by (simp add: forwardedForClientIP_def)
qed

text \<open>
  (C31) Clients cannot choose the address they are limited by. With no header configured, a client
  that is not a trusted proxy is known by the address of its connection, whatever headers it
  sends. Behind trusted proxies it is known by the last address in \<^verbatim>\<open>X-Forwarded-For\<close> that is
  not a trusted proxy, whatever values the client has put before it.
\<close>

theorem client_address_unforgeable:
  assumes "crClientIPHeaders r = []" and "requestRemoteIP peer = Some remote"
  shows "(\<not> isTrustedProxy r remote \<longrightarrow> Resolve r peer h = Addr_String remote)
    \<and> (isTrustedProxy r remote \<longrightarrow>
        header_values h ''X-Forwarded-For'' = forged @ noted \<longrightarrow>
        List.map_filter headerIP (concat (map (split (CHR '','')) noted)) = before @ [client] @ proxies \<longrightarrow>
        \<not> isTrustedProxy r client \<longrightarrow> list_all (isTrustedProxy r) proxies \<longrightarrow>
        Resolve r peer h = Addr_String client)"
proof -
  have "forwardedForClientIP r (forged @ noted) = Some client"
    if "List.map_filter headerIP (concat (map (split (CHR '','')) noted)) = before @ [client] @ proxies"
      "\<not> isTrustedProxy r client" "list_all (isTrustedProxy r) proxies"
    by (rule forwarded_last_untrusted [of _ "List.map_filter headerIP (concat (map (split (CHR '','')) forged)) @ before"])
      (use that header_ips_append in auto)
  with assms show ?thesis by (auto simp: Resolve_def)
qed

theorem client_address_unforgeable_witness:
  "Resolve \<lparr>crTrustedProxies = [Prefix (Addr4 0x0a000000) 8], crClientIPHeaders = []\<rparr> ''198.51.100.7:443''
     [(''X-Forwarded-For'', [''10.0.0.1''])] = Addr_String (Addr4 0xc6336407)
   \<and> Resolve \<lparr>crTrustedProxies = [Prefix (Addr4 0x0a000000) 8], crClientIPHeaders = []\<rparr> ''10.0.0.9:80''
     [(''X-Forwarded-For'', [''192.0.2.1, 198.51.100.7, 10.0.0.1''])] = Addr_String (Addr4 0xc6336407)"
proof -
  let ?r = "\<lparr>crTrustedProxies = [Prefix (Addr4 0x0a000000) 8], crClientIPHeaders = []\<rparr>"
  have p: "requestRemoteIP ''198.51.100.7:443'' = Some (Addr4 0xc6336407)" "requestRemoteIP ''10.0.0.9:80'' = Some (Addr4 0x0a000009)"
    by code_simp+
  have ips: "List.map_filter headerIP (concat (map (split (CHR '','')) [''192.0.2.1, 198.51.100.7, 10.0.0.1''])) =
      [Addr4 0xc0000201] @ [Addr4 0xc6336407] @ [Addr4 0x0a000001]"
    by code_simp
  have t: "\<not> isTrustedProxy ?r (Addr4 0xc6336407)" "isTrustedProxy ?r (Addr4 0x0a000009)"
    "list_all (isTrustedProxy ?r) [Addr4 0x0a000001]" by code_simp+
  let ?h1 = "[(''X-Forwarded-For'', [''10.0.0.1''])]"
    and ?h2 = "[(''X-Forwarded-For'', [''192.0.2.1, 198.51.100.7, 10.0.0.1''])]"
  have h: "header_values ?h2 ''X-Forwarded-For'' = [] @ [''192.0.2.1, 198.51.100.7, 10.0.0.1'']" by code_simp
  have no: "crClientIPHeaders ?r = []" by simp
  from client_address_unforgeable [OF no p(1), THEN conjunct1, rule_format, OF t(1), of ?h1]
    client_address_unforgeable [OF no p(2), THEN conjunct2, rule_format, OF t(2) h ips t(1) t(3)]
  show ?thesis ..
qed

end
