(* ===== verification/ApiAuth.thy ===== *)
theory ApiAuth
  imports HTTPAgents RateLimit ClientIP
begin

text \<open>
  The API server (\<^verbatim>\<open>internal/api\<close>): its state, who may do what (\<^verbatim>\<open>authz.go\<close>), the middleware
  that finds the principal of a request, and the settings it works under (the first and the last
  part of \<^verbatim>\<open>server.go\<close>). The server shares the store and the hub with the rest of the program: a
  \<open>World\<close> is the system and the fields of the server. A handler takes the principal that the
  middleware has put into the context (\<open>None\<close> where there is none), the request and the world, and
  returns the response and the new world. The body of a request is what strict decoding gives,
  \<open>None\<close> when it fails; an error in a response is the error value whose text is sent.
\<close>


section \<open>Scopes\<close>

definition ScheduleAccessNone :: string where "ScheduleAccessNone = ''none''"
definition ScheduleAccessRead :: string where "ScheduleAccessRead = ''read''"
definition ScheduleAccessWrite :: string where "ScheduleAccessWrite = ''write''"

lemmas access_defs = ScheduleAccessNone_def ScheduleAccessRead_def ScheduleAccessWrite_def

record ToolScope =
  tsAllowedArgs :: "strmap option"
  tsResolveOnAgent :: "bool option"
  tsIPVersions :: "IPVersion list"

record TokenScope =
  tkAll :: bool
  tkScheduleAccess :: string
  tkManageAccess :: string
  tkAgents :: "string list"
  tkDeniedAgents :: "string list"
  tkAgentTags :: "string list"
  tkDeniedTags :: "string list"
  tkTools :: "(Tool, ToolScope) gomap"

record TokenConfig =
  tcToken :: string
  tcScope :: TokenScope

record PermissionsResponse =
  prTools :: "(Tool, AgentToolPermission) gomap"
  prScheduleAccess :: string
  prManageAccess :: string

record principal =
  pnToken :: string
  pnScope :: TokenScope

definition allTokenScope :: TokenScope where
  "allTokenScope =
     \<lparr>tkAll = True, tkScheduleAccess = ScheduleAccessWrite, tkManageAccess = ScheduleAccessWrite,
      tkAgents = [''*''], tkDeniedAgents = [], tkAgentTags = [], tkDeniedTags = [], tkTools = []\<rparr>"

definition normalizeTokenScope :: "TokenScope \<Rightarrow> TokenScope" where
  "normalizeTokenScope scope =
     (if tkAll scope then
        scope\<lparr>tkScheduleAccess := ScheduleAccessWrite, tkManageAccess := ScheduleAccessWrite,
              tkAgents := (if tkAgents scope = [] then [''*''] else tkAgents scope)\<rparr>
      else
        scope\<lparr>tkScheduleAccess := (if tkScheduleAccess scope = [] then ScheduleAccessNone else tkScheduleAccess scope),
              tkManageAccess := (if tkManageAccess scope = [] then ScheduleAccessNone else tkManageAccess scope)\<rparr>)"

definition principalFromContext :: "principal option \<Rightarrow> principal" where
  "principalFromContext ctx = (case ctx of Some p \<Rightarrow> p | None \<Rightarrow> \<lparr>pnToken = [], pnScope = allTokenScope\<rparr>)"

definition effectiveScheduleAccess :: "TokenScope \<Rightarrow> string" where
  "effectiveScheduleAccess scope =
     (if tkAll scope then ScheduleAccessWrite
      else if tkScheduleAccess scope = ScheduleAccessRead \<or> tkScheduleAccess scope = ScheduleAccessWrite
      then tkScheduleAccess scope else ScheduleAccessNone)"

definition effectiveManageAccess :: "TokenScope \<Rightarrow> string" where
  "effectiveManageAccess scope =
     (if tkAll scope then ScheduleAccessWrite
      else if tkManageAccess scope = ScheduleAccessRead \<or> tkManageAccess scope = ScheduleAccessWrite
      then tkManageAccess scope else ScheduleAccessNone)"

definition scheduleReadAllowed :: "principal option \<Rightarrow> bool" where
  "scheduleReadAllowed ctx =
     (let access = effectiveScheduleAccess (pnScope (principalFromContext ctx))
      in access = ScheduleAccessRead \<or> access = ScheduleAccessWrite)"

definition scheduleWriteAllowed :: "principal option \<Rightarrow> bool" where
  "scheduleWriteAllowed ctx \<longleftrightarrow> effectiveScheduleAccess (pnScope (principalFromContext ctx)) = ScheduleAccessWrite"

definition manageReadAllowed :: "principal option \<Rightarrow> bool" where
  "manageReadAllowed ctx =
     (let access = effectiveManageAccess (pnScope (principalFromContext ctx))
      in access = ScheduleAccessRead \<or> access = ScheduleAccessWrite)"

definition manageWriteAllowed :: "principal option \<Rightarrow> bool" where
  "manageWriteAllowed ctx \<longleftrightarrow> effectiveManageAccess (pnScope (principalFromContext ctx)) = ScheduleAccessWrite"

definition stringListContains :: "string list \<Rightarrow> string \<Rightarrow> bool" where
  "stringListContains values want = list_ex (\<lambda>value. value = want) values"

definition agentHasAnyLabel :: "Agent \<Rightarrow> string list \<Rightarrow> bool" where
  "agentHasAnyLabel agent labels = list_ex (\<lambda>allowed. list_ex (\<lambda>lbl. lbl = allowed) (aLabels agent)) labels"

definition scopeAllowsAllAgents :: "TokenScope \<Rightarrow> bool" where
  "scopeAllowsAllAgents scope =
     (if tkAll scope \<or> (tkAgents scope = [] \<and> tkAgentTags scope = []) then True
      else list_ex (\<lambda>allowed. allowed = ''*'') (tkAgents scope))"

definition scopeAllowsAgent :: "TokenScope \<Rightarrow> string \<Rightarrow> bool" where
  "scopeAllowsAgent scope agentID =
     (if scopeAllowsAllAgents scope then \<not> stringListContains (tkDeniedAgents scope) agentID
      else if tkAgents scope = [] \<and> tkAgentTags scope \<noteq> [] then \<not> stringListContains (tkDeniedAgents scope) agentID
      else stringListContains (tkAgents scope) agentID \<and> \<not> stringListContains (tkDeniedAgents scope) agentID)"

definition scopeAllowsAgentRecord :: "TokenScope \<Rightarrow> Agent \<Rightarrow> bool" where
  "scopeAllowsAgentRecord scope agent =
     (if \<not> scopeAllowsAgent scope (aID agent) then False
      else if tkDeniedTags scope \<noteq> [] \<and> agentHasAnyLabel agent (tkDeniedTags scope) then False
      else if tkAgentTags scope = [] then True
      else agentHasAnyLabel agent (tkAgentTags scope))"

definition allTools :: "Tool list" where
  "allTools = [ToolPing, ToolTraceroute, ToolMTR, ToolHTTP, ToolDNS, ToolPort]"

definition api_requiresPinnedAgent :: "Tool \<Rightarrow> bool" where
  "api_requiresPinnedAgent tool \<longleftrightarrow> tool = ToolTraceroute \<or> tool = ToolMTR"

definition api_isServerOwnedArg :: "string \<Rightarrow> bool" where
  "api_isServerOwnedArg key \<longleftrightarrow> key = ''count'' \<or> key = ''max_hops'' \<or> key = ''max_hop''"

definition containsIPVersion :: "IPVersion list \<Rightarrow> IPVersion \<Rightarrow> bool" where
  "containsIPVersion versions version = list_ex (\<lambda>item. item = version) versions"

definition effectiveArgs :: "CreateJobRequest \<Rightarrow> strmap" where
  "effectiveArgs req =
     (let out = filter (\<lambda>(key, value). \<not> api_isServerOwnedArg key) (rqArgs req)
      in if rqTool req = ToolPing \<or> rqTool req = ToolTraceroute \<or> rqTool req = ToolMTR then
           (if mstr out ''protocol'' = [] then mput ''protocol'' ''icmp'' out else out)
         else if rqTool req = ToolHTTP then
           (if mstr out ''method'' = [] then mput ''method'' ''GET'' out else out)
         else if rqTool req = ToolDNS then
           (if mstr out ''type'' = [] then mput ''type'' ''A'' out else out)
         else out)"

definition permissionArgs :: "Policy \<Rightarrow> ToolScope \<Rightarrow> bool \<Rightarrow> strmap option" where
  "permissionArgs p toolScope all =
     (if all \<or> tsAllowedArgs toolScope = None then pAllowedArgs p
      else IntersectAllowedArgs (pAllowedArgs p) (tsAllowedArgs toolScope))"

definition permissionIPVersions :: "ToolScope \<Rightarrow> bool \<Rightarrow> IPVersion list" where
  "permissionIPVersions toolScope all =
     (if all \<or> tsIPVersions toolScope = [] then [IPAny, IPv4, IPv6] else sort (tsIPVersions toolScope))"

definition permissionIPVersionsForAgent :: "IPVersion list \<Rightarrow> Agent \<Rightarrow> IPVersion list" where
  "permissionIPVersionsForAgent versions agent =
     (let protocols = (if aProtocols agent = 0 then ProtocolAll else aProtocols agent)
      in filter (\<lambda>version. let required = RequiredProtocol version
                            in required = 0 \<or> protocols AND required \<noteq> 0) versions)"

definition agentSupportsToolCapability :: "Agent \<Rightarrow> Tool \<Rightarrow> bool" where
  "agentSupportsToolCapability agent tool = list_ex (\<lambda>capability. capability = tool) (aCapabilities agent)"

text \<open>The zero value of \<^verbatim>\<open>ToolScope\<close> stands for a tool that is missing in the map.\<close>

definition zero_ToolScope :: ToolScope where
  "zero_ToolScope = \<lparr>tsAllowedArgs = None, tsResolveOnAgent = None, tsIPVersions = []\<rparr>"

definition permissionsForPolicies :: "Set \<Rightarrow> TokenScope \<Rightarrow> (Tool, AgentToolPermission) gomap" where
  "permissionsForPolicies policies scope =
     List.map_filter (\<lambda>tool.
       case mget (byTool policies) tool of
         None \<Rightarrow> None
       | Some p \<Rightarrow>
           (let toolScope = (case mget (tkTools scope) tool of Some ts \<Rightarrow> ts | None \<Rightarrow> zero_ToolScope);
                allowed = mget (tkTools scope) tool \<noteq> None
            in if \<not> tkAll scope \<and> \<not> allowed then None
               else Some (tool,
                 \<lparr>tpAllowedArgs = permissionArgs p toolScope (tkAll scope),
                  tpResolveOnAgent = tsResolveOnAgent toolScope,
                  tpIPVersions = permissionIPVersions toolScope (tkAll scope),
                  tpRequiresAgent = api_requiresPinnedAgent tool\<rparr>))) allTools"

definition allowedAgentToolsScope :: "Set \<Rightarrow> TokenScope \<Rightarrow> (Tool, ToolScope) gomap" where
  "allowedAgentToolsScope policies scope =
     List.map_filter (\<lambda>tool.
       case mget (tkTools scope) tool of
         None \<Rightarrow> None
       | Some toolScope \<Rightarrow> if mget (byTool policies) tool = None then None else Some (tool, toolScope)) allTools"


section \<open>State of the server\<close>

record 'b Server =
  svPolicies :: Set
  svLabelConfigs :: "(string, LabelConfig) gomap option"
  svLimiter :: "'b Limiter"
  svTokens :: "(string, TokenScope) gomap"
  svRequireAuth :: bool
  svGeoIPURL :: string
  svClientIP :: clientIPResolver

record 'b World =
  wSys :: Sys
  wServer :: "'b Server"

record 'p Request =
  hrRemoteAddr :: string
  hrHeader :: header
  hrQuery :: "string \<Rightarrow> string"
  hrID :: string
  hrBody :: "'p option"

datatype 'a response = writeError int error | writeJSON int 'a | WriteHeader int

abbreviation wStore :: "'b World \<Rightarrow> Memory" where
  "wStore w \<equiv> sysStore (wSys w)"

abbreviation on_sys :: "(Sys \<Rightarrow> Sys) \<Rightarrow> 'b World \<Rightarrow> 'b World" where
  "on_sys f w \<equiv> w\<lparr>wSys := f (wSys w)\<rparr>"

abbreviation with_store :: "Memory \<Rightarrow> 'b World \<Rightarrow> 'b World" where
  "with_store m w \<equiv> on_sys (set_store m) w"


section \<open>Policies by label\<close>

text \<open>The server has its own copy of the functions that merge label configurations.\<close>

definition api_minPositive :: "int \<Rightarrow> int \<Rightarrow> int" where
  "api_minPositive left right =
     (if left \<le> 0 then right else if right \<le> 0 then left else if right < left then right else left)"

definition api_minRuntime :: "Runtime \<Rightarrow> Runtime \<Rightarrow> Runtime" where
  "api_minRuntime base0 next0 =
     (let base = DefaultRuntimeValues base0; next = DefaultRuntimeValues next0 in
      \<lparr>rtCount = api_minPositive (rtCount base) (rtCount next),
       rtMaxHops = api_minPositive (rtMaxHops base) (rtMaxHops next),
       rtProbeStepTimeoutSec = api_minPositive (rtProbeStepTimeoutSec base) (rtProbeStepTimeoutSec next),
       rtMaxToolTimeoutSec = api_minPositive (rtMaxToolTimeoutSec base) (rtMaxToolTimeoutSec next),
       rtHTTPTimeoutSec = api_minPositive (rtHTTPTimeoutSec base) (rtHTTPTimeoutSec next),
       rtDNSTimeoutSec = api_minPositive (rtDNSTimeoutSec base) (rtDNSTimeoutSec next),
       rtResolveTimeoutSec = api_minPositive (rtResolveTimeoutSec base) (rtResolveTimeoutSec next),
       rtHTTPInvokeAttempts = api_minPositive (rtHTTPInvokeAttempts base) (rtHTTPInvokeAttempts next),
       rtHTTPMaxHealthIntervalSec =
         api_minPositive (rtHTTPMaxHealthIntervalSec base) (rtHTTPMaxHealthIntervalSec next)\<rparr>)"

definition api_intersectConfigPolicies ::
  "(string, CfgPolicy) gomap \<Rightarrow> (string, CfgPolicy) gomap \<Rightarrow> (string, CfgPolicy) gomap" where
  "api_intersectConfigPolicies left right =
     fold (\<lambda>(name, rightPolicy) out.
       if \<not> cpEnabled rightPolicy then mput name rightPolicy out
       else (case mget out name of
               None \<Rightarrow> mput name rightPolicy out
             | Some leftPolicy \<Rightarrow>
                 if \<not> cpEnabled leftPolicy then mput name leftPolicy out
                 else mput name
                        (if cpAllowedArgs rightPolicy \<noteq> None
                         then leftPolicy\<lparr>cpAllowedArgs := IntersectAllowedArgs (cpAllowedArgs leftPolicy) (cpAllowedArgs rightPolicy)\<rparr>
                         else leftPolicy) out)) right left"

definition labelConfigsForLabels :: "(string, LabelConfig) gomap option \<Rightarrow> string list \<Rightarrow> LabelConfig list" where
  "labelConfigsForLabels configs labels =
     List.map_filter (\<lambda>lbl. case configs of None \<Rightarrow> None | Some m \<Rightarrow> mget m lbl) labels"

definition api_toolPoliciesForLabels ::
  "(string, LabelConfig) gomap option \<Rightarrow> string list \<Rightarrow> (string, CfgPolicy) gomap" where
  "api_toolPoliciesForLabels configs labels =
     (case fold (\<lambda>cfg merged.
              case lcToolPolicies cfg of
                None \<Rightarrow> merged
              | Some [] \<Rightarrow> merged
              | Some ps \<Rightarrow> (case merged of
                             None \<Rightarrow> Some ps
                           | Some m \<Rightarrow> Some (api_intersectConfigPolicies m ps)))
            (labelConfigsForLabels configs labels) None of
        None \<Rightarrow> [] | Some m \<Rightarrow> m)"

definition api_policiesForLabels :: "string list \<Rightarrow> 'b Server \<Rightarrow> Set" where
  "api_policiesForLabels labels sv =
     (let base = svPolicies sv;
          runtime = fold (\<lambda>cfg r. case lcRuntime cfg of None \<Rightarrow> r | Some n \<Rightarrow> api_minRuntime r n)
                      (labelConfigsForLabels (svLabelConfigs sv) labels) (Set_Runtime base)
      in WithIntersection base (api_toolPoliciesForLabels (svLabelConfigs sv) labels) runtime)"

text \<open>
  The labels of every known agent; the server's copy of the hub's function of the same name.
  The maps of labels are filled from the listings, so a later entry replaces an earlier one.
\<close>

definition api_agentsWithManagedLabels :: "Memory \<Rightarrow> Agent list" where
  "api_agentsWithManagedLabels m =
     (let grpcLabels = fold (\<lambda>cfg. mput (acID cfg) (acLabels cfg)) (ListAgentConfigs m) [];
          httpLabels = fold (\<lambda>node. mput (haID node) (haLabels node)) (ListHTTPAgents m) []
      in map (\<lambda>agent.
           agent\<lparr>aLabels :=
             (case mget httpLabels (aID agent) of
                Some labels \<Rightarrow> NormalizeAgentLabels (aID agent) AgentTransportHTTP labels
              | None \<Rightarrow> NormalizeAgentLabels (aID agent) AgentTransportGRPC
                          (case mget grpcLabels (aID agent) of Some labels \<Rightarrow> labels | None \<Rightarrow> []))\<rparr>)
         (ListAgents m))"

definition agentDisabled :: "Memory \<Rightarrow> string \<Rightarrow> bool" where
  "agentDisabled m aid =
     (case GetHTTPAgent aid m of Inr node \<Rightarrow> \<not> haEnabled node | Inl _ \<Rightarrow> acDisabled (GetAgentConfig aid m))"

definition api_policiesForAgent :: "string \<Rightarrow> 'b World \<Rightarrow> Set" where
  "api_policiesForAgent agentID w =
     (let labels = (case find (\<lambda>agent. aID agent = agentID) (api_agentsWithManagedLabels (wStore w)) of
                      Some agent \<Rightarrow> aLabels agent
                    | None \<Rightarrow> NormalizeAgentLabels agentID AgentTransportGRPC []);
          labels' = (if length labels = 3 then
                       (case GetHTTPAgent agentID (wStore w) of
                          Inr node \<Rightarrow> NormalizeAgentLabels agentID AgentTransportHTTP (haLabels node)
                        | Inl _ \<Rightarrow> NormalizeAgentLabels agentID AgentTransportGRPC
                                     (acLabels (GetAgentConfig agentID (wStore w))))
                     else labels)
      in api_policiesForLabels labels' (wServer w))"

definition api_policiesForJob :: "CreateJobRequest \<Rightarrow> 'b World \<Rightarrow> Set" where
  "api_policiesForJob req w =
     (if rqAgentID req \<noteq> [] then api_policiesForAgent (rqAgentID req) w
      else api_policiesForLabels [AgentAllLabel] (wServer w))"


section \<open>Authorisation\<close>

definition bool_string :: "bool \<Rightarrow> string" where
  "bool_string b = (if b then ''true'' else ''false'')"

text \<open>The loop over the arguments at the end of \<^verbatim>\<open>authorizeJob\<close>.\<close>

fun authorize_args :: "strmap option \<Rightarrow> Tool \<Rightarrow> strmap \<Rightarrow> unit res" where
  "authorize_args allowed tool [] = Inr ()"
| "authorize_args allowed tool ((key, value) # args) =
     (case (case allowed of None \<Rightarrow> None | Some m \<Rightarrow> mget m key) of
        None \<Rightarrow> Inl (Errorf ''argument %q is not allowed for %s'' [key, tool])
      | Some pattern \<Rightarrow>
          if key = ''port'' then
            (case ValidatePortAllowed pattern value of
               Inl e \<Rightarrow> if e = ErrInvalidPortRangeRule
                        then Inl (Errorf ''argument %q has invalid permission pattern'' [key])
                        else Inl (Errorf ''argument %q is invalid'' [key])
             | Inr _ \<Rightarrow> authorize_args allowed tool args)
          else if pattern \<noteq> [] \<and> \<not> AllowedArgContains pattern value
          then Inl (Errorf ''argument %q is invalid'' [key])
          else authorize_args allowed tool args)"

definition authorizeJob :: "principal option \<Rightarrow> CreateJobRequest \<Rightarrow> 'b World \<Rightarrow> unit res" where
  "authorizeJob ctx req w =
     (let scope = pnScope (principalFromContext ctx) in
      if tkAll scope then Inr ()
      else
        case mget (tkTools scope) (rqTool req) of
          None \<Rightarrow> Inl (Errorf ''tool %q is not allowed'' [rqTool req])
        | Some toolScope \<Rightarrow>
            (case mget (byTool (api_policiesForJob req w)) (rqTool req) of
               None \<Rightarrow> Inl (Errorf ''tool %q is not allowed'' [rqTool req])
             | Some toolPolicy \<Rightarrow>
                 if tsIPVersions toolScope \<noteq> [] \<and> \<not> containsIPVersion (tsIPVersions toolScope) (rqIPVersion req)
                 then Inl (Errorf ''ip_version %d is not allowed for %s'' [Itoa (rqIPVersion req), rqTool req])
                 else if tsResolveOnAgent toolScope \<noteq> None \<and> tsResolveOnAgent toolScope \<noteq> Some (rqResolveOnAgent req)
                 then Inl (Errorf ''resolve_on_agent=%t is not allowed for %s'' [bool_string (rqResolveOnAgent req), rqTool req])
                 else if rqAgentID req \<noteq> []
                   \<and> \<not> (case find (\<lambda>agent. aID agent = rqAgentID req) (api_agentsWithManagedLabels (wStore w)) of
                          Some agent \<Rightarrow> scopeAllowsAgentRecord scope agent
                        | None \<Rightarrow> False)
                 then Inl (Errorf ''agent %q is not allowed'' [rqAgentID req])
                 else if tsAllowedArgs toolScope \<noteq> None
                 then authorize_args (IntersectAllowedArgs (pAllowedArgs toolPolicy) (tsAllowedArgs toolScope))
                        (rqTool req) (effectiveArgs req)
                 else Inr ()))"

definition permissionsForContext :: "principal option \<Rightarrow> 'b World \<Rightarrow> PermissionsResponse" where
  "permissionsForContext ctx w =
     (let scope = pnScope (principalFromContext ctx)
      in \<lparr>prTools = permissionsForPolicies (api_policiesForLabels [AgentAllLabel] (wServer w)) scope,
          prScheduleAccess = effectiveScheduleAccess scope,
          prManageAccess = effectiveManageAccess scope\<rparr>)"

definition getPermissions :: "principal option \<Rightarrow> 'p Request \<Rightarrow> 'b World \<Rightarrow> PermissionsResponse response \<times> 'b World" where
  "getPermissions ctx r w = (writeJSON 200 (permissionsForContext ctx w), w)"

definition agentToolPermissions :: "Agent \<Rightarrow> TokenScope \<Rightarrow> 'b World \<Rightarrow> (Tool, AgentToolPermission) gomap" where
  "agentToolPermissions agent scope w =
     (let agentScope = (if \<not> tkAll scope
                        then scope\<lparr>tkTools := allowedAgentToolsScope (api_policiesForLabels [AgentAllLabel] (wServer w)) scope\<rparr>
                        else scope);
          tools = permissionsForPolicies (api_policiesForLabels (aLabels agent) (wServer w)) agentScope
      in List.map_filter (\<lambda>(tool, permission).
           if \<not> agentSupportsToolCapability agent tool \<or> tpAllowedArgs permission = None \<or> tpAllowedArgs permission = Some []
              \<or> tpIPVersions permission = [] then None
           else let filtered = permissionIPVersionsForAgent (tpIPVersions permission) agent
                in if filtered = [] then None else Some (tool, permission\<lparr>tpIPVersions := filtered\<rparr>)) tools)"


section \<open>The middleware\<close>

text \<open>\<^verbatim>\<open>strings.CutPrefix\<close> with the scheme; the token itself is not trimmed.\<close>

definition bearerToken :: "string \<Rightarrow> string option" where
  "bearerToken header =
     (if header = [] then Some []
      else if HasPrefix header ''Bearer '' \<and> TrimSpace (drop (length ''Bearer '') header) \<noteq> []
      then Some (drop (length ''Bearer '') header)
      else None)"

text \<open>The tokens and the flag are read in one snapshot.\<close>

definition authenticate :: "(string, TokenScope) gomap \<Rightarrow> bool \<Rightarrow> 'p Request \<Rightarrow> principal res" where
  "authenticate tokens requireAuth r =
     (if tokens \<noteq> [] then
        (case bearerToken (header_get (hrHeader r) ''Authorization'') of
           None \<Rightarrow> Inl (Errorf ''authorization header must use Bearer scheme'' [])
         | Some token0 \<Rightarrow>
             (let token = (if token0 = [] then hrQuery r ''access_token'' else token0)
              in case mget tokens token of
                   None \<Rightarrow> Inl (Errorf ''invalid api token'' [])
                 | Some scope \<Rightarrow> Inr \<lparr>pnToken = token, pnScope = scope\<rparr>))
      else if requireAuth then Inl (Errorf ''api token is required'' [])
      else Inr \<lparr>pnToken = [], pnScope = allTokenScope\<rparr>)"

definition auth ::
  "'b bucket_ops \<Rightarrow> time \<Rightarrow> (principal option \<Rightarrow> 'p Request \<Rightarrow> 'b World \<Rightarrow> 'a response \<times> 'b World)
     \<Rightarrow> 'p Request \<Rightarrow> 'b World \<Rightarrow> 'a response \<times> 'b World" where
  "auth ops now serve r w =
     (let sv = wServer w;
          (allowed, limiter) = AllowRequest ops now now now (Resolve (svClientIP sv) (hrRemoteAddr r) (hrHeader r)) (svLimiter sv);
          w1 = w\<lparr>wServer := sv\<lparr>svLimiter := limiter\<rparr>\<rparr>
      in if \<not> allowed then (writeError 429 (Errorf ''rate limit exceeded'' []), w1)
         else case authenticate (svTokens sv) (svRequireAuth sv) r of
                Inl e \<Rightarrow> (writeError 401 e, w1)
              | Inr p \<Rightarrow> serve (Some p) r w1)"


section \<open>Managed settings\<close>

record 'b managedRuntime =
  mrPolicies :: Set
  mrLabelConfigs :: "(string, LabelConfig) gomap option"
  mrLimiter :: "'b Limiter"
  mrTokens :: "(string, TokenScope) gomap"

definition token_config :: "APITokenPermission \<Rightarrow> TokenConfig" where
  "token_config scope =
     \<lparr>tcToken = atSecret scope,
      tcScope =
        \<lparr>tkAll = atAll scope, tkScheduleAccess = atScheduleAccess scope, tkManageAccess = atManageAccess scope,
         tkAgents = atAgents scope, tkDeniedAgents = atDeniedAgents scope,
         tkAgentTags = atAgentTags scope, tkDeniedTags = atDeniedTags scope,
         tkTools = map (\<lambda>(tool, toolScope).
           (tool, \<lparr>tsAllowedArgs = asAllowedArgs toolScope, tsResolveOnAgent = asResolveOnAgent toolScope,
                  tsIPVersions = asIPVersions toolScope\<rparr>))
           (case atTools scope of None \<Rightarrow> [] | Some m \<Rightarrow> m)\<rparr>\<rparr>"

definition TokenConfigsFromPermissions :: "APITokenPermission list \<Rightarrow> TokenConfig list" where
  "TokenConfigsFromPermissions perms = map token_config perms"

definition AbuseToolLimits :: "(string, ToolLimitSpec) gomap \<Rightarrow> (string, ToolLimitSpec) gomap" where
  "AbuseToolLimits limits =
     map (\<lambda>(tool, limit).
       (tool, \<lparr>tlGlobal = \<lparr>lsRequestsPerMinute = lsRequestsPerMinute (tlGlobal limit), lsBurst = lsBurst (tlGlobal limit)\<rparr>,
              tlCIDR = \<lparr>lsRequestsPerMinute = lsRequestsPerMinute (tlCIDR limit), lsBurst = lsBurst (tlCIDR limit)\<rparr>,
              tlIP = \<lparr>lsRequestsPerMinute = lsRequestsPerMinute (tlIP limit), lsBurst = lsBurst (tlIP limit)\<rparr>\<rparr>)) limits"

text \<open>The loop that fills the map of tokens, here and in \<^verbatim>\<open>NewWithOptions\<close>.\<close>

definition token_scopes :: "TokenConfig list \<Rightarrow> (string, TokenScope) gomap" where
  "token_scopes configs =
     fold (\<lambda>config tokens. if tcToken config \<noteq> [] then mput (tcToken config) (normalizeTokenScope (tcScope config)) tokens
                           else tokens) configs []"

definition buildManagedRuntime :: "ManagedSettings \<Rightarrow> ('b managedRuntime) res" where
  "buildManagedRuntime settings =
     (if msAPITokens settings = [] then Inl (Errorf ''api_tokens must contain at least one token'' [])
      else
        let rl = msRateLimit settings in
        bind_res (NewConfiguredLimiterWithError
          \<lparr>rlGlobal = \<lparr>lsRequestsPerMinute = lsRequestsPerMinute (rlGlobal rl), lsBurst = lsBurst (rlGlobal rl)\<rparr>,
           rlIP = \<lparr>lsRequestsPerMinute = lsRequestsPerMinute (rlIP rl), lsBurst = lsBurst (rlIP rl)\<rparr>,
           rlCIDR = \<lparr>csRequestsPerMinute = csRequestsPerMinute (rlCIDR rl), csBurst = csBurst (rlCIDR rl),
                     csIPv4Prefix = csIPv4Prefix (rlCIDR rl), csIPv6Prefix = csIPv6Prefix (rlCIDR rl)\<rparr>,
           rlGeoIP = \<lparr>lsRequestsPerMinute = lsRequestsPerMinute (rlGeoIP rl), lsBurst = lsBurst (rlGeoIP rl)\<rparr>,
           rlTools = AbuseToolLimits (rlTools rl), rlExemptCIDRs = rlExemptCIDRs rl\<rparr>) (\<lambda>limiter.
        Inr \<lparr>mrPolicies = DefaultPolicies,
             mrLabelConfigs = NormalizeLabelConfigs (msLabelConfigs settings),
             mrLimiter = limiter,
             mrTokens = token_scopes (TokenConfigsFromPermissions (msAPITokens settings))\<rparr>))"

definition applyManagedRuntime :: "henv \<Rightarrow> ManagedSettings \<Rightarrow> 'b managedRuntime \<Rightarrow> 'b World \<Rightarrow> 'b World" where
  "applyManagedRuntime env settings rt w =
     w\<lparr>wServer := (wServer w)\<lparr>svPolicies := mrPolicies rt, svLabelConfigs := mrLabelConfigs rt,
          svLimiter := mrLimiter rt, svTokens := mrTokens rt, svRequireAuth := True\<rparr>,
       wSys := ApplySettings env settings (wSys w)\<rparr>"

definition applyManagedSettings :: "henv \<Rightarrow> ManagedSettings \<Rightarrow> 'b World \<Rightarrow> error option \<times> 'b World" where
  "applyManagedSettings env settings w =
     (case buildManagedRuntime settings of
        Inl e \<Rightarrow> (Some e, w)
      | Inr rt \<Rightarrow> (None, applyManagedRuntime env settings rt w))"

text \<open>The store answers a conflict or another error; the counter of the UUIDs advances in any case.\<close>

definition saveManagedSettings ::
  "henv \<Rightarrow> time \<Rightarrow> ManagedSettings \<Rightarrow> 'b World \<Rightarrow> ((int \<times> error) + ManagedSettings) \<times> 'b World" where
  "saveManagedSettings env now settings0 w =
     (case NormalizeManagedSettings (heUUID env) (sysUUID (wSys w)) settings0 of
        (settings, n, Some e) \<Rightarrow> (Inl (400, e), on_sys (\<lambda>s. s\<lparr>sysUUID := n\<rparr>) w)
      | (settings, n, None) \<Rightarrow>
          (case buildManagedRuntime settings of
             Inl e \<Rightarrow> (Inl (400, e), on_sys (\<lambda>s. s\<lparr>sysUUID := n\<rparr>) w)
           | Inr rt \<Rightarrow>
               (case UpdateManagedSettings (heUUID env) n now settings (wStore w) of
                  ((_, Some e), m, n') \<Rightarrow>
                    (Inl (if e = ErrConflict then 409 else 500, e), on_sys (\<lambda>s. s\<lparr>sysUUID := n', sysStore := m\<rparr>) w)
                | ((saved, None), m, n') \<Rightarrow>
                    (Inr saved, applyManagedRuntime env saved rt (on_sys (\<lambda>s. s\<lparr>sysUUID := n', sysStore := m\<rparr>) w)))))"

definition managedSecretHash :: "henv \<Rightarrow> string \<Rightarrow> string" where
  "managedSecretHash env value0 = (let value = TrimSpace value0 in if value = [] then [] else heSHA256 env value)"

definition auditSubject :: "henv \<Rightarrow> principal option \<Rightarrow> string" where
  "auditSubject env ctx =
     (let token = pnToken (principalFromContext ctx)
      in if token = [] then ''anonymous'' else ''token:'' @ managedSecretHash env token)"

definition auditManage ::
  "henv \<Rightarrow> time \<Rightarrow> principal option \<Rightarrow> string \<Rightarrow> string \<Rightarrow> string \<Rightarrow> string \<Rightarrow> 'b World \<Rightarrow> 'b World" where
  "auditManage env now ctx action target decision reason w =
     with_store (AddAuditEvent now
       \<lparr>auSubject = auditSubject env ctx, auAction = action, auTarget = target, auDecision = decision,
        auReason = reason, auCreatedAt = now\<rparr> (wStore w)) w"

text \<open>The handler goes on in \<open>k\<close> when the principal may change settings.\<close>

definition requireManageWrite ::
  "henv \<Rightarrow> time \<Rightarrow> principal option \<Rightarrow> string \<Rightarrow> string \<Rightarrow> ('b World \<Rightarrow> 'a response \<times> 'b World) \<Rightarrow> 'b World
     \<Rightarrow> 'a response \<times> 'b World" where
  "requireManageWrite env now ctx action target k w =
     (if manageWriteAllowed ctx then k w
      else (writeError 403 (Errorf ''manage write access is required'' []),
            auditManage env now ctx action target ''deny'' ''manage write access is required'' w))"

text \<open>
  The server as it is made: \<open>configs\<close> are the label configurations of the options, \<open>tokenConfigs\<close> the
  variadic tokens. Settings that cannot be normalised leave the label configurations alone.
\<close>

definition NewWithOptions ::
  "henv \<Rightarrow> Set \<Rightarrow> 'b Limiter \<Rightarrow> string \<Rightarrow> string list \<Rightarrow> string list \<Rightarrow> bool \<Rightarrow> (string, LabelConfig) gomap option
     \<Rightarrow> TokenConfig list \<Rightarrow> Sys \<Rightarrow> ('b World) res" where
  "NewWithOptions env policies limiter geoIPURL trustedProxies clientIPHeaders requireAuth configs tokenConfigs s =
     bind_res (newClientIPResolver trustedProxies clientIPHeaders) (\<lambda>resolver.
       let (settings, n, e) = GetManagedSettings (heUUID env) (sysUUID s) (sysStore s);
           empty = (configs = None \<or> configs = Some [])
       in Inr \<lparr>wSys = (if empty then s\<lparr>sysUUID := n\<rparr> else s),
               wServer =
                 \<lparr>svPolicies = policies,
                  svLabelConfigs = (if empty \<and> e = None then NormalizeLabelConfigs (msLabelConfigs settings)
                                    else NormalizeLabelConfigs configs),
                  svLimiter = limiter,
                  svTokens = token_scopes tokenConfigs,
                  svRequireAuth = (requireAuth \<or> tokenConfigs \<noteq> []),
                  svGeoIPURL = TrimSpace geoIPURL,
                  svClientIP = resolver\<rparr>\<rparr>)"

end
