(* ===== verification/ApiJobs.thy ===== *)
theory ApiJobs
  imports ApiAuth
begin

text \<open>
  Jobs of the API server (\<^verbatim>\<open>createJob\<close> and what it calls, \<^verbatim>\<open>getJob\<close>, \<^verbatim>\<open>listJobEvents\<close> and \<^verbatim>\<open>listAgents\<close>
  in \<^verbatim>\<open>server.go\<close>; \<^verbatim>\<open>stream.go\<close>). A handler reads the clock once. The errors of the in-memory store
  are the ones of its model: listing agents does not fail, neither does creating jobs.
\<close>

record dispatchTarget =
  dtAgentID :: string
  dtResolvedTarget :: string
  dtIPVersion :: IPVersion

definition zero_target :: dispatchTarget where
  "zero_target = \<lparr>dtAgentID = [], dtResolvedTarget = [], dtIPVersion = IPAny\<rparr>"


section \<open>Where a job can run\<close>

text \<open>One round of the loop over the IP versions: the options so far and the last error.\<close>

definition add_option ::
  "netenv \<Rightarrow> CreateJobRequest \<Rightarrow> Set \<Rightarrow> IPVersion \<Rightarrow> dispatchTarget list \<times> error option \<Rightarrow> dispatchTarget list \<times> error option" where
  "add_option env req policies version acc =
     (case Set_ResolveTarget env policies (rqTool req) (rqTarget req) version of
        Inl e \<Rightarrow> (fst acc, Some e)
      | Inr (resolvedTarget, resolvedVersion) \<Rightarrow>
          (fst acc @ [zero_target\<lparr>dtResolvedTarget := resolvedTarget, dtIPVersion := resolvedVersion\<rparr>], snd acc))"

definition dispatchOptions :: "netenv \<Rightarrow> CreateJobRequest \<Rightarrow> Set \<Rightarrow> (dispatchTarget list) res" where
  "dispatchOptions env req policies =
     bind_res (LiteralIPVersion env (rqTool req) (rqTarget req)) (\<lambda>lit.
     case lit of
       Some literalVersion \<Rightarrow>
         bind_res (ValidateLiteralTarget env (rqTool req) (rqTarget req) (rqIPVersion req)) (\<lambda>_.
         let target = zero_target\<lparr>dtIPVersion := literalVersion\<rparr> in
         if \<not> rqResolveOnAgent req then
           bind_res (Set_ResolveTarget env policies (rqTool req) (rqTarget req) literalVersion) (\<lambda>(resolvedTarget, _).
             Inr [target\<lparr>dtResolvedTarget := resolvedTarget\<rparr>])
         else Inr [target])
     | None \<Rightarrow>
         if rqResolveOnAgent req then
           bind_res (ValidateLiteralTarget env (rqTool req) (rqTarget req) (rqIPVersion req)) (\<lambda>_.
             Inr [zero_target\<lparr>dtIPVersion := rqIPVersion req\<rparr>])
         else if rqIPVersion req \<noteq> IPAny then
           bind_res (Set_ResolveTarget env policies (rqTool req) (rqTarget req) (rqIPVersion req)) (\<lambda>(resolvedTarget, resolvedVersion).
             Inr [zero_target\<lparr>dtResolvedTarget := resolvedTarget, dtIPVersion := resolvedVersion\<rparr>])
         else
           (let (options, lastErr) = fold (add_option env req policies) [IPv6, IPv4] ([], None)
            in if options = [] then
                 (case lastErr of Some e \<Rightarrow> Inl e | None \<Rightarrow> Inl (Errorf ''target resolved to no addresses'' []))
               else Inr options))"

text \<open>\<open>Inl\<close> carries the type of the failure, which is empty when the agent is not online.\<close>

definition selectDispatchTargetWithFailure ::
  "Agent \<Rightarrow> Tool \<Rightarrow> dispatchTarget list \<Rightarrow> bool \<Rightarrow> string + dispatchTarget" where
  "selectDispatchTargetWithFailure agent tool options requireOnline =
     (if requireOnline \<and> aStatus agent \<noteq> AgentOnline then Inl []
      else if \<not> list_ex (\<lambda>capability. capability = tool) (aCapabilities agent) then Inl JobErrorUnsupportedTool
      else
        let protocols = (if aProtocols agent = 0 then ProtocolAll else aProtocols agent) in
        case find (\<lambda>option. let required = RequiredProtocol (dtIPVersion option)
                            in required = 0 \<or> protocols AND required \<noteq> 0) options of
          Some option \<Rightarrow> Inr option
        | None \<Rightarrow> Inl JobErrorUnsupportedProtocol)"

definition selectDispatchTarget :: "Agent \<Rightarrow> Tool \<Rightarrow> dispatchTarget list \<Rightarrow> bool \<Rightarrow> dispatchTarget option" where
  "selectDispatchTarget agent tool options requireOnline =
     (case selectDispatchTargetWithFailure agent tool options requireOnline of Inl _ \<Rightarrow> None | Inr target \<Rightarrow> Some target)"

definition withAgentID :: "CreateJobRequest \<Rightarrow> string \<Rightarrow> CreateJobRequest" where
  "withAgentID req agentID = req\<lparr>rqAgentID := agentID\<rparr>"

definition fanoutDispatchTargets ::
  "henv \<Rightarrow> CreateJobRequest \<Rightarrow> dispatchTarget list \<Rightarrow> TokenScope \<Rightarrow> 'b World \<Rightarrow> dispatchTarget list" where
  "fanoutDispatchTargets env req options scope w =
     List.map_filter (\<lambda>agent.
       if \<not> scopeAllowsAgentRecord scope agent then None
       else if agentDisabled (wStore w) (aID agent) then None
       else if \<not> is_ok (Validate (heNet env) (api_policiesForLabels (aLabels agent) (wServer w)) (withAgentID req (aID agent)))
       then None
       else map_option (\<lambda>target. target\<lparr>dtAgentID := aID agent\<rparr>) (selectDispatchTarget agent (rqTool req) options True))
     (api_agentsWithManagedLabels (wStore w))"

text \<open>The target together with the type of a failure, empty when the job can run.\<close>

definition pinnedDispatchTarget ::
  "string \<Rightarrow> Tool \<Rightarrow> dispatchTarget list \<Rightarrow> 'b World \<Rightarrow> (dispatchTarget \<times> string) res" where
  "pinnedDispatchTarget agentID tool options w =
     (let fallback = (case options of [] \<Rightarrow> zero_target | option # _ \<Rightarrow> option)\<lparr>dtAgentID := agentID\<rparr> in
      case find (\<lambda>agent. aID agent = agentID) (api_agentsWithManagedLabels (wStore w)) of
        None \<Rightarrow> Inl ErrAgentNotFound
      | Some agent \<Rightarrow>
          if agentDisabled (wStore w) (aID agent) then Inl ErrAgentOffline
          else if mget (byTool (api_policiesForLabels (aLabels agent) (wServer w))) tool = None
          then Inr (fallback, JobErrorUnsupportedTool)
          else if aStatus agent \<noteq> AgentOnline then Inl ErrAgentOffline
          else (case selectDispatchTargetWithFailure agent tool options False of
                  Inl failureType \<Rightarrow> Inr (fallback, failureType)
                | Inr target \<Rightarrow> Inr (target\<lparr>dtAgentID := agentID\<rparr>, [])))"

definition agentDispatchErrorStatus :: "error \<Rightarrow> int" where
  "agentDispatchErrorStatus err = (if err = ErrAgentNotFound \<or> err = ErrAgentOffline then 400 else 500)"

definition parentDispatchTarget :: "dispatchTarget list \<Rightarrow> string \<times> IPVersion" where
  "parentDispatchTarget targets =
     (case targets of
        [] \<Rightarrow> ([], IPAny)
      | first # rest \<Rightarrow>
          fold (\<lambda>target (resolvedTarget, ipVersion).
            (if dtResolvedTarget target \<noteq> resolvedTarget then [] else resolvedTarget,
             if dtIPVersion target \<noteq> ipVersion then IPAny else ipVersion))
          rest (dtResolvedTarget first, dtIPVersion first))"


section \<open>Creating jobs\<close>

definition publishJobProgress :: "henv \<Rightarrow> time \<Rightarrow> string \<Rightarrow> string \<Rightarrow> Sys \<Rightarrow> Sys" where
  "publishJobProgress env now jobID message s =
     (let (eid, s1) = newUUID env s
      in snd (store_event (message_event eid jobID [] ''progress'' message now) s1))"

definition publishJobMessage :: "henv \<Rightarrow> time \<Rightarrow> string \<Rightarrow> string \<Rightarrow> string \<Rightarrow> Sys \<Rightarrow> Sys" where
  "publishJobMessage env now jobID agentID message s =
     (let (eid, s1) = newUUID env s
      in snd (store_event (message_event eid jobID agentID ''message'' message now) s1))"

text \<open>The parent of a fan-out and its children, which are copies of it for one agent each.\<close>

definition fanout_parent :: "time \<Rightarrow> CreateJobRequest \<Rightarrow> string \<Rightarrow> string \<times> IPVersion \<Rightarrow> Job" where
  "fanout_parent now req jid target =
     \<lparr>jID = jid, jParentID = [], jScheduledID = [], jScheduledRevision = 0, jTool = rqTool req,
      jTarget = rqTarget req, jResolvedTarget = fst target, jArgs = rqArgs req, jIPVersion = snd target,
      jAgentID = [], jResolveOnAgent = rqResolveOnAgent req, jStatus = JobRunning, jCreatedAt = now,
      jUpdatedAt = now, jStartedAt = Some now, jCompletedAt = None, jError = []\<rparr>"

definition fanout_child :: "Job \<Rightarrow> string \<Rightarrow> dispatchTarget \<Rightarrow> Job" where
  "fanout_child parent jid target =
     parent\<lparr>jID := jid, jParentID := jID parent, jAgentID := dtAgentID target,
            jResolvedTarget := dtResolvedTarget target, jIPVersion := dtIPVersion target, jStatus := JobQueued,
            jStartedAt := None, jCompletedAt := None, jError := []\<rparr>"

definition fanout_jobs :: "henv \<Rightarrow> time \<Rightarrow> CreateJobRequest \<Rightarrow> dispatchTarget list \<Rightarrow> Sys \<Rightarrow> Job list \<times> Sys" where
  "fanout_jobs env now req targets s =
     (let (jid, s1) = newUUID env s; parent = fanout_parent now req jid (parentDispatchTarget targets)
      in fold (\<lambda>target (jobs, s). let (cid, s') = newUUID env s in (jobs @ [fanout_child parent cid target], s'))
           targets ([parent], s1))"

text \<open>A job for one agent, queued or, when the type of a failure is not empty, failed at once.\<close>

definition pinned_job :: "time \<Rightarrow> CreateJobRequest \<Rightarrow> string \<Rightarrow> dispatchTarget \<Rightarrow> string \<Rightarrow> Job" where
  "pinned_job now req jid target failureType =
     \<lparr>jID = jid, jParentID = [], jScheduledID = [], jScheduledRevision = 0, jTool = rqTool req,
      jTarget = rqTarget req, jResolvedTarget = dtResolvedTarget target, jArgs = rqArgs req,
      jIPVersion = dtIPVersion target, jAgentID = rqAgentID req, jResolveOnAgent = rqResolveOnAgent req,
      jStatus = (if failureType \<noteq> [] then JobFailed else JobQueued), jCreatedAt = now, jUpdatedAt = now,
      jStartedAt = None, jCompletedAt = (if failureType \<noteq> [] then Some now else None), jError = failureType\<rparr>"

definition create_fanout ::
  "henv \<Rightarrow> time \<Rightarrow> principal option \<Rightarrow> CreateJobRequest \<Rightarrow> dispatchTarget list \<Rightarrow> 'b World \<Rightarrow> Job response \<times> 'b World" where
  "create_fanout env now ctx req options w =
     (let targets = fanoutDispatchTargets env req options (pnScope (principalFromContext ctx)) w in
      if targets = [] then (writeError 400 (Errorf ''no online agents support this job'' []), w)
      else
        let (jobs, s1) = fanout_jobs env now req targets (wSys w);
            s2 = set_store (CreateJobs jobs (sysStore s1)) s1
        in (writeJSON 202 (hd jobs), w\<lparr>wSys := publishJobProgress env now (jID (hd jobs)) ''started'' s2\<rparr>))"

definition create_pinned ::
  "henv \<Rightarrow> time \<Rightarrow> CreateJobRequest \<Rightarrow> dispatchTarget list \<Rightarrow> 'b World \<Rightarrow> Job response \<times> 'b World" where
  "create_pinned env now req options w =
     (case pinnedDispatchTarget (rqAgentID req) (rqTool req) options w of
        Inl e \<Rightarrow> (writeError (agentDispatchErrorStatus e) e, w)
      | Inr (target, failureType) \<Rightarrow>
          (let (jid, s1) = newUUID env (wSys w);
               job = pinned_job now req jid target failureType;
               s2 = set_store (CreateJob job (sysStore s1)) s1
           in (writeJSON 202 job,
               w\<lparr>wSys := (if failureType \<noteq> [] then publishJobMessage env now jid (jAgentID job) failureType s2 else s2)\<rparr>)))"

text \<open>\<^verbatim>\<open>createJob\<close> from the validation of the request on.\<close>

definition accept_job ::
  "henv \<Rightarrow> time \<Rightarrow> principal option \<Rightarrow> CreateJobRequest \<Rightarrow> Set \<Rightarrow> 'b World \<Rightarrow> Job response \<times> 'b World" where
  "accept_job env now ctx req policies w =
     (case Validate (heNet env) policies req of
        Inl e \<Rightarrow> (writeError 400 e, w)
      | Inr _ \<Rightarrow>
          (case authorizeJob ctx req w of
             Inl e \<Rightarrow> (writeError 403 e, w)
           | Inr _ \<Rightarrow>
               (case dispatchOptions (heNet env) req policies of
                  Inl e \<Rightarrow> (writeError 400 e, w)
                | Inr options \<Rightarrow>
                    if rqAgentID req = [] then create_fanout env now ctx req options w
                    else create_pinned env now req options w)))"

definition createJob ::
  "henv \<Rightarrow> 'b bucket_ops \<Rightarrow> time \<Rightarrow> principal option \<Rightarrow> CreateJobRequest Request \<Rightarrow> 'b World \<Rightarrow> Job response \<times> 'b World" where
  "createJob env ops now ctx r w0 =
     (case hrBody r of
        None \<Rightarrow> (writeError 400 (Errorf ''invalid json'' []), w0)
      | Some req0 \<Rightarrow>
          let sv = wServer w0;
              (allowed, limiter) = AllowTool ops now now now (rqTool req0)
                                     (Some (Resolve (svClientIP sv) (hrRemoteAddr r) (hrHeader r))) (svLimiter sv);
              w = w0\<lparr>wServer := sv\<lparr>svLimiter := limiter\<rparr>\<rparr>
          in if \<not> allowed then (writeError 429 (Errorf ''tool rate limit exceeded'' []), w)
             else
               let req1 = req0\<lparr>rqAgentID := TrimSpace (rqAgentID req0)\<rparr>;
                   policies = api_policiesForJob req1 w
               in accept_job env now ctx (req1\<lparr>rqArgs := Set_ServerArgs policies (rqTool req1) (rqArgs req1)\<rparr>) policies w)"


section \<open>Reading jobs, events and agents\<close>

definition not_found_status :: "error \<Rightarrow> int" where
  "not_found_status e = (if e = ErrNotFound then 404 else 500)"

definition api_getJob :: "'p Request \<Rightarrow> 'b World \<Rightarrow> Job response \<times> 'b World" where
  "api_getJob r w =
     (case GetJob (hrID r) (wStore w) of
        Inl e \<Rightarrow> (writeError (not_found_status e) e, w)
      | Inr job \<Rightarrow> (writeJSON 200 job, w))"

definition ssePayload :: "JobEvent \<Rightarrow> payload" where
  "ssePayload event =
     (let p0 = (case JobEvent_Payload event of None \<Rightarrow> [] | Some raw \<Rightarrow> raw);
          p1 = (if mget p0 ''type'' = None then mput ''type'' (PStr (JobEvent_EventType event)) p0 else p0)
      in if eAgentID event \<noteq> [] then mput ''agent_id'' (PStr (eAgentID event)) p1 else p1)"

definition eventPayloads :: "JobEvent list \<Rightarrow> payload list" where
  "eventPayloads events = map ssePayload events"

definition api_listJobEvents :: "'p Request \<Rightarrow> 'b World \<Rightarrow> (payload list) response \<times> 'b World" where
  "api_listJobEvents r w =
     (case GetJob (hrID r) (wStore w) of
        Inl e \<Rightarrow> (writeError (not_found_status e) e, w)
      | Inr _ \<Rightarrow> (writeJSON 200 (eventPayloads (ListJobEvents (hrID r) (wStore w))), w))"

record AgentView =
  avID :: string
  avCountry :: string
  avRegion :: string
  avProvider :: string
  avISP :: string
  avVersion :: string
  avLabels :: "string list"
  avTools :: "(Tool, AgentToolPermission) gomap"
  avProtocols :: ProtocolMask
  avStatus :: AgentStatus
  avLastSeenAt :: time
  avCreatedAt :: time

definition agentView :: "Agent \<Rightarrow> (Tool, AgentToolPermission) gomap \<Rightarrow> AgentView" where
  "agentView agent tools =
     \<lparr>avID = aID agent, avCountry = aCountry agent, avRegion = aRegion agent, avProvider = aProvider agent,
      avISP = aISP agent, avVersion = aVersion agent, avLabels = aLabels agent, avTools = tools,
      avProtocols = aProtocols agent, avStatus = aStatus agent, avLastSeenAt = aLastSeenAt agent,
      avCreatedAt = aCreatedAt agent\<rparr>"

definition api_listAgents :: "principal option \<Rightarrow> 'p Request \<Rightarrow> 'b World \<Rightarrow> (AgentView list) response \<times> 'b World" where
  "api_listAgents ctx r w =
     (let scope = pnScope (principalFromContext ctx)
      in (writeJSON 200
            (List.map_filter (\<lambda>agent.
               if agentDisabled (wStore w) (aID agent) then None
               else if \<not> scopeAllowsAgentRecord scope agent then None
               else let tools = agentToolPermissions agent scope w
                    in if tools = [] then None else Some (agentView agent tools))
             (api_agentsWithManagedLabels (wStore w))), w))"

end
