(* ===== verification/ApiSchedules.thy ===== *)
theory ApiSchedules
  imports ApiJobs
begin

text \<open>
  Schedules of the API server (\<^verbatim>\<open>internal/api/schedule.go\<close>). The layouts of \<^verbatim>\<open>time.Parse\<close> and
  \<^verbatim>\<open>time.Time.Format\<close> that the file uses are parameters, collected in \<open>tenv\<close>.
\<close>

record tenv =
  teParseRFC3339 :: "string \<Rightarrow> time option"
  teFormatRFC3339Nano :: "time \<Rightarrow> string"

record scheduleRequestDetails =
  sdCreateReq :: CreateJobRequest
  sdScheduleVersion :: IPVersion
  sdEnabled :: bool
  sdScheduleTargets :: "ScheduleTarget list"


section \<open>Targets of a schedule\<close>

text \<open>The loop of \<^verbatim>\<open>scheduleTargetsFromRequest\<close>; \<open>i\<close> is the index, \<open>n\<close> counts the UUIDs.\<close>

fun schedule_targets ::
  "(nat \<Rightarrow> string) \<Rightarrow> time \<Rightarrow> nat \<Rightarrow> string list \<Rightarrow> ScheduleTargetRequest list \<Rightarrow> nat \<Rightarrow> (ScheduleTarget list) res \<times> nat" where
  "schedule_targets uuid now i seen [] n = (Inr [], n)"
| "schedule_targets uuid now i seen (target # targets) n =
     (let lbl = TrimSpace (sqLabel target) in
      if lbl = [] then (Inl (Errorf ''schedule_targets[%d].label is required'' [Itoa (int i)]), n)
      else if sqIntervalSeconds target < 10 \<or> 86400 < sqIntervalSeconds target
      then (Inl (Errorf ''schedule_targets[%d].interval_seconds must be between 10 and 86400'' [Itoa (int i)]), n)
      else if lbl \<in> set seen then (Inl (Errorf ''duplicate schedule target %q'' [lbl]), n)
      else
        let t = \<lparr>stID = uuid n, stLabel = lbl, stAllowedAgentIDs = [], stIntervalSeconds = sqIntervalSeconds target,
                 stNextRunAt = now, stLastRunAt = None\<rparr>
        in case schedule_targets uuid now (Suc i) (lbl # seen) targets (Suc n) of
             (Inl e, n') \<Rightarrow> (Inl e, n')
           | (Inr out, n') \<Rightarrow> (Inr (t # out), n'))"

definition scheduleTargetsFromRequest ::
  "(nat \<Rightarrow> string) \<Rightarrow> CreateScheduledJobRequest \<Rightarrow> time \<Rightarrow> nat \<Rightarrow> (ScheduleTarget list) res \<times> nat" where
  "scheduleTargetsFromRequest uuid req now n =
     (if csScheduleTargets req = [] then (Inl (Errorf ''schedule_targets is required'' []), n)
      else schedule_targets uuid now 0 [] (csScheduleTargets req) n)"

definition scheduleTargetMatchesAgent :: "string \<Rightarrow> Agent \<Rightarrow> bool" where
  "scheduleTargetMatchesAgent lbl agent = list_ex (\<lambda>item. TrimSpace item = TrimSpace lbl) (aLabels agent)"

text \<open>The agents that a target may use, and the loop over the targets.\<close>

definition schedule_agent ::
  "henv \<Rightarrow> TokenScope \<Rightarrow> CreateJobRequest \<Rightarrow> IPVersion \<Rightarrow> string \<Rightarrow> 'b World \<Rightarrow> Agent \<Rightarrow> bool" where
  "schedule_agent env scope req version lbl w agent =
     (if \<not> scheduleTargetMatchesAgent lbl agent then False
      else if \<not> scopeAllowsAgentRecord scope agent then False
      else if \<not> AgentSupports agent (rqTool req) version then False
      else is_ok (ValidateSchedule (heNet env) (api_policiesForLabels (aLabels agent) (wServer w)) (req\<lparr>rqAgentID := aID agent\<rparr>)))"

fun authorize_targets ::
  "henv \<Rightarrow> TokenScope \<Rightarrow> CreateJobRequest \<Rightarrow> IPVersion \<Rightarrow> 'b World \<Rightarrow> ScheduleTarget list \<Rightarrow> (ScheduleTarget list) res" where
  "authorize_targets env scope req version w [] = Inr []"
| "authorize_targets env scope req version w (target # targets) =
     (let allowed = map aID (filter (schedule_agent env scope req version (stLabel target) w) (api_agentsWithManagedLabels (wStore w)))
      in if allowed = [] then Inl (Errorf ''schedule target %q has no allowed online agents for %s'' [stLabel target, rqTool req])
         else bind_res (authorize_targets env scope req version w targets) (\<lambda>out.
                Inr (target\<lparr>stAllowedAgentIDs := sort allowed\<rparr> # out)))"

definition authorizeScheduleTargets ::
  "henv \<Rightarrow> principal option \<Rightarrow> CreateJobRequest \<Rightarrow> IPVersion \<Rightarrow> ScheduleTarget list \<Rightarrow> 'b World \<Rightarrow> (ScheduleTarget list) res" where
  "authorizeScheduleTargets env ctx req version targets w =
     authorize_targets env (pnScope (principalFromContext ctx)) req version w targets"

definition scheduleTargetDefinitionKey :: "ScheduleTarget \<Rightarrow> string" where
  "scheduleTargetDefinitionKey target = stLabel target @ [CHR 0x00] @ join '','' (stAllowedAgentIDs target)"

definition scheduleTargetsSameDefinition :: "ScheduleTarget list \<Rightarrow> ScheduleTarget list \<Rightarrow> bool" where
  "scheduleTargetsSameDefinition left right =
     (if length left \<noteq> length right then False
      else sort (map scheduleTargetDefinitionKey left) = sort (map scheduleTargetDefinitionKey right))"

text \<open>\<^verbatim>\<open>maps.Equal\<close>.\<close>

definition maps_equal :: "strmap \<Rightarrow> strmap \<Rightarrow> bool" where
  "maps_equal m1 m2 \<longleftrightarrow> length m1 = length m2 \<and> list_all (\<lambda>(k, v). mget m2 k = Some v) m1"

definition scheduleDefinitionChanged :: "ScheduledJob \<Rightarrow> scheduleRequestDetails \<Rightarrow> bool" where
  "scheduleDefinitionChanged existing details \<longleftrightarrow>
     sTool existing \<noteq> rqTool (sdCreateReq details)
     \<or> sTarget existing \<noteq> rqTarget (sdCreateReq details)
     \<or> sIPVersion existing \<noteq> sdScheduleVersion details
     \<or> sResolveOnAgent existing \<noteq> rqResolveOnAgent (sdCreateReq details)
     \<or> \<not> scheduleTargetsSameDefinition (EffectiveScheduleTargets existing) (sdScheduleTargets details)
     \<or> \<not> maps_equal (sArgs existing) (rqArgs (sdCreateReq details))"

text \<open>A missing key of the map of intervals reads as 0.\<close>

definition scheduleIntervalsChanged :: "ScheduledJob \<Rightarrow> ScheduleTarget list \<Rightarrow> bool" where
  "scheduleIntervalsChanged existing targets =
     (let left = EffectiveScheduleTargets existing in
      if length left \<noteq> length targets then True
      else let leftByKey = fold (\<lambda>target. mput (scheduleTargetDefinitionKey target) (stIntervalSeconds target)) left []
           in list_ex (\<lambda>target. (case mget leftByKey (scheduleTargetDefinitionKey target) of Some v \<Rightarrow> v | None \<Rightarrow> 0)
                                 \<noteq> stIntervalSeconds target) targets)"

definition mergeScheduleTargetRunState :: "ScheduleTarget list \<Rightarrow> ScheduleTarget list \<Rightarrow> bool \<Rightarrow> ScheduleTarget list" where
  "mergeScheduleTargetRunState next0 existing reset =
     (if reset then next0
      else let byKey = fold (\<lambda>target. mput (stLabel target) target) existing []
           in map (\<lambda>target. case mget byKey (stLabel target) of
                              Some old \<Rightarrow> target\<lparr>stID := stID old, stNextRunAt := stNextRunAt old, stLastRunAt := stLastRunAt old\<rparr>
                            | None \<Rightarrow> target) next0)"

text \<open>The loop is the one of \<^verbatim>\<open>syncScheduleAggregateRunFields\<close> in the hub; the interval is set as well.\<close>

definition normalizeScheduleRunFields :: "ScheduledJob \<Rightarrow> ScheduledJob" where
  "normalizeScheduleRunFields sched =
     (case sScheduleTargets sched of
        [] \<Rightarrow> sched
      | first # rest \<Rightarrow>
          (let (earliest, latestLast) =
                 fold (\<lambda>target (earliest, latestLast).
                   (if stNextRunAt target < earliest then stNextRunAt target else earliest,
                    case stLastRunAt target of
                      None \<Rightarrow> latestLast
                    | Some t \<Rightarrow> (case latestLast of None \<Rightarrow> Some t | Some l \<Rightarrow> if l < t then Some t else latestLast)))
                 (first # rest) (stNextRunAt first, None)
           in sched\<lparr>sNextRunAt := earliest, sLastRunAt := latestLast, sIntervalSeconds := stIntervalSeconds first\<rparr>))"


section \<open>Creating and changing schedules\<close>

text \<open>\<^verbatim>\<open>validateScheduleRequest\<close> from the policies on; nothing is changed there.\<close>

definition schedule_details ::
  "henv \<Rightarrow> principal option \<Rightarrow> CreateJobRequest \<Rightarrow> bool \<Rightarrow> ScheduleTarget list \<Rightarrow> 'b World
     \<Rightarrow> (int \<times> error) + scheduleRequestDetails" where
  "schedule_details env ctx createReq0 enabled scheduleTargets w =
     (let policies = api_policiesForJob createReq0 w;
          createReq = createReq0\<lparr>rqArgs := Set_ServerArgs policies (rqTool createReq0) (rqArgs createReq0)\<rparr>
      in case ValidateSchedule (heNet env) policies createReq of
           Inl e \<Rightarrow> Inl (400, e)
         | Inr _ \<Rightarrow>
         (case authorizeJob ctx createReq w of
            Inl e \<Rightarrow> Inl (403, e)
          | Inr _ \<Rightarrow>
          (case dispatchOptions (heNet env) createReq policies of
             Inl e \<Rightarrow> Inl (400, e)
           | Inr _ \<Rightarrow>
           (case (if rqIPVersion createReq = IPAny
                  then bind_res (LiteralIPVersion (heNet env) (rqTool createReq) (rqTarget createReq)) (\<lambda>lit.
                         Inr (case lit of Some v \<Rightarrow> v | None \<Rightarrow> IPAny))
                  else Inr (rqIPVersion createReq)) of
              Inl e \<Rightarrow> Inl (400, e)
            | Inr scheduleVersion \<Rightarrow>
            (case authorizeScheduleTargets env ctx createReq scheduleVersion scheduleTargets w of
               Inl e \<Rightarrow> Inl (403, e)
             | Inr targets \<Rightarrow>
                 Inr \<lparr>sdCreateReq = createReq, sdScheduleVersion = scheduleVersion, sdEnabled = enabled,
                      sdScheduleTargets = targets\<rparr>)))))"

definition validateScheduleRequest ::
  "henv \<Rightarrow> 'b bucket_ops \<Rightarrow> time \<Rightarrow> principal option \<Rightarrow> CreateScheduledJobRequest Request \<Rightarrow> CreateScheduledJobRequest \<Rightarrow> bool
     \<Rightarrow> 'b World \<Rightarrow> ((int \<times> error) + scheduleRequestDetails) \<times> 'b World" where
  "validateScheduleRequest env ops now ctx r req defaultEnabled w0 =
     (let createReq0 = \<lparr>rqTool = csTool req, rqTarget = csTarget req, rqArgs = csArgs req, rqIPVersion = csIPVersion req,
                        rqAgentID = [], rqResolveOnAgent = csResolveOnAgent req\<rparr>;
          (res, n) = scheduleTargetsFromRequest (heUUID env) req now (sysUUID (wSys w0));
          w1 = on_sys (\<lambda>s. s\<lparr>sysUUID := n\<rparr>) w0
      in case res of
           Inl e \<Rightarrow> (Inl (400, e), w1)
         | Inr scheduleTargets \<Rightarrow>
             let sv = wServer w1;
                 (allowed, limiter) = AllowTool ops now now now (csTool req)
                                        (Some (Resolve (svClientIP sv) (hrRemoteAddr r) (hrHeader r))) (svLimiter sv);
                 w = w1\<lparr>wServer := sv\<lparr>svLimiter := limiter\<rparr>\<rparr>
             in if \<not> allowed then (Inl (429, Errorf ''tool rate limit exceeded'' []), w)
                else (schedule_details env ctx createReq0
                        (case csEnabled req of Some b \<Rightarrow> b | None \<Rightarrow> defaultEnabled) scheduleTargets w, w))"

definition createSchedule ::
  "henv \<Rightarrow> 'b bucket_ops \<Rightarrow> time \<Rightarrow> principal option \<Rightarrow> CreateScheduledJobRequest Request \<Rightarrow> 'b World
     \<Rightarrow> ScheduledJob response \<times> 'b World" where
  "createSchedule env ops now ctx r w =
     (if \<not> scheduleWriteAllowed ctx then (writeError 403 (Errorf ''schedule write access is not allowed'' []), w)
      else
        case hrBody r of
          None \<Rightarrow> (writeError 400 (Errorf ''invalid json'' []), w)
        | Some req \<Rightarrow>
            (case validateScheduleRequest env ops now ctx r req True w of
               (Inl (status, e), w1) \<Rightarrow> (writeError status e, w1)
             | (Inr details, w1) \<Rightarrow>
                 let (sid, s1) = newUUID env (wSys w1);
                     createReq = sdCreateReq details;
                     sched = normalizeScheduleRunFields
                       \<lparr>sID = sid, sRevision = 1, sName = TrimSpace (csName req), sEnabled = sdEnabled details,
                        sTool = rqTool createReq, sTarget = rqTarget createReq, sArgs = rqArgs createReq,
                        sIPVersion = sdScheduleVersion details, sResolveOnAgent = rqResolveOnAgent createReq,
                        sIntervalSeconds = 0, sNextRunAt = now, sLastRunAt = None,
                        sScheduleTargets = sdScheduleTargets details, sCreatedAt = now, sUpdatedAt = now\<rparr>
                 in (writeJSON 201 sched, w1\<lparr>wSys := set_store (CreateScheduledJob sched (sysStore s1)) s1\<rparr>)))"

text \<open>The schedule that an update writes.\<close>

definition updated_schedule :: "time \<Rightarrow> ScheduledJob \<Rightarrow> CreateScheduledJobRequest \<Rightarrow> scheduleRequestDetails \<Rightarrow> ScheduledJob" where
  "updated_schedule now existing req details =
     (let definitionChanged = scheduleDefinitionChanged existing details;
          intervalChanged = scheduleIntervalsChanged existing (sdScheduleTargets details);
          nextRunAt = (if IsZero (sNextRunAt existing)
                          \<or> (sdEnabled details \<and> (\<not> sEnabled existing \<or> definitionChanged \<or> intervalChanged))
                       then now else sNextRunAt existing);
          revision0 = (if sRevision existing \<le> 0 then 1 else sRevision existing);
          createReq = sdCreateReq details
      in normalizeScheduleRunFields
           \<lparr>sID = sID existing, sRevision = (if definitionChanged then revision0 + 1 else revision0),
            sName = TrimSpace (csName req), sEnabled = sdEnabled details,
            sTool = rqTool createReq, sTarget = rqTarget createReq, sArgs = rqArgs createReq,
            sIPVersion = sdScheduleVersion details, sResolveOnAgent = rqResolveOnAgent createReq,
            sIntervalSeconds = 0, sNextRunAt = nextRunAt, sLastRunAt = sLastRunAt existing,
            sScheduleTargets =
              (if sdScheduleTargets details \<noteq> [] \<and> \<not> definitionChanged
               then mergeScheduleTargetRunState (sdScheduleTargets details) (EffectiveScheduleTargets existing)
                      (intervalChanged \<or> \<not> sEnabled existing)
               else sdScheduleTargets details),
            sCreatedAt = sCreatedAt existing, sUpdatedAt = now\<rparr>)"

definition updateSchedule ::
  "henv \<Rightarrow> 'b bucket_ops \<Rightarrow> time \<Rightarrow> principal option \<Rightarrow> CreateScheduledJobRequest Request \<Rightarrow> 'b World
     \<Rightarrow> ScheduledJob response \<times> 'b World" where
  "updateSchedule env ops now ctx r w =
     (if \<not> scheduleWriteAllowed ctx then (writeError 403 (Errorf ''schedule write access is not allowed'' []), w)
      else
        case GetScheduledJob (hrID r) (wStore w) of
          Inl e \<Rightarrow> (writeError (not_found_status e) e, w)
        | Inr existing \<Rightarrow>
            (case hrBody r of
               None \<Rightarrow> (writeError 400 (Errorf ''invalid json'' []), w)
             | Some req \<Rightarrow>
                 (case validateScheduleRequest env ops now ctx r req (sEnabled existing) w of
                    (Inl (status, e), w1) \<Rightarrow> (writeError status e, w1)
                  | (Inr details, w1) \<Rightarrow>
                      let sched = updated_schedule now existing req details in
                      case UpdateScheduledJob sched (wStore w1) of
                        Inl e \<Rightarrow> (writeError (not_found_status e) e, w1)
                      | Inr m \<Rightarrow> (writeJSON 200 sched, with_store m w1))))"

definition deleteSchedule :: "principal option \<Rightarrow> 'p Request \<Rightarrow> 'b World \<Rightarrow> unit response \<times> 'b World" where
  "deleteSchedule ctx r w =
     (if \<not> scheduleWriteAllowed ctx then (writeError 403 (Errorf ''schedule write access is not allowed'' []), w)
      else (case DeleteScheduledJob (hrID r) (wStore w) of
              Inl e \<Rightarrow> (writeError (not_found_status e) e, w)
            | Inr m \<Rightarrow> (WriteHeader 204, with_store m w)))"

definition listSchedules :: "principal option \<Rightarrow> 'p Request \<Rightarrow> 'b World \<Rightarrow> (ScheduledJob list) response \<times> 'b World" where
  "listSchedules ctx r w =
     (if \<not> scheduleReadAllowed ctx then (writeError 403 (Errorf ''schedule read access is not allowed'' []), w)
      else (writeJSON 200 (ListScheduledJobs (wStore w)), w))"

definition getSchedule :: "principal option \<Rightarrow> 'p Request \<Rightarrow> 'b World \<Rightarrow> ScheduledJob response \<times> 'b World" where
  "getSchedule ctx r w =
     (if \<not> scheduleReadAllowed ctx then (writeError 403 (Errorf ''schedule read access is not allowed'' []), w)
      else (case GetScheduledJob (hrID r) (wStore w) of
              Inl e \<Rightarrow> (writeError (not_found_status e) e, w)
            | Inr sched \<Rightarrow> (writeJSON 200 sched, w)))"


section \<open>History\<close>

text \<open>
  \<^verbatim>\<open>fmt.Sscanf\<close> with one \<^verbatim>\<open>%d\<close>: an optional sign and digits; what follows them is ignored. A number
  outside 64 bits is an error.
\<close>

definition scan_int64 :: "string \<Rightarrow> int option" where
  "scan_int64 raw =
     (let (neg, rest) = (case raw of
                           c # cs \<Rightarrow> if c = CHR ''-'' then (True, cs) else if c = CHR ''+'' then (False, cs) else (False, raw)
                         | [] \<Rightarrow> (False, []));
          ds = takeWhile is_digit rest
      in if ds = [] then None
         else case dec_val 0 ds of
                None \<Rightarrow> None
              | Some v \<Rightarrow> (let i = (if neg then - int v else int v) in if int64 i then Some i else None))"

text \<open>\<^verbatim>\<open>time.Unix\<close> adds the seconds from year 1 to 1970 in 64 bits.\<close>

definition parseScheduleTime :: "tenv \<Rightarrow> string \<Rightarrow> time option" where
  "parseScheduleTime te raw0 =
     (let raw = TrimSpace raw0 in
      if raw = [] then None
      else case teParseRFC3339 te raw of
             Some t \<Rightarrow> Some t
           | None \<Rightarrow> (case scan_int64 raw of
                       Some unix \<Rightarrow> if 0 < unix then Some (wrap64 (unix + 62135596800) * Second) else None
                     | None \<Rightarrow> None))"

definition scheduleRangeWindow :: "string \<Rightarrow> (dur \<times> dur) option" where
  "scheduleRangeWindow raw =
     (let v = ToLower (TrimSpace raw) in
      if v = ''1h'' then Some (3600 * Second, 10 * Second)
      else if v = ''6h'' then Some (6 * 3600 * Second, 30 * Second)
      else if v = ''24h'' then Some (24 * 3600 * Second, 60 * Second)
      else if v = ''7d'' then Some (7 * 24 * 3600 * Second, 600 * Second)
      else if v = ''30d'' then Some (30 * 24 * 3600 * Second, 1800 * Second)
      else None)"

text \<open>\<^verbatim>\<open>time.Time.Sub\<close> saturates at the ends of the type of durations.\<close>

definition time_sub :: "time \<Rightarrow> time \<Rightarrow> dur" where
  "time_sub t u = max (- (2 ^ 63)) (min (2 ^ 63 - 1) (t - u))"

definition customScheduleBucketSeconds :: "HistoryFilter \<Rightarrow> int" where
  "customScheduleBucketSeconds f =
     (if \<not> hfHasFrom f \<or> \<not> hfHasTo f then 0
      else
        let span = time_sub (hfTo f) (hfFrom f) in
        if span \<le> 0 then 0
        else
          let bucket0 = quot span 2000; bucket = (if bucket0 * 2000 < span then bucket0 + 1 else bucket0)
          in if bucket < Second then 0 else quot bucket Second)"

definition scheduleHistoryFilter :: "tenv \<Rightarrow> time \<Rightarrow> 'p Request \<Rightarrow> bool \<Rightarrow> HistoryFilter" where
  "scheduleHistoryFilter te now r enableBucket =
     (let f0 = \<lparr>hfLimit = 2000, hfBucketSeconds = 0, hfRevision = 0, hfFrom = 0, hfTo = 0, hfHasFrom = False, hfHasTo = False\<rparr>;
          f1 = (case parseScheduleTime te (hrQuery r ''from'') of Some t \<Rightarrow> f0\<lparr>hfFrom := t, hfHasFrom := True\<rparr> | None \<Rightarrow> f0);
          f2 = (case parseScheduleTime te (hrQuery r ''to'') of Some t \<Rightarrow> f1\<lparr>hfTo := t, hfHasTo := True\<rparr> | None \<Rightarrow> f1)
      in if hfHasFrom f2 then
           (if enableBucket then f2\<lparr>hfBucketSeconds := customScheduleBucketSeconds f2\<rparr> else f2)
         else (case scheduleRangeWindow (hrQuery r ''range'') of
                 Some (duration, bucketSize) \<Rightarrow>
                   (let f3 = f2\<lparr>hfFrom := now - duration, hfHasFrom := True\<rparr>
                    in if enableBucket then f3\<lparr>hfBucketSeconds := quot bucketSize Second\<rparr> else f3)
               | None \<Rightarrow> f2))"

definition scheduleHistoryFilterForSchedule :: "tenv \<Rightarrow> time \<Rightarrow> 'p Request \<Rightarrow> ScheduledJob \<Rightarrow> bool \<Rightarrow> HistoryFilter" where
  "scheduleHistoryFilterForSchedule te now r sched enableBucket =
     (scheduleHistoryFilter te now r enableBucket)\<lparr>hfRevision := sRevision sched\<rparr>"

definition listScheduleHistory ::
  "tenv \<Rightarrow> time \<Rightarrow> principal option \<Rightarrow> 'p Request \<Rightarrow> 'b World \<Rightarrow> (Job list) response \<times> 'b World" where
  "listScheduleHistory te now ctx r w =
     (if \<not> scheduleReadAllowed ctx then (writeError 403 (Errorf ''schedule read access is not allowed'' []), w)
      else (case GetScheduledJob (hrID r) (wStore w) of
              Inl e \<Rightarrow> (writeError (not_found_status e) e, w)
            | Inr sched \<Rightarrow>
                (writeJSON 200 (ListScheduledJobHistory (hrID r) (scheduleHistoryFilterForSchedule te now r sched False) (wStore w)), w)))"

definition scheduleHistoryEventTime :: "Job \<Rightarrow> time" where
  "scheduleHistoryEventTime job =
     (case jStartedAt job of Some t \<Rightarrow> if \<not> IsZero t then t else jCreatedAt job | None \<Rightarrow> jCreatedAt job)"

definition scheduleSummaryExitCode :: "Job \<Rightarrow> int" where
  "scheduleSummaryExitCode job = (if jStatus job = JobFailed \<or> jStatus job = JobCanceled then 1 else 0)"

definition scheduleSummaryMetric :: "tenv \<Rightarrow> Job \<Rightarrow> metric" where
  "scheduleSummaryMetric te job =
     (let m0 = [(''status'', JStr (JobStatus_string (jStatus job)))];
          m1 = (if jResolvedTarget job \<noteq> [] then mput ''target_ip'' (JStr (jResolvedTarget job)) m0 else m0)
      in case jStartedAt job of
           Some t \<Rightarrow> if \<not> IsZero t then mput ''started_at'' (JStr (teFormatRFC3339Nano te t)) m1 else m1
         | None \<Rightarrow> m1)"

text \<open>Both loops of \<^verbatim>\<open>enrichScheduleSummaryEvent\<close>: a key of the result itself wins.\<close>

definition add_missing :: "metric \<Rightarrow> metric \<Rightarrow> metric" where
  "add_missing extra m = fold (\<lambda>(key, value) m. if mget m key = None then mput key value m else m) extra m"

definition enrichScheduleSummaryEvent :: "tenv \<Rightarrow> Job \<Rightarrow> JobEvent \<Rightarrow> JobEvent" where
  "enrichScheduleSummaryEvent te job event0 =
     (let e1 = (if eAgentID event0 = [] then event0\<lparr>eAgentID := jAgentID job\<rparr> else event0);
          event = (if IsZero (eCreatedAt e1) then e1\<lparr>eCreatedAt := scheduleHistoryEventTime job\<rparr> else e1)
      in case eParsed event of
           Some parsed \<Rightarrow>
             event\<lparr>eParsed := Some (parsed\<lparr>trSummary := add_missing (scheduleSummaryMetric te job) (trSummary parsed)\<rparr>)\<rparr>
         | None \<Rightarrow>
             (case eEvent event of
                Some ev \<Rightarrow>
                  if seType ev = ''summary''
                  then event\<lparr>eEvent := Some (ev\<lparr>seMetric := add_missing (scheduleSummaryMetric te job) (seMetric ev)\<rparr>)\<rparr>
                  else event
              | None \<Rightarrow> event))"

definition is_summary :: "JobEvent \<Rightarrow> bool" where
  "is_summary event \<longleftrightarrow>
     eParsed event \<noteq> None \<or> eStream event = ''summary''
     \<or> (case eEvent event of Some ev \<Rightarrow> seType ev = ''summary'' | None \<Rightarrow> False)"

definition singleSummaryEvent :: "tenv \<Rightarrow> Job \<Rightarrow> JobEvent list \<Rightarrow> JobEvent" where
  "singleSummaryEvent te job events =
     (case find is_summary (rev events) of
        Some event \<Rightarrow> enrichScheduleSummaryEvent te job event
      | None \<Rightarrow>
          \<lparr>eID = jID job @ ''-summary'', eJobID = jID job, eAgentID = jAgentID job, eStream = ''summary'', eEvent = None,
           eExitCode = None,
           eParsed = Some \<lparr>trType = ''summary'', trTool = jTool job, trTarget = jTarget job, trIPVersion = jIPVersion job,
                           trExitCode = scheduleSummaryExitCode job, trSummary = scheduleSummaryMetric te job,
                           trHops = [], trRecords = []\<rparr>,
           eCreatedAt = scheduleHistoryEventTime job\<rparr>)"

text \<open>
  The records are written as JSON and read again; this is the identity on the strings of a result,
  which came out of JSON. Records of a payload are never empty.
\<close>

definition dnsRecordsKey :: "JobEvent \<Rightarrow> string" where
  "dnsRecordsKey event =
     (case Option.bind (JobEvent_Payload event) (\<lambda>p. mget p ''records'') of
        Some (PRecords records) \<Rightarrow> join [CHR 0x0A] (sort (map (\<lambda>r. rType r @ '' '' @ rValue r) records))
      | _ \<Rightarrow> [])"

text \<open>One round of the loop of \<^verbatim>\<open>listScheduleHistorySummary\<close>: the output and the last records of each agent.\<close>

definition add_summary ::
  "tenv \<Rightarrow> Memory \<Rightarrow> Job \<Rightarrow> JobEvent list \<times> strmap \<Rightarrow> JobEvent list \<times> strmap" where
  "add_summary te m job acc =
     (let (out, lastDNSRecordsByAgent) = acc; event = singleSummaryEvent te job (ListJobEvents (jID job) m) in
      if jTool job = ToolDNS then
        (let key = dnsRecordsKey event; agentID = (if eAgentID event = [] then jAgentID job else eAgentID event)
         in if key \<noteq> [] \<and> mstr lastDNSRecordsByAgent agentID = key then (out, lastDNSRecordsByAgent)
            else (out @ [event], mput agentID key lastDNSRecordsByAgent))
      else (out @ [event], lastDNSRecordsByAgent))"

definition listScheduleHistorySummary ::
  "tenv \<Rightarrow> time \<Rightarrow> principal option \<Rightarrow> 'p Request \<Rightarrow> 'b World \<Rightarrow> (JobEvent list) response \<times> 'b World" where
  "listScheduleHistorySummary te now ctx r w =
     (if \<not> scheduleReadAllowed ctx then (writeError 403 (Errorf ''schedule read access is not allowed'' []), w)
      else (case GetScheduledJob (hrID r) (wStore w) of
              Inl e \<Rightarrow> (writeError (not_found_status e) e, w)
            | Inr sched \<Rightarrow>
                (writeJSON 200 (fst (fold (add_summary te (wStore w))
                   (ListScheduledJobHistory (hrID r) (scheduleHistoryFilterForSchedule te now r sched True) (wStore w)) ([], []))), w)))"

end
