(* ===== verification/ApiManage.thy ===== *)
theory ApiManage
  imports ApiJobs
begin

text \<open>
  The management handlers of the API server (\<^verbatim>\<open>internal/api/server.go\<close>): rate limits, labels, API
  tokens, register tokens and agents. A handler that changes settings reads them, changes a part
  and saves them with the revision that it has read or that the client names, so that a change in
  between is a conflict. Every decision is written to the audit log.
\<close>


section \<open>Payloads\<close>

record managedLabelsPayload =
  mlRevision :: int
  mlUpdatedAt :: time
  mlLabelConfigs :: "(string, LabelConfig) gomap option"

record managedAgentLabelPatch =
  lpID :: string
  lpLabels :: "string list"

record managedLabelsAndAgentsPayload =
  laRevision :: int
  laLabelConfigs :: "(string, LabelConfig) gomap option"
  laAgents :: "managedAgentLabelPatch list"

record managedRateLimitPayload =
  mrlRevision :: int
  mrlUpdatedAt :: time
  mrlRateLimit :: RateLimit

record managedAPITokenPayload =
  apName :: string
  apAll :: bool
  apScheduleAccess :: string
  apManageAccess :: string
  apAgents :: "string list"
  apDeniedAgents :: "string list"
  apAgentTags :: "string list"
  apDeniedTags :: "string list"
  apTools :: "(string, APIToolScope) gomap option"

record managedAPITokenPatchPayload =
  ptName :: "string option"
  ptAll :: "bool option"
  ptScheduleAccess :: "string option"
  ptManageAccess :: "string option"
  ptAgents :: "string list option"
  ptDeniedAgents :: "string list option"
  ptAgentTags :: "string list option"
  ptDeniedTags :: "string list option"
  ptTools :: "(string, APIToolScope) gomap option option"

record managedAPITokensResponse =
  tsrRevision :: int
  tsrUpdatedAt :: time
  tsrTokens :: "APITokenPermission list"

record managedAPITokenResponse =
  trrRevision :: int
  trrUpdatedAt :: time
  trrToken :: APITokenPermission

record managedRegisterTokensResponse =
  rsrRevision :: int
  rsrUpdatedAt :: time
  rsrTokens :: "RegisterToken list"

record managedRegisterTokenResponse =
  rrrRevision :: int
  rrrUpdatedAt :: time
  rrrToken :: RegisterToken


section \<open>Tokens\<close>

text \<open>The index, or \<open>None\<close> for -1.\<close>

fun index_of :: "('a \<Rightarrow> bool) \<Rightarrow> 'a list \<Rightarrow> nat option" where
  "index_of p [] = None"
| "index_of p (x # xs) = (if p x then Some 0 else map_option Suc (index_of p xs))"

definition managedAPITokenIndex :: "APITokenPermission list \<Rightarrow> string \<Rightarrow> nat option" where
  "managedAPITokenIndex tokens tid = index_of (\<lambda>token. atID token = TrimSpace tid) tokens"

definition managedRegisterTokenIndex :: "RegisterToken list \<Rightarrow> string \<Rightarrow> nat option" where
  "managedRegisterTokenIndex tokens tid = index_of (\<lambda>token. rgID token = TrimSpace tid) tokens"

definition apiTokenFromPayload :: "managedAPITokenPayload \<Rightarrow> string \<Rightarrow> APITokenPermission" where
  "apiTokenFromPayload payload secret =
     \<lparr>atID = [], atName = apName payload, atSecret = secret, atRotate = False, atAll = apAll payload,
      atScheduleAccess = apScheduleAccess payload, atManageAccess = apManageAccess payload,
      atAgents = apAgents payload, atDeniedAgents = apDeniedAgents payload, atAgentTags = apAgentTags payload,
      atDeniedTags = apDeniedTags payload, atTools = apTools payload\<rparr>"

definition applyAPITokenPatch :: "APITokenPermission \<Rightarrow> managedAPITokenPatchPayload \<Rightarrow> APITokenPermission" where
  "applyAPITokenPatch token payload =
     token\<lparr>atName := (case ptName payload of Some v \<Rightarrow> v | None \<Rightarrow> atName token),
           atAll := (case ptAll payload of Some v \<Rightarrow> v | None \<Rightarrow> atAll token),
           atScheduleAccess := (case ptScheduleAccess payload of Some v \<Rightarrow> v | None \<Rightarrow> atScheduleAccess token),
           atManageAccess := (case ptManageAccess payload of Some v \<Rightarrow> v | None \<Rightarrow> atManageAccess token),
           atAgents := (case ptAgents payload of Some v \<Rightarrow> v | None \<Rightarrow> atAgents token),
           atDeniedAgents := (case ptDeniedAgents payload of Some v \<Rightarrow> v | None \<Rightarrow> atDeniedAgents token),
           atAgentTags := (case ptAgentTags payload of Some v \<Rightarrow> v | None \<Rightarrow> atAgentTags token),
           atDeniedTags := (case ptDeniedTags payload of Some v \<Rightarrow> v | None \<Rightarrow> atDeniedTags token),
           atTools := (case ptTools payload of Some v \<Rightarrow> v | None \<Rightarrow> atTools token)\<rparr>"

definition redactAPIToken :: "APITokenPermission \<Rightarrow> bool \<Rightarrow> APITokenPermission" where
  "redactAPIToken token reveal =
     (let t = token\<lparr>atRotate := False\<rparr> in if \<not> reveal then t\<lparr>atSecret := []\<rparr> else t)"

text \<open>The index to reveal is -1 in every call.\<close>

definition redactAPITokens :: "APITokenPermission list \<Rightarrow> int \<Rightarrow> APITokenPermission list" where
  "redactAPITokens tokens revealIndex =
     map (\<lambda>(i, token). redactAPIToken token (int i = revealIndex)) (enumerate 0 tokens)"

definition redactRegisterToken :: "RegisterToken \<Rightarrow> bool \<Rightarrow> RegisterToken" where
  "redactRegisterToken token reveal =
     (let t = token\<lparr>rgRotate := False\<rparr> in if \<not> reveal then t\<lparr>rgToken := []\<rparr> else t)"

definition redactRegisterTokens :: "RegisterToken list \<Rightarrow> int \<Rightarrow> RegisterToken list" where
  "redactRegisterTokens tokens revealIndex =
     map (\<lambda>(i, token). redactRegisterToken token (int i = revealIndex)) (enumerate 0 tokens)"

text \<open>
  What the handlers do first: read the settings, where an error ends the request. The counter of
  the UUIDs advances.
\<close>

definition read_settings ::
  "henv \<Rightarrow> (ManagedSettings \<Rightarrow> 'b World \<Rightarrow> 'a response \<times> 'b World) \<Rightarrow> 'b World \<Rightarrow> 'a response \<times> 'b World" where
  "read_settings env k w =
     (case GetManagedSettings (heUUID env) (sysUUID (wSys w)) (wStore w) of
        (settings, n, e) \<Rightarrow>
          (let w1 = on_sys (\<lambda>s. s\<lparr>sysUUID := n\<rparr>) w in
           case e of Some err \<Rightarrow> (writeError 500 err, w1) | None \<Rightarrow> k settings w1))"

text \<open>What they do last: save the settings, note the decision and answer with what was saved.\<close>

definition save_and_audit ::
  "henv \<Rightarrow> time \<Rightarrow> principal option \<Rightarrow> string \<Rightarrow> (ManagedSettings \<Rightarrow> string) \<Rightarrow> (ManagedSettings \<Rightarrow> 'a response)
     \<Rightarrow> ManagedSettings \<Rightarrow> 'b World \<Rightarrow> 'a response \<times> 'b World" where
  "save_and_audit env now ctx action target reply settings w =
     (case saveManagedSettings env now settings w of
        (Inl (status, e), w1) \<Rightarrow> (writeError status e, w1)
      | (Inr saved, w1) \<Rightarrow> (reply saved, auditManage env now ctx action (target saved) ''allow'' [] w1))"

definition listManagedAPITokens ::
  "henv \<Rightarrow> principal option \<Rightarrow> 'p Request \<Rightarrow> 'b World \<Rightarrow> managedAPITokensResponse response \<times> 'b World" where
  "listManagedAPITokens env ctx r w =
     (if \<not> manageWriteAllowed ctx then (writeError 403 (Errorf ''manage write access is required'' []), w)
      else read_settings env (\<lambda>settings w.
        (writeJSON 200 \<lparr>tsrRevision = msRevision settings, tsrUpdatedAt = msUpdatedAt settings,
                        tsrTokens = redactAPITokens (msAPITokens settings) (- 1)\<rparr>, w)) w)"

text \<open>\<^verbatim>\<open>saved.APITokens[index]\<close> is in range: saving keeps the number of the tokens.\<close>

definition createManagedAPIToken ::
  "henv \<Rightarrow> time \<Rightarrow> principal option \<Rightarrow> managedAPITokenPayload Request \<Rightarrow> 'b World
     \<Rightarrow> managedAPITokenResponse response \<times> 'b World" where
  "createManagedAPIToken env now ctx r w =
     requireManageWrite env now ctx ''manage.tokens.create'' ''tokens'' (\<lambda>w.
       case hrBody r of
         None \<Rightarrow> (writeError 400 (Errorf ''invalid json'' []), w)
       | Some payload \<Rightarrow>
           read_settings env (\<lambda>settings w.
             save_and_audit env now ctx ''manage.tokens.create'' (\<lambda>saved. atID (last (msAPITokens saved)))
               (\<lambda>saved. writeJSON 201 \<lparr>trrRevision = msRevision saved, trrUpdatedAt = msUpdatedAt saved,
                                       trrToken = redactAPIToken (last (msAPITokens saved)) True\<rparr>)
               (settings\<lparr>msAPITokens := msAPITokens settings @ [apiTokenFromPayload payload []]\<rparr>) w) w) w"

definition updateManagedAPIToken ::
  "henv \<Rightarrow> time \<Rightarrow> principal option \<Rightarrow> managedAPITokenPatchPayload Request \<Rightarrow> 'b World
     \<Rightarrow> managedAPITokenResponse response \<times> 'b World" where
  "updateManagedAPIToken env now ctx r w =
     requireManageWrite env now ctx ''manage.tokens.update'' (hrID r) (\<lambda>w.
       case hrBody r of
         None \<Rightarrow> (writeError 400 (Errorf ''invalid json'' []), w)
       | Some payload \<Rightarrow>
           read_settings env (\<lambda>settings w.
             case managedAPITokenIndex (msAPITokens settings) (hrID r) of
               None \<Rightarrow> (writeError 404 ErrNotFound, w)
             | Some index \<Rightarrow>
                 save_and_audit env now ctx ''manage.tokens.update'' (\<lambda>_. hrID r)
                   (\<lambda>saved. writeJSON 200 \<lparr>trrRevision = msRevision saved, trrUpdatedAt = msUpdatedAt saved,
                                           trrToken = redactAPIToken (msAPITokens saved ! index) False\<rparr>)
                   (settings\<lparr>msAPITokens := (msAPITokens settings)
                       [index := applyAPITokenPatch (msAPITokens settings ! index) payload]\<rparr>) w) w) w"

definition rotateManagedAPIToken ::
  "henv \<Rightarrow> time \<Rightarrow> principal option \<Rightarrow> 'p Request \<Rightarrow> 'b World \<Rightarrow> managedAPITokenResponse response \<times> 'b World" where
  "rotateManagedAPIToken env now ctx r w =
     requireManageWrite env now ctx ''manage.tokens.rotate'' (hrID r) (\<lambda>w.
       read_settings env (\<lambda>settings w.
         case managedAPITokenIndex (msAPITokens settings) (hrID r) of
           None \<Rightarrow> (writeError 404 ErrNotFound, w)
         | Some index \<Rightarrow>
             save_and_audit env now ctx ''manage.tokens.rotate'' (\<lambda>_. hrID r)
               (\<lambda>saved. writeJSON 200 \<lparr>trrRevision = msRevision saved, trrUpdatedAt = msUpdatedAt saved,
                                       trrToken = redactAPIToken (msAPITokens saved ! index) True\<rparr>)
               (settings\<lparr>msAPITokens := (msAPITokens settings)
                   [index := (msAPITokens settings ! index)\<lparr>atSecret := []\<rparr>]\<rparr>) w) w) w"

definition deleteManagedAPIToken ::
  "henv \<Rightarrow> time \<Rightarrow> principal option \<Rightarrow> 'p Request \<Rightarrow> 'b World \<Rightarrow> managedAPITokensResponse response \<times> 'b World" where
  "deleteManagedAPIToken env now ctx r w =
     requireManageWrite env now ctx ''manage.tokens.delete'' (hrID r) (\<lambda>w.
       read_settings env (\<lambda>settings w.
         case managedAPITokenIndex (msAPITokens settings) (hrID r) of
           None \<Rightarrow> (writeError 404 ErrNotFound, w)
         | Some index \<Rightarrow>
             save_and_audit env now ctx ''manage.tokens.delete'' (\<lambda>_. hrID r)
               (\<lambda>saved. writeJSON 200 \<lparr>tsrRevision = msRevision saved, tsrUpdatedAt = msUpdatedAt saved,
                                       tsrTokens = redactAPITokens (msAPITokens saved) (- 1)\<rparr>)
               (settings\<lparr>msAPITokens := take index (msAPITokens settings) @ drop (Suc index) (msAPITokens settings)\<rparr>) w) w) w"

definition listManagedRegisterTokens ::
  "henv \<Rightarrow> principal option \<Rightarrow> 'p Request \<Rightarrow> 'b World \<Rightarrow> managedRegisterTokensResponse response \<times> 'b World" where
  "listManagedRegisterTokens env ctx r w =
     (if \<not> manageWriteAllowed ctx then (writeError 403 (Errorf ''manage write access is required'' []), w)
      else read_settings env (\<lambda>settings w.
        (writeJSON 200 \<lparr>rsrRevision = msRevision settings, rsrUpdatedAt = msUpdatedAt settings,
                        rsrTokens = redactRegisterTokens (msRegisterTokens settings) (- 1)\<rparr>, w)) w)"

text \<open>The payload of a register token is its name.\<close>

definition createManagedRegisterToken ::
  "henv \<Rightarrow> time \<Rightarrow> principal option \<Rightarrow> string Request \<Rightarrow> 'b World \<Rightarrow> managedRegisterTokenResponse response \<times> 'b World" where
  "createManagedRegisterToken env now ctx r w =
     requireManageWrite env now ctx ''manage.register_tokens.create'' ''register-tokens'' (\<lambda>w.
       case hrBody r of
         None \<Rightarrow> (writeError 400 (Errorf ''invalid json'' []), w)
       | Some name \<Rightarrow>
           read_settings env (\<lambda>settings w.
             save_and_audit env now ctx ''manage.register_tokens.create'' (\<lambda>saved. rgID (last (msRegisterTokens saved)))
               (\<lambda>saved. writeJSON 201 \<lparr>rrrRevision = msRevision saved, rrrUpdatedAt = msUpdatedAt saved,
                                       rrrToken = redactRegisterToken (last (msRegisterTokens saved)) True\<rparr>)
               (settings\<lparr>msRegisterTokens := msRegisterTokens settings
                   @ [\<lparr>rgID = [], rgName = name, rgToken = [], rgRotate = False\<rparr>]\<rparr>) w) w) w"

definition updateManagedRegisterToken ::
  "henv \<Rightarrow> time \<Rightarrow> principal option \<Rightarrow> string Request \<Rightarrow> 'b World \<Rightarrow> managedRegisterTokenResponse response \<times> 'b World" where
  "updateManagedRegisterToken env now ctx r w =
     requireManageWrite env now ctx ''manage.register_tokens.update'' (hrID r) (\<lambda>w.
       case hrBody r of
         None \<Rightarrow> (writeError 400 (Errorf ''invalid json'' []), w)
       | Some name \<Rightarrow>
           read_settings env (\<lambda>settings w.
             case managedRegisterTokenIndex (msRegisterTokens settings) (hrID r) of
               None \<Rightarrow> (writeError 404 ErrNotFound, w)
             | Some index \<Rightarrow>
                 save_and_audit env now ctx ''manage.register_tokens.update'' (\<lambda>_. hrID r)
                   (\<lambda>saved. writeJSON 200 \<lparr>rrrRevision = msRevision saved, rrrUpdatedAt = msUpdatedAt saved,
                                           rrrToken = redactRegisterToken (msRegisterTokens saved ! index) False\<rparr>)
                   (settings\<lparr>msRegisterTokens := (msRegisterTokens settings)
                       [index := (msRegisterTokens settings ! index)\<lparr>rgName := name, rgRotate := False\<rparr>]\<rparr>) w) w) w"

definition rotateManagedRegisterToken ::
  "henv \<Rightarrow> time \<Rightarrow> principal option \<Rightarrow> 'p Request \<Rightarrow> 'b World \<Rightarrow> managedRegisterTokenResponse response \<times> 'b World" where
  "rotateManagedRegisterToken env now ctx r w =
     requireManageWrite env now ctx ''manage.register_tokens.rotate'' (hrID r) (\<lambda>w.
       read_settings env (\<lambda>settings w.
         case managedRegisterTokenIndex (msRegisterTokens settings) (hrID r) of
           None \<Rightarrow> (writeError 404 ErrNotFound, w)
         | Some index \<Rightarrow>
             save_and_audit env now ctx ''manage.register_tokens.rotate'' (\<lambda>_. hrID r)
               (\<lambda>saved. writeJSON 200 \<lparr>rrrRevision = msRevision saved, rrrUpdatedAt = msUpdatedAt saved,
                                       rrrToken = redactRegisterToken (msRegisterTokens saved ! index) True\<rparr>)
               (settings\<lparr>msRegisterTokens := (msRegisterTokens settings)
                   [index := (msRegisterTokens settings ! index)\<lparr>rgToken := []\<rparr>]\<rparr>) w) w) w"

definition deleteManagedRegisterToken ::
  "henv \<Rightarrow> time \<Rightarrow> principal option \<Rightarrow> 'p Request \<Rightarrow> 'b World \<Rightarrow> managedRegisterTokensResponse response \<times> 'b World" where
  "deleteManagedRegisterToken env now ctx r w =
     requireManageWrite env now ctx ''manage.register_tokens.delete'' (hrID r) (\<lambda>w.
       read_settings env (\<lambda>settings w.
         case managedRegisterTokenIndex (msRegisterTokens settings) (hrID r) of
           None \<Rightarrow> (writeError 404 ErrNotFound, w)
         | Some index \<Rightarrow>
             save_and_audit env now ctx ''manage.register_tokens.delete'' (\<lambda>_. hrID r)
               (\<lambda>saved. writeJSON 200 \<lparr>rsrRevision = msRevision saved, rsrUpdatedAt = msUpdatedAt saved,
                                       rsrTokens = redactRegisterTokens (msRegisterTokens saved) (- 1)\<rparr>)
               (settings\<lparr>msRegisterTokens := take index (msRegisterTokens settings) @ drop (Suc index) (msRegisterTokens settings)\<rparr>) w) w) w"


section \<open>Rate limits and labels\<close>

definition getManagedRateLimit ::
  "henv \<Rightarrow> principal option \<Rightarrow> 'p Request \<Rightarrow> 'b World \<Rightarrow> managedRateLimitPayload response \<times> 'b World" where
  "getManagedRateLimit env ctx r w =
     (if \<not> manageReadAllowed ctx then (writeError 403 (Errorf ''manage read access is required'' []), w)
      else read_settings env (\<lambda>settings w.
        (writeJSON 200 \<lparr>mrlRevision = msRevision settings, mrlUpdatedAt = msUpdatedAt settings,
                        mrlRateLimit = msRateLimit settings\<rparr>, w)) w)"

definition updateManagedRateLimit ::
  "henv \<Rightarrow> time \<Rightarrow> principal option \<Rightarrow> managedRateLimitPayload Request \<Rightarrow> 'b World
     \<Rightarrow> managedRateLimitPayload response \<times> 'b World" where
  "updateManagedRateLimit env now ctx r w =
     requireManageWrite env now ctx ''manage.rate_limit.update'' ''rate-limit'' (\<lambda>w.
       case hrBody r of
         None \<Rightarrow> (writeError 400 (Errorf ''invalid json'' []), w)
       | Some payload \<Rightarrow>
           read_settings env (\<lambda>current w.
             save_and_audit env now ctx ''manage.rate_limit.update'' (\<lambda>_. ''rate-limit'')
               (\<lambda>saved. writeJSON 200 \<lparr>mrlRevision = msRevision saved, mrlUpdatedAt = msUpdatedAt saved,
                                       mrlRateLimit = msRateLimit saved\<rparr>)
               (current\<lparr>msRevision := (if 0 < mrlRevision payload then mrlRevision payload else msRevision current),
                        msRateLimit := mrlRateLimit payload\<rparr>) w) w) w"

definition getManagedLabels ::
  "henv \<Rightarrow> principal option \<Rightarrow> 'p Request \<Rightarrow> 'b World \<Rightarrow> managedLabelsPayload response \<times> 'b World" where
  "getManagedLabels env ctx r w =
     (if \<not> manageReadAllowed ctx then (writeError 403 (Errorf ''manage read access is required'' []), w)
      else read_settings env (\<lambda>settings w.
        (writeJSON 200 \<lparr>mlRevision = msRevision settings, mlUpdatedAt = msUpdatedAt settings,
                        mlLabelConfigs = msLabelConfigs settings\<rparr>, w)) w)"

definition updateManagedLabels ::
  "henv \<Rightarrow> time \<Rightarrow> principal option \<Rightarrow> managedLabelsPayload Request \<Rightarrow> 'b World
     \<Rightarrow> managedLabelsPayload response \<times> 'b World" where
  "updateManagedLabels env now ctx r w =
     requireManageWrite env now ctx ''manage.labels.update'' ''labels'' (\<lambda>w.
       case hrBody r of
         None \<Rightarrow> (writeError 400 (Errorf ''invalid json'' []), w)
       | Some payload \<Rightarrow>
           read_settings env (\<lambda>current w.
             save_and_audit env now ctx ''manage.labels.update'' (\<lambda>_. ''labels'')
               (\<lambda>saved. writeJSON 200 \<lparr>mlRevision = msRevision saved, mlUpdatedAt = msUpdatedAt saved,
                                       mlLabelConfigs = msLabelConfigs saved\<rparr>)
               (current\<lparr>msRevision := (if 0 < mlRevision payload then mlRevision payload else msRevision current),
                        msLabelConfigs := mlLabelConfigs payload\<rparr>) w) w) w"


section \<open>Agents\<close>

record ManagedAgent =
  maAgent :: Agent
  maTransport :: string
  maConfig :: AgentConfig
  maHTTP :: "HTTPAgent option"

definition zero_Config :: AgentConfig where
  "zero_Config = \<lparr>acID = [], acDisabled = False, acLabels = [], acCreatedAt = 0, acUpdatedAt = 0\<rparr>"

definition offline_agent :: "string \<Rightarrow> string list \<Rightarrow> time \<Rightarrow> time \<Rightarrow> Agent" where
  "offline_agent aid labels updatedAt createdAt =
     \<lparr>aID = aid, aCountry = [], aRegion = [], aProvider = [], aISP = [], aVersion = [], aLabels = labels,
      aTokenHash = [], aCapabilities = [], aProtocols = 0, aStatus = AgentOffline, aLastSeenAt = updatedAt,
      aCreatedAt = createdAt\<rparr>"

text \<open>
  The agents of both transports. Times of the store are times here, so \<^verbatim>\<open>parseManagedTime\<close> is the
  identity. The transport is empty in every call.
\<close>

definition managedAgents :: "string \<Rightarrow> Memory \<Rightarrow> ManagedAgent list" where
  "managedAgents transport m =
     (let configs = ListAgentConfigs m;
          byID = fold (\<lambda>cfg. mput (acID cfg) cfg) configs [];
          httpNodes = ListHTTPAgents m;
          httpByID = fold (\<lambda>node. mput (haID node) node) httpNodes [];
          agents = api_agentsWithManagedLabels m;
          live = filter (\<lambda>agent. mget httpByID (aID agent) = None) agents;
          grpc = map (\<lambda>agent. \<lparr>maAgent = agent, maTransport = ''grpc'',
                              maConfig = (case mget byID (aID agent) of Some cfg \<Rightarrow> cfg | None \<Rightarrow> zero_Config),
                              maHTTP = None\<rparr>) live
            @ map (\<lambda>cfg. \<lparr>maAgent = offline_agent (acID cfg) (NormalizeAgentLabels (acID cfg) AgentTransportGRPC (acLabels cfg))
                                     (acUpdatedAt cfg) (acCreatedAt cfg),
                          maTransport = ''grpc'', maConfig = cfg, maHTTP = None\<rparr>)
                (filter (\<lambda>cfg. acID cfg \<notin> set (map aID live) \<and> mget httpByID (acID cfg) = None) configs);
          agentByID = fold (\<lambda>agent. mput (aID agent) agent) agents [];
          http = map (\<lambda>node.
             \<lparr>maAgent = (case mget agentByID (haID node) of
                           Some agent \<Rightarrow> agent
                         | None \<Rightarrow> offline_agent (haID node) (haLabels node) (haUpdatedAt node) (haCreatedAt node))
                        \<lparr>aLabels := NormalizeAgentLabels (haID node) AgentTransportHTTP (haLabels node)\<rparr>,
              maTransport = ''http'',
              maConfig = \<lparr>acID = haID node, acDisabled = \<not> haEnabled node, acLabels = haLabels node,
                          acCreatedAt = haCreatedAt node, acUpdatedAt = haUpdatedAt node\<rparr>,
              maHTTP = Some node\<rparr>) httpNodes
      in (if transport = [] \<or> transport = ''grpc'' then grpc else [])
         @ (if transport = [] \<or> transport = ''http'' then http else []))"

definition redactManagedAgentSecretsForReadOnly :: "principal option \<Rightarrow> ManagedAgent \<Rightarrow> ManagedAgent" where
  "redactManagedAgentSecretsForReadOnly ctx agent =
     (if effectiveManageAccess (pnScope (principalFromContext ctx)) = ScheduleAccessWrite then agent
      else agent\<lparr>maHTTP := map_option (\<lambda>node. node\<lparr>haHTTPToken := []\<rparr>) (maHTTP agent)\<rparr>)"

definition redactManagedAgentsSecretsForReadOnly :: "principal option \<Rightarrow> ManagedAgent list \<Rightarrow> ManagedAgent list" where
  "redactManagedAgentsSecretsForReadOnly ctx agents =
     (if effectiveManageAccess (pnScope (principalFromContext ctx)) = ScheduleAccessWrite then agents
      else map (redactManagedAgentSecretsForReadOnly ctx) agents)"

definition listManagedAgents :: "principal option \<Rightarrow> 'p Request \<Rightarrow> 'b World \<Rightarrow> (ManagedAgent list) response \<times> 'b World" where
  "listManagedAgents ctx r w =
     (if \<not> manageReadAllowed ctx then (writeError 403 (Errorf ''manage read access is required'' []), w)
      else (writeJSON 200 (redactManagedAgentsSecretsForReadOnly ctx (managedAgents [] (wStore w))), w))"

definition getManagedAgent :: "principal option \<Rightarrow> 'p Request \<Rightarrow> 'b World \<Rightarrow> ManagedAgent response \<times> 'b World" where
  "getManagedAgent ctx r w =
     (if \<not> manageReadAllowed ctx then (writeError 403 (Errorf ''manage read access is required'' []), w)
      else (case find (\<lambda>agent. aID (maAgent agent) = hrID r) (managedAgents [] (wStore w)) of
              Some agent \<Rightarrow> (writeJSON 200 (redactManagedAgentSecretsForReadOnly ctx agent), w)
            | None \<Rightarrow> (writeError 404 ErrNotFound, w)))"

text \<open>
  The raw body of a managed agent: \<open>None\<close> in the request when it is too long or cannot be read.
  It is decoded up to three times; each result is \<open>None\<close> when that decoding fails.
\<close>

record agent_body =
  abBlank :: bool
  abTransport :: "string option"
  abNode :: "HTTPAgent option"
  abConfig :: "AgentConfig option"

definition managedAgentTransport :: "agent_body \<Rightarrow> string option" where
  "managedAgentTransport raw =
     (if abBlank raw then Some [] else map_option (\<lambda>t. ToLower (TrimSpace t)) (abTransport raw))"

definition readManagedAgentBody :: "agent_body Request \<Rightarrow> (agent_body \<times> string) res" where
  "readManagedAgentBody r =
     (case hrBody r of
        None \<Rightarrow> Inl (Errorf ''invalid request body'' [])
      | Some raw \<Rightarrow> (case managedAgentTransport raw of
                      None \<Rightarrow> Inl (Errorf ''invalid json'' [])
                    | Some transport \<Rightarrow> Inr (raw, transport)))"

definition managedAgentTransportForID :: "string \<Rightarrow> Memory \<Rightarrow> string res" where
  "managedAgentTransportForID aid m =
     (case GetHTTPAgent aid m of
        Inr _ \<Rightarrow> Inr ''http''
      | Inl e \<Rightarrow>
          if e \<noteq> ErrNotFound then Inl e
          else if list_ex (\<lambda>cfg. acID cfg = aid) (ListAgentConfigs m) then Inr ''grpc''
          else if list_ex (\<lambda>agent. aID agent = aid) (ListAgents m) then Inr ''grpc''
          else Inl ErrNotFound)"

text \<open>\<open>None\<close> when the id can be used, else the status and the error.\<close>

definition ensureHTTPAgentIDAvailable :: "string \<Rightarrow> bool \<Rightarrow> Memory \<Rightarrow> (int \<times> error) option" where
  "ensureHTTPAgentIDAvailable aid allowExistingHTTP m =
     (if list_ex (\<lambda>node. haID node = aid) (ListHTTPAgents m) then
        (if \<not> allowExistingHTTP then Some (400, Errorf ''agent id %q is already used by an http agent'' [aid]) else None)
      else if list_ex (\<lambda>cfg. acID cfg = aid) (ListAgentConfigs m)
      then Some (400, Errorf ''agent id %q is already used by a grpc agent'' [aid])
      else if list_ex (\<lambda>agent. aID agent = aid) (ListAgents m)
      then Some (400, Errorf ''agent id %q is already used by a grpc agent'' [aid])
      else None)"

text \<open>The answers of the handlers of agents: a node, a configuration, or nothing.\<close>

datatype agent_reply = NodeReply HTTPAgent | ConfigReply AgentConfig

definition writeHTTPAgent ::
  "henv \<Rightarrow> time \<Rightarrow> principal option \<Rightarrow> string \<Rightarrow> agent_body \<Rightarrow> 'b World \<Rightarrow> agent_reply response \<times> 'b World" where
  "writeHTTPAgent env now ctx aid raw w =
     (let action = (if aid \<noteq> [] then ''manage.http_agent.update'' else ''manage.http_agent.create'') in
      if \<not> manageWriteAllowed ctx then
        (writeError 403 (Errorf ''manage write access is required'' []),
         auditManage env now ctx action aid ''deny'' ''manage write access is required'' w)
      else
        case abNode raw of
          None \<Rightarrow> (writeError 400 (Errorf ''invalid json'' []), w)
        | Some node0 \<Rightarrow>
            let node = (if aid \<noteq> [] then node0\<lparr>haID := aid\<rparr> else node0) in
            case ensureHTTPAgentIDAvailable (haID node) (aid \<noteq> []) (wStore w) of
              Some (status, e) \<Rightarrow> (writeError status e, w)
            | None \<Rightarrow>
                (case UpsertHTTPAgent now node (wStore w) of
                   Inl e \<Rightarrow> (writeError 400 e, w)
                 | Inr m \<Rightarrow>
                     let w1 = on_sys (ReloadHTTPAgents env) (with_store m w) in
                     case GetHTTPAgent (haID node) (wStore w1) of
                       Inl e \<Rightarrow> (writeError 500 e, w1)
                     | Inr saved \<Rightarrow> (writeJSON 200 (NodeReply saved), auditManage env now ctx action (haID saved) ''allow'' [] w1)))"

definition updateGRPCAgentConfig ::
  "henv \<Rightarrow> time \<Rightarrow> principal option \<Rightarrow> agent_body Request \<Rightarrow> agent_body \<Rightarrow> 'b World \<Rightarrow> agent_reply response \<times> 'b World" where
  "updateGRPCAgentConfig env now ctx r raw w =
     (if \<not> manageWriteAllowed ctx then
        (writeError 403 (Errorf ''manage write access is required'' []),
         auditManage env now ctx ''manage.grpc_agent.update'' (hrID r) ''deny'' ''manage write access is required'' w)
      else
        case abConfig raw of
          None \<Rightarrow> (writeError 400 (Errorf ''invalid json'' []), w)
        | Some cfg0 \<Rightarrow>
            let cfg = cfg0\<lparr>acID := hrID r\<rparr> in
            case GetHTTPAgent (acID cfg) (wStore w) of
              Inr _ \<Rightarrow> (writeError 400 (Errorf ''agent id %q is already used by an http agent'' [acID cfg]), w)
            | Inl e \<Rightarrow>
                if e \<noteq> ErrNotFound then (writeError 500 e, w)
                else (case UpsertAgentConfig now cfg (wStore w) of
                        Inl e \<Rightarrow> (writeError 400 e, w)
                      | Inr m \<Rightarrow>
                          (writeJSON 200 (ConfigReply (GetAgentConfig (acID cfg) m)),
                           auditManage env now ctx ''manage.grpc_agent.update'' (acID cfg) ''allow'' [] (with_store m w))))"

definition createManagedAgent ::
  "henv \<Rightarrow> time \<Rightarrow> principal option \<Rightarrow> agent_body Request \<Rightarrow> 'b World \<Rightarrow> agent_reply response \<times> 'b World" where
  "createManagedAgent env now ctx r w =
     requireManageWrite env now ctx ''manage.http_agent.create'' [] (\<lambda>w.
       case readManagedAgentBody r of
         Inl e \<Rightarrow> (writeError 400 e, w)
       | Inr (raw, transport) \<Rightarrow>
           if transport \<noteq> ''http'' then (writeError 400 (Errorf ''transport must be http'' []), w)
           else writeHTTPAgent env now ctx [] raw w) w"

definition updateManagedAgent ::
  "henv \<Rightarrow> time \<Rightarrow> principal option \<Rightarrow> agent_body Request \<Rightarrow> 'b World \<Rightarrow> agent_reply response \<times> 'b World" where
  "updateManagedAgent env now ctx r w =
     (if \<not> manageWriteAllowed ctx then
        (writeError 403 (Errorf ''manage write access is required'' []),
         auditManage env now ctx
           (case managedAgentTransportForID (hrID r) (wStore w) of
              Inr transport \<Rightarrow> if transport = ''http'' then ''manage.http_agent.update'' else ''manage.grpc_agent.update''
            | Inl _ \<Rightarrow> ''manage.agent.update'')
           (hrID r) ''deny'' ''manage write access is required'' w)
      else
        case readManagedAgentBody r of
          Inl e \<Rightarrow> (writeError 400 e, w)
        | Inr (raw, transport0) \<Rightarrow>
            (case (if transport0 = [] then managedAgentTransportForID (hrID r) (wStore w) else Inr transport0) of
               Inl e \<Rightarrow> (writeError (not_found_status e) e, w)
             | Inr transport \<Rightarrow>
                 if transport = ''http'' then writeHTTPAgent env now ctx (hrID r) raw w
                 else if transport = ''grpc'' then updateGRPCAgentConfig env now ctx r raw w
                 else (writeError 400 (Errorf ''transport must be grpc or http'' []), w)))"

definition deleteManagedAgent ::
  "henv \<Rightarrow> time \<Rightarrow> principal option \<Rightarrow> 'p Request \<Rightarrow> 'b World \<Rightarrow> unit response \<times> 'b World" where
  "deleteManagedAgent env now ctx r w =
     (case managedAgentTransportForID (hrID r) (wStore w) of
        Inl e \<Rightarrow> (writeError (not_found_status e) e, w)
      | Inr transport \<Rightarrow>
          let action = (if transport = ''http'' then ''manage.http_agent.delete'' else ''manage.grpc_agent.delete'') in
          requireManageWrite env now ctx action (hrID r) (\<lambda>w.
            if transport = ''http'' then
              (case DeleteHTTPAgent (hrID r) (wStore w) of
                 Inl e \<Rightarrow> (writeError (not_found_status e) e, w)
               | Inr m \<Rightarrow> (WriteHeader 204, auditManage env now ctx action (hrID r) ''allow'' []
                                               (on_sys (ReloadHTTPAgents env) (with_store m w))))
            else
              (case DeleteAgent (hrID r) (wStore w) of
                 Inr m \<Rightarrow> (WriteHeader 204, auditManage env now ctx action (hrID r) ''allow'' [] (with_store m w))
               | Inl e \<Rightarrow>
                   if e = ErrNotFound then
                     (case DeleteAgentConfig (hrID r) (wStore w) of
                        Inr m \<Rightarrow> (WriteHeader 204, auditManage env now ctx action (hrID r) ''allow'' [] (with_store m w))
                      | Inl cfgErr \<Rightarrow> if cfgErr = ErrNotFound then (writeError 404 e, w) else (writeError 500 cfgErr, w))
                   else (writeError 500 e, w))) w)"


section \<open>Labels of agents\<close>

text \<open>
  The loop of \<^verbatim>\<open>prepareManagedAgentLabelUpdates\<close>, over the maps it has built from the listings:
  the configurations and the nodes to write, or the status and the error.
\<close>

fun label_updates ::
  "(string, HTTPAgent) gomap \<Rightarrow> (string, AgentConfig) gomap \<Rightarrow> string list \<Rightarrow> nat \<Rightarrow> string list
     \<Rightarrow> managedAgentLabelPatch list \<Rightarrow> (int \<times> error) + AgentConfig list \<times> HTTPAgent list" where
  "label_updates httpByID configByID liveAgentIDs index seen [] = Inr ([], [])"
| "label_updates httpByID configByID liveAgentIDs index seen (item # items) =
     (let aid = TrimSpace (lpID item) in
      if aid = [] then Inl (400, Errorf ''agents[%d].id is required'' [Itoa (int index)])
      else if aid \<in> set seen then Inl (400, Errorf ''agents[%d].id is duplicated'' [Itoa (int index)])
      else
        case mget httpByID aid of
          Some node \<Rightarrow>
            if mget configByID aid \<noteq> None then Inl (400, Errorf ''agent id %q is ambiguous'' [aid])
            else (case label_updates httpByID configByID liveAgentIDs (Suc index) (aid # seen) items of
                    Inl e \<Rightarrow> Inl e
                  | Inr (cfgs, nodes) \<Rightarrow> Inr (cfgs, node\<lparr>haLabels := lpLabels item\<rparr> # nodes))
        | None \<Rightarrow>
            (case (case mget configByID aid of
                     Some cfg \<Rightarrow> Some cfg
                   | None \<Rightarrow> if aid \<in> set liveAgentIDs then Some (zero_Config\<lparr>acID := aid\<rparr>) else None) of
               None \<Rightarrow> Inl (404, Errorf ''agent %q not found'' [aid])
             | Some cfg \<Rightarrow>
                 (case label_updates httpByID configByID liveAgentIDs (Suc index) (aid # seen) items of
                    Inl e \<Rightarrow> Inl e
                  | Inr (cfgs, nodes) \<Rightarrow> Inr (cfg\<lparr>acLabels := lpLabels item\<rparr> # cfgs, nodes))))"

definition prepareManagedAgentLabelUpdates ::
  "managedAgentLabelPatch list \<Rightarrow> Memory \<Rightarrow> (int \<times> error) + AgentConfig list \<times> HTTPAgent list" where
  "prepareManagedAgentLabelUpdates patches m =
     label_updates (fold (\<lambda>node. mput (haID node) node) (ListHTTPAgents m) [])
       (fold (\<lambda>cfg. mput (acID cfg) cfg) (ListAgentConfigs m) []) (map aID (ListAgents m)) 0 [] patches"

definition writeManagedSettingsError :: "error \<Rightarrow> 'a response" where
  "writeManagedSettingsError e = writeError (if e = ErrConflict then 409 else 500) e"

definition reload_if :: "henv \<Rightarrow> HTTPAgent list \<Rightarrow> 'b World \<Rightarrow> 'b World" where
  "reload_if env httpUpdates w = (if httpUpdates \<noteq> [] then on_sys (ReloadHTTPAgents env) w else w)"

text \<open>The handlers after they have read the settings.\<close>

definition save_agent_labels ::
  "henv \<Rightarrow> time \<Rightarrow> principal option \<Rightarrow> AgentConfig list \<Rightarrow> HTTPAgent list \<Rightarrow> ManagedSettings \<Rightarrow> 'b World
     \<Rightarrow> (ManagedAgent list) response \<times> 'b World" where
  "save_agent_labels env now ctx grpcUpdates httpUpdates settings w =
     (case UpdateManagedSettingsAndAgentLabels (heUUID env) (sysUUID (wSys w)) now settings grpcUpdates httpUpdates (wStore w) of
        ((_, Some e), m, n) \<Rightarrow> (writeManagedSettingsError e, on_sys (\<lambda>s. s\<lparr>sysUUID := n, sysStore := m\<rparr>) w)
      | ((_, None), m, n) \<Rightarrow>
          let w1 = reload_if env httpUpdates (on_sys (\<lambda>s. s\<lparr>sysUUID := n, sysStore := m\<rparr>) w)
          in (writeJSON 200 (managedAgents [] (wStore w1)),
              auditManage env now ctx ''manage.agent_labels.update'' ''agents'' ''allow'' [] w1))"

definition updateManagedAgentLabels ::
  "henv \<Rightarrow> time \<Rightarrow> principal option \<Rightarrow> (managedAgentLabelPatch list) Request \<Rightarrow> 'b World
     \<Rightarrow> (ManagedAgent list) response \<times> 'b World" where
  "updateManagedAgentLabels env now ctx r w =
     requireManageWrite env now ctx ''manage.agent_labels.update'' ''agents'' (\<lambda>w.
       case hrBody r of
         None \<Rightarrow> (writeError 400 (Errorf ''invalid json'' []), w)
       | Some patches \<Rightarrow>
           (case prepareManagedAgentLabelUpdates patches (wStore w) of
              Inl (status, e) \<Rightarrow> (writeError status e, w)
            | Inr (grpcUpdates, httpUpdates) \<Rightarrow>
                read_settings env (save_agent_labels env now ctx grpcUpdates httpUpdates) w)) w"

record managedLabelsAndAgentsResponse =
  lrRevision :: int
  lrUpdatedAt :: time
  lrLabelConfigs :: "(string, LabelConfig) gomap option"
  lrAgents :: "ManagedAgent list"

definition save_label_state ::
  "henv \<Rightarrow> time \<Rightarrow> principal option \<Rightarrow> managedLabelsAndAgentsPayload \<Rightarrow> ManagedSettings \<Rightarrow> 'b World
     \<Rightarrow> managedLabelsAndAgentsResponse response \<times> 'b World" where
  "save_label_state env now ctx payload current w0 =
     (let next0 = current\<lparr>msRevision := (if 0 < laRevision payload then laRevision payload else msRevision current),
                          msLabelConfigs := laLabelConfigs payload\<rparr>;
          (settings, n, err) = NormalizeManagedSettings (heUUID env) (sysUUID (wSys w0)) next0;
          w = on_sys (\<lambda>s. s\<lparr>sysUUID := n\<rparr>) w0
      in case err of
           Some e \<Rightarrow> (writeError 400 e, w)
         | None \<Rightarrow>
             (case buildManagedRuntime settings of
                Inl e \<Rightarrow> (writeError 400 e, w)
              | Inr rt \<Rightarrow>
                  (case prepareManagedAgentLabelUpdates (laAgents payload) (wStore w) of
                     Inl (status, e) \<Rightarrow> (writeError status e, w)
                   | Inr (grpcUpdates, httpUpdates) \<Rightarrow>
                       (case UpdateManagedSettingsAndAgentLabels (heUUID env) n now settings grpcUpdates httpUpdates (wStore w) of
                          ((_, Some e), m, n') \<Rightarrow> (writeManagedSettingsError e, on_sys (\<lambda>s. s\<lparr>sysUUID := n', sysStore := m\<rparr>) w)
                        | ((saved, None), m, n') \<Rightarrow>
                            let w1 = reload_if env httpUpdates
                                       (applyManagedRuntime env saved rt (on_sys (\<lambda>s. s\<lparr>sysUUID := n', sysStore := m\<rparr>) w))
                            in (writeJSON 200 \<lparr>lrRevision = msRevision saved, lrUpdatedAt = msUpdatedAt saved,
                                               lrLabelConfigs = msLabelConfigs saved,
                                               lrAgents = managedAgents [] (wStore w1)\<rparr>,
                                auditManage env now ctx ''manage.labels.state.update'' ''labels'' ''allow'' [] w1)))))"

definition updateManagedLabelState ::
  "henv \<Rightarrow> time \<Rightarrow> principal option \<Rightarrow> managedLabelsAndAgentsPayload Request \<Rightarrow> 'b World
     \<Rightarrow> managedLabelsAndAgentsResponse response \<times> 'b World" where
  "updateManagedLabelState env now ctx r w =
     requireManageWrite env now ctx ''manage.labels.state.update'' ''labels'' (\<lambda>w.
       case hrBody r of
         None \<Rightarrow> (writeError 400 (Errorf ''invalid json'' []), w)
       | Some payload \<Rightarrow> read_settings env (save_label_state env now ctx payload) w) w"

end
