(* ===== verification/ApiStream.thy ===== *)
theory ApiStream
  imports ApiJobs HubSystem "HOL-Library.Sublist"
begin

text \<open>
  Streaming the events of a job (\<^verbatim>\<open>internal/api/stream.go\<close>) and the location service
  (\<^verbatim>\<open>internal/api/geoip.go\<close>). A stream subscribes first and then reads the events stored so far, so an
  event can reach it twice, by the listing and by the channel; it remembers what it has written.
  Headers, flushing and the keep-alive comments are left out. A write that fails, or a client that
  goes away, ends the stream.
\<close>


section \<open>Events of a job\<close>

record sse_stream =
  ssJob :: string
  ssCh :: nat
  ssLive :: bool
  ssSeen :: "string list"
  ssOut :: "JobEvent list"

text \<open>
  The start of a stream in two steps, since events may be stored between them: the subscription, and
  the listing of the events so far, from which on the stream is live.
\<close>

definition stream_open :: "'p Request \<Rightarrow> Sys \<Rightarrow> ((int \<times> error) + sse_stream) \<times> Sys" where
  "stream_open r s =
     (let jobID = hrID r in
      case GetJob jobID (sysStore s) of
        Inl e \<Rightarrow> (Inl (not_found_status e, e), s)
      | Inr _ \<Rightarrow>
          (let (ch, s1) = SubscribeJob jobID s
           in (Inr \<lparr>ssJob = jobID, ssCh = ch, ssLive = False, ssSeen = [], ssOut = []\<rparr>, s1)))"

definition stream_history :: "sse_stream \<Rightarrow> Sys \<Rightarrow> sse_stream" where
  "stream_history st s =
     (let history = ListJobEvents (ssJob st) (sysStore s)
      in st\<lparr>ssLive := True, ssSeen := map eID history, ssOut := history\<rparr>)"

definition streamJobEvents :: "'p Request \<Rightarrow> Sys \<Rightarrow> ((int \<times> error) + sse_stream) \<times> Sys" where
  "streamJobEvents r s =
     (case stream_open r s of
        (Inl e, s1) \<Rightarrow> (Inl e, s1)
      | (Inr st, s1) \<Rightarrow> (Inr (stream_history st s1), s1))"

text \<open>What waits in the channel of the stream.\<close>

definition pending :: "sse_stream \<Rightarrow> Sys \<Rightarrow> JobEvent list" where
  "pending st s =
     (case mget (hbSubs (sysHub s)) (ssJob st) of
        None \<Rightarrow> []
      | Some subs \<Rightarrow> (case mget subs (ssCh st) of None \<Rightarrow> [] | Some q \<Rightarrow> q))"

definition set_pending :: "sse_stream \<Rightarrow> JobEvent list \<Rightarrow> Sys \<Rightarrow> Sys" where
  "set_pending st q s =
     s\<lparr>sysHub := (sysHub s)\<lparr>hbSubs := mput (ssJob st)
         (mput (ssCh st) q (case mget (hbSubs (sysHub s)) (ssJob st) of None \<Rightarrow> [] | Some subs \<Rightarrow> subs)) (hbSubs (sysHub s))\<rparr>\<rparr>"

text \<open>One event is taken from the channel; it is written unless it was written before.\<close>

definition stream_recv :: "sse_stream \<times> Sys \<Rightarrow> sse_stream \<times> Sys" where
  "stream_recv c =
     (let (st, s) = c in
      case pending st s of
        [] \<Rightarrow> (st, s)
      | event # q \<Rightarrow>
          (if eID event \<in> set (ssSeen st) then st
           else st\<lparr>ssSeen := eID event # ssSeen st, ssOut := ssOut st @ [event]\<rparr>,
           set_pending st q s))"


section \<open>The location service\<close>

record geoIPUpstreamResponse =
  guASNNumber :: int
  guASNOrganization :: string
  guCountryName :: string
  guRegion :: string
  guCity :: string
  guISP :: string
  guReverse :: string

record geoIPResponse =
  giReverse :: string
  giCountry :: string
  giRegion :: string
  giCity :: string
  giISP :: string
  giASN :: int
  giOrg :: string

text \<open>
  What asking for an address gives: a URL that cannot be built, an upstream that cannot be
  reached, or a status with the decoded answer.
\<close>

datatype geo_upstream = BadURL error | Unreachable error | Answer int "geoIPUpstreamResponse option"

text \<open>\<^verbatim>\<open>url.PathUnescape\<close>.\<close>

definition hex_val :: "char \<Rightarrow> nat option" where
  "hex_val c =
     (let n = (of_char c :: nat) in
      if 48 \<le> n \<and> n \<le> 57 then Some (n - 48)
      else if 97 \<le> n \<and> n \<le> 102 then Some (n - 87)
      else if 65 \<le> n \<and> n \<le> 70 then Some (n - 55)
      else None)"

fun PathUnescape :: "string \<Rightarrow> string option" where
  "PathUnescape [] = Some []"
| "PathUnescape (c # s) =
     (if c = CHR ''%'' then
        (case s of
           a # b # rest \<Rightarrow>
             (case (hex_val a, hex_val b) of
                (Some h, Some l) \<Rightarrow> map_option (\<lambda>t. char_of (16 * h + l) # t) (PathUnescape rest)
              | _ \<Rightarrow> None)
         | _ \<Rightarrow> None)
      else map_option (\<lambda>t. c # t) (PathUnescape s))"

definition geoIPParamIP :: "string \<Rightarrow> string option" where
  "geoIPParamIP raw =
     (case PathUnescape (TrimSpace raw) of
        None \<Rightarrow> None
      | Some decoded \<Rightarrow> map_option IP_String (ParseIP (TrimSpace decoded)))"

definition getGeoIP ::
  "'b bucket_ops \<Rightarrow> time \<Rightarrow> (string \<Rightarrow> string \<Rightarrow> geo_upstream) \<Rightarrow> 'p Request \<Rightarrow> 'b World \<Rightarrow> geoIPResponse response \<times> 'b World" where
  "getGeoIP ops now ask r w =
     (let (allowed, limiter) = AllowGeoIP ops now (svLimiter (wServer w));
          w1 = w\<lparr>wServer := (wServer w)\<lparr>svLimiter := limiter\<rparr>\<rparr>
      in if \<not> allowed then (writeError 429 (Errorf ''rate limit exceeded'' []), w1)
         else case geoIPParamIP (hrID r) of
                None \<Rightarrow> (writeError 400 (Errorf ''invalid ip'' []), w1)
              | Some rawIP \<Rightarrow>
                  (case ask (svGeoIPURL (wServer w)) rawIP of
                     BadURL e \<Rightarrow> (writeError 500 e, w1)
                   | Unreachable e \<Rightarrow> (writeError 502 e, w1)
                   | Answer status body \<Rightarrow>
                       if status < 200 \<or> 300 \<le> status
                       then (writeError 502 (Errorf ''geoip upstream returned HTTP %d'' [Itoa status]), w1)
                       else (case body of
                               None \<Rightarrow> (writeError 502 (Errorf ''invalid geoip response'' []), w1)
                             | Some u \<Rightarrow>
                                 (writeJSON 200 \<lparr>giReverse = guReverse u, giCountry = guCountryName u, giRegion = guRegion u,
                                                 giCity = guCity u, giISP = guISP u, giASN = guASNNumber u,
                                                 giOrg = guASNOrganization u\<rparr>, w1))))"

end
