(* ===== verification/ApiRouter.thy ===== *)
theory ApiRouter
  imports ApiSchedules ApiManage ApiStream
begin

text \<open>
  The routes of the API server (\<^verbatim>\<open>NewWithOptions\<close> in \<^verbatim>\<open>internal/api/server.go\<close>): a \<open>route\<close> is a
  method with its path and the body that strict decoding gives, where the route has one. Every
  route but the health check, the version and the location service is behind the middleware.
  \<open>serve\<close> gives the status of the answer and the new world.
\<close>

datatype route =
    GetHealth
  | GetVersion
  | GetGeoIP
  | GetPermissions
  | PostJob "CreateJobRequest option"
  | GetJobByID
  | GetJobEvents
  | GetJobStream
  | PostSchedule "CreateScheduledJobRequest option"
  | GetSchedules
  | GetScheduleByID
  | PutSchedule "CreateScheduledJobRequest option"
  | DelSchedule
  | GetScheduleHistory
  | GetScheduleSummary
  | GetAgents
  | GetRateLimit
  | PutRateLimit "managedRateLimitPayload option"
  | GetLabels
  | PutLabels "managedLabelsPayload option"
  | PutLabelState "managedLabelsAndAgentsPayload option"
  | GetTokens
  | PostToken "managedAPITokenPayload option"
  | PatchToken "managedAPITokenPatchPayload option"
  | RotateToken
  | DelToken
  | GetRegisterTokens
  | PostRegisterToken "string option"
  | PatchRegisterToken "string option"
  | RotateRegisterToken
  | DelRegisterToken
  | GetManagedAgents
  | PostManagedAgent "agent_body option"
  | PutAgentLabels "(managedAgentLabelPatch list) option"
  | GetManagedAgentByID
  | PutManagedAgent "agent_body option"
  | DelManagedAgent

definition with_body :: "'p option \<Rightarrow> 'q Request \<Rightarrow> 'p Request" where
  "with_body body r =
     \<lparr>hrRemoteAddr = hrRemoteAddr r, hrHeader = hrHeader r, hrQuery = hrQuery r, hrID = hrID r, hrBody = body\<rparr>"

definition response_status :: "'a response \<Rightarrow> int" where
  "response_status resp = (case resp of writeError c _ \<Rightarrow> c | writeJSON c _ \<Rightarrow> c | WriteHeader c \<Rightarrow> c)"

definition answer :: "'a response \<times> 'b World \<Rightarrow> int \<times> 'b World" where
  "answer a = (response_status (fst a), snd a)"

text \<open>The build information is the one of the running program.\<close>

definition getHealth :: "Info \<Rightarrow> 'p Request \<Rightarrow> 'b World \<Rightarrow> (string \<times> Info) response \<times> 'b World" where
  "getHealth info r w = (writeJSON 200 (''ok'', Current info), w)"

definition getVersion :: "Info \<Rightarrow> 'p Request \<Rightarrow> 'b World \<Rightarrow> Info response \<times> 'b World" where
  "getVersion info r w = (writeJSON 200 (Current info), w)"

text \<open>The start of a stream, as a handler: it answers with the events written so far.\<close>

definition api_streamJobEvents :: "principal option \<Rightarrow> 'p Request \<Rightarrow> 'b World \<Rightarrow> (JobEvent list) response \<times> 'b World" where
  "api_streamJobEvents ctx r w =
     (case streamJobEvents r (wSys w) of
        (Inl (status, e), s) \<Rightarrow> (writeError status e, w\<lparr>wSys := s\<rparr>)
      | (Inr st, s) \<Rightarrow> (writeJSON 200 (ssOut st), w\<lparr>wSys := s\<rparr>))"

text \<open>What the server takes from outside: formats of times, its build, the location service.\<close>

record aenv =
  aeTime :: tenv
  aeInfo :: Info
  aeGeoIP :: "string \<Rightarrow> string \<Rightarrow> geo_upstream"

fun serve ::
  "henv \<Rightarrow> aenv \<Rightarrow> 'b bucket_ops \<Rightarrow> time \<Rightarrow> route \<Rightarrow> unit Request \<Rightarrow> 'b World \<Rightarrow> int \<times> 'b World" where
  "serve env ae ops now GetHealth r w = answer (getHealth (aeInfo ae) r w)"
| "serve env ae ops now GetVersion r w = answer (getVersion (aeInfo ae) r w)"
| "serve env ae ops now GetGeoIP r w =
     (if svGeoIPURL (wServer w) \<noteq> [] then answer (getGeoIP ops now (aeGeoIP ae) r w) else (404, w))"
| "serve env ae ops now GetPermissions r w = answer (auth ops now getPermissions r w)"
| "serve env ae ops now (PostJob b) r w = answer (auth ops now (createJob env ops now) (with_body b r) w)"
| "serve env ae ops now GetJobByID r w = answer (auth ops now (\<lambda>_. api_getJob) r w)"
| "serve env ae ops now GetJobEvents r w = answer (auth ops now (\<lambda>_. api_listJobEvents) r w)"
| "serve env ae ops now GetJobStream r w = answer (auth ops now api_streamJobEvents r w)"
| "serve env ae ops now (PostSchedule b) r w = answer (auth ops now (createSchedule env ops now) (with_body b r) w)"
| "serve env ae ops now GetSchedules r w = answer (auth ops now listSchedules r w)"
| "serve env ae ops now GetScheduleByID r w = answer (auth ops now getSchedule r w)"
| "serve env ae ops now (PutSchedule b) r w = answer (auth ops now (updateSchedule env ops now) (with_body b r) w)"
| "serve env ae ops now DelSchedule r w = answer (auth ops now deleteSchedule r w)"
| "serve env ae ops now GetScheduleHistory r w = answer (auth ops now (listScheduleHistory (aeTime ae) now) r w)"
| "serve env ae ops now GetScheduleSummary r w = answer (auth ops now (listScheduleHistorySummary (aeTime ae) now) r w)"
| "serve env ae ops now GetAgents r w = answer (auth ops now api_listAgents r w)"
| "serve env ae ops now GetRateLimit r w = answer (auth ops now (getManagedRateLimit env) r w)"
| "serve env ae ops now (PutRateLimit b) r w = answer (auth ops now (updateManagedRateLimit env now) (with_body b r) w)"
| "serve env ae ops now GetLabels r w = answer (auth ops now (getManagedLabels env) r w)"
| "serve env ae ops now (PutLabels b) r w = answer (auth ops now (updateManagedLabels env now) (with_body b r) w)"
| "serve env ae ops now (PutLabelState b) r w = answer (auth ops now (updateManagedLabelState env now) (with_body b r) w)"
| "serve env ae ops now GetTokens r w = answer (auth ops now (listManagedAPITokens env) r w)"
| "serve env ae ops now (PostToken b) r w = answer (auth ops now (createManagedAPIToken env now) (with_body b r) w)"
| "serve env ae ops now (PatchToken b) r w = answer (auth ops now (updateManagedAPIToken env now) (with_body b r) w)"
| "serve env ae ops now RotateToken r w = answer (auth ops now (rotateManagedAPIToken env now) r w)"
| "serve env ae ops now DelToken r w = answer (auth ops now (deleteManagedAPIToken env now) r w)"
| "serve env ae ops now GetRegisterTokens r w = answer (auth ops now (listManagedRegisterTokens env) r w)"
| "serve env ae ops now (PostRegisterToken b) r w = answer (auth ops now (createManagedRegisterToken env now) (with_body b r) w)"
| "serve env ae ops now (PatchRegisterToken b) r w = answer (auth ops now (updateManagedRegisterToken env now) (with_body b r) w)"
| "serve env ae ops now RotateRegisterToken r w = answer (auth ops now (rotateManagedRegisterToken env now) r w)"
| "serve env ae ops now DelRegisterToken r w = answer (auth ops now (deleteManagedRegisterToken env now) r w)"
| "serve env ae ops now GetManagedAgents r w = answer (auth ops now listManagedAgents r w)"
| "serve env ae ops now (PostManagedAgent b) r w = answer (auth ops now (createManagedAgent env now) (with_body b r) w)"
| "serve env ae ops now (PutAgentLabels b) r w = answer (auth ops now (updateManagedAgentLabels env now) (with_body b r) w)"
| "serve env ae ops now GetManagedAgentByID r w = answer (auth ops now getManagedAgent r w)"
| "serve env ae ops now (PutManagedAgent b) r w = answer (auth ops now (updateManagedAgent env now) (with_body b r) w)"
| "serve env ae ops now DelManagedAgent r w = answer (auth ops now (deleteManagedAgent env now) r w)"

end
