(* ===== verification/ApiFacts.thy ===== *)
theory ApiFacts
  imports ApiSchedules ApiManage StoreFacts HubSystem
begin

text \<open>
  Facts on the API server: its copies of the hub's functions compute the same, saving settings
  brings the server, the hub and the store into agreement, and the tokens that are accepted are
  the saved ones.
\<close>


section \<open>The server and the hub agree\<close>

lemma api_minRuntime_eq: "api_minRuntime = minRuntime"
  by (intro ext) (simp add: api_minRuntime_def minRuntime_def api_minPositive_def minPositive_def)

lemma api_intersect_eq: "api_intersectConfigPolicies = intersectConfigPolicies"
proof -
  have "(\<lambda>(name, rightPolicy) out.
       if \<not> cpEnabled rightPolicy then mput name rightPolicy out
       else (case mget out name of
               None \<Rightarrow> mput name rightPolicy out
             | Some leftPolicy \<Rightarrow>
                 if \<not> cpEnabled leftPolicy then mput name leftPolicy out
                 else mput name
                        (if cpAllowedArgs rightPolicy \<noteq> None
                         then leftPolicy\<lparr>cpAllowedArgs := IntersectAllowedArgs (cpAllowedArgs leftPolicy) (cpAllowedArgs rightPolicy)\<rparr>
                         else leftPolicy) out)) = intersect_cfg"
    by (auto simp: intersect_cfg_def fun_eq_iff)
  then show ?thesis by (simp add: fun_eq_iff api_intersectConfigPolicies_def intersectConfigPolicies_def)
qed

lemma labelConfigsForLabels_eq: "labelConfigsForLabels = labelConfigsFor"
  by (intro ext) (simp add: labelConfigsForLabels_def labelConfigsFor_def)

lemma api_toolPolicies_eq: "api_toolPoliciesForLabels = toolPoliciesForLabels"
proof -
  have "(\<lambda>cfg merged. case lcToolPolicies cfg of
            None \<Rightarrow> merged
          | Some [] \<Rightarrow> merged
          | Some ps \<Rightarrow> (case merged of None \<Rightarrow> Some ps | Some m \<Rightarrow> Some (api_intersectConfigPolicies m ps))) = merge_policies"
    by (auto simp: merge_policies_def tool_policies_def fun_eq_iff api_intersect_eq split: option.splits list.splits)
  then show ?thesis
    by (simp add: fun_eq_iff api_toolPoliciesForLabels_def toolPoliciesForLabels_def labelConfigsForLabels_eq)
qed

lemma api_policiesForLabels_eq:
  "api_policiesForLabels labels sv = policiesForLabels (svPolicies sv) (svLabelConfigs sv) labels"
proof -
  have "(\<lambda>cfg r. case lcRuntime cfg of None \<Rightarrow> r | Some n \<Rightarrow> api_minRuntime r n) = merge_runtime"
    by (auto simp: merge_runtime_def fun_eq_iff api_minRuntime_eq split: option.splits)
  then show ?thesis
    by (simp add: api_policiesForLabels_def policiesForLabels_def api_toolPolicies_eq labelConfigsForLabels_eq Let_def)
qed

text \<open>A map that is filled from a list: the last entry of a key.\<close>

lemma mget_fold_put: "mget (fold (\<lambda>x. mput (f x) (g x)) xs m) k = mget (map (\<lambda>x. (f x, g x)) (rev xs) @ m) k"
  by (induction xs arbitrary: m) (auto simp: map_add_def split: option.splits)

lemma api_agents_eq: "api_agentsWithManagedLabels m = agentsWithManagedLabels m"
  unfolding api_agentsWithManagedLabels_def agentsWithManagedLabels_def agent_labels_def
  by (simp add: mget_fold_put cong: option.case_cong)


lemma mget_rev_listing:
  assumes "keyed f m"
  shows "mget (map (\<lambda>x. (f x, g x)) (rev (sort_key h (map snd m)))) k = map_option g (mget m k)"
proof -
  let ?l = "map (\<lambda>x. (f x, g x)) (rev (sort_key h (map snd m)))"
  have key: "(k', v) \<in> set m \<Longrightarrow> f v = k'" for k' v using assms by (auto simp: keyed_def mget_iff)
  have eq: "map f (map snd m) = map fst m" using key by auto
  have "distinct (map f (map snd m))" unfolding eq using assms by (simp add: keyed_def mwf_def)
  then have inj: "inj_on f (set (map snd m))" and dist: "distinct (map snd m)"
    unfolding distinct_map [of f "map snd m"] by blast+
  have d: "distinct (map fst ?l)" using dist inj by (simp add: comp_def distinct_map inj_on_def)
  have "mget ?l k = Some y \<longleftrightarrow> map_option g (mget m k) = Some y" for y
  proof -
    have "mget ?l k = Some y \<longleftrightarrow> (k, y) \<in> set ?l" using d by (simp add: map_of_eq_Some_iff)
    also have "\<dots> \<longleftrightarrow> (\<exists>v. (k, v) \<in> set m \<and> y = g v)" using key by force
    also have "\<dots> \<longleftrightarrow> map_option g (mget m k) = Some y" using assms by (auto simp: keyed_def mget_iff)
    finally show ?thesis .
  qed
  then show ?thesis by (metis not_Some_eq)
qed

lemma agent_labels_store:
  assumes "store_ok m"
  shows "agent_labels m a =
    (case GetHTTPAgent (aID a) m of
       Inr node \<Rightarrow> NormalizeAgentLabels (aID a) AgentTransportHTTP (haLabels node)
     | Inl _ \<Rightarrow> NormalizeAgentLabels (aID a) AgentTransportGRPC (acLabels (GetAgentConfig (aID a) m)))"
proof -
  from assms have k: "keyed haID (mHTTPAgents m)" "keyed acID (mAgentCfgs m)" by (simp_all add: store_ok_def)
  show ?thesis
    unfolding agent_labels_def ListHTTPAgents_def ListAgentConfigs_def Let_def mget_rev_listing [OF k(1)] mget_rev_listing [OF k(2)]
    by (auto simp: GetHTTPAgent_def GetAgentConfig_def zero_AgentConfig_def split: option.splits)
qed

lemma agent_labels_id: "agent_labels m (a\<lparr>aLabels := ls\<rparr>) = agent_labels m a"
  by (simp add: agent_labels_def Let_def split: option.splits)

lemma listed_labels:
  assumes "find (\<lambda>a. aID a = aid) (agentsWithManagedLabels m) = Some a"
  shows "aID a = aid" "aLabels a = agent_labels m a"
proof -
  show "aID a = aid" using assms by (auto simp: find_Some_iff)
  from assms have "a \<in> set (agentsWithManagedLabels m)" by (auto simp: find_Some_iff)
  then show "aLabels a = agent_labels m a" by (auto simp: agentsWithManagedLabels_def agent_labels_id)
qed

lemma labelsForAgent_store:
  assumes "store_ok m"
  shows "labelsForAgent m aid =
    (case GetHTTPAgent aid m of
       Inr node \<Rightarrow> NormalizeAgentLabels aid AgentTransportHTTP (haLabels node)
     | Inl _ \<Rightarrow> NormalizeAgentLabels aid AgentTransportGRPC (acLabels (GetAgentConfig aid m)))"
proof (cases "find (\<lambda>a. aID a = aid) (agentsWithManagedLabels m)")
  case (Some a)
  then show ?thesis
    using listed_labels [OF Some] agent_labels_store [OF assms, of a] by (simp add: labelsForAgent_def split: sum.splits)
qed (simp add: labelsForAgent_def)

lemma server_labels_length: "length (NormalizeAgentLabels aid t []) = 3"
  by (simp add: NormalizeAgentLabels_fold)

lemma api_policiesForAgent_eq:
  assumes "store_ok (wStore w)"
  shows "api_policiesForAgent aid w =
    policiesForLabels (svPolicies (wServer w)) (svLabelConfigs (wServer w)) (labelsForAgent (wStore w) aid)"
proof (cases "find (\<lambda>agent. aID agent = aid) (agentsWithManagedLabels (wStore w))")
  case None
  then show ?thesis
    by (simp add: api_policiesForAgent_def api_agents_eq api_policiesForLabels_eq server_labels_length labelsForAgent_store [OF assms])
next
  case (Some a)
  then have "labelsForAgent (wStore w) aid = aLabels a" by (simp add: labelsForAgent_def)
  with Some show ?thesis
    by (auto simp: api_policiesForAgent_def api_agents_eq api_policiesForLabels_eq labelsForAgent_store [OF assms] Let_def)
qed

section \<open>Saving settings\<close>

lemma normalized_labels:
  assumes "NormalizeManagedSettings uuid n s = (s', n', None)"
  shows "agent_label_ok (msLabelConfigs s')"
proof -
  from NormalizeManagedSettings_None [OF assms] obtain s2 perms toks where h:
    "s2 = EnsureAgentLabelConfig (s\<lparr>msRateLimit := DefaultRateLimit (msRateLimit s),
       msLabelConfigs := NormalizeLabelConfigs (msLabelConfigs s)\<rparr>)"
    "s' = ClearManagedSettingsRotateFlags (s2\<lparr>msAPITokens := perms, msRegisterTokens := toks\<rparr>)" by metis
  have "agent_label_ok (msLabelConfigs s2)" unfolding h(1)
    by (rule EnsureAgentLabelConfig_ok) (use NormalizeLabelConfigs_normal in auto)
  with h(2) show ?thesis by (simp add: ClearManagedSettingsRotateFlags_def)
qed

lemma normalize_revision:
  "NormalizeManagedSettings uuid n s = (s', n', None) \<Longrightarrow>
   NormalizeManagedSettings uuid n (s\<lparr>msRevision := r, msUpdatedAt := t\<rparr>) = (s'\<lparr>msRevision := r, msUpdatedAt := t\<rparr>, n', None)"
  by (auto simp: NormalizeManagedSettings_def EnsureAgentLabelConfig_def ClearManagedSettingsRotateFlags_def Let_def
      split: prod.splits option.splits sum.splits)

lemma normalize_keeps_revision:
  "NormalizeManagedSettings uuid n s = (s', n', None) \<Longrightarrow> msRevision s' = msRevision s"
  by (auto simp: NormalizeManagedSettings_def EnsureAgentLabelConfig_def ClearManagedSettingsRotateFlags_def Let_def
      split: prod.splits option.splits sum.splits)

lemma buildManagedRuntime_ok:
  "buildManagedRuntime settings = Inr rt \<Longrightarrow>
   msAPITokens settings \<noteq> [] \<and> mrPolicies rt = DefaultPolicies \<and> mrLabelConfigs rt = NormalizeLabelConfigs (msLabelConfigs settings)
   \<and> mrTokens rt = token_scopes (TokenConfigsFromPermissions (msAPITokens settings))"
  by (auto simp: buildManagedRuntime_def bind_res_Inr Let_def split: if_splits)

lemma ApplySettings_normal:
  assumes "\<And>n. NormalizeManagedSettings (heUUID env) n settings = (settings, n, None)"
  shows "sysStore (ApplySettings env settings s) = sysStore s"
    "hbPolicies (sysHub (ApplySettings env settings s)) = hbPolicies (sysHub s)"
    "hbLabelConfigs (sysHub (ApplySettings env settings s)) = msLabelConfigs settings"
    "hbRegisterTokens (sysHub (ApplySettings env settings s)) = normalizedRegisterTokens (msRegisterTokens settings)"
    "sysUUID (ApplySettings env settings s) = sysUUID s"
  using normalized_labels [OF assms, THEN agent_label_ok_normal]
  by (simp_all add: ApplySettings_def assms Let_def)

lemma save_ok:
  fixes w w' :: "'b World"
  assumes u: "uuid_ok (heUUID env)" and save: "saveManagedSettings env now settings w = (Inr saved, w')"
  obtains st1 n and rt :: "'b managedRuntime" where
    "NormalizeManagedSettings (heUUID env) (sysUUID (wSys w)) settings = (st1, n, None)"
    "buildManagedRuntime st1 = Inr rt"
    "msRevision settings = msRevision (mSettings (wStore w))"
    "saved = st1\<lparr>msRevision := msRevision (mSettings (wStore w)) + 1, msUpdatedAt := now\<rparr>"
    "wServer w' = (wServer w)\<lparr>svPolicies := DefaultPolicies, svLabelConfigs := msLabelConfigs saved, svLimiter := mrLimiter rt,
       svTokens := token_scopes (TokenConfigsFromPermissions (msAPITokens saved)), svRequireAuth := True\<rparr>"
    "wSys w' = ApplySettings env saved ((wSys w)\<lparr>sysUUID := n, sysStore := (wStore w)\<lparr>mSettings := saved\<rparr>\<rparr>)"
    "\<And>n. NormalizeManagedSettings (heUUID env) n saved = (saved, n, None)"
    "msAPITokens saved \<noteq> []"
proof -
  from save obtain st1 n and rt :: "'b managedRuntime" where h:
    "NormalizeManagedSettings (heUUID env) (sysUUID (wSys w)) settings = (st1, n, None)"
    "buildManagedRuntime st1 = Inr rt"
    by (auto simp: saveManagedSettings_def split: prod.splits option.splits sum.splits)
  have st: "NormalizeManagedSettings (heUUID env) k st1 = (st1, k, None)" for k
    by (rule normalize_settings_stable [OF u h(1)])
  from save h have rev: "msRevision st1 = msRevision (mSettings (wStore w))"
    and sv: "saved = st1\<lparr>msRevision := msRevision (mSettings (wStore w)) + 1, msUpdatedAt := now\<rparr>"
    and w': "w' = applyManagedRuntime env saved rt (w\<lparr>wSys := (wSys w)\<lparr>sysUUID := n, sysStore := (wStore w)\<lparr>mSettings := saved\<rparr>\<rparr>\<rparr>)"
    by (auto simp: saveManagedSettings_def UpdateManagedSettings_def st commit_settings_def Let_def split: if_splits)
  note b = buildManagedRuntime_ok [OF h(2)]
  have lbl: "NormalizeLabelConfigs (msLabelConfigs st1) = msLabelConfigs st1"
    by (rule agent_label_ok_normal [OF normalized_labels [OF h(1)]])
  show thesis
  proof (rule that [OF h])
    show "msRevision settings = msRevision (mSettings (wStore w))" using rev normalize_keeps_revision [OF h(1)] by simp
    show "\<And>n. NormalizeManagedSettings (heUUID env) n saved = (saved, n, None)"
      unfolding sv by (rule normalize_revision [OF st])
    show "wServer w' = (wServer w)\<lparr>svPolicies := DefaultPolicies, svLabelConfigs := msLabelConfigs saved, svLimiter := mrLimiter rt,
       svTokens := token_scopes (TokenConfigsFromPermissions (msAPITokens saved)), svRequireAuth := True\<rparr>"
      unfolding w' using b by (simp add: applyManagedRuntime_def lbl sv)
  qed (use sv w' b in \<open>simp_all add: applyManagedRuntime_def\<close>)
qed

section \<open>Which tokens are accepted\<close>

lemma find_key: "distinct (map f xs) \<Longrightarrow> find (\<lambda>x. f x = k) xs = Some x \<longleftrightarrow> x \<in> set xs \<and> f x = k"
  by (induction xs) force+

definition presented_token :: "'p Request \<Rightarrow> string option" where
  "presented_token r =
     (case bearerToken (header_get (hrHeader r) ''Authorization'') of
        None \<Rightarrow> None
      | Some t \<Rightarrow> Some (if t = [] then hrQuery r ''access_token'' else t))"

lemma token_scopes_other: "tok \<notin> set (map tcToken cs) \<Longrightarrow> 
   mget (fold (\<lambda>config tokens. if tcToken config \<noteq> [] then mput (tcToken config) (normalizeTokenScope (tcScope config)) tokens
                           else tokens) cs m) tok = mget m tok"
  by (induction cs arbitrary: m) auto

lemma token_scopes_find:
  assumes "distinct (map atSecret ts)" "list_all (\<lambda>t. atSecret t \<noteq> []) ts"
  shows "mget (token_scopes (TokenConfigsFromPermissions ts)) tok =
    map_option (\<lambda>t. normalizeTokenScope (tcScope (token_config t))) (find (\<lambda>t. atSecret t = tok) ts)"
proof -
  let ?put = "\<lambda>config tokens. if tcToken config \<noteq> [] then mput (tcToken config) (normalizeTokenScope (tcScope config)) tokens
                           else tokens"
  have [simp]: "tcToken (token_config t) = atSecret t" for t by (simp add: token_config_def)
  have "mget (fold ?put (map token_config ts) m) tok =
    (case find (\<lambda>t. atSecret t = tok) ts of Some t \<Rightarrow> Some (normalizeTokenScope (tcScope (token_config t))) | None \<Rightarrow> mget m tok)" for m
    using assms
  proof (induction ts arbitrary: m)
    case (Cons t ts)
    show ?case
    proof (cases "atSecret t = tok")
      case True
      with Cons.prems have "tok \<notin> set (map tcToken (map token_config ts))" by auto
      with True Cons.prems show ?thesis using token_scopes_other [of tok "map token_config ts"] by simp
    qed (use Cons in \<open>simp split: option.splits\<close>)
  qed simp
  then show ?thesis
    by (simp add: token_scopes_def TokenConfigsFromPermissions_def split: option.splits)
qed

lemma norm_register_tokens_length: "norm_register_tokens uuid n i ids toks ts = (Inr ts', n') \<Longrightarrow> length ts' = length ts"
  by (induction uuid n i ids toks ts arbitrary: ts' n' rule: norm_register_tokens.induct)
    (auto simp: Let_def split: if_splits prod.splits sum.splits)

lemma normalized_tokens:
  assumes "uuid_ok uuid" "NormalizeManagedSettings uuid n s = (s', n', None)"
  shows "distinct (map atSecret (msAPITokens s'))" "list_all (\<lambda>t. atSecret t \<noteq> []) (msAPITokens s')"
    "distinct (map atID (msAPITokens s'))" "length (msAPITokens s') = length (msAPITokens s)"
    "length (msRegisterTokens s') = length (msRegisterTokens s)"
proof -
  from NormalizeManagedSettings_None [OF assms(2)] obtain s2 perms n1 toks where h:
    "norm_api_tokens uuid n 0 [] [] (msAPITokens s) = (perms, n1, None)"
    "norm_register_tokens uuid n1 0 [] [] (msRegisterTokens s) = (Inr toks, n')"
    "s' = ClearManagedSettingsRotateFlags (s2\<lparr>msAPITokens := perms, msRegisterTokens := toks\<rparr>)" by metis
  note ok = norm_api_tokens_ok [OF h(1)]
  have eq: "msAPITokens s' = map (\<lambda>t. t\<lparr>atRotate := False\<rparr>) perms" "length (msRegisterTokens s') = length toks"
    by (simp_all add: h(3) ClearManagedSettingsRotateFlags_def)
  have m: "map atSecret (msAPITokens s') = map atSecret perms" "map atID (msAPITokens s') = map atID perms" by (simp_all add: eq(1))
  show "distinct (map atSecret (msAPITokens s'))" "distinct (map atID (msAPITokens s'))" using ok unfolding m by simp_all
  show "list_all (\<lambda>t. atSecret t \<noteq> []) (msAPITokens s')" using ok assms(1) by (simp add: eq(1) list_all_iff)
  show "length (msAPITokens s') = length (msAPITokens s)" using ok by (simp add: eq(1))
  show "length (msRegisterTokens s') = length (msRegisterTokens s)" using norm_register_tokens_length [OF h(2)] eq(2) by simp
qed

text \<open>After settings were saved, a request is served under the scope of the saved token it presents.\<close>

lemma saved_tokens:
  fixes w w' :: "'b World"
  assumes u: "uuid_ok (heUUID env)" and save: "saveManagedSettings env now settings w = (Inr saved, w')"
  shows "mget (svTokens (wServer w')) tok =
      map_option (\<lambda>t. normalizeTokenScope (tcScope (token_config t))) (find (\<lambda>t. atSecret t = tok) (msAPITokens saved))"
    and "svTokens (wServer w') \<noteq> []"
proof -
  from save_ok [OF u save] obtain rt :: "'b managedRuntime" where
    sv: "wServer w' = (wServer w)\<lparr>svPolicies := DefaultPolicies, svLabelConfigs := msLabelConfigs saved, svLimiter := mrLimiter rt,
       svTokens := token_scopes (TokenConfigsFromPermissions (msAPITokens saved)), svRequireAuth := True\<rparr>"
    and n: "\<And>n. NormalizeManagedSettings (heUUID env) n saved = (saved, n, None)" and ne: "msAPITokens saved \<noteq> []" by metis
  note ok = normalized_tokens [OF u n]
  show *: "mget (svTokens (wServer w')) tok =
      map_option (\<lambda>t. normalizeTokenScope (tcScope (token_config t))) (find (\<lambda>t. atSecret t = tok) (msAPITokens saved))" for tok
    using token_scopes_find [OF ok(1,2)] by (simp add: sv)
  from ne obtain t ts where t: "msAPITokens saved = t # ts" by (cases "msAPITokens saved") auto
  with * [of "atSecret t"] show "svTokens (wServer w') \<noteq> []" by auto
qed

lemma authenticate_tokens:
  "tokens \<noteq> [] \<Longrightarrow>
   authenticate tokens b r = Inr p \<longleftrightarrow>
     (\<exists>tok scope. presented_token r = Some tok \<and> mget tokens tok = Some scope \<and> p = \<lparr>pnToken = tok, pnScope = scope\<rparr>)"
  by (auto simp: authenticate_def presented_token_def Let_def split: option.splits)

lemma authenticate_saved:
  fixes w w' :: "'b World"
  assumes u: "uuid_ok (heUUID env)" and save: "saveManagedSettings env now settings w = (Inr saved, w')"
  shows "authenticate (svTokens (wServer w')) b r = Inr p \<longleftrightarrow>
    (\<exists>t\<in>set (msAPITokens saved). presented_token r = Some (atSecret t)
       \<and> p = \<lparr>pnToken = atSecret t, pnScope = normalizeTokenScope (tcScope (token_config t))\<rparr>)"
proof -
  from save_ok [OF u save] have n: "\<And>n. NormalizeManagedSettings (heUUID env) n saved = (saved, n, None)" by metis
  have d: "distinct (map atSecret (msAPITokens saved))" by (rule normalized_tokens(1) [OF u n])
  note find = find_key [OF d]
  show ?thesis
    unfolding authenticate_tokens [OF saved_tokens(2) [OF u save]] saved_tokens(1) [OF u save]
    using find by (simp add: map_option_eq_Some) blast
qed

end
