(* ===== verification/ApiSystem.thy ===== *)
theory ApiSystem
  imports ApiRouter ApiFacts
begin

text \<open>
  The whole program: the hub and the API server on one store. Every handler of the API does to the
  system what a sequence of steps of the hub's system does, so what holds of those (\<open>HubSystem\<close>)
  holds of the program. \<open>runs\<close> is such a sequence; its rules are collected in \<open>runs_intros\<close>.
\<close>


section \<open>The hub in the background\<close>

definition runs :: "henv \<Rightarrow> Sys \<Rightarrow> Sys \<Rightarrow> bool" where
  "runs env s t \<longleftrightarrow> (hub_step env)\<^sup>*\<^sup>* s t"

named_theorems runs_intros "what handlers do to the system"

lemma runs_refl [runs_intros]: "runs env s s"
  by (simp add: runs_def)

lemma runs_step: "runs env s t \<Longrightarrow> hub_step env t u \<Longrightarrow> runs env s u"
  by (simp add: runs_def)

lemma runs_uuid:
  assumes "runs env s t" "sysUUID t \<le> n"
  shows "runs env s (t\<lparr>sysUUID := n\<rparr>)"
proof -
  have "hub_step env t (t\<lparr>sysUUID := n, sysStore := CreateJobs [] (sysStore t)\<rparr>)"
    by (rule create) (use assms(2) in \<open>simp_all add: roots_def new_ids_def\<close>)
  moreover have "t\<lparr>sysUUID := n, sysStore := CreateJobs [] (sysStore t)\<rparr> = t\<lparr>sysUUID := n\<rparr>"
    by (cases t) (simp add: CreateJobs_def)
  ultimately show ?thesis using runs_step [OF assms(1)] by simp
qed

lemma runs_manage: "runs env s t \<Longrightarrow> store_step (sysStore t) m \<Longrightarrow> mJobs m = jobs_of t \<Longrightarrow> runs env s (set_store m t)"
  by (rule runs_step [OF _ manage])

lemma runs_ApplySettings [runs_intros]: "runs env s t \<Longrightarrow> runs env s (ApplySettings env settings t)"
  by (rule runs_step [OF _ reload])

lemma runs_ReloadHTTPAgents [runs_intros]: "runs env s t \<Longrightarrow> runs env s (ReloadHTTPAgents env t)"
  by (rule runs_step [OF _ http_agents])

lemma audit_jobs [simp]: "mJobs (AddAuditEvent now e m) = mJobs m"
  by (simp add: AddAuditEvent_def)

lemma runs_audit [runs_intros]:
  "runs env s (wSys w) \<Longrightarrow> runs env s (wSys (auditManage env now ctx action target decision reason w))"
  unfolding auditManage_def by (simp add: runs_manage [OF _ audit])

lemma fold_agent_cfgs_jobs [simp]: "mJobs (fold (put_agent_cfg now) cfgs m) = mJobs m"
  by (induction cfgs arbitrary: m) (simp_all add: put_agent_cfg_def)

lemma fold_http_agents_jobs [simp]: "mJobs (fold (put_http_agent now) nodes m) = mJobs m"
  by (induction nodes arbitrary: m) (simp_all add: put_http_agent_def)

lemma normalize_counter: "NormalizeManagedSettings uuid n s = (s', n', e) \<Longrightarrow> n \<le> n'"
  using NormalizeManagedSettings_counter [of n uuid s] by simp

lemma settings_ops_jobs:
  "UpdateManagedSettings uuid n now st m = (r, m', n') \<Longrightarrow> mJobs m' = mJobs m \<and> n \<le> n'"
  "UpdateManagedSettingsAndAgentLabels uuid n now st cfgs nodes m = (r, m', n') \<Longrightarrow> mJobs m' = mJobs m \<and> n \<le> n'"
  by (auto simp: UpdateManagedSettings_def UpdateManagedSettingsAndAgentLabels_def commit_settings_def Let_def
      dest: normalize_counter split: prod.splits option.splits sum.splits if_splits)

lemma runs_settings:
  assumes "runs env s t" "sysUUID t \<le> n" "UpdateManagedSettings uuid n now st (sysStore t) = (r, m, n')"
  shows "runs env s (t\<lparr>sysUUID := n', sysStore := m\<rparr>)"
proof -
  note j = settings_ops_jobs(1) [OF assms(3)]
  from runs_uuid [OF assms(1)] assms(2) j have "runs env s (t\<lparr>sysUUID := n'\<rparr>)" by simp
  from runs_manage [OF this, of m] show ?thesis using update_settings [OF assms(3)] j by simp
qed

lemma runs_labels:
  assumes "runs env s t" "sysUUID t \<le> n"
    "UpdateManagedSettingsAndAgentLabels uuid n now st cfgs nodes (sysStore t) = (r, m, n')"
  shows "runs env s (t\<lparr>sysUUID := n', sysStore := m\<rparr>)"
proof -
  note j = settings_ops_jobs(2) [OF assms(3)]
  from runs_uuid [OF assms(1)] assms(2) j have "runs env s (t\<lparr>sysUUID := n'\<rparr>)" by simp
  from runs_manage [OF this, of m] show ?thesis using update_labels [OF assms(3)] j by simp
qed

lemma runs_save [runs_intros]:
  assumes "runs env s (wSys w)"
  shows "runs env s (wSys (snd (saveManagedSettings env now settings w)))"
proof -
  obtain st n e where n: "NormalizeManagedSettings (heUUID env) (sysUUID (wSys w)) settings = (st, n, e)" by (metis prod_cases3)
  note le = normalize_counter [OF n]
  obtain r m n' where u: "UpdateManagedSettings (heUUID env) n now st (wStore w) = (r, m, n')" by (metis prod_cases3)
  show ?thesis
    using runs_uuid [OF assms le] runs_settings [OF assms le u]
    by (auto simp: saveManagedSettings_def n u applyManagedRuntime_def runs_ApplySettings
        split: option.splits sum.splits prod.splits)
qed


section \<open>Management\<close>

lemma runs_auth:
  assumes "\<And>p w'. wSys w' = wSys w \<Longrightarrow> runs env (wSys w') (wSys (snd (handler p r w')))"
  shows "runs env (wSys w) (wSys (snd (auth ops now handler r w)))"
  using assms by (auto simp: auth_def Let_def runs_refl split: prod.splits sum.splits)

lemma runs_requireManageWrite [runs_intros]:
  assumes "runs env s (wSys (snd (k w)))" "runs env s (wSys w)"
  shows "runs env s (wSys (snd (requireManageWrite env now ctx action target k w)))"
  using assms by (simp add: requireManageWrite_def runs_audit)

lemma runs_read_settings [runs_intros]:
  assumes "runs env s (wSys w)" "\<And>settings w'. runs env s (wSys w') \<Longrightarrow> runs env s (wSys (snd (k settings w')))"
  shows "runs env s (wSys (snd (read_settings env k w)))"
proof -
  obtain st n e where n: "NormalizeManagedSettings (heUUID env) (sysUUID (wSys w)) (mSettings (wStore w)) = (st, n, e)" by (metis prod_cases3)
  from runs_uuid [OF assms(1) normalize_counter [OF n]] assms(2) show ?thesis
    by (simp add: read_settings_def GetManagedSettings_def n Let_def split: option.splits)
qed

lemma runs_save_and_audit [runs_intros]:
  assumes "runs env s (wSys w)"
  shows "runs env s (wSys (snd (save_and_audit env now ctx action target reply settings w)))"
  using runs_save [OF assms, of now settings]
  by (auto simp: save_and_audit_def runs_audit split: prod.splits sum.splits)

lemmas settings_handlers = listManagedAPITokens_def createManagedAPIToken_def updateManagedAPIToken_def
  rotateManagedAPIToken_def deleteManagedAPIToken_def listManagedRegisterTokens_def createManagedRegisterToken_def
  updateManagedRegisterToken_def rotateManagedRegisterToken_def deleteManagedRegisterToken_def
  getManagedRateLimit_def updateManagedRateLimit_def getManagedLabels_def updateManagedLabels_def

lemma runs_settings_handlers:
  fixes w :: "'b World"
  shows
  "runs env (wSys w) (wSys (snd (listManagedAPITokens env ctx r w)))"
  "runs env (wSys w) (wSys (snd (createManagedAPIToken env now ctx r1 w)))"
  "runs env (wSys w) (wSys (snd (updateManagedAPIToken env now ctx r2 w)))"
  "runs env (wSys w) (wSys (snd (rotateManagedAPIToken env now ctx r w)))"
  "runs env (wSys w) (wSys (snd (deleteManagedAPIToken env now ctx r w)))"
  "runs env (wSys w) (wSys (snd (listManagedRegisterTokens env ctx r w)))"
  "runs env (wSys w) (wSys (snd (createManagedRegisterToken env now ctx r3 w)))"
  "runs env (wSys w) (wSys (snd (updateManagedRegisterToken env now ctx r3 w)))"
  "runs env (wSys w) (wSys (snd (rotateManagedRegisterToken env now ctx r w)))"
  "runs env (wSys w) (wSys (snd (deleteManagedRegisterToken env now ctx r w)))"
  "runs env (wSys w) (wSys (snd (getManagedRateLimit env ctx r w)))"
  "runs env (wSys w) (wSys (snd (updateManagedRateLimit env now ctx r4 w)))"
  "runs env (wSys w) (wSys (snd (getManagedLabels env ctx r w)))"
  "runs env (wSys w) (wSys (snd (updateManagedLabels env now ctx r5 w)))"
  unfolding settings_handlers
  by (auto intro!: runs_intros split: option.splits)

lemma agent_config_jobs:
  "UpsertHTTPAgent now node m = Inr m' \<Longrightarrow> mJobs m' = mJobs m"
  "UpsertAgentConfig now cfg m = Inr m' \<Longrightarrow> mJobs m' = mJobs m"
  "DeleteHTTPAgent aid m = Inr m' \<Longrightarrow> mJobs m' = mJobs m"
  "DeleteAgent aid m = Inr m' \<Longrightarrow> mJobs m' = mJobs m"
  "DeleteAgentConfig aid m = Inr m' \<Longrightarrow> mJobs m' = mJobs m"
  by (auto simp: UpsertHTTPAgent_def UpsertAgentConfig_def DeleteHTTPAgent_def DeleteAgent_def DeleteAgentConfig_def
      bind_res_Inr put_http_agent_def put_agent_cfg_def split: option.splits)

lemma runs_agent_config [runs_intros]:
  assumes "runs env s t"
  shows "UpsertHTTPAgent now node (sysStore t) = Inr m \<Longrightarrow> runs env s (set_store m t)"
    "UpsertAgentConfig now cfg (sysStore t) = Inr m \<Longrightarrow> runs env s (set_store m t)"
    "DeleteHTTPAgent aid (sysStore t) = Inr m \<Longrightarrow> runs env s (set_store m t)"
    "DeleteAgent aid (sysStore t) = Inr m \<Longrightarrow> runs env s (set_store m t)"
    "DeleteAgentConfig aid (sysStore t) = Inr m \<Longrightarrow> runs env s (set_store m t)"
  using runs_manage [OF assms upsert_http agent_config_jobs(1)] runs_manage [OF assms upsert_cfg agent_config_jobs(2)]
    runs_manage [OF assms delete_http agent_config_jobs(3)] runs_manage [OF assms delete_agent agent_config_jobs(4)]
    runs_manage [OF assms delete_cfg agent_config_jobs(5)] by blast+

lemma runs_writeHTTPAgent [runs_intros]:
  assumes "runs env s (wSys w)"
  shows "runs env s (wSys (snd (writeHTTPAgent env now ctx aid raw w)))"
  unfolding writeHTTPAgent_def Let_def
  by (auto intro!: assms runs_audit runs_ReloadHTTPAgents runs_agent_config(1) split: option.splits sum.splits)

lemma runs_updateGRPCAgentConfig [runs_intros]:
  assumes "runs env s (wSys w)"
  shows "runs env s (wSys (snd (updateGRPCAgentConfig env now ctx r raw w)))"
  unfolding updateGRPCAgentConfig_def Let_def
  by (auto intro!: assms runs_audit runs_agent_config(2) split: option.splits sum.splits)

lemma runs_reload_if [runs_intros]: "runs env s (wSys w) \<Longrightarrow> runs env s (wSys (reload_if env nodes w))"
  by (simp add: reload_if_def runs_ReloadHTTPAgents)

lemma runs_save_agent_labels:
  assumes "runs env s (wSys w)"
  shows "runs env s (wSys (snd (save_agent_labels env now ctx cfgs nodes settings w)))"
  using runs_labels [OF assms order_refl]
  by (auto simp: save_agent_labels_def Let_def intro!: runs_audit runs_reload_if split: prod.splits option.splits)

lemma runs_save_label_state:
  assumes "runs env s (wSys w)"
  shows "runs env s (wSys (snd (save_label_state env now ctx payload current w)))"
proof -
  let ?next = "current\<lparr>msRevision := (if 0 < laRevision payload then laRevision payload else msRevision current),
                       msLabelConfigs := laLabelConfigs payload\<rparr>"
  obtain st n e where n: "NormalizeManagedSettings (heUUID env) (sysUUID (wSys w)) ?next = (st, n, e)" by (metis prod_cases3)
  show ?thesis
    using runs_uuid [OF assms normalize_counter [OF n]] runs_labels [OF assms normalize_counter [OF n]]
    by (auto simp: save_label_state_def n Let_def applyManagedRuntime_def intro!: runs_audit runs_reload_if runs_ApplySettings
        split: prod.splits option.splits sum.splits)
qed

lemma runs_label_handlers:
  "runs env (wSys w) (wSys (snd (updateManagedAgentLabels env now ctx r w)))"
  "runs env (wSys w) (wSys (snd (updateManagedLabelState env now ctx r1 w)))"
  unfolding updateManagedAgentLabels_def updateManagedLabelState_def
  by (auto intro!: runs_requireManageWrite runs_read_settings runs_refl runs_save_agent_labels runs_save_label_state
      split: option.splits sum.splits)

lemma runs_agent_handlers:
  fixes w :: "'b World"
  shows
  "runs env (wSys w) (wSys (snd (listManagedAgents ctx r w)))"
  "runs env (wSys w) (wSys (snd (getManagedAgent ctx r w)))"
  "runs env (wSys w) (wSys (snd (createManagedAgent env now ctx r1 w)))"
  "runs env (wSys w) (wSys (snd (updateManagedAgent env now ctx r1 w)))"
  "runs env (wSys w) (wSys (snd (deleteManagedAgent env now ctx r w)))"
  subgoal by (simp add: listManagedAgents_def runs_refl)
  subgoal by (simp add: getManagedAgent_def runs_refl split: option.splits)
  subgoal unfolding createManagedAgent_def
    by (auto intro!: runs_intros split: sum.splits)
  subgoal unfolding updateManagedAgent_def
    by (auto intro!: runs_intros split: sum.splits)
  subgoal unfolding deleteManagedAgent_def Let_def
    by (auto simp: runs_agent_config [OF runs_refl] intro!: runs_requireManageWrite runs_audit runs_ReloadHTTPAgents runs_refl split: sum.splits)
  done


section \<open>Jobs\<close>

text \<open>The fan-out gets fresh ids: what holds when the children of \<open>targets\<close> have been added.\<close>

lemma fanout_children:
  "fold (\<lambda>target (jobs, s). (jobs @ [fanout_child parent (heUUID env (sysUUID s)) target], s\<lparr>sysUUID := Suc (sysUUID s)\<rparr>)) targets (jobs, s) =
    (jobs @ map (\<lambda>(i, target). fanout_child parent (heUUID env (sysUUID s + i)) target) (enumerate 0 targets),
     s\<lparr>sysUUID := sysUUID s + length targets\<rparr>)"
proof (induction targets arbitrary: jobs s)
  case (Cons t ts)
  show ?case
    unfolding fold_simps prod.case
    by (subst Cons.IH) (simp add: enumerate_Suc_eq comp_def case_prod_unfold)
qed simp

lemma fanout_child_simps [simp]:
  "jID (fanout_child p cid t) = cid" "jParentID (fanout_child p cid t) = jID p" "jStatus (fanout_child p cid t) = JobQueued"
  "jAgentID (fanout_child p cid t) = dtAgentID t"
  by (simp_all add: fanout_child_def)

lemma fanout_jobs_eq:
  fixes env now req targets s
  defines "parent \<equiv> fanout_parent now req (heUUID env (sysUUID s)) (parentDispatchTarget targets)"
  shows "fanout_jobs env now req targets s =
    (parent # map (\<lambda>(i, target). fanout_child parent (heUUID env (Suc (sysUUID s) + i)) target)
       (enumerate 0 targets), s\<lparr>sysUUID := Suc (sysUUID s) + length targets\<rparr>)"
  by (simp add: fanout_jobs_def newUUID_def Let_def fanout_children parent_def)

lemma fanout_jobs_ok:
  assumes u: "uuid_fresh (heUUID env)" and f: "fanout_jobs env now req targets s = (jobs, s')"
  shows "fanout jobs" "new_ids (heUUID env) (sysUUID s) (sysUUID s') jobs" "s' = s\<lparr>sysUUID := sysUUID s'\<rparr>"
    "jobs = hd jobs # tl jobs" "jID (hd jobs) = heUUID env (sysUUID s)" "jParentID (hd jobs) = []"
proof -
  let ?p = "fanout_parent now req (heUUID env (sysUUID s)) (parentDispatchTarget targets)"
  have p: "jID ?p = heUUID env (sysUUID s)" "jParentID ?p = []" "jAgentID ?p = []" "jStatus ?p = JobRunning"
    by (simp_all add: fanout_parent_def)
  have eq: "jobs = ?p # map (\<lambda>(i, target). fanout_child ?p (heUUID env (Suc (sysUUID s) + i)) target) (enumerate 0 targets)"
    "s' = s\<lparr>sysUUID := Suc (sysUUID s) + length targets\<rparr>"
    using f unfolding fanout_jobs_eq by simp_all
  have inj: "inj (heUUID env)" using u by (simp add: uuid_fresh_def)
  show "fanout jobs" by (auto simp: fanout_def eq(1) p list_all_iff)
  have ids: "map jID jobs = map (heUUID env) [sysUUID s ..< Suc (sysUUID s) + length targets]"
  proof (rule nth_equalityI)
    fix i assume "i < length (map jID jobs)"
    then show "map jID jobs ! i = map (heUUID env) [sysUUID s ..< Suc (sysUUID s) + length targets] ! i"
      by (cases i) (simp_all add: eq(1) p nth_enumerate_eq del: upt_Suc)
  qed (simp add: eq(1) del: upt_Suc)
  have "distinct (map jID jobs)" unfolding ids by (simp add: distinct_map inj_on_subset [OF inj subset_UNIV] del: upt_Suc)
  moreover have "\<exists>i\<ge>sysUUID s. i < sysUUID s' \<and> jID j = heUUID env i" if "j \<in> set jobs" for j
  proof -
    from that have "jID j \<in> set (map jID jobs)" by simp
    then show ?thesis unfolding ids by (auto simp: eq(2) simp del: upt_Suc)
  qed
  ultimately show "new_ids (heUUID env) (sysUUID s) (sysUUID s') jobs" by (simp add: new_ids_def eq(2))
  show "s' = s\<lparr>sysUUID := sysUUID s'\<rparr>" "jobs = hd jobs # tl jobs" "jID (hd jobs) = heUUID env (sysUUID s)" "jParentID (hd jobs) = []"
    by (simp_all add: eq p)
qed

text \<open>Messages on a job that was just created are the ones of the hub.\<close>

lemma publishJobProgress_emit:
  assumes "GetJob jid (sysStore s) = Inr job" "jID job = jid" "jParentID job = []"
  shows "publishJobProgress env now jid msg s = emitProgress env now jid msg s"
  unfolding publishJobProgress_def emitProgress_def assms(1) by (simp add: assms(2,3))

lemma publishJobMessage_emit:
  assumes "PublicJobErrorType msg = msg" "msg \<noteq> []"
  shows "publishJobMessage env now jid aid msg s = emitFailureMessage env now jid aid msg s"
  using assms by (simp add: publishJobMessage_def emitFailureMessage_def)

lemma failure_types:
  "PublicJobErrorType JobErrorUnsupportedTool = JobErrorUnsupportedTool"
  "PublicJobErrorType JobErrorUnsupportedProtocol = JobErrorUnsupportedProtocol"
  by code_simp+

lemma pinned_failure:
  "pinnedDispatchTarget aid tool options w = Inr (target, f) \<Longrightarrow>
   f = [] \<or> f = JobErrorUnsupportedTool \<or> f = JobErrorUnsupportedProtocol"
  by (auto simp: pinnedDispatchTarget_def selectDispatchTargetWithFailure_def Let_def split: option.splits sum.splits if_splits)

lemma runs_create_fanout:
  assumes u: "uuid_fresh (heUUID env)"
  shows "runs env (wSys w) (wSys (snd (create_fanout env now ctx req options w)))"
proof (cases "fanoutDispatchTargets env req options (pnScope (principalFromContext ctx)) w = []")
  case False
  let ?targets = "fanoutDispatchTargets env req options (pnScope (principalFromContext ctx)) w"
  obtain jobs s1 where f: "fanout_jobs env now req ?targets (wSys w) = (jobs, s1)" by fastforce
  note j = fanout_jobs_ok [OF u f]
  let ?s2 = "set_store (CreateJobs jobs (sysStore s1)) s1"
  have s1: "sysStore s1 = wStore w" by (metis j(3) Sys.select_convs(1) Sys.surjective Sys.update_convs(3))
  have s2: "?s2 = (wSys w)\<lparr>sysUUID := sysUUID s1, sysStore := CreateJobs jobs (wStore w)\<rparr>"
    unfolding s1 by (subst j(3)) simp
  have "hub_step env (wSys w) ?s2" unfolding s2 by (rule create) (use j in auto)
  moreover have "GetJob (jID (hd jobs)) (sysStore ?s2) = Inr (hd jobs)"
  proof -
    have "distinct (map jID jobs)" "hd jobs \<in> set jobs" using j(2,4) by (auto simp: new_ids_def) (metis list.set_intros(1))
    then show ?thesis using fold_upd_in [of jobs "hd jobs" "mget (mJobs (wStore w))"]
      by (simp add: s1 CreateJobs_def mget_fold_mput)
  qed
  then have "publishJobProgress env now (jID (hd jobs)) ''started'' ?s2 = emitProgress env now (jID (hd jobs)) ''started'' ?s2"
    by (rule publishJobProgress_emit) (simp_all add: j(6))
  ultimately show ?thesis
    using False runs_step [OF runs_step [OF runs_refl] progress] by (simp add: create_fanout_def f)
qed (simp add: create_fanout_def runs_refl)

lemma runs_create_pinned:
  assumes u: "uuid_fresh (heUUID env)"
  shows "runs env (wSys w) (wSys (snd (create_pinned env now req options w)))"
proof (cases "pinnedDispatchTarget (rqAgentID req) (rqTool req) options w")
  case (Inr x)
  then obtain target f where p: "pinnedDispatchTarget (rqAgentID req) (rqTool req) options w = Inr (target, f)" by (cases x) auto
  let ?job = "pinned_job now req (heUUID env (sysUUID (wSys w))) target f"
  let ?s1 = "(wSys w)\<lparr>sysUUID := Suc (sysUUID (wSys w)), sysStore := CreateJobs [?job] (wStore w)\<rparr>"
  have "roots [?job]" by (simp add: roots_def pinned_job_def)
  moreover have "new_ids (heUUID env) (sysUUID (wSys w)) (Suc (sysUUID (wSys w))) [?job]"
    by (auto simp: new_ids_def pinned_job_def)
  ultimately have "hub_step env (wSys w) ?s1" by (intro create) auto
  then have r: "runs env (wSys w) ?s1" by (rule runs_step [OF runs_refl])
  have c: "CreateJobs [j] m = CreateJob j m" for j m by (simp add: CreateJobs_def CreateJob_def)
  have "runs env (wSys w) (publishJobMessage env now (heUUID env (sysUUID (wSys w))) aid f ?s1)" if "f \<noteq> []" for aid
    using runs_step [OF r failure] publishJobMessage_emit [of f] pinned_failure [OF p] failure_types that by auto
  with r show ?thesis by (cases "f = []") (simp_all add: create_pinned_def p newUUID_def Let_def c)
qed (simp add: create_pinned_def runs_refl)

lemma runs_createJob:
  fixes w :: "'b World"
  assumes u: "uuid_fresh (heUUID env)"
  shows "runs env (wSys w) (wSys (snd (createJob env ops now ctx r w)))"
proof -
  have *: "runs env (wSys w) (wSys (snd (create_fanout env now ctx req options w1)))"
    "runs env (wSys w) (wSys (snd (create_pinned env now req options w1)))" if "wSys w1 = wSys w" for req options and w1 :: "'b World"
    using runs_create_fanout [OF u, of w1] runs_create_pinned [OF u, of w1] that by simp_all
  show ?thesis
    by (auto simp: createJob_def accept_job_def Let_def runs_refl * split: option.splits sum.splits prod.splits)
qed


section \<open>Schedules\<close>

lemma schedule_targets_counter: "n \<le> snd (schedule_targets uuid now i seen ts n)"
proof (induction ts arbitrary: i seen n)
  case (Cons t ts)
  obtain x n' where "schedule_targets uuid now (Suc i) (TrimSpace (sqLabel t) # seen) ts (Suc n) = (x, n')" by (metis surj_pair)
  with Cons.IH [of "Suc n" "Suc i" "TrimSpace (sqLabel t) # seen"] show ?case
    by (cases x) (simp_all add: Let_def)
qed simp

lemma runs_validate:
  "runs env (wSys w) (wSys (snd (validateScheduleRequest env ops now ctx r req e w)))"
proof -
  obtain x n where t: "scheduleTargetsFromRequest (heUUID env) req now (sysUUID (wSys w)) = (x, n)" by (metis surj_pair)
  with schedule_targets_counter [of "sysUUID (wSys w)" "heUUID env" now 0 "[]" "csScheduleTargets req"]
  have "sysUUID (wSys w) \<le> n" by (simp add: scheduleTargetsFromRequest_def split: if_splits)
  from runs_uuid [OF runs_refl this] have r: "runs env (wSys w) ((wSys w)\<lparr>sysUUID := n\<rparr>)" .
  have "wSys (snd (validateScheduleRequest env ops now ctx r req e w)) = (wSys w)\<lparr>sysUUID := n\<rparr>"
    by (simp add: validateScheduleRequest_def t Let_def split: sum.splits prod.splits)
  with r show ?thesis by simp
qed

lemma schedule_ops_jobs:
  "mJobs (CreateScheduledJob sched m) = mJobs m"
  "UpdateScheduledJob sched m = Inr m' \<Longrightarrow> mJobs m' = mJobs m"
  "DeleteScheduledJob sid m = Inr m' \<Longrightarrow> mJobs m' = mJobs m"
  by (auto simp: CreateScheduledJob_def UpdateScheduledJob_def DeleteScheduledJob_def split: option.splits)

lemma runs_schedule_handlers:
  fixes w :: "'b World"
  shows
  "runs env (wSys w) (wSys (snd (createSchedule env ops now ctx r w)))"
  "runs env (wSys w) (wSys (snd (updateSchedule env ops now ctx r w)))"
  "runs env (wSys w) (wSys (snd (deleteSchedule ctx r1 w)))"
proof -
  have c: "runs env s (set_store (CreateScheduledJob sched (sysStore t)) (t\<lparr>sysUUID := Suc (sysUUID t)\<rparr>))"
    if "runs env s t" for s t sched
    using runs_manage [OF runs_uuid [OF that, of "Suc (sysUUID t)"], of "CreateScheduledJob sched (sysStore t)"]
    by (simp add: create_schedule schedule_ops_jobs)
  have v: "runs env (wSys w) (wSys w1)" if "validateScheduleRequest env ops now ctx r req e w = (x, w1)" for r req e x w1
    using runs_validate [of env w ops now ctx r req e] that by simp
  show "runs env (wSys w) (wSys (snd (createSchedule env ops now ctx r w)))"
    by (auto simp: createSchedule_def newUUID_def Let_def runs_refl intro!: c dest: v split: option.splits prod.splits sum.splits)
  show "runs env (wSys w) (wSys (snd (updateSchedule env ops now ctx r w)))"
    by (auto simp: updateSchedule_def Let_def runs_refl intro!: runs_manage schedule_ops_jobs(2) update_schedule dest: v
        split: option.splits prod.splits sum.splits)
  show "runs env (wSys w) (wSys (snd (deleteSchedule ctx r1 w)))"
    using runs_manage [OF runs_refl delete_schedule] schedule_ops_jobs(3)
    by (auto simp: deleteSchedule_def runs_refl split: sum.splits)
qed


section \<open>The program\<close>

text \<open>Reading handlers leave the system alone; a stream subscribes.\<close>

lemmas reading_defs = getHealth_def getVersion_def getPermissions_def api_getJob_def api_listJobEvents_def listSchedules_def
  getSchedule_def listScheduleHistory_def listScheduleHistorySummary_def api_listAgents_def Let_def

lemma reading_handlers:
  "snd (getHealth info r w) = w"
  "snd (getVersion info r w) = w"
  "snd (getPermissions ctx r w) = w"
  "snd (api_getJob r w) = w"
  "snd (api_listJobEvents r w) = w"
  "snd (listSchedules ctx r w) = w"
  "snd (getSchedule ctx r w) = w"
  "snd (listScheduleHistory te now ctx r w) = w"
  "snd (listScheduleHistorySummary te now ctx r w) = w"
  "snd (api_listAgents ctx r w) = w"
  by (simp_all add: reading_defs split: sum.splits)

lemma runs_stream: "runs env (wSys w) (wSys (snd (api_streamJobEvents ctx r w)))"
  using runs_step [OF runs_refl subscribe]
  by (auto simp: api_streamJobEvents_def streamJobEvents_def stream_open_def Let_def runs_refl case_prod_unfold split: sum.splits)

lemma runs_geoip: "runs env (wSys w) (wSys (snd (getGeoIP ops now ask r w)))"
  by (auto simp: getGeoIP_def Let_def runs_refl split: prod.splits option.splits geo_upstream.splits)

lemmas handlers_run = runs_createJob runs_schedule_handlers runs_settings_handlers runs_label_handlers runs_agent_handlers
  runs_stream

lemma serve_runs:
  assumes u: "uuid_fresh (heUUID env)"
  shows "runs env (wSys w) (wSys (snd (serve env ae ops now route r w)))"
  by (cases route) (auto simp: answer_def reading_handlers runs_refl runs_geoip intro!: runs_auth handlers_run u)

text \<open>A step of the program: a step of the hub, a request, or settings that are applied.\<close>

inductive api_step :: "henv \<Rightarrow> aenv \<Rightarrow> 'b bucket_ops \<Rightarrow> 'b World \<Rightarrow> 'b World \<Rightarrow> bool" for env ae ops where
  hub: "hub_step env (wSys w) s \<Longrightarrow> api_step env ae ops w (w\<lparr>wSys := s\<rparr>)"
| request: "api_step env ae ops w (snd (serve env ae ops now route r w))"
| apply_settings: "api_step env ae ops w (snd (applyManagedSettings env settings w))"

lemma api_step_runs:
  assumes u: "uuid_fresh (heUUID env)" and st: "api_step env ae ops w w'"
  shows "runs env (wSys w) (wSys w')"
  using st
proof cases
  case (hub s)
  then show ?thesis using runs_step [OF runs_refl] by simp
next
  case request
  then show ?thesis by (simp add: serve_runs [OF u])
next
  case (apply_settings settings)
  then show ?thesis
    by (auto simp: applyManagedSettings_def applyManagedRuntime_def runs_refl runs_ApplySettings split: sum.splits)
qed

lemma api_run_runs:
  assumes u: "uuid_fresh (heUUID env)" and run: "(api_step env ae ops)\<^sup>*\<^sup>* w w'"
  shows "runs env (wSys w) (wSys w')"
  using run
proof (induction rule: rtranclp_induct)
  case (step w1 w2)
  then show ?case using api_step_runs [OF u] unfolding runs_def by (meson rtranclp_trans)
qed (rule runs_refl)

end
