(* ===== verification/ApiAccess.thy ===== *)
theory ApiAccess
  imports ApiSystem
begin

text \<open>
  What requests may change. \<open>cfg_of\<close> is the configuration: the settings, the agents and what the
  server works under. The locale \<open>unmanaged\<close> states when a part of the store is out of reach of the
  management handlers; schedules and jobs with their events are such parts.
\<close>


section \<open>Store and hub\<close>

lemma store_ApplySettings [simp]: "sysStore (ApplySettings env settings s) = sysStore s"
  by (simp add: ApplySettings_def Let_def case_prod_unfold)

lemma store_set_loop [simp]: "sysStore (set_loop n f s) = sysStore s"
  by (simp add: set_loop_def split: option.splits)

lemma store_cancel [simp]: "sysStore (cancel_unconfigured ids e s) = sysStore s"
  by (simp add: cancel_unconfigured_def Let_def split: prod.splits)

lemma store_start [simp]: "sysStore (start_if_new a s) = sysStore s"
  by (simp add: start_if_new_def start_loop_def Let_def)

lemma store_fold: "(\<And>x s. sysStore (f x s) = sysStore s) \<Longrightarrow> sysStore (fold f xs s) = sysStore s"
  by (induction xs arbitrary: s) simp_all

lemma store_ReloadHTTPAgents [simp]: "sysStore (ReloadHTTPAgents env s) = sysStore s"
  by (simp add: ReloadHTTPAgents_def Let_def store_fold SetHTTPAgents_def)

lemma store_publish [simp]: "sysStore (publish e s) = sysStore s"
  by (simp add: publish_def split: option.splits)

lemma server_reload_if [simp]: "wServer (reload_if env nodes w) = wServer w" "wStore (reload_if env nodes w) = wStore w"
  by (simp_all add: reload_if_def)

lemma server_audit [simp]: "wServer (auditManage env now ctx action target decision reason w) = wServer w"
  by (simp add: auditManage_def)


section \<open>Parts of the store that management does not touch\<close>

locale unmanaged =
  fixes part :: "Memory \<Rightarrow> 'c"
  assumes part_audit [simp]: "part (AddAuditEvent now e m) = part m"
    and part_settings [simp]: "part (m\<lparr>mSettings := st\<rparr>) = part m"
    and part_agents [simp]: "part (m\<lparr>mAgents := as\<rparr>) = part m"
    and part_cfgs [simp]: "part (m\<lparr>mAgentCfgs := cs\<rparr>) = part m"
    and part_http [simp]: "part (m\<lparr>mHTTPAgents := hs\<rparr>) = part m"
begin

definition holds :: "'c \<Rightarrow> 'b World \<Rightarrow> bool" where
  "holds c w \<longleftrightarrow> part (wStore w) = c"

lemma holds_simps [simp]:
  "holds c (w\<lparr>wServer := sv\<rparr>) = holds c w"
  "holds c (w\<lparr>wSys := (wSys w)\<lparr>sysUUID := n\<rparr>\<rparr>) = holds c w"
  "holds c (auditManage env now ctx action target decision reason w) = holds c w"
  "holds c (applyManagedRuntime env settings rt w) = holds c w"
  "holds c (reload_if env nodes w) = holds c w"
  by (simp_all add: holds_def auditManage_def applyManagedRuntime_def)

lemma part_put [simp]: "part (put_agent_cfg now cfg m) = part m" "part (put_http_agent now node m) = part m"
  by (simp_all add: put_agent_cfg_def put_http_agent_def)

lemma part_puts [simp]:
  "part (fold (put_agent_cfg now) cfgs m) = part m" "part (fold (put_http_agent now) nodes m) = part m"
  by (induction cfgs arbitrary: m, simp_all) (induction nodes arbitrary: m, simp_all)

lemma part_ops:
  "UpdateManagedSettings uuid n now st m = (x, m', n') \<Longrightarrow> part m' = part m"
  "UpdateManagedSettingsAndAgentLabels uuid n now st cfgs nodes m = (x, m', n') \<Longrightarrow> part m' = part m"
  "UpsertHTTPAgent now node m = Inr m' \<Longrightarrow> part m' = part m"
  "UpsertAgentConfig now cfg m = Inr m' \<Longrightarrow> part m' = part m"
  "DeleteHTTPAgent aid m = Inr m' \<Longrightarrow> part m' = part m"
  "DeleteAgent aid m = Inr m' \<Longrightarrow> part m' = part m"
  "DeleteAgentConfig aid m = Inr m' \<Longrightarrow> part m' = part m"
  by (auto simp: UpdateManagedSettings_def UpdateManagedSettingsAndAgentLabels_def commit_settings_def Let_def
      UpsertHTTPAgent_def UpsertAgentConfig_def DeleteHTTPAgent_def DeleteAgent_def DeleteAgentConfig_def bind_res_Inr
      split: prod.splits option.splits sum.splits if_splits)

lemma holds_save:
  "holds c w \<Longrightarrow> saveManagedSettings env now settings w = (x, w') \<Longrightarrow> holds c w'"
  by (auto simp: saveManagedSettings_def holds_def applyManagedRuntime_def dest!: part_ops(1)
      split: prod.splits option.splits sum.splits)

lemma holds_read:
  assumes "holds c w" "\<And>settings w'. holds c w' \<Longrightarrow> holds c (snd (k settings w'))"
  shows "holds c (snd (read_settings env k w))"
  using assms by (auto simp: read_settings_def Let_def split: prod.splits option.splits)

lemma holds_write:
  assumes "holds c w" "holds c (snd (k w))"
  shows "holds c (snd (requireManageWrite env now ctx action target k w))"
  using assms by (simp add: requireManageWrite_def)

lemma holds_save_and_audit:
  "holds c w \<Longrightarrow> holds c (snd (save_and_audit env now ctx action target reply settings w))"
  by (auto simp: save_and_audit_def dest: holds_save split: prod.splits sum.splits)

lemma holds_labels:
  "holds c w \<Longrightarrow> holds c (snd (save_agent_labels env now ctx cfgs nodes settings w))"
  "holds c w \<Longrightarrow> holds c (snd (save_label_state env now ctx payload current w))"
  by (auto simp: save_agent_labels_def save_label_state_def Let_def holds_def applyManagedRuntime_def auditManage_def
      dest!: part_ops(2) split: prod.splits option.splits sum.splits)

lemma holds_agents:
  "holds c w \<Longrightarrow> holds c (snd (writeHTTPAgent env now ctx aid raw w))"
  "holds c w \<Longrightarrow> holds c (snd (updateGRPCAgentConfig env now ctx r raw w))"
  by (auto simp: writeHTTPAgent_def updateGRPCAgentConfig_def Let_def holds_def auditManage_def
      dest!: part_ops(3,4) split: option.splits sum.splits)

lemmas holds_intros = holds_read holds_write holds_save_and_audit holds_labels holds_agents

lemma settings_handlers_keep:
  fixes w :: "'b World"
  assumes "holds c w"
  shows "holds c (snd (listManagedAPITokens env ctx r w))"
    "holds c (snd (createManagedAPIToken env now ctx r1 w))"
    "holds c (snd (updateManagedAPIToken env now ctx r2 w))"
    "holds c (snd (rotateManagedAPIToken env now ctx r w))"
    "holds c (snd (deleteManagedAPIToken env now ctx r w))"
    "holds c (snd (listManagedRegisterTokens env ctx r w))"
    "holds c (snd (createManagedRegisterToken env now ctx r3 w))"
    "holds c (snd (updateManagedRegisterToken env now ctx r3 w))"
    "holds c (snd (rotateManagedRegisterToken env now ctx r w))"
    "holds c (snd (deleteManagedRegisterToken env now ctx r w))"
    "holds c (snd (getManagedRateLimit env ctx r w))"
    "holds c (snd (updateManagedRateLimit env now ctx r4 w))"
    "holds c (snd (getManagedLabels env ctx r w))"
    "holds c (snd (updateManagedLabels env now ctx r5 w))"
  unfolding settings_handlers using assms by (auto intro!: holds_intros split: option.splits)

lemma label_handlers_keep:
  assumes "holds c w"
  shows "holds c (snd (updateManagedAgentLabels env now ctx r w))" "holds c (snd (updateManagedLabelState env now ctx r1 w))"
  unfolding updateManagedAgentLabels_def updateManagedLabelState_def
  using assms by (auto intro!: holds_intros split: option.splits sum.splits)

lemma agent_handlers_keep:
  fixes w :: "'b World"
  assumes "holds c w"
  shows "holds c (snd (listManagedAgents ctx r w))"
    "holds c (snd (getManagedAgent ctx r w))"
    "holds c (snd (createManagedAgent env now ctx r1 w))"
    "holds c (snd (updateManagedAgent env now ctx r1 w))"
    "holds c (snd (deleteManagedAgent env now ctx r w))"
  subgoal using assms by (simp add: listManagedAgents_def)
  subgoal using assms by (simp add: getManagedAgent_def split: option.splits)
  subgoal unfolding createManagedAgent_def using assms by (auto intro!: holds_intros split: sum.splits)
  subgoal unfolding updateManagedAgent_def using assms by (auto intro!: holds_intros split: sum.splits)
  subgoal unfolding deleteManagedAgent_def Let_def
    using assms by (auto simp: holds_def auditManage_def requireManageWrite_def dest!: part_ops(5-7) split: sum.splits)
  done

lemmas handlers_keep = settings_handlers_keep label_handlers_keep agent_handlers_keep

end

interpretation plan: unmanaged mSchedules
  by unfold_locales (simp_all add: AddAuditEvent_def)

interpretation work: unmanaged "\<lambda>m. (mJobs m, mEvents m)"
  by unfold_locales (simp_all add: AddAuditEvent_def)


section \<open>The configuration\<close>

definition cfg_of :: "'b World \<Rightarrow>
    ManagedSettings \<times> (string, AgentConfig) gomap \<times> (string, HTTPAgent) gomap \<times> (string, Agent) gomap
    \<times> Set \<times> (string, LabelConfig) gomap option \<times> (string, TokenScope) gomap \<times> bool" where
  "cfg_of w = (mSettings (wStore w), mAgentCfgs (wStore w), mHTTPAgents (wStore w), mAgents (wStore w),
     svPolicies (wServer w), svLabelConfigs (wServer w), svTokens (wServer w), svRequireAuth (wServer w))"

lemma cfg_simps [simp]:
  "cfg_of (w\<lparr>wServer := (wServer w)\<lparr>svLimiter := l\<rparr>\<rparr>) = cfg_of w"
  "cfg_of (w\<lparr>wSys := (wSys w)\<lparr>sysUUID := n\<rparr>\<rparr>) = cfg_of w"
  "cfg_of (auditManage env now ctx action target decision reason w) = cfg_of w"
  by (simp_all add: cfg_of_def auditManage_def AddAuditEvent_def)

lemma cfg_read:
  assumes "\<And>settings w'. cfg_of w' = cfg_of w \<Longrightarrow> cfg_of (snd (k settings w')) = cfg_of w"
  shows "cfg_of (snd (read_settings env k w)) = cfg_of w"
  using assms by (auto simp: read_settings_def Let_def split: prod.splits option.splits)

lemma manage_without_access:
  fixes w :: "'b World"
  assumes "\<not> manageWriteAllowed ctx"
  shows "cfg_of (snd (listManagedAPITokens env ctx r w)) = cfg_of w"
    "cfg_of (snd (createManagedAPIToken env now ctx r1 w)) = cfg_of w"
    "cfg_of (snd (updateManagedAPIToken env now ctx r2 w)) = cfg_of w"
    "cfg_of (snd (rotateManagedAPIToken env now ctx r w)) = cfg_of w"
    "cfg_of (snd (deleteManagedAPIToken env now ctx r w)) = cfg_of w"
    "cfg_of (snd (listManagedRegisterTokens env ctx r w)) = cfg_of w"
    "cfg_of (snd (createManagedRegisterToken env now ctx r3 w)) = cfg_of w"
    "cfg_of (snd (updateManagedRegisterToken env now ctx r3 w)) = cfg_of w"
    "cfg_of (snd (rotateManagedRegisterToken env now ctx r w)) = cfg_of w"
    "cfg_of (snd (deleteManagedRegisterToken env now ctx r w)) = cfg_of w"
    "cfg_of (snd (updateManagedRateLimit env now ctx r4 w)) = cfg_of w"
    "cfg_of (snd (updateManagedLabels env now ctx r5 w)) = cfg_of w"
    "cfg_of (snd (updateManagedAgentLabels env now ctx r6 w)) = cfg_of w"
    "cfg_of (snd (updateManagedLabelState env now ctx r7 w)) = cfg_of w"
    "cfg_of (snd (createManagedAgent env now ctx r8 w)) = cfg_of w"
    "cfg_of (snd (updateManagedAgent env now ctx r8 w)) = cfg_of w"
    "cfg_of (snd (deleteManagedAgent env now ctx r w)) = cfg_of w"
  using assms
  by (simp_all add: settings_handlers updateManagedAgentLabels_def updateManagedLabelState_def createManagedAgent_def
      updateManagedAgent_def deleteManagedAgent_def requireManageWrite_def Let_def split: sum.splits)

lemma reading_keeps_cfg:
  "cfg_of (snd (getManagedRateLimit env ctx r w)) = cfg_of w"
  "cfg_of (snd (getManagedLabels env ctx r w)) = cfg_of w"
  "cfg_of (snd (listManagedAgents ctx r w)) = cfg_of w"
  "cfg_of (snd (getManagedAgent ctx r w)) = cfg_of w"
  by (auto simp: getManagedRateLimit_def getManagedLabels_def listManagedAgents_def getManagedAgent_def
      intro!: cfg_read split: option.splits)


section \<open>Jobs and schedules\<close>

lemma store_event_parts:
  "mSettings (sysStore (snd (store_event e s))) = mSettings (sysStore s)"
  "mAgentCfgs (sysStore (snd (store_event e s))) = mAgentCfgs (sysStore s)"
  "mHTTPAgents (sysStore (snd (store_event e s))) = mHTTPAgents (sysStore s)"
  "mAgents (sysStore (snd (store_event e s))) = mAgents (sysStore s)"
  "mSchedules (sysStore (snd (store_event e s))) = mSchedules (sysStore s)"
  by (auto simp: store_event_def AddJobEvent_def split: option.splits)

lemma create_jobs_parts:
  "mSettings (CreateJobs js m) = mSettings m" "mAgentCfgs (CreateJobs js m) = mAgentCfgs m"
  "mHTTPAgents (CreateJobs js m) = mHTTPAgents m" "mAgents (CreateJobs js m) = mAgents m"
  "mSchedules (CreateJobs js m) = mSchedules m"
  "mSettings (CreateJob j m) = mSettings m" "mAgentCfgs (CreateJob j m) = mAgentCfgs m"
  "mHTTPAgents (CreateJob j m) = mHTTPAgents m" "mAgents (CreateJob j m) = mAgents m"
  "mSchedules (CreateJob j m) = mSchedules m"
  by (simp_all add: CreateJobs_def CreateJob_def)

lemmas job_parts = store_event_parts create_jobs_parts publishJobProgress_def publishJobMessage_def newUUID_def

lemma create_fanout_parts:
  "cfg_of (snd (create_fanout env now ctx req options w)) = cfg_of w"
  "mSchedules (wStore (snd (create_fanout env now ctx req options w))) = mSchedules (wStore w)"
  by (simp_all add: create_fanout_def Let_def fanout_jobs_eq job_parts cfg_of_def)

lemma create_pinned_parts:
  "cfg_of (snd (create_pinned env now req options w)) = cfg_of w"
  "mSchedules (wStore (snd (create_pinned env now req options w))) = mSchedules (wStore w)"
  by (auto simp: create_pinned_def Let_def job_parts cfg_of_def split: sum.splits)

lemma createJob_parts:
  "cfg_of (snd (createJob env ops now ctx r w)) = cfg_of w"
  "mSchedules (wStore (snd (createJob env ops now ctx r w))) = mSchedules (wStore w)"
  by (auto simp: createJob_def accept_job_def Let_def create_fanout_parts create_pinned_parts
      split: option.splits sum.splits prod.splits)

lemma validate_parts:
  assumes "validateScheduleRequest env ops now ctx r req e w = (x, w1)"
  shows "wStore w1 = wStore w \<and> cfg_of w1 = cfg_of w"
  using assms by (auto simp: validateScheduleRequest_def Let_def cfg_of_def split: prod.splits sum.splits if_splits)

text \<open>All but the schedules.\<close>

definition rest_of where
  "rest_of w = (cfg_of w, mJobs (wStore w), mEvents (wStore w))"

lemma schedule_handlers_rest:
  "rest_of (snd (createSchedule env ops now ctx r w)) = rest_of w"
  "rest_of (snd (updateSchedule env ops now ctx r w)) = rest_of w"
  "rest_of (snd (deleteSchedule ctx r1 w)) = rest_of w"
proof -
  show "rest_of (snd (createSchedule env ops now ctx r w)) = rest_of w"
    by (auto simp: createSchedule_def newUUID_def Let_def rest_of_def cfg_of_def CreateScheduledJob_def
        dest!: validate_parts split: option.splits prod.splits sum.splits)
  show "rest_of (snd (updateSchedule env ops now ctx r w)) = rest_of w"
    by (auto simp: updateSchedule_def Let_def rest_of_def cfg_of_def UpdateScheduledJob_def
        dest!: validate_parts split: option.splits prod.splits sum.splits)
  show "rest_of (snd (deleteSchedule ctx r1 w)) = rest_of w"
    by (auto simp: deleteSchedule_def rest_of_def cfg_of_def DeleteScheduledJob_def split: option.splits sum.splits)
qed

lemma schedules_without_access:
  assumes "\<not> scheduleWriteAllowed ctx"
  shows "snd (createSchedule env ops now ctx r w) = w" "snd (updateSchedule env ops now ctx r w) = w"
    "snd (deleteSchedule ctx r1 w) = w"
  using assms by (simp_all add: createSchedule_def updateSchedule_def deleteSchedule_def)


section \<open>Requests\<close>

definition who :: "'b World \<Rightarrow> 'p Request \<Rightarrow> principal res" where
  "who w r = authenticate (svTokens (wServer w)) (svRequireAuth (wServer w)) r"

lemma who_with_body [simp]: "who w (with_body b r) = who w r"
  by (auto simp: who_def authenticate_def with_body_def Let_def split: option.splits)

text \<open>A part of the world that the limiter is not in changes only if the handler changes it for the principal.\<close>

lemma auth_part:
  assumes "\<And>w l. part (w\<lparr>wServer := (wServer w)\<lparr>svLimiter := l\<rparr>\<rparr>) = part w"
    and "part (snd (auth ops now handler r w)) \<noteq> part w"
  shows "\<exists>p w1. who w r = Inr p \<and> part (snd (handler (Some p) r w1)) \<noteq> part w1"
proof -
  obtain a l where l: "AllowRequest ops now now now (Resolve (svClientIP (wServer w)) (hrRemoteAddr r) (hrHeader r))
      (svLimiter (wServer w)) = (a, l)" by (metis surj_pair)
  let ?w1 = "w\<lparr>wServer := (wServer w)\<lparr>svLimiter := l\<rparr>\<rparr>"
  show ?thesis
  proof (cases "who w r")
    case (Inl e)
    with assms(2) show ?thesis by (auto simp: auth_def l Let_def who_def assms(1) split: if_splits)
  next
    case (Inr p)
    with assms(2) have "part (snd (handler (Some p) r ?w1)) \<noteq> part ?w1"
      by (auto simp: auth_def l Let_def who_def assms(1) split: if_splits)
    with Inr show ?thesis by blast
  qed
qed

lemma auth_cfg:
  assumes "\<And>p w1. \<not> manageWriteAllowed (Some p) \<Longrightarrow> cfg_of (snd (handler (Some p) r w1)) = cfg_of w1"
    and "cfg_of (snd (auth ops now handler r w)) \<noteq> cfg_of w"
  shows "\<exists>p. who w r = Inr p \<and> manageWriteAllowed (Some p)"
  using auth_part [of cfg_of, OF cfg_simps(1) assms(2)] assms(1) by metis

lemma geoip_store: "wSys (snd (getGeoIP ops now ask r w)) = wSys w" "cfg_of (snd (getGeoIP ops now ask r w)) = cfg_of w"
  by (auto simp: getGeoIP_def Let_def split: prod.splits option.splits geo_upstream.splits)

lemma stream_parts:
  "wStore (snd (api_streamJobEvents ctx r w)) = wStore w" "cfg_of (snd (api_streamJobEvents ctx r w)) = cfg_of w"
  by (auto simp: api_streamJobEvents_def streamJobEvents_def stream_open_def SubscribeJob_def Let_def cfg_of_def split: sum.splits)

lemma rest_cfg: "rest_of w' = rest_of w \<Longrightarrow> cfg_of w' = cfg_of w"
  by (simp add: rest_of_def)

lemma serve_cfg:
  assumes "cfg_of (snd (serve env ae ops now route r w)) \<noteq> cfg_of w"
  shows "\<exists>p. who w r = Inr p \<and> manageWriteAllowed (Some p)"
  using assms
  by (cases route)
    (auto simp: answer_def reading_handlers geoip_store stream_parts createJob_parts reading_keeps_cfg
        manage_without_access schedule_handlers_rest [THEN rest_cfg]
      split: if_splits dest!: auth_cfg [rotated])



lemma auth_schedules:
  assumes "\<And>p w1. \<not> scheduleWriteAllowed (Some p) \<Longrightarrow> mSchedules (wStore (snd (handler (Some p) r w1))) = mSchedules (wStore w1)"
    and "mSchedules (wStore (snd (auth ops now handler r w))) \<noteq> mSchedules (wStore w)"
  shows "\<exists>p. who w r = Inr p \<and> scheduleWriteAllowed (Some p)"
  using auth_part [of "\<lambda>w. mSchedules (wStore w)", OF _ assms(2)] assms(1) by (simp, metis)

lemma serve_schedules:
  assumes "mSchedules (wStore (snd (serve env ae ops now route r w))) \<noteq> mSchedules (wStore w)"
  shows "\<exists>p. who w r = Inr p \<and> scheduleWriteAllowed (Some p)"
  using assms
  by (cases route)
    (auto simp: answer_def reading_handlers geoip_store stream_parts createJob_parts plan.handlers_keep [unfolded plan.holds_def, OF refl]
        schedules_without_access
      split: if_splits dest!: auth_schedules [rotated])

text \<open>Jobs and events.\<close>

definition work_of :: "'b World \<Rightarrow> (string, Job) gomap \<times> (string, JobEvent list) gomap" where
  "work_of w = (mJobs (wStore w), mEvents (wStore w))"

lemma auth_work:
  assumes "work_of (snd (auth ops now handler r w)) \<noteq> work_of w"
  shows "\<exists>p w1. who w r = Inr p \<and> work_of (snd (handler (Some p) r w1)) \<noteq> work_of w1"
  by (rule auth_part [OF _ assms]) (simp add: work_of_def)

lemma rest_work: "rest_of w' = rest_of w \<Longrightarrow> work_of w' = work_of w"
  by (simp add: rest_of_def work_of_def)

lemma work_other: "wStore w' = wStore w \<Longrightarrow> work_of w' = work_of w"
  by (simp add: work_of_def)

lemma auth_no_work:
  assumes "\<And>p w1. work_of (snd (handler (Some p) r w1)) = work_of w1"
  shows "work_of (snd (auth ops now handler r w)) = work_of w"
  using auth_work [of ops now handler r w] assms by auto

lemma work_kept:
  "work_of (snd (getGeoIP ops now ask r w)) = work_of w"
  "work_of (snd (api_streamJobEvents ctx r w)) = work_of w"
  by (simp_all add: work_of_def geoip_store stream_parts)

lemmas work_keep = work_kept work.handlers_keep [unfolded work.holds_def, OF refl, folded work_of_def]
  schedule_handlers_rest [THEN rest_work]

lemma serve_work:
  assumes "work_of (snd (serve env ae ops now route r w)) \<noteq> work_of w"
  shows "\<exists>p body. who w r = Inr p \<and> route = PostJob body"
proof (cases "\<exists>body. route = PostJob body")
  case True
  with assms show ?thesis by (auto simp: answer_def dest!: auth_work)
next
  case False
  then have "work_of (snd (serve env ae ops now route r w)) = work_of w"
    by (cases route) (auto simp: answer_def reading_handlers work_keep intro!: auth_no_work)
  with assms show ?thesis by simp
qed

end
