(* ===== verification/ApiCreate.thy ===== *)
theory ApiCreate
  imports ApiAccess Targets
begin

section \<open>Creating jobs\<close>

lemma policies_limiter [simp]: "api_policiesForLabels ls (sv\<lparr>svLimiter := l\<rparr>) = api_policiesForLabels ls sv"
  by (simp add: api_policiesForLabels_eq)

text \<open>A request that is accepted, and the parts of its acceptance.\<close>

lemma accept_job_ok:
  assumes "accept_job env now ctx req policies w = (writeJSON c job, w')"
  obtains options where "is_ok (Validate (heNet env) policies req)" "authorizeJob ctx req w = Inr ()"
    "dispatchOptions (heNet env) req policies = Inr options"
    "(if rqAgentID req = [] then create_fanout env now ctx req options w else create_pinned env now req options w) = (writeJSON c job, w')"
  using assms that by (auto simp: accept_job_def split: sum.splits)

text \<open>The world in which a request is looked at differs from \<open>w\<close> in the limiter alone.\<close>

definition limited :: "'b World \<Rightarrow> 'b World \<Rightarrow> bool" where
  "limited w w1 \<longleftrightarrow> (\<exists>l. w1 = w\<lparr>wServer := (wServer w)\<lparr>svLimiter := l\<rparr>\<rparr>)"

lemma limited_simps:
  assumes "limited w w1"
  shows "wSys w1 = wSys w" "api_policiesForLabels ls (wServer w1) = api_policiesForLabels ls (wServer w)"
  using assms by (auto simp: limited_def)

lemma createJob_ok:
  fixes w :: "'b World"
  assumes "createJob env ops now ctx r w = (writeJSON c job, w')"
  obtains req0 req and w1 :: "'b World" where
    "hrBody r = Some req0" "req = req0\<lparr>rqAgentID := TrimSpace (rqAgentID req0),
       rqArgs := Set_ServerArgs (api_policiesForJob req w1) (rqTool req0) (rqArgs req0)\<rparr>"
    "accept_job env now ctx req (api_policiesForJob req w1) w1 = (writeJSON c job, w')" "limited w w1"
proof -
  from assms obtain req0 where b: "hrBody r = Some req0" by (auto simp: createJob_def split: option.splits)
  obtain a l where t: "AllowTool ops now now now (rqTool req0) (Some (Resolve (svClientIP (wServer w)) (hrRemoteAddr r) (hrHeader r)))
      (svLimiter (wServer w)) = (a, l)" by (metis surj_pair)
  define w1 where "w1 = w\<lparr>wServer := (wServer w)\<lparr>svLimiter := l\<rparr>\<rparr>"
  define req1 where "req1 = req0\<lparr>rqAgentID := TrimSpace (rqAgentID req0)\<rparr>"
  define req where "req = req1\<lparr>rqArgs := Set_ServerArgs (api_policiesForJob req1 w1) (rqTool req1) (rqArgs req1)\<rparr>"
  have p: "api_policiesForJob req1 w1 = api_policiesForJob req w1" by (simp add: req_def api_policiesForJob_def)
  have acc: "accept_job env now ctx req (api_policiesForJob req w1) w1 = (writeJSON c job, w')"
    using assms unfolding p [symmetric]
    by (auto simp: createJob_def b t Let_def req_def req1_def w1_def split: if_splits)
  have lim: "limited w w1" by (auto simp: limited_def w1_def)
  show thesis by (rule that [OF b _ acc lim]) (simp add: req_def req1_def api_policiesForJob_def)
qed

text \<open>Where the jobs go.\<close>

definition allowed_text :: "string \<Rightarrow> bool" where
  "allowed_text s \<longleftrightarrow> (\<exists>ip. s = IP_String ip \<and> \<not> refused_ip ip)"

definition targets_allowed :: "CreateJobRequest \<Rightarrow> dispatchTarget list \<Rightarrow> bool" where
  "targets_allowed req options \<longleftrightarrow> rqResolveOnAgent req \<or> list_all (\<lambda>t. allowed_text (dtResolvedTarget t)) options"

lemma set_resolve: "Set_ResolveTarget env ps tool target version = Inr (s, v) \<Longrightarrow> allowed_text s"
  by (auto simp: Set_ResolveTarget_def allowed_text_def dest!: resolved_allowed)

lemma add_option_allowed:
  assumes "list_all (\<lambda>t. allowed_text (dtResolvedTarget t)) (fst acc)"
  shows "list_all (\<lambda>t. allowed_text (dtResolvedTarget t)) (fst (add_option env req policies version acc))"
  using assms by (auto simp: add_option_def dest!: set_resolve split: sum.splits)

lemma dispatchOptions_allowed:
  assumes "dispatchOptions env req policies = Inr options"
  shows "targets_allowed req options"
proof (cases "rqResolveOnAgent req")
  case False
  define acc where "acc = fold (add_option env req policies) [IPv6, IPv4] ([], None)"
  have acc: "list_all (\<lambda>t. allowed_text (dtResolvedTarget t)) (fst acc)" unfolding acc_def by (simp add: add_option_allowed)
  obtain lit where lit: "LiteralIPVersion env (rqTool req) (rqTarget req) = Inr lit"
    using assms by (auto simp: dispatchOptions_def bind_res_Inr)
  show ?thesis
  proof (cases "lit = None \<and> rqIPVersion req = IPAny")
    case True
    with assms False have "options = fst acc"
      by (auto simp: dispatchOptions_def lit acc_def case_prod_unfold Let_def split: if_splits option.splits)
    with acc show ?thesis by (simp add: targets_allowed_def)
  next
    case c: False
    with assms False show ?thesis
      by (cases lit) (auto simp: dispatchOptions_def lit targets_allowed_def bind_res_Inr zero_target_def Let_def dest!: set_resolve)
  qed
qed (simp add: targets_allowed_def)

lemma selected_supports:
  assumes "selectDispatchTargetWithFailure agent tool options b = Inr t" "aStatus agent = AgentOnline"
  shows "t \<in> set options" "AgentSupports agent tool (dtIPVersion t)"
  using assms
  by (auto simp: selectDispatchTargetWithFailure_def AgentSupports_def Let_def find_Some_iff split: if_splits option.splits)

lemma selected_online:
  "selectDispatchTargetWithFailure agent tool options True = Inr t \<Longrightarrow> aStatus agent = AgentOnline"
  by (auto simp: selectDispatchTargetWithFailure_def split: if_splits)

definition permitted :: "henv \<Rightarrow> CreateJobRequest \<Rightarrow> 'b World \<Rightarrow> Agent \<Rightarrow> dispatchTarget \<Rightarrow> bool" where
  "permitted env req w agent t \<longleftrightarrow>
     agent \<in> set (api_agentsWithManagedLabels (wStore w)) \<and> dtAgentID t = aID agent
     \<and> AgentSupports agent (rqTool req) (dtIPVersion t) \<and> \<not> agentDisabled (wStore w) (aID agent)
     \<and> is_ok (Validate (heNet env) (api_policiesForLabels (aLabels agent) (wServer w)) (withAgentID req (aID agent)))"

lemma fanout_permitted:
  assumes "t \<in> set (fanoutDispatchTargets env req options scope w)"
  shows "\<exists>agent. permitted env req w agent t \<and> scopeAllowsAgentRecord scope agent
    \<and> (\<exists>opt\<in>set options. dtResolvedTarget t = dtResolvedTarget opt)"
proof -
  from assms obtain agent t0 where a: "agent \<in> set (api_agentsWithManagedLabels (wStore w))"
    and d: "scopeAllowsAgentRecord scope agent" "\<not> agentDisabled (wStore w) (aID agent)"
      "is_ok (Validate (heNet env) (api_policiesForLabels (aLabels agent) (wServer w)) (withAgentID req (aID agent)))"
    and s: "selectDispatchTarget agent (rqTool req) options True = Some t0" and t: "t = t0\<lparr>dtAgentID := aID agent\<rparr>"
    by (auto simp: fanoutDispatchTargets_def List.map_filter_def split: if_splits)
  from s have o: "selectDispatchTargetWithFailure agent (rqTool req) options True = Inr t0"
    by (simp add: selectDispatchTarget_def split: sum.splits)
  from a d t selected_supports [OF o selected_online [OF o]] show ?thesis by (auto simp: permitted_def)
qed

lemma found_policies:
  assumes "store_ok (wStore w)" "find (\<lambda>a. aID a = aid) (api_agentsWithManagedLabels (wStore w)) = Some agent"
  shows "api_policiesForAgent aid w = api_policiesForLabels (aLabels agent) (wServer w)"
  using assms by (simp add: api_policiesForAgent_eq api_policiesForLabels_eq labelsForAgent_def api_agents_eq)

lemma pinned_permitted:
  assumes ok: "store_ok (wStore w)" and p: "pinnedDispatchTarget (rqAgentID req) (rqTool req) options w = Inr (t, [])"
    and v: "is_ok (Validate (heNet env) (api_policiesForAgent (rqAgentID req) w) req)"
  obtains agent where "permitted env req w agent t"
    "find (\<lambda>a. aID a = rqAgentID req) (api_agentsWithManagedLabels (wStore w)) = Some agent"
    "\<exists>opt\<in>set options. dtResolvedTarget t = dtResolvedTarget opt"
proof -
  from p obtain agent t0 where a: "find (\<lambda>a. aID a = rqAgentID req) (api_agentsWithManagedLabels (wStore w)) = Some agent"
    and d: "\<not> agentDisabled (wStore w) (aID agent)" "aStatus agent = AgentOnline"
    and t: "selectDispatchTargetWithFailure agent (rqTool req) options False = Inr t0" "t = t0\<lparr>dtAgentID := rqAgentID req\<rparr>"
    by (auto simp: pinnedDispatchTarget_def Let_def selectDispatchTargetWithFailure_def split: option.splits sum.splits if_splits)
  from a have id: "aID agent = rqAgentID req" "agent \<in> set (api_agentsWithManagedLabels (wStore w))"
    by (auto simp: find_Some_iff)
  from id(1) have "withAgentID req (aID agent) = req" by (simp add: withAgentID_def)
  with v have "is_ok (Validate (heNet env) (api_policiesForLabels (aLabels agent) (wServer w)) (withAgentID req (aID agent)))"
    by (simp add: found_policies [OF ok a])
  then show thesis
    using that [of agent] a d id t selected_supports [OF t(1) d(2)] by (auto simp: permitted_def)
qed


lemma permitted_limited: "limited w w1 \<Longrightarrow> permitted env req w1 agent t = permitted env req w agent t"
  by (auto simp: permitted_def limited_simps)

text \<open>A new queued job comes from a target.\<close>

lemma fold_upd_mem: "fold (\<lambda>j m. m(jID j \<mapsto> j)) js f k = Some x \<Longrightarrow> x \<in> set js \<or> f k = Some x"
proof (induction js arbitrary: f)
  case (Cons j js)
  from Cons.IH [of "f(jID j \<mapsto> j)"] Cons.prems show ?case by (auto split: if_splits)
qed simp

lemma new_job:
  assumes "mget (mJobs (CreateJobs js m)) jid = Some j" "mget (mJobs m) jid = None"
  shows "j \<in> set js"
  using assms fold_upd_mem [of js "mget (mJobs m)" jid j] by (simp add: CreateJobs_def mget_fold_mput)

lemma GetJob_Inr: "GetJob jid m = Inr j \<longleftrightarrow> mget (mJobs m) jid = Some j"
  by (simp add: GetJob_def split: option.splits)

lemma GetJob_Inl: "GetJob jid m = Inl e \<longleftrightarrow> mget (mJobs m) jid = None \<and> e = ErrNotFound"
  by (auto simp: GetJob_def split: option.splits)

lemma store_event_jobs: "mJobs (sysStore (snd (store_event e s))) = mJobs (sysStore s)"
  by (auto simp: store_event_def AddJobEvent_def split: option.splits)

definition job_of :: "CreateJobRequest \<Rightarrow> dispatchTarget \<Rightarrow> Job \<Rightarrow> bool" where
  "job_of req t j \<longleftrightarrow> jTool j = rqTool req \<and> jTarget j = rqTarget req \<and> jArgs j = rqArgs req
     \<and> jResolveOnAgent j = rqResolveOnAgent req \<and> jAgentID j = dtAgentID t
     \<and> jResolvedTarget j = dtResolvedTarget t \<and> jIPVersion j = dtIPVersion t"

lemma create_fanout_new:
  assumes "create_fanout env now ctx req options w = (writeJSON c job, w')"
    and "GetJob jid (wStore w') = Inr j" "GetJob jid (wStore w) = Inl e" "jStatus j = JobQueued"
  shows "\<exists>t\<in>set (fanoutDispatchTargets env req options (pnScope (principalFromContext ctx)) w). job_of req t j"
proof -
  let ?ts = "fanoutDispatchTargets env req options (pnScope (principalFromContext ctx)) w"
  let ?p = "fanout_parent now req (heUUID env (sysUUID (wSys w))) (parentDispatchTarget ?ts)"
  let ?js = "?p # map (\<lambda>(i, target). fanout_child ?p (heUUID env (Suc (sysUUID (wSys w)) + i)) target) (enumerate 0 ?ts)"
  from assms(1) have "mJobs (wStore w') = mJobs (CreateJobs ?js (wStore w))"
    by (auto simp: create_fanout_def Let_def fanout_jobs_eq publishJobProgress_def newUUID_def store_event_jobs split: if_splits)
  with assms(2,3) have "j \<in> set ?js" using new_job [of ?js "wStore w"] by (simp add: GetJob_Inr GetJob_Inl)
  moreover have "j \<noteq> ?p" using assms(4) by (auto simp: fanout_parent_def)
  ultimately obtain i t where "(i, t) \<in> set (enumerate 0 ?ts)" "j = fanout_child ?p (heUUID env (Suc (sysUUID (wSys w)) + i)) t" by auto
  then show ?thesis
    by (intro bexI [of _ t]) (auto simp: job_of_def fanout_child_def fanout_parent_def in_set_enumerate_eq)
qed

lemma create_pinned_new:
  assumes "create_pinned env now req options w = (writeJSON c job, w')"
    and "GetJob jid (wStore w') = Inr j" "GetJob jid (wStore w) = Inl e" "jStatus j = JobQueued"
  obtains t where "pinnedDispatchTarget (rqAgentID req) (rqTool req) options w = Inr (t, [])" "job_of req t j"
proof -
  from assms(1) obtain t f where p: "pinnedDispatchTarget (rqAgentID req) (rqTool req) options w = Inr (t, f)"
    by (auto simp: create_pinned_def split: sum.splits)
  let ?j = "pinned_job now req (heUUID env (sysUUID (wSys w))) t f"
  from assms(1) have "mJobs (wStore w') = mJobs (CreateJobs [?j] (wStore w))"
    by (auto simp: create_pinned_def p Let_def CreateJobs_def CreateJob_def publishJobMessage_def newUUID_def store_event_jobs
        split: if_splits)
  with assms(2,3) have j: "j = ?j" using new_job [of "[?j]" "wStore w"] by (simp add: GetJob_Inr GetJob_Inl)
  with assms(4) have "f = []" by (auto simp: pinned_job_def split: if_splits)
  have "dtAgentID t = rqAgentID req"
    using p by (auto simp: pinnedDispatchTarget_def Let_def split: option.splits sum.splits if_splits)
  with that p j \<open>f = []\<close> show thesis by (auto simp: job_of_def pinned_job_def)
qed


text \<open>What a principal who may not do everything is asked for.\<close>

lemma authorized:
  assumes "authorizeJob ctx req w = Inr ()" "\<not> tkAll (pnScope (principalFromContext ctx))"
  shows "mget (tkTools (pnScope (principalFromContext ctx))) (rqTool req) \<noteq> None"
    "rqAgentID req \<noteq> [] \<Longrightarrow> find (\<lambda>a. aID a = rqAgentID req) (api_agentsWithManagedLabels (wStore w)) = Some agent \<Longrightarrow>
     scopeAllowsAgentRecord (pnScope (principalFromContext ctx)) agent"
  using assms by (auto simp: authorizeJob_def Let_def split: option.splits if_splits)

text \<open>Policies of agents do not depend on the limiter.\<close>

lemma policiesForAgent_limited:
  assumes "store_ok (wStore w)" "limited w w1"
  shows "api_policiesForAgent aid w1 = api_policiesForAgent aid w"
proof -
  have "store_ok (wStore w1)" using assms by (auto simp: limited_def)
  with assms show ?thesis by (auto simp: api_policiesForAgent_eq limited_def)
qed

lemma pinned_limited: "limited w w1 \<Longrightarrow> pinnedDispatchTarget aid tool options w1 = pinnedDispatchTarget aid tool options w"
  by (simp add: pinnedDispatchTarget_def limited_simps Let_def split: option.split)

text \<open>A request for one agent that goes through.\<close>

lemma createJob_pinned:
  assumes ok: "store_ok (wStore w)" and b: "hrBody r = Some req0"
    and l: "fst (AllowTool ops now now now (rqTool req0) (Some (Resolve (svClientIP (wServer w)) (hrRemoteAddr r) (hrHeader r)))
        (svLimiter (wServer w)))"
    and a: "TrimSpace (rqAgentID req0) = aid" "aid \<noteq> []"
  defines "policies \<equiv> api_policiesForAgent aid w"
  defines "req \<equiv> req0\<lparr>rqAgentID := aid, rqArgs := Set_ServerArgs policies (rqTool req0) (rqArgs req0)\<rparr>"
  assumes v: "is_ok (Validate (heNet env) policies req)" "tkAll (pnScope (principalFromContext ctx))"
    and d: "dispatchOptions (heNet env) req policies = Inr options"
    and p: "pinnedDispatchTarget aid (rqTool req0) options w = Inr (t, [])"
  obtains w' where "createJob env ops now ctx r w = (writeJSON 202 (pinned_job now req (heUUID env (sysUUID (wSys w))) t []), w')"
    "wStore w' = CreateJob (pinned_job now req (heUUID env (sysUUID (wSys w))) t []) (wStore w)"
proof -
  obtain al lim where al: "AllowTool ops now now now (rqTool req0)
      (Some (Resolve (svClientIP (wServer w)) (hrRemoteAddr r) (hrHeader r))) (svLimiter (wServer w)) = (al, lim)" by (metis surj_pair)
  let ?w1 = "w\<lparr>wServer := (wServer w)\<lparr>svLimiter := lim\<rparr>\<rparr>"
  have lm: "limited w ?w1" by (auto simp: limited_def)
  from v(1) obtain u where u: "Validate (heNet env) policies req = Inr u" by (auto simp: is_ok_iff)
  have pol: "api_policiesForJob (req0\<lparr>rqAgentID := aid\<rparr>) ?w1 = policies"
    using a policiesForAgent_limited [OF ok lm] by (simp add: api_policiesForJob_def policies_def)
  have au: "authorizeJob ctx req ?w1 = Inr ()" using v(2) by (simp add: authorizeJob_def Let_def)
  have pt: "pinnedDispatchTarget aid (rqTool req0) options ?w1 = Inr (t, [])" using pinned_limited [OF lm] p by simp
  have "createJob env ops now ctx r w = accept_job env now ctx req policies ?w1"
    using l al b a(1) pol by (simp add: createJob_def Let_def req_def)
  also have "\<dots> = create_pinned env now req options ?w1" using u au d a by (simp add: accept_job_def req_def)
  finally show thesis using that pt by (simp add: create_pinned_def req_def newUUID_def Let_def)
qed

end
