(* ===== verification/ApiPlans.thy ===== *)
theory ApiPlans
  imports ApiCreate
begin

text \<open>
  What the API server writes into a schedule. \<open>planned\<close> is the condition on a target: its interval
  is in range, and the agents that it may run on are the ones that the author of the schedule
  could use at that time.
\<close>

definition plan_allows :: "henv \<Rightarrow> TokenScope \<Rightarrow> ScheduledJob \<Rightarrow> 'b World \<Rightarrow> string \<Rightarrow> Agent \<Rightarrow> bool" where
  "plan_allows env scope sched w lbl agent \<longleftrightarrow>
     agent \<in> set (api_agentsWithManagedLabels (wStore w)) \<and> scheduleTargetMatchesAgent lbl agent
     \<and> scopeAllowsAgentRecord scope agent \<and> AgentSupports agent (sTool sched) (sIPVersion sched)
     \<and> (\<exists>v. is_ok (ValidateSchedule (heNet env) (api_policiesForLabels (aLabels agent) (wServer w))
         \<lparr>rqTool = sTool sched, rqTarget = sTarget sched, rqArgs = sArgs sched, rqIPVersion = v,
          rqAgentID = aID agent, rqResolveOnAgent = sResolveOnAgent sched\<rparr>))"

lemma sort_empty [simp]: "sort xs = [] \<longleftrightarrow> xs = []" for xs :: "string list"
  by (metis set_empty set_sort)

lemma schedule_targets_ok:
  "schedule_targets uuid now i seen ts n = (Inr out, n') \<Longrightarrow>
   distinct (map stLabel out) \<and> set (map stLabel out) \<inter> set seen = {} \<and> [] \<notin> set (map stLabel out)
   \<and> list_all (\<lambda>t. 10 \<le> stIntervalSeconds t \<and> stIntervalSeconds t \<le> 86400 \<and> stNextRunAt t = now \<and> stLastRunAt t = None) out"
proof (induction ts arbitrary: i seen n out n')
  case (Cons t ts)
  let ?l = "TrimSpace (sqLabel t)"
  from Cons.prems have g: "?l \<noteq> []" "10 \<le> sqIntervalSeconds t" "sqIntervalSeconds t \<le> 86400" "?l \<notin> set seen"
    by (auto simp: Let_def split: if_splits)
  from Cons.prems g obtain out1 n1 where r: "schedule_targets uuid now (Suc i) (?l # seen) ts (Suc n) = (Inr out1, n1)"
    and out: "out = \<lparr>stID = uuid n, stLabel = ?l, stAllowedAgentIDs = [], stIntervalSeconds = sqIntervalSeconds t,
        stNextRunAt = now, stLastRunAt = None\<rparr> # out1"
    by (auto simp: Let_def split: prod.splits sum.splits)
  from Cons.IH [OF r] g out show ?case by auto
qed simp

lemma schedule_targets_length: "schedule_targets uuid now i seen ts n = (Inr out, n') \<Longrightarrow> length out = length ts"
  by (induction ts arbitrary: i seen n out n') (auto simp: Let_def split: if_splits prod.splits sum.splits)

lemma authorize_targets_ok:
  assumes "authorize_targets env scope req version w ts = Inr out"
  shows "map stLabel out = map stLabel ts \<and> map stIntervalSeconds out = map stIntervalSeconds ts
    \<and> map stNextRunAt out = map stNextRunAt ts \<and> map stLastRunAt out = map stLastRunAt ts
    \<and> list_all (\<lambda>t. stAllowedAgentIDs t \<noteq> [] \<and> set (stAllowedAgentIDs t) =
        aID ` {a \<in> set (api_agentsWithManagedLabels (wStore w)). schedule_agent env scope req version (stLabel t) w a}) out"
  using assms
proof (induction ts arbitrary: out)
  case (Cons t ts)
  then show ?case by (auto simp: Let_def bind_res_Inr split: if_splits)
qed simp


text \<open>What a request for a schedule is turned into.\<close>

lemma details_authorized:
  assumes "schedule_details env ctx req0 enabled targets w = Inr d"
  shows "authorizeScheduleTargets env ctx (sdCreateReq d) (sdScheduleVersion d) targets w = Inr (sdScheduleTargets d)"
  using assms by (auto simp: schedule_details_def Let_def split: sum.splits)

lemma validated:
  fixes w :: "'b World"
  assumes "validateScheduleRequest env ops now ctx r req e w = (Inr d, w1)"
  obtains targets n and w2 :: "'b World" where "wStore w2 = wStore w" "wStore w1 = wStore w"
    "\<And>ls. api_policiesForLabels ls (wServer w2) = api_policiesForLabels ls (wServer w)"
    "schedule_targets (heUUID env) now 0 [] (csScheduleTargets req) (sysUUID (wSys w)) = (Inr targets, n)"
    "csScheduleTargets req \<noteq> []"
    "authorizeScheduleTargets env ctx (sdCreateReq d) (sdScheduleVersion d) targets w2 = Inr (sdScheduleTargets d)"
proof -
  obtain x n where x: "scheduleTargetsFromRequest (heUUID env) req now (sysUUID (wSys w)) = (x, n)" by (metis surj_pair)
  with assms obtain targets where t: "scheduleTargetsFromRequest (heUUID env) req now (sysUUID (wSys w)) = (Inr targets, n)"
    by (cases x) (simp_all add: validateScheduleRequest_def Let_def)
  let ?w1 = "w\<lparr>wSys := (wSys w)\<lparr>sysUUID := n\<rparr>\<rparr>"
  obtain a l where al: "AllowTool ops now now now (csTool req) (Some (Resolve (svClientIP (wServer w)) (hrRemoteAddr r) (hrHeader r)))
      (svLimiter (wServer w)) = (a, l)" by (metis surj_pair)
  let ?w2 = "?w1\<lparr>wServer := (wServer w)\<lparr>svLimiter := l\<rparr>\<rparr>"
  from assms have d: "\<exists>req0 en. schedule_details env ctx req0 en targets ?w2 = Inr d" and w1: "w1 = ?w2"
    by (cases a; simp add: validateScheduleRequest_def t al Let_def; blast)+
  from d have au: "authorizeScheduleTargets env ctx (sdCreateReq d) (sdScheduleVersion d) targets ?w2 = Inr (sdScheduleTargets d)"
    using details_authorized by blast
  from t have "csScheduleTargets req \<noteq> []"
    "schedule_targets (heUUID env) now 0 [] (csScheduleTargets req) (sysUUID (wSys w)) = (Inr targets, n)"
    by (simp_all add: scheduleTargetsFromRequest_def split: if_splits)
  then show thesis using that [of ?w2 targets n] au w1 by simp
qed


definition planned :: "henv \<Rightarrow> TokenScope \<Rightarrow> ScheduledJob \<Rightarrow> 'b World \<Rightarrow> ScheduleTarget \<Rightarrow> bool" where
  "planned env scope sched w t \<longleftrightarrow>
     10 \<le> stIntervalSeconds t \<and> stIntervalSeconds t \<le> 86400
     \<and> (\<forall>aid. scheduledTargetAllowsAgent t aid \<longrightarrow> (\<exists>agent. aID agent = aid \<and> plan_allows env scope sched w (stLabel t) agent))"

lemma plan_of_details:
  fixes w :: "'b World"
  assumes v: "validateScheduleRequest env ops now ctx r req e w = (Inr d, w1)"
    and s: "sTool sched = rqTool (sdCreateReq d)" "sTarget sched = rqTarget (sdCreateReq d)" "sArgs sched = rqArgs (sdCreateReq d)"
      "sIPVersion sched = sdScheduleVersion d" "sResolveOnAgent sched = rqResolveOnAgent (sdCreateReq d)"
  shows "sdScheduleTargets d \<noteq> []" "distinct (map stLabel (sdScheduleTargets d))"
    "list_all (planned env (pnScope (principalFromContext ctx)) sched w) (sdScheduleTargets d)"
    "wStore w1 = wStore w" "list_all (\<lambda>t. stNextRunAt t = now) (sdScheduleTargets d)"
proof -
  let ?scope = "pnScope (principalFromContext ctx)" and ?req = "sdCreateReq d"
  obtain targets n and w2 :: "'b World" where w2: "wStore w2 = wStore w" "wStore w1 = wStore w"
    "\<And>ls. api_policiesForLabels ls (wServer w2) = api_policiesForLabels ls (wServer w)"
    and t: "schedule_targets (heUUID env) now 0 [] (csScheduleTargets req) (sysUUID (wSys w)) = (Inr targets, n)"
    "csScheduleTargets req \<noteq> []"
    and a: "authorize_targets env ?scope ?req (sdScheduleVersion d) w2 targets = Inr (sdScheduleTargets d)"
    by (rule validated [OF v, unfolded authorizeScheduleTargets_def]) (rule that, assumption+)
  note t1 = schedule_targets_ok [OF t(1)] and a1 = authorize_targets_ok [OF a]
  have len: "length (sdScheduleTargets d) = length targets" using a1 by (metis length_map)
  have "length targets = length (csScheduleTargets req)" using schedule_targets_length [OF t(1)] .
  with t(2) len show "sdScheduleTargets d \<noteq> []" by auto
  show "distinct (map stLabel (sdScheduleTargets d))" "wStore w1 = wStore w" using t1 a1 w2 by simp_all
  have run: "plan_allows env ?scope sched w lbl agent"
    if "agent \<in> set (api_agentsWithManagedLabels (wStore w))" "schedule_agent env ?scope ?req (sdScheduleVersion d) lbl w2 agent"
    for agent lbl
    using that unfolding plan_allows_def schedule_agent_def s
    by (cases ?req) (simp add: w2 split: if_splits, blast)
  have i: "10 \<le> stIntervalSeconds x \<and> stIntervalSeconds x \<le> 86400 \<and> stNextRunAt x = now" if x: "x \<in> set (sdScheduleTargets d)" for x
  proof -
    from x have "stIntervalSeconds x \<in> set (map stIntervalSeconds (sdScheduleTargets d))" "stNextRunAt x \<in> set (map stNextRunAt (sdScheduleTargets d))"
      by simp_all
    then obtain y z where "y \<in> set targets" "stIntervalSeconds x = stIntervalSeconds y" "z \<in> set targets" "stNextRunAt x = stNextRunAt z"
      using a1 by auto
    with t1 show ?thesis by (simp add: list_all_iff)
  qed
  then show "list_all (\<lambda>t. stNextRunAt t = now) (sdScheduleTargets d)" by (simp add: list_all_iff)
  have "\<exists>agent. aID agent = aid \<and> plan_allows env ?scope sched w (stLabel x) agent"
    if x: "x \<in> set (sdScheduleTargets d)" and al: "scheduledTargetAllowsAgent x aid" for x aid
  proof -
    from a1 x have "stAllowedAgentIDs x \<noteq> []" and eq: "set (stAllowedAgentIDs x) =
        aID ` {a \<in> set (api_agentsWithManagedLabels (wStore w)). schedule_agent env ?scope ?req (sdScheduleVersion d) (stLabel x) w2 a}"
      by (simp_all add: list_all_iff w2(1))
    with al have "aid \<in> set (stAllowedAgentIDs x)" by (auto simp: scheduledTargetAllowsAgent_def list_ex_iff)
    then show ?thesis unfolding eq using run by blast
  qed
  with i show "list_all (planned env ?scope sched w) (sdScheduleTargets d)" by (simp add: list_all_iff planned_def)
qed


section \<open>What is written\<close>

text \<open>Merging the runs of the targets, and the aggregate fields, keep what \<open>planned\<close> looks at.\<close>

lemma merge_plan:
  "map stLabel (mergeScheduleTargetRunState ts old b) = map stLabel ts"
  "list_all (planned env scope sched w) (mergeScheduleTargetRunState ts old b) = list_all (planned env scope sched w) ts"
  "mergeScheduleTargetRunState ts old b = [] \<longleftrightarrow> ts = []"
  by (auto simp: mergeScheduleTargetRunState_def Let_def list_all_iff planned_def scheduledTargetAllowsAgent_def comp_def
      cong: if_cong split: option.splits)

lemma normalize_simps [simp]:
  "sTool (normalizeScheduleRunFields s) = sTool s" "sTarget (normalizeScheduleRunFields s) = sTarget s"
  "sArgs (normalizeScheduleRunFields s) = sArgs s" "sIPVersion (normalizeScheduleRunFields s) = sIPVersion s"
  "sResolveOnAgent (normalizeScheduleRunFields s) = sResolveOnAgent s" "sID (normalizeScheduleRunFields s) = sID s"
  "sScheduleTargets (normalizeScheduleRunFields s) = sScheduleTargets s" "sEnabled (normalizeScheduleRunFields s) = sEnabled s"
  "sRevision (normalizeScheduleRunFields s) = sRevision s"
  by (simp_all add: normalizeScheduleRunFields_def case_prod_unfold Let_def split: list.split)

definition plan_ok :: "henv \<Rightarrow> TokenScope \<Rightarrow> 'b World \<Rightarrow> ScheduledJob \<Rightarrow> bool" where
  "plan_ok env scope w sched \<longleftrightarrow>
     sScheduleTargets sched \<noteq> [] \<and> distinct (map stLabel (sScheduleTargets sched))
     \<and> list_all (planned env scope sched w) (sScheduleTargets sched)"

lemma planned_cong:
  assumes "sTool s1 = sTool s2" "sTarget s1 = sTarget s2" "sArgs s1 = sArgs s2" "sIPVersion s1 = sIPVersion s2"
    "sResolveOnAgent s1 = sResolveOnAgent s2"
  shows "planned env scope s1 w t = planned env scope s2 w t"
  using assms by (simp add: planned_def plan_allows_def)

lemma created_schedule:
  fixes w :: "'b World"
  assumes "createSchedule env ops now ctx r w = (writeJSON c sched, w')"
  shows "plan_ok env (pnScope (principalFromContext ctx)) w sched \<and> GetScheduledJob (sID sched) (wStore w') = Inr sched
    \<and> scheduleWriteAllowed ctx"
proof -
  from assms obtain req where b: "scheduleWriteAllowed ctx" "hrBody r = Some req" by (auto simp: createSchedule_def split: if_splits option.splits)
  obtain x w1 where x: "validateScheduleRequest env ops now ctx r req True w = (x, w1)" by (metis surj_pair)
  from assms b x obtain d where v: "validateScheduleRequest env ops now ctx r req True w = (Inr d, w1)"
    by (cases x) (auto simp: createSchedule_def)
  from assms b v have s: "sTool sched = rqTool (sdCreateReq d)" "sTarget sched = rqTarget (sdCreateReq d)" "sArgs sched = rqArgs (sdCreateReq d)"
      "sIPVersion sched = sdScheduleVersion d" "sResolveOnAgent sched = rqResolveOnAgent (sdCreateReq d)"
      "sScheduleTargets sched = sdScheduleTargets d"
    and st: "wStore w' = CreateScheduledJob sched (wStore w1)"
    by (auto simp: createSchedule_def newUUID_def Let_def)
  from plan_of_details [OF v s(1-5)] s(6) st b(1) show ?thesis
    by (simp add: plan_ok_def GetScheduledJob_def CreateScheduledJob_def)
qed

lemma updated_simps:
  "sTool (updated_schedule now old req d) = rqTool (sdCreateReq d)" "sTarget (updated_schedule now old req d) = rqTarget (sdCreateReq d)"
  "sArgs (updated_schedule now old req d) = rqArgs (sdCreateReq d)" "sIPVersion (updated_schedule now old req d) = sdScheduleVersion d"
  "sResolveOnAgent (updated_schedule now old req d) = rqResolveOnAgent (sdCreateReq d)" "sID (updated_schedule now old req d) = sID old"
  by (simp_all add: updated_schedule_def Let_def)

lemma updated_targets:
  "sScheduleTargets (updated_schedule now old req d) = sdScheduleTargets d
   \<or> (\<exists>ts b. sScheduleTargets (updated_schedule now old req d) = mergeScheduleTargetRunState (sdScheduleTargets d) ts b)"
  by (auto simp: updated_schedule_def Let_def)

lemma written_schedule:
  fixes w :: "'b World"
  assumes "updateSchedule env ops now ctx r w = (writeJSON c sched, w')"
  shows "plan_ok env (pnScope (principalFromContext ctx)) w sched \<and> GetScheduledJob (sID sched) (wStore w') = Inr sched
    \<and> scheduleWriteAllowed ctx"
proof -
  from assms obtain req old where b: "scheduleWriteAllowed ctx" "hrBody r = Some req" "GetScheduledJob (hrID r) (wStore w) = Inr old"
    by (auto simp: updateSchedule_def split: if_splits option.splits sum.splits)
  obtain x w1 where x: "validateScheduleRequest env ops now ctx r req (sEnabled old) w = (x, w1)" by (metis surj_pair)
  from assms b x obtain d where v: "validateScheduleRequest env ops now ctx r req (sEnabled old) w = (Inr d, w1)"
    by (cases x) (auto simp: updateSchedule_def)
  from assms b v obtain m where s: "sched = updated_schedule now old req d" and st: "UpdateScheduledJob sched (wStore w1) = Inr m" "wStore w' = m"
    by (auto simp: updateSchedule_def Let_def split: sum.splits)
  note p = plan_of_details [OF v updated_simps(1-5) [of now old req d]]
  have "plan_ok env (pnScope (principalFromContext ctx)) w sched"
    using updated_targets [of now old req d] p(1-3) unfolding s plan_ok_def by (metis merge_plan)
  moreover have "GetScheduledJob (sID sched) (wStore w') = Inr sched"
    using st unfolding st(2) by (auto simp: UpdateScheduledJob_def GetScheduledJob_def split: option.splits)
  ultimately show ?thesis using b(1) by blast
qed

end
