(* ===== verification/ApiClaims.thy ===== *)
theory ApiClaims
  imports ApiPlans HubClaims
begin

text \<open>
  Properties of the API server. \<open>example_world\<close> is the server on the concrete system of the hub, in
  front of a store with the default settings.
\<close>


section \<open>A concrete server\<close>

definition example_server :: "int Server" where
  "example_server =
     \<lparr>svPolicies = DefaultPolicies, svLabelConfigs = None, svLimiter = example_limiter, svTokens = [], svRequireAuth = True,
      svGeoIPURL = [], svClientIP = \<lparr>crTrustedProxies = [], crClientIPHeaders = []\<rparr>\<rparr>"

definition example_aenv :: aenv where
  "example_aenv =
     \<lparr>aeTime = \<lparr>teParseRFC3339 = (\<lambda>_. None), teFormatRFC3339Nano = (\<lambda>_. [])\<rparr>,
      aeInfo = \<lparr>inVersion = ''1'', inCommit = [], inBuiltAt = []\<rparr>, aeGeoIP = (\<lambda>_ _. Answer 200 None)\<rparr>"

definition example_world :: "int World" where
  "example_world = \<lparr>wSys = example_sys, wServer = example_server\<rparr>"

lemma example_uuid_ok: "uuid_ok (heUUID example_env)"
  by (auto simp: uuid_ok_def example_env_def graphic_def list_all_iff intro!: TrimSpace_graphic)

definition example_request :: "'p option \<Rightarrow> 'p Request" where
  "example_request body =
     \<lparr>hrRemoteAddr = ''@'', hrHeader = [(''Authorization'', [''Bearer u''])], hrQuery = (\<lambda>_. []),
      hrID = ''uu'', hrBody = body\<rparr>"

definition example_saved :: "(int \<times> error + ManagedSettings) \<times> int World" where
  "example_saved = saveManagedSettings example_env 7 (mSettings (wStore example_world)) example_world"

lemma example_saved_code:
  "case example_saved of
     (Inr saved, w') \<Rightarrow>
       map (\<lambda>t. (atID t, atSecret t, atAll t)) (msAPITokens saved) = [(''uu'', ''u'', True)]
       \<and> fst (AllowRequest counter_ops 9 9 9 (Resolve (svClientIP (wServer w')) ''@'' [(''Authorization'', [''Bearer u''])])
                (svLimiter (wServer w')))
   | _ \<Rightarrow> False"
  by code_simp

lemma example_save:
  obtains saved w' tok limiter where
    "saveManagedSettings example_env 7 (mSettings (wStore example_world)) example_world = (Inr saved, w')"
    "msAPITokens saved = [tok]" "atSecret tok = ''u''" "atAll tok" "atID tok = ''uu''"
    "AllowRequest counter_ops 9 9 9 (Resolve (svClientIP (wServer w')) (hrRemoteAddr (example_request b)) (hrHeader (example_request b)))
       (svLimiter (wServer w')) = (True, limiter)"
  using example_saved_code that
  by (auto simp: example_saved_def example_request_def prod_eq_iff split: prod.splits sum.splits)

lemma example_presented: "presented_token (example_request b) = Some ''u''"
proof -
  have "bearerToken (header_get [(''Authorization'', [''Bearer u''])] ''Authorization'') = Some ''u''" by code_simp
  then show ?thesis by (simp add: presented_token_def example_request_def)
qed


section \<open>Settings\<close>

text \<open>
  (C18) Saved settings are in force: when the server has saved settings, the store holds them under
  the next revision, and for every agent the policies by which the server accepts jobs are the
  policies by which the hub dispatches them.
\<close>

theorem saved_settings_in_force:
  assumes u: "uuid_ok (heUUID env)" and ok: "store_ok (wStore w)" and p: "hbPolicies (sysHub (wSys w)) = DefaultPolicies"
    and save: "saveManagedSettings env now settings w = (Inr saved, w')"
  shows "mSettings (wStore w') = saved \<and> msRevision saved = msRevision settings + 1
    \<and> msRevision settings = msRevision (mSettings (wStore w))
    \<and> (\<forall>agentID. api_policiesForAgent agentID w' = policiesForAgent agentID (wSys w'))
    \<and> (\<forall>labels. api_policiesForLabels labels (wServer w') = hub_policiesForLabels labels (wSys w'))"
  using u save
proof (rule save_ok)
  fix st1 n rt
  assume rev: "msRevision settings = msRevision (mSettings (wStore w))"
    and saved: "saved = st1\<lparr>msRevision := msRevision (mSettings (wStore w)) + 1, msUpdatedAt := now\<rparr>"
    and sv: "wServer w' = (wServer w)\<lparr>svPolicies := DefaultPolicies, svLabelConfigs := msLabelConfigs saved, svLimiter := mrLimiter rt,
       svTokens := token_scopes (TokenConfigsFromPermissions (msAPITokens saved)), svRequireAuth := True\<rparr>"
    and sys: "wSys w' = ApplySettings env saved ((wSys w)\<lparr>sysUUID := n, sysStore := (wStore w)\<lparr>mSettings := saved\<rparr>\<rparr>)"
    and normal: "\<And>n. NormalizeManagedSettings (heUUID env) n saved = (saved, n, None)"
  note a = ApplySettings_normal [OF normal]
  have hub: "svPolicies (wServer w') = hbPolicies (sysHub (wSys w'))" "svLabelConfigs (wServer w') = hbLabelConfigs (sysHub (wSys w'))"
    by (simp_all add: sv sys a p)
  have store: "wStore w' = (wStore w)\<lparr>mSettings := saved\<rparr>" by (simp add: sys a)
  with ok have "store_ok (wStore w')" by (simp add: store_ok_def)
  then show ?thesis
    by (auto simp: api_policiesForAgent_eq api_policiesForLabels_eq hub policiesForAgent_def settingsForAgent_def settingsForLabels_def
        Let_def policiesForLabels_def hub_policiesForLabels_def store rev saved)
qed

theorem saved_settings_in_force_witness:
  "\<exists>saved w'. saveManagedSettings example_env 7 (mSettings (wStore example_world)) example_world = (Inr saved, w')
     \<and> mSettings (wStore w') = saved \<and> api_policiesForAgent ''a'' w' = policiesForAgent ''a'' (wSys w')"
proof -
  obtain saved w' tok where save: "saveManagedSettings example_env 7 (mSettings (wStore example_world)) example_world = (Inr saved, w')"
    by (rule example_save)
  have "store_ok (wStore example_world)" "hbPolicies (sysHub (wSys example_world)) = DefaultPolicies"
    by (simp_all add: example_world_def example_sys_def NewMemory_def NewHub_def store_ok_def case_prod_unfold Let_def)
  from saved_settings_in_force [OF example_uuid_ok this save] save show ?thesis by blast
qed

text \<open>
  (C17) Only saved tokens are served: after settings were saved, a request that the rate limiter lets
  pass is handled under the scope of the saved token whose secret it presents, as a bearer token
  or in the query; without one it is refused with status 401 and changes nothing but the limiter.
\<close>

theorem only_saved_tokens_served:
  assumes "uuid_ok (heUUID env)" and "saveManagedSettings env now settings w = (Inr saved, w')"
    and "AllowRequest ops t t t (Resolve (svClientIP (wServer w')) (hrRemoteAddr r) (hrHeader r)) (svLimiter (wServer w')) = (True, limiter)"
  defines "w1 \<equiv> w'\<lparr>wServer := (wServer w')\<lparr>svLimiter := limiter\<rparr>\<rparr>"
  shows "case find (\<lambda>tok. presented_token r = Some (atSecret tok)) (msAPITokens saved) of
      Some tok \<Rightarrow> auth ops t handler r w' =
        handler (Some \<lparr>pnToken = atSecret tok, pnScope = normalizeTokenScope (tcScope (token_config tok))\<rparr>) r w1
    | None \<Rightarrow> \<exists>e. auth ops t handler r w' = (writeError 401 e, w1)"
proof (cases "find (\<lambda>tok. presented_token r = Some (atSecret tok)) (msAPITokens saved)")
  case None
  then have none: "\<not> (\<exists>tok\<in>set (msAPITokens saved). presented_token r = Some (atSecret tok))" by (auto simp: find_None_iff)
  then have "\<exists>e. authenticate (svTokens (wServer w')) (svRequireAuth (wServer w')) r = Inl e"
    using authenticate_saved [OF assms(1,2)] by (metis obj_sumE)
  with None assms(3) show ?thesis by (auto simp: auth_def w1_def)
next
  case (Some tok)
  then have "tok \<in> set (msAPITokens saved)" "presented_token r = Some (atSecret tok)" by (auto simp: find_Some_iff)
  then have "authenticate (svTokens (wServer w')) (svRequireAuth (wServer w')) r =
      Inr \<lparr>pnToken = atSecret tok, pnScope = normalizeTokenScope (tcScope (token_config tok))\<rparr>"
    using authenticate_saved [OF assms(1,2)] by metis
  with Some assms(3) show ?thesis by (simp add: auth_def w1_def)
qed

theorem only_saved_tokens_served_witness:
  "\<exists>saved w' p w1. saveManagedSettings example_env 7 (mSettings (wStore example_world)) example_world = (Inr saved, w')
     \<and> auth counter_ops 9 getPermissions (example_request (None :: unit option)) w' =
         getPermissions (Some p) (example_request (None :: unit option)) w1 \<and> pnToken p = ''u''"
proof -
  let ?r = "example_request None :: unit Request"
  obtain saved w' tok limiter where save: "saveManagedSettings example_env 7 (mSettings (wStore example_world)) example_world = (Inr saved, w')"
    and t: "msAPITokens saved = [tok]" "atSecret tok = ''u''" "atAll tok" "atID tok = ''uu''"
    and l: "AllowRequest counter_ops 9 9 9 (Resolve (svClientIP (wServer w')) (hrRemoteAddr ?r) (hrHeader ?r)) (svLimiter (wServer w')) = (True, limiter)"
    by (rule example_save [where b = "None :: unit option"])
  define p where "p = \<lparr>pnToken = ''u'', pnScope = normalizeTokenScope (tcScope (token_config tok))\<rparr>"
  have "auth counter_ops 9 getPermissions ?r w' = getPermissions (Some p) ?r (w'\<lparr>wServer := (wServer w')\<lparr>svLimiter := limiter\<rparr>\<rparr>)"
    using only_saved_tokens_served [OF example_uuid_ok save l, of getPermissions] t example_presented [of "None :: unit option"]
    by (simp add: p_def)
  moreover have "pnToken p = ''u''" by (simp add: p_def)
  ultimately show ?thesis using save by blast
qed


section \<open>Runs of the program\<close>

text \<open>
  (C1) The program refines the life cycle of jobs: in every run of the hub and the API server
  together (requests of all kinds with any body, dispatch, results, timeouts, schedules, HTTP
  agents), started on a store without jobs, jobs evolve by the steps of the abstract specification
  \<open>vstep\<close>, and the invariant of the jobs holds at the end.
\<close>

theorem program_refines_lifecycle:
  assumes u: "uuid_fresh (heUUID env)"
    and start: "jobs_of (wSys w) = []" "sysSent (wSys w) = []" "hbRunning (sysHub (wSys w)) = []"
    and run: "(api_step env ae ops)\<^sup>*\<^sup>* w w'"
  shows "(vstep (heUUID env))\<^sup>*\<^sup>* (view (wSys w)) (view (wSys w')) \<and> sys_ok env (wSys w')"
proof -
  have ok: "sys_ok env (wSys w)" by (rule sys_ok_start [OF start])
  have "evolves env (wSys w) (wSys w')"
    using api_run_runs [OF u run] hub_run_evolves [OF u ok] by (simp add: runs_def)
  with evolves_ok(1) [OF u ok this] sys_okD(1) [OF ok] show ?thesis by (simp add: evolves_def)
qed

theorem program_refines_lifecycle_witness:
  "\<exists>w'. (api_step example_env example_aenv counter_ops)\<^sup>*\<^sup>* example_world w' \<and> jobs_of (wSys w') \<noteq> [] \<and> sys_ok example_env (wSys w')"
proof -
  let ?w = "example_world\<lparr>wSys := example_created\<rparr>"
  have "api_step example_env example_aenv counter_ops example_world ?w"
    by (rule api_step.hub) (simp add: example_world_def example_create)
  then have run: "(api_step example_env example_aenv counter_ops)\<^sup>*\<^sup>* example_world ?w" by (rule r_into_rtranclp)
  have "jobs_of (wSys example_world) = []" "sysSent (wSys example_world) = []" "hbRunning (sysHub (wSys example_world)) = []"
    by (simp_all add: example_world_def example_start)
  from program_refines_lifecycle [OF example_fresh this run] run
  show ?thesis by (auto intro!: exI [of _ ?w] simp: example_jobs example_fanout_def)
qed


section \<open>Jobs\<close>

text \<open>
  (C5) A job that a request puts into the queue is permitted: it names an agent that is online,
  enabled, has the tool and speaks the IP version of the job; the policies of this agent's labels
  accept the job; the token of the request may use the tool and the agent; and unless the agent
  resolves the name itself, the address it is sent to is not a refused one.
\<close>

theorem created_jobs_permitted:
  fixes w :: "'b World"
  assumes ok: "store_ok (wStore w)"
    and c: "createJob env ops now ctx r w = (writeJSON c job, w')"
    and new: "GetJob jid (wStore w') = Inr j" "GetJob jid (wStore w) = Inl e" and q: "jStatus j = JobQueued"
  defines "scope \<equiv> pnScope (principalFromContext ctx)"
  shows "\<exists>agent v. agent \<in> set (api_agentsWithManagedLabels (wStore w)) \<and> aID agent = jAgentID j
    \<and> AgentSupports agent (jTool j) (jIPVersion j) \<and> \<not> agentDisabled (wStore w) (aID agent)
    \<and> is_ok (Validate (heNet env) (api_policiesForLabels (aLabels agent) (wServer w))
        \<lparr>rqTool = jTool j, rqTarget = jTarget j, rqArgs = jArgs j, rqIPVersion = v, rqAgentID = jAgentID j,
         rqResolveOnAgent = jResolveOnAgent j\<rparr>)
    \<and> (tkAll scope \<or> mget (tkTools scope) (jTool j) \<noteq> None \<and> scopeAllowsAgentRecord scope agent)
    \<and> (jResolveOnAgent j \<or> (\<exists>ip. jResolvedTarget j = IP_String ip \<and> \<not> refused_ip ip))"
proof -
  from createJob_ok [OF c] obtain req and w1 :: "'b World"
    where acc: "accept_job env now ctx req (api_policiesForJob req w1) w1 = (writeJSON c job, w')" and lm: "limited w w1" by metis
  from lm have ok1: "store_ok (wStore w1)" and new1: "GetJob jid (wStore w1) = Inl e" using ok new(2) by (simp_all add: limited_simps)
  from accept_job_ok [OF acc] obtain options where
    v: "is_ok (Validate (heNet env) (api_policiesForJob req w1) req)" and au: "authorizeJob ctx req w1 = Inr ()"
    and d: "dispatchOptions (heNet env) req (api_policiesForJob req w1) = Inr options"
    and cr: "(if rqAgentID req = [] then create_fanout env now ctx req options w1 else create_pinned env now req options w1)
      = (writeJSON c job, w')" by metis
  have "\<exists>agent t. permitted env req w agent t \<and> job_of req t j \<and> (\<exists>opt\<in>set options. dtResolvedTarget t = dtResolvedTarget opt)
    \<and> (tkAll scope \<or> scopeAllowsAgentRecord scope agent)"
  proof (cases "rqAgentID req = []")
    case True
    with cr have "create_fanout env now ctx req options w1 = (writeJSON c job, w')" by simp
    from create_fanout_new [OF this new(1) new1 q] fanout_permitted show ?thesis
      unfolding scope_def permitted_limited [OF lm, symmetric] by blast
  next
    case False
    with cr have "create_pinned env now req options w1 = (writeJSON c job, w')" by simp
    from create_pinned_new [OF this new(1) new1 q] obtain t where
      p: "pinnedDispatchTarget (rqAgentID req) (rqTool req) options w1 = Inr (t, [])" "job_of req t j" by metis
    from v False have "is_ok (Validate (heNet env) (api_policiesForAgent (rqAgentID req) w1) req)"
      by (simp add: api_policiesForJob_def)
    from pinned_permitted [OF ok1 p(1) this] p(2) authorized(2) [OF au _ False] show ?thesis
      unfolding scope_def permitted_limited [OF lm, symmetric] by metis
  qed
  then obtain agent t where h: "permitted env req w agent t" "job_of req t j" "\<exists>opt\<in>set options. dtResolvedTarget t = dtResolvedTarget opt"
    "tkAll scope \<or> scopeAllowsAgentRecord scope agent" by blast
  have "jResolveOnAgent j \<or> (\<exists>ip. jResolvedTarget j = IP_String ip \<and> \<not> refused_ip ip)"
    using dispatchOptions_allowed [OF d] h(2,3) by (auto simp: targets_allowed_def job_of_def allowed_text_def list_all_iff)
  moreover have "tkAll scope \<or> mget (tkTools scope) (jTool j) \<noteq> None"
    using authorized(1) [OF au] h(2) by (auto simp: scope_def job_of_def)
  moreover have "withAgentID req (aID agent) =
      \<lparr>rqTool = jTool j, rqTarget = jTarget j, rqArgs = jArgs j, rqIPVersion = rqIPVersion req, rqAgentID = jAgentID j,
       rqResolveOnAgent = jResolveOnAgent j\<rparr>"
    using h(1,2) by (simp add: withAgentID_def job_of_def permitted_def)
  ultimately show ?thesis using h unfolding permitted_def job_of_def by metis
qed

definition example_agent :: Agent where
  "example_agent =
     \<lparr>aID = ''a'', aCountry = [], aRegion = [], aProvider = [], aISP = [], aVersion = [], aLabels = [], aTokenHash = [],
      aCapabilities = [ToolDNS], aProtocols = 3, aStatus = AgentOnline, aLastSeenAt = 6, aCreatedAt = 5\<rparr>"

definition example_online :: "int World" where
  "example_online = example_world\<lparr>wSys := set_store (UpsertAgent example_agent (wStore example_world)) example_sys\<rparr>"

definition example_ask :: CreateJobRequest where
  "example_ask =
     \<lparr>rqTool = ToolDNS, rqTarget = ''example.org'', rqArgs = [], rqIPVersion = IPAny, rqAgentID = ''a'', rqResolveOnAgent = True\<rparr>"

definition example_all :: principal where
  "example_all = \<lparr>pnToken = ''u'', pnScope = allTokenScope\<rparr>"

definition example_policies :: Set where
  "example_policies = policiesForLabels DefaultPolicies None []"

lemma example_ask_ok:
  "is_ok (Validate (heNet example_env) example_policies example_ask)"
  "Set_ServerArgs example_policies ToolDNS [] = []"
  "dispatchOptions (heNet example_env) example_ask example_policies = Inr [zero_target]"
  "mget (byTool example_policies) ToolDNS \<noteq> None"
  "fst (AllowTool counter_ops 9 9 9 ToolDNS (Some (Resolve (svClientIP example_server) ''@'' [(''Authorization'', [''Bearer u''])]))
     example_limiter)"
  by code_simp+

lemma example_store:
  "mAgents (wStore example_online) = [(''a'', example_agent)]" "mHTTPAgents (wStore example_online) = []"
  "mAgentCfgs (wStore example_online) = []" "jobs_of (wSys example_online) = []" "sysUUID (wSys example_online) = 2"
  "wServer example_online = example_server" "store_ok (wStore example_online)"
  by (simp_all add: example_online_def example_world_def example_sys_def example_agent_def UpsertAgent_def NewMemory_def store_ok_def
      keyed_def mwf_def case_prod_unfold Let_def)

lemma example_agent_policies:
  "api_policiesForAgent aid example_online = example_policies"
  "api_policiesForLabels labels example_server = example_policies"
  by (simp_all add: api_policiesForAgent_eq example_store api_policiesForLabels_eq example_policies_def policiesForLabels_def
      example_server_def toolPoliciesForLabels_def labelConfigsFor_def List.map_filter_def)

lemma example_pinned:
  "pinnedDispatchTarget ''a'' ToolDNS [zero_target] example_online = Inr (zero_target\<lparr>dtAgentID := ''a''\<rparr>, [])"
proof -
  obtain ls where "api_agentsWithManagedLabels (wStore example_online) = [example_agent\<lparr>aLabels := ls\<rparr>]"
    by (auto simp: api_agentsWithManagedLabels_def ListAgents_def ListAgentConfigs_def ListHTTPAgents_def example_store)
  moreover have "\<not> agentDisabled (wStore example_online) ''a''"
    by (simp add: agentDisabled_def GetHTTPAgent_def GetAgentConfig_def zero_AgentConfig_def example_store)
  ultimately show ?thesis
    using example_ask_ok(4)
    by (simp add: pinnedDispatchTarget_def example_store example_agent_policies selectDispatchTargetWithFailure_def example_agent_def
        zero_target_def RequiredProtocol_def Let_def)
qed

theorem created_jobs_permitted_witness:
  "\<exists>job w' agent. createJob example_env counter_ops 9 (Some example_all) (example_request (Some example_ask)) example_online
       = (writeJSON 202 job, w')
     \<and> GetJob (jID job) (wStore w') = Inr job \<and> aID agent = ''a'' \<and> AgentSupports agent ToolDNS (jIPVersion job)"
proof -
  let ?r = "example_request (Some example_ask)"
  let ?j = "pinned_job 9 example_ask (heUUID example_env 2) (zero_target\<lparr>dtAgentID := ''a''\<rparr>) []"
  have req: "example_ask\<lparr>rqAgentID := ''a'', rqArgs := Set_ServerArgs example_policies ToolDNS (rqArgs example_ask)\<rparr> = example_ask"
    by (simp add: example_ask_def example_ask_ok(2))
  have h: "hrBody ?r = Some example_ask" "TrimSpace (rqAgentID example_ask) = ''a''" "rqTool example_ask = ToolDNS"
    "tkAll (pnScope (principalFromContext (Some example_all)))"
    "hrRemoteAddr ?r = ''@''" "hrHeader ?r = [(''Authorization'', [''Bearer u''])]" "svLimiter example_server = example_limiter"
    by (simp_all add: example_request_def example_ask_def example_all_def principalFromContext_def allTokenScope_def example_server_def
        TrimSpace_graphic graphic_def)
  note c0 = createJob_pinned [OF example_store(7) h(1) _ h(2) _ _ h(4), where ops = counter_ops and now = 9 and env = example_env
      and options = "[zero_target]" and t = "zero_target\<lparr>dtAgentID := ''a''\<rparr>",
      unfolded example_agent_policies example_store h, unfolded req, OF example_ask_ok(5) _ example_ask_ok(1,3) example_pinned]
  obtain w' where c: "createJob example_env counter_ops 9 (Some example_all) ?r example_online = (writeJSON 202 ?j, w')"
    and s: "wStore w' = CreateJob ?j (wStore example_online)"
    by (rule c0) simp_all
  have j: "GetJob (jID ?j) (wStore w') = Inr ?j" "GetJob (jID ?j) (wStore example_online) = Inl ErrNotFound"
    by (simp_all add: s GetJob_def CreateJob_def example_store)
  moreover have "jStatus ?j = JobQueued" "jAgentID ?j = ''a''" "jTool ?j = ToolDNS" by (simp_all add: pinned_job_def example_ask_def)
  ultimately show ?thesis using created_jobs_permitted [OF example_store(7) c j] c by metis
qed


section \<open>Access\<close>

text \<open>
  (C16) Changes need access: of all requests that the server answers, only those of a token with
  write access to the management change the settings, the agents, or the tokens and policies in
  force; only those of a token with write access to schedules change a schedule; and jobs and
  events come only from the route that creates jobs, for a token that was accepted.
\<close>

theorem changes_need_access:
  assumes "serve env ae ops now route r w = (status, w')"
  shows "(cfg_of w' \<noteq> cfg_of w \<longrightarrow> (\<exists>p. who w r = Inr p \<and> effectiveManageAccess (pnScope p) = ScheduleAccessWrite))
    \<and> (mSchedules (wStore w') \<noteq> mSchedules (wStore w) \<longrightarrow>
        (\<exists>p. who w r = Inr p \<and> effectiveScheduleAccess (pnScope p) = ScheduleAccessWrite))
    \<and> (work_of w' \<noteq> work_of w \<longrightarrow> (\<exists>p body. who w r = Inr p \<and> route = PostJob body))"
  using assms serve_cfg [of env ae ops now route r w] serve_schedules [of env ae ops now route r w]
    serve_work [of env ae ops now route r w]
  by (simp add: manageWriteAllowed_def scheduleWriteAllowed_def principalFromContext_def)

definition example_reader :: "int World" where
  "example_reader = example_world\<lparr>wServer := example_server\<lparr>svTokens := [(''u'', allTokenScope
     \<lparr>tkAll := False, tkManageAccess := ScheduleAccessRead, tkScheduleAccess := ScheduleAccessRead\<rparr>)]\<rparr>\<rparr>"

theorem changes_need_access_witness:
  "cfg_of (snd (serve example_env example_aenv counter_ops 9 RotateToken (example_request None) example_reader)) = cfg_of example_reader
   \<and> mSchedules (wStore (snd (serve example_env example_aenv counter_ops 9 DelSchedule (example_request None) example_reader)))
     = mSchedules (wStore example_reader)"
proof -
  have "who example_reader (example_request None :: unit Request) = Inr p \<Longrightarrow>
      effectiveManageAccess (pnScope p) \<noteq> ScheduleAccessWrite \<and> effectiveScheduleAccess (pnScope p) \<noteq> ScheduleAccessWrite" for p
    using example_presented [of "None :: unit option"]
    by (auto simp: who_def authenticate_tokens example_reader_def effectiveManageAccess_def effectiveScheduleAccess_def access_defs
        split: if_splits)
  then show ?thesis
    using changes_need_access [of example_env example_aenv counter_ops 9 RotateToken "example_request None" example_reader, OF surjective_pairing]
      changes_need_access [of example_env example_aenv counter_ops 9 DelSchedule "example_request None" example_reader, OF surjective_pairing]
    by blast
qed


section \<open>Schedules\<close>

text \<open>
  (C19) A saved schedule stays within the scope of its author: when a schedule was created or changed,
  the author may write schedules, the schedule is in the store, it has targets with different
  labels and intervals between ten seconds and a day, and every agent on which a target may ever run
  carried its label, was usable by the author, online with the tool, and allowed the
  request by the policies of its labels.
\<close>

theorem schedules_within_scope:
  assumes "createSchedule env ops now ctx r w = (writeJSON c sched, w') \<or> updateSchedule env ops now ctx r w = (writeJSON c sched, w')"
  shows "scheduleWriteAllowed ctx \<and> GetScheduledJob (sID sched) (wStore w') = Inr sched
    \<and> sScheduleTargets sched \<noteq> [] \<and> distinct (map stLabel (sScheduleTargets sched))
    \<and> (\<forall>t\<in>set (sScheduleTargets sched). 10 \<le> stIntervalSeconds t \<and> stIntervalSeconds t \<le> 86400
        \<and> (\<forall>aid. scheduledTargetAllowsAgent t aid \<longrightarrow>
            (\<exists>agent\<in>set (api_agentsWithManagedLabels (wStore w)). aID agent = aid
              \<and> scheduleTargetMatchesAgent (stLabel t) agent \<and> scopeAllowsAgentRecord (pnScope (principalFromContext ctx)) agent
              \<and> AgentSupports agent (sTool sched) (sIPVersion sched)
              \<and> (\<exists>v. is_ok (ValidateSchedule (heNet env) (api_policiesForLabels (aLabels agent) (wServer w))
                   \<lparr>rqTool = sTool sched, rqTarget = sTarget sched, rqArgs = sArgs sched, rqIPVersion = v,
                    rqAgentID = aID agent, rqResolveOnAgent = sResolveOnAgent sched\<rparr>)))))"
proof -
  from assms have "plan_ok env (pnScope (principalFromContext ctx)) w sched"
    "GetScheduledJob (sID sched) (wStore w') = Inr sched" "scheduleWriteAllowed ctx"
    using created_schedule written_schedule by blast+
  then show ?thesis unfolding plan_ok_def planned_def plan_allows_def list_all_iff by blast
qed

definition example_plan :: CreateScheduledJobRequest where
  "example_plan =
     \<lparr>csName = ''n'', csEnabled = None, csTool = ToolDNS, csTarget = ''example.org'', csArgs = [], csIPVersion = IPAny,
      csResolveOnAgent = True, csScheduleTargets = [\<lparr>sqLabel = ''agent'', sqIntervalSeconds = 60\<rparr>]\<rparr>"

lemma example_plan_ok:
  "is_ok (ValidateSchedule (heNet example_env) example_policies (example_ask\<lparr>rqAgentID := []\<rparr>))"
  "is_ok (ValidateSchedule (heNet example_env) example_policies example_ask)"
  "dispatchOptions (heNet example_env) (example_ask\<lparr>rqAgentID := []\<rparr>) example_policies = Inr [zero_target]"
  "LiteralIPVersion (heNet example_env) ToolDNS ''example.org'' = Inr None"
  "schedule_targets (heUUID example_env) 9 0 [] (csScheduleTargets example_plan) 2 =
     (Inr [\<lparr>stID = ''uuu'', stLabel = ''agent'', stAllowedAgentIDs = [], stIntervalSeconds = 60, stNextRunAt = 9, stLastRunAt = None\<rparr>], 3)"
  "NormalizeAgentLabels ''a'' AgentTransportGRPC [] = [''agent'', ''agent:grpc'', ''id:a'']"
  by code_simp+

definition example_target :: "string list \<Rightarrow> ScheduleTarget" where
  "example_target allowed =
     \<lparr>stID = ''uuu'', stLabel = ''agent'', stAllowedAgentIDs = allowed, stIntervalSeconds = 60, stNextRunAt = 9, stLastRunAt = None\<rparr>"

definition example_planning :: "int Limiter \<Rightarrow> int World" where
  "example_planning l =
     example_online\<lparr>wSys := (wSys example_online)\<lparr>sysUUID := 3\<rparr>, wServer := example_server\<lparr>svLimiter := l\<rparr>\<rparr>"

lemma example_planning_policies:
  "api_policiesForLabels ls (wServer (example_planning l)) = example_policies"
  "api_policiesForJob (example_ask\<lparr>rqAgentID := []\<rparr>) (example_planning l) = example_policies"
  by (simp_all add: example_planning_def api_policiesForJob_def example_agent_policies)

lemma example_planning_agents:
  "api_agentsWithManagedLabels (wStore (example_planning l)) = [example_agent\<lparr>aLabels := [''agent'', ''agent:grpc'', ''id:a'']\<rparr>]"
proof -
  have "aID example_agent = ''a''" by (simp add: example_agent_def)
  then show ?thesis
    by (simp add: example_planning_def api_agentsWithManagedLabels_def ListAgents_def ListAgentConfigs_def ListHTTPAgents_def
      example_store example_plan_ok(6))
qed

lemma example_schedule_agent:
  "schedule_agent example_env allTokenScope (example_ask\<lparr>rqAgentID := []\<rparr>) IPAny ''agent'' (example_planning l)
     (example_agent\<lparr>aLabels := [''agent'', ''agent:grpc'', ''id:a'']\<rparr>)"
proof -
  have e: "example_ask\<lparr>rqAgentID := [], rqAgentID := ''a''\<rparr> = example_ask" by (simp add: example_ask_def)
  have q: "rqTool example_ask = ToolDNS" by (simp add: example_ask_def)
  show ?thesis
    using example_plan_ok(2) e
    by (simp add: schedule_agent_def scheduleTargetMatchesAgent_def q example_planning_policies scopeAllowsAgentRecord_def scopeAllowsAgent_def
        scopeAllowsAllAgents_def allTokenScope_def stringListContains_def AgentSupports_def example_agent_def RequiredProtocol_def)
qed

lemma example_schedule_details:
  "schedule_details example_env (Some example_all) (example_ask\<lparr>rqAgentID := []\<rparr>) True [example_target []] (example_planning l) =
     Inr \<lparr>sdCreateReq = example_ask\<lparr>rqAgentID := []\<rparr>, sdScheduleVersion = IPAny, sdEnabled = True,
          sdScheduleTargets = [example_target [''a'']]\<rparr>"
proof -
  let ?ask = "example_ask\<lparr>rqAgentID := []\<rparr>"
  have all: "pnScope (principalFromContext (Some example_all)) = allTokenScope" "tkAll allTokenScope"
    by (simp_all add: principalFromContext_def example_all_def allTokenScope_def)
  obtain u where v: "ValidateSchedule (heNet example_env) example_policies ?ask = Inr u"
    using example_plan_ok(1) by (auto simp: is_ok_iff)
  have au: "authorizeScheduleTargets example_env (Some example_all) ?ask IPAny [example_target []] (example_planning l)
      = Inr [example_target [''a'']]"
    using example_schedule_agent [of l]
    by (simp add: authorizeScheduleTargets_def all example_planning_agents example_target_def example_agent_def)
  have aj: "authorizeJob (Some example_all) ?ask (example_planning l) = Inr ()" by (simp add: authorizeJob_def all)
  have ask: "rqTool example_ask = ToolDNS" "rqArgs example_ask = []" "rqTarget example_ask = ''example.org''" "rqIPVersion example_ask = IPAny"
    by (simp_all add: example_ask_def)
  have e: "?ask\<lparr>rqArgs := []\<rparr> = ?ask" by (simp add: example_ask_def)
  show ?thesis
    by (simp add: schedule_details_def example_planning_policies ask example_ask_ok(2) e v aj example_plan_ok(3,4) au)
qed

theorem schedules_within_scope_witness:
  "\<exists>sched w'. createSchedule example_env counter_ops 9 (Some example_all) (example_request (Some example_plan)) example_online
       = (writeJSON 201 sched, w')
     \<and> GetScheduledJob (sID sched) (wStore w') = Inr sched \<and> distinct (map stLabel (sScheduleTargets sched))"
proof -
  let ?r = "example_request (Some example_plan)" and ?ask = "example_ask\<lparr>rqAgentID := []\<rparr>"
  obtain a l where al: "AllowTool counter_ops 9 9 9 ToolDNS (Some (Resolve (svClientIP example_server) ''@'' [(''Authorization'', [''Bearer u''])]))
     example_limiter = (a, l)" by (metis surj_pair)
  with example_ask_ok(5) have l: "AllowTool counter_ops 9 9 9 ToolDNS
     (Some (Resolve (svClientIP example_server) ''@'' [(''Authorization'', [''Bearer u''])])) example_limiter = (True, l)" by simp
  have plan: "csTool example_plan = ToolDNS" "csTarget example_plan = ''example.org''" "csArgs example_plan = []" "csIPVersion example_plan = IPAny"
    "csResolveOnAgent example_plan = True" "csEnabled example_plan = None"
    and ask: "\<lparr>rqTool = ToolDNS, rqTarget = ''example.org'', rqArgs = [], rqIPVersion = IPAny, rqAgentID = [], rqResolveOnAgent = True\<rparr> = ?ask"
    and ne: "csScheduleTargets example_plan \<noteq> []" and lim: "svLimiter example_server = example_limiter"
    and r: "hrRemoteAddr ?r = ''@''" "hrHeader ?r = [(''Authorization'', [''Bearer u''])]" "hrBody ?r = Some example_plan"
    by (simp_all add: example_plan_def example_ask_def example_server_def example_request_def)
  have "scheduleTargetsFromRequest (heUUID example_env) example_plan 9 2 = (Inr [example_target []], 3)"
    using ne example_plan_ok(5) by (simp add: scheduleTargetsFromRequest_def example_target_def)
  then have "validateScheduleRequest example_env counter_ops 9 (Some example_all) ?r example_plan True example_online =
      (Inr \<lparr>sdCreateReq = ?ask, sdScheduleVersion = IPAny, sdEnabled = True, sdScheduleTargets = [example_target [''a'']]\<rparr>, example_planning l)"
    using example_schedule_details [of l]
    by (simp add: validateScheduleRequest_def Let_def plan ask example_store l lim r example_planning_def)
  then obtain sched w' where c: "createSchedule example_env counter_ops 9 (Some example_all) ?r example_online = (writeJSON 201 sched, w')"
    by (simp add: createSchedule_def r newUUID_def Let_def scheduleWriteAllowed_def principalFromContext_def example_all_def allTokenScope_def
        effectiveScheduleAccess_def)
  with schedules_within_scope [OF disjI1 [OF c]] show ?thesis by blast
qed

end
