(* ===== verification/ApiStreams.thy ===== *)
theory ApiStreams
  imports ApiStream HubClaims
begin

text \<open>
  A stream of events beside everything that stores events or subscribes. Events are stored by
  \<open>store_event\<close> alone, under a fresh id. With \<open>room\<close> the channel of the stream is never full when an
  event of its job is published; without it events may be dropped.
\<close>

inductive stream_step :: "bool \<Rightarrow> sse_stream \<times> Sys \<Rightarrow> sse_stream \<times> Sys \<Rightarrow> bool" for room where
  event: "eID e \<notin> set (map eID (ListJobEvents (eJobID e) (sysStore s))) \<Longrightarrow>
    room \<longrightarrow> eJobID e = ssJob st \<longrightarrow> length (pending st s) < 32 \<Longrightarrow>
    stream_step room (st, s) (st, snd (store_event e s))"
| start: "\<not> ssLive st \<Longrightarrow> stream_step room (st, s) (stream_history st s, s)"
| recv: "ssLive st \<Longrightarrow> stream_step room (st, s) (stream_recv (st, s))"
| subscribe: "stream_step room (st, s) (st, snd (SubscribeJob jobID s))"
| unsubscribe: "ch \<noteq> ssCh st \<Longrightarrow> stream_step room (st, s) (st, Unsubscribe jobID ch s)"

definition subscribed :: "sse_stream \<Rightarrow> Sys \<Rightarrow> bool" where
  "subscribed st s \<longleftrightarrow> ssCh st < sysNextSub s
     \<and> (\<exists>subs q. mget (hbSubs (sysHub s)) (ssJob st) = Some subs \<and> mget subs (ssCh st) = Some q)"

lemma pending_publish:
  assumes "subscribed st s"
  shows "subscribed st (publish e s) \<and>
    pending st (publish e s) = (if eJobID e = ssJob st \<and> length (pending st s) < 32 then pending st s @ [e] else pending st s)"
proof -
  obtain subs q where h: "ssCh st < sysNextSub s" "mget (hbSubs (sysHub s)) (ssJob st) = Some subs" "mget subs (ssCh st) = Some q"
    using assms by (auto simp: subscribed_def)
  have m: "mget (map (\<lambda>(ch, q). (ch, if length q < 32 then q @ [e] else q)) subs) (ssCh st) =
      Some (if length q < 32 then q @ [e] else q)"
    using mget_map_values [of "\<lambda>_ q. if length q < 32 then q @ [e] else q" subs] h(3) by simp
  show ?thesis
  proof (cases "eJobID e = ssJob st")
    case True
    with h m show ?thesis by (auto simp: subscribed_def pending_def publish_def)
  next
    case False
    with h show ?thesis by (auto simp: subscribed_def pending_def publish_def split: option.splits)
  qed
qed

lemma pending_subscribe:
  assumes "subscribed st s"
  shows "subscribed st (snd (SubscribeJob jobID s)) \<and> pending st (snd (SubscribeJob jobID s)) = pending st s"
  using assms by (auto simp: subscribed_def pending_def SubscribeJob_def Let_def split: option.splits)

lemma mdel_other: "mget m k = Some v \<Longrightarrow> k' \<noteq> k \<Longrightarrow> mdel k' m \<noteq> []"
proof
  assume "mget m k = Some v" "k' \<noteq> k" "mdel k' m = []"
  moreover have "mget (mdel k' m) k = mget m k" using \<open>k' \<noteq> k\<close> by simp
  ultimately show False by simp
qed

lemma pending_unsubscribe:
  assumes "subscribed st s" "ch \<noteq> ssCh st"
  shows "subscribed st (Unsubscribe jobID ch s) \<and> pending st (Unsubscribe jobID ch s) = pending st s"
  using assms by (auto simp: subscribed_def pending_def Unsubscribe_def Let_def dest: mdel_other [where k' = ch] split: option.splits)


lemma store_frame:
  "sysStore (snd (SubscribeJob jobID s)) = sysStore s" "sysStore (Unsubscribe jobID ch s) = sysStore s"
  "sysStore (set_pending st q s) = sysStore s"
  by (auto simp: SubscribeJob_def Unsubscribe_def set_pending_def Let_def split: option.splits)

lemma pending_set: "subscribed st s \<Longrightarrow> subscribed st (set_pending st q s) \<and> pending st (set_pending st q s) = q"
  by (auto simp: subscribed_def pending_def set_pending_def)

lemma pending_field: "ssJob st' = ssJob st \<Longrightarrow> ssCh st' = ssCh st \<Longrightarrow> pending st' s = pending st s \<and> subscribed st' s = subscribed st s"
  by (auto simp: pending_def subscribed_def split: option.splits)

text \<open>Storing an event: it is appended to the events of its job, or dropped.\<close>

lemma store_event_log:
  assumes "subscribed st s"
  shows "snd (store_event e s) = s
    \<or> (subscribed st (snd (store_event e s))
       \<and> ListJobEvents j (sysStore (snd (store_event e s))) =
           (if j = eJobID e then ListJobEvents j (sysStore s) @ [e] else ListJobEvents j (sysStore s))
       \<and> pending st (snd (store_event e s)) =
           (if eJobID e = ssJob st \<and> length (pending st s) < 32 then pending st s @ [e] else pending st s))"
proof (cases "AddJobEvent e (sysStore s)")
  case (Inr m)
  then have l: "ListJobEvents j m = (if j = eJobID e then ListJobEvents j (sysStore s) @ [e] else ListJobEvents j (sysStore s))"
    by (auto simp: AddJobEvent_def ListJobEvents_def events_of_def split: option.splits)
  have h: "subscribed st (set_store m s)" "pending st (set_store m s) = pending st s"
    using assms by (simp_all add: subscribed_def pending_def)
  have "sysStore (publish e (set_store m s)) = m" by (simp add: publish_def split: option.splits)
  with Inr l h pending_publish [OF h(1), of e] show ?thesis by (simp add: store_event_def)
qed (simp add: store_event_def)

text \<open>
  The invariant: the log of the job has no id twice; before the start nothing is written and what
  waits comes last in the log; then what is written and what waits unseen is in the log, in its order.
\<close>

abbreviation unseen :: "sse_stream \<Rightarrow> Sys \<Rightarrow> JobEvent list" where
  "unseen st s \<equiv> filter (\<lambda>e. eID e \<notin> set (ssSeen st)) (pending st s)"

definition stream_inv :: "bool \<Rightarrow> sse_stream \<times> Sys \<Rightarrow> bool" where
  "stream_inv room c \<longleftrightarrow>
     (case c of (st, s) \<Rightarrow>
        let evs = ListJobEvents (ssJob st) (sysStore s) in
        subscribed st s \<and> distinct (map eID evs) \<and> subseq (pending st s) evs
        \<and> eID ` set (ssOut st) = set (ssSeen st)
        \<and> (if ssLive st then subseq (ssOut st @ unseen st s) evs \<and> (room \<longrightarrow> ssOut st @ unseen st s = evs)
           else ssOut st = []))"


lemma subseq_distinct: "subseq ys xs \<Longrightarrow> distinct xs \<Longrightarrow> distinct ys"
  by (metis distinct_nthsI subseq_conv_nths)

lemma subseq_mem: "subseq ys xs \<Longrightarrow> y \<in> set ys \<Longrightarrow> y \<in> set xs"
  by (metis in_set_nthsD subseq_conv_nths)

lemma subseq_set: "subseq ys xs \<Longrightarrow> set ys \<subseteq> set xs"
  by (metis set_nths_subset subseq_conv_nths)

lemma subseq_snoc: "subseq xs ys \<Longrightarrow> subseq (xs @ [e]) (ys @ [e])"
  by simp

lemma subseq_more: "subseq xs ys \<Longrightarrow> subseq xs (ys @ [e])"
  by (rule subseq_rev_drop_many)

lemma inv_seen:
  assumes "stream_inv room (st, s)" and e: "e \<in> set (ssOut st)"
  shows "e \<in> set (ListJobEvents (ssJob st) (sysStore s))"
proof (cases "ssLive st")
  case True
  with assms(1) have "subseq (ssOut st @ unseen st s) (ListJobEvents (ssJob st) (sysStore s))" by (simp add: stream_inv_def Let_def)
  then show ?thesis using e by (simp add: subseq_mem)
next
  case False
  with assms show ?thesis by (simp add: stream_inv_def Let_def)
qed

lemma inv_event:
  assumes inv: "stream_inv room (st, s)" and fresh: "eID e \<notin> set (map eID (ListJobEvents (eJobID e) (sysStore s)))"
    and r: "room \<longrightarrow> eJobID e = ssJob st \<longrightarrow> length (pending st s) < 32"
  shows "stream_inv room (st, snd (store_event e s))"
proof (cases "snd (store_event e s) = s")
  case False
  from inv have sub: "subscribed st s" by (simp add: stream_inv_def Let_def)
  let ?s = "snd (store_event e s)" and ?evs = "ListJobEvents (ssJob st) (sysStore s)"
  from store_event_log [OF sub, of e "ssJob st"] False have l: "subscribed st ?s"
    "ListJobEvents (ssJob st) (sysStore ?s) = (if ssJob st = eJobID e then ?evs @ [e] else ?evs)"
    "pending st ?s = (if eJobID e = ssJob st \<and> length (pending st s) < 32 then pending st s @ [e] else pending st s)" by blast+
  show ?thesis
  proof (cases "eJobID e = ssJob st")
    case True
    have "eID e \<notin> set (ssSeen st)"
    proof
      assume "eID e \<in> set (ssSeen st)"
      with inv have "eID e \<in> eID ` set (ssOut st)" by (simp add: stream_inv_def Let_def)
      with inv_seen [OF inv] fresh True show False by auto
    qed
    then have u: "unseen st ?s = unseen st s @ [e] \<or> (\<not> room \<and> unseen st ?s = unseen st s)" using l(3) r True by auto
    have q: "subseq (pending st ?s) (?evs @ [e])"
      using inv l(3) True by (auto simp: stream_inv_def Let_def subseq_snoc subseq_more)
    have o: "subseq (ssOut st @ unseen st ?s) (?evs @ [e]) \<and> (room \<longrightarrow> ssOut st @ unseen st ?s = ?evs @ [e])" if "ssLive st"
    proof -
      from inv that have "subseq (ssOut st @ unseen st s) ?evs" "room \<longrightarrow> ssOut st @ unseen st s = ?evs"
        by (simp_all add: stream_inv_def Let_def)
      with u show ?thesis using subseq_snoc subseq_more by (metis append_assoc)
    qed
    from inv l(1,2) q o fresh True show ?thesis by (simp add: stream_inv_def Let_def)
  next
    case other: False
    with inv l show ?thesis by (simp add: stream_inv_def Let_def)
  qed
qed (use inv in simp)

lemma inv_start:
  assumes inv: "stream_inv room (st, s)" and b: "\<not> ssLive st"
  shows "stream_inv room (stream_history st s, s)"
proof -
  let ?st = "stream_history st s" and ?evs = "ListJobEvents (ssJob st) (sysStore s)"
  have f: "pending ?st s = pending st s" "subscribed ?st s = subscribed st s"
    using pending_field [of ?st st s] by (simp_all add: stream_history_def Let_def)
  from inv have "subseq (pending st s) ?evs" by (simp add: stream_inv_def Let_def)
  then have "set (pending st s) \<subseteq> set ?evs" by (rule subseq_set)
  moreover have "set (ssSeen ?st) = eID ` set ?evs" by (simp add: stream_history_def Let_def)
  ultimately have "\<forall>e\<in>set (pending st s). eID e \<in> set (ssSeen ?st)" by auto
  then have "unseen ?st s = []" by (simp add: f filter_empty_conv)
  then show ?thesis using inv f by (simp add: stream_inv_def stream_history_def Let_def)
qed

lemma inv_recv:
  assumes inv: "stream_inv room (st, s)" and b: "ssLive st"
  shows "stream_inv room (stream_recv (st, s))"
proof (cases "pending st s")
  case (Cons e q)
  let ?evs = "ListJobEvents (ssJob st) (sysStore s)" and ?s = "set_pending st q s"
  from inv have sub: "subscribed st s" and d: "distinct (map eID ?evs)" and p: "subseq (e # q) ?evs"
    and sn: "eID ` set (ssOut st) = set (ssSeen st)" and o: "subseq (ssOut st @ unseen st s) ?evs" "room \<longrightarrow> ssOut st @ unseen st s = ?evs"
    using b by (simp_all add: stream_inv_def Let_def Cons)
  note q = pending_set [OF sub, of q]
  have "distinct (map eID (e # q))" using subseq_distinct [OF subseq_map [OF p] d] .
  then have e: "filter (\<lambda>x. eID x \<noteq> eID e \<and> eID x \<notin> set (ssSeen st)) q = filter (\<lambda>x. eID x \<notin> set (ssSeen st)) q"
    by (intro filter_cong) (auto simp: image_iff)
  have p': "subseq q ?evs" using p by (rule subseq_Cons')
  show ?thesis
  proof (cases "eID e \<in> set (ssSeen st)")
    case True
    then show ?thesis using inv b q p' by (simp add: stream_recv_def Cons stream_inv_def Let_def store_frame)
  next
    case False
    let ?st = "st\<lparr>ssSeen := eID e # ssSeen st, ssOut := ssOut st @ [e]\<rparr>"
    have f: "pending ?st ?s = q" "subscribed ?st ?s" using pending_field [of ?st st ?s] q by simp_all
    have "unseen ?st ?s = filter (\<lambda>x. eID x \<notin> set (ssSeen st)) q" using e by (simp add: f)
    then have "ssOut ?st @ unseen ?st ?s = ssOut st @ unseen st s" using False by (simp add: Cons)
    with o f d sn p' b show ?thesis
      by (simp add: stream_recv_def Cons False stream_inv_def Let_def store_frame)
  qed
qed (use inv in \<open>simp add: stream_recv_def\<close>)

lemma inv_step:
  assumes "stream_step room c c'" "stream_inv room c"
  shows "stream_inv room c'"
  using assms
proof cases
  case (subscribe st s jobID)
  with assms(2) pending_subscribe [of st s jobID] show ?thesis by (simp add: stream_inv_def Let_def store_frame)
next
  case (unsubscribe ch st s jobID)
  with assms(2) pending_unsubscribe [of st s ch jobID] show ?thesis by (simp add: stream_inv_def Let_def store_frame)
qed (use assms(2) inv_event inv_start inv_recv in auto)

lemma inv_run:
  assumes "(stream_step room)\<^sup>*\<^sup>* c c'" "stream_inv room c"
  shows "stream_inv room c'"
  using assms by (induction rule: rtranclp_induct) (blast intro: inv_step)+

lemma inv_open:
  assumes "stream_open r s = (Inr st, s1)" "distinct (map eID (ListJobEvents (hrID r) (sysStore s)))"
  shows "stream_inv room (st, s1)"
  using assms
  by (auto simp: stream_open_def stream_inv_def SubscribeJob_def subscribed_def pending_def Let_def split: sum.splits)


lemma stream_job:
  assumes "stream_step room c c'"
  shows "ssJob (fst c') = ssJob (fst c)"
  using assms by cases (auto simp: stream_history_def stream_recv_def Let_def split: list.splits)

lemma run_job: "(stream_step room)\<^sup>*\<^sup>* c c' \<Longrightarrow> ssJob (fst c') = ssJob (fst c)"
  by (induction rule: rtranclp_induct) (simp_all add: stream_job)

text \<open>A stream that reads on catches up.\<close>

lemma catch_up:
  assumes "stream_inv True (st, s)" "ssLive st"
  shows "ssOut (fst ((stream_recv ^^ length (pending st s)) (st, s))) = ListJobEvents (ssJob st) (sysStore s)"
  using assms
proof (induction "length (pending st s)" arbitrary: st s)
  case 0
  then show ?case by (simp add: stream_inv_def Let_def)
next
  case (Suc n)
  from Suc.hyps(2) obtain e q where q: "pending st s = e # q" by (cases "pending st s") auto
  have inv: "stream_inv True (stream_recv (st, s))" using inv_recv Suc.prems by blast
  obtain st1 where r: "stream_recv (st, s) = (st1, set_pending st q s)" and st1: "ssLive st1" "ssJob st1 = ssJob st" "ssCh st1 = ssCh st"
    using Suc.prems(2) by (auto simp: stream_recv_def q)
  from Suc.prems have "subscribed st s" by (simp add: stream_inv_def Let_def)
  then have p: "pending st1 (set_pending st q s) = q" using pending_set [of st s q] pending_field [of st1 st] st1 by simp
  from Suc.hyps(1) [of st1 "set_pending st q s"] inv st1(1) p Suc.hyps(2) q show ?case
    by (simp add: funpow_swap1 r st1(2) store_frame)
qed


section \<open>Delivery\<close>

text \<open>
  (C20) A stream delivers the events of its job once and in order: however the storing of events and
  the subscriptions of others fall between its own steps, even between its subscription and its
  listing of the past, a live stream has written no event twice and only stored ones in their
  order; and when its channel was never full, it writes all of them once it has read what waits.
\<close>

theorem stream_delivers_once:
  assumes start: "stream_open r s = (Inr st, s1)" "distinct (map eID (ListJobEvents (hrID r) (sysStore s)))"
    and run: "(stream_step room)\<^sup>*\<^sup>* (st, s1) (st', s')" and live: "ssLive st'"
  shows "distinct (map eID (ssOut st')) \<and> subseq (ssOut st') (ListJobEvents (hrID r) (sysStore s'))
    \<and> (room \<longrightarrow> ssOut (fst ((stream_recv ^^ length (pending st' s')) (st', s'))) = ListJobEvents (hrID r) (sysStore s'))"
proof -
  have inv: "stream_inv room (st', s')" using inv_run [OF run inv_open [OF start]] .
  have job: "ssJob st' = hrID r" using run_job [OF run] start(1) by (auto simp: stream_open_def Let_def split: sum.splits prod.splits)
  from inv live have sub: "subseq (ssOut st' @ unseen st' s') (ListJobEvents (hrID r) (sysStore s'))"
    and d: "distinct (map eID (ListJobEvents (hrID r) (sysStore s')))"
    by (simp_all add: stream_inv_def Let_def job)
  have "subseq (ssOut st') (ssOut st' @ unseen st' s')" by (rule prefix_imp_subseq) simp
  then have out: "subseq (ssOut st') (ListJobEvents (hrID r) (sysStore s'))" using sub by (rule subseq_order.order_trans)
  with subseq_distinct [OF subseq_map d] catch_up [of st' s'] inv live job show ?thesis by (cases room) auto
qed

theorem stream_delivers_once_witness:
  "\<exists>st s1 st' s'. stream_open \<lparr>hrRemoteAddr = [], hrHeader = [], hrQuery = (\<lambda>_. []), hrID = ''uuu'', hrBody = None :: unit option\<rparr>
       example_created = (Inr st, s1)
     \<and> (stream_step True)\<^sup>*\<^sup>* (st, s1) (st', s') \<and> map eID (ListJobEvents ''uuu'' (sysStore s')) = [''e'']
     \<and> ssOut (fst ((stream_recv ^^ length (pending st' s')) (st', s'))) = ListJobEvents ''uuu'' (sysStore s')"
proof -
  let ?r = "\<lparr>hrRemoteAddr = [], hrHeader = [], hrQuery = (\<lambda>_. []), hrID = ''uuu'', hrBody = None :: unit option\<rparr>"
  let ?e = "message_event ''e'' ''uuu'' ''a'' ''message'' ''m'' 7"
  have none: "ListJobEvents j (sysStore example_created) = []" for j
    by (simp add: ListJobEvents_def events_of_def example_created_def CreateJobs_def example_sys_def NewMemory_def case_prod_unfold Let_def)
  obtain st s1 where o: "stream_open ?r example_created = (Inr st, s1)" and st: "\<not> ssLive st" "ssJob st = ''uuu''"
    and s1: "sysStore s1 = sysStore example_created"
    by (auto simp: stream_open_def GetJob_def example_jobs example_fanout_def example_job_def SubscribeJob_def Let_def)
  define s' where "s' = snd (store_event ?e s1)"
  have inv: "stream_inv True (st, s1)" by (rule inv_open [OF o]) (simp add: none)
  then have p: "pending st s1 = []" using none by (auto simp: stream_inv_def Let_def s1)
  have "stream_step True (st, s1) (st, s')" unfolding s'_def by (rule event) (simp_all add: s1 none p)
  moreover have "stream_step True (st, s') (stream_history st s', s')" by (rule start) (rule st(1))
  ultimately have run: "(stream_step True)\<^sup>*\<^sup>* (st, s1) (stream_history st s', s')" by (meson r_into_rtranclp rtranclp_trans)
  have "sysStore s' = (sysStore s1)\<lparr>mEvents := mput ''uuu'' [?e] (mEvents (sysStore s1))\<rparr>"
    using none [of "''uuu''"]
    by (simp add: s'_def store_event_def AddJobEvent_def message_event_def s1 ListJobEvents_def publish_def example_jobs example_fanout_def
        example_job_def split: option.splits)
  then have e: "map eID (ListJobEvents ''uuu'' (sysStore s')) = [''e'']" by (simp add: ListJobEvents_def events_of_def message_event_def)
  have "ssLive (stream_history st s')" by (simp add: stream_history_def Let_def)
  with stream_delivers_once [OF o _ run this] have "ssOut (fst ((stream_recv ^^ length (pending (stream_history st s') s')) (stream_history st s', s')))
      = ListJobEvents ''uuu'' (sysStore s')" by (simp add: none)
  with o run e show ?thesis
    by (intro exI [of _ st] exI [of _ s1] exI [of _ "stream_history st s'"] exI [of _ s'] conjI)
qed

end
