(* ===== verification/Runner.thy ===== *)
theory Runner
  imports Policy ClientIP
begin

text \<open>
  The tools that agents run (\<^verbatim>\<open>internal/runner/runner.go\<close> and \<^verbatim>\<open>internal/runner/builtin.go\<close>).
  A run threads a state: a clock that counts the questions put to the outside (is the context
  done, what does this probe answer), the stream events written so far and the probes sent. The
  network is an environment indexed by the clock: for each probe, the outcome of the socket calls
  and the packets that are read until the deadline. The parser of ICMP messages
  (\<^verbatim>\<open>golang.org/x/net/icmp\<close>) is a parameter, as is the square root of the floating-point unit.
\<close>

unbundle bit_operations_syntax


section \<open>Errors and the environment\<close>

text \<open>
  What the code asks of an error: whether it is or wraps \<^verbatim>\<open>context.DeadlineExceeded\<close>, else
  \<^verbatim>\<open>context.Canceled\<close>, else a \<^verbatim>\<open>net.Error\<close> that is a timeout; and its text.
\<close>

datatype error_class = DeadlineExceeded | Canceled | NetTimeout | OtherError

datatype run_error = RunError (rerrClass: error_class) (rerrText: string)

datatype icmp_type = ICMP4 int | ICMP6 int

datatype icmp_body = Echo int int | TimeExceeded "8 word list" | OtherBody

datatype net_addr = IPAddr netIP | UDPAddr netIP | OtherAddr string

record packet =
  pkAt :: dur
  pkBytes :: "8 word list"
  pkPeer :: net_addr

text \<open>A probe as it is sent, and what the socket calls of the probe do.\<close>

record probe_req =
  pqMode :: string
  pqTarget :: netIP
  pqVersion :: IPVersion
  pqPort :: int
  pqTTL :: int
  pqID :: int
  pqSeq :: int
  pqTimeout :: dur

record probe_io =
  piSend :: "run_error option"
  piReads :: "packet list"
  piReadErr :: run_error
  piDial :: "run_error + dur"

text \<open>
  The callbacks of \<^verbatim>\<open>net/http/httptrace\<close> with the time of the call, and what an exchange with
  an HTTP server does: the callbacks, the reply, the download with its limit.
\<close>

datatype http_event =
    DNSStart time
  | DNSDone time
  | ConnectStart time string
  | ConnectDone time string
  | TLSHandshakeStart time
  | TLSHandshakeDone time
  | GotFirstResponseByte time

record http_io =
  hiRequestStart :: time
  hiEvents :: "http_event list"
  hiDo :: "run_error + int \<times> int"
  hiDownloadStart :: time
  hiCopy :: "int option \<Rightarrow> int \<times> run_error option"
  hiNow :: time
  hiNowDownload :: time

text \<open>
  The environment of a run. \<^verbatim>\<open>piSend\<close> is the first error of setting the TTL, marshalling, setting
  the deadline and writing; \<^verbatim>\<open>piReadErr\<close> ends the reads (the deadline, at the latest).
  \<^verbatim>\<open>rnHTTP\<close> is the HTTP client: it gets the method, the target, the TLS server name and the dialer.
\<close>

record renv =
  rnCtx :: "nat \<Rightarrow> run_error option"
  rnLookupIP :: "string \<Rightarrow> string \<Rightarrow> run_error + netIP list"
  rnListenICMP :: "IPVersion \<Rightarrow> run_error option"
  rnProbe :: "nat \<Rightarrow> probe_req \<Rightarrow> probe_io"
  rnParseICMP :: "int \<Rightarrow> 8 word list \<Rightarrow> (icmp_type \<times> icmp_body) option"
  rnID :: int
  rnSqrt :: "float64 \<Rightarrow> float64"
  rnElapsed :: "nat \<Rightarrow> dur"
  rnURL :: "string \<Rightarrow> run_error + URL"
  rnHTTP :: "string \<Rightarrow> string \<Rightarrow> string \<Rightarrow> (string \<Rightarrow> string \<Rightarrow> run_error + string \<times> string) \<Rightarrow> http_io"
  rnLookupCNAME :: "string \<Rightarrow> run_error + string"
  rnLookupMX :: "string \<Rightarrow> run_error + (int \<times> string) list"
  rnLookupNS :: "string \<Rightarrow> run_error + string list"
  rnLookupTXT :: "string \<Rightarrow> run_error + string list"

record run_state =
  rsClock :: nat
  rsEvents :: "StreamEvent list"
  rsSent :: "probe_req list"

definition run_start :: run_state where
  "run_start = \<lparr>rsClock = 0, rsEvents = [], rsSent = []\<rparr>"

abbreviation ctx_err :: "renv \<Rightarrow> run_state \<Rightarrow> run_error option" where
  "ctx_err env s \<equiv> rnCtx env (rsClock s)"

definition tick :: "run_state \<Rightarrow> run_state" where
  "tick s = s\<lparr>rsClock := Suc (rsClock s)\<rparr>"


section \<open>Arguments\<close>

definition argOr :: "strmap \<Rightarrow> string \<Rightarrow> string \<Rightarrow> string" where
  "argOr args key fallback = (if mstr args key = [] then fallback else mstr args key)"

definition parsePositiveInt :: "string \<Rightarrow> int" where
  "parsePositiveInt v = (case Atoi v of None \<Rightarrow> 1 | Some n \<Rightarrow> if n \<le> 0 then 1 else n)"

definition probeMode :: "string \<Rightarrow> string" where
  "probeMode raw = (if ToLower raw = ''tcp'' then ''tcp'' else ''icmp'')"

definition defaultProbePort :: "string \<Rightarrow> int" where
  "defaultProbePort mode = (if mode = ''tcp'' then 80 else 0)"

definition parsePort :: "strmap \<Rightarrow> int \<Rightarrow> int" where
  "parsePort args fallback =
     (if mstr args ''port'' = [] then fallback
      else (case Atoi (mstr args ''port'') of
              None \<Rightarrow> fallback
            | Some port \<Rightarrow> if port \<le> 0 \<or> 65535 < port then fallback else port))"

definition defaultPingProbeTimeout :: dur where "defaultPingProbeTimeout = Second"
definition defaultRouteProbeTimeout :: dur where "defaultRouteProbeTimeout = Second"
definition tcpProbeTimeout :: dur where "tcpProbeTimeout = 2 * Second"

definition normalizedPingProbeTimeout :: "dur \<Rightarrow> dur" where
  "normalizedPingProbeTimeout timeout = (if timeout \<le> 0 then defaultPingProbeTimeout else timeout)"

definition normalizedRouteProbeTimeout :: "dur \<Rightarrow> dur" where
  "normalizedRouteProbeTimeout timeout = (if timeout \<le> 0 then defaultRouteProbeTimeout else timeout)"


section \<open>Results and summaries\<close>

definition newBuiltinResult :: "Job \<Rightarrow> int \<Rightarrow> ToolResult" where
  "newBuiltinResult job exitCode =
     \<lparr>trType = [], trTool = jTool job, trTarget = jTarget job, trIPVersion = jIPVersion job,
      trExitCode = exitCode, trSummary = [], trHops = [], trRecords = []\<rparr>"

definition put_summary :: "string \<Rightarrow> json \<Rightarrow> ToolResult \<Rightarrow> ToolResult" where
  "put_summary k v r = r\<lparr>trSummary := mput k v (trSummary r)\<rparr>"

definition genericErrorStatus :: "run_error option \<Rightarrow> run_error \<Rightarrow> string" where
  "genericErrorStatus ctx err =
     (if map_option rerrClass ctx = Some DeadlineExceeded \<or> rerrClass err = DeadlineExceeded then ''timeout''
      else if map_option rerrClass ctx = Some Canceled \<or> rerrClass err = Canceled then ''canceled''
      else if rerrClass err = NetTimeout then ''timeout''
      else ''error'')"

definition statusOrFallback :: "run_error option \<Rightarrow> run_error \<Rightarrow> string \<Rightarrow> string" where
  "statusOrFallback ctx err fallback =
     (if genericErrorStatus ctx err = ''error'' then fallback else genericErrorStatus ctx err)"

definition fillErrorSummary :: "run_error option \<Rightarrow> run_error \<Rightarrow> ToolResult \<Rightarrow> ToolResult" where
  "fillErrorSummary ctx err r =
     put_summary ''error'' (JStr (rerrText err)) (put_summary ''status'' (JStr (genericErrorStatus ctx err)) r)"

definition copyErrorSummary :: "ToolResult \<Rightarrow> ToolResult \<Rightarrow> ToolResult" where
  "copyErrorSummary src dst =
     fold (\<lambda>key dst. case mget (trSummary src) key of None \<Rightarrow> dst | Some v \<Rightarrow> put_summary key v dst)
       [''status'', ''error''] dst"

text \<open>Milliseconds with the precision of a microsecond: \<^verbatim>\<open>float64(d.Microseconds()) / 1000\<close>.\<close>

definition ms :: "dur \<Rightarrow> float64" where
  "ms d = of_int (quot d 1000) / 1000"

definition loss_pct :: "int \<Rightarrow> int \<Rightarrow> float64" where
  "loss_pct sent received = (if 0 < sent then of_int (sent - received) / of_int sent * 100 else 0)"

definition sample_avg :: "float64 list \<Rightarrow> float64" where
  "sample_avg samples = fold (\<lambda>x sum. sum + x) samples 0 / of_nat (length samples)"

definition sample_dev :: "renv \<Rightarrow> float64 list \<Rightarrow> float64" where
  "sample_dev env samples =
     (let avg = sample_avg samples
      in rnSqrt env (fold (\<lambda>x var. var + (x - avg) * (x - avg)) samples 0 / of_nat (length samples)))"

definition sample_min :: "float64 list \<Rightarrow> float64" where
  "sample_min samples = fold (\<lambda>x m. min m x) samples (hd samples)"

definition sample_max :: "float64 list \<Rightarrow> float64" where
  "sample_max samples = fold (\<lambda>x m. max m x) samples (hd samples)"

definition fillPingSummary :: "renv \<Rightarrow> int \<Rightarrow> int \<Rightarrow> float64 list \<Rightarrow> ToolResult \<Rightarrow> ToolResult" where
  "fillPingSummary env transmitted received samples r =
     (let r1 = put_summary ''packet_loss_pct'' (JNum (loss_pct transmitted received))
                 (put_summary ''packets_received'' (JNum (of_int received))
                   (put_summary ''packets_transmitted'' (JNum (of_int transmitted)) r))
      in if samples = [] then r1
         else put_summary ''rtt_mdev_ms'' (JNum (sample_dev env samples))
                (put_summary ''rtt_max_ms'' (JNum (sample_max samples))
                  (put_summary ''rtt_avg_ms'' (JNum (sample_avg samples))
                    (put_summary ''rtt_min_ms'' (JNum (sample_min samples)) r1))))"

definition summarizeHop :: "renv \<Rightarrow> int \<Rightarrow> ProbeResult list \<Rightarrow> int \<Rightarrow> HopResult" where
  "summarizeHop env index probes sent =
     (let samples = List.map_filter prRTTMS probes;
          named = find (\<lambda>p. prIP p \<noteq> []) probes;
          hop = \<lparr>hIndex = index,
                 hHost = (case named of None \<Rightarrow> [] | Some p \<Rightarrow> prHost p),
                 hIP = (case named of None \<Rightarrow> [] | Some p \<Rightarrow> prIP p),
                 hRTTMS = None, hTimeout = False, hProbes = probes,
                 hLossPct = Some (loss_pct sent (int (length samples))), hSent = Some sent,
                 hAvgMS = None, hBestMS = None, hWorstMS = None, hLastMS = None, hStdevMS = None, hTimesMS = []\<rparr>
      in if samples = [] then hop
         else hop\<lparr>hAvgMS := Some (sample_avg samples), hBestMS := Some (sample_min samples),
                  hWorstMS := Some (sample_max samples), hLastMS := Some (last samples),
                  hStdevMS := Some (sample_dev env samples)\<rparr>)"

definition flattenResultHops :: "ToolResult \<Rightarrow> ToolResult" where
  "flattenResultHops r = r\<lparr>trHops := map FlattenSingleProbe (trHops r)\<rparr>"


section \<open>Stream events\<close>

definition emitMetric :: "bool \<Rightarrow> StreamEvent \<Rightarrow> run_state \<Rightarrow> run_state" where
  "emitMetric sink e s = (if sink then s\<lparr>rsEvents := rsEvents s @ [e]\<rparr> else s)"

definition metric_event :: "string \<Rightarrow> metric \<Rightarrow> StreamEvent" where
  "metric_event typ m = \<lparr>seType = typ, seMessage = [], seHop = None, seMetric = m\<rparr>"

definition hop_event :: "string \<Rightarrow> HopResult \<Rightarrow> StreamEvent" where
  "hop_event typ h = \<lparr>seType = typ, seMessage = [], seHop = Some h, seMetric = []\<rparr>"

definition emitPingTimeoutMetric :: "bool \<Rightarrow> run_error option \<Rightarrow> run_error \<Rightarrow> int \<Rightarrow> run_state \<Rightarrow> run_state" where
  "emitPingTimeoutMetric sink ctx err seq s =
     (if genericErrorStatus ctx err \<noteq> ''timeout'' then s
      else emitMetric sink (metric_event ''metric''
             [(''seq'', JNum (of_int (if seq < 1 then 1 else seq))), (''timeout'', JBool True)]) s)"

definition emitPingProbeMetric :: "bool \<Rightarrow> run_error option \<Rightarrow> int \<Rightarrow> run_error + dur \<Rightarrow> run_state \<Rightarrow> run_state" where
  "emitPingProbeMetric sink ctx seq r s =
     emitMetric sink (metric_event ''metric''
       [(''seq'', JNum (of_int seq)),
        (case r of
           Inr rtt \<Rightarrow> (''latency_ms'', JNum (ms rtt))
         | Inl err \<Rightarrow> if genericErrorStatus ctx err = ''timeout'' then (''timeout'', JBool True)
                     else (''error'', JStr (rerrText err)))]) s"

definition emitResolvedTarget :: "bool \<Rightarrow> netIP \<Rightarrow> IPVersion \<Rightarrow> run_state \<Rightarrow> run_state" where
  "emitResolvedTarget sink target version s =
     emitMetric sink (metric_event ''target_resolved''
       [(''target_ip'', JStr (IP_String target)), (''ip_version'', JNum (of_int version))]) s"

definition emitHop :: "bool \<Rightarrow> HopResult \<Rightarrow> run_state \<Rightarrow> run_state" where
  "emitHop sink hop s = emitMetric sink (hop_event ''hop'' (FlattenSingleProbe hop)) s"

definition emitHopSummary :: "bool \<Rightarrow> HopResult \<Rightarrow> run_state \<Rightarrow> run_state" where
  "emitHopSummary sink hop s = emitMetric sink (hop_event ''hop_summary'' (hop\<lparr>hProbes := [], hTimesMS := []\<rparr>)) s"


section \<open>Resolution\<close>

definition executionTarget :: "Job \<Rightarrow> string" where
  "executionTarget job = (if jResolvedTarget job \<noteq> [] then jResolvedTarget job else jTarget job)"

definition run_ipVersion :: "netIP \<Rightarrow> IPVersion" where
  "run_ipVersion ip = (if To4 ip \<noteq> None then IPv4 else IPv6)"

definition run_preferredIP :: "netIP list \<Rightarrow> IPVersion \<Rightarrow> netIP option" where
  "run_preferredIP ips version =
     (case (if version = IPAny then find (\<lambda>ip. To4 ip = None) ips else None) of
        Some ip \<Rightarrow> Some ip
      | None \<Rightarrow> (case ips of [] \<Rightarrow> None | ip # _ \<Rightarrow> Some ip))"

definition resolveOne :: "renv \<Rightarrow> string \<Rightarrow> IPVersion \<Rightarrow> run_error + netIP \<times> IPVersion" where
  "resolveOne env target version =
     (case ParseIP target of
        Some ip \<Rightarrow> Inr (ip, run_ipVersion ip)
      | None \<Rightarrow>
          (case rnLookupIP env (if version = IPv4 then ''ip4'' else if version = IPv6 then ''ip6'' else ''ip'') target of
             Inl err \<Rightarrow> Inl err
           | Inr ips \<Rightarrow>
               if ips = [] then Inl (RunError OtherError ''target resolved to no addresses'')
               else (case run_preferredIP ips version of
                       None \<Rightarrow> Inl (RunError OtherError ''target resolved to no addresses'')
                     | Some ip \<Rightarrow> Inr (ip, run_ipVersion ip))))"

text \<open>The last case of \<^verbatim>\<open>addrIP\<close> reads the text of the address; \<^verbatim>\<open>nil\<close> is \<open>None\<close>.\<close>

definition addrIP :: "net_addr \<Rightarrow> netIP option" where
  "addrIP addr =
     (case addr of
        IPAddr ip \<Rightarrow> Some ip
      | UDPAddr ip \<Rightarrow> Some ip
      | OtherAddr text \<Rightarrow>
          (case SplitHost text of
             None \<Rightarrow> ParseIP text
           | Some host \<Rightarrow> (case ParseIP host of Some ip \<Rightarrow> Some ip | None \<Rightarrow> ParseIP text)))"


section \<open>Probes\<close>

abbreviation (input) icmpProtocolIPv4 :: int where "icmpProtocolIPv4 \<equiv> 1"
abbreviation (input) icmpProtocolIPv6 :: int where "icmpProtocolIPv6 \<equiv> 58"

definition send_probe :: "renv \<Rightarrow> probe_req \<Rightarrow> run_state \<Rightarrow> probe_io \<times> run_state" where
  "send_probe env q s = (rnProbe env (rsClock s) q, (tick s)\<lparr>rsSent := rsSent s @ [q]\<rparr>)"

definition icmp_protocol :: "IPVersion \<Rightarrow> int" where
  "icmp_protocol version = (if version = IPv6 then icmpProtocolIPv6 else icmpProtocolIPv4)"

text \<open>The reading loop of \<^verbatim>\<open>icmpProbe\<close>: the first echo reply with our identifier and number.\<close>

fun echo_reads :: "renv \<Rightarrow> probe_req \<Rightarrow> run_error \<Rightarrow> packet list \<Rightarrow> run_error + dur" where
  "echo_reads env q err [] = Inl err"
| "echo_reads env q err (p # ps) =
     (case rnParseICMP env (icmp_protocol (pqVersion q)) (pkBytes p) of
        None \<Rightarrow> echo_reads env q err ps
      | Some (typ, body) \<Rightarrow>
          if typ = (if pqVersion q = IPv6 then ICMP6 129 else ICMP4 0) \<and> body = Echo (pqID q) (pqSeq q)
          then Inr (pkAt p) else echo_reads env q err ps)"

definition icmpProbe :: "renv \<Rightarrow> probe_req \<Rightarrow> run_state \<Rightarrow> (run_error + dur) \<times> run_state" where
  "icmpProbe env q s =
     (let (io, s1) = send_probe env q s
      in (case piSend io of Some err \<Rightarrow> Inl err | None \<Rightarrow> echo_reads env q (piReadErr io) (piReads io), s1))"

definition tcpProbeWithTimeout :: "renv \<Rightarrow> probe_req \<Rightarrow> run_state \<Rightarrow> (run_error + dur) \<times> run_state" where
  "tcpProbeWithTimeout env q s = (let (io, s1) = send_probe env q s in (piDial io, s1))"

definition probeOnce :: "renv \<Rightarrow> probe_req \<Rightarrow> run_state \<Rightarrow> (run_error + dur) \<times> run_state" where
  "probeOnce env q s =
     (let q' = q\<lparr>pqTimeout := normalizedPingProbeTimeout (pqTimeout q)\<rparr>
      in if pqMode q = ''tcp'' then tcpProbeWithTimeout env q' s else icmpProbe env q' s)"

text \<open>
  The packet that a router quotes in a time-exceeded message: the IP header is skipped, by its own
  length for IPv4, and what follows must begin with our echo request.
\<close>

definition originalEchoMessage :: "8 word list \<Rightarrow> IPVersion \<Rightarrow> 8 word list" where
  "originalEchoMessage d version =
     (if version = IPv4 then
        (if length d < 28 \<or> drop_bit 4 (d ! 0) \<noteq> 4 then []
         else let headerLen = unat (d ! 0 AND 0x0f) * 4
              in if headerLen < 20 \<or> length d < headerLen + 8 \<or> uint (d ! 9) \<noteq> icmpProtocolIPv4 then []
                 else drop headerLen d)
      else if version = IPv6 then
        (if length d < 48 \<or> drop_bit 4 (d ! 0) \<noteq> 6 \<or> uint (d ! 6) \<noteq> icmpProtocolIPv6 then [] else drop 40 d)
      else [])"

definition be16 :: "8 word \<Rightarrow> 8 word \<Rightarrow> int" where
  "be16 hi lo = uint hi * 256 + uint lo"

definition timeExceededMatches :: "icmp_body \<Rightarrow> IPVersion \<Rightarrow> int \<Rightarrow> int \<Rightarrow> bool" where
  "timeExceededMatches body version i seq =
     (case body of
        TimeExceeded d \<Rightarrow>
          (let inner = originalEchoMessage d version
           in if length inner < 8 then False
              else if version = IPv4 then
                inner ! 0 = 8 \<and> be16 (inner ! 4) (inner ! 5) = i \<and> be16 (inner ! 6) (inner ! 7) = seq
              else if version = IPv6 then
                inner ! 0 = 128 \<and> be16 (inner ! 4) (inner ! 5) = i \<and> be16 (inner ! 6) (inner ! 7) = seq
              else False)
      | _ \<Rightarrow> False)"

definition traceProbeSeq :: "int \<Rightarrow> int \<Rightarrow> int \<Rightarrow> int" where
  "traceProbeSeq ttl probe probesPerHop =
     (ttl - 1) * (if probesPerHop \<le> 0 then 1 else probesPerHop) + probe + 1"

text \<open>The reading loop of \<^verbatim>\<open>traceOnce\<close>: round-trip time, peer, and whether the target answered.\<close>

fun trace_reads :: "renv \<Rightarrow> probe_req \<Rightarrow> run_error \<Rightarrow> packet list \<Rightarrow> run_error + dur \<times> netIP option \<times> bool" where
  "trace_reads env q err [] = Inl err"
| "trace_reads env q err (p # ps) =
     (let next_read = trace_reads env q err ps in
      case rnParseICMP env (icmp_protocol (pqVersion q)) (pkBytes p) of
        None \<Rightarrow> next_read
      | Some (typ, body) \<Rightarrow>
          if typ = ICMP4 0 then
            (if body = Echo (pqID q) (pqSeq q) then Inr (pkAt p, addrIP (pkPeer p), True) else next_read)
          else if typ = ICMP4 11 then
            (if timeExceededMatches body (pqVersion q) (pqID q) (pqSeq q)
             then Inr (pkAt p, addrIP (pkPeer p), False) else next_read)
          else if typ = ICMP6 129 then
            (if pqVersion q = IPv6 \<and> body = Echo (pqID q) (pqSeq q)
             then Inr (pkAt p, addrIP (pkPeer p), True) else next_read)
          else if typ = ICMP6 3 then
            (if pqVersion q = IPv6 \<and> timeExceededMatches body (pqVersion q) (pqID q) (pqSeq q)
             then Inr (pkAt p, addrIP (pkPeer p), False) else next_read)
          else next_read)"

definition traceOnce ::
  "renv \<Rightarrow> probe_req \<Rightarrow> run_state \<Rightarrow> (run_error + dur \<times> netIP option \<times> bool) \<times> run_state" where
  "traceOnce env q s =
     (let q' = q\<lparr>pqTimeout := normalizedRouteProbeTimeout (pqTimeout q)\<rparr> in
      if pqMode q = ''tcp'' then
        (let (r, s1) = tcpProbeWithTimeout env q' s
         in (case r of Inl err \<Rightarrow> Inl err | Inr rtt \<Rightarrow> Inr (rtt, Some (pqTarget q), True), s1))
      else
        (let (io, s1) = send_probe env q' s
         in (case piSend io of Some err \<Rightarrow> Inl err | None \<Rightarrow> trace_reads env q' (piReadErr io) (piReads io), s1)))"


section \<open>Ping\<close>

type_synonym run_result = "ToolResult \<times> run_error option \<times> run_state"

text \<open>The loop of a ping: \<^verbatim>\<open>k\<close> probes are left, \<^verbatim>\<open>seq\<close> are done.\<close>

fun ping_loop :: "renv \<Rightarrow> bool \<Rightarrow> probe_req \<Rightarrow> nat \<Rightarrow> int \<Rightarrow> ToolResult \<Rightarrow> int \<Rightarrow> float64 list \<Rightarrow> run_state \<Rightarrow> run_result" where
  "ping_loop env sink q 0 seq result received samples s =
     (let r = fillPingSummary env seq received samples result
      in (if received = 0 then put_summary ''status'' (JStr ''timeout'') (r\<lparr>trExitCode := 1\<rparr>) else r, None, s))"
| "ping_loop env sink q (Suc k) seq result received samples s =
     (case ctx_err env s of
        Some e \<Rightarrow>
          (fillErrorSummary (ctx_err env s) e (fillPingSummary env seq received samples (result\<lparr>trExitCode := -1\<rparr>)),
           Some e, emitPingTimeoutMetric sink (ctx_err env s) e (seq + 1) s)
      | None \<Rightarrow>
          (let (r, s1) = probeOnce env (q\<lparr>pqSeq := seq + 1\<rparr>) (tick s);
               received' = (if isl r then received else received + 1);
               samples' = (case r of Inl _ \<Rightarrow> samples | Inr rtt \<Rightarrow> samples @ [ms rtt]);
               s2 = emitPingProbeMetric sink (ctx_err env s1) (seq + 1) r s1
           in if k = 0 then ping_loop env sink q k (seq + 1) result received' samples' s2
              else (case ctx_err env s2 of
                      Some e \<Rightarrow>
                        (fillErrorSummary (ctx_err env s2) e
                           (fillPingSummary env (seq + 1) received' samples' (result\<lparr>trExitCode := -1\<rparr>)),
                         Some e, s2)
                    | None \<Rightarrow> ping_loop env sink q k (seq + 1) result received' samples' (tick s2))))"

text \<open>What the tools do alike when the target does not resolve or the socket does not open.\<close>

definition error_result :: "renv \<Rightarrow> Job \<Rightarrow> IPVersion \<Rightarrow> run_error \<Rightarrow> run_state \<Rightarrow> ToolResult" where
  "error_result env job version err s =
     fillErrorSummary (ctx_err env s) err ((newBuiltinResult job (-1))\<lparr>trIPVersion := version\<rparr>)"

definition runBuiltinPingWithTimeout :: "renv \<Rightarrow> bool \<Rightarrow> Job \<Rightarrow> dur \<Rightarrow> run_state \<Rightarrow> run_result" where
  "runBuiltinPingWithTimeout env sink job probeTimeout s =
     (let timeout = normalizedPingProbeTimeout probeTimeout;
          count = parsePositiveInt (argOr (jArgs job) ''count'' ''10'');
          mode = probeMode (argOr (jArgs job) ''protocol'' ''icmp'');
          port = parsePort (jArgs job) (defaultProbePort mode)
      in case resolveOne env (executionTarget job) (jIPVersion job) of
           Inl err \<Rightarrow> (error_result env job (jIPVersion job) err s, Some err, emitPingTimeoutMetric sink (ctx_err env s) err 1 s)
         | Inr (ip, version) \<Rightarrow>
             (let s1 = emitResolvedTarget sink ip version s
              in case (if mode = ''icmp'' then rnListenICMP env version else None) of
                   Some err \<Rightarrow> (error_result env job version err s1, Some err, emitPingTimeoutMetric sink (ctx_err env s1) err 1 s1)
                 | None \<Rightarrow>
                     ping_loop env sink
                       \<lparr>pqMode = mode, pqTarget = ip, pqVersion = version, pqPort = port, pqTTL = 64, pqID = rnID env,
                        pqSeq = 0, pqTimeout = timeout\<rparr> (nat count) 0
                       (put_summary ''target_ip'' (JStr (IP_String ip)) ((newBuiltinResult job 0)\<lparr>trIPVersion := version\<rparr>))
                       0 [] s1))"


section \<open>Traces\<close>

text \<open>The probes of one hop, from number \<^verbatim>\<open>probe\<close> on; the flag says that the target answered.\<close>

fun hop_probes ::
  "renv \<Rightarrow> probe_req \<Rightarrow> int \<Rightarrow> nat \<Rightarrow> int \<Rightarrow> run_state \<Rightarrow> ProbeResult list \<times> bool \<times> run_state" where
  "hop_probes env q probesPerHop 0 probe s = ([], False, s)"
| "hop_probes env q probesPerHop (Suc k) probe s =
     (let (r, s1) = traceOnce env (q\<lparr>pqSeq := traceProbeSeq (pqTTL q) probe probesPerHop\<rparr>) s;
          p = (case r of
                 Inl _ \<Rightarrow> \<lparr>prHost = [], prIP = [], prRTTMS = None, prTimeout = True\<rparr>
               | Inr (rtt, peer, _) \<Rightarrow>
                   \<lparr>prHost = [], prIP = (case peer of None \<Rightarrow> [] | Some ip \<Rightarrow> IP_String ip),
                    prRTTMS = Some (ms rtt), prTimeout = False\<rparr>);
          reached = (case r of Inl _ \<Rightarrow> False | Inr (_, _, reached) \<Rightarrow> reached);
          (ps, more, s2) = hop_probes env q probesPerHop k (probe + 1) s1
      in (p # ps, reached \<or> more, s2))"

definition new_hop :: "int \<Rightarrow> ProbeResult list \<Rightarrow> HopResult" where
  "new_hop index probes =
     \<lparr>hIndex = index, hHost = [], hIP = [], hRTTMS = None, hTimeout = False, hProbes = probes,
      hLossPct = None, hSent = None, hAvgMS = None, hBestMS = None, hWorstMS = None,
      hLastMS = None, hStdevMS = None, hTimesMS = []\<rparr>"

definition trace_done :: "string \<Rightarrow> ToolResult \<Rightarrow> ToolResult" where
  "trace_done mode r =
     put_summary ''protocol'' (JStr mode) (put_summary ''hop_count'' (JNum (of_nat (length (trHops r)))) r)"

fun trace_loop :: "renv \<Rightarrow> bool \<Rightarrow> probe_req \<Rightarrow> int \<Rightarrow> nat \<Rightarrow> int \<Rightarrow> ToolResult \<Rightarrow> run_state \<Rightarrow> run_result" where
  "trace_loop env sink q probesPerHop 0 ttl result s = (trace_done (pqMode q) result, None, s)"
| "trace_loop env sink q probesPerHop (Suc k) ttl result s =
     (case ctx_err env s of
        Some e \<Rightarrow> (fillErrorSummary (ctx_err env s) e (result\<lparr>trExitCode := -1\<rparr>), Some e, s)
      | None \<Rightarrow>
          (let (ps, reached, s1) = hop_probes env (q\<lparr>pqTTL := ttl\<rparr>) probesPerHop (nat probesPerHop) 0 (tick s);
               hop = new_hop ttl ps;
               result' = result\<lparr>trExitCode := (if reached then 0 else trExitCode result), trHops := trHops result @ [hop]\<rparr>;
               s2 = emitHop sink hop s1
           in if trExitCode result' = 0 then (trace_done (pqMode q) result', None, s2)
              else trace_loop env sink q probesPerHop k (ttl + 1) result' s2))"

definition runTrace ::
  "renv \<Rightarrow> bool \<Rightarrow> Job \<Rightarrow> int \<Rightarrow> int \<Rightarrow> string \<Rightarrow> int \<Rightarrow> bool \<Rightarrow> dur \<Rightarrow> run_state \<Rightarrow> run_result" where
  "runTrace env sink job maxHops probesPerHop mode port emitResolved probeTimeout s =
     (let timeout = normalizedRouteProbeTimeout probeTimeout
      in case resolveOne env (executionTarget job) (jIPVersion job) of
           Inl err \<Rightarrow> (error_result env job (jIPVersion job) err s, Some err, s)
         | Inr (ip, version) \<Rightarrow>
             (let s1 = (if emitResolved then emitResolvedTarget sink ip version s else s)
              in case (if mode = ''icmp'' then rnListenICMP env version else None) of
                   Some err \<Rightarrow> (error_result env job version err s1, Some err, s1)
                 | None \<Rightarrow>
                     trace_loop env sink
                       \<lparr>pqMode = mode, pqTarget = ip, pqVersion = version, pqPort = port, pqTTL = 0, pqID = rnID env,
                        pqSeq = 0, pqTimeout = timeout\<rparr> probesPerHop (nat maxHops) 1
                       ((newBuiltinResult job 1)\<lparr>trIPVersion := version\<rparr>) s1))"

definition runBuiltinTracerouteWithTimeout :: "renv \<Rightarrow> bool \<Rightarrow> Job \<Rightarrow> dur \<Rightarrow> run_state \<Rightarrow> run_result" where
  "runBuiltinTracerouteWithTimeout env sink job probeTimeout s =
     (let maxHops = parsePositiveInt (argOr (jArgs job) ''max_hops'' ''30'');
          mode = probeMode (argOr (jArgs job) ''protocol'' ''icmp'');
          port = parsePort (jArgs job) (defaultProbePort mode);
          (result, err, s1) = runTrace env sink job maxHops 1 mode port True probeTimeout s
      in (flattenResultHops result, err, s1))"


section \<open>MTR\<close>

type_synonym hop_acc = "(int, ProbeResult list) gomap"

definition acc_probes :: "hop_acc \<Rightarrow> int \<Rightarrow> ProbeResult list" where
  "acc_probes acc i = (case mget acc i of None \<Rightarrow> [] | Some ps \<Rightarrow> ps)"

definition add_hops :: "HopResult list \<Rightarrow> hop_acc \<Rightarrow> hop_acc" where
  "add_hops hops acc = fold (\<lambda>h acc. mput (hIndex h) (acc_probes acc (hIndex h) @ hProbes h) acc) hops acc"

text \<open>
  The cycles of an MTR run: \<^verbatim>\<open>k\<close> are left, \<^verbatim>\<open>i\<close> are done. The first cycle's error ends the
  tool (\<open>Inl\<close>), a later one ends the loop.
\<close>

fun mtr_loop ::
  "renv \<Rightarrow> bool \<Rightarrow> Job \<Rightarrow> string \<Rightarrow> int \<Rightarrow> dur \<Rightarrow> nat \<Rightarrow> int \<Rightarrow> int \<Rightarrow> hop_acc \<Rightarrow> ToolResult option \<Rightarrow> run_state
   \<Rightarrow> run_result + hop_acc \<times> ToolResult option \<times> int \<times> run_state" where
  "mtr_loop env sink job mode port timeout 0 i maxHops acc final s = Inr (acc, final, maxHops, s)"
| "mtr_loop env sink job mode port timeout (Suc k) i maxHops acc final s =
     (let (trace, err, s1) = runTrace env sink job maxHops 1 mode (port + i) (i = 0) timeout s;
          acc' = add_hops (trHops trace) acc
      in case err of
           Some e \<Rightarrow> (if final = None then Inl (trace, Some e, s1) else Inr (acc', Some trace, maxHops, s1))
         | None \<Rightarrow>
             mtr_loop env sink job mode port timeout k (i + 1)
               (if trExitCode trace = 0 then int (length (trHops trace)) else maxHops) acc' (Some trace) s1)"

definition mtr_hops :: "renv \<Rightarrow> hop_acc \<Rightarrow> int \<Rightarrow> int \<Rightarrow> HopResult list" where
  "mtr_hops env acc maxHops sent =
     map (\<lambda>i. FlattenSingleProbe (summarizeHop env (int i) (acc_probes acc (int i)) sent)) [1 ..< nat (maxHops + 1)]"

definition runBuiltinMTRWithTimeout :: "renv \<Rightarrow> bool \<Rightarrow> Job \<Rightarrow> dur \<Rightarrow> run_state \<Rightarrow> run_result" where
  "runBuiltinMTRWithTimeout env sink job probeTimeout s =
     (let count = parsePositiveInt (argOr (jArgs job) ''count'' ''10'');
          maxHops = parsePositiveInt (argOr (jArgs job) ''max_hops'' ''30'');
          mode = probeMode (argOr (jArgs job) ''protocol'' ''icmp'');
          port = parsePort (jArgs job) (defaultProbePort mode)
      in case mtr_loop env sink job mode port probeTimeout (nat count) 0 maxHops [] None s of
           Inl early \<Rightarrow> early
         | Inr (acc, final, maxHops', s1) \<Rightarrow>
             (let result = (case final of
                              None \<Rightarrow> newBuiltinResult job 0
                            | Some f \<Rightarrow> copyErrorSummary f
                                 ((newBuiltinResult job (trExitCode f))\<lparr>trIPVersion := trIPVersion f\<rparr>));
                  hops = mtr_hops env acc maxHops' count
              in (put_summary ''cycles'' (JNum (of_int count))
                    (put_summary ''protocol'' (JStr mode)
                      (put_summary ''hop_count'' (JNum (of_nat (length hops))) (result\<lparr>trHops := hops\<rparr>))),
                  None, fold (emitHopSummary sink) hops s1)))"


section \<open>HTTP\<close>

record http_trace =
  htDNSStart :: time
  htConnectStart :: time
  htTLSStart :: time
  htFirstByteAt :: time
  htDNSMS :: float64
  htConnectMS :: float64
  htTLSMS :: float64
  htRemoteAddr :: string

definition no_trace :: http_trace where
  "no_trace =
     \<lparr>htDNSStart = 0, htConnectStart = 0, htTLSStart = 0, htFirstByteAt = 0,
      htDNSMS = 0, htConnectMS = 0, htTLSMS = 0, htRemoteAddr = []\<rparr>"

definition elapsedMS :: "time \<Rightarrow> time \<Rightarrow> float64" where
  "elapsedMS now start = ms (now - start)"

fun trace_event :: "http_event \<Rightarrow> http_trace \<Rightarrow> http_trace" where
  "trace_event (DNSStart now) t = t\<lparr>htDNSStart := now\<rparr>"
| "trace_event (DNSDone now) t = (if IsZero (htDNSStart t) then t else t\<lparr>htDNSMS := elapsedMS now (htDNSStart t)\<rparr>)"
| "trace_event (ConnectStart now addr) t = t\<lparr>htConnectStart := now, htRemoteAddr := addr\<rparr>"
| "trace_event (ConnectDone now addr) t =
     (let t1 = t\<lparr>htRemoteAddr := addr\<rparr>
      in if IsZero (htConnectStart t) then t1 else t1\<lparr>htConnectMS := elapsedMS now (htConnectStart t)\<rparr>)"
| "trace_event (TLSHandshakeStart now) t = t\<lparr>htTLSStart := now\<rparr>"
| "trace_event (TLSHandshakeDone now) t = (if IsZero (htTLSStart t) then t else t\<lparr>htTLSMS := elapsedMS now (htTLSStart t)\<rparr>)"
| "trace_event (GotFirstResponseByte now) t = t\<lparr>htFirstByteAt := now\<rparr>"

record httpProbeSummary =
  hsMethod :: string
  hsRequestStart :: time
  hsDownloadStart :: time
  hsTrace :: http_trace
  hsResp :: "(int \<times> int) option"
  hsBytesRead :: int
  hsErr :: "run_error option"

definition bytesPerSecond :: "int \<Rightarrow> float64 \<Rightarrow> float64" where
  "bytesPerSecond bytes millis = (if millis \<le> 0 then 0 else of_int bytes / (millis / 1000))"

definition fillHTTPSummary :: "run_error option \<Rightarrow> time \<Rightarrow> time \<Rightarrow> httpProbeSummary \<Rightarrow> ToolResult \<Rightarrow> ToolResult" where
  "fillHTTPSummary ctx now nowDownload h r =
     (let t = hsTrace h;
          num = (\<lambda>k (q :: float64). put_summary k (JNum q));
          r1 = put_summary ''method'' (JStr (hsMethod h)) r;
          r2 = (if IsZero (hsRequestStart h) then r1 else num ''time_total_ms'' (elapsedMS now (hsRequestStart h)) r1);
          r3 = num ''time_tls_ms'' (htTLSMS t) (num ''time_dns_ms'' (htDNSMS t) (num ''time_connect_ms'' (htConnectMS t) r2));
          r4 = (if \<not> IsZero (htFirstByteAt t) then num ''time_first_byte_ms'' (ms (htFirstByteAt t - hsRequestStart h)) r3
                else if \<not> IsZero (hsDownloadStart h) then num ''time_first_byte_ms'' (ms (hsDownloadStart h - hsRequestStart h)) r3
                else r3);
          r5 = (if IsZero (hsDownloadStart h) then r4
                else let downloadMS = elapsedMS nowDownload (hsDownloadStart h)
                     in num ''download_bytes_per_sec'' (bytesPerSecond (hsBytesRead h) downloadMS)
                          (num ''bytes_downloaded'' (of_int (hsBytesRead h)) (num ''time_download_ms'' downloadMS r4)));
          r6 = (case hsResp h of
                  None \<Rightarrow> r5
                | Some (code, len) \<Rightarrow> num ''content_length'' (of_int len) (num ''http_code'' (of_int code) r5));
          r7 = (if htRemoteAddr t = [] then r6 else put_summary ''remote_addr'' (JStr (htRemoteAddr t)) r6)
      in case hsErr h of None \<Rightarrow> r7 | Some err \<Rightarrow> fillErrorSummary ctx err r7)"

text \<open>\<^verbatim>\<open>net.SplitHostPort\<close> again, now for the port, and \<^verbatim>\<open>net.JoinHostPort\<close>.\<close>

definition SplitPort :: "string \<Rightarrow> string option" where
  "SplitPort hostport = map_option (\<lambda>_. rev (takeWhile (\<lambda>c. c \<noteq> CHR '':'') (rev hostport))) (SplitHost hostport)"

definition JoinHostPort :: "string \<Rightarrow> string \<Rightarrow> string" where
  "JoinHostPort host port = (if CHR '':'' \<in> set host then ''['' @ host @ '']:'' @ port else host @ '':'' @ port)"

definition httpDialAddress :: "Job \<Rightarrow> string \<Rightarrow> run_error + string" where
  "httpDialAddress job address =
     (if jResolvedTarget job = [] then Inr address
      else (case SplitPort address of
              None \<Rightarrow> Inl (RunError OtherError ''address'')
            | Some port \<Rightarrow> Inr (JoinHostPort (jResolvedTarget job) port)))"

text \<open>\<^verbatim>\<open>strings.Replace\<close> of the first occurrence.\<close>

fun Replace1 :: "string \<Rightarrow> string \<Rightarrow> string \<Rightarrow> string" where
  "Replace1 old new [] = []"
| "Replace1 old new (c # cs) =
     (if HasPrefix (c # cs) old then new @ drop (length old) (c # cs) else c # Replace1 old new cs)"

definition http_dial :: "Job \<Rightarrow> string \<Rightarrow> string \<Rightarrow> run_error + string \<times> string" where
  "http_dial job network address =
     (case httpDialAddress job address of
        Inl err \<Rightarrow> Inl err
      | Inr addr \<Rightarrow>
          Inr (if jIPVersion job = IPv4 then Replace1 ''tcp'' ''tcp4'' network
               else if jIPVersion job = IPv6 then Replace1 ''tcp'' ''tcp6'' network else network, addr))"

definition httpTLSServerName :: "URL \<Rightarrow> string" where
  "httpTLSServerName u =
     (if uScheme u \<noteq> ''https'' then []
      else if uHostname u = [] \<or> ParseIP (uHostname u) \<noteq> None then [] else uHostname u)"

definition newHTTPProbeRequest :: "renv \<Rightarrow> string \<Rightarrow> run_error + string" where
  "newHTTPProbeRequest env target =
     (case rnURL env target of Inl err \<Rightarrow> Inl err | Inr u \<Rightarrow> Inr (httpTLSServerName u))"

definition runBuiltinHTTP :: "renv \<Rightarrow> Job \<Rightarrow> run_state \<Rightarrow> run_result" where
  "runBuiltinHTTP env job s =
     (let result = newBuiltinResult job 0; ctx = ctx_err env s;
          verb = argOr (jArgs job) ''method'' ''GET''
      in case newHTTPProbeRequest env (jTarget job) of
           Inl err \<Rightarrow> (fillErrorSummary ctx err (result\<lparr>trExitCode := 1\<rparr>), Some err, s)
         | Inr serverName \<Rightarrow>
             (let io = rnHTTP env verb (jTarget job) serverName (http_dial job);
                  trace = fold trace_event (hiEvents io) no_trace;
                  h = \<lparr>hsMethod = verb, hsRequestStart = hiRequestStart io, hsDownloadStart = 0, hsTrace = trace,
                       hsResp = None, hsBytesRead = 0, hsErr = None\<rparr>
              in case hiDo io of
                   Inl err \<Rightarrow> (fillHTTPSummary ctx (hiNow io) (hiNowDownload io) (h\<lparr>hsErr := Some err\<rparr>) (result\<lparr>trExitCode := 1\<rparr>), Some err, s)
                 | Inr (code, len) \<Rightarrow>
                     (let (n, err) = hiCopy io (if verb = ''GET'' then None else Some (4 * 1024));
                          r = fillHTTPSummary ctx (hiNow io) (hiNowDownload io)
                                (h\<lparr>hsDownloadStart := hiDownloadStart io, hsResp := Some (code, len), hsBytesRead := n,
                                   hsErr := err\<rparr>) result
                      in case err of
                           Some e \<Rightarrow> (r\<lparr>trExitCode := 1\<rparr>, Some e, s)
                         | None \<Rightarrow> (if 400 \<le> code then r\<lparr>trExitCode := 1\<rparr> else r, None, s))))"


section \<open>DNS and port\<close>

text \<open>
  \<^verbatim>\<open>strings.ToUpper\<close>: besides the ASCII letters two other runes have an ASCII upper case; the
  rest stays as it is, which no record type contains.
\<close>

function ToUpper :: "string \<Rightarrow> string" where
  "ToUpper s =
     (if HasPrefix s [CHR 0xC5, CHR 0xBF] then CHR ''S'' # ToUpper (drop 2 s)
      else if HasPrefix s [CHR 0xC4, CHR 0xB1] then CHR ''I'' # ToUpper (drop 2 s)
      else (case s of [] \<Rightarrow> [] | c # t \<Rightarrow> upper_char c # ToUpper t))"
  by pat_completeness auto
termination
  by (relation "measure length") (auto simp: HasPrefix_iff)

declare ToUpper.simps [simp del]

definition TrimSuffix :: "string \<Rightarrow> string \<Rightarrow> string" where
  "TrimSuffix s suffix = (if HasPrefix (rev s) (rev suffix) then take (length s - length suffix) s else s)"

definition lookupRecords :: "renv \<Rightarrow> string \<Rightarrow> string \<Rightarrow> run_error + DNSRecord list" where
  "lookupRecords env target typ =
     (if typ = ''A'' \<or> typ = ''AAAA'' then
        map_sum id (map (\<lambda>ip. DNSRecord typ (IP_String ip))) (rnLookupIP env (if typ = ''A'' then ''ip4'' else ''ip6'') target)
      else if typ = ''CNAME'' then map_sum id (\<lambda>cname. [DNSRecord typ (TrimSuffix cname ''.'')]) (rnLookupCNAME env target)
      else if typ = ''MX'' then
        map_sum id (map (\<lambda>(pref, host). DNSRecord typ (Itoa pref @ '' '' @ TrimSuffix host ''.''))) (rnLookupMX env target)
      else if typ = ''NS'' then map_sum id (map (\<lambda>host. DNSRecord typ (TrimSuffix host ''.''))) (rnLookupNS env target)
      else if typ = ''TXT'' then map_sum id (map (DNSRecord typ)) (rnLookupTXT env target)
      else Inl (RunError OtherError (''unsupported dns type '' @ typ)))"

definition runBuiltinDNS :: "renv \<Rightarrow> Job \<Rightarrow> run_state \<Rightarrow> run_result" where
  "runBuiltinDNS env job s =
     (let result = newBuiltinResult job 0
      in case lookupRecords env (jTarget job) (ToUpper (argOr (jArgs job) ''type'' ''A'')) of
           Inl err \<Rightarrow> (fillErrorSummary (ctx_err env s) err (result\<lparr>trExitCode := 1\<rparr>), Some err, s)
         | Inr records \<Rightarrow>
             (put_summary ''record_count'' (JNum (of_nat (length records))) (result\<lparr>trRecords := records\<rparr>), None, s))"

definition runBuiltinPort :: "renv \<Rightarrow> Job \<Rightarrow> run_state \<Rightarrow> run_result" where
  "runBuiltinPort env job s =
     (let result = newBuiltinResult job 0; port = parsePort (jArgs job) 0
      in if port \<le> 0 then
           (put_summary ''status'' (JStr ''invalid_port'') (result\<lparr>trExitCode := 1\<rparr>),
            Some (RunError OtherError ''port is required''), s)
         else case resolveOne env (executionTarget job) (jIPVersion job) of
           Inl err \<Rightarrow>
             (put_summary ''error'' (JStr (rerrText err))
                (put_summary ''status'' (JStr (statusOrFallback (ctx_err env s) err ''resolve_failed''))
                  (result\<lparr>trExitCode := 1\<rparr>)), Some err, s)
         | Inr (ip, version) \<Rightarrow>
             (let (r, s1) = tcpProbeWithTimeout env
                    \<lparr>pqMode = ''tcp'', pqTarget = ip, pqVersion = version, pqPort = port, pqTTL = 64, pqID = 0, pqSeq = 0,
                     pqTimeout = tcpProbeTimeout\<rparr> s;
                  result' = put_summary ''connect_ms'' (JNum (ms (rnElapsed env (rsClock s1))))
                    (put_summary ''peer'' (JStr (IP_String ip))
                      (put_summary ''protocol'' (JStr ''tcp'')
                        (put_summary ''port'' (JNum (of_int port)) (result\<lparr>trIPVersion := version\<rparr>))))
              in case r of
                   Inl err \<Rightarrow>
                     (put_summary ''error'' (JStr (rerrText err))
                        (put_summary ''status'' (JStr (statusOrFallback (ctx_err env s1) err ''closed''))
                          (result'\<lparr>trExitCode := 1\<rparr>)), None, s1)
                 | Inr _ \<Rightarrow> (put_summary ''status'' (JStr ''open'') result', None, s1)))"


section \<open>The runner\<close>

text \<open>An unknown tool has no result.\<close>

definition runBuiltin ::
  "renv \<Rightarrow> bool \<Rightarrow> Job \<Rightarrow> dur \<Rightarrow> run_state \<Rightarrow> ToolResult option \<times> run_error option \<times> run_state" where
  "runBuiltin env sink job probeTimeout s =
     (if jTool job = ToolPing then apfst Some (runBuiltinPingWithTimeout env sink job probeTimeout s)
      else if jTool job = ToolTraceroute then apfst Some (runBuiltinTracerouteWithTimeout env sink job probeTimeout s)
      else if jTool job = ToolMTR then apfst Some (runBuiltinMTRWithTimeout env sink job probeTimeout s)
      else if jTool job = ToolHTTP then apfst Some (runBuiltinHTTP env job s)
      else if jTool job = ToolDNS then apfst Some (runBuiltinDNS env job s)
      else if jTool job = ToolPort then apfst Some (runBuiltinPort env job s)
      else (None, Some (RunError OtherError (''unsupported builtin tool '' @ jTool job)), s))"

text \<open>\<^verbatim>\<open>context.WithTimeout\<close>: the environment of a run depends on the timeout of its policy.\<close>

definition RunStream ::
  "(dur \<Rightarrow> renv) \<Rightarrow> bool \<Rightarrow> Job \<Rightarrow> Policy \<Rightarrow> ToolResult option \<times> run_error option \<times> run_state" where
  "RunStream env sink job p = runBuiltin (env (pTimeout p)) sink job (pProbeTimeout p) run_start"

definition runner_Run :: "(dur \<Rightarrow> renv) \<Rightarrow> Job \<Rightarrow> Policy \<Rightarrow> ToolResult option \<times> run_error option \<times> run_state" where
  "runner_Run env job p = RunStream env False job p"

end
