(* ===== verification/RunnerFacts.thy ===== *)
theory RunnerFacts
  imports Runner
begin

text \<open>
  What a run of a tool writes and sends: the events and probes of each tool, the hops of a trace in
  order, and the statistics of pings and of the hops of an MTR run.
\<close>


section \<open>What a run adds\<close>

text \<open>A run only appends events and probes; \<open>P\<close> holds of the events, \<open>Q\<close> of the probes.\<close>

definition run_adds :: "(StreamEvent \<Rightarrow> bool) \<Rightarrow> (probe_req \<Rightarrow> bool) \<Rightarrow> run_state \<Rightarrow> run_state \<Rightarrow> bool" where
  "run_adds P Q s t \<longleftrightarrow>
     (\<exists>es qs. rsEvents t = rsEvents s @ es \<and> list_all P es \<and> rsSent t = rsSent s @ qs \<and> list_all Q qs)"

named_theorems adds_intros "steps of a run"

lemma adds_refl [simp, adds_intros]: "run_adds P Q s s"
  by (simp add: run_adds_def)

lemma adds_trans: "run_adds P Q s t \<Longrightarrow> run_adds P Q t u \<Longrightarrow> run_adds P Q s u"
  unfolding run_adds_def by (metis append.assoc list_all_append)

lemma adds_mono: "run_adds P Q s t \<Longrightarrow> (\<And>e. P e \<Longrightarrow> P' e) \<Longrightarrow> (\<And>q. Q q \<Longrightarrow> Q' q) \<Longrightarrow> run_adds P' Q' s t"
  unfolding run_adds_def by (metis list.pred_mono_strong)

lemma adds_tick [adds_intros]: "run_adds P Q (tick s) t \<Longrightarrow> run_adds P Q s t"
  by (simp add: run_adds_def tick_def)

lemma adds_emit [adds_intros]: "P e \<Longrightarrow> run_adds P Q s (emitMetric sink e s)"
  by (auto simp: run_adds_def emitMetric_def)

lemma adds_fold: "(\<And>x s. x \<in> set xs \<Longrightarrow> run_adds P Q s (f x s)) \<Longrightarrow> run_adds P Q s (fold f xs s)"
proof (induction xs arbitrary: s)
  case (Cons x xs)
  from Cons.prems [of x s] Cons.IH [of "f x s"] Cons.prems show ?case by (auto intro: adds_trans)
qed simp

lemma adds_start: "run_adds P Q run_start s \<Longrightarrow> list_all P (rsEvents s) \<and> list_all Q (rsSent s)"
  by (auto simp: run_adds_def run_start_def)

lemma send_probe_state:
  "send_probe env q s = (io, t) \<Longrightarrow> rsEvents t = rsEvents s \<and> rsSent t = rsSent s @ [q]"
  by (auto simp: send_probe_def tick_def)


section \<open>Probes\<close>

text \<open>A probe goes where it is told to, with the timeout set.\<close>

lemma probe_state:
  "icmpProbe env q s = (r, t) \<Longrightarrow> rsEvents t = rsEvents s \<and> rsSent t = rsSent s @ [q]"
  "tcpProbeWithTimeout env q s = (r, t) \<Longrightarrow> rsEvents t = rsEvents s \<and> rsSent t = rsSent s @ [q]"
  by (auto simp: icmpProbe_def tcpProbeWithTimeout_def send_probe_def tick_def)

lemma probeOnce_state:
  "probeOnce env q s = (r, t) \<Longrightarrow> rsEvents t = rsEvents s \<and> (\<exists>d. rsSent t = rsSent s @ [q\<lparr>pqTimeout := d\<rparr>])"
  by (auto simp: probeOnce_def Let_def dest!: probe_state split: if_splits)

lemma traceOnce_state:
  "traceOnce env q s = (r, t) \<Longrightarrow> rsEvents t = rsEvents s \<and> (\<exists>d. rsSent t = rsSent s @ [q\<lparr>pqTimeout := d\<rparr>])"
  by (auto simp: traceOnce_def Let_def dest!: probe_state send_probe_state split: if_splits prod.splits)

text \<open>The probes of a run go to one address.\<close>

definition sent_to :: "netIP \<Rightarrow> IPVersion \<Rightarrow> probe_req \<Rightarrow> bool" where
  "sent_to ip version q \<longleftrightarrow> pqTarget q = ip \<and> pqVersion q = version"

lemma sent_to_update [simp]:
  "sent_to ip version (q\<lparr>pqTimeout := d\<rparr>) = sent_to ip version q"
  "sent_to ip version (q\<lparr>pqSeq := i\<rparr>) = sent_to ip version q"
  "sent_to ip version (q\<lparr>pqTTL := i\<rparr>) = sent_to ip version q"
  by (simp_all add: sent_to_def)

lemma adds_probe:
  "probeOnce env q s = (r, t) \<Longrightarrow> sent_to ip version q \<Longrightarrow> run_adds P (sent_to ip version) s t"
  "traceOnce env q s = (r', t) \<Longrightarrow> sent_to ip version q \<Longrightarrow> run_adds P (sent_to ip version) s t"
  "tcpProbeWithTimeout env q s = (r, t) \<Longrightarrow> sent_to ip version q \<Longrightarrow> run_adds P (sent_to ip version) s t"
  by (auto simp: run_adds_def dest!: probeOnce_state traceOnce_state probe_state(2))


section \<open>Events\<close>

text \<open>The events of the tools; a hop event has an index up to \<open>n\<close>, and a count of probes is \<open>c\<close>.\<close>

definition tool_event :: "int \<Rightarrow> int \<Rightarrow> StreamEvent \<Rightarrow> bool" where
  "tool_event c n e \<longleftrightarrow>
     (case seHop e of
        None \<Rightarrow> seType e \<in> {''metric'', ''target_resolved''} \<and> mwf (seMetric e)
      | Some h \<Rightarrow> seType e \<in> {''hop'', ''hop_summary''} \<and> seMetric e = [] \<and> 1 \<le> hIndex h \<and> hIndex h \<le> n
                  \<and> pred_option (\<lambda>m. m = c) (hSent h))"

lemma tool_event_metric [simp]: "tool_event c n (metric_event typ m) \<longleftrightarrow> typ \<in> {''metric'', ''target_resolved''} \<and> mwf m"
  by (simp add: tool_event_def metric_event_def)

lemma tool_event_hop [simp]:
  "tool_event c n (hop_event typ h) \<longleftrightarrow>
   typ \<in> {''hop'', ''hop_summary''} \<and> 1 \<le> hIndex h \<and> hIndex h \<le> n \<and> pred_option (\<lambda>m. m = c) (hSent h)"
  by (auto simp: tool_event_def hop_event_def)

lemma adds_emits [adds_intros]:
  "run_adds (tool_event c n) Q s (emitPingTimeoutMetric sink ctx err i s)"
  "run_adds (tool_event c n) Q s (emitPingProbeMetric sink ctx i r s)"
  "run_adds (tool_event c n) Q s (emitResolvedTarget sink ip version s)"
  by (auto simp: emitPingTimeoutMetric_def emitPingProbeMetric_def emitResolvedTarget_def mwf_def
      intro!: adds_intros split: sum.splits)

lemma Flatten_fields [simp]:
  "hIndex (FlattenSingleProbe h) = hIndex h" "hSent (FlattenSingleProbe h) = hSent h"
  "hLossPct (FlattenSingleProbe h) = hLossPct h" "hAvgMS (FlattenSingleProbe h) = hAvgMS h"
  "hBestMS (FlattenSingleProbe h) = hBestMS h" "hWorstMS (FlattenSingleProbe h) = hWorstMS h"
  "hLastMS (FlattenSingleProbe h) = hLastMS h" "hProbes (FlattenSingleProbe h) = []"
  by (simp_all add: FlattenSingleProbe_def split: list.splits)


section \<open>Ping\<close>

lemma ping_loop_adds:
  "sent_to ip version q \<Longrightarrow>
   run_adds (tool_event c n) (sent_to ip version) s (snd (snd (ping_loop env sink q k i result received samples s)))"
proof (induction env sink q k i result received samples s rule: ping_loop.induct)
  case (2 env sink q k i result received samples s)
  obtain r s1 where p: "probeOnce env (q\<lparr>pqSeq := i + 1\<rparr>) (tick s) = (r, s1)" by (cases "probeOnce env (q\<lparr>pqSeq := i + 1\<rparr>) (tick s)")
  let ?s2 = "emitPingProbeMetric sink (ctx_err env s1) (i + 1) r s1"
  have s2: "run_adds (tool_event c n) (sent_to ip version) s ?s2"
    using adds_trans [OF adds_tick [OF adds_probe(1) [OF p]] adds_emits(2)] 2(3) by simp
  then have "run_adds (tool_event c n) (sent_to ip version) s (tick ?s2)"
    using adds_trans adds_tick [OF adds_refl] by (auto simp: run_adds_def tick_def)
  with s2 2 p show ?case
    by (cases "ctx_err env s"; cases "k = 0"; cases "ctx_err env ?s2")
      (auto simp: Let_def intro: adds_intros adds_trans)
qed (simp add: Let_def)

lemma loss_pct_bounds:
  assumes "0 \<le> received" "received \<le> sent"
  shows "0 \<le> loss_pct sent received" "loss_pct sent received \<le> 100"
  using assms by (auto simp: loss_pct_def divide_le_eq)


section \<open>Traces\<close>

definition probe_ok :: "ProbeResult \<Rightarrow> bool" where
  "probe_ok p \<longleftrightarrow> (prTimeout p \<longleftrightarrow> prRTTMS p = None)"

definition fresh_hop :: "nat \<Rightarrow> HopResult \<Rightarrow> bool" where
  "fresh_hop n h \<longleftrightarrow> h = new_hop (hIndex h) (hProbes h) \<and> length (hProbes h) = n \<and> list_all probe_ok (hProbes h)"

lemma hop_probes_adds:
  "hop_probes env q pp k i s = (ps, reached, t) \<Longrightarrow> sent_to ip version q \<Longrightarrow>
   run_adds P (sent_to ip version) s t \<and> length ps = k \<and> list_all probe_ok ps"
proof (induction k arbitrary: i s ps reached)
  case (Suc k)
  obtain r s1 where p: "traceOnce env (q\<lparr>pqSeq := traceProbeSeq (pqTTL q) i pp\<rparr>) s = (r, s1)"
    by (cases "traceOnce env (q\<lparr>pqSeq := traceProbeSeq (pqTTL q) i pp\<rparr>) s")
  obtain ps' more s2 where h: "hop_probes env q pp k (i + 1) s1 = (ps', more, s2)" by (cases "hop_probes env q pp k (i + 1) s1")
  from adds_probe(2) [OF p, of ip version P] Suc.IH [of "i + 1" s1 ps' more] Suc.prems p h
  show ?case by (auto simp: probe_ok_def intro: adds_trans split: sum.splits)
qed simp

lemma trace_loop_adds:
  "sent_to ip version q \<Longrightarrow> 1 \<le> ttl \<Longrightarrow> ttl + int k \<le> n + 1 \<Longrightarrow>
   run_adds (tool_event c n) (sent_to ip version) s (snd (snd (trace_loop env sink q pp k ttl result s)))"
proof (induction k arbitrary: ttl result s)
  case (Suc k)
  obtain ps reached s1 where h: "hop_probes env (q\<lparr>pqTTL := ttl\<rparr>) pp (nat pp) 0 (tick s) = (ps, reached, s1)"
    by (cases "hop_probes env (q\<lparr>pqTTL := ttl\<rparr>) pp (nat pp) 0 (tick s)")
  have "run_adds (tool_event c n) (sent_to ip version) s (emitHop sink (new_hop ttl ps) s1)"
    using hop_probes_adds [OF h] Suc.prems
    by (auto simp: emitHop_def new_hop_def intro!: adds_trans [OF adds_tick adds_emit])
  with Suc h show ?case by (cases "ctx_err env s") (auto simp: Let_def intro: adds_trans)
qed simp

text \<open>The hops of a trace, in order, and the events that report them.\<close>

lemma trace_loop_hops:
  assumes "trace_loop env sink q pp k ttl result s = (r, err, t)" "trExitCode result = 1"
  shows "\<exists>hs. trHops r = trHops result @ hs \<and> length hs \<le> k
    \<and> map hIndex hs = map (\<lambda>i. ttl + int i) [0 ..< length hs]
    \<and> list_all (fresh_hop (nat pp)) hs
    \<and> (err = None \<and> trExitCode r \<noteq> 0 \<longrightarrow> length hs = k) \<and> (trExitCode r = 0 \<longrightarrow> err = None \<and> hs \<noteq> [])
    \<and> trExitCode r \<in> {-1, 0, 1}
    \<and> (sink \<longrightarrow> rsEvents t = rsEvents s @ map (\<lambda>h. hop_event ''hop'' (FlattenSingleProbe h)) hs)"
  using assms
proof (induction k arbitrary: ttl result s)
  case 0
  then show ?case by (intro exI [of _ "[]"]) (auto simp: trace_done_def put_summary_def)
next
  case (Suc k)
  show ?case
  proof (cases "ctx_err env s")
    case (Some e)
    with Suc.prems have "err = Some e" "trHops r = trHops result" "trExitCode r = -1" "t = s"
      by (auto simp: fillErrorSummary_def put_summary_def)
    then show ?thesis by (intro exI [of _ "[]"]) simp
  next
    case None
    obtain ps reached s1 where h: "hop_probes env (q\<lparr>pqTTL := ttl\<rparr>) pp (nat pp) 0 (tick s) = (ps, reached, s1)"
      by (cases "hop_probes env (q\<lparr>pqTTL := ttl\<rparr>) pp (nat pp) 0 (tick s)")
    let ?hop = "new_hop ttl ps"
    let ?res = "result\<lparr>trExitCode := (if reached then 0 else trExitCode result), trHops := trHops result @ [?hop]\<rparr>"
    have q: "sent_to (pqTarget q) (pqVersion q) (q\<lparr>pqTTL := ttl\<rparr>)" by (simp add: sent_to_def)
    have len: "fresh_hop (nat pp) (new_hop ttl ps)" using hop_probes_adds [OF h q] by (simp add: fresh_hop_def new_hop_def)
    have "rsEvents s1 = rsEvents s" using hop_probes_adds [OF h q, of "\<lambda>_. False"] by (auto simp: run_adds_def tick_def list_all_iff)
    then have ev: "sink \<longrightarrow> rsEvents (emitHop sink ?hop s1) = rsEvents s @ [hop_event ''hop'' (FlattenSingleProbe ?hop)]"
      by (simp add: emitHop_def emitMetric_def)
    have hop: "hIndex ?hop = ttl" by (simp add: new_hop_def)
    show ?thesis
    proof (cases reached)
      case True
      with Suc.prems None h ev len hop show ?thesis
        by (intro exI [of _ "[?hop]"]) (auto simp: Let_def trace_done_def put_summary_def)
    next
      case False
      with Suc.prems None h have rest: "trace_loop env sink q pp k (ttl + 1) ?res (emitHop sink ?hop s1) = (r, err, t)"
        by (simp add: Let_def)
      have one: "trExitCode ?res = 1" "trExitCode ?res \<noteq> 0" using False Suc.prems by simp_all
      from Suc.IH [OF rest one(1)]
      obtain hs where hs: "trHops r = trHops ?res @ hs" "length hs \<le> k"
        "map hIndex hs = map (\<lambda>i. ttl + 1 + int i) [0 ..< length hs]"
        "list_all (fresh_hop (nat pp)) hs"
        "err = None \<and> trExitCode r \<noteq> 0 \<longrightarrow> length hs = k" "trExitCode r = 0 \<longrightarrow> err = None \<and> hs \<noteq> []"
        "trExitCode r \<in> {-1, 0, 1}"
        "sink \<longrightarrow> rsEvents t = rsEvents (emitHop sink ?hop s1) @ map (\<lambda>h. hop_event ''hop'' (FlattenSingleProbe h)) hs" by blast
      have "map (\<lambda>i. ttl + int i) [0 ..< Suc (length hs)] = ttl # map (\<lambda>i. ttl + 1 + int i) [0 ..< length hs]"
        by (simp add: upt_conv_Cons map_Suc_upt [symmetric] del: upt_Suc)
      with hs ev len hop show ?thesis by (intro exI [of _ "?hop # hs"]) auto
    qed
  qed
qed


definition trace_hops :: "int \<Rightarrow> HopResult list \<Rightarrow> bool" where
  "trace_hops n hs \<longleftrightarrow>
     map hIndex hs = map (\<lambda>i. 1 + int i) [0 ..< length hs] \<and> int (length hs) \<le> n
     \<and> list_all (fresh_hop 1) hs"

definition trace_outcome :: "int \<Rightarrow> ToolResult \<Rightarrow> run_error option \<Rightarrow> bool" where
  "trace_outcome n r err \<longleftrightarrow>
     (err = None \<and> trExitCode r \<noteq> 0 \<longrightarrow> int (length (trHops r)) = n) \<and> (trExitCode r = 0 \<longrightarrow> err = None \<and> trHops r \<noteq> [])
     \<and> trExitCode r \<in> {-1, 0, 1}"

definition trace_streamed :: "HopResult list \<Rightarrow> run_state \<Rightarrow> run_state \<Rightarrow> bool" where
  "trace_streamed hs s t \<longleftrightarrow>
     (\<exists>es. rsEvents t = rsEvents s @ es @ map (\<lambda>h. hop_event ''hop'' (FlattenSingleProbe h)) hs
         \<and> list_all (\<lambda>e. seHop e = None) es)"

text \<open>The probes of a run go to the address that the target resolves to.\<close>

definition probes_target :: "renv \<Rightarrow> Job \<Rightarrow> probe_req \<Rightarrow> bool" where
  "probes_target env job q \<longleftrightarrow> resolveOne env (executionTarget job) (jIPVersion job) = Inr (pqTarget q, pqVersion q)"

lemma runTrace_facts:
  assumes run: "runTrace env sink job n 1 mode port emitResolved timeout s = (r, err, t)" and n: "1 \<le> n"
  shows "trace_hops n (trHops r) \<and> trace_outcome n r err \<and> (sink \<longrightarrow> trace_streamed (trHops r) s t)
    \<and> run_adds (tool_event c n) (probes_target env job) s t" (is ?A)
proof -
  have failed: ?A if "t = s1 \<and> r = error_result env job v e s1 \<and> err = Some e"
    "s1 = s \<or> (\<exists>ip v. s1 = emitResolvedTarget sink ip v s)" for s1 e v
    using that n
    by (auto simp: trace_hops_def trace_outcome_def trace_streamed_def error_result_def fillErrorSummary_def put_summary_def
        newBuiltinResult_def emitResolvedTarget_def emitMetric_def metric_event_def run_adds_def mwf_def tool_event_def)
  show ?A
  proof (cases "resolveOne env (executionTarget job) (jIPVersion job)")
    case (Inl e)
    with run show ?thesis by (intro failed [of s "jIPVersion job" e]) (auto simp: runTrace_def)
  next
    case (Inr x)
    obtain ip v where x: "x = (ip, v)" by (cases x)
    define s1 where "s1 = (if emitResolved then emitResolvedTarget sink ip v s else s)"
    let ?q = "\<lparr>pqMode = mode, pqTarget = ip, pqVersion = v, pqPort = port, pqTTL = 0, pqID = rnID env, pqSeq = 0,
        pqTimeout = normalizedRouteProbeTimeout timeout\<rparr>"
    let ?res = "(newBuiltinResult job 1)\<lparr>trIPVersion := v\<rparr>"
    show ?thesis
    proof (cases "if mode = ''icmp'' then rnListenICMP env v else None")
      case (Some e)
      with run Inr x have "t = s1 \<and> r = error_result env job v e s1 \<and> err = Some e"
        by (auto simp: runTrace_def Let_def s1_def)
      then show ?thesis by (rule failed) (auto simp: s1_def)
    next
      case None
      with run Inr x have l: "trace_loop env sink ?q 1 (nat n) 1 ?res s1 = (r, err, t)"
        by (auto simp: runTrace_def Let_def s1_def)
      obtain hs where hs: "trHops r = hs" "length hs \<le> nat n" "map hIndex hs = map (\<lambda>i. 1 + int i) [0 ..< length hs]"
        "list_all (fresh_hop 1) hs"
        "err = None \<and> trExitCode r \<noteq> 0 \<longrightarrow> length hs = nat n" "trExitCode r = 0 \<longrightarrow> err = None \<and> hs \<noteq> []"
        "trExitCode r \<in> {-1, 0, 1}"
        "sink \<longrightarrow> rsEvents t = rsEvents s1 @ map (\<lambda>h. hop_event ''hop'' (FlattenSingleProbe h)) hs"
        using trace_loop_hops [OF l] by (auto simp: newBuiltinResult_def)
      have "\<exists>es. rsEvents s1 = rsEvents s @ es \<and> list_all (\<lambda>e. seHop e = None) es"
        by (auto simp: s1_def emitResolvedTarget_def emitMetric_def metric_event_def)
      moreover have "run_adds (tool_event c n) (sent_to ip v) s1 t"
        using trace_loop_adds [of ip v ?q 1 "nat n" n c s1 env sink 1 ?res] n l by (simp add: sent_to_def)
      then have "run_adds (tool_event c n) (probes_target env job) s1 t"
        by (rule adds_mono) (auto simp: sent_to_def probes_target_def Inr x)
      then have "run_adds (tool_event c n) (probes_target env job) s t"
        by (rule adds_trans [rotated]) (auto simp: s1_def intro: adds_intros)
      ultimately show ?thesis using hs n by (auto simp: trace_hops_def trace_outcome_def trace_streamed_def)
    qed
  qed
qed


section \<open>MTR\<close>

text \<open>The hops of one index that were streamed.\<close>

definition hop_reports :: "StreamEvent list \<Rightarrow> int \<Rightarrow> HopResult list" where
  "hop_reports es x = filter (\<lambda>h. hIndex h = x) (List.map_filter (\<lambda>e. if seType e = ''hop'' then seHop e else None) es)"

lemma hop_reports_append [simp]: "hop_reports (es @ fs) x = hop_reports es x @ hop_reports fs x"
  by (simp add: hop_reports_def map_filter_def)

lemma hop_reports_none [simp]: "list_all (\<lambda>e. seHop e = None) es \<Longrightarrow> hop_reports es x = []"
  by (induction es) (auto simp: hop_reports_def List.map_filter_simps)

lemma hop_reports_hops:
  "hop_reports (map (\<lambda>h. hop_event ''hop'' (FlattenSingleProbe h)) hs) x = map FlattenSingleProbe (filter (\<lambda>h. hIndex h = x) hs)"
  by (induction hs) (auto simp: hop_reports_def List.map_filter_simps hop_event_def)

lemma acc_add_hops: "acc_probes (add_hops hs acc) x = acc_probes acc x @ concat (map hProbes (filter (\<lambda>h. hIndex h = x) hs))"
  unfolding add_hops_def by (induction hs arbitrary: acc) (auto simp: acc_probes_def)

lemma filter_distinct_nth:
  "distinct (map f xs) \<Longrightarrow> i < length xs \<Longrightarrow> filter (\<lambda>y. f y = f (xs ! i)) xs = [xs ! i]"
proof (induction xs arbitrary: i)
  case (Cons y ys)
  have "filter (\<lambda>x. f x = f y) ys = []"
  proof (rule filter_False, intro ballI notI)
    fix x assume "x \<in> set ys" "f x = f y"
    then have "f y \<in> f ` set ys" by (metis imageI)
    with Cons.prems(1) show False by simp
  qed
  with Cons show ?case by (cases i) auto
qed simp

lemma trace_hops_filter:
  assumes "trace_hops n hs"
  shows "filter (\<lambda>h. hIndex h = x) hs = (if 1 \<le> x \<and> x \<le> int (length hs) then [hs ! nat (x - 1)] else [])"
proof -
  have d: "distinct (map hIndex hs)" using assms by (simp add: trace_hops_def distinct_map inj_on_def)
  have i: "hIndex (hs ! i) = 1 + int i" if "i < length hs" for i
    using assms that by (metis (no_types, lifting) add_cancel_left_left length_map nth_map nth_upt trace_hops_def)
  show ?thesis
  proof (cases "1 \<le> x \<and> x \<le> int (length hs)")
    case True
    then have lt: "nat (x - 1) < length hs" "hIndex (hs ! nat (x - 1)) = x" using i [of "nat (x - 1)"] by auto
    have "filter (\<lambda>h. hIndex h = hIndex (hs ! nat (x - 1))) hs = [hs ! nat (x - 1)]"
      by (rule filter_distinct_nth [OF d lt(1)])
    with lt True show ?thesis by simp
  next
    case False
    then have "hIndex h \<noteq> x" if "h \<in> set hs" for h using that i by (auto simp: in_set_conv_nth)
    with False show ?thesis by (auto simp: filter_empty_conv)
  qed
qed


lemma tool_event_mono: "tool_event c m e \<Longrightarrow> m \<le> n \<Longrightarrow> tool_event c n e"
  by (auto simp: tool_event_def split: option.splits)

text \<open>One cycle: what it adds to the probes of a hop, and to the reports.\<close>

lemma cycle_acc:
  assumes "trace_hops n hs"
  shows "acc_probes (add_hops hs acc) x = acc_probes acc x
    @ (if 1 \<le> x \<and> x \<le> int (length hs) then [hd (hProbes (hs ! nat (x - 1)))] else [])"
proof -
  have one: "length (hProbes h) = 1" if "h \<in> set hs" for h using assms that by (auto simp: trace_hops_def list_all_iff fresh_hop_def)
  have "concat (map hProbes (filter (\<lambda>h. hIndex h = x) hs)) =
      (if 1 \<le> x \<and> x \<le> int (length hs) then [hd (hProbes (hs ! nat (x - 1)))] else [])"
  proof (cases "1 \<le> x \<and> x \<le> int (length hs)")
    case True
    then have "nat (x - 1) < length hs" by (auto simp: nat_less_iff)
    with one [of "hs ! nat (x - 1)"] True show ?thesis
      by (cases "hProbes (hs ! nat (x - 1))") (auto simp: trace_hops_filter [OF assms])
  qed (auto simp: trace_hops_filter [OF assms])
  then show ?thesis by (simp add: acc_add_hops)
qed

lemma cycle_reports:
  assumes "trace_hops n hs" "trace_streamed hs s t"
    "map prRTTMS (acc_probes acc x) = map hRTTMS (hop_reports (rsEvents s) x)"
  shows "map prRTTMS (acc_probes (add_hops hs acc) x) = map hRTTMS (hop_reports (rsEvents t) x)"
proof -
  have one: "h = new_hop (hIndex h) (hProbes h)" "length (hProbes h) = 1" if "h \<in> set hs" for h
    using assms(1) that unfolding trace_hops_def list_all_iff fresh_hop_def by blast+
  have "hRTTMS (FlattenSingleProbe h) = prRTTMS (hd (hProbes h))" if "h \<in> set hs" for h
  proof -
    from one(2) [OF that] obtain p where p: "hProbes h = [p]" by (auto simp: length_Suc_conv)
    have "hRTTMS (FlattenSingleProbe (new_hop (hIndex h) [p])) = prRTTMS p" by (simp add: FlattenSingleProbe_def new_hop_def)
    with one(1) [OF that] p show ?thesis by simp
  qed
  with assms show ?thesis
    by (auto simp: trace_streamed_def hop_reports_hops cycle_acc [OF assms(1)] trace_hops_filter [OF assms(1)])
qed

definition exit_ok :: "ToolResult \<Rightarrow> bool" where
  "exit_ok r \<longleftrightarrow> trExitCode r \<in> {-1, 0, 1}"

lemma mtr_loop_adds:
  assumes "1 \<le> n"
  shows "case mtr_loop env sink job mode port timeout k i n acc final s of
      Inl (r, err, t) \<Rightarrow> run_adds (tool_event c n) (probes_target env job) s t \<and> exit_ok r \<and> err \<noteq> None
    | Inr (acc', final', n', t) \<Rightarrow> run_adds (tool_event c n) (probes_target env job) s t \<and> 1 \<le> n' \<and> n' \<le> n
        \<and> (pred_option exit_ok final \<longrightarrow> pred_option exit_ok final')"
  using assms
proof (induction k arbitrary: i n acc final s)
  case (Suc k)
  obtain r err s1 where r: "runTrace env sink job n 1 mode (port + i) (i = 0) timeout s = (r, err, s1)"
    by (cases "runTrace env sink job n 1 mode (port + i) (i = 0) timeout s")
  note f = runTrace_facts [OF r Suc.prems, where c = c]
  show ?case
  proof (cases err)
    case (Some e)
    with f r Suc.prems show ?thesis by (auto simp: trace_outcome_def exit_ok_def)
  next
    case None
    let ?n = "if trExitCode r = 0 then int (length (trHops r)) else n"
    have n: "1 \<le> ?n" "?n \<le> n" using f Suc.prems by (auto simp: trace_outcome_def trace_hops_def Suc_le_eq)
    have up: "run_adds (tool_event c n) (probes_target env job) s u"
      if "run_adds (tool_event c ?n) (probes_target env job) s1 u" for u
      using adds_trans [OF _ adds_mono [OF that]] f tool_event_mono n(2) by blast
    let ?x = "mtr_loop env sink job mode port timeout k (i + 1) ?n (add_hops (trHops r) acc) (Some r) s1"
    have eq: "mtr_loop env sink job mode port timeout (Suc k) i n acc final s = ?x" using None r by (simp add: Let_def)
    have code: "exit_ok r" using f by (simp add: trace_outcome_def exit_ok_def)
    note IH = Suc.IH [OF n(1), where i = "i + 1" and acc = "add_hops (trHops r) acc" and final = "Some r" and s = s1]
    show ?thesis
    proof (cases ?x)
      case (Inl y)
      obtain r' err' t where y: "y = (r', err', t)" by (cases y)
      from IH up [of t] show ?thesis unfolding eq Inl y by simp
    next
      case (Inr y)
      obtain acc' final' n' t where y: "y = (acc', final', n', t)" by (cases y)
      from IH up [of t] n(2) code show ?thesis unfolding eq Inr y by simp
    qed
  qed
qed simp

lemma mtr_loop_acc:
  assumes "mtr_loop env sink job mode port timeout k i n acc final s = Inr (acc', final', n', t)" "1 \<le> n"
    "\<And>x. int (length (acc_probes acc x)) \<le> i" "sink"
    "\<And>x. map prRTTMS (acc_probes acc x) = map hRTTMS (hop_reports (rsEvents s) x)"
  shows "int (length (acc_probes acc' x)) \<le> i + int k
    \<and> map prRTTMS (acc_probes acc' x) = map hRTTMS (hop_reports (rsEvents t) x)"
  using assms
proof (induction k arbitrary: i n acc final s)
  case 0
  then show ?case by auto
next
  case (Suc k)
  obtain r err s1 where r: "runTrace env sink job n 1 mode (port + i) (i = 0) timeout s = (r, err, s1)"
    by (cases "runTrace env sink job n 1 mode (port + i) (i = 0) timeout s")
  note f = runTrace_facts [OF r Suc.prems(2), where c = 0]
  let ?acc = "add_hops (trHops r) acc" and ?n = "if trExitCode r = 0 then int (length (trHops r)) else n"
  have a: "int (length (acc_probes ?acc x)) \<le> i + 1"
    "map prRTTMS (acc_probes ?acc x) = map hRTTMS (hop_reports (rsEvents s1) x)" for x
    using f cycle_acc [of n "trHops r" acc x] cycle_reports [of n "trHops r" s s1 acc x] Suc.prems(3) [of x] Suc.prems(4,5)
    by auto
  show ?case
  proof (cases err)
    case (Some e)
    with Suc.prems(1) r have "acc' = ?acc" "t = s1" by (auto simp: Let_def split: if_splits)
    with a show ?thesis by (metis add_mono_thms_linordered_semiring(2) of_nat_Suc order_trans le_add_same_cancel2 of_nat_0_le_iff add.commute add.assoc)
  next
    case None
    have n: "1 \<le> ?n" using f Suc.prems by (auto simp: trace_outcome_def Suc_le_eq)
    from None r Suc.prems(1) have "mtr_loop env sink job mode port timeout k (i + 1) ?n ?acc (Some r) s1 = Inr (acc', final', n', t)"
      by (simp add: Let_def)
    from Suc.IH [OF this n a(1) Suc.prems(4) a(2)] show ?thesis by simp
  qed
qed

lemma mtr_loop_exact:
  assumes "mtr_loop env sink job mode port timeout k i n acc final s = Inr (acc', final', n', t)" "1 \<le> n"
    "\<And>m p e s. fst (snd (runTrace env sink job m 1 mode p e timeout s)) = None"
    "\<And>x. 1 \<le> x \<Longrightarrow> x \<le> n \<Longrightarrow> int (length (acc_probes acc x)) = i" "1 \<le> x" "x \<le> n'"
  shows "int (length (acc_probes acc' x)) = i + int k"
  using assms
proof (induction k arbitrary: i n acc final s)
  case 0
  then show ?case by auto
next
  case (Suc k)
  obtain r err s1 where r: "runTrace env sink job n 1 mode (port + i) (i = 0) timeout s = (r, err, s1)"
    by (cases "runTrace env sink job n 1 mode (port + i) (i = 0) timeout s")
  note f = runTrace_facts [OF r Suc.prems(2), where c = 0]
  let ?acc = "add_hops (trHops r) acc" and ?n = "if trExitCode r = 0 then int (length (trHops r)) else n"
  have none: "err = None" using Suc.prems(3) [of n "port + i" "i = 0" s] r by simp
  have n: "1 \<le> ?n" "?n \<le> n" "?n = int (length (trHops r))" using f Suc.prems none by (auto simp: trace_outcome_def trace_hops_def Suc_le_eq)
  have a: "int (length (acc_probes ?acc x)) = i + 1" if "1 \<le> x" "x \<le> ?n" for x
    using that n(2,3) f cycle_acc [of n "trHops r" acc x] Suc.prems(4) [of x] by auto
  from none r Suc.prems(1) have l: "mtr_loop env sink job mode port timeout k (i + 1) ?n ?acc (Some r) s1 = Inr (acc', final', n', t)"
    by (simp add: Let_def)
  from Suc.IH [OF l n(1) Suc.prems(3) a Suc.prems(5,6)] show ?case by simp
qed

end
