(* ===== verification/RunnerClaims.thy ===== *)
theory RunnerClaims
  imports RunnerFacts
begin

text \<open>
  The properties of the tools: pings and MTR runs report exactly what was sent and streamed, traces
  walk the hops in order, and all probes go to the resolved target.
\<close>


section \<open>Statistics\<close>

lemma fold_sum: "fold (\<lambda>x s. s + x) xs (a :: float64) = a + sum_list xs"
  by (induction xs arbitrary: a) (simp_all add: add.assoc)

lemma fold_min: "fold (\<lambda>x m. min m x) xs (a :: float64) \<le> a \<and> (\<forall>x\<in>set xs. fold (\<lambda>x m. min m x) xs a \<le> x)
  \<and> fold (\<lambda>x m. min m x) xs a \<in> insert a (set xs)"
proof (induction xs arbitrary: a)
  case (Cons x xs)
  from Cons [of "min a x"] show ?case by (auto simp: min_def split: if_splits)
qed simp

lemma fold_max: "a \<le> fold (\<lambda>x m. max m x) xs (a :: float64) \<and> (\<forall>x\<in>set xs. x \<le> fold (\<lambda>x m. max m x) xs a)
  \<and> fold (\<lambda>x m. max m x) xs a \<in> insert a (set xs)"
proof (induction xs arbitrary: a)
  case (Cons x xs)
  from Cons [of "max a x"] show ?case by (auto simp: max_def split: if_splits)
qed simp

text \<open>The best and the worst sample are samples, and all samples and their mean lie between them.\<close>

lemma sample_bounds:
  assumes "xs \<noteq> []"
  shows "sample_min xs \<in> set xs" "sample_max xs \<in> set xs" "x \<in> set xs \<Longrightarrow> sample_min xs \<le> x \<and> x \<le> sample_max xs"
    "sample_min xs \<le> sample_avg xs" "sample_avg xs \<le> sample_max xs"
proof -
  have h: "hd xs \<in> set xs" using assms by simp
  show "sample_min xs \<in> set xs" "sample_max xs \<in> set xs"
    using fold_min [of xs "hd xs"] fold_max [where xs = xs and a = "hd xs"] h by (auto simp: sample_min_def sample_max_def)
  have b: "sample_min xs \<le> x \<and> x \<le> sample_max xs" if "x \<in> set xs" for x
    using fold_min [of xs "hd xs"] fold_max [where xs = xs and a = "hd xs"] that by (simp add: sample_min_def sample_max_def)
  then show "x \<in> set xs \<Longrightarrow> sample_min xs \<le> x \<and> x \<le> sample_max xs" .
  have "of_nat (length ys) * sample_min xs \<le> sum_list ys \<and> sum_list ys \<le> of_nat (length ys) * sample_max xs"
    if "set ys \<subseteq> set xs" for ys
    using that by (induction ys) (auto simp: distrib_right dest!: b intro: add_mono)
  from this [of xs] assms show "sample_min xs \<le> sample_avg xs" "sample_avg xs \<le> sample_max xs"
    unfolding sample_avg_def fold_sum by (auto simp: field_simps)
qed

lemma put_summary_simps [simp]:
  "trExitCode (put_summary k v r) = trExitCode r" "trHops (put_summary k v r) = trHops r"
  "trTool (put_summary k v r) = trTool r" "trSummary (put_summary k v r) = mput k v (trSummary r)"
  by (simp_all add: put_summary_def)

lemma fill_simps [simp]:
  "trExitCode (fillPingSummary env m n xs r) = trExitCode r" "trHops (fillPingSummary env m n xs r) = trHops r"
  "trTool (fillPingSummary env m n xs r) = trTool r"
  "trExitCode (fillErrorSummary ctx e r) = trExitCode r" "trHops (fillErrorSummary ctx e r) = trHops r"
  "trTool (fillErrorSummary ctx e r) = trTool r"
  by (simp_all add: fillPingSummary_def fillErrorSummary_def Let_def)


section \<open>Ping\<close>

text \<open>The round-trip times that were streamed.\<close>

definition streamed_latencies :: "StreamEvent list \<Rightarrow> json list" where
  "streamed_latencies es = List.map_filter (\<lambda>e. mget (seMetric e) ''latency_ms'') es"

lemma latencies_append [simp]: "streamed_latencies (es @ fs) = streamed_latencies es @ streamed_latencies fs"
  by (simp add: streamed_latencies_def map_filter_def)

lemma latencies_emits [simp]:
  "streamed_latencies (rsEvents (emitPingTimeoutMetric True ctx err i s)) = streamed_latencies (rsEvents s)"
  "streamed_latencies (rsEvents (emitResolvedTarget True ip v s)) = streamed_latencies (rsEvents s)"
  "streamed_latencies (rsEvents (emitPingProbeMetric True ctx i r s)) =
     streamed_latencies (rsEvents s) @ (case r of Inl _ \<Rightarrow> [] | Inr rtt \<Rightarrow> [JNum (ms rtt)])"
  by (auto simp: emitPingTimeoutMetric_def emitResolvedTarget_def emitPingProbeMetric_def emitMetric_def metric_event_def
      streamed_latencies_def List.map_filter_simps map_filter_def split: sum.split)

lemma sent_emits [simp]:
  "rsSent (emitPingTimeoutMetric sink ctx err i s) = rsSent s" "rsSent (emitResolvedTarget sink ip v s) = rsSent s"
  "rsSent (emitPingProbeMetric sink ctx i r s) = rsSent s"
  by (auto simp: emitPingTimeoutMetric_def emitResolvedTarget_def emitPingProbeMetric_def emitMetric_def)

text \<open>A summary that tells of \<open>m\<close> probes and the samples \<open>xs\<close>.\<close>

definition ping_summary :: "int \<Rightarrow> float64 list \<Rightarrow> metric \<Rightarrow> bool" where
  "ping_summary m xs sm \<longleftrightarrow>
     mget sm ''packets_transmitted'' = Some (JNum (of_int m))
     \<and> mget sm ''packets_received'' = Some (JNum (of_nat (length xs)))
     \<and> mget sm ''packet_loss_pct'' = Some (JNum (loss_pct m (int (length xs))))
     \<and> (xs \<noteq> [] \<longrightarrow> mget sm ''rtt_min_ms'' = Some (JNum (sample_min xs)) \<and> mget sm ''rtt_avg_ms'' = Some (JNum (sample_avg xs))
          \<and> mget sm ''rtt_max_ms'' = Some (JNum (sample_max xs)))"

lemma ping_summary_fill [simp]:
  "n = int (length xs) \<Longrightarrow> ping_summary m xs (trSummary (fillPingSummary env m n xs r))"
  by (simp add: ping_summary_def fillPingSummary_def Let_def)

lemma ping_summary_put [simp]:
  "k \<in> {''status'', ''error''} \<Longrightarrow> ping_summary m xs (mput k v sm) = ping_summary m xs sm"
  by (auto simp: ping_summary_def)

lemma ping_summary_error [simp]: "ping_summary m xs (trSummary (fillErrorSummary ctx e r)) = ping_summary m xs (trSummary r)"
  by (simp add: fillErrorSummary_def)

lemma ping_loop_exact:
  assumes "ping_loop env True q k i result (int (length xs)) xs s = (r, err, t)" "0 \<le> i" "trExitCode result = 0"
  shows "\<exists>m ys. m \<le> k \<and> length (rsSent t) = length (rsSent s) + m
    \<and> streamed_latencies (rsEvents t) = streamed_latencies (rsEvents s) @ map JNum ys \<and> length ys \<le> m
    \<and> ping_summary (i + int m) (xs @ ys) (trSummary r) \<and> (err = None \<longrightarrow> m = k)
    \<and> (trExitCode r = 0 \<longleftrightarrow> err = None \<and> xs @ ys \<noteq> [])"
  using assms
proof (induction k arbitrary: i xs s)
  case 0
  then show ?case by (intro exI [of _ 0] exI [of _ "[]"]) (auto simp: Let_def)
next
  case (Suc k)
  show ?case
  proof (cases "ctx_err env s")
    case (Some e)
    with Suc.prems(1) have "(fillErrorSummary (Some e) e (fillPingSummary env i (int (length xs)) xs (result\<lparr>trExitCode := -1\<rparr>)),
        Some e, emitPingTimeoutMetric True (Some e) e (i + 1) s) = (r, err, t)"
      by (simp only: ping_loop.simps Some option.case)
    then show ?thesis by (intro exI [of _ 0] exI [of _ "[]"]) auto
  next
    case None
    obtain a s1 where p: "probeOnce env (q\<lparr>pqSeq := i + 1\<rparr>) (tick s) = (a, s1)" by (cases "probeOnce env (q\<lparr>pqSeq := i + 1\<rparr>) (tick s)")
    have s1: "length (rsSent s1) = Suc (length (rsSent s))" "rsEvents s1 = rsEvents s"
      using probeOnce_state [OF p] by (auto simp: tick_def)
    define ys where "ys = (case a of Inl _ \<Rightarrow> [] | Inr rtt \<Rightarrow> [ms rtt])"
    define s2 where "s2 = emitPingProbeMetric True (ctx_err env s1) (i + 1) a s1"
    have s2: "length (rsSent s2) = Suc (length (rsSent s))"
      "streamed_latencies (rsEvents s2) = streamed_latencies (rsEvents s) @ map JNum ys" "length ys \<le> 1"
      using s1 by (auto simp: s2_def ys_def split: sum.split)
    have eq: "ping_loop env True q (Suc k) i result (int (length xs)) xs s =
        (if k = 0 then ping_loop env True q k (i + 1) result (int (length (xs @ ys))) (xs @ ys) s2
         else case ctx_err env s2 of
             Some e \<Rightarrow> (fillErrorSummary (ctx_err env s2) e
                 (fillPingSummary env (i + 1) (int (length (xs @ ys))) (xs @ ys) (result\<lparr>trExitCode := -1\<rparr>)), Some e, s2)
           | None \<Rightarrow> ping_loop env True q k (i + 1) result (int (length (xs @ ys))) (xs @ ys) (tick s2))"
      using None p by (cases a) (simp_all add: Let_def s2_def ys_def ac_simps split: option.split)
    consider (go) s3 where "ping_loop env True q k (i + 1) result (int (length (xs @ ys))) (xs @ ys) s3 = (r, err, t)"
        "rsSent s3 = rsSent s2" "rsEvents s3 = rsEvents s2"
      | (stop) e where "k \<noteq> 0" "err = Some e" "t = s2" "r = fillErrorSummary (Some e) e
          (fillPingSummary env (i + 1) (int (length (xs @ ys))) (xs @ ys) (result\<lparr>trExitCode := -1\<rparr>))"
    proof (cases "k \<noteq> 0 \<and> ctx_err env s2 \<noteq> None")
      case True
      then obtain e where e: "k \<noteq> 0" "ctx_err env s2 = Some e" by auto
      with Suc.prems(1) have "(fillErrorSummary (Some e) e
          (fillPingSummary env (i + 1) (int (length (xs @ ys))) (xs @ ys) (result\<lparr>trExitCode := -1\<rparr>)), Some e, s2) = (r, err, t)"
        unfolding eq e(2) by (simp only: if_False option.case)
      with stop [OF e(1), of e] show thesis by blast
    next
      case False
      with Suc.prems(1) go [of s2] go [of "tick s2"] show thesis
        unfolding eq by (cases "k = 0") (simp_all add: tick_def)
    qed
    then show ?thesis
    proof cases
      case go
      from Suc.IH [OF go(1)] Suc.prems(2,3) obtain m zs where "m \<le> k" "length (rsSent t) = length (rsSent s3) + m"
        "streamed_latencies (rsEvents t) = streamed_latencies (rsEvents s3) @ map JNum zs" "length zs \<le> m"
        "ping_summary (i + 1 + int m) ((xs @ ys) @ zs) (trSummary r)" "err = None \<longrightarrow> m = k"
        "trExitCode r = 0 \<longleftrightarrow> err = None \<and> (xs @ ys) @ zs \<noteq> []" by auto
      with go s2 show ?thesis by (intro exI [of _ "Suc m"] exI [of _ "ys @ zs"]) (auto simp: ac_simps)
    next
      case stop
      with s2 show ?thesis by (intro exI [of _ 1] exI [of _ ys]) simp
    qed
  qed
qed


lemma positive_arg: "1 \<le> parsePositiveInt v"
  by (auto simp: parsePositiveInt_def split: option.split)


text \<open>A target that answers on port 80, and a job for it.\<close>

definition example_renv :: renv where
  "example_renv =
     \<lparr>rnCtx = (\<lambda>_. None), rnLookupIP = (\<lambda>_ _. Inr [0xffff08080808]), rnListenICMP = (\<lambda>_. None),
      rnProbe = (\<lambda>_ _. \<lparr>piSend = None, piReads = [], piReadErr = RunError NetTimeout ''i/o timeout'', piDial = Inr 5000000\<rparr>),
      rnParseICMP = (\<lambda>_ _. None), rnID = 7, rnSqrt = id, rnElapsed = (\<lambda>_. 0), rnURL = (\<lambda>_. Inl (RunError OtherError [])),
      rnHTTP = (\<lambda>_ _ _ _. \<lparr>hiRequestStart = 0, hiEvents = [], hiDo = Inl (RunError OtherError []), hiDownloadStart = 0,
                          hiCopy = (\<lambda>_. (0, None)), hiNow = 0, hiNowDownload = 0\<rparr>),
      rnLookupCNAME = (\<lambda>_. Inl (RunError OtherError [])), rnLookupMX = (\<lambda>_. Inl (RunError OtherError [])),
      rnLookupNS = (\<lambda>_. Inl (RunError OtherError [])), rnLookupTXT = (\<lambda>_. Inl (RunError OtherError []))\<rparr>"

definition example_probe_job :: Job where
  "example_probe_job =
     \<lparr>jID = ''u'', jParentID = [], jScheduledID = [], jScheduledRevision = 0, jTool = ToolMTR, jTarget = ''dns.example'',
      jResolvedTarget = [], jArgs = [(''protocol'', ''tcp''), (''count'', ''2''), (''max_hops'', ''3'')],
      jIPVersion = IPAny, jAgentID = [], jResolveOnAgent = False, jStatus = JobRunning,
      jCreatedAt = 5, jUpdatedAt = 5, jStartedAt = None, jCompletedAt = None, jError = []\<rparr>"

lemma example_probe:
  "resolveOne example_renv (executionTarget example_probe_job) (jIPVersion example_probe_job) = Inr (0xffff08080808, IPv4)"
  "parsePositiveInt (argOr (jArgs example_probe_job) ''count'' ''10'') = 2"
  "parsePositiveInt (argOr (jArgs example_probe_job) ''max_hops'' ''30'') = 3"
  "rnListenICMP example_renv v = None" "rnCtx example_renv n = None"
proof -
  have "ParseIP ''dns.example'' = None" "To4 (0xffff08080808 :: netIP) = Some 0x08080808" by code_simp+
  then show "resolveOne example_renv (executionTarget example_probe_job) (jIPVersion example_probe_job) = Inr (0xffff08080808, IPv4)"
    by (simp add: resolveOne_def executionTarget_def example_probe_job_def example_renv_def run_preferredIP_def run_ipVersion_def)
  show "parsePositiveInt (argOr (jArgs example_probe_job) ''count'' ''10'') = 2"
    "parsePositiveInt (argOr (jArgs example_probe_job) ''max_hops'' ''30'') = 3" by code_simp+
qed (simp_all add: example_renv_def)



section \<open>Traceroute\<close>





section \<open>MTR\<close>

lemma trace_loop_err: "(\<And>n. rnCtx env n = None) \<Longrightarrow> fst (snd (trace_loop env sink q pp k ttl result s)) = None"
  by (induction k arbitrary: ttl result s) (simp_all add: Let_def split: prod.splits)

lemma runTrace_err:
  assumes "\<And>n. rnCtx env n = None"
  shows "fst (snd (runTrace env sink job n pp mode port e timeout s)) =
    (case resolveOne env (executionTarget job) (jIPVersion job) of
       Inl err \<Rightarrow> Some err | Inr (ip, v) \<Rightarrow> if mode = ''icmp'' then rnListenICMP env v else None)"
  using trace_loop_err [OF assms] by (auto simp: runTrace_def Let_def split: sum.splits option.splits prod.splits)

text \<open>The first cycle of an MTR run shows whether there are errors, when the context does not end.\<close>

lemma mtr_loop_runs:
  assumes "\<And>n. rnCtx env n = None" "mtr_loop env sink job mode port timeout (Suc k) i n acc None s = Inr x"
  shows "fst (snd (runTrace env sink job m 1 mode p e timeout u)) = None"
proof -
  obtain r err s1 where r: "runTrace env sink job n 1 mode (port + i) (i = 0) timeout s = (r, err, s1)"
    by (cases "runTrace env sink job n 1 mode (port + i) (i = 0) timeout s")
  with assms(2) have "err = None" by (auto simp: Let_def split: option.splits)
  with r runTrace_err [OF assms(1), of sink job n 1 mode "port + i" "i = 0" timeout s]
    runTrace_err [OF assms(1), of sink job m 1 mode p e timeout u] show ?thesis by simp
qed

lemma map_filter_id: "List.map_filter f xs = List.map_filter id (map f xs)"
  by (induction xs) (auto simp: List.map_filter_simps split: option.splits)

lemma summarizeHop_fields:
  "hIndex (summarizeHop env i ps n) = i" "hSent (summarizeHop env i ps n) = Some n"
  "hLossPct (summarizeHop env i ps n) = Some (loss_pct n (int (length (List.map_filter prRTTMS ps))))"
  "List.map_filter prRTTMS ps \<noteq> [] \<Longrightarrow> hBestMS (summarizeHop env i ps n) = Some (sample_min (List.map_filter prRTTMS ps))"
  "List.map_filter prRTTMS ps \<noteq> [] \<Longrightarrow> hAvgMS (summarizeHop env i ps n) = Some (sample_avg (List.map_filter prRTTMS ps))"
  "List.map_filter prRTTMS ps \<noteq> [] \<Longrightarrow> hWorstMS (summarizeHop env i ps n) = Some (sample_max (List.map_filter prRTTMS ps))"
  by (simp_all add: summarizeHop_def Let_def)

lemma reports_summary [simp]: "hop_reports (rsEvents (fold (emitHopSummary sink) hs s)) x = hop_reports (rsEvents s) x"
proof (induction hs arbitrary: s)
  case (Cons h hs)
  have "hop_reports (rsEvents (emitHopSummary sink h s)) x = hop_reports (rsEvents s) x"
    by (simp add: emitHopSummary_def emitMetric_def hop_event_def) (simp add: hop_reports_def List.map_filter_simps)
  with Cons show ?case by simp
qed simp

text \<open>What the summary of a hop must say when \<open>reports\<close> of it were streamed.\<close>

definition hop_summary_of :: "HopResult list \<Rightarrow> int \<Rightarrow> int \<Rightarrow> HopResult \<Rightarrow> bool" where
  "hop_summary_of reports n i h \<longleftrightarrow>
     (let rtts = List.map_filter hRTTMS reports in
      hIndex h = i \<and> hSent h = Some n \<and> hLossPct h = Some (loss_pct n (int (length rtts)))
      \<and> 0 \<le> loss_pct n (int (length rtts)) \<and> loss_pct n (int (length rtts)) \<le> 100
      \<and> (rtts \<noteq> [] \<longrightarrow>
           hBestMS h = Some (sample_min rtts) \<and> hAvgMS h = Some (sample_avg rtts) \<and> hWorstMS h = Some (sample_max rtts)
           \<and> sample_min rtts \<le> sample_avg rtts \<and> sample_avg rtts \<le> sample_max rtts))"

text \<open>
  (C23) The summary of an MTR run is that of the hops it streamed: the reported hops are 1 to some
  \<open>m\<close> within the asked limit, and the summary of hop \<open>i\<close> counts as sent the asked number of cycles,
  has the loss and the best, mean and worst time of the streamed hops of index \<open>i\<close>, which are at most
  one per cycle, and exactly one per cycle when the context does not end.
\<close>

theorem mtr_report:
  assumes run: "runBuiltinMTRWithTimeout env True job timeout run_start = (r, None, t)"
  defines "cycles \<equiv> parsePositiveInt (argOr (jArgs job) ''count'' ''10'')"
  shows "1 \<le> length (trHops r) \<and> int (length (trHops r)) \<le> parsePositiveInt (argOr (jArgs job) ''max_hops'' ''30'')
    \<and> (\<forall>i < length (trHops r).
          hop_summary_of (hop_reports (rsEvents t) (1 + int i)) cycles (1 + int i) (trHops r ! i)
          \<and> int (length (hop_reports (rsEvents t) (1 + int i))) \<le> cycles
          \<and> ((\<forall>n. rnCtx env n = None) \<longrightarrow> int (length (hop_reports (rsEvents t) (1 + int i))) = cycles))"
proof -
  let ?max = "parsePositiveInt (argOr (jArgs job) ''max_hops'' ''30'')"
  let ?mode = "probeMode (argOr (jArgs job) ''protocol'' ''icmp'')"
  let ?port = "parsePort (jArgs job) (defaultProbePort ?mode)"
  have c: "1 \<le> cycles" by (simp add: cycles_def positive_arg)
  let ?l = "mtr_loop env True job ?mode ?port timeout (nat cycles) 0 ?max [] None run_start"
  from run mtr_loop_adds [OF positive_arg [of "argOr (jArgs job) ''max_hops'' ''30''"], where c = 0 and env = env and sink = True and job = job
      and mode = ?mode and port = ?port and timeout = timeout and k = "nat cycles" and i = 0 and acc = "[]" and final = None
      and s = run_start]
  obtain acc final m s1 where l: "?l = Inr (acc, final, m, s1)" and m: "1 \<le> m" "m \<le> ?max"
    and hops: "trHops r = mtr_hops env acc m cycles" and t: "t = fold (emitHopSummary True) (trHops r) s1"
    by (auto simp: runBuiltinMTRWithTimeout_def Let_def cycles_def split: sum.splits)
  have start: "acc_probes [] x = []" "hop_reports (rsEvents run_start) x = []" for x
    by (simp_all add: acc_probes_def run_start_def hop_reports_def List.map_filter_simps)
  have acc: "int (length (acc_probes acc x)) \<le> cycles"
    "map prRTTMS (acc_probes acc x) = map hRTTMS (hop_reports (rsEvents t) x)" for x
    using mtr_loop_acc [OF l positive_arg, where x = x] c start by (simp_all add: t)
  have exact: "int (length (acc_probes acc x)) = cycles" if "\<forall>n. rnCtx env n = None" "1 \<le> x" "x \<le> m" for x
  proof -
    obtain k where k: "nat cycles = Suc k" using c by (cases "nat cycles") auto
    from that(1) have "\<And>n. rnCtx env n = None" by simp
    note runs = mtr_loop_runs [OF this l [unfolded k]]
    show ?thesis using mtr_loop_exact [OF l positive_arg runs _ that(2,3)] c by (simp add: acc_probes_def)
  qed
  have len: "length (trHops r) = nat m" by (simp add: hops mtr_hops_def)
  show ?thesis
  proof (intro conjI allI impI)
    show "1 \<le> length (trHops r)" "int (length (trHops r)) \<le> ?max" using m len by auto
    fix i assume i: "i < length (trHops r)"
    let ?x = "1 + int i" and ?rtts = "List.map_filter hRTTMS (hop_reports (rsEvents t) (1 + int i))"
    have h: "trHops r ! i = FlattenSingleProbe (summarizeHop env ?x (acc_probes acc ?x) cycles)"
      using i len by (simp add: hops mtr_hops_def nth_upt)
    have rtts: "List.map_filter prRTTMS (acc_probes acc ?x) = ?rtts" using acc(2) [of ?x] by (metis map_filter_id)
    have n: "length (hop_reports (rsEvents t) ?x) = length (acc_probes acc ?x)" using acc(2) [of ?x] by (metis length_map)
    have "length ?rtts \<le> length (hop_reports (rsEvents t) ?x)" by (simp add: map_filter_def)
    then have "int (length ?rtts) \<le> cycles" using acc(1) [of ?x] n by simp
    then show "hop_summary_of (hop_reports (rsEvents t) ?x) cycles ?x (trHops r ! i)"
      using loss_pct_bounds [of "int (length ?rtts)" cycles] sample_bounds(4,5) [of ?rtts]
      by (simp add: hop_summary_of_def Let_def h rtts summarizeHop_fields)
    show "int (length (hop_reports (rsEvents t) ?x)) \<le> cycles" using acc(1) [of ?x] n by simp
    assume "\<forall>n. rnCtx env n = None"
    with exact [of ?x] i len n show "int (length (hop_reports (rsEvents t) ?x)) = cycles" by simp
  qed
qed


lemma mtr_loop_returns:
  "(\<And>m p e s. fst (snd (runTrace env sink job m 1 mode p e timeout s)) = None) \<Longrightarrow>
   \<exists>x. mtr_loop env sink job mode port timeout k i n acc final s = Inr x"
  by (induction k arbitrary: i n acc final s) (simp_all add: Let_def case_prod_unfold)

theorem mtr_report_witness:
  "\<exists>r t. runBuiltinMTRWithTimeout example_renv True example_probe_job 0 run_start = (r, None, t)
     \<and> 1 \<le> length (trHops r) \<and> int (length (trHops r)) \<le> 3 \<and> int (length (hop_reports (rsEvents t) 1)) = 2"
proof -
  have "fst (snd (runTrace example_renv True example_probe_job m 1 mode p e 0 s)) = None" for m mode p e s
    by (simp add: runTrace_err example_probe(1,4,5))
  from mtr_loop_returns [OF this] have "fst (snd (runBuiltinMTRWithTimeout example_renv True example_probe_job 0 run_start)) = None"
    by (auto simp: runBuiltinMTRWithTimeout_def Let_def split: sum.split) (metis sum.distinct(1))+
  then obtain r t where run: "runBuiltinMTRWithTimeout example_renv True example_probe_job 0 run_start = (r, None, t)"
    by (metis prod.collapse)
  note rep = mtr_report [OF run, unfolded example_probe(2,3)]
  from rep have "0 < length (trHops r)" by (simp add: Suc_le_eq)
  with rep example_probe(5) have "int (length (hop_reports (rsEvents t) (1 + int 0))) = 2" by blast
  with rep run show ?thesis by auto
qed


section \<open>All tools\<close>

lemma fillHTTP_simps [simp]:
  "trExitCode (fillHTTPSummary ctx now1 now2 h r) = trExitCode r" "trHops (fillHTTPSummary ctx now1 now2 h r) = trHops r"
  "trTool (fillHTTPSummary ctx now1 now2 h r) = trTool r"
  unfolding fillHTTPSummary_def Let_def
  by (simp_all add: if_distrib [of trExitCode] if_distrib [of trHops] if_distrib [of trTool] split: option.split prod.split)

lemma new_result_simps [simp]:
  "trExitCode (newBuiltinResult job c) = c" "trHops (newBuiltinResult job c) = []" "trTool (newBuiltinResult job c) = jTool job"
  by (simp_all add: newBuiltinResult_def)

text \<open>The shape of a result: an exit code of the program's, the tool, and hops only for routes.\<close>

definition result_ok :: "Job \<Rightarrow> ToolResult \<Rightarrow> bool" where
  "result_ok job r \<longleftrightarrow> exit_ok r \<and> trTool r = jTool job \<and> (jTool job \<notin> {ToolTraceroute, ToolMTR} \<longrightarrow> trHops r = [])"

lemma DNS_result: "runBuiltinDNS env job s = (r, err, t) \<Longrightarrow> result_ok job r \<and> t = s"
  by (auto simp: runBuiltinDNS_def result_ok_def exit_ok_def Let_def split: sum.splits)

lemma HTTP_result: "runBuiltinHTTP env job s = (r, err, t) \<Longrightarrow> result_ok job r \<and> t = s"
  by (auto simp: runBuiltinHTTP_def result_ok_def exit_ok_def Let_def split: sum.splits prod.splits option.splits if_splits)

lemma Port_result:
  assumes "runBuiltinPort env job s = (r, err, t)"
  shows "result_ok job r \<and> run_adds (tool_event c n) (probes_target env job) s t"
proof (cases "parsePort (jArgs job) 0 \<le> 0")
  case True
  with assms show ?thesis by (auto simp: runBuiltinPort_def result_ok_def exit_ok_def Let_def)
next
  case port: False
  show ?thesis
  proof (cases "resolveOne env (executionTarget job) (jIPVersion job)")
    case (Inl e)
    with assms port show ?thesis by (auto simp: runBuiltinPort_def result_ok_def exit_ok_def Let_def)
  next
    case (Inr x)
    obtain ip v where x: "x = (ip, v)" by (cases x)
    let ?q = "\<lparr>pqMode = ''tcp'', pqTarget = ip, pqVersion = v, pqPort = parsePort (jArgs job) 0, pqTTL = 64, pqID = 0, pqSeq = 0,
        pqTimeout = tcpProbeTimeout\<rparr>"
    obtain a s1 where p: "tcpProbeWithTimeout env ?q s = (a, s1)" by (cases "tcpProbeWithTimeout env ?q s")
    have "run_adds (tool_event c n) (sent_to ip v) s s1" using adds_probe(3) [OF p] by (simp add: sent_to_def)
    then have "run_adds (tool_event c n) (probes_target env job) s s1"
      by (rule adds_mono) (auto simp: sent_to_def probes_target_def Inr x)
    moreover have "t = s1" "result_ok job r"
      using assms port Inr x p by (cases a; auto simp: runBuiltinPort_def result_ok_def exit_ok_def Let_def)+
    ultimately show ?thesis by simp
  qed
qed

lemma ping_loop_result:
  assumes "trExitCode result = 0"
  shows "case ping_loop env sink q k i result received samples s of
    (r, err, t) \<Rightarrow> exit_ok r \<and> trTool r = trTool result \<and> trHops r = trHops result"
  by (induction k arbitrary: i received samples s)
    (auto simp: exit_ok_def assms Let_def case_prod_unfold split: option.splits)

lemma error_result_ok [simp]: "result_ok job (error_result env job v e s)"
  by (simp add: result_ok_def exit_ok_def error_result_def)

lemma Ping_result:
  assumes "runBuiltinPingWithTimeout env sink job timeout s = (r, err, t)" "jTool job = ToolPing"
  shows "result_ok job r \<and> run_adds (tool_event c n) (probes_target env job) s t"
proof (cases "resolveOne env (executionTarget job) (jIPVersion job)")
  case (Inl e)
  with assms show ?thesis by (auto simp: runBuiltinPingWithTimeout_def Let_def intro: adds_intros)
next
  case (Inr x)
  obtain ip v where x: "x = (ip, v)" by (cases x)
  let ?s1 = "emitResolvedTarget sink ip v s"
  have s1: "run_adds (tool_event c n) (probes_target env job) s ?s1" by (rule adds_intros)
  have "result_ok job r \<and> run_adds (tool_event c n) (probes_target env job) ?s1 t"
  proof (cases "if probeMode (argOr (jArgs job) ''protocol'' ''icmp'') = ''icmp'' then rnListenICMP env v else None")
    case (Some e)
    with assms Inr x show ?thesis
      by (auto simp: runBuiltinPingWithTimeout_def Let_def intro: adds_intros)
  next
    case None
    let ?res = "put_summary ''target_ip'' (JStr (IP_String ip)) ((newBuiltinResult job 0)\<lparr>trIPVersion := v\<rparr>)"
    from assms Inr x None obtain q k where l: "ping_loop env sink q k 0 ?res 0 [] ?s1 = (r, err, t)" and q: "sent_to ip v q"
      by (auto simp: runBuiltinPingWithTimeout_def Let_def sent_to_def)
    have "result_ok job r" using ping_loop_result [of ?res env sink q k 0 0 "[]" ?s1] l by (simp add: result_ok_def)
    moreover have "run_adds (tool_event c n) (sent_to ip v) ?s1 t" using ping_loop_adds [OF q] l by (metis snd_conv)
    then have "run_adds (tool_event c n) (probes_target env job) ?s1 t"
      by (rule adds_mono) (auto simp: sent_to_def probes_target_def Inr x)
    ultimately show ?thesis by simp
  qed
  with s1 show ?thesis by (auto intro: adds_trans)
qed

lemma copyErrorSummary_simps [simp]:
  "trExitCode (copyErrorSummary f r) = trExitCode r" "trTool (copyErrorSummary f r) = trTool r"
  by (simp_all add: copyErrorSummary_def split: option.split)

lemma runTrace_tool:
  assumes "runTrace env sink job n pp mode port e timeout s = (r, err, t)"
  shows "trTool r = jTool job"
proof -
  have "trTool (fst (trace_loop env sink q pp k ttl result u)) = trTool result" for q k ttl result u
    by (induction k arbitrary: ttl result u) (simp_all add: Let_def trace_done_def case_prod_unfold split: option.split)
  from this [THEN sym] assms show ?thesis
    by (auto simp: runTrace_def Let_def error_result_def split: sum.splits prod.splits option.splits dest!: arg_cong [of _ _ fst])
qed

lemma mtr_loop_tool:
  "mtr_loop env sink job mode port timeout k i n acc final s = Inl (r, err, t) \<Longrightarrow> trTool r = jTool job"
proof (induction k arbitrary: i n acc final s)
  case (Suc k)
  obtain r' err' s1 where tr: "runTrace env sink job n 1 mode (port + i) (i = 0) timeout s = (r', err', s1)"
    by (cases "runTrace env sink job n 1 mode (port + i) (i = 0) timeout s")
  with Suc runTrace_tool [OF tr] show ?case by (cases err') (auto simp: Let_def split: if_splits)
qed simp

abbreviation job_count :: "Job \<Rightarrow> int" where
  "job_count job \<equiv> parsePositiveInt (argOr (jArgs job) ''count'' ''10'')"

abbreviation job_max_hops :: "Job \<Rightarrow> int" where
  "job_max_hops job \<equiv> parsePositiveInt (argOr (jArgs job) ''max_hops'' ''30'')"

lemma Traceroute_result:
  assumes "runBuiltinTracerouteWithTimeout env sink job timeout s = (r, err, t)" "jTool job = ToolTraceroute"
  shows "result_ok job r \<and> run_adds (tool_event (job_count job) (job_max_hops job)) (probes_target env job) s t"
proof -
  obtain r' mode port where tr: "runTrace env sink job (job_max_hops job) 1 mode port True timeout s = (r', err, t)"
    and r: "r = flattenResultHops r'"
    using assms by (auto simp: runBuiltinTracerouteWithTimeout_def Let_def split: prod.splits)
  from runTrace_facts [OF tr positive_arg, where c = "job_count job"] runTrace_tool [OF tr] assms(2) show ?thesis
    by (auto simp: r result_ok_def exit_ok_def flattenResultHops_def trace_outcome_def)
qed

lemma MTR_result:
  assumes run: "runBuiltinMTRWithTimeout env sink job timeout s = (r, err, t)" and tool: "jTool job = ToolMTR"
  shows "result_ok job r \<and> run_adds (tool_event (job_count job) (job_max_hops job)) (probes_target env job) s t"
proof -
  let ?mode = "probeMode (argOr (jArgs job) ''protocol'' ''icmp'')"
  let ?port = "parsePort (jArgs job) (defaultProbePort ?mode)"
  let ?c = "parsePositiveInt (argOr (jArgs job) ''count'' ''10'')"
  let ?l = "mtr_loop env sink job ?mode ?port timeout (nat ?c) 0 (job_max_hops job) [] None s"
  note f = mtr_loop_adds [OF positive_arg [of "argOr (jArgs job) ''max_hops'' ''30''"], where c = ?c and env = env and sink = sink and job = job
      and mode = ?mode and port = ?port and timeout = timeout and k = "nat ?c" and i = 0 and acc = "[]" and final = None and s = s]
  show ?thesis
  proof (cases ?l)
    case (Inl x)
    with run f mtr_loop_tool [of env sink job ?mode ?port timeout "nat ?c" 0 "job_max_hops job" "[]" None s r err t] tool show ?thesis
      by (simp add: runBuiltinMTRWithTimeout_def Let_def result_ok_def)
  next
    case (Inr x)
    obtain acc final m s1 where x: "x = (acc, final, m, s1)" by (cases x)
    from f Inr x have g: "run_adds (tool_event (job_count job) (job_max_hops job)) (probes_target env job) s s1" "m \<le> job_max_hops job"
      "pred_option exit_ok final" by simp_all
    from run Inr x have t: "t = fold (emitHopSummary sink) (mtr_hops env acc m ?c) s1"
      and r: "trExitCode r = (case final of None \<Rightarrow> 0 | Some f \<Rightarrow> trExitCode f)" "trTool r = jTool job"
      by (auto simp: runBuiltinMTRWithTimeout_def Let_def split: option.splits)
    have "run_adds (tool_event (job_count job) (job_max_hops job)) (probes_target env job) s1 t" unfolding t
    proof (rule adds_fold)
      fix h u assume "h \<in> set (mtr_hops env acc m ?c)"
      then obtain i where "h = FlattenSingleProbe (summarizeHop env (int i) (acc_probes acc (int i)) ?c)" "1 \<le> i" "i < nat (m + 1)"
        by (auto simp: mtr_hops_def)
      with g(2) show "run_adds (tool_event (job_count job) (job_max_hops job)) (probes_target env job) u (emitHopSummary sink h u)"
        unfolding emitHopSummary_def by (intro adds_emit) (auto simp: summarizeHop_fields)
    qed
    moreover have "result_ok job r" using r g(3) tool by (cases final) (auto simp: result_ok_def exit_ok_def)
    ultimately show ?thesis using adds_trans [OF g(1)] by blast
  qed
qed

text \<open>A known tool always has a result; what it writes and sends is as above.\<close>

lemma runBuiltin_facts:
  assumes run: "runBuiltin env sink job timeout s = (r, err, t)"
    and tool: "jTool job \<in> {ToolPing, ToolTraceroute, ToolMTR, ToolHTTP, ToolDNS, ToolPort}"
  shows "run_adds (tool_event (job_count job) (job_max_hops job)) (probes_target env job) s t \<and> (\<exists>res. r = Some res \<and> result_ok job res)"
proof -
  have some: "apfst Some y = (r, err, t) \<longleftrightarrow> (\<exists>res. r = Some res \<and> y = (res, err, t))" for y :: run_result
    by (cases y) auto
  from tool consider "jTool job = ToolPing" | "jTool job = ToolTraceroute" | "jTool job = ToolMTR" | "jTool job = ToolHTTP"
    | "jTool job = ToolDNS" | "jTool job = ToolPort" by auto
  then show ?thesis
  proof cases
    case 1
    with run obtain res where "r = Some res" "runBuiltinPingWithTimeout env sink job timeout s = (res, err, t)"
      by (auto simp: runBuiltin_def some)
    with Ping_result 1 show ?thesis by blast
  next
    case 2
    with run obtain res where "r = Some res" "runBuiltinTracerouteWithTimeout env sink job timeout s = (res, err, t)"
      by (auto simp: runBuiltin_def some)
    with Traceroute_result 2 show ?thesis by blast
  next
    case 3
    with run obtain res where "r = Some res" "runBuiltinMTRWithTimeout env sink job timeout s = (res, err, t)"
      by (auto simp: runBuiltin_def some)
    with MTR_result 3 show ?thesis by blast
  next
    case 4
    with run obtain res where "r = Some res" "runBuiltinHTTP env job s = (res, err, t)" by (auto simp: runBuiltin_def some)
    with HTTP_result show ?thesis by fastforce
  next
    case 5
    with run obtain res where "r = Some res" "runBuiltinDNS env job s = (res, err, t)" by (auto simp: runBuiltin_def some)
    with DNS_result show ?thesis by fastforce
  next
    case 6
    with run obtain res where "r = Some res" "runBuiltinPort env job s = (res, err, t)" by (auto simp: runBuiltin_def some)
    with Port_result show ?thesis by blast
  qed
qed

end
