(* ===== verification/AgentProgram.thy ===== *)
theory AgentProgram
  imports Runner Hub RateLimit
begin

text \<open>
  The agent (\<^verbatim>\<open>cmd/agent/main.go\<close>): it receives jobs from the server over a stream or as HTTP
  requests, checks and resolves their targets under its own rules, runs the tools, hides the first
  hops of a route when told to, and reports events and one parsed result in the wire form. The
  JSON text between agent and server is left out: \<open>wire_of\<close> is the object that
  \<^verbatim>\<open>encoding/json\<close> writes for a payload, by the tags of \<^verbatim>\<open>internal/model/model.go\<close> (strings are
  valid UTF-8). Reading the body of a request is a parameter.
\<close>

unbundle bit_operations_syntax


section \<open>The wire form\<close>

text \<open>\<^verbatim>\<open>omitempty\<close> leaves out empty strings and lists, false and nil.\<close>

definition enc_obj :: "(string \<times> json option) list \<Rightarrow> json" where
  "enc_obj fs = JObj (List.map_filter (\<lambda>(k, v). map_option (Pair k) v) fs)"

definition omit_str :: "string \<Rightarrow> json option" where
  "omit_str s = (if s = [] then None else Some (JStr s))"

definition omit_bool :: "bool \<Rightarrow> json option" where
  "omit_bool b = (if b then Some (JBool b) else None)"

definition omit_num :: "float64 option \<Rightarrow> json option" where
  "omit_num q = map_option JNum q"

definition omit_list :: "json list \<Rightarrow> json option" where
  "omit_list vs = (if vs = [] then None else Some (JArr vs))"

definition enc_ProbeResult :: "ProbeResult \<Rightarrow> json" where
  "enc_ProbeResult p =
     enc_obj [(''host'', omit_str (prHost p)), (''ip'', omit_str (prIP p)), (''rtt_ms'', omit_num (prRTTMS p)),
              (''timeout'', omit_bool (prTimeout p))]"

definition enc_HopResult :: "HopResult \<Rightarrow> json" where
  "enc_HopResult h =
     enc_obj [(''index'', Some (JNum (of_int (hIndex h)))), (''host'', omit_str (hHost h)), (''ip'', omit_str (hIP h)),
              (''rtt_ms'', omit_num (hRTTMS h)), (''timeout'', omit_bool (hTimeout h)),
              (''probes'', omit_list (map enc_ProbeResult (hProbes h))),
              (''loss_pct'', omit_num (hLossPct h)), (''sent'', omit_num (map_option of_int (hSent h))),
              (''avg_ms'', omit_num (hAvgMS h)), (''best_ms'', omit_num (hBestMS h)), (''worst_ms'', omit_num (hWorstMS h)),
              (''last_ms'', omit_num (hLastMS h)), (''stdev_ms'', omit_num (hStdevMS h)),
              (''times_ms'', omit_list (map JNum (hTimesMS h)))]"

definition enc_DNSRecord :: "DNSRecord \<Rightarrow> json" where
  "enc_DNSRecord r = enc_obj [(''type'', omit_str (rType r)), (''value'', Some (JStr (rValue r)))]"

fun enc_payload_val :: "payload_val \<Rightarrow> json" where
  "enc_payload_val (PStr s) = JStr s"
| "enc_payload_val (PInt i) = JNum (of_int i)"
| "enc_payload_val (PMetric m) = JObj m"
| "enc_payload_val (PHop h) = enc_HopResult h"
| "enc_payload_val (PHops hs) = JArr (map enc_HopResult hs)"
| "enc_payload_val (PRecords rs) = JArr (map enc_DNSRecord rs)"

definition wire_of :: "payload \<Rightarrow> wire_payload" where
  "wire_of p = map (apsnd enc_payload_val) p"

definition StreamEvent_WirePayload :: "StreamEvent \<Rightarrow> payload" where
  "StreamEvent_WirePayload e = StreamEvent_payload e False"

definition ToolResult_WirePayload :: "ToolResult \<Rightarrow> payload" where
  "ToolResult_WirePayload r = ToolResult_eventPayload r False"


section \<open>Configuration\<close>

record agent_config =
  acID :: string
  acMode :: string
  acLogLevel :: string
  acCountry :: string
  acRegion :: string
  acProvider :: string
  acISP :: string
  acServerAddr :: string
  acRegisterToken :: string
  acHTTPToken :: string
  acHTTPAddr :: string
  acHTTPPathPrefix :: string
  acCapabilities :: "string list"
  acProtocols :: ProtocolMask
  acHideFirstHops :: int
  acTLS :: TLS
  acHTTPTLS :: TLS
  acSpeedtest :: Speedtest

definition defaultAgent :: "agent_config \<Rightarrow> agent_config" where
  "defaultAgent cfg =
     cfg\<lparr>acMode := (if acMode cfg = [] then ''grpc'' else acMode cfg),
         acHTTPAddr := (if acHTTPAddr cfg = [] then '':9000'' else acHTTPAddr cfg),
         acProtocols := (if acProtocols cfg = 0 then 3 else acProtocols cfg),
         acCapabilities := (if acCapabilities cfg = [] then [''ping'', ''traceroute'', ''mtr'', ''http'', ''dns'', ''port'']
                            else acCapabilities cfg),
         acSpeedtest := defaultSpeedtest (acSpeedtest cfg)\<rparr>"

text \<open>What \<^verbatim>\<open>LoadAgent\<close> does with the values read from the environment and the file.\<close>

definition loaded_agent :: "agent_config \<Rightarrow> agent_config res" where
  "loaded_agent cfg =
     (let d = defaultAgent cfg
      in case NormalizePathPrefix (acHTTPPathPrefix d) of
           Inl e \<Rightarrow> Inl (Errorf ''http_path_prefix: %w'' [])
         | Inr pre \<Rightarrow> Inr (d\<lparr>acHTTPPathPrefix := pre\<rparr>))"

record agentModes =
  modeGRPC :: bool
  modeHTTP :: bool

fun add_modes :: "string list \<Rightarrow> agentModes \<Rightarrow> agentModes option" where
  "add_modes [] modes = Some modes"
| "add_modes (part # parts) modes =
     (let m = ToLower (TrimSpace part) in
      if m = ''grpc'' then add_modes parts (modes\<lparr>modeGRPC := True\<rparr>)
      else if m = ''http'' then add_modes parts (modes\<lparr>modeHTTP := True\<rparr>)
      else if m = ''both'' \<or> m = ''all'' then add_modes parts (modes\<lparr>modeGRPC := True, modeHTTP := True\<rparr>)
      else if m = [] then add_modes parts modes
      else None)"

definition parseAgentModes :: "string \<Rightarrow> agentModes option" where
  "parseAgentModes raw =
     (case add_modes (split CHR '','' raw) \<lparr>modeGRPC = False, modeHTTP = False\<rparr> of
        None \<Rightarrow> None
      | Some modes \<Rightarrow> if modeGRPC modes \<or> modeHTTP modes then Some modes else None)"

definition agentCapabilities :: "string list \<Rightarrow> Tool list" where
  "agentCapabilities xs = filter (\<lambda>item. item \<noteq> []) xs"

text \<open>\<^verbatim>\<open>os.Hostname\<close> is an argument.\<close>

definition defaultHTTPAgentID :: "string option \<Rightarrow> string \<Rightarrow> string" where
  "defaultHTTPAgentID hostname agentID =
     (if agentID \<noteq> [] then agentID
      else (case hostname of Some h \<Rightarrow> if h \<noteq> [] then h else ''unknown'' | None \<Rightarrow> ''unknown''))"

definition nextRetryDelay :: "dur \<Rightarrow> dur" where
  "nextRetryDelay current =
     (if current \<le> 0 then Second
      else let d = wrap64 (current * 2) in if 300 * Second < d then 300 * Second else d)"


section \<open>Protocols and targets\<close>

abbreviation errUnsupportedAgentProtocol :: error where
  "errUnsupportedAgentProtocol \<equiv> Errorf JobErrorUnsupportedProtocol []"

definition normalizeAgentProtocols :: "ProtocolMask \<Rightarrow> ProtocolMask" where
  "normalizeAgentProtocols protocols = (if protocols = 0 then ProtocolAll else protocols)"

definition validateAgentProtocol :: "IPVersion \<Rightarrow> ProtocolMask \<Rightarrow> unit res" where
  "validateAgentProtocol version protocols =
     (if RequiredProtocol version = 0 then Inr ()
      else if normalizeAgentProtocols protocols AND RequiredProtocol version = 0 then Inl errUnsupportedAgentProtocol
      else Inr ())"

definition agentTargetVersions :: "IPVersion \<Rightarrow> ProtocolMask \<Rightarrow> IPVersion list" where
  "agentTargetVersions version protocols0 =
     (let protocols = normalizeAgentProtocols protocols0 in
      if version = IPv4 then (if protocols AND ProtocolIPv4 = 0 then [] else [IPv4])
      else if version = IPv6 then (if protocols AND ProtocolIPv6 = 0 then [] else [IPv6])
      else (if protocols AND ProtocolIPv6 \<noteq> 0 then [IPv6] else [])
         @ (if protocols AND ProtocolIPv4 \<noteq> 0 then [IPv4] else []))"

text \<open>Next to its error a function returns a version, which the failed job keeps.\<close>

type_synonym 'a vres = "IPVersion \<times> error + 'a"

definition agentExecutionVersion :: "IPVersion \<Rightarrow> ProtocolMask \<Rightarrow> IPVersion vres" where
  "agentExecutionVersion version protocols0 =
     (if version = IPv4 \<or> version = IPv6 then
        (case validateAgentProtocol version protocols0 of Inl e \<Rightarrow> Inl (version, e) | Inr _ \<Rightarrow> Inr version)
      else
        (let protocols = normalizeAgentProtocols protocols0;
             hasIPv4 = (protocols AND ProtocolIPv4 \<noteq> 0);
             hasIPv6 = (protocols AND ProtocolIPv6 \<noteq> 0)
         in if hasIPv4 \<and> hasIPv6 then Inr version
            else if hasIPv6 then Inr IPv6
            else if hasIPv4 then Inr IPv4
            else Inl (version, errUnsupportedAgentProtocol)))"

text \<open>The loop over the versions to try; the last error is kept.\<close>

fun resolve_candidates ::
  "netenv \<Rightarrow> Tool \<Rightarrow> string \<Rightarrow> Runtime \<Rightarrow> ProtocolMask \<Rightarrow> IPVersion \<times> error \<Rightarrow> IPVersion list \<Rightarrow> (string \<times> IPVersion) vres" where
  "resolve_candidates env tool target runtime protocols lastErr [] = Inl lastErr"
| "resolve_candidates env tool target runtime protocols lastErr (candidate # cs) =
     (case ResolveTargetWithRuntime env tool target candidate runtime of
        Inr (resolvedTarget, resolvedVersion) \<Rightarrow>
          (case validateAgentProtocol resolvedVersion protocols of
             Inl e \<Rightarrow> Inl (resolvedVersion, e)
           | Inr _ \<Rightarrow> Inr (resolvedTarget, resolvedVersion))
      | Inl e \<Rightarrow> resolve_candidates env tool target runtime protocols (IPAny, e) cs)"

definition resolve_on_agent ::
  "netenv \<Rightarrow> Tool \<Rightarrow> string \<Rightarrow> IPVersion \<Rightarrow> int \<Rightarrow> ProtocolMask \<Rightarrow> (string \<times> IPVersion) vres" where
  "resolve_on_agent env tool target version resolveTimeoutSeconds protocols =
     (let runtime = (if 0 < resolveTimeoutSeconds
                     then DefaultRuntime\<lparr>rtResolveTimeoutSec := resolveTimeoutSeconds\<rparr> else DefaultRuntime);
          resolved = resolve_candidates env tool target runtime protocols (version, errUnsupportedAgentProtocol)
                       (agentTargetVersions version protocols)
      in case LiteralIPVersion env tool target of
           Inl e \<Rightarrow> Inl (IPAny, e)
         | Inr None \<Rightarrow> resolved
         | Inr (Some literalVersion) \<Rightarrow>
             (case ValidateLiteralTarget env tool target version of
                Inl e \<Rightarrow> Inl (IPAny, e)
              | Inr _ \<Rightarrow>
                  (case validateAgentProtocol literalVersion protocols of
                     Inl e \<Rightarrow> Inl (literalVersion, e)
                   | Inr _ \<Rightarrow> resolved)))"

definition check_resolved :: "string \<Rightarrow> IPVersion \<Rightarrow> ProtocolMask \<Rightarrow> (string \<times> IPVersion) vres" where
  "check_resolved resolvedTarget version protocols =
     (case ValidateResolvedIP resolvedTarget version of
        Inl e \<Rightarrow> Inl (IPAny, e)
      | Inr _ \<Rightarrow>
          (let resolvedVersion =
             (if version = IPAny then
                (case ParseIP resolvedTarget of
                   None \<Rightarrow> version
                 | Some ip \<Rightarrow> if To4 ip \<noteq> None then IPv4 else IPv6)
              else version)
           in case validateAgentProtocol resolvedVersion protocols of
                Inl e \<Rightarrow> Inl (resolvedVersion, e)
              | Inr _ \<Rightarrow> Inr (resolvedTarget, resolvedVersion)))"

definition check_unresolved ::
  "netenv \<Rightarrow> Tool \<Rightarrow> string \<Rightarrow> IPVersion \<Rightarrow> ProtocolMask \<Rightarrow> (string \<times> IPVersion) vres" where
  "check_unresolved env tool target version protocols =
     (case LiteralIPVersion env tool target of
        Inl e \<Rightarrow> Inl (IPAny, e)
      | Inr literal \<Rightarrow>
          (case ValidateLiteralTarget env tool target version of
             Inl e \<Rightarrow> Inl (IPAny, e)
           | Inr _ \<Rightarrow>
               (case literal of
                  Some literalVersion \<Rightarrow>
                    (case validateAgentProtocol literalVersion protocols of
                       Inl e \<Rightarrow> Inl (literalVersion, e)
                     | Inr _ \<Rightarrow> Inr ([], literalVersion))
                | None \<Rightarrow>
                    (case agentExecutionVersion version protocols of
                       Inl e \<Rightarrow> Inl e
                     | Inr v \<Rightarrow> Inr ([], v)))))"

definition resolveAgentTarget ::
  "netenv \<Rightarrow> Tool \<Rightarrow> string \<Rightarrow> string \<Rightarrow> IPVersion \<Rightarrow> bool \<Rightarrow> int \<Rightarrow> ProtocolMask \<Rightarrow> (string \<times> IPVersion) vres" where
  "resolveAgentTarget env tool target resolvedTarget version resolveOnAgent resolveTimeoutSeconds protocols0 =
     (let protocols = normalizeAgentProtocols protocols0 in
      if resolveOnAgent then resolve_on_agent env tool target version resolveTimeoutSeconds protocols
      else if resolvedTarget \<noteq> [] then check_resolved resolvedTarget version protocols
      else check_unresolved env tool target version protocols)"


section \<open>What is reported\<close>

text \<open>
  \<^verbatim>\<open>err.Error()\<close>: the verbs of a format are replaced in turn; the text of a wrapped error is not
  kept in the model.
\<close>

fun format_error :: "string \<Rightarrow> string list \<Rightarrow> string" where
  "format_error [] args = []"
| "format_error [c] args = [c]"
| "format_error (c # d # s) args =
     (if c = CHR ''%'' then
        (case args of
           [] \<Rightarrow> format_error s args
         | a # as \<Rightarrow> (if d = CHR ''q'' then [CHR 0x22] @ a @ [CHR 0x22] else a) @ format_error s as)
      else c # format_error (d # s) args)"

fun error_text :: "error \<Rightarrow> string" where
  "error_text ErrNotFound = ''not found''"
| "error_text ErrConflict = ''conflict''"
| "error_text ErrInvalidPortRangeRule = ''invalid port range rule''"
| "error_text ErrPortNotAllowed = ''port is not allowed''"
| "error_text ErrAgentNotFound = ''agent not found''"
| "error_text ErrAgentOffline = ''agent offline''"
| "error_text (Errorf f args) = format_error f args"

definition agentPreflightFailureType :: "error \<Rightarrow> string" where
  "agentPreflightFailureType err =
     (if err = errUnsupportedAgentProtocol \<or> PublicJobErrorType (error_text err) = JobErrorUnsupportedProtocol
      then JobErrorUnsupportedProtocol else JobErrorTargetBlocked)"

definition agentPreflightFailureResult :: "Job \<Rightarrow> error \<Rightarrow> ToolResult" where
  "agentPreflightFailureResult job err =
     \<lparr>trType = [], trTool = jTool job, trTarget = jTarget job, trIPVersion = jIPVersion job, trExitCode = -1,
      trSummary = [(''status'', JStr (agentPreflightFailureType err)), (''error'', JStr (error_text err))],
      trHops = [], trRecords = []\<rparr>"

definition hideHopsApplies :: "Tool \<Rightarrow> bool" where
  "hideHopsApplies tool \<longleftrightarrow> tool = ToolTraceroute \<or> tool = ToolMTR"

definition timeoutHop :: "int \<Rightarrow> HopResult" where
  "timeoutHop index = (new_hop index [])\<lparr>hTimeout := True\<rparr>"

definition redactHops :: "int \<Rightarrow> ToolResult \<Rightarrow> ToolResult" where
  "redactHops n r =
     (if n \<le> 0 \<or> \<not> hideHopsApplies (trTool r) then r
      else r\<lparr>trHops := map (\<lambda>h. timeoutHop (hIndex h)) (take (nat n) (trHops r)) @ drop (nat n) (trHops r)\<rparr>)"

definition redactStreamEvent :: "Tool \<Rightarrow> int \<Rightarrow> StreamEvent \<Rightarrow> StreamEvent" where
  "redactStreamEvent tool n e =
     (case seHop e of
        None \<Rightarrow> e
      | Some h \<Rightarrow>
          if n \<le> 0 \<or> \<not> hideHopsApplies tool then e
          else if hIndex h \<le> n then e\<lparr>seHop := Some (timeoutHop (hIndex h))\<rparr> else e)"

definition compactParsedResult :: "ToolResult \<Rightarrow> ToolResult" where
  "compactParsedResult r =
     (let r1 = r\<lparr>trType := ''summary''\<rparr>
      in if trTool r = ToolTraceroute \<or> trTool r = ToolMTR then r1\<lparr>trHops := []\<rparr> else r1)"

text \<open>The messages of the stream; the server fills in the agent of a result.\<close>

definition result_message :: "string \<Rightarrow> wire_payload \<Rightarrow> AgentMessage" where
  "result_message jobID ev =
     \<lparr>mgType = ''result'', mgAgent = None, mgResult = Some \<lparr>reJobID = jobID, reAgentID = [], reEvent = ev\<rparr>\<rparr>"

definition sendStreamEvent :: "string \<Rightarrow> StreamEvent \<Rightarrow> AgentMessage" where
  "sendStreamEvent jobID event = result_message jobID (wire_of (StreamEvent_WirePayload event))"

definition sendParsed :: "string \<Rightarrow> ToolResult \<Rightarrow> AgentMessage" where
  "sendParsed jobID parsed = result_message jobID (wire_of (ToolResult_WirePayload (compactParsedResult parsed)))"

text \<open>The hello that opens a session.\<close>

definition hello_message :: "agent_config \<Rightarrow> string \<Rightarrow> AgentMessage" where
  "hello_message cfg version =
     \<lparr>mgType = ''hello'',
      mgAgent = Some \<lparr>ahID = acID cfg, ahCountry = acCountry cfg, ahRegion = acRegion cfg, ahProvider = acProvider cfg,
                      ahISP = acISP cfg, ahVersion = version, ahToken = acRegisterToken cfg,
                      ahCapabilities = agentCapabilities (acCapabilities cfg), ahProtocols = acProtocols cfg\<rparr>,
      mgResult = None\<rparr>"


section \<open>Running a job\<close>

text \<open>The job that is run; the fields that neither the runner nor the agent reads are zero.\<close>

definition agent_job :: "JobSpec \<Rightarrow> string \<Rightarrow> IPVersion \<Rightarrow> Job" where
  "agent_job spec resolvedTarget version =
     \<lparr>jID = jsID spec, jParentID = [], jScheduledID = [], jScheduledRevision = 0, jTool = jsTool spec,
      jTarget = jsTarget spec, jResolvedTarget = resolvedTarget, jArgs = jsArgs spec, jIPVersion = version,
      jAgentID = [], jResolveOnAgent = jsResolveOnAgent spec, jStatus = JobQueued, jCreatedAt = 0, jUpdatedAt = 0,
      jStartedAt = None, jCompletedAt = None, jError = []\<rparr>"

definition spec_policy :: "JobSpec \<Rightarrow> Policy \<Rightarrow> Policy" where
  "spec_policy spec p =
     p\<lparr>pTimeout := (if 0 < jsTimeoutSeconds spec then seconds (jsTimeoutSeconds spec) else pTimeout p),
       pProbeTimeout := (if 0 < jsProbeTimeoutSeconds spec then seconds (jsProbeTimeoutSeconds spec) else pProbeTimeout p)\<rparr>"

definition agent_target :: "netenv \<Rightarrow> agent_config \<Rightarrow> JobSpec \<Rightarrow> (string \<times> IPVersion) vres" where
  "agent_target net cfg spec =
     resolveAgentTarget net (jsTool spec) (jsTarget spec) (jsResolvedTarget spec) (jsIPVersion spec)
       (jsResolveOnAgent spec) (jsResolveTimeoutSeconds spec) (acProtocols cfg)"

text \<open>
  The events and the parsed result of a job, in the order they are sent: a refused job reports the
  failure and a result; a job that ran its events, redacted, and its result.
\<close>

definition agent_run ::
  "netenv \<Rightarrow> (dur \<Rightarrow> renv) \<Rightarrow> agent_config \<Rightarrow> JobSpec \<Rightarrow> Policy \<Rightarrow> StreamEvent list \<times> ToolResult option" where
  "agent_run net env cfg spec p =
     (case agent_target net cfg spec of
        Inl (version, err) \<Rightarrow>
          (let failureType = agentPreflightFailureType err
           in ([\<lparr>seType = failureType, seMessage = failureType, seHop = None, seMetric = []\<rparr>],
               Some (agentPreflightFailureResult (agent_job spec [] version) err)))
      | Inr (resolvedTarget, version) \<Rightarrow>
          (let (parsed, _, s) = RunStream env True (agent_job spec resolvedTarget version) p
           in (map (redactStreamEvent (jsTool spec) (acHideFirstHops cfg)) (rsEvents s),
               map_option (redactHops (acHideFirstHops cfg)) parsed)))"

definition job_messages ::
  "netenv \<Rightarrow> (dur \<Rightarrow> renv) \<Rightarrow> agent_config \<Rightarrow> JobSpec \<Rightarrow> Policy \<Rightarrow> AgentMessage list" where
  "job_messages net env cfg spec p =
     (let (events, parsed) = agent_run net env cfg spec p
      in map (sendStreamEvent (jsID spec)) events
         @ (case parsed of None \<Rightarrow> [] | Some r \<Rightarrow> [sendParsed (jsID spec) r]))"


section \<open>A session\<close>

text \<open>
  The jobs of a stream run in goroutines, numbered in the order of their start; the map of
  cancel functions knows the latest goroutine of a job id. A message of another type, or a job
  of an unknown tool, is skipped. The messages of a job that has ended are sent.
\<close>

record session =
  ssCancels :: "(string, nat) gomap"
  ssRuns :: "(nat, JobSpec \<times> Policy) gomap"
  ssStarted :: nat
  ssCanceled :: "nat list"
  ssSent :: "AgentMessage list"

definition new_session :: "agent_config \<Rightarrow> string \<Rightarrow> session" where
  "new_session cfg version =
     \<lparr>ssCancels = [], ssRuns = [], ssStarted = 0, ssCanceled = [], ssSent = [hello_message cfg version]\<rparr>"

fun session_recv :: "ServerMessage \<Rightarrow> session \<Rightarrow> session" where
  "session_recv (MsgCancel jobID) st =
     (case mget (ssCancels st) jobID of None \<Rightarrow> st | Some n \<Rightarrow> st\<lparr>ssCanceled := n # ssCanceled st\<rparr>)"
| "session_recv (MsgJob spec) st =
     (case mget (byTool DefaultPolicies) (jsTool spec) of
        None \<Rightarrow> st
      | Some p \<Rightarrow>
          (let spec' = spec\<lparr>jsArgs := AgentArgsWithRuntime (jsTool spec) (jsArgs spec) DefaultRuntime\<rparr>; n = ssStarted st
           in st\<lparr>ssCancels := mput (jsID spec) n (ssCancels st),
                 ssRuns := mput n (spec', spec_policy spec p) (ssRuns st), ssStarted := Suc n\<rparr>))"

definition session_finish :: "netenv \<Rightarrow> (dur \<Rightarrow> renv) \<Rightarrow> agent_config \<Rightarrow> nat \<Rightarrow> session \<Rightarrow> session" where
  "session_finish net env cfg n st =
     (case mget (ssRuns st) n of
        None \<Rightarrow> st
      | Some (spec, p) \<Rightarrow>
          st\<lparr>ssCancels := mdel (jsID spec) (ssCancels st), ssRuns := mdel n (ssRuns st),
             ssSent := ssSent st @ job_messages net env cfg spec p\<rparr>)"

definition session_heartbeat :: "session \<Rightarrow> session" where
  "session_heartbeat st = st\<lparr>ssSent := ssSent st @ [\<lparr>mgType = ''heartbeat'', mgAgent = None, mgResult = None\<rparr>]\<rparr>"

text \<open>The delay before the next session, after \<^verbatim>\<open>n\<close> sessions have ended.\<close>

fun retry_delay :: "nat \<Rightarrow> dur" where
  "retry_delay 0 = Second"
| "retry_delay (Suc n) = nextRetryDelay (retry_delay n)"


section \<open>The HTTP agent\<close>

definition bearerToken :: "string \<Rightarrow> string option" where
  "bearerToken hdr =
     (if hdr = [] then Some []
      else if \<not> HasPrefix hdr ''Bearer '' then None
      else let token = drop 7 hdr in if TrimSpace token = [] then None else Some token)"

definition speedtestClientIP :: "string \<Rightarrow> string" where
  "speedtestClientIP remoteAddr = (case SplitHost remoteAddr of None \<Rightarrow> remoteAddr | Some host \<Rightarrow> host)"

definition httpClientIP :: "header \<Rightarrow> string \<Rightarrow> string" where
  "httpClientIP h remoteAddr =
     (let xff = header_get h ''X-Forwarded-For''
      in if xff \<noteq> [] then TrimSpace (hd (split CHR '','' xff)) else speedtestClientIP remoteAddr)"

text \<open>
  A request, with its decoded body and its query; an answer: a JSON object with an error, the health
  object, the lines of an invocation, a download of some bytes, or not found.
\<close>

record agent_request =
  aqMethod :: string
  aqPath :: string
  aqHeader :: header
  aqRemoteAddr :: string
  aqQuery :: "string \<Rightarrow> string"
  aqSpec :: "JobSpec option"

datatype agent_reply =
    AgentError int string
  | AgentHealth string "Tool list" ProtocolMask
  | AgentLines "wire_payload list"
  | AgentBytes int bool
  | AgentNotFound

definition speedtest_config :: "Speedtest \<Rightarrow> RateLimit" where
  "speedtest_config cfg =
     zero_RateLimit\<lparr>
       rlGlobal := \<lparr>lsRequestsPerMinute = spGlobalRequestsPerMinute cfg, lsBurst = spGlobalBurst cfg\<rparr>,
       rlIP := \<lparr>lsRequestsPerMinute = spIPRequestsPerMinute cfg, lsBurst = spIPBurst cfg\<rparr>,
       rlCIDR := \<lparr>csRequestsPerMinute = spGlobalRequestsPerMinute cfg, csBurst = spGlobalBurst cfg,
                  csIPv4Prefix = 32, csIPv6Prefix = 128\<rparr>\<rparr>"

text \<open>The two limiters of the handler; building them from these settings does not fail.\<close>

record 'b agent_limits =
  alInvoke :: "'b Limiter"
  alSpeedtest :: "'b Limiter"

definition new_limits :: "agent_config \<Rightarrow> ('b agent_limits) res" where
  "new_limits cfg =
     bind_res (NewConfiguredLimiterWithError zero_RateLimit) (\<lambda>inv.
       bind_res (NewConfiguredLimiterWithError (speedtest_config (acSpeedtest cfg))) (\<lambda>sp.
         Inr \<lparr>alInvoke = inv, alSpeedtest = sp\<rparr>))"

definition speedtest ::
  "'b bucket_ops \<Rightarrow> time \<Rightarrow> Speedtest \<Rightarrow> string \<Rightarrow> agent_request \<Rightarrow> 'b Limiter \<Rightarrow> agent_reply \<times> 'b Limiter" where
  "speedtest ops now cfg token r limiter =
     (if spMaxBytes cfg \<le> 0 then (AgentNotFound, limiter)
      else if aqMethod r \<noteq> ''GET'' \<and> aqMethod r \<noteq> ''HEAD'' then (AgentError 405 ''method not allowed'', limiter)
      else (case AllowRequest ops now now now (speedtestClientIP (aqRemoteAddr r)) limiter of
              (False, l) \<Rightarrow> (AgentError 429 ''rate limit exceeded'', l)
            | (True, l) \<Rightarrow>
                (if token \<noteq> [] \<and> aqQuery r ''token'' \<noteq> token then (AgentError 401 ''invalid token'', l)
                 else
                   (case (if aqQuery r ''bytes'' = [] then Some (spDefaultBytes cfg)
                          else (case Atoi (aqQuery r ''bytes'') of None \<Rightarrow> None | Some n \<Rightarrow> if n \<le> 0 then None else Some n)) of
                      None \<Rightarrow> (AgentError 400 ''invalid bytes'', l)
                    | Some sz \<Rightarrow>
                        if spMaxBytes cfg < sz then (AgentError 400 ''bytes exceeds max'', l)
                        else (AgentBytes sz (aqMethod r \<noteq> ''HEAD''), l)))))"

definition invoke_auth ::
  "'b bucket_ops \<Rightarrow> time \<Rightarrow> agent_config \<Rightarrow> agent_request \<Rightarrow> 'b Limiter \<Rightarrow> agent_reply option \<times> 'b Limiter" where
  "invoke_auth ops now cfg r limiter =
     (if acHTTPToken cfg = [] then (None, limiter)
      else let token = bearerToken (header_get (aqHeader r) ''Authorization'')
        in if token = Some (acHTTPToken cfg) then (None, limiter)
           else (case AllowRequest ops now now now (speedtestClientIP (aqRemoteAddr r)) limiter of
                   (False, l) \<Rightarrow> (Some (AgentError 429 ''rate limit exceeded''), l)
                 | (True, l) \<Rightarrow>
                     (Some (AgentError 401 (if token = None then ''authorization header must use Bearer scheme''
                                            else ''invalid token'')), l)))"

definition create_request :: "string \<Rightarrow> JobSpec \<Rightarrow> CreateJobRequest" where
  "create_request agentID spec =
     \<lparr>rqTool = jsTool spec, rqTarget = jsTarget spec,
      rqArgs = AgentArgsWithRuntime (jsTool spec) (jsArgs spec) DefaultRuntime,
      rqIPVersion = jsIPVersion spec, rqAgentID = agentID, rqResolveOnAgent = jsResolveOnAgent spec\<rparr>"

definition invoke ::
  "netenv \<Rightarrow> (dur \<Rightarrow> renv) \<Rightarrow> 'b bucket_ops \<Rightarrow> time \<Rightarrow> agent_config \<Rightarrow> string \<Rightarrow> agent_request \<Rightarrow> 'b Limiter
   \<Rightarrow> agent_reply \<times> 'b Limiter" where
  "invoke net env ops now cfg agentID r limiter =
     (if aqMethod r \<noteq> ''POST'' then (AgentError 405 ''method not allowed'', limiter)
      else (case invoke_auth ops now cfg r limiter of
              (Some reply, l) \<Rightarrow> (reply, l)
            | (None, l) \<Rightarrow>
                (case aqSpec r of
                   None \<Rightarrow> (AgentError 400 ''invalid json'', l)
                 | Some spec0 \<Rightarrow>
                     (let req = create_request agentID spec0; spec = spec0\<lparr>jsArgs := rqArgs req\<rparr>
                      in case ValidateTrusted net DefaultPolicies req of
                           Inl err \<Rightarrow> (AgentError 400 (error_text err), l)
                         | Inr p \<Rightarrow>
                             (let (events, parsed) = agent_run net env cfg spec (spec_policy spec p)
                              in (AgentLines
                                    (map (\<lambda>e. wire_of (StreamEvent_WirePayload e)) events
                                     @ (case parsed of None \<Rightarrow> []
                                        | Some result \<Rightarrow> [wire_of (ToolResult_WirePayload (compactParsedResult result))])), l))))))"

text \<open>
  The routes of \<^verbatim>\<open>newHTTPAgentHandler\<close> behind the path prefix; the server refuses to start
  without a token.
\<close>

definition http_agent_handler ::
  "netenv \<Rightarrow> (dur \<Rightarrow> renv) \<Rightarrow> 'b bucket_ops \<Rightarrow> time \<Rightarrow> string option \<Rightarrow> agent_config \<Rightarrow> agent_request \<Rightarrow> 'b agent_limits
   \<Rightarrow> agent_reply \<times> 'b agent_limits" where
  "http_agent_handler net env ops now hostname cfg r limits =
     (let agentID = defaultHTTPAgentID hostname (acID cfg);
          inner = acHTTPPathPrefix cfg @ ''/''
      in if \<not> HasPrefix (aqPath r) inner then (AgentNotFound, limits)
         else let path = drop (length (acHTTPPathPrefix cfg)) (aqPath r)
           in if path = ''/speedtest/random'' then
                (let (reply, l) = speedtest ops now (acSpeedtest cfg) (acHTTPToken cfg) r (alSpeedtest limits)
                 in (reply, limits\<lparr>alSpeedtest := l\<rparr>))
              else if path = ''/healthz'' then
                (AgentHealth agentID (agentCapabilities (acCapabilities cfg)) (acProtocols cfg), limits)
              else if path = ''/invoke'' then
                (let (reply, l) = invoke net env ops now cfg agentID r (alInvoke limits) in (reply, limits\<lparr>alInvoke := l\<rparr>))
              else (AgentNotFound, limits))"

definition startHTTPAgentServer :: "string option \<Rightarrow> agent_config \<Rightarrow> agent_config res" where
  "startHTTPAgentServer hostname cfg =
     (if TrimSpace (acHTTPToken cfg) = [] then Inl (Errorf ''http_token is required when agent mode includes http'' [])
      else Inr (cfg\<lparr>acID := defaultHTTPAgentID hostname (acID cfg)\<rparr>))"

end
