(* ===== verification/WireFacts.thy ===== *)
theory WireFacts
  imports AgentProgram
begin

text \<open>
  What an agent encodes, the server decodes: the round trips of the wire form.
\<close>

lemma map_filter_eq:
  "List.map_filter (\<lambda>(k, v). map_option (Pair k) v) xs = map (apsnd the) (filter (\<lambda>x. snd x \<noteq> None) xs)"
  by (induction xs) (auto simp: List.map_filter_simps split: option.splits)

lemma sort_map_apsnd: "sort_key fst (map (apsnd f) xs) = map (apsnd f) (sort_key fst xs)" for xs :: "(string \<times> 'a) list"
proof (induction xs)
  case (Cons x xs)
  have "insort_key fst (apsnd f x) (map (apsnd f) ys) = map (apsnd f) (insort_key fst x ys)" for ys
    by (induction ys) auto
  with Cons show ?case by simp
qed simp

lemma sort_key_map_filter:
  "sort_key fst (List.map_filter (\<lambda>(k, v). map_option (Pair k) v) xs)
   = List.map_filter (\<lambda>(k, v). map_option (Pair k) v) (sort_key fst xs)" for xs :: "(string \<times> 'a option) list"
  unfolding map_filter_eq sort_map_apsnd filter_sort [symmetric] ..

text \<open>
  An object is decoded one field after the other, in the order of the keys; a field left out is
  skipped.
\<close>

definition dec_step :: "(string \<Rightarrow> 'a dec) \<Rightarrow> string \<Rightarrow> json option \<Rightarrow> 'a \<Rightarrow> 'a option" where
  "dec_step field k v y = (case v of None \<Rightarrow> Some y | Some w \<Rightarrow> field k w y)"

fun dec_steps :: "(string \<Rightarrow> 'a dec) \<Rightarrow> (string \<times> json option) list \<Rightarrow> 'a option \<Rightarrow> 'a option" where
  "dec_steps field [] acc = acc"
| "dec_steps field ((k, v) # fs) acc =
     dec_steps field fs (case acc of None \<Rightarrow> None | Some y \<Rightarrow> dec_step field k v y)"

lemma dec_steps_fold:
  assumes "fst ` set fs \<subseteq> set names"
  shows "fold (\<lambda>(key, v) acc. case acc of None \<Rightarrow> None
      | Some y \<Rightarrow> (case find_field names key of None \<Rightarrow> Some y | Some f \<Rightarrow> field f v y))
    (List.map_filter (\<lambda>(k, v). map_option (Pair k) v) fs) acc = dec_steps field fs acc"
  using assms
proof (induction fs arbitrary: acc)
  case (Cons f fs)
  obtain k v where f: "f = (k, v)" by (cases f)
  with Cons.prems have k: "find_field names k = Some k" by (simp add: find_field_def)
  from Cons k show ?case by (cases v; cases acc) (simp_all add: f List.map_filter_simps dec_step_def)
qed (simp add: List.map_filter_simps)

lemma dec_enc_obj:
  assumes "fst ` set fs \<subseteq> set names"
  shows "dec_obj names field (enc_obj fs) x = dec_steps field (sort_key fst fs) (Some x)"
  using dec_steps_fold [of "sort_key fst fs" names field "Some x"] assms
  by (simp add: dec_obj_def enc_obj_def sort_key_map_filter)

lemma dec_value [simp]:
  "dec_str (JStr s) x = Some s"
  "dec_bool (JBool b) c = Some b"
  "dec_float (JNum q) r = Some q"
  "int64 i \<Longrightarrow> dec_int (JNum (of_int i)) j = Some i"
  by (simp_all add: dec_str_def dec_bool_def dec_float_def dec_int_def)

lemma dec_ptr_value [simp]:
  "dec_ptr dec_float z (JNum q) None = Some (Some q)"
  "int64 i \<Longrightarrow> dec_ptr dec_int z' (JNum (of_int i)) None = Some (Some i)"
  by (simp_all add: dec_ptr_def)

lemma dec_list_enc: "(\<And>a. a \<in> set as \<Longrightarrow> d (enc a) zero = Some a) \<Longrightarrow> dec_list d zero (JArr (map enc as)) x = Some as"
  unfolding dec_list_def by (induction as) auto

lemmas omit_defs = dec_step_def omit_str_def omit_bool_def omit_num_def omit_list_def


section \<open>Probes, hops and records\<close>

text \<open>A field that is left out is the one the decoder starts with.\<close>

lemma probe_steps:
  "prHost p = [] \<Longrightarrow> dec_step probe_field ''host'' (omit_str s) p = Some (p\<lparr>prHost := s\<rparr>)"
  "prIP p = [] \<Longrightarrow> dec_step probe_field ''ip'' (omit_str s) p = Some (p\<lparr>prIP := s\<rparr>)"
  "prRTTMS p = None \<Longrightarrow> dec_step probe_field ''rtt_ms'' (omit_num q) p = Some (p\<lparr>prRTTMS := q\<rparr>)"
  "\<not> prTimeout p \<Longrightarrow> dec_step probe_field ''timeout'' (omit_bool b) p = Some (p\<lparr>prTimeout := b\<rparr>)"
  by (cases p; cases q; simp add: omit_defs probe_field_def)+

lemma dec_enc_Probe [simp]: "dec_ProbeResult (enc_ProbeResult p) zero_ProbeResult = Some p"
  unfolding dec_ProbeResult_def enc_ProbeResult_def by (subst dec_enc_obj) (simp_all add: zero_ProbeResult_def probe_steps)

lemma dec_enc_Record [simp]: "dec_DNSRecord (enc_DNSRecord r) (DNSRecord [] []) = Some r"
  unfolding dec_DNSRecord_def enc_DNSRecord_def
  by (cases r; subst dec_enc_obj) (simp_all add: omit_defs record_field_def)

text \<open>The server reads numbers as \<^verbatim>\<open>float64\<close>, which holds these integers exactly.\<close>

definition exact_int :: "int \<Rightarrow> bool" where
  "exact_int i \<longleftrightarrow> \<bar>i\<bar> \<le> 2 ^ 53"

lemma exact_int64: "exact_int i \<Longrightarrow> int64 i"
  by (auto simp: exact_int_def int64_def)

definition hop_ints :: "HopResult \<Rightarrow> bool" where
  "hop_ints h \<longleftrightarrow> exact_int (hIndex h) \<and> pred_option exact_int (hSent h)"

lemma hop_steps:
  "exact_int i \<Longrightarrow> dec_step hop_field ''index'' (Some (JNum (of_int i))) h = Some (h\<lparr>hIndex := i\<rparr>)"
  "hHost h = [] \<Longrightarrow> dec_step hop_field ''host'' (omit_str s) h = Some (h\<lparr>hHost := s\<rparr>)"
  "hIP h = [] \<Longrightarrow> dec_step hop_field ''ip'' (omit_str s) h = Some (h\<lparr>hIP := s\<rparr>)"
  "\<not> hTimeout h \<Longrightarrow> dec_step hop_field ''timeout'' (omit_bool b) h = Some (h\<lparr>hTimeout := b\<rparr>)"
  "hProbes h = [] \<Longrightarrow> dec_step hop_field ''probes'' (omit_list (map enc_ProbeResult ps)) h = Some (h\<lparr>hProbes := ps\<rparr>)"
  "hTimesMS h = [] \<Longrightarrow> dec_step hop_field ''times_ms'' (omit_list (map JNum qs)) h = Some (h\<lparr>hTimesMS := qs\<rparr>)"
  by (cases h; simp add: omit_defs hop_field_def dec_list_enc exact_int64)+

lemma hop_num_steps:
  "hRTTMS h = None \<Longrightarrow> dec_step hop_field ''rtt_ms'' (omit_num q) h = Some (h\<lparr>hRTTMS := q\<rparr>)"
  "hLossPct h = None \<Longrightarrow> dec_step hop_field ''loss_pct'' (omit_num q) h = Some (h\<lparr>hLossPct := q\<rparr>)"
  "hAvgMS h = None \<Longrightarrow> dec_step hop_field ''avg_ms'' (omit_num q) h = Some (h\<lparr>hAvgMS := q\<rparr>)"
  "hBestMS h = None \<Longrightarrow> dec_step hop_field ''best_ms'' (omit_num q) h = Some (h\<lparr>hBestMS := q\<rparr>)"
  "hWorstMS h = None \<Longrightarrow> dec_step hop_field ''worst_ms'' (omit_num q) h = Some (h\<lparr>hWorstMS := q\<rparr>)"
  "hLastMS h = None \<Longrightarrow> dec_step hop_field ''last_ms'' (omit_num q) h = Some (h\<lparr>hLastMS := q\<rparr>)"
  "hStdevMS h = None \<Longrightarrow> dec_step hop_field ''stdev_ms'' (omit_num q) h = Some (h\<lparr>hStdevMS := q\<rparr>)"
  by (cases h; cases q; simp add: omit_defs hop_field_def)+

lemma hop_sent_step:
  "hSent h = None \<Longrightarrow> pred_option exact_int i \<Longrightarrow>
   dec_step hop_field ''sent'' (omit_num (map_option of_int i)) h = Some (h\<lparr>hSent := i\<rparr>)"
  by (cases h; cases i; simp add: omit_defs hop_field_def exact_int64)

lemma dec_enc_Hop: "hop_ints h \<Longrightarrow> dec_HopResult (enc_HopResult h) zero_HopResult = Some h"
  unfolding dec_HopResult_def enc_HopResult_def hop_ints_def
  by (subst dec_enc_obj) (simp_all add: zero_HopResult_def hop_steps hop_num_steps hop_sent_step)


section \<open>Events and results\<close>

lemma fold_mput: "distinct (map fst (xs @ ys)) \<Longrightarrow> fold (\<lambda>(k, v). mput k v) ys xs = xs @ ys"
proof (induction ys arbitrary: xs)
  case (Cons y ys)
  obtain k v where y: "y = (k, v)" by (cases y)
  with Cons.prems have "k \<notin> fst ` set xs" by auto
  then have "mput k v xs = xs @ [(k, v)]" by (induction xs) auto
  with Cons y show ?case by simp
qed simp

lemma dec_metric_enc [simp]: "mwf m \<Longrightarrow> dec_metric (JObj m) [] = Some m"
  using fold_mput [of "[]" m] by (simp add: dec_metric_def mwf_def)

lemma metricPayload_wire [simp]: "metricPayload m False = m"
  by (simp add: metricPayload_def Let_def)

text \<open>What a stream event must be for its round trip: integers that fit, and a map as its metric.\<close>

definition event_wf :: "StreamEvent \<Rightarrow> bool" where
  "event_wf e \<longleftrightarrow> seType e \<noteq> [] \<and> pred_option hop_ints (seHop e) \<and> mwf (seMetric e)"

lemma enc_event:
  "JObj (wire_of (StreamEvent_WirePayload e)) =
   enc_obj [(''type'', omit_str (seType e)), (''message'', omit_str (seMessage e)),
            (''hop'', map_option enc_HopResult (seHop e)), (''metric'', if seMetric e = [] then None else Some (JObj (seMetric e)))]"
  by (simp add: StreamEvent_WirePayload_def StreamEvent_payload_def enc_obj_def omit_str_def wire_of_def List.map_filter_simps
      split: option.split)

lemma enc_Hop_object [simp]: "enc_HopResult h \<noteq> JNull"
  by (simp add: enc_HopResult_def enc_obj_def)

lemma event_steps:
  "seType e = [] \<Longrightarrow> dec_step event_field ''type'' (omit_str s) e = Some (e\<lparr>seType := s\<rparr>)"
  "seMessage e = [] \<Longrightarrow> dec_step event_field ''message'' (omit_str s) e = Some (e\<lparr>seMessage := s\<rparr>)"
  "seMetric e = [] \<Longrightarrow> mwf m \<Longrightarrow>
   dec_step event_field ''metric'' (if m = [] then None else Some (JObj m)) e = Some (e\<lparr>seMetric := m\<rparr>)"
  by (cases e; simp add: omit_defs event_field_def)+

lemma event_hop_step:
  "seHop e = None \<Longrightarrow> pred_option hop_ints h \<Longrightarrow> dec_step event_field ''hop'' (map_option enc_HopResult h) e = Some (e\<lparr>seHop := h\<rparr>)"
  by (cases h) (simp_all add: dec_step_def event_field_def dec_ptr_def dec_enc_Hop)

lemma dec_enc_event:
  assumes "event_wf e"
  shows "dec_StreamEvent (JObj (wire_of (StreamEvent_WirePayload e))) zero_StreamEvent = Some e"
  using assms unfolding dec_StreamEvent_def enc_event event_wf_def
  by (subst dec_enc_obj) (simp_all add: zero_StreamEvent_def event_steps event_hop_step)


lemma wire_eventType:
  "seType e \<noteq> [] \<Longrightarrow> eventType (wire_of (StreamEvent_WirePayload e)) = seType e"
  "trType r \<noteq> [] \<Longrightarrow> eventType (wire_of (ToolResult_WirePayload r)) = trType r"
  by (simp_all add: eventType_def wire_of_def StreamEvent_WirePayload_def StreamEvent_payload_def
      ToolResult_WirePayload_def ToolResult_eventPayload_def)

lemma event_wire:
  assumes "event_wf e" "seType e \<noteq> ''summary''"
  shows "jobEventFromWire job (seType e) (wire_of (StreamEvent_WirePayload e))
    = Inr \<lparr>weEvent = Some e, weExitCode = None, weParsed = None\<rparr>"
  using assms dec_enc_event [OF assms(1)] by (simp add: jobEventFromWire_def event_wf_def)

lemma float_to_int_exact [simp]: "exact_int i \<Longrightarrow> float_to_int (of_int i) = i"
  by (drule exact_int64) (auto simp: float_to_int_def quot_def Let_def sgn_if)

lemma dec_list_values [simp]:
  "list_all hop_ints hs \<Longrightarrow> dec_list dec_HopResult zero_HopResult (JArr (map enc_HopResult hs)) [] = Some hs"
  "dec_list dec_DNSRecord (DNSRecord [] []) (JArr (map enc_DNSRecord rs)) [] = Some rs"
  by (auto simp: list_all_iff intro!: dec_list_enc dec_enc_Hop)

lemma summary_wire:
  assumes "trType r = ''summary''" "exact_int (trExitCode r)" "list_all hop_ints (trHops r)"
  shows "jobEventFromWire job ''summary'' (wire_of (ToolResult_WirePayload r))
    = Inr \<lparr>weEvent = None, weExitCode = Some (trExitCode r),
           weParsed = Some (r\<lparr>trTool := jTool job, trTarget := jTarget job, trIPVersion := jIPVersion job,
                              trRecords := sort (trRecords r)\<rparr>)\<rparr>"
proof -
  let ?p = "wire_of (ToolResult_WirePayload r)"
  have t: "eventType ?p = ''summary''" using assms(1) by (subst wire_eventType) simp_all
  have p: "mget ?p ''exit_code'' = Some (JNum (of_int (trExitCode r)))"
    "mget ?p ''metric'' = (if trSummary r = [] then None else Some (JObj (trSummary r)))"
    "mget ?p ''hops'' = (if trHops r = [] then None else Some (JArr (map enc_HopResult (trHops r))))"
    "mget ?p ''records'' = (if trRecords r = [] then None else Some (JArr (map enc_DNSRecord (sort (trRecords r)))))"
    by (simp_all add: wire_of_def ToolResult_WirePayload_def ToolResult_eventPayload_def sortedDNSRecords_def)
  have l: "sort (trRecords r) \<noteq> []" if "trRecords r \<noteq> []" using that by (metis length_sort length_0_conv)
  show ?thesis using assms(1,2,3) l
    by (simp add: jobEventFromWire_def summaryEventFromWire_def p t intFromPayload_def metricMapFromPayload_def
        typOrDefault_def hopsFromPayload_def recordsFromPayload_def)
qed

end
