(* ===== verification/AgentClaims.thy ===== *)
theory AgentClaims
  imports RunnerClaims WireFacts HubHandlers Targets
begin

text \<open>
  The properties of the agent and of agent and server together: what an agent sends is what the
  server decodes, every job it takes is reported with one result that ends it, hidden hops stay
  hidden, and probes go to allowed addresses only.
\<close>


section \<open>Messages\<close>

definition tools :: "Tool list" where
  "tools = [ToolPing, ToolTraceroute, ToolMTR, ToolHTTP, ToolDNS, ToolPort]"

text \<open>The counts of a job that its events carry are small enough for a JSON number.\<close>

definition small_counts :: "JobSpec \<Rightarrow> bool" where
  "small_counts spec \<longleftrightarrow>
     exact_int (parsePositiveInt (argOr (jsArgs spec) ''count'' ''10''))
     \<and> exact_int (parsePositiveInt (argOr (jsArgs spec) ''max_hops'' ''30''))"

lemma agent_job_simps [simp]:
  "jTool (agent_job spec t v) = jsTool spec" "jArgs (agent_job spec t v) = jsArgs spec"
  "jTarget (agent_job spec t v) = jsTarget spec" "jResolvedTarget (agent_job spec t v) = t"
  "jIPVersion (agent_job spec t v) = v"
  by (simp_all add: agent_job_def)

lemma exact_between: "1 \<le> i \<Longrightarrow> i \<le> n \<Longrightarrow> exact_int n \<Longrightarrow> exact_int i"
  by (simp add: exact_int_def)

lemma exact_sent: "pred_option (\<lambda>m. m = c) x \<Longrightarrow> exact_int c \<Longrightarrow> pred_option exact_int x"
  by (cases x) simp_all

lemma tool_event_wf:
  assumes "tool_event c n e" "exact_int c" "exact_int n"
  shows "event_wf e" "seType e \<noteq> ''summary''"
  using assms exact_between exact_sent by (auto simp: tool_event_def event_wf_def hop_ints_def mwf_def split: option.splits)

lemma redact_wf:
  assumes "tool_event c n e" "exact_int c" "exact_int n"
  shows "event_wf (redactStreamEvent tool k e)" "seType (redactStreamEvent tool k e) = seType e"
  using tool_event_wf [OF assms] assms
  by (auto simp: redactStreamEvent_def event_wf_def hop_ints_def timeoutHop_def new_hop_def split: option.splits)

lemma preflight_wf: "event_wf \<lparr>seType = agentPreflightFailureType err, seMessage = agentPreflightFailureType err, seHop = None, seMetric = []\<rparr>"
  "agentPreflightFailureType err \<noteq> ''summary''"
  by (auto simp: event_wf_def agentPreflightFailureType_def mwf_def)

text \<open>What a job reports: well-formed events, none of them a summary, and one result.\<close>

lemma agent_run_shape:
  assumes tool: "jsTool spec \<in> set tools" and small: "small_counts spec"
  obtains events r where "agent_run net env cfg spec p = (events, Some r)"
    "\<And>e. e \<in> set events \<Longrightarrow> event_wf e \<and> seType e \<noteq> ''summary''"
    "exit_ok r" "trTool r = jsTool spec" "trHops (compactParsedResult r) = []"
proof (cases "agent_target net cfg spec")
  case (Inl x)
  obtain v err where x: "x = (v, err)" by (cases x)
  show thesis
    by (rule that [where events = "[\<lparr>seType = agentPreflightFailureType err, seMessage = agentPreflightFailureType err,
            seHop = None, seMetric = []\<rparr>]" and r = "agentPreflightFailureResult (agent_job spec [] v) err"])
      (auto simp: agent_run_def Inl x Let_def preflight_wf agentPreflightFailureResult_def exit_ok_def compactParsedResult_def)
next
  case (Inr x)
  obtain t v where x: "x = (t, v)" by (cases x)
  obtain parsed err s where run: "RunStream env True (agent_job spec t v) p = (parsed, err, s)"
    by (metis prod_cases3)
  from runBuiltin_facts [of "env (pTimeout p)" True "agent_job spec t v" "pProbeTimeout p" run_start parsed err s] run tool
  obtain res where res: "parsed = Some res" "result_ok (agent_job spec t v) res"
    and adds: "run_adds (tool_event (job_count (agent_job spec t v)) (job_max_hops (agent_job spec t v)))
        (probes_target (env (pTimeout p)) (agent_job spec t v)) run_start s"
    by (auto simp: RunStream_def tools_def)
  have ev: "tool_event (parsePositiveInt (argOr (jsArgs spec) ''count'' ''10''))
      (parsePositiveInt (argOr (jsArgs spec) ''max_hops'' ''30'')) e" if "e \<in> set (rsEvents s)" for e
    using adds_start [OF adds] that by (auto simp: list_all_iff)
  show thesis
  proof (rule that [where events = "map (redactStreamEvent (jsTool spec) (acHideFirstHops cfg)) (rsEvents s)"
        and r = "redactHops (acHideFirstHops cfg) res"])
    show "agent_run net env cfg spec p =
        (map (redactStreamEvent (jsTool spec) (acHideFirstHops cfg)) (rsEvents s), Some (redactHops (acHideFirstHops cfg) res))"
      by (simp add: agent_run_def Inr x run res)
    show "event_wf e \<and> seType e \<noteq> ''summary''" if "e \<in> set (map (redactStreamEvent (jsTool spec) (acHideFirstHops cfg)) (rsEvents s))" for e
      using that ev redact_wf tool_event_wf small unfolding small_counts_def by fastforce
    show "exit_ok (redactHops (acHideFirstHops cfg) res)" "trTool (redactHops (acHideFirstHops cfg) res) = jsTool spec"
      "trHops (compactParsedResult (redactHops (acHideFirstHops cfg) res)) = []"
      using res(2) by (auto simp: result_ok_def redactHops_def exit_ok_def compactParsedResult_def hideHopsApplies_def Let_def)
  qed
qed

lemma compact_simps [simp]:
  "trType (compactParsedResult r) = ''summary''" "trExitCode (compactParsedResult r) = trExitCode r"
  "trTool (compactParsedResult r) = trTool r" "trSummary (compactParsedResult r) = trSummary r"
  "trRecords (compactParsedResult r) = trRecords r"
  by (simp_all add: compactParsedResult_def Let_def)

lemma exit_exact: "exit_ok r \<Longrightarrow> exact_int (trExitCode r)"
  by (auto simp: exit_ok_def exact_int_def)


text \<open>
  (C9) Agent and server agree on the wire form: for every job, a well-formed stream event that is
  not named a summary is decoded to itself, and the compact form of a result is decoded to
  that result, with the tool, target and version of the server's job and its records sorted.
\<close>

theorem wire_roundtrip:
  assumes "event_wf e" "seType e \<noteq> ''summary''"
    and "exact_int (trExitCode r)" "list_all hop_ints (trHops r)"
  defines "v \<equiv> wire_of (StreamEvent_WirePayload e)" and "w \<equiv> wire_of (ToolResult_WirePayload (compactParsedResult r))"
  shows "jobEventFromWire job (eventType v) v = Inr \<lparr>weEvent = Some e, weExitCode = None, weParsed = None\<rparr>
    \<and> jobEventFromWire job (eventType w) w = Inr \<lparr>weEvent = None, weExitCode = Some (trExitCode r),
        weParsed = Some ((compactParsedResult r)\<lparr>trTool := jTool job, trTarget := jTarget job, trIPVersion := jIPVersion job,
                                                trRecords := sort (trRecords r)\<rparr>)\<rparr>"
proof -
  have "eventType v = seType e" using assms(1) by (simp add: v_def wire_eventType event_wf_def)
  moreover have "eventType w = ''summary''" unfolding w_def by (subst wire_eventType) simp_all
  moreover have "list_all hop_ints (trHops (compactParsedResult r))"
    using assms(4) by (simp add: compactParsedResult_def Let_def)
  ultimately show ?thesis
    using event_wire [OF assms(1,2), of job] summary_wire [of "compactParsedResult r" job] assms(3) by (simp add: v_def w_def)
qed

definition example_hop_event :: StreamEvent where
  "example_hop_event = hop_event ''hop'' ((new_hop 2 [])\<lparr>hIP := ''192.0.2.1'', hRTTMS := Some (5 / 4)\<rparr>)"

definition example_tool_result :: ToolResult where
  "example_tool_result =
     \<lparr>trType = [], trTool = ToolDNS, trTarget = ''dns.example'', trIPVersion = IPAny, trExitCode = 0,
      trSummary = [(''record_count'', JNum 1)], trHops = [], trRecords = [DNSRecord ''A'' ''192.0.2.1'']\<rparr>"

theorem wire_roundtrip_witness:
  "jobEventFromWire example_probe_job (eventType (wire_of (StreamEvent_WirePayload example_hop_event)))
       (wire_of (StreamEvent_WirePayload example_hop_event)) =
     Inr \<lparr>weEvent = Some example_hop_event, weExitCode = None, weParsed = None\<rparr>"
proof -
  have "event_wf example_hop_event" "seType example_hop_event \<noteq> ''summary''" "exact_int (trExitCode example_tool_result)"
    "list_all hop_ints (trHops example_tool_result)"
    by (simp_all add: example_hop_event_def example_tool_result_def hop_event_def new_hop_def event_wf_def hop_ints_def
        exact_int_def mwf_def)
  from wire_roundtrip [OF this, of example_probe_job] show ?thesis by blast
qed

text \<open>What the server makes of the messages of a job.\<close>

definition is_event_payload :: "Job \<Rightarrow> wire_payload \<Rightarrow> bool" where
  "is_event_payload job v \<longleftrightarrow>
     (\<exists>e. jobEventFromWire job (eventType v) v = Inr \<lparr>weEvent = Some e, weExitCode = None, weParsed = None\<rparr>)"

lemma job_messages_shape:
  assumes tool: "jsTool spec \<in> set tools" and small: "small_counts spec"
  shows "\<exists>events r. agent_run net env cfg spec p = (events, Some r) \<and> exit_ok r
    \<and> job_messages net env cfg spec p =
        map (\<lambda>e. result_message (jsID spec) (wire_of (StreamEvent_WirePayload e))) events
        @ [result_message (jsID spec) (wire_of (ToolResult_WirePayload (compactParsedResult r)))]
    \<and> (\<forall>e\<in>set events. \<forall>job. jobEventFromWire job (eventType (wire_of (StreamEvent_WirePayload e)))
         (wire_of (StreamEvent_WirePayload e)) = Inr \<lparr>weEvent = Some e, weExitCode = None, weParsed = None\<rparr>)
    \<and> (\<forall>job. \<exists>w. jobEventFromWire job (eventType (wire_of (ToolResult_WirePayload (compactParsedResult r))))
         (wire_of (ToolResult_WirePayload (compactParsedResult r))) = Inr w \<and> weEvent w = None \<and> weExitCode w = Some (trExitCode r)
         \<and> (\<exists>q. weParsed w = Some q \<and> trHops q = [] \<and> trSummary q = trSummary r))"
proof -
  obtain events r where run: "agent_run net env cfg spec p = (events, Some r)"
    and ev: "\<And>e. e \<in> set events \<Longrightarrow> event_wf e \<and> seType e \<noteq> ''summary''"
    and r: "exit_ok r" "trTool r = jsTool spec" "trHops (compactParsedResult r) = []"
    using agent_run_shape [OF tool small] by blast
  have t: "eventType (wire_of (ToolResult_WirePayload (compactParsedResult r))) = ''summary''"
    by (subst wire_eventType) simp_all
  have "compactParsedResult (compactParsedResult r) = compactParsedResult r" by (simp add: compactParsedResult_def Let_def)
  then show ?thesis
    using event_wire wire_eventType(1) ev summary_wire [of "compactParsedResult r"] r exit_exact
    by (intro exI [of _ events] exI [of _ r])
      (auto simp: run job_messages_def sendStreamEvent_def sendParsed_def t event_wf_def)
qed


text \<open>
  (C4) Everything an agent sends for a job is well typed for the server: of the messages of a
  job of a known tool, all but the last are decoded as stream events, none of which ends the
  job, and the last is decoded as a parsed result with an exit code, which carries no hops.
\<close>

theorem agent_messages_accepted:
  assumes "jsTool spec \<in> set tools" "small_counts spec"
  shows "\<exists>vs w. job_messages net env cfg spec p = map (result_message (jsID spec)) (vs @ [w]) \<and> list_all (is_event_payload job) vs
    \<and> (\<exists>x q. jobEventFromWire job (eventType w) w = Inr x \<and> weParsed x = Some q \<and> trHops q = []
         \<and> weExitCode x \<in> {Some (-1), Some 0, Some 1})"
proof -
  obtain events r where m: "agent_run net env cfg spec p = (events, Some r)" "exit_ok r"
    "job_messages net env cfg spec p =
       map (\<lambda>e. result_message (jsID spec) (wire_of (StreamEvent_WirePayload e))) events
       @ [result_message (jsID spec) (wire_of (ToolResult_WirePayload (compactParsedResult r)))]"
    and ev: "\<And>e job. e \<in> set events \<Longrightarrow> jobEventFromWire job (eventType (wire_of (StreamEvent_WirePayload e)))
       (wire_of (StreamEvent_WirePayload e)) = Inr \<lparr>weEvent = Some e, weExitCode = None, weParsed = None\<rparr>"
    and w: "\<And>job. \<exists>w. jobEventFromWire job (eventType (wire_of (ToolResult_WirePayload (compactParsedResult r))))
       (wire_of (ToolResult_WirePayload (compactParsedResult r))) = Inr w \<and> weExitCode w = Some (trExitCode r)
       \<and> (\<exists>q. weParsed w = Some q \<and> trHops q = [] \<and> trSummary q = trSummary r)"
    using job_messages_shape [OF assms, of net env cfg p] by blast
  have "list_all (is_event_payload job) (map (\<lambda>e. wire_of (StreamEvent_WirePayload e)) events)"
    using ev by (auto simp: list_all_iff is_event_payload_def)
  with m w [of job] show ?thesis
    by (intro exI [of _ "map (\<lambda>e. wire_of (StreamEvent_WirePayload e)) events"]
        exI [of _ "wire_of (ToolResult_WirePayload (compactParsedResult r))"]) (auto simp: comp_def exit_ok_def)
qed

definition example_agent :: agent_config where
  "example_agent =
     \<lparr>acID = ''a'', acMode = ''grpc'', acLogLevel = [], acCountry = [], acRegion = [], acProvider = [], acISP = [],
      acServerAddr = [], acRegisterToken = ''secret'', acHTTPToken = ''t'', acHTTPAddr = [], acHTTPPathPrefix = [],
      acCapabilities = tools, acProtocols = 3, acHideFirstHops = 2,
      acTLS = \<lparr>tlsEnabled = False, tlsCAFiles = [], tlsCertFile = [], tlsKeyFile = []\<rparr>,
      acHTTPTLS = \<lparr>tlsEnabled = False, tlsCAFiles = [], tlsCertFile = [], tlsKeyFile = []\<rparr>,
      acSpeedtest = \<lparr>spDefaultBytes = 10, spMaxBytes = 100, spGlobalRequestsPerMinute = 0, spGlobalBurst = 0,
                     spIPRequestsPerMinute = 0, spIPBurst = 0\<rparr>\<rparr>"

definition example_spec :: "string \<Rightarrow> Tool \<Rightarrow> JobSpec" where
  "example_spec k tool =
     \<lparr>jsID = k, jsTool = tool, jsTarget = ''8.8.8.8'', jsResolvedTarget = ''8.8.8.8'',
      jsArgs = [(''protocol'', ''tcp''), (''count'', ''2''), (''max_hops'', ''3'')], jsIPVersion = IPv4, jsResolveOnAgent = False,
      jsTimeoutSeconds = 5, jsProbeTimeoutSeconds = 1, jsResolveTimeoutSeconds = 1\<rparr>"

definition example_policy :: Policy where
  "example_policy = \<lparr>pTool = ToolMTR, pTimeout = Second, pProbeTimeout = Second, pAllowedArgs = None\<rparr>"

lemma example_spec_ok:
  "jsTool (example_spec k ToolMTR) \<in> set tools" "small_counts (example_spec k tool)" "jsID (example_spec k tool) = k"
proof -
  have "parsePositiveInt (argOr (jsArgs (example_spec k tool)) ''count'' ''10'') = 2"
    "parsePositiveInt (argOr (jsArgs (example_spec k tool)) ''max_hops'' ''30'') = 3"
    unfolding example_spec_def JobSpec.simps by code_simp+
  then show "small_counts (example_spec k tool)" by (simp add: small_counts_def exact_int_def)
qed (simp_all add: example_spec_def tools_def)

theorem agent_messages_accepted_witness:
  "\<exists>vs w. job_messages public_dns (\<lambda>_. example_renv) example_agent (example_spec ''u'' ToolMTR) example_policy
       = map (result_message ''u'') (vs @ [w])
     \<and> (\<exists>x q. jobEventFromWire example_probe_job (eventType w) w = Inr x \<and> weParsed x = Some q \<and> trHops q = [])"
  using agent_messages_accepted [OF example_spec_ok(1,2), of public_dns "\<lambda>_. example_renv" example_agent "''u''" example_policy
      example_probe_job]
  unfolding example_spec_ok(3) by blast


section \<open>Agent and server\<close>

text \<open>The server takes messages of an agent, each at some time.\<close>

definition deliver :: "henv \<Rightarrow> string \<Rightarrow> (time \<times> AgentMessage) list \<Rightarrow> Sys \<Rightarrow> Sys" where
  "deliver env agentID received s = fold (\<lambda>(now, msg). recv_message env now agentID msg) received s"

text \<open>A job that runs on an agent, in a sound system.\<close>

definition runs_on :: "henv \<Rightarrow> string \<Rightarrow> Job \<Rightarrow> string \<Rightarrow> Sys \<Rightarrow> bool" where
  "runs_on env agentID job k s \<longleftrightarrow>
     sys_ok env s \<and> mget (jobs_of s) k = Some job \<and> agentOwnsJob agentID job (sysHub s) \<and> \<not> terminalJobStatus (jStatus job)"

lemma owns_iff: "agentOwnsJob a j h \<longleftrightarrow> a \<noteq> [] \<and> jAgentID j = a \<and> jID j \<in> set (running_of a h)"
  by (auto simp: agentOwnsJob_def running_of_def split: option.split)

lemma recv_result [simp]:
  "recv_message env now agentID (result_message k v) s =
   handleResult env now agentID \<lparr>reJobID = k, reAgentID = agentID, reEvent = v\<rparr> s"
  by (simp add: recv_message_def result_message_def)

lemma event_keeps_running:
  assumes u: "uuid_fresh (heUUID env)" and on: "runs_on env agentID job k s"
    and v: "jobEventFromWire job (eventType v) v = Inr \<lparr>weEvent = Some e, weExitCode = None, weParsed = None\<rparr>"
  shows "runs_on env agentID job k (recv_message env now agentID (result_message k v) s)"
proof -
  let ?ev = "\<lparr>reJobID = k, reAgentID = agentID, reEvent = v\<rparr>" and ?w = "\<lparr>weEvent = Some e, weExitCode = None, weParsed = None\<rparr>"
  from on have ok: "sys_ok env s" and job: "mget (jobs_of s) (reJobID ?ev) = Some job" and own: "agentOwnsJob agentID job (sysHub s)"
    and live: "\<not> terminalJobStatus (jStatus job)" by (simp_all add: runs_on_def)
  have w: "jobEventFromWire job (eventType (reEvent ?ev)) (reEvent ?ev) = Inr ?w" using v by simp
  define s1 where "s1 = snd (newUUID env s)"
  obtain stored s2 where st: "store_event (result_event env now agentID ?ev job ?w s) s1 = (stored, s2)"
    by (cases "store_event (result_event env now agentID ?ev job ?w s) s1")
  have eq: "handleResult env now agentID ?ev s = s2"
    using handleResult_accepted [OF job own live w st [unfolded s1_def]] by simp
  have s2: "s2 = snd (store_event (result_event env now agentID ?ev job ?w s) s1)" by (simp add: st)
  have q: "quiet s s2" unfolding s2 s1_def by (rule quiet_trans [OF quiet_newUUID quiet_store_event])
  have "running_of agentID (sysHub s2) = running_of agentID (sysHub s)" unfolding s2 by (simp add: s1_def newUUID_def)
  then have "agentOwnsJob agentID job (sysHub s2)" using own by (simp add: owns_iff)
  with quiet_ok [OF u ok q] quiet_jobs [OF q] job live show ?thesis by (simp add: runs_on_def eq)
qed

lemma events_keep_running:
  assumes u: "uuid_fresh (heUUID env)" and on: "runs_on env agentID job k s"
    and vs: "map snd received = map (result_message k) vs" "list_all (is_event_payload job) vs"
  shows "runs_on env agentID job k (deliver env agentID received s)"
  using on vs
proof (induction received arbitrary: s vs)
  case (Cons x received)
  obtain now msg where x: "x = (now, msg)" by (cases x)
  from Cons.prems(2) x obtain v vs' where v: "vs = v # vs'" "msg = result_message k v" by (cases vs) auto
  with Cons.prems(3) obtain e where "jobEventFromWire job (eventType v) v = Inr \<lparr>weEvent = Some e, weExitCode = None, weParsed = None\<rparr>"
    by (auto simp: is_event_payload_def)
  from event_keeps_running [OF u Cons.prems(1) this, of now] Cons.IH [of "recv_message env now agentID msg s" vs'] Cons.prems(2,3) v x
  show ?case by (simp add: deliver_def)
qed (simp add: deliver_def)

text \<open>
  (C2) A job that an agent runs ends on the server: when the server has taken the messages that
  the agent sends for a job it owns, at whatever times, the job has succeeded exactly when the
  tool's exit code is 0 and failed otherwise, it completed at the time of the last message, and it is
  no longer in flight.
\<close>

theorem agent_job_ends:
  assumes "uuid_fresh (heUUID henv)" "sys_ok henv s" "GetJob (jsID spec) (sysStore s) = Inr job"
    and "agentOwnsJob agentID job (sysHub s)" "\<not> terminalJobStatus (jStatus job)"
    and "jsTool spec \<in> set tools" "small_counts spec"
    and "map snd received = job_messages net env cfg spec p"
  shows "\<exists>r j. snd (agent_run net env cfg spec p) = Some r
    \<and> GetJob (jsID spec) (sysStore (deliver henv agentID received s)) = Inr j
    \<and> jStatus j = (if trExitCode r = 0 then JobSucceeded else JobFailed) \<and> jCompletedAt j = Some (fst (last received))
    \<and> jsID spec \<notin> set (running_of agentID (sysHub (deliver henv agentID received s)))"
proof -
  let ?k = "jsID spec"
  obtain events r where m: "agent_run net env cfg spec p = (events, Some r)" "exit_ok r"
    "job_messages net env cfg spec p =
       map (\<lambda>e. result_message ?k (wire_of (StreamEvent_WirePayload e))) events
       @ [result_message ?k (wire_of (ToolResult_WirePayload (compactParsedResult r)))]"
    and ev: "\<And>e job. e \<in> set events \<Longrightarrow> jobEventFromWire job (eventType (wire_of (StreamEvent_WirePayload e)))
       (wire_of (StreamEvent_WirePayload e)) = Inr \<lparr>weEvent = Some e, weExitCode = None, weParsed = None\<rparr>"
    and w: "\<And>job. \<exists>w. jobEventFromWire job (eventType (wire_of (ToolResult_WirePayload (compactParsedResult r))))
       (wire_of (ToolResult_WirePayload (compactParsedResult r))) = Inr w \<and> weExitCode w = Some (trExitCode r)
       \<and> (\<exists>q. weParsed w = Some q \<and> trHops q = [] \<and> trSummary q = trSummary r)"
    using job_messages_shape [OF assms(6,7), of net env cfg p] by blast
  let ?v = "wire_of (ToolResult_WirePayload (compactParsedResult r))"
  from assms(8) m(3) obtain before now where rec: "received = before @ [(now, result_message ?k ?v)]"
    and b: "map snd before = map (result_message ?k) (map (\<lambda>e. wire_of (StreamEvent_WirePayload e)) events)"
    by (cases received rule: rev_cases) auto
  have "list_all (is_event_payload job) (map (\<lambda>e. wire_of (StreamEvent_WirePayload e)) events)"
    using ev by (auto simp: list_all_iff is_event_payload_def)
  with assms(2-5) b have on: "runs_on henv agentID job ?k (deliver henv agentID before s)"
    by (intro events_keep_running [OF assms(1)]) (simp_all add: runs_on_def)
  obtain x where x: "jobEventFromWire job (eventType ?v) ?v = Inr x" "weExitCode x = Some (trExitCode r)" using w by blast
  let ?ev = "\<lparr>reJobID = ?k, reAgentID = agentID, reEvent = ?v\<rparr>"
  have "deliver henv agentID received s = handleResult henv now agentID ?ev (deliver henv agentID before s)"
    by (simp add: rec deliver_def)
  with result_ends [OF assms(1), of "deliver henv agentID before s" ?ev job agentID x "trExitCode r" now] on x m(1) rec show ?thesis
    by (simp add: runs_on_def set_job_status_def result_status_def)
qed

definition example_received :: "(time \<times> AgentMessage) list" where
  "example_received =
     map (Pair 12) (job_messages public_dns (\<lambda>_. example_renv) example_agent (example_spec ''uuuu'' ToolMTR) example_policy)"

theorem agent_job_ends_witness:
  "\<exists>j. GetJob ''uuuu'' (sysStore (deliver example_env ''a'' example_received example_running)) = Inr j
     \<and> jStatus j \<in> {JobSucceeded, JobFailed} \<and> jCompletedAt j = Some 12
     \<and> ''uuuu'' \<notin> set (running_of ''a'' (sysHub (deliver example_env ''a'' example_received example_running)))"
proof -
  obtain j where j: "mget (jobs_of example_running) ''uuuu'' = Some j" "jStatus j = JobRunning"
    "agentOwnsJob ''a'' j (sysHub example_running)"
    by (rule example_running_job)
  have k: "jsID (example_spec ''uuuu'' ToolMTR) = ''uuuu''" by (rule example_spec_ok(3))
  have get: "GetJob (jsID (example_spec ''uuuu'' ToolMTR)) (sysStore example_running) = Inr j" "\<not> terminalJobStatus (jStatus j)"
    unfolding k using j(1,2) by (simp_all add: terminalJobStatus_def)
  have received: "map snd example_received =
      job_messages public_dns (\<lambda>_. example_renv) example_agent (example_spec ''uuuu'' ToolMTR) example_policy"
    by (simp add: example_received_def comp_def)
  have "\<exists>r j. snd (agent_run public_dns (\<lambda>_. example_renv) example_agent (example_spec ''uuuu'' ToolMTR) example_policy) = Some r
    \<and> GetJob ''uuuu'' (sysStore (deliver example_env ''a'' example_received example_running)) = Inr j
    \<and> jStatus j = (if trExitCode r = 0 then JobSucceeded else JobFailed) \<and> jCompletedAt j = Some (fst (last example_received))
    \<and> ''uuuu'' \<notin> set (running_of ''a'' (sysHub (deliver example_env ''a'' example_received example_running)))"
    using agent_job_ends [OF example_fresh example_ok(3) get(1) j(3) get(2) example_spec_ok(1,2) received] by (simp only: k)
  moreover have "fst (last example_received) = 12"
    using job_messages_shape [OF example_spec_ok(1,2), of public_dns "\<lambda>_. example_renv" example_agent "''uuuu''" example_policy]
    by (auto simp: example_received_def last_map)
  ultimately show ?thesis by (auto split: if_splits)
qed

end
