(* ===== verification/AgentSafety.thy ===== *)
theory AgentSafety
  imports AgentClaims
begin

text \<open>
  What an agent keeps to whatever the server asks for: it probes allowed addresses of the
  protocols it supports only, it does not report the hops it hides, and its HTTP interface serves
  callers with its token only.
\<close>

unbundle bit_operations_syntax


section \<open>Targets\<close>

definition agent_supports :: "agent_config \<Rightarrow> IPVersion \<Rightarrow> bool" where
  "agent_supports cfg v \<longleftrightarrow> normalizeAgentProtocols (acProtocols cfg) AND RequiredProtocol v \<noteq> 0"

lemma normalizeAgentProtocols_idem [simp]: "normalizeAgentProtocols (normalizeAgentProtocols p) = normalizeAgentProtocols p"
  by (simp add: normalizeAgentProtocols_def)

lemma ipVersion_cases: "ipVersion ip = IPv4 \<or> ipVersion ip = IPv6"
  by (simp add: ipVersion_def)

lemma ipVersion_protocol: "RequiredProtocol (ipVersion ip) \<noteq> 0"
  using ipVersion_cases [of ip] by (auto simp: RequiredProtocol_def ProtocolIPv4_def ProtocolIPv6_def)

lemma validateAgentProtocol_ip:
  "validateAgentProtocol (ipVersion ip) (normalizeAgentProtocols (acProtocols cfg)) = Inr () \<longleftrightarrow> agent_supports cfg (ipVersion ip)"
  by (simp add: validateAgentProtocol_def ipVersion_protocol agent_supports_def)

lemma check_ip_Inr:
  "check_ip ip version = Inr () \<longleftrightarrow>
     (version = IPv4 \<longrightarrow> ipVersion ip = IPv4) \<and> (version = IPv6 \<longrightarrow> ipVersion ip = IPv6) \<and> \<not> refused_ip ip"
  using check_ip_iff [of ip version] by (simp add: unit_is_ok)

lemma resolve_candidates_allowed:
  "resolve_candidates net tool target runtime (normalizeAgentProtocols (acProtocols cfg)) e cs = Inr (t, v) \<Longrightarrow>
   \<exists>ip. t = IP_String ip \<and> v = ipVersion ip \<and> \<not> refused_ip ip \<and> agent_supports cfg v"
proof (induction cs arbitrary: e)
  case (Cons c cs)
  then show ?case
    by (auto simp: validateAgentProtocol_ip split: sum.splits prod.splits dest!: resolved_allowed)
qed simp

lemma check_resolved_allowed:
  assumes "check_resolved t0 version (normalizeAgentProtocols (acProtocols cfg)) = Inr (t, v)"
    and "version \<in> {IPAny, IPv4, IPv6}"
  shows "\<exists>ip. ParseIP t = Some ip \<and> v = ipVersion ip \<and> \<not> refused_ip ip \<and> agent_supports cfg v"
proof -
  from assms(1) obtain ip where ip: "ParseIP t0 = Some ip" "check_ip ip version = Inr ()"
    by (auto simp: check_resolved_def ValidateResolvedIP_def split: option.splits sum.splits)
  then have v: "(if version = IPAny then if To4 ip \<noteq> None then IPv4 else IPv6 else version) = ipVersion ip"
    using assms(2) by (auto simp: check_ip_Inr ipVersion_def)
  have "check_resolved t0 version (normalizeAgentProtocols (acProtocols cfg)) =
      (case validateAgentProtocol (ipVersion ip) (normalizeAgentProtocols (acProtocols cfg)) of
         Inl e \<Rightarrow> Inl (ipVersion ip, e) | Inr _ \<Rightarrow> Inr (t0, ipVersion ip))"
    by (simp only: check_resolved_def ValidateResolvedIP_def ip option.case sum.case v Let_def)
  with assms(1) ip show ?thesis by (auto simp: validateAgentProtocol_ip check_ip_Inr split: sum.splits)
qed

text \<open>The agent knows the address of a job: it resolves it, it is given, or it is the target.\<close>

definition address_known :: "JobSpec \<Rightarrow> bool" where
  "address_known spec \<longleftrightarrow>
     jsResolveOnAgent spec \<or> jsResolvedTarget spec \<noteq> [] \<or> jsTool spec \<noteq> ToolHTTP \<and> ParseIP (jsTarget spec) \<noteq> None"

lemma agent_target_allowed:
  assumes "agent_target net cfg spec = Inr (t, v)" "jsIPVersion spec \<in> {IPAny, IPv4, IPv6}" "address_known spec"
  shows "\<exists>ip. ParseIP (executionTarget (agent_job spec t v)) = Some ip \<and> v = ipVersion ip \<and> \<not> refused_ip ip
    \<and> agent_supports cfg v \<and> (t = [] \<longrightarrow> jsTool spec \<noteq> ToolHTTP)"
proof (cases "jsResolveOnAgent spec \<or> jsResolvedTarget spec \<noteq> []")
  case True
  have "ParseIP [] = None" by code_simp
  moreover have "\<exists>ip. ParseIP t = Some ip \<and> v = ipVersion ip \<and> \<not> refused_ip ip \<and> agent_supports cfg v"
    using True assms(1,2) resolve_candidates_allowed check_resolved_allowed
    by (fastforce simp: agent_target_def resolveAgentTarget_def resolve_on_agent_def Let_def
        split: sum.splits option.splits if_splits)
  ultimately show ?thesis by (auto simp: executionTarget_def)
next
  case False
  with assms(3) obtain ip where ip: "ParseIP (jsTarget spec) = Some ip" "jsTool spec \<noteq> ToolHTTP"
    by (auto simp: address_known_def)
  with False assms(1) have "t = []" "v = ipVersion ip" "check_ip ip (jsIPVersion spec) = Inr ()" "agent_supports cfg v"
    by (auto simp: agent_target_def resolveAgentTarget_def check_unresolved_def LiteralIPVersion_def ValidateLiteralTarget_def
        targetHost_def Let_def validateAgentProtocol_ip split: sum.splits)
  with ip show ?thesis by (auto simp: executionTarget_def check_ip_Inr)
qed

text \<open>
  (C6) An agent probes allowed addresses only. For every job whose address is known when it
  runs (the agent resolves it, the server gave it, or the target is a literal address), every
  probe the runner sends goes to one address outside the blocked ranges, with a protocol the
  agent supports, and an HTTP request dials that address and no other, whatever the URL names.
\<close>

theorem agent_probes_allowed:
  assumes "agent_target net cfg spec = Inr (t, v)" "jsIPVersion spec \<in> {IPAny, IPv4, IPv6}" "address_known spec"
    and "jsTool spec \<in> set tools" "RunStream env sink (agent_job spec t v) p = (r, err, s)"
  shows "\<exists>ip. \<not> refused_ip ip \<and> agent_supports cfg (ipVersion ip)
    \<and> (\<forall>q\<in>set (rsSent s). pqTarget q = ip \<and> pqVersion q = ipVersion ip)
    \<and> (jsTool spec = ToolHTTP \<longrightarrow>
        (\<forall>network address d a. http_dial (agent_job spec t v) network address = Inr (d, a) \<longrightarrow>
           (\<exists>port. ParseIP t = Some ip \<and> SplitPort address = Some port \<and> a = JoinHostPort t port)))"
proof -
  obtain ip where ip: "ParseIP (executionTarget (agent_job spec t v)) = Some ip" "v = ipVersion ip" "\<not> refused_ip ip"
    "agent_supports cfg v" "t = [] \<longrightarrow> jsTool spec \<noteq> ToolHTTP"
    using agent_target_allowed [OF assms(1-3)] by blast
  have "resolveOne e (executionTarget (agent_job spec t v)) w = Inr (ip, ipVersion ip)" for e w
    by (simp add: resolveOne_def ip(1) run_ipVersion_def ipVersion_def)
  moreover have "list_all (probes_target (env (pTimeout p)) (agent_job spec t v)) (rsSent s)"
    using runBuiltin_facts [of "env (pTimeout p)" sink "agent_job spec t v" "pProbeTimeout p" run_start r err s] assms(4,5)
    by (auto simp: RunStream_def tools_def dest!: adds_start)
  ultimately have "\<forall>q\<in>set (rsSent s). pqTarget q = ip \<and> pqVersion q = ipVersion ip"
    by (auto simp: list_all_iff probes_target_def)
  moreover have "\<exists>port. ParseIP t = Some ip \<and> SplitPort address = Some port \<and> a = JoinHostPort t port"
    if "jsTool spec = ToolHTTP" "http_dial (agent_job spec t v) network address = Inr (d, a)" for network address d a
    using that ip(1,5) by (auto simp: http_dial_def httpDialAddress_def executionTarget_def split: option.splits)
  ultimately show ?thesis using ip(2-4) by auto
qed

theorem agent_probes_allowed_witness:
  "\<exists>t v r err s ip. agent_target public_dns example_agent (example_spec ''u'' ToolMTR) = Inr (t, v)
     \<and> RunStream (\<lambda>_. example_renv) True (agent_job (example_spec ''u'' ToolMTR) t v) example_policy = (r, err, s)
     \<and> \<not> refused_ip ip \<and> (\<forall>q\<in>set (rsSent s). pqTarget q = ip)"
proof -
  let ?spec = "example_spec ''u'' ToolMTR"
  have ip: "ParseIP ''8.8.8.8'' = Some 0xffff08080808" by code_simp
  have t: "To4 (0xffff08080808 :: netIP) = Some 0x08080808" by code_simp
  have "\<not> refused_ip 0xffff08080808" by (simp add: refused_ip_def t in_ranges_def blocked_v4_def)
  moreover have "ipVersion 0xffff08080808 = IPv4" by (simp add: ipVersion_def t)
  ultimately have "check_ip 0xffff08080808 IPv4 = Inr ()" by (simp add: check_ip_Inr)
  moreover have "validateAgentProtocol IPv4 (normalizeAgentProtocols 3) = Inr ()" by code_simp
  ultimately have tgt: "agent_target public_dns example_agent ?spec = Inr (''8.8.8.8'', IPv4)"
    by (simp add: agent_target_def resolveAgentTarget_def check_resolved_def ValidateResolvedIP_def ip example_spec_def
        example_agent_def Let_def)
  obtain r err s where run: "RunStream (\<lambda>_. example_renv) True (agent_job ?spec ''8.8.8.8'' IPv4) example_policy = (r, err, s)"
    by (metis prod_cases3)
  have "jsIPVersion ?spec \<in> {IPAny, IPv4, IPv6}" "address_known ?spec"
    by (simp_all add: example_spec_def address_known_def)
  from agent_probes_allowed [OF tgt this example_spec_ok(1) run] tgt run show ?thesis by blast
qed

section \<open>Hidden hops\<close>

lemma redacted_hop:
  assumes "tool_event c n e" "seHop (redactStreamEvent tool k e) = Some h" "hideHopsApplies tool" "hIndex h \<le> k"
  shows "h = timeoutHop (hIndex h)"
  using assms by (auto simp: redactStreamEvent_def tool_event_def timeoutHop_def new_hop_def split: option.splits if_splits)

lemma agent_run_hidden:
  assumes "agent_run net env cfg spec p = (events, result)" "jsTool spec \<in> set tools" "hideHopsApplies (jsTool spec)"
    and "e \<in> set events" "seHop e = Some h" "hIndex h \<le> acHideFirstHops cfg"
  shows "h = timeoutHop (hIndex h)"
proof (cases "agent_target net cfg spec")
  case (Inl x)
  with assms show ?thesis by (auto simp: agent_run_def Let_def split: prod.splits)
next
  case (Inr x)
  obtain t v where x: "x = (t, v)" by (cases x)
  obtain parsed err s where run: "RunStream env True (agent_job spec t v) p = (parsed, err, s)" by (metis prod_cases3)
  from assms(1,4) Inr x run obtain e0 where e0: "e0 \<in> set (rsEvents s)" "e = redactStreamEvent (jsTool spec) (acHideFirstHops cfg) e0"
    by (auto simp: agent_run_def)
  have "list_all (tool_event (job_count (agent_job spec t v)) (job_max_hops (agent_job spec t v))) (rsEvents s)"
    using runBuiltin_facts [of "env (pTimeout p)" True "agent_job spec t v" "pProbeTimeout p" run_start parsed err s] assms(2) run
    by (auto simp: RunStream_def tools_def dest!: adds_start)
  with e0 assms(3,5,6) redacted_hop show ?thesis by (fastforce simp: list_all_iff)
qed

text \<open>
  (C26) Hidden hops are never reported. Of a traceroute or mtr job, whatever stream event the
  server decodes from the agent's messages, a hop of an index up to \<open>acHideFirstHops\<close> is the
  empty timed-out hop of that index, and the parsed result carries no hops at all.
\<close>

theorem hidden_hops_never_sent:
  assumes "jsTool spec \<in> {ToolTraceroute, ToolMTR}" "small_counts spec"
    and "msg \<in> set (job_messages net env cfg spec p)" "mgResult msg = Some report"
    and "jobEventFromWire job (eventType (reEvent report)) (reEvent report) = Inr w"
  shows "(\<forall>e h. weEvent w = Some e \<and> seHop e = Some h \<and> hIndex h \<le> acHideFirstHops cfg \<longrightarrow> h = timeoutHop (hIndex h))
    \<and> (\<forall>q. weParsed w = Some q \<longrightarrow> trHops q = [])"
proof -
  have tool: "jsTool spec \<in> set tools" "hideHopsApplies (jsTool spec)" using assms(1) by (auto simp: tools_def hideHopsApplies_def)
  obtain events r where m: "agent_run net env cfg spec p = (events, Some r)"
    "job_messages net env cfg spec p =
       map (\<lambda>e. result_message (jsID spec) (wire_of (StreamEvent_WirePayload e))) events
       @ [result_message (jsID spec) (wire_of (ToolResult_WirePayload (compactParsedResult r)))]"
    and ev: "\<And>e job. e \<in> set events \<Longrightarrow> jobEventFromWire job (eventType (wire_of (StreamEvent_WirePayload e)))
       (wire_of (StreamEvent_WirePayload e)) = Inr \<lparr>weEvent = Some e, weExitCode = None, weParsed = None\<rparr>"
    and res: "\<And>job. \<exists>w. jobEventFromWire job (eventType (wire_of (ToolResult_WirePayload (compactParsedResult r))))
       (wire_of (ToolResult_WirePayload (compactParsedResult r))) = Inr w \<and> weEvent w = None
       \<and> (\<exists>q. weParsed w = Some q \<and> trHops q = [])"
    using job_messages_shape [OF tool(1) assms(2), of net env cfg p] by blast
  from assms(3,4) m(2) consider e where "e \<in> set events" "reEvent report = wire_of (StreamEvent_WirePayload e)"
    | "reEvent report = wire_of (ToolResult_WirePayload (compactParsedResult r))"
    by (auto simp: result_message_def)
  then show ?thesis
  proof cases
    case 1
    with ev [OF 1(1), of job] assms(5) agent_run_hidden [OF m(1) tool 1(1)] show ?thesis by auto
  next
    case 2
    with res [of job] assms(5) show ?thesis by auto
  qed
qed

text \<open>The route of the example is three hops long; the first two are hidden.\<close>

theorem hidden_hops_never_sent_witness:
  "\<exists>msg report w. msg \<in> set (job_messages public_dns (\<lambda>_. example_renv) example_agent (example_spec ''u'' ToolMTR) example_policy)
     \<and> mgResult msg = Some report
     \<and> jobEventFromWire example_probe_job (eventType (reEvent report)) (reEvent report) = Inr w
     \<and> (\<exists>q. weParsed w = Some q \<and> trHops q = [])"
proof -
  let ?spec = "example_spec ''u'' ToolMTR"
  have tool: "jsTool ?spec \<in> {ToolTraceroute, ToolMTR}" by (simp add: example_spec_def)
  obtain ev w q where m: "result_message (jsID ?spec) ev
      \<in> set (job_messages public_dns (\<lambda>_. example_renv) example_agent ?spec example_policy)"
    "jobEventFromWire example_probe_job (eventType ev) ev = Inr w" "weParsed w = Some q"
    using job_messages_shape [OF example_spec_ok(1,2), of public_dns "\<lambda>_. example_renv" example_agent "''u''" example_policy]
    by (metis in_set_conv_decomp)
  have r: "mgResult (result_message (jsID ?spec) ev) = Some \<lparr>reJobID = jsID ?spec, reAgentID = [], reEvent = ev\<rparr>"
    by (simp add: result_message_def)
  have "jobEventFromWire example_probe_job (eventType (reEvent \<lparr>reJobID = jsID ?spec, reAgentID = [], reEvent = ev\<rparr>))
      (reEvent \<lparr>reJobID = jsID ?spec, reAgentID = [], reEvent = ev\<rparr>) = Inr w"
    using m(2) by simp
  from hidden_hops_never_sent [OF tool example_spec_ok(2) m(1) r this] m(1) r this m(3) show ?thesis by blast
qed


section \<open>The HTTP interface\<close>

lemma speedtest_bytes:
  "speedtest ops now cfg token r limiter = (AgentBytes n body, l) \<Longrightarrow>
   n \<le> spMaxBytes cfg \<and> (token \<noteq> [] \<longrightarrow> aqQuery r ''token'' = token)
   \<and> fst (AllowRequest ops now now now (speedtestClientIP (aqRemoteAddr r)) limiter)
   \<and> \<not> (\<exists>ls. AgentBytes n body = AgentLines ls)"
  by (auto simp: speedtest_def split: if_splits prod.splits bool.splits option.splits)

lemma speedtest_no_lines: "fst (speedtest ops now cfg token r limiter) \<noteq> AgentLines ls"
  by (auto simp: speedtest_def split: if_splits prod.splits bool.splits option.splits)

lemma invoke_auth_passes:
  "invoke_auth ops now cfg r limiter = (None, l) \<Longrightarrow> acHTTPToken cfg \<noteq> [] \<Longrightarrow>
   bearerToken (header_get (aqHeader r) ''Authorization'') = Some (acHTTPToken cfg)"
  by (auto simp: invoke_auth_def Let_def split: if_splits prod.splits bool.splits)

lemma invoke_auth_refuses: "invoke_auth ops now cfg r limiter = (Some reply, l) \<Longrightarrow> \<exists>c m. reply = AgentError c m"
  by (auto simp: invoke_auth_def Let_def split: if_splits prod.splits bool.splits)

lemma invoke_lines:
  assumes "invoke net env ops now cfg agentID r limiter = (AgentLines ls, l)" "acHTTPToken cfg \<noteq> []"
  shows "aqMethod r = ''POST'' \<and> bearerToken (header_get (aqHeader r) ''Authorization'') = Some (acHTTPToken cfg)
    \<and> (\<exists>spec. aqSpec r = Some spec \<and> is_ok (ValidateTrusted net DefaultPolicies (create_request agentID spec)))"
proof -
  obtain a l' where a: "invoke_auth ops now cfg r limiter = (a, l')" by (cases "invoke_auth ops now cfg r limiter")
  show ?thesis
  proof (cases a)
    case None
    with invoke_auth_passes [OF a [unfolded None] assms(2)] a assms(1) show ?thesis
      by (auto simp: invoke_def Let_def split: if_splits option.splits sum.splits)
  next
    case (Some reply)
    with invoke_auth_refuses [OF a [unfolded Some]] a assms(1) show ?thesis by (auto simp: invoke_def split: if_splits)
  qed
qed

lemma invoke_no_bytes: "fst (invoke net env ops now cfg agentID r limiter) \<noteq> AgentBytes n body"
proof -
  obtain a l' where a: "invoke_auth ops now cfg r limiter = (a, l')" by (cases "invoke_auth ops now cfg r limiter")
  with invoke_auth_refuses [of ops now cfg r limiter _ l'] show ?thesis
    by (cases a) (auto simp: invoke_def Let_def split: if_splits option.splits sum.splits prod.splits)
qed

text \<open>
  (C27) The HTTP agent works for holders of its token only. Once it has started, a request is
  answered with the events of a job only if it is a POST with the configured, non-blank bearer
  token whose job passes the agent's own default policies, and with a download only if the query
  has that token, the limiter admits the caller, and the download is at most the configured maximum.
\<close>

theorem http_agent_token:
  assumes "startHTTPAgentServer hostname cfg0 = Inr cfg"
    and "http_agent_handler net env ops now hostname cfg r limits = (reply, limits')"
  shows "TrimSpace (acHTTPToken cfg) \<noteq> [] \<and>
    (case reply of
       AgentLines ls \<Rightarrow> aqMethod r = ''POST'' \<and> bearerToken (header_get (aqHeader r) ''Authorization'') = Some (acHTTPToken cfg)
         \<and> (\<exists>spec. aqSpec r = Some spec \<and> is_ok (ValidateTrusted net DefaultPolicies (create_request (acID cfg) spec)))
     | AgentBytes n body \<Rightarrow> aqQuery r ''token'' = acHTTPToken cfg \<and> n \<le> spMaxBytes (acSpeedtest cfg)
         \<and> fst (AllowRequest ops now now now (speedtestClientIP (aqRemoteAddr r)) (alSpeedtest limits))
     | _ \<Rightarrow> True)"
proof -
  have token: "TrimSpace (acHTTPToken cfg) \<noteq> []" using assms(1) by (auto simp: startHTTPAgentServer_def split: if_splits)
  then have ne: "acHTTPToken cfg \<noteq> []" by auto
  have id: "defaultHTTPAgentID hostname (acID cfg) = acID cfg"
    using assms(1) by (auto simp: startHTTPAgentServer_def defaultHTTPAgentID_def split: if_splits option.splits)
  consider "reply = AgentNotFound" | a c p where "reply = AgentHealth a c p"
    | l where "speedtest ops now (acSpeedtest cfg) (acHTTPToken cfg) r (alSpeedtest limits) = (reply, l)"
    | l where "invoke net env ops now cfg (acID cfg) r (alInvoke limits) = (reply, l)"
    using assms(2) by (auto simp: http_agent_handler_def Let_def id split: if_splits prod.splits)
  then show ?thesis
  proof cases
    case (3 l)
    with speedtest_no_lines [of ops now "acSpeedtest cfg" "acHTTPToken cfg" r "alSpeedtest limits"]
      speedtest_bytes [of ops now "acSpeedtest cfg" "acHTTPToken cfg" r "alSpeedtest limits"] token ne
    show ?thesis by (cases reply) auto
  next
    case (4 l)
    with invoke_no_bytes [of net env ops now cfg "acID cfg" r "alInvoke limits"]
      invoke_lines [of net env ops now cfg "acID cfg" r "alInvoke limits"] token ne
    show ?thesis by (cases reply) auto
  qed (use token in auto)
qed

definition example_limits :: "int agent_limits" where
  "example_limits = \<lparr>alInvoke = example_limiter, alSpeedtest = example_limiter\<rparr>"

definition example_invoke :: agent_request where
  "example_invoke =
     \<lparr>aqMethod = ''POST'', aqPath = ''/invoke'', aqHeader = [(''Authorization'', [''Bearer t''])], aqRemoteAddr = ''192.0.2.9:1000'',
      aqQuery = (\<lambda>_. []), aqSpec = Some (example_spec ''u'' ToolMTR)\<rparr>"

lemma example_invoke_served:
  assumes "bearerToken (header_get (aqHeader example_invoke) ''Authorization'') = Some ''t''"
    and "is_ok (ValidateTrusted public_dns DefaultPolicies (create_request ''a'' (example_spec ''u'' ToolMTR)))"
  shows "\<exists>ls. http_agent_handler public_dns (\<lambda>_. example_renv) ops 0 None example_agent example_invoke limits = (AgentLines ls, limits)"
proof -
  have pre: "acHTTPPathPrefix example_agent = []" "acHTTPToken example_agent = ''t''"
    "defaultHTTPAgentID None (acID example_agent) = ''a''"
    by (simp_all add: example_agent_def defaultHTTPAgentID_def)
  have path: "HasPrefix ''/invoke'' ''/''" by code_simp
  from assms(2) obtain p where p: "ValidateTrusted public_dns DefaultPolicies (create_request ''a'' (example_spec ''u'' ToolMTR)) = Inr p"
    by (auto simp: is_ok_iff)
  have auth: "invoke_auth ops 0 example_agent example_invoke (alInvoke limits) = (None, alInvoke limits)"
    using assms(1) by (simp add: invoke_auth_def pre)
  show ?thesis
    by (auto simp: http_agent_handler_def pre path invoke_def auth p Let_def example_invoke_def [THEN arg_cong [where f = aqSpec]]
        example_invoke_def [THEN arg_cong [where f = aqMethod]] example_invoke_def [THEN arg_cong [where f = aqPath]]
        split: prod.splits)
qed

theorem http_agent_token_witness:
  "\<exists>ls. http_agent_handler public_dns (\<lambda>_. example_renv) counter_ops 0 None example_agent example_invoke example_limits
       = (AgentLines ls, example_limits)
     \<and> bearerToken (header_get (aqHeader example_invoke) ''Authorization'') = Some (acHTTPToken example_agent)"
proof -
  have "startHTTPAgentServer None example_agent = Inr example_agent"
    "bearerToken (header_get (aqHeader example_invoke) ''Authorization'') = Some ''t''"
    "is_ok (ValidateTrusted public_dns DefaultPolicies (create_request ''a'' (example_spec ''u'' ToolMTR)))"
    by code_simp+
  with example_invoke_served [of counter_ops example_limits] http_agent_token [of None example_agent example_agent] show ?thesis
    by fastforce
qed

end
