(* ===== verification/SqlStore.thy ===== *)
theory SqlStore
  imports Store
begin

text \<open>
  The SQL stores (\<^verbatim>\<open>internal/store/sqlite.go\<close>, \<^verbatim>\<open>internal/store/postgres.go\<close>, \<^verbatim>\<open>json.go\<close>). A
  table is the list of its rows in the order of their insertion, a nullable column an option, and
  a statement a function on the tables, with the primary keys and the foreign keys of the schema.
  Both engines run the same statements; \<open>dialect\<close> marks the places where they differ. A
  comparison with NULL is not true, and rows that a query orders equally stay in table order,
  which SQL leaves open. A JSON column keeps the value that was encoded; where decoding does not
  give it back, for the settings, it is written out; times that the program keeps as formatted
  text stay times. A statement fails on its constraints only;
  the error is one error.
\<close>

unbundle bit_operations_syntax

datatype dialect = SQLite | Postgres

text \<open>What a timestamp column keeps of a time: PostgreSQL keeps microseconds.\<close>

definition col_time :: "dialect \<Rightarrow> time \<Rightarrow> time" where
  "col_time d t = (case d of SQLite \<Rightarrow> t | Postgres \<Rightarrow> t div 1000 * 1000)"

abbreviation sql_error :: error where
  "sql_error \<equiv> Errorf ''constraint failed'' []"


section \<open>Statements\<close>

definition insert_row :: "('r \<Rightarrow> string) \<Rightarrow> 'r \<Rightarrow> 'r list \<Rightarrow> ('r list) res" where
  "insert_row key r rows = (if key r \<in> set (map key rows) then Inl sql_error else Inr (rows @ [r]))"

definition update_where :: "('r \<Rightarrow> bool) \<Rightarrow> ('r \<Rightarrow> 'r) \<Rightarrow> 'r list \<Rightarrow> 'r list" where
  "update_where P f rows = map (\<lambda>r. if P r then f r else r) rows"

definition rows_affected :: "('r \<Rightarrow> bool) \<Rightarrow> 'r list \<Rightarrow> int" where
  "rows_affected P rows = int (length (filter P rows))"

definition delete_where :: "('r \<Rightarrow> bool) \<Rightarrow> 'r list \<Rightarrow> 'r list" where
  "delete_where P rows = filter (\<lambda>r. \<not> P r) rows"

text \<open>\<^verbatim>\<open>insert ... on conflict (id) do update\<close>: \<open>merge\<close> makes the new row of the excluded and the old one.\<close>

definition upsert_row :: "('r \<Rightarrow> string) \<Rightarrow> ('r \<Rightarrow> 'r \<Rightarrow> 'r) \<Rightarrow> 'r \<Rightarrow> 'r list \<Rightarrow> 'r list" where
  "upsert_row key merge r rows =
     (if key r \<in> set (map key rows) then update_where (\<lambda>old. key old = key r) (merge r) rows else rows @ [r])"

definition nullString :: "string \<Rightarrow> string option" where
  "nullString s = (if s = [] then None else Some s)"

definition coalesce :: "string option \<Rightarrow> string" where
  "coalesce v = (case v of None \<Rightarrow> [] | Some s \<Rightarrow> s)"

definition sql_limit :: "int \<Rightarrow> 'r list \<Rightarrow> 'r list" where
  "sql_limit n rows = take (nat n) rows"


section \<open>Tables\<close>

record job_row =
  rjID :: string
  rjParentID :: "string option"
  rjScheduledID :: "string option"
  rjScheduledRevision :: int
  rjTool :: Tool
  rjTarget :: string
  rjResolvedTarget :: "string option"
  rjArgs :: strmap
  rjIPVersion :: IPVersion
  rjAgentID :: "string option"
  rjResolveOnAgent :: bool
  rjStatus :: JobStatus
  rjCreatedAt :: time
  rjUpdatedAt :: time
  rjStartedAt :: "time option"
  rjCompletedAt :: "time option"
  rjError :: "string option"

record event_row =
  rvID :: string
  rvJobID :: string
  rvAgentID :: "string option"
  rvStream :: string
  rvEvent :: "StreamEvent option"
  rvExitCode :: "int option"
  rvParsed :: "ToolResult option"
  rvCreatedAt :: time

text \<open>
  The rows of the other tables have the columns of the records of the program: agents without
  labels, schedules, agent configurations and HTTP agents. The settings are one row: the value,
  the revision and the time.
\<close>

record Sql =
  tAgents :: "Agent list"
  tJobs :: "job_row list"
  tSchedules :: "ScheduledJob list"
  tEvents :: "event_row list"
  tAudit :: "AuditEvent list"
  tSettings :: "(ManagedSettings \<times> int \<times> time) option"
  tHTTPAgents :: "HTTPAgent list"
  tConfigs :: "AgentConfig list"

definition empty_Sql :: Sql where
  "empty_Sql =
     \<lparr>tAgents = [], tJobs = [], tSchedules = [], tEvents = [], tAudit = [], tSettings = None, tHTTPAgents = [],
      tConfigs = []\<rparr>"


section \<open>Jobs\<close>

definition job_cols :: "dialect \<Rightarrow> Job \<Rightarrow> job_row" where
  "job_cols d j =
     \<lparr>rjID = jID j, rjParentID = nullString (jParentID j), rjScheduledID = nullString (jScheduledID j),
      rjScheduledRevision = jScheduledRevision j, rjTool = jTool j, rjTarget = jTarget j,
      rjResolvedTarget = nullString (jResolvedTarget j), rjArgs = jArgs j, rjIPVersion = jIPVersion j,
      rjAgentID = nullString (jAgentID j), rjResolveOnAgent = jResolveOnAgent j, rjStatus = jStatus j,
      rjCreatedAt = col_time d (jCreatedAt j), rjUpdatedAt = col_time d (jUpdatedAt j),
      rjStartedAt = map_option (col_time d) (jStartedAt j), rjCompletedAt = map_option (col_time d) (jCompletedAt j),
      rjError = nullString (jError j)\<rparr>"

definition scan_job :: "job_row \<Rightarrow> Job" where
  "scan_job r =
     \<lparr>jID = rjID r, jParentID = coalesce (rjParentID r), jScheduledID = coalesce (rjScheduledID r),
      jScheduledRevision = rjScheduledRevision r, jTool = rjTool r, jTarget = rjTarget r,
      jResolvedTarget = coalesce (rjResolvedTarget r), jArgs = rjArgs r, jIPVersion = rjIPVersion r,
      jAgentID = coalesce (rjAgentID r), jResolveOnAgent = rjResolveOnAgent r, jStatus = rjStatus r,
      jCreatedAt = rjCreatedAt r, jUpdatedAt = rjUpdatedAt r, jStartedAt = rjStartedAt r,
      jCompletedAt = rjCompletedAt r, jError = coalesce (rjError r)\<rparr>"

text \<open>A reference is NULL or the key of a row.\<close>

definition references :: "string option \<Rightarrow> string list \<Rightarrow> bool" where
  "references v keys \<longleftrightarrow> (case v of None \<Rightarrow> True | Some k \<Rightarrow> k \<in> set keys)"

definition insert_job :: "dialect \<Rightarrow> Job \<Rightarrow> Sql \<Rightarrow> Sql res" where
  "insert_job d j db =
     (let r = job_cols d j in
      if references (rjParentID r) (rjID r # map rjID (tJobs db)) \<and> references (rjScheduledID r) (map sID (tSchedules db))
        \<and> references (rjAgentID r) (map aID (tAgents db))
      then bind_res (insert_row rjID r (tJobs db)) (\<lambda>rows. Inr (db\<lparr>tJobs := rows\<rparr>))
      else Inl sql_error)"

definition sql_CreateJob :: "dialect \<Rightarrow> Job \<Rightarrow> Sql \<Rightarrow> Sql res" where
  "sql_CreateJob d j db = insert_job d j db"

text \<open>One transaction: the result is the error, or the tables after all inserts.\<close>

fun sql_CreateJobs :: "dialect \<Rightarrow> Job list \<Rightarrow> Sql \<Rightarrow> Sql res" where
  "sql_CreateJobs d [] db = Inr db"
| "sql_CreateJobs d (j # js) db = bind_res (insert_job d j db) (sql_CreateJobs d js)"

definition sql_GetJob :: "string \<Rightarrow> Sql \<Rightarrow> Job res" where
  "sql_GetJob jid db =
     (case find (\<lambda>r. rjID r = jid) (tJobs db) of None \<Rightarrow> Inl ErrNotFound | Some r \<Rightarrow> Inr (scan_job r))"

definition sql_ListChildJobs :: "string \<Rightarrow> Sql \<Rightarrow> Job list" where
  "sql_ListChildJobs parentID db =
     map scan_job (sort_key rjCreatedAt (filter (\<lambda>r. rjParentID r = Some parentID) (tJobs db)))"

definition sql_ListActiveJobs :: "int \<Rightarrow> Sql \<Rightarrow> Job list" where
  "sql_ListActiveJobs limit db =
     map scan_job (sql_limit (if limit \<le> 0 then 100 else limit)
       (sort_key rjCreatedAt (filter (\<lambda>r. rjStatus r \<in> {JobQueued, JobRunning}) (tJobs db))))"

definition queued_row :: "string \<Rightarrow> Tool list \<Rightarrow> ProtocolMask \<Rightarrow> job_row \<Rightarrow> bool" where
  "queued_row agentID caps protocols r \<longleftrightarrow>
     rjStatus r = JobQueued \<and> rjAgentID r = Some agentID \<and> rjTool r \<in> set caps
     \<and> (rjIPVersion r = 0 \<or> rjIPVersion r = 4 \<and> protocols AND 1 \<noteq> 0 \<or> rjIPVersion r = 6 \<and> protocols AND 2 \<noteq> 0)"

text \<open>SQLite replaces a limit that is not positive; PostgreSQL refuses a negative one.\<close>

definition sql_ListQueuedJobs :: "dialect \<Rightarrow> string \<Rightarrow> Tool list \<Rightarrow> ProtocolMask \<Rightarrow> int \<Rightarrow> Sql \<Rightarrow> (Job list) res" where
  "sql_ListQueuedJobs d agentID caps protocols limit db =
     (let rows = sort_key rjCreatedAt (filter (queued_row agentID caps protocols) (tJobs db)) in
      case d of
        SQLite \<Rightarrow> Inr (map scan_job (sql_limit (if limit \<le> 0 then 1 else limit) rows))
      | Postgres \<Rightarrow> if limit < 0 then Inl (Errorf ''LIMIT must not be negative'' []) else Inr (map scan_job (sql_limit limit rows)))"

definition claimable :: "string \<Rightarrow> string \<Rightarrow> job_row \<Rightarrow> bool" where
  "claimable jid agentID r \<longleftrightarrow> rjID r = jid \<and> rjAgentID r = Some agentID \<and> rjStatus r = JobQueued"

definition claim_row :: "time \<Rightarrow> job_row \<Rightarrow> job_row" where
  "claim_row now r =
     r\<lparr>rjStatus := JobRunning, rjUpdatedAt := now,
       rjStartedAt := (if rjStartedAt r = None then Some now else rjStartedAt r)\<rparr>"

definition sql_ClaimQueuedJob :: "dialect \<Rightarrow> time \<Rightarrow> string \<Rightarrow> string \<Rightarrow> Sql \<Rightarrow> bool \<times> Sql" where
  "sql_ClaimQueuedJob d now jid agentID db =
     (0 < rows_affected (claimable jid agentID) (tJobs db),
      db\<lparr>tJobs := update_where (claimable jid agentID) (claim_row (col_time d now)) (tJobs db)\<rparr>)"

definition status_row :: "time \<Rightarrow> JobStatus \<Rightarrow> string \<Rightarrow> job_row \<Rightarrow> job_row" where
  "status_row now status msg r =
     r\<lparr>rjStatus := status, rjUpdatedAt := now,
       rjStartedAt := (if status = JobRunning \<and> rjStartedAt r = None then Some now else rjStartedAt r),
       rjCompletedAt := (if status \<in> {JobSucceeded, JobFailed, JobCanceled} then Some now else rjCompletedAt r),
       rjError := (if msg = [] then rjError r else Some msg)\<rparr>"

definition sql_UpdateJobStatus :: "dialect \<Rightarrow> time \<Rightarrow> string \<Rightarrow> JobStatus \<Rightarrow> string \<Rightarrow> Sql \<Rightarrow> Sql" where
  "sql_UpdateJobStatus d now jid status msg db =
     db\<lparr>tJobs := update_where (\<lambda>r. rjID r = jid) (status_row (col_time d now) status msg) (tJobs db)\<rparr>"

definition event_cols :: "dialect \<Rightarrow> JobEvent \<Rightarrow> event_row" where
  "event_cols d e =
     \<lparr>rvID = eID e, rvJobID = eJobID e, rvAgentID = nullString (eAgentID e), rvStream = eStream e, rvEvent = eEvent e,
      rvExitCode = eExitCode e, rvParsed = eParsed e, rvCreatedAt = col_time d (eCreatedAt e)\<rparr>"

text \<open>A stream event without a type is dropped when it is read.\<close>

definition scan_event :: "event_row \<Rightarrow> JobEvent" where
  "scan_event r =
     \<lparr>eID = rvID r, eJobID = rvJobID r, eAgentID = coalesce (rvAgentID r), eStream = rvStream r,
      eEvent = (case rvEvent r of None \<Rightarrow> None | Some e \<Rightarrow> if seType e \<noteq> [] then Some e else None),
      eExitCode = rvExitCode r, eParsed = rvParsed r, eCreatedAt = rvCreatedAt r\<rparr>"

definition sql_AddJobEvent :: "dialect \<Rightarrow> JobEvent \<Rightarrow> Sql \<Rightarrow> Sql res" where
  "sql_AddJobEvent d e db =
     (let r = event_cols d e in
      if rvJobID r \<in> set (map rjID (tJobs db)) \<and> references (rvAgentID r) (map aID (tAgents db))
      then bind_res (insert_row rvID r (tEvents db)) (\<lambda>rows. Inr (db\<lparr>tEvents := rows\<rparr>))
      else Inl sql_error)"

definition sql_ListJobEvents :: "string \<Rightarrow> Sql \<Rightarrow> JobEvent list" where
  "sql_ListJobEvents jid db = map scan_event (sort_key rvCreatedAt (filter (\<lambda>r. rvJobID r = jid) (tEvents db)))"


section \<open>Schedules\<close>

definition schedule_cols :: "dialect \<Rightarrow> ScheduledJob \<Rightarrow> ScheduledJob" where
  "schedule_cols d s =
     s\<lparr>sNextRunAt := col_time d (sNextRunAt s), sLastRunAt := map_option (col_time d) (sLastRunAt s),
       sCreatedAt := col_time d (sCreatedAt s), sUpdatedAt := col_time d (sUpdatedAt s)\<rparr>"

definition sql_CreateScheduledJob :: "dialect \<Rightarrow> ScheduledJob \<Rightarrow> Sql \<Rightarrow> Sql res" where
  "sql_CreateScheduledJob d s db =
     bind_res (insert_row sID (schedule_cols d s) (tSchedules db)) (\<lambda>rows. Inr (db\<lparr>tSchedules := rows\<rparr>))"

definition sql_GetScheduledJob :: "string \<Rightarrow> Sql \<Rightarrow> ScheduledJob res" where
  "sql_GetScheduledJob sid db =
     (case find (\<lambda>s. sID s = sid) (tSchedules db) of None \<Rightarrow> Inl ErrNotFound | Some s \<Rightarrow> Inr s)"

definition sql_ListScheduledJobs :: "Sql \<Rightarrow> ScheduledJob list" where
  "sql_ListScheduledJobs db = sort_key sCreatedAt (tSchedules db)"

definition sql_ListDueScheduledJobs :: "dialect \<Rightarrow> time \<Rightarrow> int \<Rightarrow> Sql \<Rightarrow> ScheduledJob list" where
  "sql_ListDueScheduledJobs d now limit db =
     sql_limit (if limit \<le> 0 then 50 else limit)
       (sort_key sNextRunAt (filter (\<lambda>s. sEnabled s \<and> sNextRunAt s \<le> col_time d now) (tSchedules db)))"

text \<open>The update sets every column but the id and the time of creation.\<close>

definition sql_UpdateScheduledJob :: "dialect \<Rightarrow> ScheduledJob \<Rightarrow> Sql \<Rightarrow> Sql res" where
  "sql_UpdateScheduledJob d s db =
     (if rows_affected (\<lambda>old. sID old = sID s) (tSchedules db) = 0 then Inl ErrNotFound
      else Inr (db\<lparr>tSchedules := update_where (\<lambda>old. sID old = sID s)
                    (\<lambda>old. (schedule_cols d s)\<lparr>sCreatedAt := sCreatedAt old\<rparr>) (tSchedules db)\<rparr>))"

text \<open>Jobs of a deleted schedule lose their reference to it.\<close>

definition sql_DeleteScheduledJob :: "string \<Rightarrow> Sql \<Rightarrow> Sql res" where
  "sql_DeleteScheduledJob sid db =
     (if rows_affected (\<lambda>s. sID s = sid) (tSchedules db) = 0 then Inl ErrNotFound
      else Inr (db\<lparr>tSchedules := delete_where (\<lambda>s. sID s = sid) (tSchedules db),
                   tJobs := update_where (\<lambda>r. rjScheduledID r = Some sid) (\<lambda>r. r\<lparr>rjScheduledID := None\<rparr>) (tJobs db)\<rparr>))"

definition sql_UpdateScheduledJobRun :: "dialect \<Rightarrow> time \<Rightarrow> ScheduledJob \<Rightarrow> Sql \<Rightarrow> Sql" where
  "sql_UpdateScheduledJobRun d now s db =
     db\<lparr>tSchedules := update_where (\<lambda>old. sID old = sID s)
          (\<lambda>old. old\<lparr>sLastRunAt := map_option (col_time d) (sLastRunAt s), sNextRunAt := col_time d (sNextRunAt s),
                     sScheduleTargets := sScheduleTargets s, sUpdatedAt := col_time d now\<rparr>) (tSchedules db)\<rparr>"

definition run_at :: "job_row \<Rightarrow> time" where
  "run_at r = (case rjStartedAt r of Some t \<Rightarrow> t | None \<Rightarrow> rjCreatedAt r)"

definition history_row :: "dialect \<Rightarrow> string \<Rightarrow> HistoryFilter \<Rightarrow> job_row \<Rightarrow> bool" where
  "history_row d scheduleID f r \<longleftrightarrow>
     rjScheduledID r = Some scheduleID \<and> (0 < hfRevision f \<longrightarrow> rjScheduledRevision r = hfRevision f)
     \<and> (hfHasFrom f \<longrightarrow> col_time d (hfFrom f) \<le> run_at r) \<and> (hfHasTo f \<longrightarrow> run_at r \<le> col_time d (hfTo f))"

text \<open>
  The bucket of a row: SQLite divides the whole seconds and truncates, PostgreSQL divides the
  exact time and rounds down.
\<close>

definition bucket_of :: "dialect \<Rightarrow> int \<Rightarrow> job_row \<Rightarrow> string \<times> int" where
  "bucket_of d sz r =
     (coalesce (rjAgentID r),
      (case d of
         SQLite \<Rightarrow> quot (Unix (run_at r)) sz
       | Postgres \<Rightarrow> (run_at r - 62135596800 * Second) div (sz * Second)))"

text \<open>\<^verbatim>\<open>row_number() over (partition by ... order by ... desc) = 1\<close>: the first of the latest rows of each part.\<close>

fun newest_rows :: "('r \<Rightarrow> 'k) \<Rightarrow> ('r \<Rightarrow> time) \<Rightarrow> 'r list \<Rightarrow> 'r list" where
  "newest_rows key when_run [] = []"
| "newest_rows key when_run (r # rows) =
     (let part = filter (\<lambda>x. key x = key r) rows
      in hd (sort_key (\<lambda>x. - when_run x) (r # part)) # newest_rows key when_run (filter (\<lambda>x. key x \<noteq> key r) rows))"

definition sql_ListScheduledJobHistory :: "dialect \<Rightarrow> string \<Rightarrow> HistoryFilter \<Rightarrow> Sql \<Rightarrow> Job list" where
  "sql_ListScheduledJobHistory d scheduleID f db =
     (let rows = filter (history_row d scheduleID f) (tJobs db);
          out = (if 0 < hfBucketSeconds f then newest_rows (bucket_of d (hfBucketSeconds f)) run_at rows else rows)
      in map scan_job (sql_limit (normalizedHistoryLimit (hfLimit f)) (sort_key (\<lambda>r. - run_at r) out)))"


section \<open>Agents\<close>

definition sql_UpsertAgent :: "dialect \<Rightarrow> Agent \<Rightarrow> Sql \<Rightarrow> Sql" where
  "sql_UpsertAgent d a db =
     db\<lparr>tAgents := upsert_row aID (\<lambda>excluded old. excluded\<lparr>aCreatedAt := aCreatedAt old\<rparr>)
          (a\<lparr>aLabels := [], aLastSeenAt := col_time d (aLastSeenAt a), aCreatedAt := col_time d (aCreatedAt a)\<rparr>) (tAgents db)\<rparr>"

definition sql_TouchAgent :: "dialect \<Rightarrow> time \<Rightarrow> string \<Rightarrow> Sql \<Rightarrow> Sql" where
  "sql_TouchAgent d now aid db =
     db\<lparr>tAgents := update_where (\<lambda>a. aID a = aid) (\<lambda>a. a\<lparr>aStatus := AgentOnline, aLastSeenAt := col_time d now\<rparr>) (tAgents db)\<rparr>"

definition sql_MarkAgentOffline :: "string \<Rightarrow> Sql \<Rightarrow> Sql" where
  "sql_MarkAgentOffline aid db =
     db\<lparr>tAgents := update_where (\<lambda>a. aID a = aid) (\<lambda>a. a\<lparr>aStatus := AgentOffline\<rparr>) (tAgents db)\<rparr>"

text \<open>Jobs and events of a deleted agent lose their reference to it; then its configuration goes.\<close>

definition sql_DeleteAgent :: "string \<Rightarrow> Sql \<Rightarrow> Sql res" where
  "sql_DeleteAgent aid db =
     (if rows_affected (\<lambda>a. aID a = aid) (tAgents db) = 0 then Inl ErrNotFound
      else Inr (db\<lparr>tAgents := delete_where (\<lambda>a. aID a = aid) (tAgents db),
                   tJobs := update_where (\<lambda>r. rjAgentID r = Some aid) (\<lambda>r. r\<lparr>rjAgentID := None\<rparr>) (tJobs db),
                   tEvents := update_where (\<lambda>r. rvAgentID r = Some aid) (\<lambda>r. r\<lparr>rvAgentID := None\<rparr>) (tEvents db),
                   tConfigs := delete_where (\<lambda>c. acID c = aid) (tConfigs db)\<rparr>))"

definition stale_row :: "time \<Rightarrow> Agent \<Rightarrow> bool" where
  "stale_row cutoff a \<longleftrightarrow> aStatus a = AgentOnline \<and> aLastSeenAt a < cutoff"

definition sql_MarkStaleAgentsOffline :: "dialect \<Rightarrow> time \<Rightarrow> dur \<Rightarrow> Sql \<Rightarrow> int \<times> Sql" where
  "sql_MarkStaleAgentsOffline d now ttl db =
     (let stale = stale_row (col_time d (now - ttl))
      in (rows_affected stale (tAgents db),
          db\<lparr>tAgents := update_where stale (\<lambda>a. a\<lparr>aStatus := AgentOffline\<rparr>) (tAgents db)\<rparr>))"

text \<open>The query does not select the token hash.\<close>

definition sql_ListAgents :: "Sql \<Rightarrow> Agent list" where
  "sql_ListAgents db = map (\<lambda>a. a\<lparr>aTokenHash := []\<rparr>) (sort_key aID (tAgents db))"

definition scan_config :: "AgentConfig \<Rightarrow> AgentConfig" where
  "scan_config c = c\<lparr>acLabels := normalizedAgentLabels (acLabels c)\<rparr>"

definition sql_ListAgentConfigs :: "Sql \<Rightarrow> AgentConfig list" where
  "sql_ListAgentConfigs db = map scan_config (sort_key acID (tConfigs db))"

definition sql_GetAgentConfig :: "string \<Rightarrow> Sql \<Rightarrow> AgentConfig" where
  "sql_GetAgentConfig aid db =
     (case find (\<lambda>c. acID c = aid) (tConfigs db) of None \<Rightarrow> zero_AgentConfig aid | Some c \<Rightarrow> scan_config c)"

definition upsert_config :: "dialect \<Rightarrow> time \<Rightarrow> AgentConfig \<Rightarrow> Sql \<Rightarrow> Sql" where
  "upsert_config d now cfg db =
     db\<lparr>tConfigs := upsert_row acID (\<lambda>excluded old. excluded\<lparr>acCreatedAt := acCreatedAt old\<rparr>)
          (cfg\<lparr>acCreatedAt := col_time d now, acUpdatedAt := col_time d now\<rparr>) (tConfigs db)\<rparr>"

definition sql_UpsertAgentConfig :: "dialect \<Rightarrow> time \<Rightarrow> AgentConfig \<Rightarrow> Sql \<Rightarrow> Sql res" where
  "sql_UpsertAgentConfig d now cfg db = bind_res (normalizeAgentConfig cfg) (\<lambda>cfg. Inr (upsert_config d now cfg db))"

definition sql_DeleteAgentConfig :: "string \<Rightarrow> Sql \<Rightarrow> Sql res" where
  "sql_DeleteAgentConfig aid db =
     (if rows_affected (\<lambda>c. acID c = aid) (tConfigs db) = 0 then Inl ErrNotFound
      else Inr (db\<lparr>tConfigs := delete_where (\<lambda>c. acID c = aid) (tConfigs db)\<rparr>))"

definition scan_http_agent :: "HTTPAgent \<Rightarrow> HTTPAgent" where
  "scan_http_agent node = node\<lparr>haLabels := normalizedAgentLabels (haLabels node)\<rparr>"

definition sql_ListHTTPAgents :: "Sql \<Rightarrow> HTTPAgent list" where
  "sql_ListHTTPAgents db = map scan_http_agent (sort_key haID (tHTTPAgents db))"

definition sql_GetHTTPAgent :: "string \<Rightarrow> Sql \<Rightarrow> HTTPAgent res" where
  "sql_GetHTTPAgent aid db =
     (case find (\<lambda>n. haID n = aid) (tHTTPAgents db) of None \<Rightarrow> Inl ErrNotFound | Some n \<Rightarrow> Inr (scan_http_agent n))"

definition upsert_http_agent :: "dialect \<Rightarrow> time \<Rightarrow> HTTPAgent \<Rightarrow> Sql \<Rightarrow> Sql" where
  "upsert_http_agent d now node db =
     db\<lparr>tHTTPAgents := upsert_row haID (\<lambda>excluded old. excluded\<lparr>haCreatedAt := haCreatedAt old\<rparr>)
          (node\<lparr>haCreatedAt := col_time d now, haUpdatedAt := col_time d now\<rparr>) (tHTTPAgents db)\<rparr>"

definition sql_UpsertHTTPAgent :: "dialect \<Rightarrow> time \<Rightarrow> HTTPAgent \<Rightarrow> Sql \<Rightarrow> Sql res" where
  "sql_UpsertHTTPAgent d now node db = bind_res (normalizeHTTPAgent node) (\<lambda>node. Inr (upsert_http_agent d now node db))"

definition sql_DeleteHTTPAgent :: "string \<Rightarrow> Sql \<Rightarrow> Sql res" where
  "sql_DeleteHTTPAgent aid db =
     (if rows_affected (\<lambda>n. haID n = aid) (tHTTPAgents db) = 0 then Inl ErrNotFound
      else Inr (db\<lparr>tHTTPAgents := delete_where (\<lambda>n. haID n = aid) (tHTTPAgents db)\<rparr>))"


section \<open>Settings\<close>

text \<open>
  What is left of a value after \<^verbatim>\<open>encoding/json\<close> has written it without its empty fields and read
  it into a zero value: an empty map is \<^verbatim>\<open>nil\<close>.
\<close>

definition json_map :: "('k, 'v) gomap option \<Rightarrow> ('k, 'v) gomap option" where
  "json_map m = (if m = Some [] then None else m)"

definition json_policy :: "CfgPolicy \<Rightarrow> CfgPolicy" where
  "json_policy p = p\<lparr>cpAllowedArgs := json_map (cpAllowedArgs p)\<rparr>"

definition json_label_config :: "LabelConfig \<Rightarrow> LabelConfig" where
  "json_label_config c = c\<lparr>lcToolPolicies := map_option (map (apsnd json_policy)) (json_map (lcToolPolicies c))\<rparr>"

definition json_tool_scope :: "APIToolScope \<Rightarrow> APIToolScope" where
  "json_tool_scope s = s\<lparr>asAllowedArgs := json_map (asAllowedArgs s)\<rparr>"

text \<open>
  Decoding into a value that is not zero keeps what the text leaves out: the first argument is
  the old value. The first element of an array is decoded into the old first element.
\<close>

definition keep_list :: "'a list \<Rightarrow> 'a list \<Rightarrow> 'a list" where
  "keep_list old new = (if new = [] then old else new)"

definition decode_token :: "APITokenPermission \<Rightarrow> APITokenPermission \<Rightarrow> APITokenPermission" where
  "decode_token old t =
     \<lparr>atID = keep_list (atID old) (atID t), atName = keep_list (atName old) (atName t), atSecret = atSecret t,
      atRotate = (atRotate old \<or> atRotate t), atAll = (atAll old \<or> atAll t),
      atScheduleAccess = keep_list (atScheduleAccess old) (atScheduleAccess t),
      atManageAccess = keep_list (atManageAccess old) (atManageAccess t),
      atAgents = keep_list (atAgents old) (atAgents t), atDeniedAgents = keep_list (atDeniedAgents old) (atDeniedAgents t),
      atAgentTags = keep_list (atAgentTags old) (atAgentTags t), atDeniedTags = keep_list (atDeniedTags old) (atDeniedTags t),
      atTools = (case json_map (atTools t) of
                   None \<Rightarrow> atTools old
                 | Some m \<Rightarrow> Some (fold (\<lambda>(k, s). mput k (json_tool_scope s)) m (case atTools old of None \<Rightarrow> [] | Some kept \<Rightarrow> kept)))\<rparr>"

definition zero_token :: APITokenPermission where
  "zero_token =
     \<lparr>atID = [], atName = [], atSecret = [], atRotate = False, atAll = False, atScheduleAccess = [], atManageAccess = [],
      atAgents = [], atDeniedAgents = [], atAgentTags = [], atDeniedTags = [], atTools = None\<rparr>"

fun decode_tokens :: "APITokenPermission list \<Rightarrow> APITokenPermission list \<Rightarrow> APITokenPermission list" where
  "decode_tokens old [] = []"
| "decode_tokens [] (t # ts) = decode_token zero_token t # decode_tokens [] ts"
| "decode_tokens (o1 # old) (t # ts) = decode_token o1 t # decode_tokens old ts"

definition zero_register_token :: RegisterToken where
  "zero_register_token = \<lparr>rgID = [], rgName = [], rgToken = [], rgRotate = False\<rparr>"

definition decode_register_token :: "RegisterToken \<Rightarrow> RegisterToken \<Rightarrow> RegisterToken" where
  "decode_register_token old t =
     \<lparr>rgID = keep_list (rgID old) (rgID t), rgName = keep_list (rgName old) (rgName t), rgToken = rgToken t,
      rgRotate = (rgRotate old \<or> rgRotate t)\<rparr>"

fun decode_register_tokens :: "RegisterToken list \<Rightarrow> RegisterToken list \<Rightarrow> RegisterToken list" where
  "decode_register_tokens old [] = []"
| "decode_register_tokens [] (t # ts) = decode_register_token zero_register_token t # decode_register_tokens [] ts"
| "decode_register_tokens (o1 # old) (t # ts) = decode_register_token o1 t # decode_register_tokens old ts"

definition decode_rate_limit :: "RateLimit \<Rightarrow> RateLimit \<Rightarrow> RateLimit" where
  "decode_rate_limit old r =
     r\<lparr>rlTools := fold (\<lambda>(k, s). mput k s) (rlTools r) (rlTools old),
       rlExemptCIDRs := keep_list (rlExemptCIDRs old) (rlExemptCIDRs r)\<rparr>"

definition decode_settings :: "ManagedSettings \<Rightarrow> ManagedSettings \<Rightarrow> ManagedSettings" where
  "decode_settings old s =
     \<lparr>msRevision = (if msRevision s = 0 then msRevision old else msRevision s), msUpdatedAt = msUpdatedAt s,
      msRateLimit = decode_rate_limit (msRateLimit old) (msRateLimit s),
      msLabelConfigs = (case json_map (msLabelConfigs s) of
                          None \<Rightarrow> msLabelConfigs old
                        | Some m \<Rightarrow> Some (fold (\<lambda>(k, c). mput k (json_label_config c)) m
                                          (case msLabelConfigs old of None \<Rightarrow> [] | Some kept \<Rightarrow> kept))),
      msAPITokens = (if msAPITokens s = [] then msAPITokens old else decode_tokens (msAPITokens old) (msAPITokens s)),
      msRegisterTokens = (if msRegisterTokens s = [] then msRegisterTokens old
                          else decode_register_tokens (msRegisterTokens old) (msRegisterTokens s))\<rparr>"

text \<open>The row is decoded into the default settings, which have a new administration token.\<close>

definition sql_GetManagedSettings :: "(nat \<Rightarrow> string) \<Rightarrow> nat \<Rightarrow> Sql \<Rightarrow> ManagedSettings \<times> nat \<times> error option" where
  "sql_GetManagedSettings uuid n db =
     (let (settings, n') = DefaultManagedSettings uuid n in
      case tSettings db of
        None \<Rightarrow> (settings, n', None)
      | Some (raw, revision, updated) \<Rightarrow>
          NormalizeManagedSettings uuid n' ((decode_settings (settings\<lparr>msRevision := revision\<rparr>) raw)\<lparr>msUpdatedAt := updated\<rparr>))"

text \<open>
  The statement that saves the settings, with the rows it affects: it inserts the row, or
  replaces it if its revision is the one the caller has read.
\<close>

definition save_settings :: "dialect \<Rightarrow> time \<Rightarrow> int \<Rightarrow> ManagedSettings \<Rightarrow> Sql \<Rightarrow> int \<times> Sql" where
  "save_settings d now currentRevision raw db =
     (case tSettings db of
        None \<Rightarrow> (1, db\<lparr>tSettings := Some (raw, 1, col_time d now)\<rparr>)
      | Some (_, revision, _) \<Rightarrow>
          if revision = currentRevision then (1, db\<lparr>tSettings := Some (raw, revision + 1, col_time d now)\<rparr>) else (0, db))"

definition sql_UpdateManagedSettings ::
  "(nat \<Rightarrow> string) \<Rightarrow> dialect \<Rightarrow> nat \<Rightarrow> time \<Rightarrow> ManagedSettings \<Rightarrow> Sql \<Rightarrow> (ManagedSettings \<times> error option) \<times> Sql \<times> nat" where
  "sql_UpdateManagedSettings uuid d n now settings db =
     (case NormalizeManagedSettings uuid n settings of
        (s, n', Some e) \<Rightarrow> ((s, Some e), db, n')
      | (s0, n', None) \<Rightarrow>
          (let s = s0\<lparr>msRevision := msRevision s0 + 1\<rparr>; (rows, db') = save_settings d now (msRevision s0) s db
           in if rows = 0 then ((s, Some ErrConflict), db, n')
              else let (r, n'', err) = sql_GetManagedSettings uuid n' db' in ((r, err), db', n'')))"

definition sql_UpdateManagedSettingsAndAgentLabels ::
  "(nat \<Rightarrow> string) \<Rightarrow> dialect \<Rightarrow> nat \<Rightarrow> time \<Rightarrow> ManagedSettings \<Rightarrow> AgentConfig list \<Rightarrow> HTTPAgent list \<Rightarrow> Sql
     \<Rightarrow> (ManagedSettings \<times> error option) \<times> Sql \<times> nat" where
  "sql_UpdateManagedSettingsAndAgentLabels uuid d n now settings cfgs nodes db =
     (case NormalizeManagedSettings uuid n settings of
        (s, n', Some e) \<Rightarrow> ((s, Some e), db, n')
      | (s0, n', None) \<Rightarrow>
          (let s = s0\<lparr>msRevision := msRevision s0 + 1\<rparr> in
           case traverse_res normalizeAgentConfig cfgs of
             Inl e \<Rightarrow> ((s, Some e), db, n')
           | Inr cfgs' \<Rightarrow>
               (case traverse_res normalizeHTTPAgent nodes of
                  Inl e \<Rightarrow> ((s, Some e), db, n')
                | Inr nodes' \<Rightarrow>
                    (let (rows, db1) = save_settings d now (msRevision s0) s db
                     in if rows = 0 then ((s, Some ErrConflict), db, n')
                        else let db' = fold (upsert_http_agent d now) nodes' (fold (upsert_config d now) cfgs' db1);
                                 (r, n'', err) = sql_GetManagedSettings uuid n' db'
                             in ((r, err), db', n'')))))"

text \<open>SQLite trims the texts of an audit event, PostgreSQL stores them as they are.\<close>

definition sql_AddAuditEvent :: "dialect \<Rightarrow> time \<Rightarrow> AuditEvent \<Rightarrow> Sql \<Rightarrow> Sql" where
  "sql_AddAuditEvent d now event db =
     (let txt = (case d of SQLite \<Rightarrow> TrimSpace | Postgres \<Rightarrow> \<lambda>s. s)
      in db\<lparr>tAudit := tAudit db @
           [\<lparr>auSubject = txt (auSubject event), auAction = txt (auAction event), auTarget = txt (auTarget event),
             auDecision = txt (auDecision event), auReason = txt (auReason event),
             auCreatedAt = col_time d (if IsZero (auCreatedAt event) then now else auCreatedAt event)\<rparr>]\<rparr>)"

text \<open>
  Migration creates the tables that are missing and stores the default settings, unless there are
  settings. The administration token is then printed.
\<close>

definition seed_settings :: "(nat \<Rightarrow> string) \<Rightarrow> dialect \<Rightarrow> nat \<Rightarrow> time \<Rightarrow> Sql \<Rightarrow> (string option \<times> Sql) \<times> nat" where
  "seed_settings uuid d n now db =
     (let (settings0, n') = DefaultManagedSettings uuid n; settings = settings0\<lparr>msRevision := 1, msUpdatedAt := now\<rparr>
      in case tSettings db of
           Some _ \<Rightarrow> ((None, db), n')
         | None \<Rightarrow> ((map_option atSecret (find (\<lambda>t. atManageAccess t = ''write'' \<and> atSecret t \<noteq> []) (msAPITokens settings)),
                     db\<lparr>tSettings := Some (settings, 1, col_time d now)\<rparr>), n'))"

definition open_store :: "(nat \<Rightarrow> string) \<Rightarrow> dialect \<Rightarrow> nat \<Rightarrow> time \<Rightarrow> Sql option \<Rightarrow> (string option \<times> Sql) \<times> nat" where
  "open_store uuid d n now file = seed_settings uuid d n now (case file of None \<Rightarrow> empty_Sql | Some db \<Rightarrow> db)"

text \<open>The path of a SQLite database; the URL parser is a parameter.\<close>

definition sqlitePath :: "(string \<Rightarrow> (string \<times> string) option) \<Rightarrow> string \<Rightarrow> string res" where
  "sqlitePath parse dsn =
     (if dsn = [] \<or> dsn = ''sqlite://:memory:'' \<or> dsn = ''sqlite::memory:'' then Inr '':memory:''
      else if HasPrefix dsn ''sqlite://'' then
        (case parse dsn of
           None \<Rightarrow> Inl (Errorf ''parse'' [dsn])
         | Some (host, path) \<Rightarrow>
             if host \<noteq> [] then Inr (host @ path)
             else if path \<noteq> [] then Inr path
             else Inr (drop 9 dsn))
      else if HasPrefix dsn ''file:'' \<or> HasPrefix (rev dsn) (rev ''.db'') \<or> HasPrefix (rev dsn) (rev ''.sqlite'') then Inr dsn
      else Inl (Errorf ''invalid sqlite dsn %q'' [dsn]))"

end
