(* ===== verification/SqlRefine.thy ===== *)
theory SqlRefine
  imports SqlStore StoreFacts
begin

text \<open>
  How the tables of the SQL stores relate to the in-memory store (\<open>sim\<close>), the calls on a store as
  data, and which calls are admissible (\<open>call_ok\<close>): where they are not, the stores differ.
\<close>


section \<open>Tables as maps\<close>

definition as_map :: "('r \<Rightarrow> string) \<Rightarrow> ('r \<Rightarrow> 'v) \<Rightarrow> 'r list \<Rightarrow> (string, 'v) gomap" where
  "as_map key val rows = map (\<lambda>r. (key r, val r)) rows"

definition keyed_rows :: "('r \<Rightarrow> string) \<Rightarrow> 'r list \<Rightarrow> bool" where
  "keyed_rows key rows \<longleftrightarrow> distinct (map key rows)"

lemma as_map_values [simp]: "map snd (as_map key val rows) = map val rows"
  by (simp add: as_map_def comp_def)

lemma mget_as_map: "mget (as_map key val rows) k = map_option val (find (\<lambda>r. key r = k) rows)"
  by (induction rows) (auto simp: as_map_def)

lemma find_row: "find (\<lambda>r. key r = k) rows = Some r \<Longrightarrow> key r = k \<and> r \<in> set rows"
  by (auto simp: find_Some_iff)

lemma find_row_iff: "keyed_rows key rows \<Longrightarrow> find (\<lambda>r. key r = k) rows = Some r \<longleftrightarrow> r \<in> set rows \<and> key r = k"
  by (induction rows) (auto simp: keyed_rows_def)

lemma find_None_key: "find (\<lambda>r. key r = k) rows = None \<longleftrightarrow> k \<notin> key ` set rows"
  by (auto simp: find_None_iff)

lemma mput_new: "k \<notin> key ` set rows \<Longrightarrow> mput k v (as_map key val rows) = as_map key val rows @ [(k, v)]"
  by (induction rows) (auto simp: as_map_def)

lemma as_map_snoc: "as_map key val (rows @ [r]) = as_map key val rows @ [(key r, val r)]"
  by (simp add: as_map_def)

lemma update_where_none: "(\<And>r. r \<in> set rows \<Longrightarrow> \<not> P r) \<Longrightarrow> update_where P f rows = rows"
  by (induction rows) (auto simp: update_where_def)

lemma update_where_other: "k \<notin> key ` set rows \<Longrightarrow> update_where (\<lambda>r. key r = k) f rows = rows"
  by (induction rows) (auto simp: update_where_def)

lemma mput_update:
  assumes "keyed_rows key rows" "r \<in> set rows" "key r = k" "\<And>x. key x = k \<Longrightarrow> key (f x) = k" "val (f r) = v"
  shows "mput k v (as_map key val rows) = as_map key val (update_where (\<lambda>r. key r = k) f rows)"
  using assms(1,2)
proof (induction rows)
  case (Cons x rows)
  show ?case
  proof (cases "key x = k")
    case True
    with Cons.prems assms(3) have x: "r = x" and n: "k \<notin> key ` set rows" by (auto simp: keyed_rows_def)
    from x update_where_other [OF n, of f] assms(3-5) show ?thesis
      by (simp add: as_map_def update_where_def)
  next
    case False
    with Cons assms(3) show ?thesis by (auto simp: as_map_def update_where_def keyed_rows_def)
  qed
qed simp

lemma mdel_as_map: "mdel k (as_map key val rows) = as_map key val (delete_where (\<lambda>r. key r = k) rows)"
  by (induction rows) (auto simp: as_map_def delete_where_def)

lemma keyed_rows_update [simp]: "(\<And>r. key (f r) = key r) \<Longrightarrow> keyed_rows key (update_where P f rows) = keyed_rows key rows"
  by (simp add: keyed_rows_def update_where_def comp_def if_distrib [of key] cong: if_cong)

lemma update_keys: "keyed_rows key rows \<Longrightarrow> (\<And>r. P r \<Longrightarrow> key (f r) = key r) \<Longrightarrow> keyed_rows key (update_where P f rows)"
proof -
  assume k: "keyed_rows key rows" and f: "\<And>r. P r \<Longrightarrow> key (f r) = key r"
  have "map key (update_where P f rows) = map key rows" by (simp add: update_where_def f)
  with k show ?thesis by (simp add: keyed_rows_def)
qed

lemma keyed_rows_delete [simp]: "keyed_rows key rows \<Longrightarrow> keyed_rows key (delete_where P rows)"
  by (auto simp: keyed_rows_def delete_where_def distinct_map inj_on_def)

lemma keyed_rows_snoc [simp]: "keyed_rows key (rows @ [r]) \<longleftrightarrow> keyed_rows key rows \<and> key r \<notin> key ` set rows"
  by (auto simp: keyed_rows_def)

lemma set_update_where: "set (update_where P f rows) = (\<lambda>r. if P r then f r else r) ` set rows"
  by (simp add: update_where_def)

lemma rows_affected_key: "rows_affected (\<lambda>r. key r = k) rows = 0 \<longleftrightarrow> k \<notin> key ` set rows"
  by (auto simp: rows_affected_def filter_empty_conv)

lemma upsert_keys: "(\<And>old. key (merge r old) = key r) \<Longrightarrow> keyed_rows key rows \<Longrightarrow> keyed_rows key (upsert_row key merge r rows)"
proof -
  assume m: "\<And>old. key (merge r old) = key r" and k: "keyed_rows key rows"
  have "map key (update_where (\<lambda>old. key old = key r) (merge r) rows) = map key rows"
    by (auto simp: update_where_def m)
  with k show ?thesis by (auto simp: upsert_row_def keyed_rows_def)
qed

lemma mput_upsert:
  assumes k: "keyed_rows key rows" and m: "\<And>old. key (merge r old) = key r"
    and v: "v = (case mget (as_map key val rows) (key r) of None \<Rightarrow> val r | Some w \<Rightarrow> upd w)"
    and u: "\<And>old. val (merge r old) = upd (val old)"
  shows "mput (key r) v (as_map key val rows) = as_map key val (upsert_row key merge r rows)"
proof (cases "find (\<lambda>x. key x = key r) rows")
  case None
  then have "key r \<notin> key ` set rows" by (simp add: find_None_key)
  with None v show ?thesis by (simp add: mget_as_map mput_new upsert_row_def as_map_snoc)
next
  case (Some old)
  then have old: "old \<in> set rows" "key old = key r" by (auto dest: find_row)
  have "val (merge r old) = v" using Some u v by (simp add: mget_as_map)
  from mput_update [of key rows old "key r" "merge r" val v, OF k old m this] imageI [OF old(1), of key] old(2) show ?thesis
    by (simp add: upsert_row_def)
qed

lemma sort_key_map: "sort_key f (map g xs) = map g (sort_key (\<lambda>x. f (g x)) xs)"
proof -
  have "insort_key f (g x) (map g ys) = map g (insort_key (\<lambda>x. f (g x)) x ys)" for x ys by (induction ys) auto
  then show ?thesis by (induction xs) simp_all
qed


section \<open>The relation between the stores\<close>

text \<open>Agents are compared without their labels and token hashes, which the tables do not give back.\<close>

definition bare_agent :: "Agent \<Rightarrow> Agent" where
  "bare_agent a = a\<lparr>aLabels := [], aTokenHash := []\<rparr>"

definition row_ok :: "job_row \<Rightarrow> bool" where
  "row_ok r \<longleftrightarrow>
     rjParentID r \<noteq> Some [] \<and> rjScheduledID r \<noteq> Some [] \<and> rjAgentID r \<noteq> Some [] \<and> rjIPVersion r \<in> {0, 4, 6}"

definition events_sim :: "event_row list \<Rightarrow> Memory \<Rightarrow> bool" where
  "events_sim rows m \<longleftrightarrow>
     (\<forall>jid. events_of jid m = map scan_event (filter (\<lambda>r. rvJobID r = jid) rows)
        \<and> sorted (map rvCreatedAt (filter (\<lambda>r. rvJobID r = jid) rows)))
     \<and> list_all (\<lambda>r. rvAgentID r \<noteq> Some []) rows"

definition sim :: "Sql \<Rightarrow> Memory \<Rightarrow> bool" where
  "sim db m \<longleftrightarrow>
     mJobs m = as_map rjID scan_job (tJobs db) \<and> keyed_rows rjID (tJobs db) \<and> list_all row_ok (tJobs db)
     \<and> events_sim (tEvents db) m
     \<and> mSchedules m = as_map sID (\<lambda>s. s) (tSchedules db) \<and> keyed_rows sID (tSchedules db)
     \<and> map (apsnd bare_agent) (mAgents m) = as_map aID bare_agent (tAgents db) \<and> keyed_rows aID (tAgents db)
     \<and> mAgentCfgs m = as_map acID (\<lambda>c. c) (tConfigs db) \<and> keyed_rows acID (tConfigs db)
     \<and> list_all (\<lambda>c. scan_config c = c) (tConfigs db)
     \<and> mHTTPAgents m = as_map haID (\<lambda>n. n) (tHTTPAgents db) \<and> keyed_rows haID (tHTTPAgents db)
     \<and> list_all (\<lambda>n. scan_http_agent n = n) (tHTTPAgents db)
     \<and> mAudit m = tAudit db"


section \<open>Calls\<close>

datatype store_call =
    CCreateJob Job
  | CCreateJobs "Job list"
  | CGetJob string
  | CChildJobs string
  | CActiveJobs int
  | CQueuedJobs string "Tool list" ProtocolMask int
  | CClaim time string string
  | CStatus time string JobStatus string
  | CAddEvent JobEvent
  | CEvents string
  | CCreateSchedule ScheduledJob
  | CGetSchedule string
  | CSchedules
  | CDueSchedules time int
  | CUpdateSchedule ScheduledJob
  | CDeleteSchedule string
  | CScheduleRun time ScheduledJob
  | CHistory string HistoryFilter
  | CUpsertAgent Agent
  | CTouchAgent time string
  | CAgentOffline string
  | CDeleteAgent string
  | CStaleAgents time dur
  | CAgents
  | CConfigs
  | CGetConfig string
  | CPutConfig time AgentConfig
  | CDeleteConfig string
  | CHTTPAgents
  | CGetHTTPAgent string
  | CPutHTTPAgent time HTTPAgent
  | CDeleteHTTPAgent string
  | CAudit time AuditEvent

datatype answer =
    ADone "error option"
  | AJobs "error + Job list"
  | AFlag bool
  | ANumber int
  | AEvents "JobEvent list"
  | ASchedules "error + ScheduledJob list"
  | AAgents "Agent list"
  | AConfigs "AgentConfig list"
  | AHTTPAgents "error + HTTPAgent list"

definition one :: "'a res \<Rightarrow> error + 'a list" where
  "one r = bind_res r (\<lambda>x. Inr [x])"

text \<open>An operation that fails leaves the store as it is.\<close>

definition updated :: "'s \<Rightarrow> 's res \<Rightarrow> answer \<times> 's" where
  "updated s r = (case r of Inl e \<Rightarrow> (ADone (Some e), s) | Inr s' \<Rightarrow> (ADone None, s'))"

fun mem_call :: "store_call \<Rightarrow> Memory \<Rightarrow> answer \<times> Memory" where
  "mem_call (CCreateJob j) m = (ADone None, CreateJob j m)"
| "mem_call (CCreateJobs js) m = (ADone None, CreateJobs js m)"
| "mem_call (CGetJob jid) m = (AJobs (one (GetJob jid m)), m)"
| "mem_call (CChildJobs p) m = (AJobs (Inr (ListChildJobs p m)), m)"
| "mem_call (CActiveJobs n) m = (AJobs (Inr (ListActiveJobs n m)), m)"
| "mem_call (CQueuedJobs a caps protocols n) m = (AJobs (Inr (ListQueuedJobs a caps protocols n m)), m)"
| "mem_call (CClaim now jid a) m = apfst AFlag (ClaimQueuedJob now jid a m)"
| "mem_call (CStatus now jid status msg) m = updated m (UpdateJobStatus now jid status msg m)"
| "mem_call (CAddEvent e) m = updated m (AddJobEvent e m)"
| "mem_call (CEvents jid) m = (AEvents (ListJobEvents jid m), m)"
| "mem_call (CCreateSchedule s) m = (ADone None, CreateScheduledJob s m)"
| "mem_call (CGetSchedule sid) m = (ASchedules (one (GetScheduledJob sid m)), m)"
| "mem_call CSchedules m = (ASchedules (Inr (ListScheduledJobs m)), m)"
| "mem_call (CDueSchedules now n) m = (ASchedules (Inr (ListDueScheduledJobs now n m)), m)"
| "mem_call (CUpdateSchedule s) m = updated m (UpdateScheduledJob s m)"
| "mem_call (CDeleteSchedule sid) m = updated m (DeleteScheduledJob sid m)"
| "mem_call (CScheduleRun now s) m = updated m (UpdateScheduledJobRun now s m)"
| "mem_call (CHistory sid f) m = (AJobs (Inr (ListScheduledJobHistory sid f m)), m)"
| "mem_call (CUpsertAgent a) m = (ADone None, UpsertAgent a m)"
| "mem_call (CTouchAgent now aid) m = updated m (TouchAgent now aid m)"
| "mem_call (CAgentOffline aid) m = updated m (MarkAgentOffline aid m)"
| "mem_call (CDeleteAgent aid) m = updated m (DeleteAgent aid m)"
| "mem_call (CStaleAgents now ttl) m = apfst ANumber (MarkStaleAgentsOffline now ttl m)"
| "mem_call CAgents m = (AAgents (map bare_agent (ListAgents m)), m)"
| "mem_call CConfigs m = (AConfigs (ListAgentConfigs m), m)"
| "mem_call (CGetConfig aid) m = (AConfigs [GetAgentConfig aid m], m)"
| "mem_call (CPutConfig now cfg) m = updated m (UpsertAgentConfig now cfg m)"
| "mem_call (CDeleteConfig aid) m = updated m (DeleteAgentConfig aid m)"
| "mem_call CHTTPAgents m = (AHTTPAgents (Inr (ListHTTPAgents m)), m)"
| "mem_call (CGetHTTPAgent aid) m = (AHTTPAgents (one (GetHTTPAgent aid m)), m)"
| "mem_call (CPutHTTPAgent now n) m = updated m (UpsertHTTPAgent now n m)"
| "mem_call (CDeleteHTTPAgent aid) m = updated m (DeleteHTTPAgent aid m)"
| "mem_call (CAudit now e) m = (ADone None, AddAuditEvent now e m)"

fun sql_call :: "dialect \<Rightarrow> store_call \<Rightarrow> Sql \<Rightarrow> answer \<times> Sql" where
  "sql_call d (CCreateJob j) db = updated db (sql_CreateJob d j db)"
| "sql_call d (CCreateJobs js) db = updated db (sql_CreateJobs d js db)"
| "sql_call d (CGetJob jid) db = (AJobs (one (sql_GetJob jid db)), db)"
| "sql_call d (CChildJobs p) db = (AJobs (Inr (sql_ListChildJobs p db)), db)"
| "sql_call d (CActiveJobs n) db = (AJobs (Inr (sql_ListActiveJobs n db)), db)"
| "sql_call d (CQueuedJobs a caps protocols n) db = (AJobs (sql_ListQueuedJobs d a caps protocols n db), db)"
| "sql_call d (CClaim now jid a) db = apfst AFlag (sql_ClaimQueuedJob d now jid a db)"
| "sql_call d (CStatus now jid status msg) db = (ADone None, sql_UpdateJobStatus d now jid status msg db)"
| "sql_call d (CAddEvent e) db = updated db (sql_AddJobEvent d e db)"
| "sql_call d (CEvents jid) db = (AEvents (sql_ListJobEvents jid db), db)"
| "sql_call d (CCreateSchedule s) db = updated db (sql_CreateScheduledJob d s db)"
| "sql_call d (CGetSchedule sid) db = (ASchedules (one (sql_GetScheduledJob sid db)), db)"
| "sql_call d CSchedules db = (ASchedules (Inr (sql_ListScheduledJobs db)), db)"
| "sql_call d (CDueSchedules now n) db = (ASchedules (Inr (sql_ListDueScheduledJobs d now n db)), db)"
| "sql_call d (CUpdateSchedule s) db = updated db (sql_UpdateScheduledJob d s db)"
| "sql_call d (CDeleteSchedule sid) db = updated db (sql_DeleteScheduledJob sid db)"
| "sql_call d (CScheduleRun now s) db = (ADone None, sql_UpdateScheduledJobRun d now s db)"
| "sql_call d (CHistory sid f) db = (AJobs (Inr (sql_ListScheduledJobHistory d sid f db)), db)"
| "sql_call d (CUpsertAgent a) db = (ADone None, sql_UpsertAgent d a db)"
| "sql_call d (CTouchAgent now aid) db = (ADone None, sql_TouchAgent d now aid db)"
| "sql_call d (CAgentOffline aid) db = (ADone None, sql_MarkAgentOffline aid db)"
| "sql_call d (CDeleteAgent aid) db = updated db (sql_DeleteAgent aid db)"
| "sql_call d (CStaleAgents now ttl) db = apfst ANumber (sql_MarkStaleAgentsOffline d now ttl db)"
| "sql_call d CAgents db = (AAgents (map bare_agent (sql_ListAgents db)), db)"
| "sql_call d CConfigs db = (AConfigs (sql_ListAgentConfigs db), db)"
| "sql_call d (CGetConfig aid) db = (AConfigs [sql_GetAgentConfig aid db], db)"
| "sql_call d (CPutConfig now cfg) db = updated db (sql_UpsertAgentConfig d now cfg db)"
| "sql_call d (CDeleteConfig aid) db = updated db (sql_DeleteAgentConfig aid db)"
| "sql_call d CHTTPAgents db = (AHTTPAgents (Inr (sql_ListHTTPAgents db)), db)"
| "sql_call d (CGetHTTPAgent aid) db = (AHTTPAgents (one (sql_GetHTTPAgent aid db)), db)"
| "sql_call d (CPutHTTPAgent now n) db = updated db (sql_UpsertHTTPAgent d now n db)"
| "sql_call d (CDeleteHTTPAgent aid) db = updated db (sql_DeleteHTTPAgent aid db)"
| "sql_call d (CAudit now e) db = (ADone None, sql_AddAuditEvent d now e db)"

text \<open>
  What the program passes: ids are new where something is created and exist where it is changed;
  references exist; times fit the column; limits are positive; an update of a schedule starts
  from the stored one. Without these the stores differ.
\<close>

definition known :: "string \<Rightarrow> (string, 'v) gomap \<Rightarrow> bool" where
  "known k m \<longleftrightarrow> mget m k \<noteq> None"

definition whole :: "dialect \<Rightarrow> time \<Rightarrow> bool" where
  "whole d t \<longleftrightarrow> col_time d t = t"

definition whole_opt :: "dialect \<Rightarrow> time option \<Rightarrow> bool" where
  "whole_opt d t \<longleftrightarrow> (case t of None \<Rightarrow> True | Some t \<Rightarrow> whole d t)"

definition job_ok :: "dialect \<Rightarrow> Job \<Rightarrow> Memory \<Rightarrow> bool" where
  "job_ok d j m \<longleftrightarrow>
     \<not> known (jID j) (mJobs m) \<and> (jParentID j = [] \<or> known (jParentID j) (mJobs m))
     \<and> (jScheduledID j = [] \<or> known (jScheduledID j) (mSchedules m)) \<and> (jAgentID j = [] \<or> known (jAgentID j) (mAgents m))
     \<and> jIPVersion j \<in> {0, 4, 6} \<and> whole d (jCreatedAt j) \<and> whole d (jUpdatedAt j) \<and> whole_opt d (jStartedAt j)
     \<and> whole_opt d (jCompletedAt j)"

fun jobs_ok :: "dialect \<Rightarrow> Job list \<Rightarrow> Memory \<Rightarrow> bool" where
  "jobs_ok d [] m = True"
| "jobs_ok d (j # js) m = (job_ok d j m \<and> jobs_ok d js (CreateJob j m))"

definition event_ok :: "dialect \<Rightarrow> JobEvent \<Rightarrow> Memory \<Rightarrow> bool" where
  "event_ok d e m \<longleftrightarrow>
     known (eJobID e) (mJobs m) \<and> (eAgentID e = [] \<or> known (eAgentID e) (mAgents m))
     \<and> list_all (\<lambda>(_, es). list_all (\<lambda>old. eID old \<noteq> eID e) es) (mEvents m)
     \<and> list_all (\<lambda>old. eCreatedAt old \<le> eCreatedAt e) (events_of (eJobID e) m)
     \<and> (case eEvent e of None \<Rightarrow> True | Some v \<Rightarrow> seType v \<noteq> []) \<and> whole d (eCreatedAt e)"

definition schedule_ok :: "dialect \<Rightarrow> ScheduledJob \<Rightarrow> bool" where
  "schedule_ok d s \<longleftrightarrow> whole d (sNextRunAt s) \<and> whole_opt d (sLastRunAt s) \<and> whole d (sCreatedAt s) \<and> whole d (sUpdatedAt s)"

fun call_ok :: "dialect \<Rightarrow> store_call \<Rightarrow> Memory \<Rightarrow> bool" where
  "call_ok d (CCreateJob j) m = job_ok d j m"
| "call_ok d (CCreateJobs js) m = jobs_ok d js m"
| "call_ok d (CChildJobs p) m = (p \<noteq> [])"
| "call_ok d (CActiveJobs n) m = (0 < n)"
| "call_ok d (CQueuedJobs a caps protocols n) m = (a \<noteq> [] \<and> 0 < n)"
| "call_ok d (CClaim now jid a) m = (a \<noteq> [] \<and> whole d now)"
| "call_ok d (CStatus now jid status msg) m = (known jid (mJobs m) \<and> whole d now)"
| "call_ok d (CAddEvent e) m = event_ok d e m"
| "call_ok d (CCreateSchedule s) m = (\<not> known (sID s) (mSchedules m) \<and> schedule_ok d s)"
| "call_ok d (CDueSchedules now n) m = (0 < n \<and> whole d now)"
| "call_ok d (CUpdateSchedule s) m =
     (schedule_ok d s \<and> (case mget (mSchedules m) (sID s) of None \<Rightarrow> True | Some old \<Rightarrow> sCreatedAt s = sCreatedAt old))"
| "call_ok d (CDeleteSchedule sid) m = list_all (\<lambda>(_, j). jScheduledID j = [] \<or> jScheduledID j \<noteq> sid) (mJobs m)"
| "call_ok d (CScheduleRun now s) m =
     (whole d now \<and> schedule_ok d s \<and>
      (case mget (mSchedules m) (sID s) of
         None \<Rightarrow> False
       | Some old \<Rightarrow> \<not> IsZero (sCreatedAt s) \<and>
           s = old\<lparr>sLastRunAt := sLastRunAt s, sNextRunAt := sNextRunAt s, sScheduleTargets := sScheduleTargets s,
                   sUpdatedAt := sUpdatedAt s\<rparr>))"
| "call_ok d (CHistory sid f) m =
     (sid \<noteq> [] \<and> hfBucketSeconds f \<le> 0 \<and> (hfHasFrom f \<longrightarrow> whole d (hfFrom f)) \<and> (hfHasTo f \<longrightarrow> whole d (hfTo f))
      \<and> list_all (\<lambda>(_, j). case jStartedAt j of None \<Rightarrow> True | Some t \<Rightarrow> \<not> IsZero t) (mJobs m))"
| "call_ok d (CUpsertAgent a) m = (whole d (aLastSeenAt a) \<and> whole d (aCreatedAt a))"
| "call_ok d (CTouchAgent now aid) m = (known aid (mAgents m) \<and> whole d now)"
| "call_ok d (CAgentOffline aid) m = known aid (mAgents m)"
| "call_ok d (CDeleteAgent aid) m =
     (list_all (\<lambda>(_, j). jAgentID j = [] \<or> jAgentID j \<noteq> aid) (mJobs m)
      \<and> list_all (\<lambda>(_, es). list_all (\<lambda>e. eAgentID e = [] \<or> eAgentID e \<noteq> aid) es) (mEvents m))"
| "call_ok d (CStaleAgents now ttl) m = whole d (now - ttl)"
| "call_ok d (CPutConfig now cfg) m = whole d now"
| "call_ok d (CPutHTTPAgent now n) m = whole d now"
| "call_ok d (CAudit now e) m =
     (whole d now \<and> whole d (auCreatedAt e)
      \<and> (d = SQLite \<or> list_all (\<lambda>txt. TrimSpace txt = txt) [auSubject e, auAction e, auTarget e, auDecision e, auReason e]))"
| "call_ok d c m = True"

end
