(* ===== verification/SqlSteps.thy ===== *)
theory SqlSteps
  imports SqlRefine
begin

text \<open>
  Call by call: on related stores an admissible call of a SQL store answers what the in-memory
  store answers, and leaves the stores related.
\<close>


section \<open>Each call\<close>

abbreviation agree :: "dialect \<Rightarrow> store_call \<Rightarrow> Sql \<Rightarrow> Memory \<Rightarrow> bool" where
  "agree d c db m \<equiv> fst (sql_call d c db) = fst (mem_call c m) \<and> sim (snd (sql_call d c db)) (snd (mem_call c m))"

lemma simD:
  assumes "sim db m"
  shows "mJobs m = as_map rjID scan_job (tJobs db)" "keyed_rows rjID (tJobs db)" "list_all row_ok (tJobs db)"
    "events_sim (tEvents db) m" "mSchedules m = as_map sID (\<lambda>s. s) (tSchedules db)" "keyed_rows sID (tSchedules db)"
    "map (apsnd bare_agent) (mAgents m) = as_map aID bare_agent (tAgents db)" "keyed_rows aID (tAgents db)"
    "mAgentCfgs m = as_map acID (\<lambda>c. c) (tConfigs db)" "keyed_rows acID (tConfigs db)"
    "list_all (\<lambda>c. scan_config c = c) (tConfigs db)" "mHTTPAgents m = as_map haID (\<lambda>n. n) (tHTTPAgents db)"
    "keyed_rows haID (tHTTPAgents db)" "list_all (\<lambda>n. scan_http_agent n = n) (tHTTPAgents db)" "mAudit m = tAudit db"
  using assms unfolding sim_def by blast+

lemma whole_col [simp]: "whole d t \<Longrightarrow> col_time d t = t"
  by (simp add: whole_def)

lemma whole_opt_col [simp]: "whole_opt d t \<Longrightarrow> map_option (col_time d) t = t"
  by (cases t) (simp_all add: whole_opt_def)

lemma whole_SQLite [simp]: "whole SQLite t" "whole_opt SQLite t'"
  by (simp_all add: whole_def whole_opt_def col_time_def split: option.split)

lemma coalesce_null [simp]: "coalesce (nullString s) = s"
  by (simp add: coalesce_def nullString_def)

lemma null_not_empty [simp]: "nullString s \<noteq> Some []" "nullString s = None \<longleftrightarrow> s = []" "nullString s = Some k \<longleftrightarrow> s = k \<and> k \<noteq> []"
  by (auto simp: nullString_def)

lemma coalesce_iff: "v \<noteq> Some [] \<Longrightarrow> k \<noteq> [] \<Longrightarrow> coalesce v = k \<longleftrightarrow> v = Some k"
  by (auto simp: coalesce_def split: option.split)

lemma known_as_map: "known k (as_map key val rows) \<longleftrightarrow> k \<in> key ` set rows"
  by (auto simp: known_def mget_as_map find_Some_iff find_None_iff)

lemma known_map: "known k (map (apsnd f) m) = known k m"
  by (induction m) (auto simp: known_def)

lemma known_agents: "sim db m \<Longrightarrow> known aid (mAgents m) \<longleftrightarrow> aid \<in> aID ` set (tAgents db)"
  using known_map [of aid bare_agent "mAgents m"] by (simp add: simD(7) known_as_map)

text \<open>The condition of an update on one key besides the key itself.\<close>

lemma update_where_and:
  assumes "keyed_rows key rows"
  shows "update_where (\<lambda>r. key r = k \<and> Q r) f rows =
      (case find (\<lambda>r. key r = k) rows of None \<Rightarrow> rows | Some r \<Rightarrow> if Q r then update_where (\<lambda>r. key r = k) f rows else rows)"
  using assms
proof (induction rows)
  case (Cons x rows)
  have k: "keyed_rows key rows" and n: "key x \<notin> key ` set rows" using Cons.prems by (auto simp: keyed_rows_def)
  have "key r \<noteq> key x" if "r \<in> set rows" for r using n that by (metis imageI)
  then have "update_where (\<lambda>r. key r = key x \<and> Q r) f rows = rows" "update_where (\<lambda>r. key r = key x) f rows = rows"
    by (simp_all add: update_where_none)
  with Cons.IH [OF k] show ?case by (cases "key x = k") (auto simp: update_where_def split: option.splits)
qed (simp add: update_where_def)

lemma rows_affected_and:
  assumes "keyed_rows key rows"
  shows "0 < rows_affected (\<lambda>r. key r = k \<and> Q r) rows \<longleftrightarrow> (\<exists>r. find (\<lambda>r. key r = k) rows = Some r \<and> Q r)"
  using assms by (auto simp: rows_affected_def filter_empty_conv find_row_iff)

lemma scan_cols:
  "whole d (jCreatedAt j) \<Longrightarrow> whole d (jUpdatedAt j) \<Longrightarrow> whole_opt d (jStartedAt j) \<Longrightarrow> whole_opt d (jCompletedAt j) \<Longrightarrow>
   scan_job (job_cols d j) = j"
  by (simp add: scan_job_def job_cols_def)

lemma scan_simps [simp]:
  "jID (scan_job r) = rjID r" "jParentID (scan_job r) = coalesce (rjParentID r)" "jScheduledID (scan_job r) = coalesce (rjScheduledID r)"
  "jScheduledRevision (scan_job r) = rjScheduledRevision r" "jTool (scan_job r) = rjTool r" "jIPVersion (scan_job r) = rjIPVersion r"
  "jAgentID (scan_job r) = coalesce (rjAgentID r)" "jStatus (scan_job r) = rjStatus r" "jCreatedAt (scan_job r) = rjCreatedAt r"
  "jStartedAt (scan_job r) = rjStartedAt r"
  by (simp_all add: scan_job_def)

lemma cols_simps [simp]: "rjID (job_cols d j) = jID j"
  by (simp add: job_cols_def)

lemma events_sim_jobs [simp]: "events_sim rows (m\<lparr>mJobs := js\<rparr>) = events_sim rows m"
  by (simp add: events_sim_def events_of_def)

lemma sim_jobs:
  "sim db m \<Longrightarrow> keyed_rows rjID rows \<Longrightarrow> list_all row_ok rows \<Longrightarrow> js = as_map rjID scan_job rows \<Longrightarrow>
   sim (db\<lparr>tJobs := rows\<rparr>) (m\<lparr>mJobs := js\<rparr>)"
  by (simp add: sim_def)

lemma insert_job_sim:
  assumes s: "sim db m" and ok: "job_ok d j m"
  shows "\<exists>db'. insert_job d j db = Inr db' \<and> sim db' (CreateJob j m)"
proof -
  let ?r = "job_cols d j"
  have new: "jID j \<notin> rjID ` set (tJobs db)" using ok by (simp add: job_ok_def simD(1) [OF s] known_as_map)
  have refs: "references (rjParentID ?r) (rjID ?r # map rjID (tJobs db))" "references (rjScheduledID ?r) (map sID (tSchedules db))"
    "references (rjAgentID ?r) (map aID (tAgents db))"
    using ok by (auto simp: job_ok_def simD(1,5) [OF s] known_agents [OF s] known_as_map references_def job_cols_def nullString_def)
  have ins: "insert_job d j db = Inr (db\<lparr>tJobs := tJobs db @ [?r]\<rparr>)"
    using new refs by (simp add: insert_job_def insert_row_def Let_def)
  have "scan_job ?r = j" using ok by (simp add: job_ok_def scan_cols)
  then have "mput (jID j) j (mJobs m) = as_map rjID scan_job (tJobs db @ [?r])"
    by (simp add: simD(1) [OF s] as_map_snoc mput_new [OF new])
  moreover have "row_ok ?r" using ok by (auto simp: row_ok_def job_cols_def job_ok_def)
  ultimately have "sim (db\<lparr>tJobs := tJobs db @ [?r]\<rparr>) (CreateJob j m)"
    unfolding CreateJob_def by (intro sim_jobs [OF s]) (use new simD(2,3) [OF s] in auto)
  with ins show ?thesis by blast
qed

lemma CreateJobs_Cons: "CreateJobs (j # js) m = CreateJobs js (CreateJob j m)"
  by (simp add: CreateJobs_def CreateJob_def)

lemma insert_jobs_sim:
  "sim db m \<Longrightarrow> jobs_ok d js m \<Longrightarrow> \<exists>db'. sql_CreateJobs d js db = Inr db' \<and> sim db' (CreateJobs js m)"
proof (induction js arbitrary: db m)
  case (Cons j js)
  from insert_job_sim [of db m d j] Cons.prems obtain db1 where "insert_job d j db = Inr db1" "sim db1 (CreateJob j m)" by auto
  with Cons.IH [of db1 "CreateJob j m"] Cons.prems(2) show ?case by (simp add: CreateJobs_Cons)
qed (simp add: CreateJobs_def)

lemma agree_create:
  assumes "sim db m"
  shows "job_ok d j m \<Longrightarrow> agree d (CCreateJob j) db m" "jobs_ok d js m \<Longrightarrow> agree d (CCreateJobs js) db m"
  using insert_job_sim [OF assms, of d j] insert_jobs_sim [OF assms, of d js] by (auto simp: updated_def sql_CreateJob_def)

lemma sql_limit_take: "0 < n \<Longrightarrow> sql_limit n xs = take_limit n xs"
  by (auto simp: sql_limit_def take_limit_def)

lemma take_limit_map: "take_limit n (map f xs) = map f (take_limit n xs)"
  by (simp add: take_limit_def take_map)

lemma filter_rows: "list_all P rows \<Longrightarrow> (\<And>r. P r \<Longrightarrow> A r = B r) \<Longrightarrow> filter A rows = filter B rows"
  by (auto simp: list_all_iff intro!: filter_cong)

lemma job_listing:
  assumes "sim db m" "\<And>r. row_ok r \<Longrightarrow> P (scan_job r) = Q r"
  shows "sort_key jCreatedAt (filter P (map snd (mJobs m))) = map scan_job (sort_key rjCreatedAt (filter Q (tJobs db)))"
proof -
  have "filter P (map scan_job (tJobs db)) = map scan_job (filter Q (tJobs db))"
    using filter_rows [OF simD(3) [OF assms(1)], of "\<lambda>r. P (scan_job r)" Q] assms(2) by (simp add: filter_map comp_def)
  then show ?thesis by (simp add: simD(1) [OF assms(1)] sort_key_map)
qed

lemma agree_lists:
  assumes s: "sim db m"
  shows "p \<noteq> [] \<Longrightarrow> agree d (CChildJobs p) db m" "0 < n \<Longrightarrow> agree d (CActiveJobs n) db m"
    "a \<noteq> [] \<Longrightarrow> 0 < n \<Longrightarrow> agree d (CQueuedJobs a caps protocols n) db m" "agree d (CGetJob jid) db m"
proof -
  have "ListChildJobs p m = sql_ListChildJobs p db" if "p \<noteq> []"
    unfolding ListChildJobs_def sql_ListChildJobs_def using that by (intro job_listing [OF s]) (simp add: row_ok_def coalesce_iff)
  with s show "p \<noteq> [] \<Longrightarrow> agree d (CChildJobs p) db m" by simp
  have act: "sort_key jCreatedAt (filter (\<lambda>j. jStatus j = JobQueued \<or> jStatus j = JobRunning) (map snd (mJobs m))) =
      map scan_job (sort_key rjCreatedAt (filter (\<lambda>r. rjStatus r \<in> {JobQueued, JobRunning}) (tJobs db)))"
    by (rule job_listing [OF s]) simp
  have "0 < n \<Longrightarrow> ListActiveJobs n m = sql_ListActiveJobs n db"
    by (simp only: ListActiveJobs_def sql_ListActiveJobs_def act take_limit_map) (simp add: sql_limit_take)
  with s show "0 < n \<Longrightarrow> agree d (CActiveJobs n) db m" by simp
  have q: "sort_key jCreatedAt (filter (queued_for a caps protocols) (map snd (mJobs m))) =
      map scan_job (sort_key rjCreatedAt (filter (queued_row a caps protocols) (tJobs db)))" if "a \<noteq> []"
    using that by (intro job_listing [OF s])
      (auto simp: row_ok_def queued_for_def queued_row_def coalesce_iff protocolForJob_def ProtocolIPv4_def ProtocolIPv6_def)
  have "a \<noteq> [] \<Longrightarrow> 0 < n \<Longrightarrow> sql_ListQueuedJobs d a caps protocols n db = Inr (ListQueuedJobs a caps protocols n m)"
    by (simp add: ListQueuedJobs_def sql_ListQueuedJobs_def q take_limit_map sql_limit_take Let_def split: dialect.split)
  with s show "a \<noteq> [] \<Longrightarrow> 0 < n \<Longrightarrow> agree d (CQueuedJobs a caps protocols n) db m" by simp
  have "sql_GetJob jid db = GetJob jid m"
    by (simp add: sql_GetJob_def GetJob_def simD(1) [OF s] mget_as_map split: option.split)
  with s show "agree d (CGetJob jid) db m" by simp
qed


subsection \<open>Jobs and events\<close>

lemma row_of:
  assumes "sim db m" "mget (mJobs m) jid = Some j"
  shows "\<exists>r. r \<in> set (tJobs db) \<and> rjID r = jid \<and> j = scan_job r \<and> row_ok r \<and> find (\<lambda>r. rjID r = jid) (tJobs db) = Some r"
  using assms(2) simD(3) [OF assms(1)] find_row [of rjID jid "tJobs db"]
  by (auto simp: simD(1) [OF assms(1)] mget_as_map list_all_iff)

lemma list_all_update_where: "list_all P rows \<Longrightarrow> (\<And>r. P r \<Longrightarrow> P (f r)) \<Longrightarrow> list_all P (update_where Q f rows)"
  by (auto simp: list_all_iff set_update_where)

lemma scan_claim [simp]:
  "scan_job (claim_row now r) =
     (scan_job r)\<lparr>jStatus := JobRunning, jUpdatedAt := now,
       jStartedAt := (if rjStartedAt r = None then Some now else rjStartedAt r)\<rparr>"
  by (simp add: scan_job_def claim_row_def)

lemma scan_status [simp]: "scan_job (status_row now status msg r) = set_job_status now status msg (scan_job r)"
  by (simp add: scan_job_def status_row_def set_job_status_def coalesce_def)

lemma status_row_id [simp]: "rjID (status_row now status msg r) = rjID r"
  by (simp add: status_row_def)

lemma agree_claim:
  assumes s: "sim db m" and a: "a \<noteq> []" and w: "whole d now"
  shows "agree d (CClaim now jid a) db m"
proof -
  let ?Q = "\<lambda>r. rjAgentID r = Some a \<and> rjStatus r = JobQueued"
  have cl: "claimable jid a = (\<lambda>r. rjID r = jid \<and> ?Q r)" by (auto simp: claimable_def)
  show ?thesis
  proof (cases "mget (mJobs m) jid")
    case None
    then have "find (\<lambda>r. rjID r = jid) (tJobs db) = None" by (simp add: simD(1) [OF s] mget_as_map)
    with s None show ?thesis
      by (simp add: sql_ClaimQueuedJob_def ClaimQueuedJob_def cl update_where_and [OF simD(2) [OF s]]
          rows_affected_and [OF simD(2) [OF s], of jid ?Q, simplified])
  next
    case (Some j)
    then obtain r where r: "r \<in> set (tJobs db)" "rjID r = jid" "j = scan_job r" "row_ok r"
      "find (\<lambda>r. rjID r = jid) (tJobs db) = Some r" using row_of [OF s] by blast
    have q: "?Q r \<longleftrightarrow> jAgentID j = a \<and> jStatus j = JobQueued" using r(3,4) a by (auto simp: row_ok_def coalesce_iff)
    show ?thesis
    proof (cases "?Q r")
      case True
      have "mput jid (scan_job (claim_row now r)) (mJobs m) =
          as_map rjID scan_job (update_where (\<lambda>r. rjID r = jid) (claim_row now) (tJobs db))"
        unfolding simD(1) [OF s] by (rule mput_update [OF simD(2) [OF s] r(1,2)]) (simp_all add: claim_row_def)
      then have "sim (db\<lparr>tJobs := update_where (\<lambda>r. rjID r = jid) (claim_row now) (tJobs db)\<rparr>)
          (m\<lparr>mJobs := mput jid (scan_job (claim_row now r)) (mJobs m)\<rparr>)"
        by (intro sim_jobs [OF s])
          (use simD(2,3) [OF s] in \<open>auto simp: claim_row_def row_ok_def intro!: list_all_update_where\<close>)
      with True q r w Some show ?thesis
        by (cases "rjStartedAt r") (simp_all add: sql_ClaimQueuedJob_def ClaimQueuedJob_def cl update_where_and [OF simD(2) [OF s]]
          rows_affected_and [OF simD(2) [OF s], of jid ?Q, simplified])
    next
      case False
      with q r w Some s show ?thesis
        by (auto simp: sql_ClaimQueuedJob_def ClaimQueuedJob_def cl update_where_and [OF simD(2) [OF s]]
          rows_affected_and [OF simD(2) [OF s], of jid ?Q, simplified])
    qed
  qed
qed

lemma agree_status:
  assumes s: "sim db m" and k: "known jid (mJobs m)" and w: "whole d now"
  shows "agree d (CStatus now jid status msg) db m"
proof -
  from k obtain j where j: "mget (mJobs m) jid = Some j" by (auto simp: known_def)
  from row_of [OF s j] obtain r where r: "r \<in> set (tJobs db)" "rjID r = jid" "j = scan_job r" by blast
  have "mput jid (set_job_status now status msg j) (mJobs m) =
      as_map rjID scan_job (update_where (\<lambda>r. rjID r = jid) (status_row now status msg) (tJobs db))"
    unfolding simD(1) [OF s] r(3) by (rule mput_update [OF simD(2) [OF s] r(1,2)]) simp_all
  then have "sim (db\<lparr>tJobs := update_where (\<lambda>r. rjID r = jid) (status_row now status msg) (tJobs db)\<rparr>)
      (m\<lparr>mJobs := mput jid (set_job_status now status msg j) (mJobs m)\<rparr>)"
    by (intro sim_jobs [OF s]) (use simD(2,3) [OF s] in \<open>auto simp: status_row_def row_ok_def intro!: list_all_update_where\<close>)
  with j w show ?thesis by (simp add: UpdateJobStatus_def sql_UpdateJobStatus_def updated_def)
qed

lemma scan_event_cols:
  "whole d (eCreatedAt e) \<Longrightarrow> (case eEvent e of None \<Rightarrow> True | Some v \<Rightarrow> seType v \<noteq> []) \<Longrightarrow> scan_event (event_cols d e) = e"
  by (auto simp: scan_event_def event_cols_def split: option.splits)

lemma events_of_put [simp]: "events_of jid (m\<lparr>mEvents := mput k v (mEvents m)\<rparr>) = (if jid = k then v else events_of jid m)"
  by (simp add: events_of_def)

lemma events_simD:
  assumes "sim db m"
  shows "events_of jid m = map scan_event (filter (\<lambda>r. rvJobID r = jid) (tEvents db))"
    "sorted (map rvCreatedAt (filter (\<lambda>r. rvJobID r = jid) (tEvents db)))" "list_all (\<lambda>r. rvAgentID r \<noteq> Some []) (tEvents db)"
  using simD(4) [OF assms] unfolding events_sim_def by blast+

lemma events_of_mem: "e \<in> set (events_of jid m) \<Longrightarrow> \<exists>k es. (k, es) \<in> set (mEvents m) \<and> e \<in> set es"
  by (cases "mget (mEvents m) jid") (auto simp: events_of_def dest: map_of_SomeD)

lemma agree_event:
  assumes s: "sim db m" and ok: "event_ok d e m"
  shows "agree d (CAddEvent e) db m"
proof -
  let ?r = "event_cols d e"
  have old: "eID o' \<noteq> eID e" if "o' \<in> set (events_of jid m)" for jid o'
    using events_of_mem [OF that] ok by (fastforce simp: event_ok_def list_all_iff)
  have "rvID r \<noteq> eID e" if "r \<in> set (tEvents db)" for r
    using old [of "scan_event r" "rvJobID r"] that by (simp add: events_simD(1) [OF s]) (simp add: scan_event_def)
  then have new: "eID e \<notin> rvID ` set (tEvents db)" by (metis imageE)
  have refs: "eJobID e \<in> rjID ` set (tJobs db)" "references (nullString (eAgentID e)) (map aID (tAgents db))"
    using ok by (auto simp: event_ok_def simD(1) [OF s] known_as_map known_agents [OF s] references_def nullString_def)
  have ins: "sql_AddJobEvent d e db = Inr (db\<lparr>tEvents := tEvents db @ [?r]\<rparr>)"
    using new refs by (simp add: sql_AddJobEvent_def insert_row_def Let_def event_cols_def)
  obtain j where "mget (mJobs m) (eJobID e) = Some j" using ok by (auto simp: event_ok_def known_def)
  then have add: "AddJobEvent e m = Inr (m\<lparr>mEvents := mput (eJobID e) (events_of (eJobID e) m @ [e]) (mEvents m)\<rparr>)"
    by (simp add: AddJobEvent_def)
  have cols: "rvJobID ?r = eJobID e" "rvAgentID ?r \<noteq> Some []" "scan_event ?r = e" "rvCreatedAt ?r = eCreatedAt e"
    using ok by (auto simp: event_ok_def scan_event_cols) (simp_all add: event_cols_def event_ok_def)
  have later: "rvCreatedAt r \<le> eCreatedAt e" if "r \<in> set (tEvents db)" "rvJobID r = eJobID e" for r
  proof -
    have "scan_event r \<in> set (events_of (eJobID e) m)" using that by (simp add: events_simD(1) [OF s])
    with ok have "eCreatedAt (scan_event r) \<le> eCreatedAt e" by (simp add: event_ok_def list_all_iff)
    then show ?thesis by (simp add: scan_event_def)
  qed
  have "events_sim (tEvents db @ [?r]) (m\<lparr>mEvents := mput (eJobID e) (events_of (eJobID e) m @ [e]) (mEvents m)\<rparr>)"
    using events_simD [OF s] cols later by (auto simp: events_sim_def sorted_append)
  then have "sim (db\<lparr>tEvents := tEvents db @ [?r]\<rparr>) (m\<lparr>mEvents := mput (eJobID e) (events_of (eJobID e) m @ [e]) (mEvents m)\<rparr>)"
    using s by (simp add: sim_def)
  with ins add show ?thesis by (simp add: updated_def)
qed

lemma agree_events: "sim db m \<Longrightarrow> agree d (CEvents jid) db m"
  using events_simD(1,2) [of db m jid] by (simp add: sql_ListJobEvents_def ListJobEvents_def sort_key_id_if_sorted)


subsection \<open>Schedules\<close>

lemma whole_le: "col_time d a \<le> t" if "a \<le> t" "whole d t" for a t
  using that by (cases d) (auto simp: whole_def col_time_def zdiv_mono1)

lemma schedule_cols_ok [simp]: "schedule_ok d s \<Longrightarrow> schedule_cols d s = s"
  by (simp add: schedule_ok_def schedule_cols_def)

lemma sim_schedules:
  "sim db m \<Longrightarrow> keyed_rows sID rows \<Longrightarrow> ss = as_map sID (\<lambda>s. s) rows \<Longrightarrow> sim (db\<lparr>tSchedules := rows\<rparr>) (m\<lparr>mSchedules := ss\<rparr>)"
  by (simp add: sim_def events_sim_def events_of_def)

lemma schedule_get:
  "sim db m \<Longrightarrow> mget (mSchedules m) sid = find (\<lambda>s. sID s = sid) (tSchedules db)"
  by (simp add: simD(5) mget_as_map option.map_ident)

lemma schedule_missing: "sim db m \<Longrightarrow> mget (mSchedules m) sid = None \<Longrightarrow> sid \<notin> sID ` set (tSchedules db)"
  by (metis schedule_get find_None_key)

lemma schedule_known: "sim db m \<Longrightarrow> mget (mSchedules m) sid = Some old \<Longrightarrow> sid \<in> sID ` set (tSchedules db)"
  by (metis schedule_get find_None_key option.distinct(1))

lemma agree_schedule_reads:
  assumes s: "sim db m"
  shows "agree d (CGetSchedule sid) db m" "agree d CSchedules db m" "0 < n \<Longrightarrow> whole d now \<Longrightarrow> agree d (CDueSchedules now n) db m"
proof -
  have "sql_GetScheduledJob sid db = GetScheduledJob sid m"
    by (simp add: sql_GetScheduledJob_def GetScheduledJob_def schedule_get [OF s])
  with s show "agree d (CGetSchedule sid) db m" by simp
  show "agree d CSchedules db m"
    using s by (simp add: sql_ListScheduledJobs_def ListScheduledJobs_def simD(5) [OF s])
  show "0 < n \<Longrightarrow> whole d now \<Longrightarrow> agree d (CDueSchedules now n) db m"
    using s by (simp add: sql_ListDueScheduledJobs_def ListDueScheduledJobs_def simD(5) [OF s] sql_limit_take not_less)
qed

lemma agree_new_schedule:
  assumes s: "sim db m" and k: "\<not> known (sID sch) (mSchedules m)" and ok: "schedule_ok d sch"
  shows "agree d (CCreateSchedule sch) db m"
proof -
  have new: "sID sch \<notin> sID ` set (tSchedules db)" using k by (simp add: simD(5) [OF s] known_as_map)
  have "sim (db\<lparr>tSchedules := tSchedules db @ [sch]\<rparr>) (CreateScheduledJob sch m)"
    unfolding CreateScheduledJob_def
    by (intro sim_schedules [OF s]) (use new simD(6) [OF s] in \<open>simp_all add: simD(5) [OF s] mput_new as_map_snoc\<close>)
  with new ok show ?thesis by (simp add: sql_CreateScheduledJob_def insert_row_def updated_def)
qed

text \<open>The row of a known schedule is replaced.\<close>

lemma put_schedule:
  assumes s: "sim db m" and g: "mget (mSchedules m) sid = Some old" and f: "f old = new" "\<And>x. sID x = sid \<Longrightarrow> sID (f x) = sid"
  shows "sim (db\<lparr>tSchedules := update_where (\<lambda>s. sID s = sid) f (tSchedules db)\<rparr>) (m\<lparr>mSchedules := mput sid new (mSchedules m)\<rparr>)"
proof -
  have old: "old \<in> set (tSchedules db)" "sID old = sid" using g by (auto simp: schedule_get [OF s] dest: find_row)
  have "mput sid new (mSchedules m) = as_map sID (\<lambda>s. s) (update_where (\<lambda>s. sID s = sid) f (tSchedules db))"
    unfolding simD(5) [OF s] by (rule mput_update [OF simD(6) [OF s] old f(2)]) (simp_all add: f(1))
  moreover have "keyed_rows sID (update_where (\<lambda>s. sID s = sid) f (tSchedules db))"
    using simD(6) [OF s] by (rule update_keys) (simp add: f(2))
  ultimately show ?thesis by (intro sim_schedules [OF s])
qed

lemma agree_schedule_update:
  assumes s: "sim db m" and ok: "call_ok d (CUpdateSchedule sch) m"
  shows "agree d (CUpdateSchedule sch) db m"
proof (cases "mget (mSchedules m) (sID sch)")
  case None
  with s show ?thesis
    using schedule_missing [OF s None]
    by (simp add: UpdateScheduledJob_def sql_UpdateScheduledJob_def updated_def rows_affected_key)
next
  case (Some old)
  then have "sID sch \<in> sID ` set (tSchedules db)" by (rule schedule_known [OF s])
  moreover have "sCreatedAt sch = sCreatedAt old" using ok Some by simp
  then have "sch\<lparr>sCreatedAt := sCreatedAt old\<rparr> = sch" by (cases sch) simp
  ultimately show ?thesis using ok Some put_schedule [OF s Some, of "\<lambda>old. sch\<lparr>sCreatedAt := sCreatedAt old\<rparr>" sch]
    by (simp add: UpdateScheduledJob_def sql_UpdateScheduledJob_def updated_def rows_affected_key)
qed

lemma agree_schedule_run:
  assumes s: "sim db m" and ok: "call_ok d (CScheduleRun now sch) m"
  shows "agree d (CScheduleRun now sch) db m"
proof -
  from ok obtain old where old: "mget (mSchedules m) (sID sch) = Some old" and z: "\<not> IsZero (sCreatedAt sch)"
    and w: "whole d now" "schedule_ok d sch"
    and e: "sch = old\<lparr>sLastRunAt := sLastRunAt sch, sNextRunAt := sNextRunAt sch, sScheduleTargets := sScheduleTargets sch,
              sUpdatedAt := sUpdatedAt sch\<rparr>" by (auto split: option.splits)
  let ?f = "\<lambda>x. x\<lparr>sLastRunAt := sLastRunAt sch, sNextRunAt := sNextRunAt sch, sScheduleTargets := sScheduleTargets sch,
                  sUpdatedAt := now\<rparr>"
  have "sch\<lparr>sCreatedAt := sCreatedAt sch, sUpdatedAt := now\<rparr> = (old\<lparr>sLastRunAt := sLastRunAt sch, sNextRunAt := sNextRunAt sch,
      sScheduleTargets := sScheduleTargets sch, sUpdatedAt := sUpdatedAt sch\<rparr>)\<lparr>sCreatedAt := sCreatedAt sch, sUpdatedAt := now\<rparr>"
    by (rule arg_cong [OF e])
  moreover have "sCreatedAt sch = sCreatedAt old" using arg_cong [OF e, of sCreatedAt] by simp
  ultimately have "?f old = sch\<lparr>sCreatedAt := sCreatedAt sch, sUpdatedAt := now\<rparr>" by simp
  from put_schedule [OF s old, of ?f, OF this] w z old show ?thesis
    by (simp add: UpdateScheduledJobRun_def sql_UpdateScheduledJobRun_def updated_def schedule_ok_def)
qed


text \<open>No job refers to a schedule that is deleted, so the delete changes the schedules only.\<close>

lemma no_refs: "row_ok r \<Longrightarrow> jScheduledID (scan_job r) = [] \<or> jScheduledID (scan_job r) \<noteq> sid \<Longrightarrow> rjScheduledID r \<noteq> Some sid"
  by (auto simp: row_ok_def coalesce_def split: option.splits)

lemma jobs_of_rows: "sim db m \<Longrightarrow> list_all (\<lambda>(_, j). P j) (mJobs m) \<longleftrightarrow> list_all (\<lambda>r. P (scan_job r)) (tJobs db)"
  by (simp add: simD(1) as_map_def list_all_iff)

lemma agree_schedule_delete:
  assumes s: "sim db m" and ok: "call_ok d (CDeleteSchedule sid) m"
  shows "agree d (CDeleteSchedule sid) db m"
proof (cases "mget (mSchedules m) sid")
  case None
  with s show ?thesis
    using schedule_missing [OF s None]
    by (simp add: DeleteScheduledJob_def sql_DeleteScheduledJob_def updated_def rows_affected_key)
next
  case (Some old)
  then have known: "sid \<in> sID ` set (tSchedules db)" by (rule schedule_known [OF s])
  have "list_all (\<lambda>r. jScheduledID (scan_job r) = [] \<or> jScheduledID (scan_job r) \<noteq> sid) (tJobs db)"
    using ok jobs_of_rows [OF s, of "\<lambda>j. jScheduledID j = [] \<or> jScheduledID j \<noteq> sid"] by simp
  then have "update_where (\<lambda>r. rjScheduledID r = Some sid) (\<lambda>r. r\<lparr>rjScheduledID := None\<rparr>) (tJobs db) = tJobs db"
    using simD(3) [OF s] no_refs by (intro update_where_none) (auto simp: list_all_iff simp del: scan_simps)
  moreover have "sim (db\<lparr>tSchedules := delete_where (\<lambda>s. sID s = sid) (tSchedules db)\<rparr>) (m\<lparr>mSchedules := mdel sid (mSchedules m)\<rparr>)"
    by (intro sim_schedules [OF s]) (simp_all add: simD(5,6) [OF s] mdel_as_map)
  ultimately show ?thesis using Some known
    by (simp add: DeleteScheduledJob_def sql_DeleteScheduledJob_def updated_def rows_affected_key)
qed

lemma insort_key_cong: "f x = g x \<Longrightarrow> (\<And>y. y \<in> set ys \<Longrightarrow> f y = g y) \<Longrightarrow> insort_key f x ys = insort_key g x ys"
  by (induction ys) auto

lemma sort_key_cong: "(\<And>x. x \<in> set xs \<Longrightarrow> f x = g x) \<Longrightarrow> sort_key f xs = sort_key g xs"
proof (induction xs)
  case (Cons x xs)
  then show ?case using insort_key_cong [of f x g "sort_key g xs"] by simp
qed simp

lemma agree_history:
  assumes s: "sim db m" and ok: "call_ok d (CHistory sid f) m"
  shows "agree d (CHistory sid f) db m"
proof -
  have run: "historyRunAt (scan_job r) = run_at r" if "r \<in> set (tJobs db)" for r
  proof -
    have "case jStartedAt (scan_job r) of None \<Rightarrow> True | Some t \<Rightarrow> \<not> IsZero t"
      using ok that jobs_of_rows [OF s, of "\<lambda>j. case jStartedAt j of None \<Rightarrow> True | Some t \<Rightarrow> \<not> IsZero t"]
      by (simp add: list_all_iff)
    then show ?thesis by (simp add: historyRunAt_def run_at_def scan_job_def split: option.splits)
  qed
  have match: "history_match sid f (scan_job r) = history_row d sid f r" if "r \<in> set (tJobs db)" for r
  proof -
    have "row_ok r" using simD(3) [OF s] that by (simp add: list_all_iff)
    moreover have "hfHasFrom f \<Longrightarrow> col_time d (hfFrom f) = hfFrom f" "hfHasTo f \<Longrightarrow> col_time d (hfTo f) = hfTo f" "sid \<noteq> []"
      using ok by simp_all
    ultimately show ?thesis
      by (auto simp: history_match_def history_row_def historyFilterMatches_def historyRevisionMatches_def run [OF that]
          row_ok_def coalesce_iff)
  qed
  have "filter (history_match sid f) (map snd (mJobs m)) = map scan_job (filter (history_row d sid f) (tJobs db))"
    by (simp add: simD(1) [OF s] filter_map comp_def match cong: filter_cong)
  moreover have "sort_key (\<lambda>j. - historyRunAt j) (map scan_job (filter (history_row d sid f) (tJobs db))) =
      map scan_job (sort_key (\<lambda>r. - run_at r) (filter (history_row d sid f) (tJobs db)))"
    unfolding sort_key_map by (intro arg_cong [of _ _ "map scan_job"] sort_key_cong) (simp add: run)
  ultimately have "ListScheduledJobHistory sid f m = sql_ListScheduledJobHistory d sid f db"
    using ok by (auto simp: ListScheduledJobHistory_def sql_ListScheduledJobHistory_def Let_def sql_limit_def take_map)
  with s show ?thesis by simp
qed


subsection \<open>Agents\<close>

lemma bare_simps [simp]:
  "aID (bare_agent a) = aID a" "aStatus (bare_agent a) = aStatus a" "aLastSeenAt (bare_agent a) = aLastSeenAt a"
  "aCreatedAt (bare_agent a) = aCreatedAt a" "bare_agent (bare_agent a) = bare_agent a"
  "bare_agent (a\<lparr>aLabels := ls\<rparr>) = bare_agent a" "bare_agent (a\<lparr>aTokenHash := h\<rparr>) = bare_agent a"
  "bare_agent (a\<lparr>aStatus := st\<rparr>) = (bare_agent a)\<lparr>aStatus := st\<rparr>"
  "bare_agent (a\<lparr>aLastSeenAt := t\<rparr>) = (bare_agent a)\<lparr>aLastSeenAt := t\<rparr>"
  "bare_agent (a\<lparr>aCreatedAt := t\<rparr>) = (bare_agent a)\<lparr>aCreatedAt := t\<rparr>"
  by (simp_all add: bare_agent_def)

lemma mput_values: "map (apsnd f) (mput k v m) = mput k (f v) (map (apsnd f) m)"
  by (induction m) auto

lemma mdel_values: "map (apsnd f) (mdel k m) = mdel k (map (apsnd f) m)"
  by (induction m) auto

lemma mget_values: "mget (map (apsnd f) m) k = map_option f (mget m k)"
  by (induction m) auto

lemma sim_agents:
  "sim db m \<Longrightarrow> keyed_rows aID rows \<Longrightarrow> map (apsnd bare_agent) ags = as_map aID bare_agent rows \<Longrightarrow>
   sim (db\<lparr>tAgents := rows\<rparr>) (m\<lparr>mAgents := ags\<rparr>)"
  by (simp add: sim_def events_sim_def events_of_def)

lemma agree_upsert_agent:
  assumes s: "sim db m" and w: "whole d (aLastSeenAt a)" "whole d (aCreatedAt a)"
  shows "agree d (CUpsertAgent a) db m"
proof -
  let ?merge = "\<lambda>excluded old. excluded\<lparr>aCreatedAt := aCreatedAt old\<rparr>" and ?r = "a\<lparr>aLabels := []\<rparr>"
  let ?a = "case mget (mAgents m) (aID a) of Some old \<Rightarrow> a\<lparr>aCreatedAt := aCreatedAt old\<rparr> | None \<Rightarrow> a"
  have "mput (aID ?r) (bare_agent ?a) (as_map aID bare_agent (tAgents db)) =
      as_map aID bare_agent (upsert_row aID ?merge ?r (tAgents db))"
    by (rule mput_upsert [OF simD(8) [OF s], where upd = "\<lambda>w. (bare_agent a)\<lparr>aCreatedAt := aCreatedAt w\<rparr>"])
      (auto simp: mget_values simp flip: simD(7) [OF s] split: option.split)
  then have "sim (db\<lparr>tAgents := upsert_row aID ?merge ?r (tAgents db)\<rparr>) (UpsertAgent a m)"
    unfolding UpsertAgent_def Let_def
    by (intro sim_agents [OF s]) (simp_all add: upsert_keys simD(7,8) [OF s] mput_values)
  with w show ?thesis by (simp add: sql_UpsertAgent_def)
qed

lemma put_agent:
  assumes s: "sim db m" and g: "mget (mAgents m) aid = Some a" and f: "\<And>x. aID (f x) = aID x" "\<And>x. bare_agent (f x) = f (bare_agent x)"
  shows "sim (db\<lparr>tAgents := update_where (\<lambda>a. aID a = aid) f (tAgents db)\<rparr>) (m\<lparr>mAgents := mput aid (f a) (mAgents m)\<rparr>)"
proof -
  have "mget (as_map aID bare_agent (tAgents db)) aid = Some (bare_agent a)" using g by (simp add: mget_values flip: simD(7) [OF s])
  then obtain r where r: "r \<in> set (tAgents db)" "aID r = aid" "bare_agent r = bare_agent a"
    by (auto simp: mget_as_map dest: find_row)
  have "mput aid (bare_agent (f a)) (as_map aID bare_agent (tAgents db)) =
      as_map aID bare_agent (update_where (\<lambda>a. aID a = aid) f (tAgents db))"
    by (rule mput_update [OF simD(8) [OF s] r(1,2)]) (simp_all add: f r(3))
  then show ?thesis by (intro sim_agents [OF s]) (simp_all add: f(1) simD(7,8) [OF s] mput_values)
qed

lemma agree_touch_agent:
  assumes s: "sim db m" and k: "known aid (mAgents m)"
  shows "whole d now \<Longrightarrow> agree d (CTouchAgent now aid) db m" "agree d (CAgentOffline aid) db m"
proof -
  from k obtain a where a: "mget (mAgents m) aid = Some a" by (auto simp: known_def)
  from put_agent [OF s a, of "\<lambda>a. a\<lparr>aStatus := AgentOnline, aLastSeenAt := now\<rparr>"] a
  show "whole d now \<Longrightarrow> agree d (CTouchAgent now aid) db m" by (simp add: TouchAgent_def sql_TouchAgent_def updated_def)
  from put_agent [OF s a, of "\<lambda>a. a\<lparr>aStatus := AgentOffline\<rparr>"] a
  show "agree d (CAgentOffline aid) db m" by (simp add: MarkAgentOffline_def sql_MarkAgentOffline_def updated_def)
qed

lemma stale_bare [simp]: "stale_agent cutoff (bare_agent a) = stale_agent cutoff a"
  by (simp add: stale_agent_def)

lemma stale_sql [simp]: "stale_row = stale_agent"
  by (simp add: stale_row_def stale_agent_def fun_eq_iff)

definition offline :: "time \<Rightarrow> Agent \<Rightarrow> Agent" where
  "offline cutoff a = (if stale_agent cutoff a then a\<lparr>aStatus := AgentOffline\<rparr> else a)"

lemma offline_bare: "bare_agent (offline cutoff a) = offline cutoff (bare_agent a)"
  by (simp add: offline_def)

lemma offline_values:
  "map (apsnd bare_agent) (map (\<lambda>(aid, a). (aid, offline cutoff a)) ags) = map (apsnd (offline cutoff)) (map (apsnd bare_agent) ags)"
  by (induction ags) (auto simp: offline_bare)

lemma offline_rows:
  "map (apsnd (offline cutoff)) (as_map aID bare_agent rows) =
   as_map aID bare_agent (update_where (stale_agent cutoff) (\<lambda>a. a\<lparr>aStatus := AgentOffline\<rparr>) rows)"
proof -
  have "apsnd (offline cutoff) (aID a, bare_agent a) =
      (\<lambda>r. (aID r, bare_agent r)) (if stale_agent cutoff a then a\<lparr>aStatus := AgentOffline\<rparr> else a)" for a
    by (cases "stale_agent cutoff a") (simp_all add: offline_def)
  then show ?thesis by (simp only: as_map_def update_where_def map_map comp_def)
qed

lemma stale_count:
  "length (filter (\<lambda>(_, a). stale_agent cutoff a) ags) = length (filter (\<lambda>(_, a). stale_agent cutoff a) (map (apsnd bare_agent) ags))"
  by (induction ags) auto

lemma stale_rows: "length (filter (\<lambda>(_, a). stale_agent cutoff a) (as_map aID bare_agent rows)) = length (filter (stale_agent cutoff) rows)"
  by (induction rows) (auto simp: as_map_def)

lemma agree_stale:
  assumes s: "sim db m" and w: "whole d (now - ttl)"
  shows "agree d (CStaleAgents now ttl) db m"
proof -
  let ?c = "now - ttl"
  have "map (apsnd bare_agent) (map (\<lambda>(aid, a). (aid, offline ?c a)) (mAgents m)) =
      as_map aID bare_agent (update_where (stale_agent ?c) (\<lambda>a. a\<lparr>aStatus := AgentOffline\<rparr>) (tAgents db))"
    unfolding offline_values simD(7) [OF s] by (rule offline_rows)
  from sim_agents [OF s _ this] have "sim (db\<lparr>tAgents := update_where (stale_agent ?c) (\<lambda>a. a\<lparr>aStatus := AgentOffline\<rparr>) (tAgents db)\<rparr>)
      (m\<lparr>mAgents := map (\<lambda>(aid, a). (aid, offline ?c a)) (mAgents m)\<rparr>)"
    by (simp add: simD(8) [OF s])
  moreover have "length (filter (\<lambda>(_, a). stale_agent ?c a) (mAgents m)) = length (filter (stale_agent ?c) (tAgents db))"
    unfolding stale_count [of ?c "mAgents m"] simD(7) [OF s] by (rule stale_rows)
  ultimately show ?thesis
    using w by (simp add: MarkStaleAgentsOffline_def sql_MarkStaleAgentsOffline_def Let_def rows_affected_def offline_def)
qed

lemma agree_agents:
  assumes s: "sim db m"
  shows "agree d CAgents db m"
proof -
  have "map bare_agent (sort_key aID xs) = sort_key aID (map bare_agent xs)" for xs by (simp add: sort_key_map)
  moreover have "map bare_agent (map snd (mAgents m)) = map snd (map (apsnd bare_agent) (mAgents m))" by simp
  moreover have "map snd (map (apsnd bare_agent) (mAgents m)) = map bare_agent (tAgents db)" unfolding simD(7) [OF s] by simp
  ultimately have "map bare_agent (ListAgents m) = map bare_agent (sql_ListAgents db)"
    unfolding ListAgents_def sql_ListAgents_def by (simp add: comp_def)
  with s show ?thesis by simp
qed

lemma agree_delete_agent:
  assumes s: "sim db m" and ok: "call_ok d (CDeleteAgent aid) m"
  shows "agree d (CDeleteAgent aid) db m"
proof (cases "mget (mAgents m) aid")
  case None
  then have "aid \<notin> aID ` set (tAgents db)" using known_agents [OF s, of aid] by (simp add: known_def)
  with None s show ?thesis by (simp add: DeleteAgent_def sql_DeleteAgent_def updated_def rows_affected_key)
next
  case (Some a)
  then have known: "aid \<in> aID ` set (tAgents db)" using known_agents [OF s, of aid] by (simp add: known_def)
  have refs: "list_all (\<lambda>r. jAgentID (scan_job r) = [] \<or> jAgentID (scan_job r) \<noteq> aid) (tJobs db)"
    using ok jobs_of_rows [OF s, of "\<lambda>j. jAgentID j = [] \<or> jAgentID j \<noteq> aid"] by simp
  have jobs: "update_where (\<lambda>r. rjAgentID r = Some aid) (\<lambda>r. r\<lparr>rjAgentID := None\<rparr>) (tJobs db) = tJobs db"
    by (rule update_where_none) (use refs simD(3) [OF s] in \<open>auto simp: list_all_iff row_ok_def coalesce_def split: option.splits\<close>)
  have "rvAgentID r \<noteq> Some aid" if "r \<in> set (tEvents db)" for r
  proof -
    have "scan_event r \<in> set (events_of (rvJobID r) m)" using that by (simp add: events_simD(1) [OF s])
    then have "eAgentID (scan_event r) = [] \<or> eAgentID (scan_event r) \<noteq> aid"
      using ok events_of_mem by (fastforce simp: list_all_iff)
    with events_simD(3) [OF s] that show ?thesis by (auto simp: scan_event_def list_all_iff coalesce_def split: option.splits)
  qed
  then have events: "update_where (\<lambda>r. rvAgentID r = Some aid) (\<lambda>r. r\<lparr>rvAgentID := None\<rparr>) (tEvents db) = tEvents db"
    by (intro update_where_none) simp
  have "sim (db\<lparr>tAgents := delete_where (\<lambda>a. aID a = aid) (tAgents db), tConfigs := delete_where (\<lambda>c. acID c = aid) (tConfigs db)\<rparr>)
      (m\<lparr>mAgents := mdel aid (mAgents m), mAgentCfgs := mdel aid (mAgentCfgs m)\<rparr>)"
    using simD [OF s] by (simp add: sim_def events_sim_def events_of_def mdel_values mdel_as_map)
      (simp add: delete_where_def list_all_iff)
  with jobs events known Some show ?thesis
    by (simp add: DeleteAgent_def sql_DeleteAgent_def updated_def rows_affected_key)
qed


subsection \<open>Configurations, HTTP agents and audit\<close>

definition clean_labels :: "string list \<Rightarrow> bool" where
  "clean_labels ls \<longleftrightarrow> distinct ls \<and> list_all (\<lambda>l. TrimSpace l = l \<and> l \<noteq> [] \<and> \<not> IsReservedAgentLabel l) ls"

abbreviation label_step :: "string \<Rightarrow> string list \<Rightarrow> string list" where
  "label_step raw out \<equiv>
     (let value = TrimSpace raw in
      if value = [] \<or> IsReservedAgentLabel value then out else if value \<in> set out then out else out @ [value])"

lemma fold_labels_clean: "clean_labels out \<Longrightarrow> clean_labels (fold label_step ls out)"
  by (induction ls arbitrary: out) (auto simp: clean_labels_def Let_def)

lemma fold_labels_same: "clean_labels (out @ ls) \<Longrightarrow> fold label_step ls out = out @ ls"
  by (induction ls arbitrary: out) (auto simp: clean_labels_def Let_def)

lemma normalizedAgentLabels_idem [simp]: "normalizedAgentLabels (normalizedAgentLabels ls) = normalizedAgentLabels ls"
  unfolding normalizedAgentLabels_def using fold_labels_same [of "[]"] fold_labels_clean [of "[]"] by (simp add: clean_labels_def)

lemma sim_configs:
  "sim db m \<Longrightarrow> keyed_rows acID rows \<Longrightarrow> list_all (\<lambda>c. scan_config c = c) rows \<Longrightarrow> cs = as_map acID (\<lambda>c. c) rows \<Longrightarrow>
   sim (db\<lparr>tConfigs := rows\<rparr>) (m\<lparr>mAgentCfgs := cs\<rparr>)"
  by (simp add: sim_def events_sim_def events_of_def)

lemma sim_http:
  "sim db m \<Longrightarrow> keyed_rows haID rows \<Longrightarrow> list_all (\<lambda>c. scan_http_agent c = c) rows \<Longrightarrow> cs = as_map haID (\<lambda>c. c) rows \<Longrightarrow>
   sim (db\<lparr>tHTTPAgents := rows\<rparr>) (m\<lparr>mHTTPAgents := cs\<rparr>)"
  by (simp add: sim_def events_sim_def events_of_def)

lemma list_all_upsert:
  "list_all P rows \<Longrightarrow> P r \<Longrightarrow> (\<And>old. P (merge r old)) \<Longrightarrow> list_all P (upsert_row key merge r rows)"
  by (auto simp: upsert_row_def list_all_iff set_update_where)

lemma scanned_map: "list_all (\<lambda>c. f c = c) rows \<Longrightarrow> map f (sort_key k rows) = sort_key k rows"
  by (rule map_idI) (simp add: list_all_iff)

lemma scanned_find: "list_all (\<lambda>c. f c = c) rows \<Longrightarrow> find P rows = Some c \<Longrightarrow> f c = c"
  by (induction rows) (auto split: if_splits)

lemma normal_config:
  assumes "normalizeAgentConfig cfg = Inr cfg'" "acLabels c = acLabels cfg'"
  shows "scan_config c = c"
proof -
  have "normalizedAgentLabels (acLabels c) = acLabels c"
    using assms by (auto simp: normalizeAgentConfig_def Let_def split: if_splits)
  then show ?thesis by (simp add: scan_config_def)
qed

lemma normal_http:
  assumes "normalizeHTTPAgent n = Inr n'" "haLabels c = haLabels n'"
  shows "scan_http_agent c = c"
proof -
  have "\<exists>nid url token. n' = n\<lparr>haID := nid, haBaseURL := url, haHTTPToken := token, haLabels := normalizedAgentLabels (haLabels n)\<rparr>"
    using assms(1) unfolding normalizeHTTPAgent_def Let_def by (metis Inl_Inr_False sum.inject(2))
  then have "haLabels n' = normalizedAgentLabels (haLabels n)" by auto
  then have "normalizedAgentLabels (haLabels c) = haLabels c" by (simp add: assms(2))
  then show ?thesis by (simp add: scan_http_agent_def)
qed

lemma put_config_sim:
  assumes s: "sim db m" and w: "whole d now" and n: "normalizeAgentConfig cfg = Inr cfg'"
  shows "sim (upsert_config d now cfg' db) (put_agent_cfg now cfg' m)"
proof -
  let ?merge = "\<lambda>excluded old. excluded\<lparr>acCreatedAt := acCreatedAt old\<rparr>" and ?r = "cfg'\<lparr>acCreatedAt := now, acUpdatedAt := now\<rparr>"
  have "mput (acID ?r) (cfg'\<lparr>acCreatedAt := (case mget (mAgentCfgs m) (acID cfg') of Some existing \<Rightarrow> acCreatedAt existing | None \<Rightarrow> now),
        acUpdatedAt := now\<rparr>) (as_map acID (\<lambda>c. c) (tConfigs db)) = as_map acID (\<lambda>c. c) (upsert_row acID ?merge ?r (tConfigs db))"
    by (rule mput_upsert [OF simD(10) [OF s], where upd = "\<lambda>w. cfg'\<lparr>acCreatedAt := acCreatedAt w, acUpdatedAt := now\<rparr>"])
      (auto simp: simD(9) [OF s] split: option.split)
  moreover have "list_all (\<lambda>c. scan_config c = c) (upsert_row acID ?merge ?r (tConfigs db))"
    by (intro list_all_upsert [OF simD(11) [OF s]] normal_config [OF n]) simp_all
  ultimately show ?thesis
    unfolding upsert_config_def put_agent_cfg_def
    by (intro sim_configs [OF s]) (use w in \<open>simp_all add: upsert_keys simD(9,10) [OF s]\<close>)
qed

lemma put_http_sim:
  assumes s: "sim db m" and w: "whole d now" and n: "normalizeHTTPAgent node = Inr node'"
  shows "sim (upsert_http_agent d now node' db) (put_http_agent now node' m)"
proof -
  let ?merge = "\<lambda>excluded old. excluded\<lparr>haCreatedAt := haCreatedAt old\<rparr>" and ?r = "node'\<lparr>haCreatedAt := now, haUpdatedAt := now\<rparr>"
  have "mput (haID ?r) (node'\<lparr>haCreatedAt := (case mget (mHTTPAgents m) (haID node') of Some existing \<Rightarrow> haCreatedAt existing | None \<Rightarrow> now),
        haUpdatedAt := now\<rparr>) (as_map haID (\<lambda>c. c) (tHTTPAgents db)) = as_map haID (\<lambda>c. c) (upsert_row haID ?merge ?r (tHTTPAgents db))"
    by (rule mput_upsert [OF simD(13) [OF s], where upd = "\<lambda>w. node'\<lparr>haCreatedAt := haCreatedAt w, haUpdatedAt := now\<rparr>"])
      (auto simp: simD(12) [OF s] split: option.split)
  moreover have "list_all (\<lambda>c. scan_http_agent c = c) (upsert_row haID ?merge ?r (tHTTPAgents db))"
    by (intro list_all_upsert [OF simD(14) [OF s]] normal_http [OF n]) simp_all
  ultimately show ?thesis
    unfolding upsert_http_agent_def put_http_agent_def
    by (intro sim_http [OF s]) (use w in \<open>simp_all add: upsert_keys simD(12,13) [OF s]\<close>)
qed

lemma list_all_delete [simp]: "list_all P rows \<Longrightarrow> list_all P (delete_where Q rows)"
  by (auto simp: delete_where_def list_all_iff)

lemma agree_configs:
  assumes s: "sim db m"
  shows "agree d CConfigs db m" "agree d (CGetConfig aid) db m" "whole d now \<Longrightarrow> agree d (CPutConfig now cfg) db m"
    "agree d (CDeleteConfig aid) db m"
proof -
  have get: "mget (mAgentCfgs m) aid = find (\<lambda>c. acID c = aid) (tConfigs db)"
    by (simp add: simD(9) [OF s] mget_as_map option.map_ident)
  show "agree d CConfigs db m"
    using s by (simp add: sql_ListAgentConfigs_def ListAgentConfigs_def simD(9) [OF s] scanned_map [OF simD(11) [OF s]])
  have "sql_GetAgentConfig aid db = GetAgentConfig aid m"
    using scanned_find [OF simD(11) [OF s]] by (auto simp: sql_GetAgentConfig_def GetAgentConfig_def get split: option.split)
  with s show "agree d (CGetConfig aid) db m" by simp
  show "agree d (CPutConfig now cfg) db m" if "whole d now"
    using put_config_sim [OF s that] s
    by (cases "normalizeAgentConfig cfg") (simp_all add: sql_UpsertAgentConfig_def UpsertAgentConfig_def updated_def)
  show "agree d (CDeleteConfig aid) db m"
  proof (cases "mget (mAgentCfgs m) aid")
    case None
    then have "aid \<notin> acID ` set (tConfigs db)" by (metis get find_None_key)
    with None s show ?thesis by (simp add: DeleteAgentConfig_def sql_DeleteAgentConfig_def updated_def rows_affected_key)
  next
    case (Some c)
    then have "aid \<in> acID ` set (tConfigs db)" by (metis get find_None_key option.distinct(1))
    moreover have "sim (db\<lparr>tConfigs := delete_where (\<lambda>c. acID c = aid) (tConfigs db)\<rparr>) (m\<lparr>mAgentCfgs := mdel aid (mAgentCfgs m)\<rparr>)"
      by (intro sim_configs [OF s]) (simp_all add: simD(9,10,11) [OF s] mdel_as_map)
    ultimately show ?thesis using Some
      by (simp add: DeleteAgentConfig_def sql_DeleteAgentConfig_def updated_def rows_affected_key)
  qed
qed

lemma agree_http:
  assumes s: "sim db m"
  shows "agree d CHTTPAgents db m" "agree d (CGetHTTPAgent aid) db m" "whole d now \<Longrightarrow> agree d (CPutHTTPAgent now node) db m"
    "agree d (CDeleteHTTPAgent aid) db m"
proof -
  have get: "mget (mHTTPAgents m) aid = find (\<lambda>c. haID c = aid) (tHTTPAgents db)"
    by (simp add: simD(12) [OF s] mget_as_map option.map_ident)
  show "agree d CHTTPAgents db m"
    using s by (simp add: sql_ListHTTPAgents_def ListHTTPAgents_def simD(12) [OF s] scanned_map [OF simD(14) [OF s]])
  have "sql_GetHTTPAgent aid db = GetHTTPAgent aid m"
    using scanned_find [OF simD(14) [OF s]] by (auto simp: sql_GetHTTPAgent_def GetHTTPAgent_def get split: option.split)
  with s show "agree d (CGetHTTPAgent aid) db m" by simp
  show "agree d (CPutHTTPAgent now node) db m" if "whole d now"
    using put_http_sim [OF s that] s
    by (cases "normalizeHTTPAgent node") (simp_all add: sql_UpsertHTTPAgent_def UpsertHTTPAgent_def updated_def)
  show "agree d (CDeleteHTTPAgent aid) db m"
  proof (cases "mget (mHTTPAgents m) aid")
    case None
    then have "aid \<notin> haID ` set (tHTTPAgents db)" by (metis get find_None_key)
    with None s show ?thesis by (simp add: DeleteHTTPAgent_def sql_DeleteHTTPAgent_def updated_def rows_affected_key)
  next
    case (Some c)
    then have "aid \<in> haID ` set (tHTTPAgents db)" by (metis get find_None_key option.distinct(1))
    moreover have "sim (db\<lparr>tHTTPAgents := delete_where (\<lambda>c. haID c = aid) (tHTTPAgents db)\<rparr>) (m\<lparr>mHTTPAgents := mdel aid (mHTTPAgents m)\<rparr>)"
      by (intro sim_http [OF s]) (simp_all add: simD(12,13,14) [OF s] mdel_as_map)
    ultimately show ?thesis using Some
      by (simp add: DeleteHTTPAgent_def sql_DeleteHTTPAgent_def updated_def rows_affected_key)
  qed
qed

lemma agree_audit:
  assumes s: "sim db m" and ok: "call_ok d (CAudit now e) m"
  shows "agree d (CAudit now e) db m"
proof -
  have t: "col_time d (if IsZero (auCreatedAt e) then now else auCreatedAt e) = (if IsZero (auCreatedAt e) then now else auCreatedAt e)"
    using ok by simp
  have "tAudit (sql_AddAuditEvent d now e db) = mAudit (AddAuditEvent now e m)"
    using ok simD(15) [OF s] unfolding sql_AddAuditEvent_def AddAuditEvent_def Let_def t by (cases d) simp_all
  moreover have "sql_AddAuditEvent d now e db = db\<lparr>tAudit := tAudit (sql_AddAuditEvent d now e db)\<rparr>"
    "AddAuditEvent now e m = m\<lparr>mAudit := mAudit (AddAuditEvent now e m)\<rparr>"
    by (simp_all add: sql_AddAuditEvent_def AddAuditEvent_def Let_def)
  moreover have "sim (db\<lparr>tAudit := log\<rparr>) (m\<lparr>mAudit := log\<rparr>)" for log
    using s by (simp add: sim_def events_sim_def events_of_def)
  ultimately have "sim (sql_AddAuditEvent d now e db) (AddAuditEvent now e m)" by metis
  then show ?thesis by simp
qed


section \<open>All calls\<close>

theorem calls_agree: "sim db m \<Longrightarrow> call_ok d c m \<Longrightarrow> agree d c db m"
  by (cases c)
    (use agree_create agree_lists agree_claim agree_status agree_event agree_events agree_new_schedule agree_schedule_reads
       agree_schedule_update agree_schedule_delete agree_schedule_run agree_history agree_upsert_agent agree_touch_agent
       agree_delete_agent agree_stale agree_agents agree_configs agree_http agree_audit
     in \<open>simp_all only: call_ok.simps simp_thms\<close>)

end
