(* ===== verification/Postgres.thy ===== *)
theory Postgres
  imports SqlRefine
begin

text \<open>
  The PostgreSQL store (\<^verbatim>\<open>internal/store/postgres.go\<close>). Its methods run the statements of \<open>SqlStore\<close>
  with their differences at the dialect \<open>Postgres\<close>: the precision of its times, the limits it
  refuses, the rounding of the history buckets, the audit texts it does not trim. It also opens the database, which it creates when the server
  does not have it; the connections are parameters.
\<close>


section \<open>Opening the database\<close>

text \<open>An error of the server is its code and its text.\<close>

type_synonym pg_error = "string \<times> string"

definition isPostgresCode :: "pg_error option \<Rightarrow> string \<Rightarrow> bool" where
  "isPostgresCode err code = (case err of None \<Rightarrow> False | Some (c, _) \<Rightarrow> c = code)"

definition postgresMaintenanceDatabases :: "string \<Rightarrow> string list" where
  "postgresMaintenanceDatabases target =
     (if target = ''postgres'' then [''template1''] else if target = ''template1'' then [''postgres'']
      else [''postgres'', ''template1''])"

text \<open>The loop over the databases to connect to; \<open>create\<close> runs the statement on the connection.\<close>

fun try_databases ::
  "(string \<Rightarrow> pg_error option) \<Rightarrow> (string \<Rightarrow> pg_error option) \<Rightarrow> pg_error option \<Rightarrow> string list \<Rightarrow> pg_error option" where
  "try_databases connect create lastErr [] =
     (case lastErr of Some e \<Rightarrow> Some e | None \<Rightarrow> Some ([], ''no postgres maintenance database candidates''))"
| "try_databases connect create lastErr (db # dbs) =
     (case connect db of
        Some e \<Rightarrow> if isPostgresCode (Some e) ''3D000'' then try_databases connect create (Some e) dbs else Some e
      | None \<Rightarrow> create db)"

definition createPostgresDatabase ::
  "(string \<Rightarrow> pg_error option) \<Rightarrow> (string \<Rightarrow> pg_error option) \<Rightarrow> string \<Rightarrow> pg_error option" where
  "createPostgresDatabase connect create dbName =
     (if dbName = [] then Some ([], ''postgres database name is empty'')
      else try_databases connect create None (postgresMaintenanceDatabases dbName))"

text \<open>
  \<open>ping1\<close> and \<open>ping2\<close> are the answers of the first and the second pool. A database that another
  process has created meanwhile is no error.
\<close>

definition openPostgresPool ::
  "pg_error option \<Rightarrow> pg_error option \<Rightarrow> (string \<Rightarrow> pg_error option) \<Rightarrow> (string \<Rightarrow> pg_error option) \<Rightarrow> string \<Rightarrow> pg_error option" where
  "openPostgresPool ping1 ping2 connect create dbName =
     (if ping1 = None then None
      else if \<not> isPostgresCode ping1 ''3D000'' then ping1
      else let createErr = createPostgresDatabase connect create dbName in
           if createErr \<noteq> None \<and> \<not> isPostgresCode createErr ''42P04''
           then Some ([], ''postgres database does not exist and automatic create failed'')
           else ping2)"

definition pg_seedPostgresManagedSettings :: "(nat \<Rightarrow> string) \<Rightarrow> nat \<Rightarrow> time \<Rightarrow> Sql \<Rightarrow> (string option \<times> Sql) \<times> nat" where
  "pg_seedPostgresManagedSettings uuid = seed_settings uuid Postgres"

definition pg_open_store :: "(nat \<Rightarrow> string) \<Rightarrow> nat \<Rightarrow> time \<Rightarrow> Sql option \<Rightarrow> (string option \<times> Sql) \<times> nat" where
  "pg_open_store uuid = open_store uuid Postgres"


section \<open>Methods\<close>

definition nullable :: "string \<Rightarrow> string option" where
  "nullable = nullString"

definition insertPostgresJob :: "Job \<Rightarrow> Sql \<Rightarrow> Sql res" where
  "insertPostgresJob = insert_job Postgres"

definition scanJob :: "job_row \<Rightarrow> Job" where
  "scanJob = scan_job"

definition scanHTTPAgent :: "HTTPAgent \<Rightarrow> HTTPAgent" where
  "scanHTTPAgent = scan_http_agent"

definition scanAgentConfig :: "AgentConfig \<Rightarrow> AgentConfig" where
  "scanAgentConfig = scan_config"

definition pg_CreateJob :: "Job \<Rightarrow> Sql \<Rightarrow> Sql res" where
  "pg_CreateJob = sql_CreateJob Postgres"

definition pg_CreateJobs :: "Job list \<Rightarrow> Sql \<Rightarrow> Sql res" where
  "pg_CreateJobs = sql_CreateJobs Postgres"

definition pg_GetJob :: "string \<Rightarrow> Sql \<Rightarrow> Job res" where
  "pg_GetJob = sql_GetJob"

definition pg_ListChildJobs :: "string \<Rightarrow> Sql \<Rightarrow> Job list" where
  "pg_ListChildJobs = sql_ListChildJobs"

definition pg_ListActiveJobs :: "int \<Rightarrow> Sql \<Rightarrow> Job list" where
  "pg_ListActiveJobs = sql_ListActiveJobs"

definition pg_ListQueuedJobs :: "string \<Rightarrow> Tool list \<Rightarrow> ProtocolMask \<Rightarrow> int \<Rightarrow> Sql \<Rightarrow> (Job list) res" where
  "pg_ListQueuedJobs = sql_ListQueuedJobs Postgres"

definition pg_ClaimQueuedJob :: "time \<Rightarrow> string \<Rightarrow> string \<Rightarrow> Sql \<Rightarrow> bool \<times> Sql" where
  "pg_ClaimQueuedJob = sql_ClaimQueuedJob Postgres"

definition pg_UpdateJobStatus :: "time \<Rightarrow> string \<Rightarrow> JobStatus \<Rightarrow> string \<Rightarrow> Sql \<Rightarrow> Sql" where
  "pg_UpdateJobStatus = sql_UpdateJobStatus Postgres"

definition pg_AddJobEvent :: "JobEvent \<Rightarrow> Sql \<Rightarrow> Sql res" where
  "pg_AddJobEvent = sql_AddJobEvent Postgres"

definition pg_ListJobEvents :: "string \<Rightarrow> Sql \<Rightarrow> JobEvent list" where
  "pg_ListJobEvents = sql_ListJobEvents"

definition pg_CreateScheduledJob :: "ScheduledJob \<Rightarrow> Sql \<Rightarrow> Sql res" where
  "pg_CreateScheduledJob = sql_CreateScheduledJob Postgres"

definition pg_GetScheduledJob :: "string \<Rightarrow> Sql \<Rightarrow> ScheduledJob res" where
  "pg_GetScheduledJob = sql_GetScheduledJob"

definition pg_ListScheduledJobs :: "Sql \<Rightarrow> ScheduledJob list" where
  "pg_ListScheduledJobs = sql_ListScheduledJobs"

definition pg_ListDueScheduledJobs :: "time \<Rightarrow> int \<Rightarrow> Sql \<Rightarrow> ScheduledJob list" where
  "pg_ListDueScheduledJobs = sql_ListDueScheduledJobs Postgres"

definition pg_UpdateScheduledJob :: "ScheduledJob \<Rightarrow> Sql \<Rightarrow> Sql res" where
  "pg_UpdateScheduledJob = sql_UpdateScheduledJob Postgres"

definition pg_DeleteScheduledJob :: "string \<Rightarrow> Sql \<Rightarrow> Sql res" where
  "pg_DeleteScheduledJob = sql_DeleteScheduledJob"

definition pg_UpdateScheduledJobRun :: "time \<Rightarrow> ScheduledJob \<Rightarrow> Sql \<Rightarrow> Sql" where
  "pg_UpdateScheduledJobRun = sql_UpdateScheduledJobRun Postgres"

definition pg_ListScheduledJobHistory :: "string \<Rightarrow> HistoryFilter \<Rightarrow> Sql \<Rightarrow> Job list" where
  "pg_ListScheduledJobHistory = sql_ListScheduledJobHistory Postgres"

definition pg_UpsertAgent :: "Agent \<Rightarrow> Sql \<Rightarrow> Sql" where
  "pg_UpsertAgent = sql_UpsertAgent Postgres"

definition pg_TouchAgent :: "time \<Rightarrow> string \<Rightarrow> Sql \<Rightarrow> Sql" where
  "pg_TouchAgent = sql_TouchAgent Postgres"

definition pg_MarkAgentOffline :: "string \<Rightarrow> Sql \<Rightarrow> Sql" where
  "pg_MarkAgentOffline = sql_MarkAgentOffline"

definition pg_DeleteAgent :: "string \<Rightarrow> Sql \<Rightarrow> Sql res" where
  "pg_DeleteAgent = sql_DeleteAgent"

definition pg_MarkStaleAgentsOffline :: "time \<Rightarrow> dur \<Rightarrow> Sql \<Rightarrow> int \<times> Sql" where
  "pg_MarkStaleAgentsOffline = sql_MarkStaleAgentsOffline Postgres"

definition pg_ListAgents :: "Sql \<Rightarrow> Agent list" where
  "pg_ListAgents = sql_ListAgents"

definition pg_ListAgentConfigs :: "Sql \<Rightarrow> AgentConfig list" where
  "pg_ListAgentConfigs = sql_ListAgentConfigs"

definition pg_GetAgentConfig :: "string \<Rightarrow> Sql \<Rightarrow> AgentConfig" where
  "pg_GetAgentConfig = sql_GetAgentConfig"

definition pg_UpsertAgentConfig :: "time \<Rightarrow> AgentConfig \<Rightarrow> Sql \<Rightarrow> Sql res" where
  "pg_UpsertAgentConfig = sql_UpsertAgentConfig Postgres"

definition pg_DeleteAgentConfig :: "string \<Rightarrow> Sql \<Rightarrow> Sql res" where
  "pg_DeleteAgentConfig = sql_DeleteAgentConfig"

definition pg_ListHTTPAgents :: "Sql \<Rightarrow> HTTPAgent list" where
  "pg_ListHTTPAgents = sql_ListHTTPAgents"

definition pg_GetHTTPAgent :: "string \<Rightarrow> Sql \<Rightarrow> HTTPAgent res" where
  "pg_GetHTTPAgent = sql_GetHTTPAgent"

definition pg_UpsertHTTPAgent :: "time \<Rightarrow> HTTPAgent \<Rightarrow> Sql \<Rightarrow> Sql res" where
  "pg_UpsertHTTPAgent = sql_UpsertHTTPAgent Postgres"

definition pg_DeleteHTTPAgent :: "string \<Rightarrow> Sql \<Rightarrow> Sql res" where
  "pg_DeleteHTTPAgent = sql_DeleteHTTPAgent"

definition pg_GetManagedSettings :: "(nat \<Rightarrow> string) \<Rightarrow> nat \<Rightarrow> Sql \<Rightarrow> ManagedSettings \<times> nat \<times> error option" where
  "pg_GetManagedSettings = sql_GetManagedSettings"

definition pg_UpdateManagedSettings ::
  "(nat \<Rightarrow> string) \<Rightarrow> nat \<Rightarrow> time \<Rightarrow> ManagedSettings \<Rightarrow> Sql \<Rightarrow> (ManagedSettings \<times> error option) \<times> Sql \<times> nat" where
  "pg_UpdateManagedSettings uuid = sql_UpdateManagedSettings uuid Postgres"

definition pg_UpdateManagedSettingsAndAgentLabels ::
  "(nat \<Rightarrow> string) \<Rightarrow> nat \<Rightarrow> time \<Rightarrow> ManagedSettings \<Rightarrow> AgentConfig list \<Rightarrow> HTTPAgent list \<Rightarrow> Sql
     \<Rightarrow> (ManagedSettings \<times> error option) \<times> Sql \<times> nat" where
  "pg_UpdateManagedSettingsAndAgentLabels uuid = sql_UpdateManagedSettingsAndAgentLabels uuid Postgres"

definition pg_AddAuditEvent :: "time \<Rightarrow> AuditEvent \<Rightarrow> Sql \<Rightarrow> Sql" where
  "pg_AddAuditEvent = sql_AddAuditEvent Postgres"


section \<open>Calls\<close>

lemmas pg_defs =
  pg_CreateJob_def pg_CreateJobs_def pg_GetJob_def pg_ListChildJobs_def pg_ListActiveJobs_def
  pg_ListQueuedJobs_def pg_ClaimQueuedJob_def pg_UpdateJobStatus_def pg_AddJobEvent_def pg_ListJobEvents_def
  pg_CreateScheduledJob_def pg_GetScheduledJob_def pg_ListScheduledJobs_def pg_ListDueScheduledJobs_def
  pg_UpdateScheduledJob_def pg_DeleteScheduledJob_def pg_UpdateScheduledJobRun_def
  pg_ListScheduledJobHistory_def pg_UpsertAgent_def pg_TouchAgent_def pg_MarkAgentOffline_def
  pg_DeleteAgent_def pg_MarkStaleAgentsOffline_def pg_ListAgents_def pg_ListAgentConfigs_def
  pg_GetAgentConfig_def pg_UpsertAgentConfig_def pg_DeleteAgentConfig_def pg_ListHTTPAgents_def
  pg_GetHTTPAgent_def pg_UpsertHTTPAgent_def pg_DeleteHTTPAgent_def pg_GetManagedSettings_def
  pg_UpdateManagedSettings_def pg_UpdateManagedSettingsAndAgentLabels_def pg_AddAuditEvent_def

fun pg_call :: "store_call \<Rightarrow> Sql \<Rightarrow> answer \<times> Sql" where
  "pg_call (CCreateJob j) db = updated db (pg_CreateJob j db)"
| "pg_call (CCreateJobs js) db = updated db (pg_CreateJobs js db)"
| "pg_call (CGetJob jid) db = (AJobs (one (pg_GetJob jid db)), db)"
| "pg_call (CChildJobs p) db = (AJobs (Inr (pg_ListChildJobs p db)), db)"
| "pg_call (CActiveJobs n) db = (AJobs (Inr (pg_ListActiveJobs n db)), db)"
| "pg_call (CQueuedJobs a caps protocols n) db = (AJobs (pg_ListQueuedJobs a caps protocols n db), db)"
| "pg_call (CClaim now jid a) db = apfst AFlag (pg_ClaimQueuedJob now jid a db)"
| "pg_call (CStatus now jid status msg) db = (ADone None, pg_UpdateJobStatus now jid status msg db)"
| "pg_call (CAddEvent e) db = updated db (pg_AddJobEvent e db)"
| "pg_call (CEvents jid) db = (AEvents (pg_ListJobEvents jid db), db)"
| "pg_call (CCreateSchedule s) db = updated db (pg_CreateScheduledJob s db)"
| "pg_call (CGetSchedule sid) db = (ASchedules (one (pg_GetScheduledJob sid db)), db)"
| "pg_call CSchedules db = (ASchedules (Inr (pg_ListScheduledJobs db)), db)"
| "pg_call (CDueSchedules now n) db = (ASchedules (Inr (pg_ListDueScheduledJobs now n db)), db)"
| "pg_call (CUpdateSchedule s) db = updated db (pg_UpdateScheduledJob s db)"
| "pg_call (CDeleteSchedule sid) db = updated db (pg_DeleteScheduledJob sid db)"
| "pg_call (CScheduleRun now s) db = (ADone None, pg_UpdateScheduledJobRun now s db)"
| "pg_call (CHistory sid f) db = (AJobs (Inr (pg_ListScheduledJobHistory sid f db)), db)"
| "pg_call (CUpsertAgent a) db = (ADone None, pg_UpsertAgent a db)"
| "pg_call (CTouchAgent now aid) db = (ADone None, pg_TouchAgent now aid db)"
| "pg_call (CAgentOffline aid) db = (ADone None, pg_MarkAgentOffline aid db)"
| "pg_call (CDeleteAgent aid) db = updated db (pg_DeleteAgent aid db)"
| "pg_call (CStaleAgents now ttl) db = apfst ANumber (pg_MarkStaleAgentsOffline now ttl db)"
| "pg_call CAgents db = (AAgents (map bare_agent (pg_ListAgents db)), db)"
| "pg_call CConfigs db = (AConfigs (pg_ListAgentConfigs db), db)"
| "pg_call (CGetConfig aid) db = (AConfigs [pg_GetAgentConfig aid db], db)"
| "pg_call (CPutConfig now cfg) db = updated db (pg_UpsertAgentConfig now cfg db)"
| "pg_call (CDeleteConfig aid) db = updated db (pg_DeleteAgentConfig aid db)"
| "pg_call CHTTPAgents db = (AHTTPAgents (Inr (pg_ListHTTPAgents db)), db)"
| "pg_call (CGetHTTPAgent aid) db = (AHTTPAgents (one (pg_GetHTTPAgent aid db)), db)"
| "pg_call (CPutHTTPAgent now n) db = updated db (pg_UpsertHTTPAgent now n db)"
| "pg_call (CDeleteHTTPAgent aid) db = updated db (pg_DeleteHTTPAgent aid db)"
| "pg_call (CAudit now e) db = (ADone None, pg_AddAuditEvent now e db)"

lemma pg_call_dialect: "pg_call = sql_call Postgres"
proof (rule ext)
  fix c
  show "pg_call c = sql_call Postgres c" by (rule ext) (cases c; simp add: pg_defs)
qed

end
