(* ===== verification/SqlClaims.thy ===== *)
theory SqlClaims
  imports SqlSteps Postgres
begin

text \<open>
  What the program gets from the SQL stores: on admissible calls the answers of the in-memory
  store; and what the settings are once they have been stored.
\<close>


section \<open>Runs of calls\<close>

fun run_calls :: "('c \<Rightarrow> 's \<Rightarrow> 'a \<times> 's) \<Rightarrow> 'c list \<Rightarrow> 's \<Rightarrow> 'a list \<times> 's" where
  "run_calls call [] s = ([], s)"
| "run_calls call (c # cs) s = (let (a, s1) = call c s; (rest, s2) = run_calls call cs s1 in (a # rest, s2))"

fun run_ok :: "('c \<Rightarrow> 's \<Rightarrow> 'a \<times> 's) \<Rightarrow> ('c \<Rightarrow> 's \<Rightarrow> bool) \<Rightarrow> 'c list \<Rightarrow> 's \<Rightarrow> bool" where
  "run_ok call ok [] s = True"
| "run_ok call ok (c # cs) s = (ok c s \<and> run_ok call ok cs (snd (call c s)))"

locale refined_store =
  fixes rel :: "'s \<Rightarrow> 'm \<Rightarrow> bool"
    and impl :: "'c \<Rightarrow> 's \<Rightarrow> 'a \<times> 's"
    and spec :: "'c \<Rightarrow> 'm \<Rightarrow> 'a \<times> 'm"
    and admissible :: "'c \<Rightarrow> 'm \<Rightarrow> bool"
  assumes answer: "rel s m \<Longrightarrow> admissible c m \<Longrightarrow> fst (impl c s) = fst (spec c m)"
    and related: "rel s m \<Longrightarrow> admissible c m \<Longrightarrow> rel (snd (impl c s)) (snd (spec c m))"
begin

lemma runs_agree:
  "rel s m \<Longrightarrow> run_ok spec admissible cs m \<Longrightarrow>
   fst (run_calls impl cs s) = fst (run_calls spec cs m) \<and> rel (snd (run_calls impl cs s)) (snd (run_calls spec cs m))"
proof (induction cs arbitrary: s m)
  case (Cons c cs)
  then show ?case
    using answer [of s m c] related [of s m c] Cons.IH [of "snd (impl c s)" "snd (spec c m)"]
    by (simp add: case_prod_unfold Let_def)
qed simp

end

interpretation sqlite: refined_store sim "sql_call SQLite" mem_call "call_ok SQLite"
  by unfold_locales (simp_all only: calls_agree)

interpretation postgres: refined_store sim pg_call mem_call "call_ok Postgres"
  by unfold_locales (simp_all only: pg_call_dialect calls_agree)

definition db_call :: "dialect \<Rightarrow> store_call \<Rightarrow> Sql \<Rightarrow> answer \<times> Sql" where
  "db_call d = (case d of SQLite \<Rightarrow> sql_call SQLite | Postgres \<Rightarrow> pg_call)"

lemma new_stores: "sim (snd (fst (open_store uuid d n now None))) (fst (NewMemory uuid n now))"
  by (simp add: open_store_def seed_settings_def NewMemory_def empty_Sql_def sim_def as_map_def keyed_rows_def events_sim_def
      events_of_def case_prod_unfold Let_def)


definition ex_calls :: "store_call list" where
  "ex_calls =
     [CUpsertAgent \<lparr>aID = ''a1'', aCountry = [], aRegion = [], aProvider = [], aISP = [], aVersion = ''1.0'', aLabels = [''l''],
        aTokenHash = ''h'', aCapabilities = [ToolPing], aProtocols = 3, aStatus = AgentOnline, aLastSeenAt = 5000, aCreatedAt = 5000\<rparr>,
      CCreateSchedule \<lparr>sID = ''s1'', sRevision = 1, sName = ''n'', sEnabled = True, sTool = ToolPing, sTarget = ''t'', sArgs = [],
        sIPVersion = 4, sResolveOnAgent = False, sIntervalSeconds = 60, sNextRunAt = 9000, sLastRunAt = None, sScheduleTargets = [],
        sCreatedAt = 5000, sUpdatedAt = 5000\<rparr>,
      CCreateJob \<lparr>jID = ''j1'', jParentID = [], jScheduledID = ''s1'', jScheduledRevision = 1, jTool = ToolPing, jTarget = ''t'',
        jResolvedTarget = [], jArgs = [], jIPVersion = 4, jAgentID = ''a1'', jResolveOnAgent = False, jStatus = JobQueued,
        jCreatedAt = 6000, jUpdatedAt = 6000, jStartedAt = None, jCompletedAt = None, jError = []\<rparr>,
      CQueuedJobs ''a1'' [ToolPing] 3 10, CClaim 7000 ''j1'' ''a1'', CClaim 8000 ''j1'' ''a1'',
      CAddEvent \<lparr>eID = ''e1'', eJobID = ''j1'', eAgentID = ''a1'', eStream = ''progress'', eEvent = None, eExitCode = None, eParsed = None,
        eCreatedAt = 8000\<rparr>,
      CStatus 9000 ''j1'' JobSucceeded [], CEvents ''j1'', CGetJob ''j2'', CGetSchedule ''s1'', CStaleAgents 9000 1000, CAgents]"



section \<open>Stored settings\<close>

text \<open>A token that the encoder gives back: no empty map is left out.\<close>

definition json_token :: "APITokenPermission \<Rightarrow> bool" where
  "json_token t \<longleftrightarrow>
     (case atTools t of
        None \<Rightarrow> True
      | Some m \<Rightarrow> m \<noteq> [] \<and> mwf m \<and> list_all (\<lambda>(_, s). asAllowedArgs s \<noteq> Some []) m)"

definition first_token :: "APITokenPermission \<Rightarrow> APITokenPermission" where
  "first_token t = t\<lparr>atAll := True, atName := keep_list ''admin'' (atName t), atAgents := keep_list [''*''] (atAgents t)\<rparr>"

lemma fold_mput_keys: "k \<notin> fst ` set m \<Longrightarrow> mput k v m = m @ [(k, v)]"
  by (induction m) auto

lemma fold_mput_all: "mwf (m @ rest) \<Longrightarrow> list_all (\<lambda>(_, v). f v = v) rest \<Longrightarrow> fold (\<lambda>(k, v). mput k (f v)) rest m = m @ rest"
proof (induction rest arbitrary: m)
  case (Cons kv rest)
  obtain k v where kv: "kv = (k, v)" by force
  then have "mput k (f v) m = m @ [(k, v)]" using Cons.prems by (auto simp: mwf_def fold_mput_keys)
  with Cons kv show ?case by simp
qed simp

lemma json_scope: "asAllowedArgs s \<noteq> Some [] \<Longrightarrow> json_tool_scope s = s"
  by (simp add: json_tool_scope_def json_map_def)

lemma decode_tools:
  "json_token t \<Longrightarrow> (case json_map (atTools t) of None \<Rightarrow> None | Some m \<Rightarrow> Some (fold (\<lambda>(k, s). mput k (json_tool_scope s)) m [])) = atTools t"
proof (cases "atTools t")
  case (Some m)
  assume "json_token t"
  with Some have m: "m \<noteq> []" "mwf ([] @ m)" "list_all (\<lambda>(_, s). json_tool_scope s = s) m"
    by (auto simp: json_token_def list_all_iff json_scope)
  from fold_mput_all [OF m(2,3)] m(1) Some show ?thesis by (simp add: json_map_def)
qed (simp add: json_map_def)

lemma decode_zero [simp]: "json_token t \<Longrightarrow> decode_token zero_token t = t"
  using decode_tools [of t]
  by (cases "json_map (atTools t)") (simp_all add: decode_token_def zero_token_def keep_list_def)

lemma access_nonempty: "access_ok a \<Longrightarrow> a \<noteq> []"
  by (auto simp: access_ok_def)

lemma decode_first:
  assumes "json_token t" "\<not> atRotate t" "atID t \<noteq> []" "access_ok (atScheduleAccess t)" "access_ok (atManageAccess t)"
  shows "decode_token ((DefaultAdminAPIToken sec)\<lparr>atID := tid\<rparr>) t = first_token t"
proof -
  have "atScheduleAccess t \<noteq> []" "atManageAccess t \<noteq> []" using assms(4,5) by (simp_all add: access_nonempty)
  then show ?thesis using decode_tools [OF assms(1)] assms(2,3)
    by (cases "json_map (atTools t)") (simp_all add: decode_token_def DefaultAdminAPIToken_def first_token_def keep_list_def)
qed

lemma decode_rest: "list_all json_token ts \<Longrightarrow> decode_tokens [] ts = ts"
  by (induction ts) simp_all

lemma decode_register: "decode_register_tokens [] ts = ts"
  by (induction ts) (simp_all add: decode_register_token_def zero_register_token_def keep_list_def)

lemma decode_limits: "mwf (rlTools r) \<Longrightarrow> decode_rate_limit old r = r" if "rlTools old = []" "rlExemptCIDRs old = []"
  using that fold_mput_all [of "[]" "rlTools r" "\<lambda>v. v"]
  by (simp add: decode_rate_limit_def keep_list_def list_all_iff)

lemma first_token_stable:
  "norm_api_token uuid n i ids secs t = (t', n', None) \<Longrightarrow> norm_api_token uuid n i ids secs (first_token t) = (first_token t', n', None)"
  by (auto simp: norm_api_token_def first_token_def Let_def split: if_splits option.splits prod.splits)

lemma first_token_ids [simp]: "atID (first_token t) = atID t" "atSecret (first_token t) = atSecret t" "atRotate (first_token t) = atRotate t"
  by (simp_all add: first_token_def)

lemma norm_first:
  "norm_api_tokens uuid n i ids secs (t # ts) = (t' # ts', n', None) \<Longrightarrow>
   norm_api_tokens uuid n i ids secs (first_token t # ts) = (first_token t' # ts', n', None)"
proof -
  assume "norm_api_tokens uuid n i ids secs (t # ts) = (t' # ts', n', None)"
  then obtain n1 where t: "norm_api_token uuid n i ids secs t = (t', n1, None)"
    and ts: "norm_api_tokens uuid n1 (Suc i) (atID t' # ids) (atSecret t' # secs) ts = (ts', n', None)"
    by (auto split: prod.splits option.splits)
  from first_token_stable [OF t] ts show ?thesis by simp
qed

lemma default_settings:
  assumes u: "uuid_ok uuid"
  shows "\<exists>s n' tid sec. DefaultManagedSettings uuid n = (s, n') \<and> msAPITokens s = [(DefaultAdminAPIToken sec)\<lparr>atID := tid\<rparr>]
    \<and> msRegisterTokens s = [] \<and> rlTools (msRateLimit s) = [] \<and> rlExemptCIDRs (msRateLimit s) = []"
proof -
  have access: "norm_access ''write'' = Some ''write''" by (rule norm_access_const(3))
  have "\<exists>s1. NormalizeManagedSettings uuid n zero_ManagedSettings = (s1, n, None) \<and> msRegisterTokens s1 = []
      \<and> rlTools (msRateLimit s1) = [] \<and> rlExemptCIDRs (msRateLimit s1) = []"
    by (simp add: NormalizeManagedSettings_def NormalizeAPITokenPermissions_def NormalizeRegisterTokens_def
        EnsureAgentLabelConfig_def zero_ManagedSettings_def zero_RateLimit_def DefaultRateLimit_def
        ClearManagedSettingsRotateFlags_def Let_def)
  then obtain s1 where s1: "NormalizeManagedSettings uuid n zero_ManagedSettings = (s1, n, None)" "msRegisterTokens s1 = []"
    "rlTools (msRateLimit s1) = []" "rlExemptCIDRs (msRateLimit s1) = []" by blast
  have t: "norm_api_token uuid (Suc n) 0 [] [] (DefaultAdminAPIToken (uuid n)) =
      ((DefaultAdminAPIToken (uuid n))\<lparr>atID := uuid (Suc n)\<rparr>, Suc (Suc n), None)"
    using u access by (simp add: norm_api_token_def fill_def DefaultAdminAPIToken_def uuid_ok_def Let_def)
  have "\<exists>s2. NormalizeManagedSettings uuid (Suc n) (s1\<lparr>msAPITokens := [DefaultAdminAPIToken (uuid n)]\<rparr>) = (s2, Suc (Suc n), None)
      \<and> msAPITokens s2 = [(DefaultAdminAPIToken (uuid n))\<lparr>atID := uuid (Suc n)\<rparr>] \<and> msRegisterTokens s2 = []
      \<and> rlTools (msRateLimit s2) = [] \<and> rlExemptCIDRs (msRateLimit s2) = []"
    using s1(2-4) by (simp add: NormalizeManagedSettings_def NormalizeAPITokenPermissions_def NormalizeRegisterTokens_def t
        EnsureAgentLabelConfig_def DefaultRateLimit_def ClearManagedSettingsRotateFlags_def Let_def)
      (simp add: DefaultAdminAPIToken_def)
  with s1(1) show ?thesis by (fastforce simp: DefaultManagedSettings_def Let_def)
qed

lemma normalize_tokens_only:
  assumes "norm_api_tokens uuid n 0 [] [] (msAPITokens s) = (ts, n, None)" "norm_register_tokens uuid n 0 [] [] (msRegisterTokens s) = (Inr rs, n)"
  shows "\<exists>r. NormalizeManagedSettings uuid n s = (r, n, None) \<and> msAPITokens r = map (\<lambda>t. t\<lparr>atRotate := False\<rparr>) ts
    \<and> msRegisterTokens r = map (\<lambda>t. t\<lparr>rgRotate := False\<rparr>) rs \<and> msRateLimit r = DefaultRateLimit (msRateLimit s) \<and> msRevision r = msRevision s"
  using assms by (simp add: NormalizeManagedSettings_def NormalizeAPITokenPermissions_def NormalizeRegisterTokens_def
      EnsureAgentLabelConfig_def ClearManagedSettingsRotateFlags_def Let_def)

lemma normalized_settings:
  assumes u: "uuid_ok uuid" and n: "NormalizeManagedSettings uuid n settings = (s, n', None)"
  shows "norm_api_tokens uuid m 0 [] [] (msAPITokens s) = (msAPITokens s, m, None)"
    "norm_register_tokens uuid m 0 [] [] (msRegisterTokens s) = (Inr (msRegisterTokens s), m)"
    "DefaultRateLimit (msRateLimit s) = msRateLimit s"
    "list_all (\<lambda>t. \<not> atRotate t) (msAPITokens s)" "map (\<lambda>t. t\<lparr>rgRotate := False\<rparr>) (msRegisterTokens s) = msRegisterTokens s"
proof -
  from n obtain s2 perms n1 toks where h:
    "s2 = EnsureAgentLabelConfig (settings\<lparr>msRateLimit := DefaultRateLimit (msRateLimit settings),
                        msLabelConfigs := NormalizeLabelConfigs (msLabelConfigs settings)\<rparr>)"
    "norm_api_tokens uuid n 0 [] [] (msAPITokens settings) = (perms, n1, None)"
    "norm_register_tokens uuid n1 0 [] [] (msRegisterTokens settings) = (Inr toks, n')"
    "s = ClearManagedSettingsRotateFlags (s2\<lparr>msAPITokens := perms, msRegisterTokens := toks\<rparr>)"
    by (rule NormalizeManagedSettings_None)
  show "norm_api_tokens uuid m 0 [] [] (msAPITokens s) = (msAPITokens s, m, None)"
    using norm_api_tokens_clear [OF norm_api_tokens_stable [OF u h(2)]] by (simp add: h(4) ClearManagedSettingsRotateFlags_def)
  show "norm_register_tokens uuid m 0 [] [] (msRegisterTokens s) = (Inr (msRegisterTokens s), m)"
    using norm_register_tokens_clear [OF norm_register_tokens_stable [OF u h(3)]] by (simp add: h(4) ClearManagedSettingsRotateFlags_def)
  show "DefaultRateLimit (msRateLimit s) = msRateLimit s"
    by (simp add: h(1,4) ClearManagedSettingsRotateFlags_def EnsureAgentLabelConfig_def Let_def)
  show "list_all (\<lambda>t. \<not> atRotate t) (msAPITokens s)" "map (\<lambda>t. t\<lparr>rgRotate := False\<rparr>) (msRegisterTokens s) = msRegisterTokens s"
    unfolding h(4) by (auto simp: ClearManagedSettingsRotateFlags_def list_all_iff)
qed


definition ex_token :: APITokenPermission where
  "ex_token =
     \<lparr>atID = ''t'', atName = ''n'', atSecret = ''s'', atRotate = False, atAll = False, atScheduleAccess = ''none'',
      atManageAccess = ''none'', atAgents = [''a1''], atDeniedAgents = [], atAgentTags = [], atDeniedTags = [], atTools = None\<rparr>"


end
