(* ===== verification/Loading.thy ===== *)
theory Loading
  imports AgentProgram
begin

text \<open>
  Loading of configurations (\<^verbatim>\<open>internal/config/config.go\<close>, \<^verbatim>\<open>LoadServer\<close> and \<^verbatim>\<open>LoadAgent\<close> with
  \<^verbatim>\<open>applyEnv\<close> and \<^verbatim>\<open>loadYAML\<close>). The reflection of the code walks over Go types: here a type is a
  \<open>cfg_type\<close>, with the names and the tags of the fields, and a value of it a \<open>cfg_value\<close>. The YAML
  library is a parameter: \<open>parse\<close> gives the node of a document, \<open>decode\<close> a value of a type.
\<close>


section \<open>Types and values\<close>

datatype cfg_type = TStr | TBool | TInt nat | TUint nat | TStrs | TStruct "((string \<times> string) \<times> cfg_type) list"

datatype cfg_value = VStr string | VBool bool | VInt int | VStrs "string list" | VStruct "cfg_value list"

datatype yaml_node = YZero | YDocument "yaml_node list" | YMapping "(string \<times> yaml_node) list" | YOther

definition yamlFieldName :: "string \<times> string \<Rightarrow> string" where
  "yamlFieldName field =
     (case field of (name, tag) \<Rightarrow> if tag = [] then ToLower name else takeWhile (\<lambda>c. c \<noteq> CHR '','') tag)"

text \<open>The zero value of a type.\<close>

fun zero_value :: "cfg_type \<Rightarrow> cfg_value" where
  "zero_value TStr = VStr []"
| "zero_value TBool = VBool False"
| "zero_value (TInt b) = VInt 0"
| "zero_value (TUint b) = VInt 0"
| "zero_value TStrs = VStrs []"
| "zero_value (TStruct fs) = VStruct (map (\<lambda>(n, t). zero_value t) fs)"


section \<open>Environment\<close>

text \<open>\<^verbatim>\<open>strconv.ParseBool\<close>.\<close>

definition ParseBool :: "string \<Rightarrow> bool option" where
  "ParseBool s =
     (if s \<in> set [''1'', ''t'', ''T'', ''true'', ''TRUE'', ''True''] then Some True
      else if s \<in> set [''0'', ''f'', ''F'', ''false'', ''FALSE'', ''False''] then Some False
      else None)"

text \<open>
  \<^verbatim>\<open>strconv.ParseInt\<close> and \<^verbatim>\<open>ParseUint\<close> with base 0: a prefix selects the base, and underscores may
  separate digits.
\<close>

definition digit_of :: "char \<Rightarrow> nat option" where
  "digit_of c =
     (let n = of_char (lower_char c) :: nat
      in if 48 \<le> n \<and> n \<le> 57 then Some (n - 48) else if 97 \<le> n \<and> n \<le> 122 then Some (n - 87) else None)"

fun digits_in :: "nat \<Rightarrow> nat \<Rightarrow> string \<Rightarrow> nat option" where
  "digits_in base acc [] = Some acc"
| "digits_in base acc (c # s) =
     (if c = CHR ''_'' then digits_in base acc s
      else (case digit_of c of
              Some d \<Rightarrow> if d < base then digits_in base (acc * base + d) s else None
            | None \<Rightarrow> None))"

definition int_base :: "string \<Rightarrow> nat \<times> string" where
  "int_base s =
     (if HasPrefix s ''0'' then
        (if 3 \<le> length s \<and> lower_char (s ! 1) = CHR ''b'' then (2, drop 2 s)
         else if 3 \<le> length s \<and> lower_char (s ! 1) = CHR ''o'' then (8, drop 2 s)
         else if 3 \<le> length s \<and> lower_char (s ! 1) = CHR ''x'' then (16, drop 2 s)
         else (8, drop 1 s))
      else (10, s))"

text \<open>The state of \<^verbatim>\<open>underscoreOK\<close> is the last character seen: a digit, an underscore, or something else.\<close>

datatype saw = SawStart | SawDigit | SawUnderscore | SawOther

fun underscores_ok :: "bool \<Rightarrow> saw \<Rightarrow> string \<Rightarrow> bool" where
  "underscores_ok hex st [] \<longleftrightarrow> st \<noteq> SawUnderscore"
| "underscores_ok hex st (c # s) \<longleftrightarrow>
     (if (case digit_of c of None \<Rightarrow> False | Some d \<Rightarrow> d < (if hex then 16 else 10)) then underscores_ok hex SawDigit s
      else if c = CHR ''_'' then st = SawDigit \<and> underscores_ok hex SawUnderscore s
      else st \<noteq> SawUnderscore \<and> underscores_ok hex SawOther s)"

definition underscoreOK :: "string \<Rightarrow> bool" where
  "underscoreOK s =
     (if 2 \<le> length s \<and> HasPrefix s ''0'' \<and> lower_char (s ! 1) \<in> set ''box''
      then underscores_ok (lower_char (s ! 1) = CHR ''x'') SawDigit (drop 2 s)
      else underscores_ok False SawStart s)"

definition ParseUint :: "string \<Rightarrow> nat \<Rightarrow> nat option" where
  "ParseUint s bits =
     (if s = [] then None
      else let (base, digits) = int_base s in
           case digits_in base 0 digits of
             None \<Rightarrow> None
           | Some n \<Rightarrow> if CHR ''_'' \<in> set digits \<and> \<not> underscoreOK s then None else if n < 2 ^ bits then Some n else None)"

definition ParseInt :: "string \<Rightarrow> nat \<Rightarrow> int option" where
  "ParseInt s bits =
     (let neg = HasPrefix s ''-''; u = (if neg \<or> HasPrefix s ''+'' then drop 1 s else s)
      in if s = [] then None
         else (case ParseUint u bits of
                 None \<Rightarrow> None
               | Some n \<Rightarrow>
                   if neg then (if n \<le> 2 ^ (bits - 1) then Some (- int n) else None)
                   else if n < 2 ^ (bits - 1) then Some (int n) else None))"

definition looksStructured :: "string \<Rightarrow> bool" where
  "looksStructured raw0 =
     (let raw = TrimSpace raw0 in HasPrefix raw ''['' \<or> HasPrefix raw ''{'' \<or> CHR 0x0A \<in> set raw)"

definition setEnvValue :: "(cfg_type \<Rightarrow> string \<Rightarrow> cfg_value res) \<Rightarrow> cfg_type \<Rightarrow> string \<Rightarrow> cfg_value res" where
  "setEnvValue decode ty raw =
     (case ty of
        TStr \<Rightarrow> Inr (VStr raw)
      | TBool \<Rightarrow> (case ParseBool raw of None \<Rightarrow> Inl (Errorf ''invalid syntax'' [raw]) | Some b \<Rightarrow> Inr (VBool b))
      | TInt bits \<Rightarrow> (case ParseInt raw bits of None \<Rightarrow> Inl (Errorf ''invalid syntax'' [raw]) | Some i \<Rightarrow> Inr (VInt i))
      | TUint bits \<Rightarrow> (case ParseUint raw bits of None \<Rightarrow> Inl (Errorf ''invalid syntax'' [raw]) | Some n \<Rightarrow> Inr (VInt (int n)))
      | TStrs \<Rightarrow> if \<not> looksStructured raw then Inr (VStrs (splitEnvList raw)) else decode ty raw
      | TStruct _ \<Rightarrow> decode ty raw)"

text \<open>The value at \<open>path\<close> from the variable of its name, if there is one.\<close>

definition env_value ::
  "(cfg_type \<Rightarrow> string \<Rightarrow> cfg_value res) \<Rightarrow> (string \<Rightarrow> string option) \<Rightarrow> cfg_type \<Rightarrow> string list \<Rightarrow> cfg_value \<Rightarrow> cfg_value res" where
  "env_value decode look ty path v =
     (if path = [] then Inr v
      else (case look (envName path) of
              None \<Rightarrow> Inr v
            | Some raw \<Rightarrow> (case setEnvValue decode ty raw of
                             Inl e \<Rightarrow> Inl (Errorf ''%s: %w'' [envName path])
                           | Inr v' \<Rightarrow> Inr v')))"

definition skipped :: "string \<Rightarrow> bool" where
  "skipped name \<longleftrightarrow> name = [] \<or> name = ''-''"

fun applyEnvValue ::
    "(cfg_type \<Rightarrow> string \<Rightarrow> cfg_value res) \<Rightarrow> (string \<Rightarrow> string option) \<Rightarrow> cfg_type \<Rightarrow> string list \<Rightarrow> cfg_value \<Rightarrow> cfg_value res"
  and apply_env_fields ::
    "(cfg_type \<Rightarrow> string \<Rightarrow> cfg_value res) \<Rightarrow> (string \<Rightarrow> string option) \<Rightarrow> ((string \<times> string) \<times> cfg_type) list \<Rightarrow> string list
       \<Rightarrow> cfg_value list \<Rightarrow> (cfg_value list) res" where
  "applyEnvValue decode look (TStruct fs) path v =
     bind_res (env_value decode look (TStruct fs) path v) (\<lambda>v'.
       case v' of VStruct vs \<Rightarrow> bind_res (apply_env_fields decode look fs path vs) (\<lambda>vs'. Inr (VStruct vs')) | _ \<Rightarrow> Inr v')"
| "applyEnvValue decode look ty path v = env_value decode look ty path v"
| "apply_env_fields decode look ((field, ty) # fs) path (v # vs) =
     bind_res (if skipped (yamlFieldName field) then Inr v else applyEnvValue decode look ty (path @ [yamlFieldName field]) v) (\<lambda>v'.
       bind_res (apply_env_fields decode look fs path vs) (\<lambda>vs'. Inr (v' # vs')))"
| "apply_env_fields decode look _ path vs = Inr vs"

definition applyEnv :: "(cfg_type \<Rightarrow> string \<Rightarrow> cfg_value res) \<Rightarrow> (string \<Rightarrow> string option) \<Rightarrow> cfg_type \<Rightarrow> cfg_value res" where
  "applyEnv decode look ty = applyEnvValue decode look ty [] (zero_value ty)"


section \<open>File\<close>

definition yamlDocumentValue :: "yaml_node \<Rightarrow> yaml_node" where
  "yamlDocumentValue doc = (case doc of YDocument (c # _) \<Rightarrow> c | _ \<Rightarrow> doc)"

definition yamlMappingValue :: "yaml_node \<Rightarrow> string \<Rightarrow> yaml_node option" where
  "yamlMappingValue node name = (case node of YMapping m \<Rightarrow> mget m name | _ \<Rightarrow> None)"

text \<open>A field takes the value of the file when the node has it; structs are merged field by field.\<close>

fun mergeYAMLValue :: "cfg_type \<Rightarrow> cfg_value \<Rightarrow> cfg_value \<Rightarrow> yaml_node \<Rightarrow> cfg_value"
  and merge_fields :: "((string \<times> string) \<times> cfg_type) list \<Rightarrow> cfg_value list \<Rightarrow> cfg_value list \<Rightarrow> yaml_node \<Rightarrow> cfg_value list" where
  "mergeYAMLValue (TStruct fs) (VStruct ds) (VStruct ss) (YMapping m) = VStruct (merge_fields fs ds ss (YMapping m))"
| "mergeYAMLValue ty dst src node = src"
| "merge_fields ((field, ty) # fs) (d # ds) (s # ss) node =
     (if skipped (yamlFieldName field) then d
      else (case yamlMappingValue node (yamlFieldName field) of
              None \<Rightarrow> d
            | Some child \<Rightarrow> mergeYAMLValue ty d s child)) # merge_fields fs ds ss node"
| "merge_fields _ ds ss node = ds"

text \<open>The contents of the file: an error, no file, or its bytes.\<close>

definition loadYAML ::
  "(string \<Rightarrow> yaml_node res) \<Rightarrow> (cfg_type \<Rightarrow> string \<Rightarrow> cfg_value res) \<Rightarrow> (string option) res \<Rightarrow> cfg_type \<Rightarrow> cfg_value \<Rightarrow> cfg_value res" where
  "loadYAML parse decode file ty v =
     (case file of
        Inl e \<Rightarrow> Inl e
      | Inr None \<Rightarrow> Inr v
      | Inr (Some b) \<Rightarrow>
          bind_res (parse b) (\<lambda>doc. bind_res (decode ty b) (\<lambda>src. Inr (mergeYAMLValue ty v src (yamlDocumentValue doc)))))"

definition load_config ::
  "(string \<Rightarrow> yaml_node res) \<Rightarrow> (cfg_type \<Rightarrow> string \<Rightarrow> cfg_value res) \<Rightarrow> (string \<Rightarrow> string option) \<Rightarrow> (string option) res
     \<Rightarrow> cfg_type \<Rightarrow> cfg_value res" where
  "load_config parse decode look file ty = bind_res (applyEnv decode look ty) (loadYAML parse decode file ty)"


section \<open>The configurations\<close>

definition TLS_type :: cfg_type where
  "TLS_type =
     TStruct [((''Enabled'', ''enabled''), TBool), ((''CAFiles'', ''ca_files''), TStrs), ((''CertFile'', ''cert_file''), TStr),
       ((''KeyFile'', ''key_file''), TStr)]"

definition Speedtest_type :: cfg_type where
  "Speedtest_type =
     TStruct [((''DefaultBytes'', ''default_bytes''), TInt 64), ((''MaxBytes'', ''max_bytes''), TInt 64),
       ((''GlobalRequestsPerMinute'', ''global_requests_per_minute''), TInt 64), ((''GlobalBurst'', ''global_burst''), TInt 64),
       ((''IPRequestsPerMinute'', ''ip_requests_per_minute''), TInt 64), ((''IPBurst'', ''ip_burst''), TInt 64)]"

definition Server_type :: cfg_type where
  "Server_type =
     TStruct [((''HTTPAddr'', ''http_addr''), TStr), ((''GRPCAddr'', ''grpc_addr''), TStr), ((''LogLevel'', ''log_level''), TStr),
       ((''DatabaseURL'', ''database_url''), TStr), ((''GeoIPURL'', ''geoip_url''), TStr), ((''TrustedProxies'', ''trusted_proxies''), TStrs),
       ((''ClientIPHeaders'', ''client_ip_headers''), TStrs), ((''TLS'', ''tls''), TLS_type)]"

definition Agent_type :: cfg_type where
  "Agent_type =
     TStruct [((''ID'', ''id''), TStr), ((''Mode'', ''mode''), TStr), ((''LogLevel'', ''log_level''), TStr), ((''Country'', ''country''), TStr),
       ((''Region'', ''region''), TStr), ((''Provider'', ''provider''), TStr), ((''ISP'', ''isp''), TStr), ((''ServerAddr'', ''server_addr''), TStr),
       ((''RegisterToken'', ''register_token''), TStr), ((''HTTPToken'', ''http_token''), TStr), ((''HTTPAddr'', ''http_addr''), TStr),
       ((''HTTPPathPrefix'', ''http_path_prefix''), TStr), ((''Capabilities'', ''capabilities''), TStrs), ((''Protocols'', ''protocols''), TUint 8),
       ((''HideFirstHops'', ''hide_first_hops''), TInt 64), ((''TLS'', ''tls''), TLS_type), ((''HTTPTLS'', ''http_tls''), TLS_type),
       ((''Speedtest'', ''speedtest''), Speedtest_type)]"

record server_config =
  scHTTPAddr :: string
  scGRPCAddr :: string
  scLogLevel :: string
  scDatabaseURL :: string
  scGeoIPURL :: string
  scTrustedProxies :: "string list"
  scClientIPHeaders :: "string list"
  scTLS :: TLS

fun str_of :: "cfg_value \<Rightarrow> string" where
  "str_of (VStr s) = s"
| "str_of _ = []"

fun strs_of :: "cfg_value \<Rightarrow> string list" where
  "strs_of (VStrs ss) = ss"
| "strs_of _ = []"

fun bool_of :: "cfg_value \<Rightarrow> bool" where
  "bool_of (VBool b) = b"
| "bool_of _ = False"

fun int_of :: "cfg_value \<Rightarrow> int" where
  "int_of (VInt i) = i"
| "int_of _ = 0"

fun field :: "nat \<Rightarrow> cfg_value \<Rightarrow> cfg_value" where
  "field n (VStruct vs) = vs ! n"
| "field n v = v"

definition tls_of :: "cfg_value \<Rightarrow> TLS" where
  "tls_of v =
     \<lparr>tlsEnabled = bool_of (field 0 v), tlsCAFiles = strs_of (field 1 v), tlsCertFile = str_of (field 2 v),
      tlsKeyFile = str_of (field 3 v)\<rparr>"

definition server_of :: "cfg_value \<Rightarrow> server_config" where
  "server_of v =
     \<lparr>scHTTPAddr = str_of (field 0 v), scGRPCAddr = str_of (field 1 v), scLogLevel = str_of (field 2 v),
      scDatabaseURL = str_of (field 3 v), scGeoIPURL = str_of (field 4 v), scTrustedProxies = strs_of (field 5 v),
      scClientIPHeaders = strs_of (field 6 v), scTLS = tls_of (field 7 v)\<rparr>"

definition speedtest_of :: "cfg_value \<Rightarrow> Speedtest" where
  "speedtest_of v =
     \<lparr>spDefaultBytes = int_of (field 0 v), spMaxBytes = int_of (field 1 v), spGlobalRequestsPerMinute = int_of (field 2 v),
      spGlobalBurst = int_of (field 3 v), spIPRequestsPerMinute = int_of (field 4 v), spIPBurst = int_of (field 5 v)\<rparr>"

definition agent_of :: "cfg_value \<Rightarrow> agent_config" where
  "agent_of v =
     \<lparr>acID = str_of (field 0 v), acMode = str_of (field 1 v), acLogLevel = str_of (field 2 v), acCountry = str_of (field 3 v),
      acRegion = str_of (field 4 v), acProvider = str_of (field 5 v), acISP = str_of (field 6 v), acServerAddr = str_of (field 7 v),
      acRegisterToken = str_of (field 8 v), acHTTPToken = str_of (field 9 v), acHTTPAddr = str_of (field 10 v),
      acHTTPPathPrefix = str_of (field 11 v), acCapabilities = strs_of (field 12 v), acProtocols = word_of_int (int_of (field 13 v)),
      acHideFirstHops = int_of (field 14 v), acTLS = tls_of (field 15 v), acHTTPTLS = tls_of (field 16 v),
      acSpeedtest = speedtest_of (field 17 v)\<rparr>"

definition LoadServer ::
  "(string \<Rightarrow> yaml_node res) \<Rightarrow> (cfg_type \<Rightarrow> string \<Rightarrow> cfg_value res) \<Rightarrow> (string \<Rightarrow> string option) \<Rightarrow> (string option) res
     \<Rightarrow> server_config res" where
  "LoadServer parse decode look file =
     bind_res (load_config parse decode look file Server_type) (\<lambda>v.
       let cfg = server_of v
       in Inr (cfg\<lparr>scHTTPAddr := (if scHTTPAddr cfg = [] then '':8080'' else scHTTPAddr cfg),
                  scGRPCAddr := (if scGRPCAddr cfg = [] then '':8443'' else scGRPCAddr cfg)\<rparr>))"

definition LoadAgent ::
  "(string \<Rightarrow> yaml_node res) \<Rightarrow> (cfg_type \<Rightarrow> string \<Rightarrow> cfg_value res) \<Rightarrow> (string \<Rightarrow> string option) \<Rightarrow> (string option) res
     \<Rightarrow> agent_config res" where
  "LoadAgent parse decode look file =
     bind_res (load_config parse decode look file Agent_type) (\<lambda>v. loaded_agent (agent_of v))"


section \<open>Precedence\<close>

text \<open>Values have the shape of their type, and the names of the fields of a type are distinct.\<close>

fun typed :: "cfg_type \<Rightarrow> cfg_value \<Rightarrow> bool" where
  "typed (TStruct fs) (VStruct vs) \<longleftrightarrow> list_all2 (\<lambda>(n, t) v. typed t v) fs vs"
| "typed TStr (VStr s) = True"
| "typed TBool (VBool b) = True"
| "typed (TInt b) (VInt i) = True"
| "typed (TUint b) (VInt i) = True"
| "typed TStrs (VStrs ss) = True"
| "typed _ _ = False"

fun named :: "cfg_type \<Rightarrow> bool" where
  "named (TStruct fs) \<longleftrightarrow>
     distinct (map (\<lambda>(n, t). yamlFieldName n) fs) \<and> list_all (\<lambda>(n, t). \<not> skipped (yamlFieldName n) \<and> named t) fs"
| "named _ = True"

text \<open>The value at a path of names, if the path ends at a field that is not a struct.\<close>

fun leaf :: "cfg_type \<Rightarrow> string list \<Rightarrow> cfg_value \<Rightarrow> (cfg_type \<times> cfg_value) option" where
  "leaf (TStruct fs) [] v = None"
| "leaf (TStruct fs) (n # p) (VStruct vs) =
     (case find (\<lambda>(f, v). yamlFieldName (fst f) = n) (zip fs vs) of None \<Rightarrow> None | Some ((_, ty), v) \<Rightarrow> leaf ty p v)"
| "leaf (TStruct fs) (n # p) v = None"
| "leaf ty [] v = Some (ty, v)"
| "leaf ty (n # p) v = None"

text \<open>Whether a document says something about a path: a value that is no mapping is about all below it.\<close>

fun says :: "yaml_node \<Rightarrow> string list \<Rightarrow> bool" where
  "says (YMapping m) (n # p) = (case mget m n of None \<Rightarrow> False | Some child \<Rightarrow> says child p)"
| "says _ _ = True"

lemma leaf_plain: "\<nexists>fs. ty = TStruct fs \<Longrightarrow> leaf ty p v = (if p = [] then Some (ty, v) else None)"
  by (cases ty; cases p) auto

lemma leaf_struct: "leaf (TStruct fs) [] v = None"
  by simp

lemma merge_plain: "\<nexists>fs. ty = TStruct fs \<Longrightarrow> mergeYAMLValue ty d s node = s"
  by (cases ty) auto

lemma merge_no_mapping: "\<nexists>m. node = YMapping m \<Longrightarrow> mergeYAMLValue ty d s node = s"
  by (cases node; cases ty; cases d; cases s) auto

lemma says_no_mapping: "\<nexists>m. node = YMapping m \<Longrightarrow> says node p"
  by (cases node; cases p) auto

lemma typed_struct: "typed (TStruct fs) v \<Longrightarrow> \<exists>vs. v = VStruct vs \<and> list_all2 (\<lambda>(n, t) v. typed t v) fs vs"
  by (cases v) auto

abbreviation field_named :: "string \<Rightarrow> ((string \<times> string) \<times> cfg_type) \<times> cfg_value \<Rightarrow> bool" where
  "field_named n \<equiv> \<lambda>(f, v). yamlFieldName (fst f) = n"

text \<open>The field of a name in lists of the same fields.\<close>

lemma find_merged:
  assumes "list_all2 (\<lambda>(n, t) v. typed t v) fs ds" "list_all2 (\<lambda>(n, t) v. typed t v) fs ss" "list_all (\<lambda>(n, t). \<not> skipped (yamlFieldName n) \<and> named t) fs"
  shows "case find (field_named n) (zip fs ds) of
      None \<Rightarrow> find (field_named n) (zip fs ss) = None \<and> find (field_named n) (zip fs (merge_fields fs ds ss node)) = None
    | Some ((f, ty), d) \<Rightarrow> typed ty d \<and> named ty \<and> (\<exists>s. typed ty s \<and> find (field_named n) (zip fs ss) = Some ((f, ty), s)
        \<and> find (field_named n) (zip fs (merge_fields fs ds ss node)) =
            Some ((f, ty), case yamlMappingValue node n of None \<Rightarrow> d | Some child \<Rightarrow> mergeYAMLValue ty d s child))"
  using assms
proof (induction fs arbitrary: ds ss)
  case (Cons f fs)
  from Cons.prems obtain d ds' s ss' where v: "ds = d # ds'" "ss = s # ss'" by (auto simp: list_all2_Cons1)
  obtain n' ty where f: "f = (n', ty)" by (meson surj_pair)
  from Cons.IH [of ds' ss'] Cons.prems v f show ?case by (cases "yamlFieldName n' = n") (auto cong: option.case_cong prod.case_cong)
qed simp

lemma leaf_merge:
  assumes "typed ty d" "typed ty s" "named ty"
  shows "leaf ty p (mergeYAMLValue ty d s node) = (if says node p then leaf ty p s else leaf ty p d)"
  using assms
proof (induction p arbitrary: ty d s node)
  case Nil
  then show ?case by (cases ty) (auto simp: merge_plain)
next
  case (Cons n p)
  show ?case
  proof (cases "(\<exists>fs. ty = TStruct fs) \<and> (\<exists>m. node = YMapping m)")
    case False
    then show ?thesis by (auto simp: leaf_plain merge_no_mapping says_no_mapping)
  next
    case True
    then obtain fs m where ty: "ty = TStruct fs" and node: "node = YMapping m" by blast
    obtain ds ss where v: "d = VStruct ds" "s = VStruct ss" "list_all2 (\<lambda>(n, t) v. typed t v) fs ds" "list_all2 (\<lambda>(n, t) v. typed t v) fs ss"
      using Cons.prems typed_struct unfolding ty by blast
    have "list_all (\<lambda>(n, t). \<not> skipped (yamlFieldName n) \<and> named t) fs" using Cons.prems(3) ty by simp
    note found = find_merged [OF v(3,4) this, of n "YMapping m"]
    show ?thesis
    proof (cases "find (field_named n) (zip fs ds)")
      case None
      with found show ?thesis by (simp add: ty node v(1,2))
    next
      case (Some fd)
      obtain f ty1 d1 where fd: "fd = ((f, ty1), d1)" by (metis surj_pair)
      with Some found obtain s1 where h: "typed ty1 d1" "named ty1" "typed ty1 s1" "find (field_named n) (zip fs ss) = Some ((f, ty1), s1)"
        "find (field_named n) (zip fs (merge_fields fs ds ss (YMapping m))) =
           Some ((f, ty1), case yamlMappingValue (YMapping m) n of None \<Rightarrow> d1 | Some child \<Rightarrow> mergeYAMLValue ty1 d1 s1 child)" by auto
      from h(4,5) Some show ?thesis
        by (cases "mget m n") (simp_all add: ty node v(1,2) fd yamlMappingValue_def Cons.IH [OF h(1,3,2)])
    qed
  qed
qed

lemma apply_fields_find:
  assumes "apply_env_fields decode look fs path vs = Inr vs'" "list_all2 (\<lambda>(n, t) v. typed t v) fs vs"
    "list_all (\<lambda>(n, t). \<not> skipped (yamlFieldName n) \<and> named t) fs"
  shows "case find (field_named n) (zip fs vs) of
      None \<Rightarrow> True
    | Some ((f, ty), v) \<Rightarrow> typed ty v \<and> named ty \<and>
        (\<exists>v'. applyEnvValue decode look ty (path @ [n]) v = Inr v' \<and> find (field_named n) (zip fs vs') = Some ((f, ty), v'))"
  using assms
proof (induction fs arbitrary: vs vs')
  case (Cons f fs)
  from Cons.prems obtain v vs1 where v: "vs = v # vs1" by (auto simp: list_all2_Cons1)
  obtain n' ty where f: "f = (n', ty)" by (meson surj_pair)
  from Cons.prems(1,3) obtain v' vs2 where r: "applyEnvValue decode look ty (path @ [yamlFieldName n']) v = Inr v'"
    "apply_env_fields decode look fs path vs1 = Inr vs2" "vs' = v' # vs2" by (auto simp: v f bind_res_Inr)
  from Cons.IH [OF r(2)] Cons.prems v f r show ?case by (cases "yamlFieldName n' = n") (auto cong: option.case_cong prod.case_cong)
qed simp

lemma leaf_env:
  assumes "applyEnvValue decode look ty path v = Inr v'" "typed ty v" "named ty" "leaf ty p v = Some (t, z)"
    "\<And>k. k < length p \<Longrightarrow> path @ take k p = [] \<or> look (envName (path @ take k p)) = None"
  shows "\<exists>x. leaf ty p v' = Some (t, x) \<and> env_value decode look t (path @ p) z = Inr x"
  using assms
proof (induction p arbitrary: ty path v v')
  case Nil
  then have "\<nexists>fs. ty = TStruct fs" by auto
  with Nil show ?case by (cases ty) (auto simp: leaf_plain)
next
  case (Cons n p)
  then obtain fs where ty: "ty = TStruct fs" using leaf_plain [of ty "n # p" v] by fastforce
  with Cons.prems(2) obtain vs where v: "v = VStruct vs" "list_all2 (\<lambda>(n, t) v. typed t v) fs vs" using typed_struct by blast
  have "env_value decode look ty path v = Inr v" using Cons.prems(5) [of 0] by (auto simp: env_value_def)
  with Cons.prems(1) obtain vs' where f: "apply_env_fields decode look fs path vs = Inr vs'" "v' = VStruct vs'"
    by (auto simp: ty v bind_res_Inr)
  have "list_all (\<lambda>(n, t). \<not> skipped (yamlFieldName n) \<and> named t) fs" using Cons.prems(3) ty by simp
  note found = apply_fields_find [OF f(1) v(2) this, of n]
  from Cons.prems(4) obtain n' ty1 v1 where o: "find (field_named n) (zip fs vs) = Some ((n', ty1), v1)" "leaf ty1 p v1 = Some (t, z)"
    by (auto simp: ty v split: option.splits)
  with found obtain v2 where v2: "typed ty1 v1" "named ty1" "applyEnvValue decode look ty1 (path @ [n]) v1 = Inr v2"
    "find (field_named n) (zip fs vs') = Some ((n', ty1), v2)" by auto
  have "(path @ [n]) @ take k p = [] \<or> look (envName ((path @ [n]) @ take k p)) = None" if "k < length p" for k
    using Cons.prems(5) [of "Suc k"] that by simp
  from Cons.IH [OF v2(3,1,2) o(2) this] v2(4) show ?case by (simp add: ty f(2))
qed

text \<open>What the program relies on of the YAML decoder: it decodes into a value of the type.\<close>

definition decodes_types :: "(cfg_type \<Rightarrow> string \<Rightarrow> cfg_value res) \<Rightarrow> bool" where
  "decodes_types decode \<longleftrightarrow> (\<forall>ty raw v. decode ty raw = Inr v \<longrightarrow> typed ty v)"

lemma typed_zero [simp]: "typed ty (zero_value ty)"
  by (induction ty rule: zero_value.induct) (auto simp: list_all2_conv_all_nth split: prod.splits, metis nth_mem)

lemma setEnvValue_typed: "decodes_types decode \<Longrightarrow> setEnvValue decode ty raw = Inr v \<Longrightarrow> typed ty v"
  by (cases ty) (auto simp: setEnvValue_def decodes_types_def split: option.splits if_splits)

lemma env_value_typed: "decodes_types decode \<Longrightarrow> typed ty v \<Longrightarrow> env_value decode look ty path v = Inr v' \<Longrightarrow> typed ty v'"
  by (auto simp: env_value_def setEnvValue_typed split: if_splits option.splits sum.splits)

lemma applyEnv_typed:
  "decodes_types decode \<Longrightarrow> typed ty v \<Longrightarrow> applyEnvValue decode look ty path v = Inr v' \<Longrightarrow> typed ty v'"
  "decodes_types decode \<Longrightarrow> list_all2 (\<lambda>(n, t) v. typed t v) fs vs \<Longrightarrow> apply_env_fields decode look fs path vs = Inr vs' \<Longrightarrow>
   list_all2 (\<lambda>(n, t) v. typed t v) fs vs'"
proof (induction decode look ty path v and decode look fs path vs arbitrary: v' and vs' rule: applyEnvValue_apply_env_fields.induct)
  case (1 decode look fs path v)
  from "1.prems"(3) obtain v1 where v1: "env_value decode look (TStruct fs) path v = Inr v1" by (auto simp: bind_res_Inr)
  from env_value_typed [OF "1.prems"(1,2) v1] obtain vs where vs: "v1 = VStruct vs" "list_all2 (\<lambda>(n, t) v. typed t v) fs vs"
    using typed_struct by blast
  from "1.prems"(3) v1 vs(1) obtain vs' where "apply_env_fields decode look fs path vs = Inr vs'" "v' = VStruct vs'"
    by (auto simp: bind_res_Inr)
  with "1.IH" [OF vs(1) "1.prems"(1) vs(2)] show ?case by simp
qed (auto simp: bind_res_Inr env_value_typed split: if_splits)

lemma types_named: "named Server_type" "named Agent_type"
  by code_simp+


definition ex_doc :: yaml_node where
  "ex_doc = YDocument [YMapping [(''tls'', YMapping [(''enabled'', YOther)])]]"

definition ex_decode :: "cfg_type \<Rightarrow> string \<Rightarrow> cfg_value res" where
  "ex_decode ty raw = Inr (zero_value ty)"

definition ex_look :: "string \<Rightarrow> string option" where
  "ex_look name = (if name = ''MTR_TLS_CERT_FILE'' then Some ''c'' else if name = ''MTR_TLS_ENABLED'' then Some ''true'' else None)"


end
