(* ===== verification/ServerProgram.thy ===== *)
theory ServerProgram
  imports ApiClaims Loading SqlStore
begin

text \<open>
  The start of the server (\<^verbatim>\<open>cmd/server/main.go\<close>) and the TLS helpers it uses
  (\<^verbatim>\<open>internal/tlsutil/tls.go\<close>): the choice of the store, the hub, the limiter and the API server made from
  the stored settings. Key pairs, files and certificate checks are parameters.
\<close>


section \<open>TLS\<close>

record 'c tls_config =
  tcfgCertificates :: "'c list"
  tcfgMinVersion :: nat
  tcfgClientCAs :: "string list option"
  tcfgRequireClientCert :: bool
  tcfgRootCAs :: "string list option"
  tcfgInsecureSkipVerify :: bool
  tcfgVerify :: bool

datatype 'c credentials = Insecure | Secured "'c tls_config"

text \<open>\<^verbatim>\<open>tls.VersionTLS12\<close>.\<close>

definition VersionTLS12 :: nat where
  "VersionTLS12 = 0x0303"

text \<open>A pool is the list of the contents of its files.\<close>

fun loadPool :: "(string \<Rightarrow> string res) \<Rightarrow> string list \<Rightarrow> (string list) res" where
  "loadPool readFile [] = Inr []"
| "loadPool readFile (path # paths) =
     bind_res (readFile path) (\<lambda>b. bind_res (loadPool readFile paths) (\<lambda>bs. Inr (b # bs)))"

definition serverTLSConfig ::
  "(string \<Rightarrow> string res) \<Rightarrow> (string \<Rightarrow> string \<Rightarrow> 'c res) \<Rightarrow> string list \<Rightarrow> string \<Rightarrow> string \<Rightarrow> ('c tls_config) res" where
  "serverTLSConfig readFile loadPair caFiles certFile keyFile =
     bind_res (loadPair certFile keyFile) (\<lambda>cert.
       let cfg = \<lparr>tcfgCertificates = [cert], tcfgMinVersion = VersionTLS12, tcfgClientCAs = None, tcfgRequireClientCert = False,
                  tcfgRootCAs = None, tcfgInsecureSkipVerify = False, tcfgVerify = False\<rparr>
       in if caFiles \<noteq> [] then bind_res (loadPool readFile caFiles) (\<lambda>ca.
            Inr (cfg\<lparr>tcfgClientCAs := Some ca, tcfgRequireClientCert := True\<rparr>))
          else Inr cfg)"

definition ServerCredentials ::
  "(string \<Rightarrow> string res) \<Rightarrow> (string \<Rightarrow> string \<Rightarrow> 'c res) \<Rightarrow> string list \<Rightarrow> string \<Rightarrow> string \<Rightarrow> bool \<Rightarrow> ('c credentials) res" where
  "ServerCredentials readFile loadPair caFiles certFile keyFile enabled =
     (if certFile = [] \<or> keyFile = [] then
        (if enabled then Inl (Errorf ''tls cert_file and key_file are required when tls.enabled is true'' []) else Inr Insecure)
      else bind_res (serverTLSConfig readFile loadPair caFiles certFile keyFile) (\<lambda>cfg. Inr (Secured cfg)))"

definition ServerTLSConfig ::
  "(string \<Rightarrow> string res) \<Rightarrow> (string \<Rightarrow> string \<Rightarrow> 'c res) \<Rightarrow> string list \<Rightarrow> string \<Rightarrow> string \<Rightarrow> bool \<Rightarrow> ('c tls_config option) res" where
  "ServerTLSConfig readFile loadPair caFiles certFile keyFile enabled =
     (if \<not> enabled then Inr None
      else if certFile = [] \<or> keyFile = [] then
        Inl (Errorf ''tls cert_file and key_file are required when tls.enabled is true'' [])
      else bind_res (serverTLSConfig readFile loadPair caFiles certFile keyFile) (\<lambda>cfg. Inr (Some cfg)))"

definition ClientTLSConfig ::
  "(string \<Rightarrow> string res) \<Rightarrow> (string \<Rightarrow> string \<Rightarrow> 'c res) \<Rightarrow> string list \<Rightarrow> string \<Rightarrow> string \<Rightarrow> bool \<Rightarrow> ('c tls_config option) res" where
  "ClientTLSConfig readFile loadPair caFiles certFile keyFile enabled =
     (if \<not> enabled \<and> caFiles = [] \<and> certFile = [] \<and> keyFile = [] then Inr None
      else
        bind_res (if caFiles \<noteq> [] then bind_res (loadPool readFile caFiles) (\<lambda>pool. Inr (Some pool)) else Inr None) (\<lambda>roots.
        bind_res (if certFile \<noteq> [] \<or> keyFile \<noteq> [] then bind_res (loadPair certFile keyFile) (\<lambda>cert. Inr [cert]) else Inr []) (\<lambda>certs.
          Inr (Some \<lparr>tcfgCertificates = certs, tcfgMinVersion = VersionTLS12, tcfgClientCAs = None, tcfgRequireClientCert = False,
                     tcfgRootCAs = roots, tcfgInsecureSkipVerify = True, tcfgVerify = True\<rparr>))))"

definition ClientCredentials ::
  "(string \<Rightarrow> string res) \<Rightarrow> (string \<Rightarrow> string \<Rightarrow> 'c res) \<Rightarrow> string list \<Rightarrow> string \<Rightarrow> string \<Rightarrow> bool \<Rightarrow> ('c credentials) res" where
  "ClientCredentials readFile loadPair caFiles certFile keyFile enabled =
     (if \<not> enabled \<and> caFiles = [] \<and> certFile = [] \<and> keyFile = [] then Inr Insecure
      else bind_res (ClientTLSConfig readFile loadPair caFiles certFile keyFile enabled) (\<lambda>cfg.
        Inr (case cfg of None \<Rightarrow> Insecure | Some c \<Rightarrow> Secured c)))"

text \<open>
  \<^verbatim>\<open>VerifyConnection\<close> of a client: \<open>verify\<close> checks a certificate for the use of servers, with root
  certificates and intermediate ones. The name of the server is not checked.
\<close>

definition VerifyConnection :: "(string list option \<Rightarrow> 'c list \<Rightarrow> 'c \<Rightarrow> error option) \<Rightarrow> 'c tls_config \<Rightarrow> 'c list \<Rightarrow> error option" where
  "VerifyConnection verify cfg peers =
     (case peers of
        [] \<Rightarrow> Some (Errorf ''tls peer certificate is required'' [])
      | cert # intermediates \<Rightarrow> verify (tcfgRootCAs cfg) intermediates cert)"


section \<open>Command line\<close>

definition firstExistingConfig :: "(string \<Rightarrow> bool) \<Rightarrow> string \<Rightarrow> string \<Rightarrow> string" where
  "firstExistingConfig exists systemPath localPath = (if exists systemPath then systemPath else localPath)"

definition serverConfigPath :: "(string \<Rightarrow> bool) \<Rightarrow> string" where
  "serverConfigPath exists = firstExistingConfig exists ''/etc/mtr/server.yaml'' ''configs/server.yaml''"

definition isSQLiteDSN :: "string \<Rightarrow> bool" where
  "isSQLiteDSN dsn \<longleftrightarrow>
     HasPrefix dsn ''sqlite:'' \<or> HasPrefix dsn ''file:'' \<or> HasPrefix (rev dsn) (rev ''.db'') \<or> HasPrefix (rev dsn) (rev ''.sqlite'')"

datatype log_level = LevelDebug | LevelInfo | LevelWarn | LevelError

definition newLogger :: "string \<Rightarrow> log_level" where
  "newLogger level =
     (if ToLower level = ''debug'' then LevelDebug else if ToLower level = ''warn'' then LevelWarn
      else if ToLower level = ''error'' then LevelError else LevelInfo)"

datatype store_kind = SQLiteStore | PostgresStore | MemoryStore

definition store_kind :: "server_config \<Rightarrow> store_kind" where
  "store_kind cfg =
     (if isSQLiteDSN (scDatabaseURL cfg) then SQLiteStore else if scDatabaseURL cfg \<noteq> [] then PostgresStore else MemoryStore)"


section \<open>Start\<close>

definition startup_scheduler :: "ManagedSettings \<Rightarrow> Scheduler" where
  "startup_scheduler settings =
     (case Option.bind (msLabelConfigs settings) (\<lambda>m. mget m AgentAllLabel) of
        Some cfg \<Rightarrow> (case lcScheduler cfg of Some s \<Rightarrow> s | None \<Rightarrow> DefaultScheduler zero_Scheduler)
      | None \<Rightarrow> DefaultScheduler zero_Scheduler)"

definition startup_limits :: "ManagedSettings \<Rightarrow> RateLimit" where
  "startup_limits settings =
     (let rl = msRateLimit settings in
      \<lparr>rlGlobal = \<lparr>lsRequestsPerMinute = lsRequestsPerMinute (rlGlobal rl), lsBurst = lsBurst (rlGlobal rl)\<rparr>,
       rlIP = \<lparr>lsRequestsPerMinute = lsRequestsPerMinute (rlIP rl), lsBurst = lsBurst (rlIP rl)\<rparr>,
       rlCIDR = \<lparr>csRequestsPerMinute = csRequestsPerMinute (rlCIDR rl), csBurst = csBurst (rlCIDR rl),
                 csIPv4Prefix = csIPv4Prefix (rlCIDR rl), csIPv6Prefix = csIPv6Prefix (rlCIDR rl)\<rparr>,
       rlGeoIP = \<lparr>lsRequestsPerMinute = lsRequestsPerMinute (rlGeoIP rl), lsBurst = lsBurst (rlGeoIP rl)\<rparr>,
       rlTools = AbuseToolLimits (rlTools rl), rlExemptCIDRs = rlExemptCIDRs rl\<rparr>)"

text \<open>
  The rest of \<^verbatim>\<open>main\<close> once the store is open, with the contents of the store as they are in memory. An error
  ends the program. The result is the server and the credentials of the gRPC listener.
\<close>

definition start_server ::
  "henv \<Rightarrow> (string \<Rightarrow> string res) \<Rightarrow> (string \<Rightarrow> string \<Rightarrow> 'c res) \<Rightarrow> server_config \<Rightarrow> nat \<Rightarrow> Memory
     \<Rightarrow> ('b World \<times> 'c credentials) res" where
  "start_server env readFile loadPair cfg n m =
     (case GetManagedSettings (heUUID env) n m of
        (_, _, Some e) \<Rightarrow> Inl e
      | (settings, n1, None) \<Rightarrow>
          (let sched = startup_scheduler settings;
               hub = NewHub DefaultPolicies (seconds (scAgentOfflineAfterSec sched)) (seconds (scPollIntervalSec sched))
                       (scMaxInflightPerAgent sched);
               s = ApplySettings env settings
                     \<lparr>sysStore = m, sysHub = hub, sysUUID = n1, sysSent = [], sysCanceled = [], sysNextSub = 0, sysLoops = [], sysNextLoop = 0\<rparr>
           in bind_res (NewConfiguredLimiterWithError (startup_limits settings)) (\<lambda>limiter.
              bind_res (ServerCredentials readFile loadPair (tlsCAFiles (scTLS cfg)) (tlsCertFile (scTLS cfg)) (tlsKeyFile (scTLS cfg))
                         (tlsEnabled (scTLS cfg))) (\<lambda>creds.
              bind_res (NewWithOptions env DefaultPolicies limiter (scGeoIPURL cfg) (scTrustedProxies cfg) (scClientIPHeaders cfg) True
                         (msLabelConfigs settings) (TokenConfigsFromPermissions (msAPITokens settings)) s) (\<lambda>w.
              Inr (w, creds))))))"

text \<open>The start without a database.\<close>

definition start_in_memory ::
  "henv \<Rightarrow> (string \<Rightarrow> string res) \<Rightarrow> (string \<Rightarrow> string \<Rightarrow> 'c res) \<Rightarrow> server_config \<Rightarrow> nat \<Rightarrow> time \<Rightarrow> ('b World \<times> 'c credentials) res" where
  "start_in_memory env readFile loadPair cfg n now =
     (let (m, n1) = NewMemory (heUUID env) n now; (_, n2, err) = GetManagedSettings (heUUID env) n1 m
      in case err of Some e \<Rightarrow> Inl e | None \<Rightarrow> start_server env readFile loadPair cfg n2 m)"


section \<open>What a started server is\<close>

lemma serverTLSConfig_ok:
  assumes "serverTLSConfig readFile loadPair ca cert key = Inr cfg"
  shows "tcfgMinVersion cfg = VersionTLS12 \<and> (ca \<noteq> [] \<longrightarrow> tcfgRequireClientCert cfg \<and> (\<exists>pool. loadPool readFile ca = Inr pool \<and> tcfgClientCAs cfg = Some pool))"
proof (cases "ca = []")
  case True
  with assms show ?thesis by (auto simp: serverTLSConfig_def bind_res_Inr Let_def)
next
  case False
  with assms obtain crt pool where "loadPool readFile ca = Inr pool"
    "cfg = \<lparr>tcfgCertificates = [crt], tcfgMinVersion = VersionTLS12, tcfgClientCAs = Some pool, tcfgRequireClientCert = True,
       tcfgRootCAs = None, tcfgInsecureSkipVerify = False, tcfgVerify = False\<rparr>"
    by (auto simp: serverTLSConfig_def bind_res_Inr Let_def)
  then show ?thesis by simp
qed

lemma ServerCredentials_enabled:
  assumes "ServerCredentials readFile loadPair ca cert key True = Inr c"
  shows "\<exists>cfg. c = Secured cfg \<and> serverTLSConfig readFile loadPair ca cert key = Inr cfg"
  using assms by (auto simp: ServerCredentials_def bind_res_Inr split: if_splits)

lemma ApplySettings_frame:
  "sysStore (ApplySettings env settings s) = sysStore s" "sysSent (ApplySettings env settings s) = sysSent s"
  "hbRunning (sysHub (ApplySettings env settings s)) = hbRunning (sysHub s)"
  by (simp_all add: ApplySettings_def Let_def case_prod_unfold)

lemma started:
  fixes w :: "'b World"
  assumes u: "uuid_ok (heUUID env)" and start: "start_server env readFile loadPair cfg n m = Inr (w, creds)"
  obtains settings n1 where
    "NormalizeManagedSettings (heUUID env) n (mSettings m) = (settings, n1, None)"
    "wStore w = m" "sysSent (wSys w) = []" "hbRunning (sysHub (wSys w)) = []"
    "hbPolicies (sysHub (wSys w)) = DefaultPolicies" "svPolicies (wServer w) = DefaultPolicies"
    "hbLabelConfigs (sysHub (wSys w)) = msLabelConfigs settings" "svLabelConfigs (wServer w) = msLabelConfigs settings"
    "hbRegisterTokens (sysHub (wSys w)) = normalizedRegisterTokens (msRegisterTokens settings)"
    "svRequireAuth (wServer w)" "svTokens (wServer w) = token_scopes (TokenConfigsFromPermissions (msAPITokens settings))"
    "ServerCredentials readFile loadPair (tlsCAFiles (scTLS cfg)) (tlsCertFile (scTLS cfg)) (tlsKeyFile (scTLS cfg)) (tlsEnabled (scTLS cfg)) = Inr creds"
proof -
  obtain settings n1 where g: "NormalizeManagedSettings (heUUID env) n (mSettings m) = (settings, n1, None)"
    using start by (auto simp: start_server_def GetManagedSettings_def split: prod.splits option.splits)
  let ?h = "NewHub DefaultPolicies (seconds (scAgentOfflineAfterSec (startup_scheduler settings)))
      (seconds (scPollIntervalSec (startup_scheduler settings))) (scMaxInflightPerAgent (startup_scheduler settings))"
  let ?s = "\<lparr>sysStore = m, sysHub = ?h, sysUUID = n1, sysSent = [], sysCanceled = [], sysNextSub = 0, sysLoops = [], sysNextLoop = 0\<rparr>"
  note lbl = normalized_labels [OF g]
  from start g obtain limiter where l:
    "ServerCredentials readFile loadPair (tlsCAFiles (scTLS cfg)) (tlsCertFile (scTLS cfg)) (tlsKeyFile (scTLS cfg)) (tlsEnabled (scTLS cfg)) = Inr creds"
    "NewWithOptions env DefaultPolicies limiter (scGeoIPURL cfg) (scTrustedProxies cfg) (scClientIPHeaders cfg) True
       (msLabelConfigs settings) (TokenConfigsFromPermissions (msAPITokens settings)) (ApplySettings env settings ?s) = Inr w"
    by (auto simp: start_server_def GetManagedSettings_def Let_def bind_res_Inr)
  have ne: "msLabelConfigs settings \<noteq> None" "msLabelConfigs settings \<noteq> Some []" using lbl by (auto simp: agent_label_ok_def split: option.splits)
  from l(2) ne agent_label_ok_normal [OF lbl] have w: "wSys w = ApplySettings env settings ?s" "svPolicies (wServer w) = DefaultPolicies"
    "svLabelConfigs (wServer w) = msLabelConfigs settings" "svRequireAuth (wServer w)"
    "svTokens (wServer w) = token_scopes (TokenConfigsFromPermissions (msAPITokens settings))"
    by (auto simp: NewWithOptions_def bind_res_Inr case_prod_unfold Let_def)
  note a = ApplySettings_normal [OF normalize_settings_stable [OF u g], of ?s] ApplySettings_frame [of env settings ?s]
  show thesis
    by (rule that [OF g]) (use w l(1) a in \<open>simp_all add: NewHub_def\<close>)
qed

lemma started_policies:
  fixes w :: "'b World"
  assumes "store_ok (wStore w)" "hbPolicies (sysHub (wSys w)) = svPolicies (wServer w)" "hbLabelConfigs (sysHub (wSys w)) = svLabelConfigs (wServer w)"
  shows "api_policiesForAgent agentID w = policiesForAgent agentID (wSys w)"
  unfolding api_policiesForAgent_eq [OF assms(1)] policiesForAgent_def settingsForAgent_def settingsForLabels_def policiesForLabels_def
  by (simp add: assms(2,3) Let_def)

lemma tls_enabled:
  assumes "ServerCredentials readFile loadPair ca cert key enabled = Inr creds" "enabled"
  shows "\<exists>tcfg. creds = Secured tcfg \<and> tcfgMinVersion tcfg = VersionTLS12
    \<and> (ca \<noteq> [] \<longrightarrow> tcfgRequireClientCert tcfg \<and> tcfgClientCAs tcfg \<noteq> None)"
proof -
  from assms obtain tcfg where c: "creds = Secured tcfg" "serverTLSConfig readFile loadPair ca cert key = Inr tcfg"
    using ServerCredentials_enabled [of readFile loadPair ca cert key creds] by auto
  from serverTLSConfig_ok [OF c(2)] c(1) show ?thesis by auto
qed

lemma runs_evolve:
  assumes u: "uuid_fresh (heUUID env)" and ok: "sys_ok env (wSys w)" and run: "(api_step env ae ops)\<^sup>*\<^sup>* w w'"
  shows "(vstep (heUUID env))\<^sup>*\<^sup>* (view (wSys w)) (view (wSys w')) \<and> sys_ok env (wSys w')"
proof -
  have "evolves env (wSys w) (wSys w')"
    using api_run_runs [OF u run] hub_run_evolves [OF u ok] by (simp add: runs_def)
  with evolves_ok(1) [OF u ok this] sys_okD(1) [OF ok] show ?thesis by (simp add: evolves_def)
qed


definition example_config :: server_config where
  "example_config =
     \<lparr>scHTTPAddr = '':8080'', scGRPCAddr = '':8443'', scLogLevel = [], scDatabaseURL = [], scGeoIPURL = [], scTrustedProxies = [],
      scClientIPHeaders = [], scTLS = \<lparr>tlsEnabled = True, tlsCAFiles = [''ca''], tlsCertFile = ''c'', tlsKeyFile = ''k''\<rparr>\<rparr>"


end
