(* ===== verification/Spec2Isabelle.thy ===== *)
theory Spec2Isabelle
  imports Targets StoreFacts RateLimit HubClaims HubHandlers HubTimeouts HTTPClaims ClientIP ApiClaims ApiStreams
    AgentSafety SqlClaims ServerProgram
begin

text \<open>
  Verification of \<^verbatim>\<open>ztelliot/mtr\<close>, a looking-glass service: a server takes requests for network probes
  (ping, traceroute, MTR, HTTP, DNS, port) over a REST API, stores them as jobs, dispatches them to agents and streams the
  results back.

  The program and its parts. Requests enter the API server (\<^verbatim>\<open>internal/api\<close>), which finds the address of the
  client, limits the rate, finds the token, checks the request against the policy and the scope of the token, and stores
  jobs. The store (\<^verbatim>\<open>internal/store\<close>) is in memory, SQLite or PostgreSQL. The hub (\<^verbatim>\<open>internal/scheduler\<close>) claims
  queued jobs and sends them to agents, over streams that the agents open or over HTTP to agents it calls; it decodes what they
  report, ends jobs that fail or run too long, completes the parents of fan-outs, and creates the runs of schedules. The
  agent (\<^verbatim>\<open>cmd/agent\<close>, \<^verbatim>\<open>internal/runner\<close>) checks its target again, runs the tool and reports. All of
  them work under managed settings (\<^verbatim>\<open>internal/config\<close>) that narrow the policies (\<^verbatim>\<open>internal/policy\<close>) by the
  labels of agents.

  Theories and code.
  \<^item> \<open>Prelude\<close>: 64-bit integers that wrap, strings, Go's maps as association lists, errors as values (\<open>error + 'a\<close>), and
    the locales for keyed maps, listings and transition systems.
  \<^item> \<open>Model\<close>: \<^verbatim>\<open>internal/model/model.go\<close>. \<open>Config\<close> and \<open>Loading\<close>: \<^verbatim>\<open>internal/config/config.go\<close>.
    \<open>NetAddr\<close>: the addresses of \<^verbatim>\<open>net\<close> and \<^verbatim>\<open>net/netip\<close> that the program uses.
  \<^item> \<open>Policy\<close>, \<open>Targets\<close>: \<^verbatim>\<open>internal/policy/policy.go\<close>. \<open>Labels\<close>, \<open>Wire\<close>, \<open>Schedule\<close>, \<open>Hub\<close>:
    \<^verbatim>\<open>internal/scheduler/hub.go\<close>. \<open>HTTPAgents\<close>: \<^verbatim>\<open>http_agent.go\<close>. \<open>RateLimit\<close>:
    \<^verbatim>\<open>internal/abuse/ratelimit.go\<close>.
  \<^item> \<open>Store\<close>, \<open>StoreFacts\<close>: \<^verbatim>\<open>internal/store/memory.go\<close>. \<open>SqlStore\<close>: \<^verbatim>\<open>sqlite.go\<close>; \<open>Postgres\<close>:
    \<^verbatim>\<open>postgres.go\<close>; \<open>SqlRefine\<close>, \<open>SqlSteps\<close>, \<open>SqlClaims\<close> relate them to the in-memory store.
  \<^item> \<open>ClientIP\<close>, \<open>ApiAuth\<close>, \<open>ApiJobs\<close>, \<open>ApiSchedules\<close>, \<open>ApiManage\<close>, \<open>ApiStream\<close>, \<open>ApiRouter\<close>: the files of
    \<^verbatim>\<open>internal/api\<close>.
  \<^item> \<open>Runner\<close>: \<^verbatim>\<open>internal/runner\<close>. \<open>AgentProgram\<close>: \<^verbatim>\<open>cmd/agent/main.go\<close>. \<open>ServerProgram\<close>:
    \<^verbatim>\<open>cmd/server/main.go\<close> and \<^verbatim>\<open>internal/tlsutil/tls.go\<close>.

  State and operations. A struct is a record, a map an association list without duplicate keys, a pointer an option. The
  system of the hub is the record \<open>Sys\<close> (store, hub, UUIDs drawn, messages sent), the server with it \<open>World\<close>. A handler is a
  function from the state, the time it reads and its input to its answer and the new state, with the calls of the code in their
  order. \<open>Sys\<close> contains the in-memory store; the SQL stores answer its calls in the same way as far as the calls are
  admissible. Interleaving is at the granularity of handlers: \<open>hub_step\<close> and \<open>api_step\<close> take one handler, or for
  streams and agent loops one iteration, as one step; data races inside a handler are not represented.

  The abstract specification. \<open>JobLife\<close> states the life cycle of a job as the relation \<open>vstep\<close> on a \<open>View\<close> of the system, with an
  invariant. \<open>HubFacts\<close>, \<open>HTTPFacts\<close> and \<open>HubSystem\<close> prove that each handler of the hub refines it, \<open>ApiFacts\<close>
  and \<open>ApiSystem\<close> that each request does, so runs of the whole program do, from the start of the server on.

  What the claims show. Jobs: the life cycle, at most one dispatch, the end of every job an agent takes or
  that runs too long, results by the owner only, fan-outs, limits on jobs in flight.
  Permission: what is created and dispatched is allowed by policies, labels and tokens, agents are admitted by
  token, and no target that server or agent have resolved is an address of the refused ranges. The wire: what an agent sends is
  well-formed and decodes to what it was, hidden hops stay hidden, an event is delivered once.
  Tools: reports agree with the probes that were sent. Schedules: the exact runs, and clocks that
  advance. Stores: the invariant, histories, the refinement of the SQL stores, settings read back.
  Limits, addresses and settings: bursts of clients and timeouts of jobs are bounded, addresses of
  clients cannot be forged, calls are repeated safely, agents serve callers with their token, files
  have precedence over the environment. Each claim with a hypothesis is followed by its application
  to a concrete input.

  Interfaces. \<open>keyed_map\<close>, \<open>listing\<close> and \<open>transition_system\<close> are the contracts of maps, of listing methods and of invariants;
  \<open>rule_language\<close> that of the argument rules, with port ranges and lists as its instances; \<open>unmanaged\<close> that of a part of the store which
  requests for management leave alone; \<open>refined_store\<close> that of a store behind the calls of another. Each is interpreted on the
  definitions of the model.

  Bounds and termination. Every loop of the code is a recursion on its data, on the number of rounds it is given
  (probes, hops, cycles, attempts: \<open>call_attempts\<close> recurses with the measure of the attempts left) or on a string that gets
  shorter. No definition has fuel. Loops that serve for ever (hub, agent sessions, streams) are steps of a transition
  system, one round a step. Counters and durations keep the width of Go's integers where they can overflow (\<open>wrap64\<close>); JSON numbers are rational.

  Parameters. Outside code is an argument of the definitions: UUIDs, SHA-256, the resolver, the URL and YAML parsers, layouts
  of times, the token bucket of \<^verbatim>\<open>golang.org/x/time/rate\<close>, sockets, the ICMP parser and the HTTP client of the
  tools, replies of HTTP agents, key pairs and certificate checks. What is assumed of them is a named hypothesis
  (\<open>uuid_ok\<close>, \<open>uuid_fresh\<close>, \<open>bucket_law\<close>, \<open>decodes_types\<close>).

  Not modelled. The web front end; flags, signals, listeners, logging and shutdown of the two programs; the text of
  JSON and YAML (values are modelled, with what omitted fields do where it matters) and the registration of the gRPC codec
  and stubs; CORS headers; the building of HTTP clients and URLs; inside the databases everything but the statements and the keys they
  check, so no failures of connections and no concurrent transactions.
\<close>

end
